(* ===== verification/Prelude.thy ===== *)
theory Prelude
  imports Main "HOL-Library.Sublist" "HOL-Library.AList" "HOL-Library.Multiset" "HOL-Library.List_Lexorder"
    "HOL-Library.Char_ord" "HOL-Library.Word"
begin

text \<open>
  Shared vocabulary of the development: the string operations of Rust's standard library
  that the code under \<open>crates/takuto-core\<close> uses, the result type of fallible operations,
  and generic facts on lists, options and association lists.

  A Rust \<open>String\<close> is its UTF-8 byte sequence, a HOL \<^typ>\<open>string\<close> (a \<^typ>\<open>char\<close> is a
  byte); \<open>len()\<close> is \<^const>\<open>length\<close>.
\<close>

named_theorems frame_simps
  \<open>what an engine operation leaves unchanged\<close>
named_theorems state_intros
  \<open>introduction rules for the well-formedness invariants\<close>

subsection \<open>White space and trimming\<close>

text \<open>
  \<open>str::trim\<close> removes code points with the Unicode property White_Space. As UTF-8 these
  are the ASCII bytes 9 to 13 and 32, the two-byte sequences C2 85 and C2 A0, and the
  three-byte sequences E1 9A 80, E2 80 80 to E2 80 8A, E2 80 A8, E2 80 A9, E2 80 AF,
  E2 81 9F and E3 80 80.
\<close>

definition ascii_ws :: "char \<Rightarrow> bool" where
  "ascii_ws c \<longleftrightarrow> (let n = (of_char c :: nat) in n = 32 \<or> (9 \<le> n \<and> n \<le> 13))"

definition ws2 :: "char \<Rightarrow> char \<Rightarrow> bool" where
  "ws2 c d \<longleftrightarrow> (of_char c :: nat) = 194 \<and> ((of_char d :: nat) = 133 \<or> (of_char d :: nat) = 160)"

definition ws3 :: "char \<Rightarrow> char \<Rightarrow> char \<Rightarrow> bool" where
  "ws3 c d e \<longleftrightarrow>
     (let x = (of_char c :: nat); y = (of_char d :: nat); z = (of_char e :: nat) in
        (x = 225 \<and> y = 154 \<and> z = 128)
      \<or> (x = 226 \<and> y = 128 \<and> (128 \<le> z \<and> z \<le> 138 \<or> z = 168 \<or> z = 169 \<or> z = 175))
      \<or> (x = 226 \<and> y = 129 \<and> z = 159)
      \<or> (x = 227 \<and> y = 128 \<and> z = 128))"

fun trim_start :: "string \<Rightarrow> string" where
  "trim_start (c # d # e # s) =
     (if ascii_ws c then trim_start (d # e # s)
      else if ws2 c d then trim_start (e # s)
      else if ws3 c d e then trim_start s
      else c # d # e # s)"
| "trim_start [c, d] = (if ascii_ws c then trim_start [d] else if ws2 c d then [] else [c, d])"
| "trim_start [c] = (if ascii_ws c then [] else [c])"
| "trim_start [] = []"

text \<open>The same from the right end, on the reversed byte sequence.\<close>

fun trim_rev :: "string \<Rightarrow> string" where
  "trim_rev (e # d # c # s) =
     (if ascii_ws e then trim_rev (d # c # s)
      else if ws2 d e then trim_rev (c # s)
      else if ws3 c d e then trim_rev s
      else e # d # c # s)"
| "trim_rev [e, d] = (if ascii_ws e then trim_rev [d] else if ws2 d e then [] else [e, d])"
| "trim_rev [e] = (if ascii_ws e then [] else [e])"
| "trim_rev [] = []"

definition trim_end :: "string \<Rightarrow> string" where
  "trim_end s = rev (trim_rev (rev s))"

definition trim :: "string \<Rightarrow> string" where
  "trim s = trim_end (trim_start s)"

lemma trim_Nil [simp]: "trim [] = []"
  by (simp add: trim_def trim_end_def)

lemma length_trim_start: "length (trim_start s) \<le> length s"
  by (induction s rule: trim_start.induct) auto

lemma length_trim_rev: "length (trim_rev s) \<le> length s"
  by (induction s rule: trim_rev.induct) auto

lemma length_trim: "length (trim s) \<le> length s"
  unfolding trim_def trim_end_def
  using length_trim_start [of s] length_trim_rev [of "rev (trim_start s)"] by simp

subsection \<open>Substrings and lines\<close>

definition starts_with :: "string \<Rightarrow> string \<Rightarrow> bool" where
  "starts_with p s \<longleftrightarrow> prefix p s"

definition strip_prefix :: "string \<Rightarrow> string \<Rightarrow> string option" where
  "strip_prefix p s = (if prefix p s then Some (drop (length p) s) else None)"

fun str_contains :: "string \<Rightarrow> string \<Rightarrow> bool" where
  "str_contains p [] = (p = [])"
| "str_contains p (c # s) = (prefix p (c # s) \<or> str_contains p s)"

lemma strip_prefix_Some: "strip_prefix p s = Some r \<longleftrightarrow> s = p @ r"
  by (auto simp: strip_prefix_def prefix_def)

lemma str_contains_iff: "str_contains p s \<longleftrightarrow> sublist p s"
  by (induction s) (auto simp: sublist_Cons_right)

text \<open>The segments of \<open>s\<close> between separators: \<open>split(sep)\<close>, always at least one.\<close>

fun split_on :: "char \<Rightarrow> string \<Rightarrow> string list" where
  "split_on x [] = [[]]"
| "split_on x (c # s) =
     (if c = x then [] # split_on x s
      else (case split_on x s of [] \<Rightarrow> [[c]] | w # ws \<Rightarrow> (c # w) # ws))"

definition newline :: char where "newline = CHR 0x0A"

definition strip_cr :: "string \<Rightarrow> string" where
  "strip_cr l = (if l \<noteq> [] \<and> last l = CHR 0x0D then butlast l else l)"

text \<open>
  \<open>str::lines\<close>: split at line feeds, without a last empty line; a carriage return before
  the line feed belongs to the line ending, one at the end of the text with no line feed
  does not.
\<close>

definition lines :: "string \<Rightarrow> string list" where
  "lines s = (let ws = split_on newline s in
     map strip_cr (butlast ws) @ (if last ws = [] then [] else [last ws]))"

lemma split_on_nonempty [simp]: "split_on x s \<noteq> []"
  by (induction s) (auto split: list.splits)

text \<open>\<open>join(sep)\<close> of a slice of strings.\<close>

fun join :: "string \<Rightarrow> string list \<Rightarrow> string" where
  "join sep [] = []"
| "join sep [w] = w"
| "join sep (w # ws) = w @ sep @ join sep ws"

definition to_ascii_lowercase :: "string \<Rightarrow> string" where
  "to_ascii_lowercase = List.map (\<lambda>c. let n = (of_char c :: nat) in
     if 65 \<le> n \<and> n \<le> 90 then char_of (n + 32) else c)"

definition is_ascii_digit :: "char \<Rightarrow> bool" where
  "is_ascii_digit c \<longleftrightarrow> (let n = (of_char c :: nat) in 48 \<le> n \<and> n \<le> 57)"

text \<open>Decimal printing of an unsigned integer (\<open>to_string\<close>, \<open>{}\<close> in a format string).\<close>

fun show_nat :: "nat \<Rightarrow> string" where
  "show_nat n = (if n < 10 then [char_of (48 + n)]
                 else show_nat (n div 10) @ [char_of (48 + n mod 10)])"

declare show_nat.simps [simp del]

definition show_int :: "int \<Rightarrow> string" where
  "show_int i = (if i < 0 then ''-'' @ show_nat (nat (- i)) else show_nat (nat i))"

text \<open>
  Well-formed UTF-8 (\<open>str::from_utf8\<close>, \<open>OsStr::to_str\<close>): no overlong form, no surrogate, nothing
  above U+10FFFF.
\<close>

definition cont_byte :: "char \<Rightarrow> bool" where
  "cont_byte c \<longleftrightarrow> (let n = (of_char c :: nat) in 128 \<le> n \<and> n \<le> 191)"

definition second_ok :: "nat \<Rightarrow> nat \<Rightarrow> bool" where
  "second_ok lead n \<longleftrightarrow>
     (if lead = 224 then 160 \<le> n else if lead = 240 then 144 \<le> n else 128 \<le> n) \<and>
     (if lead = 237 then n \<le> 159 else if lead = 244 then n \<le> 143 else n \<le> 191)"

fun utf8_valid :: "string \<Rightarrow> bool" where
  "utf8_valid [] = True"
| "utf8_valid (c # s) =
     (let n = (of_char c :: nat) in
      if n < 128 then utf8_valid s
      else if n < 194 \<or> 244 < n then False
      else (case s of
              [] \<Rightarrow> False
            | d # s2 \<Rightarrow>
                second_ok n (of_char d) \<and>
                (if n < 224 then utf8_valid s2
                 else (case s2 of
                         [] \<Rightarrow> False
                       | e # s3 \<Rightarrow>
                           cont_byte e \<and>
                           (if n < 240 then utf8_valid s3
                            else (case s3 of
                                    [] \<Rightarrow> False
                                  | f # s4 \<Rightarrow> cont_byte f \<and> utf8_valid s4))))))"

text \<open>An argument between apostrophes in a message: \<open>'{}'\<close>.\<close>

definition quoted :: "string \<Rightarrow> string" where
  "quoted s = [CHR 0x27] @ s @ [CHR 0x27]"

text \<open>Characters outside ASCII that occur in the texts of the program.\<close>

definition em_dash :: string where
  "em_dash = [CHR 0xE2, CHR 0x80, CHR 0x94]"

definition right_arrow :: string where
  "right_arrow = [CHR 0xE2, CHR 0x86, CHR 0x92]"

definition middle_dot :: string where
  "middle_dot = [CHR 0xC2, CHR 0xB7]"

definition ellipsis :: string where
  "ellipsis = [CHR 0xE2, CHR 0x80, CHR 0xA6]"

subsection \<open>Generic facts\<close>

lemma map_of_update [simp]: "map_of (AList.update k v al) = (map_of al)(k \<mapsto> v)"
  by (rule ext) (simp add: update_conv)

lemma fold_invariant:
  assumes "I s" and "\<And>x s. x \<in> set xs \<Longrightarrow> I s \<Longrightarrow> I (f x s)"
  shows "I (fold f xs s)"
  using assms by (induction xs arbitrary: s) auto

lemma find_SomeD: "List.find P xs = Some x \<Longrightarrow> x \<in> set xs \<and> P x"
  by (induction xs) (auto split: if_splits)

text \<open>Collecting pairs into a map: a later pair replaces an earlier one with its key.\<close>

definition collect_map :: "('k \<times> 'v) list \<Rightarrow> ('k \<times> 'v) list" where
  "collect_map kvs = fold (\<lambda>(k, v). AList.update k v) kvs []"

lemma map_of_fold_update:
  "map_of (fold (\<lambda>(k, v). AList.update k v) kvs al) = map_of al ++ map_of (rev kvs)"
  by (induction kvs arbitrary: al) (auto simp: map_add_def fun_eq_iff split: option.splits)

lemma map_of_collect_map: "map_of (collect_map kvs) = map_of (rev kvs)"
  by (simp add: collect_map_def map_of_fold_update)

lemma distinct_keys_collect_map: "distinct (List.map fst (collect_map kvs))"
  unfolding collect_map_def by (rule fold_invariant) (auto simp: distinct_update)

lemma collect_map_Some:
  "distinct (List.map fst kvs) \<Longrightarrow> map_of (collect_map kvs) k = Some v \<longleftrightarrow> (k, v) \<in> set kvs"
  by (simp add: map_of_collect_map rev_map [symmetric])

lemma dom_collect_map: "dom (map_of (collect_map kvs)) = fst ` set kvs"
  by (simp add: map_of_collect_map dom_map_of_conv_image_fst)

text \<open>\<open>Iterator::position\<close> and \<open>Vec::remove\<close>.\<close>

fun position :: "('a \<Rightarrow> bool) \<Rightarrow> 'a list \<Rightarrow> nat option" where
  "position P [] = None"
| "position P (x # xs) = (if P x then Some 0 else map_option Suc (position P xs))"

definition remove_at :: "nat \<Rightarrow> 'a list \<Rightarrow> 'a list" where
  "remove_at i xs = take i xs @ drop (Suc i) xs"

lemma position_None: "position P xs = None \<longleftrightarrow> (\<forall>x \<in> set xs. \<not> P x)"
  by (induction xs) auto

lemma position_Some:
  "position P xs = Some i \<Longrightarrow> i < length xs \<and> P (xs ! i) \<and> (\<forall>j < i. \<not> P (xs ! j))"
  by (induction xs arbitrary: i) (auto simp: less_Suc_eq_0_disj split: if_splits)

lemma length_remove_at: "i < length xs \<Longrightarrow> length (remove_at i xs) = length xs - 1"
  by (simp add: remove_at_def)

lemma remove_at_split: "i < length xs \<Longrightarrow> xs = take i xs @ [xs ! i] @ drop (Suc i) xs"
  by (simp add: Cons_nth_drop_Suc)

lemma mset_remove_at: "i < length xs \<Longrightarrow> add_mset (xs ! i) (mset (remove_at i xs)) = mset xs"
  by (metis (no_types) append_Cons append_Nil mset.simps(2) mset_append remove_at_def
      remove_at_split union_mset_add_mset_left union_mset_add_mset_right)

text \<open>Sequencing of checks: the first error is the result.\<close>

lemma first_error_None [simp]:
  "(case x of None \<Rightarrow> y | Some e \<Rightarrow> Some e) = None \<longleftrightarrow> x = None \<and> y = None"
  by (cases x) auto

lemma sum_bind_Inr [simp]:
  "(case x of Inl e \<Rightarrow> Inl e | Inr y \<Rightarrow> f y) = Inr z \<longleftrightarrow> (\<exists>y. x = Inr y \<and> f y = Inr z)"
  by (cases x) auto

lemma check_then_Inr [simp]:
  "(case x of None \<Rightarrow> y | Some e \<Rightarrow> Inl (g e)) = Inr z \<longleftrightarrow> x = None \<and> y = Inr z"
  by (cases x) auto

lemma mem_map_filter: "x \<in> set (List.map_filter f xs) \<longleftrightarrow> (\<exists>y \<in> set xs. f y = Some x)"
  by (induction xs) (auto simp: List.map_filter_simps split: option.splits)

end
