(* ===== verification/Workflow_State.thy ===== *)
theory Workflow_State
  imports Prelude
begin

text \<open>
  \<open>workflow/state.rs\<close>, \<open>workflow/step.rs\<close> and the run state of \<open>workflow/definitions.rs\<close>:
  the state of a work item, of one logged step and of one flow run. A \<open>DateTime<Utc>\<close> is
  its nanoseconds since the epoch; every reading of the clock is an argument of the
  operation that makes it.
\<close>

type_synonym time = int
type_synonym u8 = "8 word"
type_synonym u32 = "32 word"

definition timestamp :: "time \<Rightarrow> int" where
  "timestamp t = t div 1000000000"

subsection \<open>WorkflowState\<close>

datatype workflow_state =
    Pending
  | Assigning
  | RetrievingDetails
  | CreatingWorktree
  | AddressingTicket u8
  | AddressingPrComments u8
  | MergingBaseBranch u8
  | Reviewing
  | CreatingPR
  | Done
  | Error workflow_state string
  | Paused workflow_state
  | Stopped

fun display_name :: "workflow_state \<Rightarrow> string" where
  "display_name Pending = ''Pending''"
| "display_name Assigning = ''Assigning Ticket''"
| "display_name RetrievingDetails = ''Retrieving Details''"
| "display_name CreatingWorktree = ''Creating Worktree''"
| "display_name (AddressingTicket _) = ''Running agent steps''"
| "display_name (AddressingPrComments _) = ''Addressing PR comments''"
| "display_name (MergingBaseBranch _) = ''Merging base branch''"
| "display_name Reviewing = ''Reviewing Changes''"
| "display_name CreatingPR = ''Creating PR''"
| "display_name Done = ''Done''"
| "display_name (Error _ message) = ''Error: '' @ message"
| "display_name (Paused _) = ''Paused''"
| "display_name Stopped = ''Stopped''"

definition is_paused :: "workflow_state \<Rightarrow> bool" where
  "is_paused s = (case s of Paused _ \<Rightarrow> True | _ \<Rightarrow> False)"

definition is_error :: "workflow_state \<Rightarrow> bool" where
  "is_error s = (case s of Error _ _ \<Rightarrow> True | _ \<Rightarrow> False)"

definition is_terminal :: "workflow_state \<Rightarrow> bool" where
  "is_terminal s = (case s of Done \<Rightarrow> True | Stopped \<Rightarrow> True | Error _ _ \<Rightarrow> True | _ \<Rightarrow> False)"

definition is_active :: "workflow_state \<Rightarrow> bool" where
  "is_active s \<longleftrightarrow> \<not> is_terminal s \<and> \<not> (is_paused s \<or> is_error s)"

definition occupies_concurrency_slot :: "workflow_state \<Rightarrow> bool" where
  "occupies_concurrency_slot s =
     (\<not> (case s of Done \<Rightarrow> True | Stopped \<Rightarrow> True | Error _ _ \<Rightarrow> True | _ \<Rightarrow> False))"

lemma occupies_iff: "occupies_concurrency_slot s \<longleftrightarrow> \<not> is_terminal s"
  by (simp add: occupies_concurrency_slot_def is_terminal_def)

text \<open>Every state is exactly one of terminal, paused and active.\<close>

lemma state_trichotomy:
  "is_terminal s \<or> is_paused s \<or> is_active s"
  "\<not> (is_terminal s \<and> is_paused s)" "\<not> (is_terminal s \<and> is_active s)"
  "\<not> (is_paused s \<and> is_active s)"
  by (cases s; simp add: is_terminal_def is_paused_def is_active_def is_error_def)+

lemma is_active_iff: "is_active s \<longleftrightarrow> \<not> is_terminal s \<and> \<not> is_paused s"
  using state_trichotomy [of s] by (auto simp: is_active_def)

lemma is_paused_iff: "is_paused s \<longleftrightarrow> (\<exists>u. s = Paused u)"
  by (cases s) (simp_all add: is_paused_def)

lemma is_terminal_simps [simp]:
  "is_terminal Done" "is_terminal Stopped" "is_terminal (Error s m)"
  "\<not> is_terminal (Paused s)" "\<not> is_terminal Pending" "\<not> is_terminal (AddressingTicket p)"
  "\<not> is_terminal Assigning" "\<not> is_terminal RetrievingDetails" "\<not> is_terminal CreatingWorktree"
  by (simp_all add: is_terminal_def)

lemma is_paused_simps [simp]:
  "is_paused (Paused s)" "\<not> is_paused Pending" "\<not> is_paused Done" "\<not> is_paused Stopped"
  "\<not> is_paused (Error s m)" "\<not> is_paused (AddressingTicket p)"
  "\<not> is_paused Assigning" "\<not> is_paused RetrievingDetails" "\<not> is_paused CreatingWorktree"
  by (simp_all add: is_paused_def)

text \<open>
  The shape the engine keeps: what a \<open>Paused\<close> state wraps was active when it was paused,
  and what an \<open>Error\<close> wraps was not terminal.
\<close>

fun state_ok :: "workflow_state \<Rightarrow> bool" where
  "state_ok (Paused s) = (is_active s \<and> state_ok s)"
| "state_ok (Error s _) = (\<not> is_terminal s \<and> state_ok s)"
| "state_ok _ = True"

text \<open>
  Well-formed states nest at most two wrappers: an active state, paused, in error.
\<close>

fun nesting :: "workflow_state \<Rightarrow> nat" where
  "nesting (Paused s) = Suc (nesting s)"
| "nesting (Error s _) = Suc (nesting s)"
| "nesting _ = 0"

lemma nesting_active: "is_active s \<Longrightarrow> nesting s = 0"
  by (cases s) (simp_all add: is_active_iff)

lemma nesting_nonterminal: "state_ok s \<Longrightarrow> \<not> is_terminal s \<Longrightarrow> nesting s \<le> 1"
  by (cases s) (simp_all add: nesting_active)

lemma state_ok_nesting: "state_ok s \<Longrightarrow> nesting s \<le> 2"
  by (cases s) (use nesting_active nesting_nonterminal in fastforce)+

subsection \<open>StepStatus and StepLog\<close>

datatype step_status = Running | Success | Failed | Skipped

record step_log =
  sl_step_name :: string
  sl_started_at :: time
  sl_completed_at :: "time option"
  sl_status :: step_status
  sl_output :: "string list"
  sl_error :: "string option"
  sl_bootstrap :: bool

definition step_log_new :: "time \<Rightarrow> string \<Rightarrow> step_log" where
  "step_log_new now step_name =
     \<lparr>sl_step_name = step_name, sl_started_at = now, sl_completed_at = None,
      sl_status = Running, sl_output = [], sl_error = None, sl_bootstrap = False\<rparr>"

definition step_log_bootstrap :: "time \<Rightarrow> string \<Rightarrow> step_log" where
  "step_log_bootstrap now step_name = (step_log_new now step_name)\<lparr>sl_bootstrap := True\<rparr>"

definition step_log_complete :: "time \<Rightarrow> step_status \<Rightarrow> step_log \<Rightarrow> step_log" where
  "step_log_complete now st l = l\<lparr>sl_completed_at := Some now, sl_status := st\<rparr>"

definition step_log_fail :: "time \<Rightarrow> string \<Rightarrow> step_log \<Rightarrow> step_log" where
  "step_log_fail now e l =
     l\<lparr>sl_completed_at := Some now, sl_status := Failed, sl_error := Some e\<rparr>"

definition step_log_push :: "string \<Rightarrow> step_log \<Rightarrow> step_log" where
  "step_log_push line l = l\<lparr>sl_output := sl_output l @ [line]\<rparr>"

text \<open>
  What every logged entry satisfies: a running entry has not ended, an ended one has, and
  only a failed one carries an error.
\<close>

definition step_log_ok :: "step_log \<Rightarrow> bool" where
  "step_log_ok l \<longleftrightarrow>
     (sl_status l = Running \<longleftrightarrow> sl_completed_at l = None) \<and>
     (sl_error l \<noteq> None \<longrightarrow> sl_status l = Failed)"

lemma step_log_ok_new [state_intros]:
  "step_log_ok (step_log_new now n)" "step_log_ok (step_log_bootstrap now n)"
  by (simp_all add: step_log_ok_def step_log_new_def step_log_bootstrap_def)

lemma step_log_ok_push [state_intros]: "step_log_ok l \<Longrightarrow> step_log_ok (step_log_push x l)"
  by (simp add: step_log_ok_def step_log_push_def)

lemma step_log_ok_fail [state_intros]: "step_log_ok (step_log_fail now e l)"
  by (simp add: step_log_ok_def step_log_fail_def)

lemma step_log_ok_complete [state_intros]:
  "step_log_ok l \<Longrightarrow> sl_status l = Running \<Longrightarrow> st \<noteq> Running \<Longrightarrow>
   step_log_ok (step_log_complete now st l)"
  by (auto simp: step_log_ok_def step_log_complete_def)

subsection \<open>WorkflowDefRunState\<close>

datatype def_run_state = RunIdle | RunRunning | RunCompleted | RunError string

definition run_is_completed :: "def_run_state \<Rightarrow> bool" where
  "run_is_completed s = (s = RunCompleted)"

fun run_display_name :: "def_run_state \<Rightarrow> string" where
  "run_display_name RunIdle = ''idle''"
| "run_display_name RunRunning = ''running''"
| "run_display_name RunCompleted = ''completed''"
| "run_display_name (RunError _) = ''error''"

end
