(* ===== verification/Dep_Graph.thy ===== *)
theory Dep_Graph
  imports Workflow_State "HOL-Library.Multiset"
begin

text \<open>
  The three-colour depth-first search of \<open>workflow/definitions.rs\<close> (\<open>detect_cycles\<close> and its
  inner \<open>dfs\<close>), which \<open>validate_dependencies\<close> runs over the dependency map of the valid
  workflow definitions. A \<open>HashMap\<close> is an association list; the order in which its keys are
  iterated is an argument. The set of marked names is threaded through the search as the
  code does, the colours are looked up as the code does: a name that is no key has no
  colour, and \<open>paint\<close> (\<open>get_mut\<close>) leaves it so.

  Shown: the search ends (the number of white nodes falls), every marked name lies on a
  cycle, and no cycle is left among the unmarked names.
\<close>

datatype color = White | Gray | Black

type_synonym dep_map = "(string \<times> string list) list"
type_synonym colors = "(string \<times> color) list"

definition paint :: "string \<Rightarrow> color \<Rightarrow> colors \<Rightarrow> colors" where
  "paint node c cs = (if map_of cs node = None then cs else AList.update node c cs)"

definition path_from :: "string \<Rightarrow> string list \<Rightarrow> string list" where
  "path_from dep path = (if dep \<in> set path then dropWhile (\<lambda>n. n \<noteq> dep) path else path)"

function dfs :: "dep_map \<Rightarrow> string \<Rightarrow> colors \<Rightarrow> string list \<Rightarrow> string set \<Rightarrow> colors \<times> string set"
  and dfs_deps :: "dep_map \<Rightarrow> string list \<Rightarrow> colors \<Rightarrow> string list \<Rightarrow> string set \<Rightarrow> colors \<times> string set"
where
  "dfs m node cs path cyc =
     (case (case map_of m node of
              None \<Rightarrow> (paint node Gray cs, cyc)
            | Some deps \<Rightarrow> dfs_deps m deps (paint node Gray cs) (path @ [node]) cyc)
      of (cs', cyc') \<Rightarrow> (paint node Black cs', cyc'))"
| "dfs_deps m [] cs path cyc = (cs, cyc)"
| "dfs_deps m (dep # deps) cs path cyc =
     (case map_of cs dep of
        Some Gray \<Rightarrow> dfs_deps m deps cs path (cyc \<union> set (path_from dep path))
      | Some White \<Rightarrow>
          (case dfs m dep cs path cyc of (cs', cyc') \<Rightarrow> dfs_deps m deps cs' path cyc')
      | _ \<Rightarrow> dfs_deps m deps cs path cyc)"
  by pat_completeness auto

definition whites :: "colors \<Rightarrow> string set" where
  "whites cs = {n. map_of cs n = Some White}"

lemma finite_whites [simp]: "finite (whites cs)"
  by (rule finite_subset [of _ "fst ` set cs"])
    (auto simp: whites_def dest: map_of_SomeD intro: rev_image_eqI)

lemma map_of_paint:
  "map_of (paint n c cs) = (if map_of cs n = None then map_of cs else (map_of cs)(n \<mapsto> c))"
  by (simp add: paint_def)

lemma whites_paint: "c \<noteq> White \<Longrightarrow> whites (paint n c cs) = whites cs - {n}"
  by (auto simp: whites_def map_of_paint split: if_splits)

lemma dfs_whites:
  "dfs_dfs_deps_dom (Inl (m, node, cs, path, cyc)) \<Longrightarrow>
     whites (fst (dfs m node cs path cyc)) \<subseteq> whites cs - {node}"
  "dfs_dfs_deps_dom (Inr (m, deps, cs, path, cyc)) \<Longrightarrow>
     whites (fst (dfs_deps m deps cs path cyc)) \<subseteq> whites cs"
proof (induct m node cs path cyc and m deps cs path cyc rule: dfs_dfs_deps.pinduct)
  case (1 m node cs path cyc)
  then show ?case
    by (fastforce simp: dfs.psimps whites_paint split: option.splits prod.splits)
next
  case (2 m cs path cyc)
  then show ?case by (simp add: dfs_deps.psimps)
next
  case (3 m dep deps cs path cyc)
  show ?case
  proof (cases "map_of cs dep = Some White")
    case True
    then show ?thesis using 3 by (fastforce simp: dfs_deps.psimps split: prod.splits)
  next
    case False
    then show ?thesis using 3 by (auto simp: dfs_deps.psimps split: option.splits color.splits)
  qed
qed

lemma card_whites_less:
  "map_of cs dep = Some White \<Longrightarrow> card (whites cs - {dep}) < card (whites cs)"
  by (intro psubset_card_mono finite_whites) (auto simp: whites_def)

lemma card_dfs_whites:
  "dfs_dfs_deps_dom (Inl (m, node, cs, path, cyc)) \<Longrightarrow>
     (cs', cyc') = dfs m node cs path cyc \<Longrightarrow> card (whites cs') \<le> card (whites cs)"
  using dfs_whites(1) [of m node cs path cyc]
  by (intro card_mono finite_whites) (metis Diff_subset dual_order.trans fst_conv)

termination dfs
proof (relation "measures
    [\<lambda>x. case x of Inl (m, node, cs, path, cyc) \<Rightarrow> card (whites cs - {node})
                 | Inr (m, deps, cs, path, cyc) \<Rightarrow> card (whites cs),
     \<lambda>x. case x of Inl _ \<Rightarrow> 1 | Inr _ \<Rightarrow> 0,
     \<lambda>x. case x of Inl _ \<Rightarrow> 0 | Inr (m, deps, cs, path, cyc) \<Rightarrow> length deps]", goal_cases)
  case 2 then show ?case by (simp add: whites_paint)
next
  case 4 then show ?case by (simp add: card_whites_less)
next
  case 5 then show ?case using card_dfs_whites by (simp add: le_less [symmetric])
qed simp_all

declare dfs.simps [simp del] dfs_deps.simps(2) [simp del]

definition edges :: "dep_map \<Rightarrow> (string \<times> string) set" where
  "edges m = {(a, b). \<exists>ds. map_of m a = Some ds \<and> b \<in> set ds}"

definition blacks :: "colors \<Rightarrow> string set" where
  "blacks cs = {n. map_of cs n = Some Black}"

definition grays :: "colors \<Rightarrow> string set" where
  "grays cs = {n. map_of cs n = Some Gray}"

definition on_cycle :: "dep_map \<Rightarrow> string set" where
  "on_cycle m = {n. (n, n) \<in> (edges m)\<^sup>+}"

subsection \<open>Soundness\<close>

lemma walk_trancl:
  "successively (\<lambda>a b. (a, b) \<in> E) (x # p) \<Longrightarrow> y \<in> set p \<Longrightarrow> (x, y) \<in> E\<^sup>+"
  by (induction p arbitrary: x) (auto intro: trancl_into_trancl2)

lemma walk_last:
  "successively (\<lambda>a b. (a, b) \<in> E) p \<Longrightarrow> y \<in> set p \<Longrightarrow> (y, last p) \<in> E\<^sup>*"
proof (induction p)
  case (Cons x p)
  show ?case
  proof (cases "p = []")
    case False
    then have "last p \<in> set p" by simp
    with Cons False show ?thesis
      by (auto simp: successively_Cons intro: walk_trancl [OF Cons.prems(1), THEN trancl_into_rtrancl])
  qed (use Cons in auto)
qed simp

lemma closed_walk:
  assumes "successively (\<lambda>a b. (a, b) \<in> E) p" and "p \<noteq> []" and "(last p, hd p) \<in> E"
    and "y \<in> set p"
  shows "(y, y) \<in> E\<^sup>+"
proof -
  have "(hd p, y) \<in> E\<^sup>*"
    using assms(1,2,4) by (cases p) (auto dest: walk_trancl)
  moreover have "(y, last p) \<in> E\<^sup>*" using assms by (blast intro: walk_last)
  ultimately show ?thesis using assms(3) by (meson rtrancl_into_trancl1 trancl_rtrancl_trancl)
qed

lemma path_from_on_cycle:
  assumes walk: "successively (\<lambda>a b. (a, b) \<in> edges m) path"
    and "dep \<in> set path" and "(last path, dep) \<in> edges m"
  shows "set (path_from dep path) \<subseteq> on_cycle m"
proof
  let ?p = "dropWhile (\<lambda>n. n \<noteq> dep) path"
  fix y assume "y \<in> set (path_from dep path)"
  then have y: "y \<in> set ?p" using assms(2) by (simp add: path_from_def)
  have split: "path = takeWhile (\<lambda>n. n \<noteq> dep) path @ ?p" by simp
  have ne: "?p \<noteq> []" using y by (metis empty_iff empty_set)
  have "hd ?p = dep" using hd_dropWhile [OF ne] by simp
  moreover have "last ?p = last path" using split ne by (metis last_append)
  moreover have "successively (\<lambda>a b. (a, b) \<in> edges m) ?p"
    using walk split by (metis successively_append_iff)
  ultimately show "y \<in> on_cycle m"
    using assms(3) ne y unfolding on_cycle_def by (auto intro: closed_walk)
qed

lemma last_path_from: "path \<noteq> [] \<Longrightarrow> last path \<in> set (path_from dep path)"
proof (cases "dep \<in> set path")
  case True
  let ?p = "dropWhile (\<lambda>n. n \<noteq> dep) path"
  have "?p \<noteq> []" using True by auto
  then have "last ?p \<in> set ?p" and "last ?p = last path"
    by (simp, metis takeWhile_dropWhile_id last_append)
  then show ?thesis using True by (simp add: path_from_def)
qed (simp add: path_from_def)

lemma grays_paint:
  "grays (paint n Gray cs) \<subseteq> insert n (grays cs)" "grays (paint n Black cs) = grays cs - {n}"
  by (auto simp: grays_def map_of_paint split: if_splits)

lemma dfs_sound:
  "grays cs \<subseteq> set path \<Longrightarrow> successively (\<lambda>a b. (a, b) \<in> edges m) (path @ [node]) \<Longrightarrow>
     cyc \<subseteq> on_cycle m \<Longrightarrow>
     grays (fst (dfs m node cs path cyc)) \<subseteq> set path \<and>
     snd (dfs m node cs path cyc) \<subseteq> on_cycle m"
  "grays cs \<subseteq> set path \<Longrightarrow> successively (\<lambda>a b. (a, b) \<in> edges m) path \<Longrightarrow> path \<noteq> [] \<Longrightarrow>
     \<forall>d \<in> set deps. (last path, d) \<in> edges m \<Longrightarrow> cyc \<subseteq> on_cycle m \<Longrightarrow>
     grays (fst (dfs_deps m deps cs path cyc)) \<subseteq> set path \<and>
     snd (dfs_deps m deps cs path cyc) \<subseteq> on_cycle m"
proof (induct m node cs path cyc and m deps cs path cyc rule: dfs_dfs_deps.induct)
  case (1 m node cs path cyc)
  have g: "grays (paint node Gray cs) \<subseteq> set (path @ [node])"
    using grays_paint(1) [of node cs] 1(2) by auto
  show ?case
  proof (cases "map_of m node")
    case None
    then show ?thesis using g 1(4) by (auto simp: dfs.simps grays_paint)
  next
    case (Some deps)
    have "\<forall>d \<in> set deps. (last (path @ [node]), d) \<in> edges m"
      using Some by (auto simp: edges_def)
    from 1(1) [OF Some g 1(3) _ this 1(4)] show ?thesis
      using Some by (auto simp: dfs.simps grays_paint split: prod.splits)
  qed
next
  case (3 m dep deps cs path cyc)
  have *: "set (path_from dep path) \<subseteq> on_cycle m" if "map_of cs dep = Some Gray"
    using that 3 by (intro path_from_on_cycle) (auto simp: grays_def)
  have walk: "successively (\<lambda>a b. (a, b) \<in> edges m) (path @ [dep])"
    using 3 by (simp add: successively_append_iff)
  show ?case
  proof (cases "map_of cs dep")
    case (Some c)
    show ?thesis
    proof (cases c)
      case White
      then show ?thesis using Some 3 walk
        by (simp add: dfs_deps.simps split: prod.splits) (metis fst_conv snd_conv)
    qed (use Some 3 * in \<open>auto simp: dfs_deps.simps\<close>)
  qed (use 3 in \<open>auto simp: dfs_deps.simps\<close>)
qed simp

subsection \<open>Completeness\<close>

text \<open>
  What the search keeps for the nodes it has finished: the known successors of an unmarked
  black node are black, and the unmarked black nodes hold no cycle.
\<close>

definition unmarked_edges :: "dep_map \<Rightarrow> string set \<Rightarrow> string set \<Rightarrow> (string \<times> string) set" where
  "unmarked_edges m B cyc = edges m \<inter> (B - cyc) \<times> (B - cyc)"

definition settled :: "dep_map \<Rightarrow> colors \<Rightarrow> string set \<Rightarrow> bool" where
  "settled m cs cyc \<longleftrightarrow>
     (\<forall>b s. b \<in> blacks cs - cyc \<longrightarrow> (b, s) \<in> edges m \<longrightarrow> map_of cs s \<noteq> None \<longrightarrow> s \<in> blacks cs) \<and>
     acyclic (unmarked_edges m (blacks cs) cyc)"

lemma acyclic_add_source:
  assumes "acyclic r" and "r \<subseteq> X \<times> X" and "n \<notin> X"
  shows "acyclic (r \<union> {n} \<times> X)"
proof (rule acyclicI, rule allI, rule notI)
  fix x assume "(x, x) \<in> (r \<union> {n} \<times> X)\<^sup>+"
  moreover have "(a, b) \<in> (r \<union> {n} \<times> X)\<^sup>+ \<Longrightarrow> b \<in> X \<and> (a \<in> X \<longrightarrow> (a, b) \<in> r\<^sup>+)" for a b
  proof (induction rule: trancl_induct)
    case (base b) then show ?case using assms by auto
  next
    case (step b c)
    then show ?case using assms by (auto intro: trancl_into_trancl)
  qed
  ultimately have "(x, x) \<in> r\<^sup>+" by blast
  then show False using assms(1) by (auto simp: acyclic_def)
qed

lemma settled_mono_marks:
  "settled m cs cyc \<Longrightarrow> cyc \<subseteq> cyc' \<Longrightarrow> settled m cs cyc'"
  unfolding settled_def unmarked_edges_def
  by (intro conjI; (blast | (elim conjE, erule acyclic_subset, blast)))

lemma settled_paint_gray:
  "settled m cs cyc \<Longrightarrow> map_of cs n = Some White \<Longrightarrow> settled m (paint n Gray cs) cyc"
proof -
  assume a: "settled m cs cyc" "map_of cs n = Some White"
  then have "blacks (paint n Gray cs) = blacks cs"
    by (auto simp: blacks_def map_of_paint)
  with a show ?thesis by (auto simp: settled_def map_of_paint split: if_splits)
qed

lemma settled_paint_black:
  assumes st: "settled m cs cyc" and gray: "map_of cs n = Some Gray"
    and succs: "\<forall>s. (n, s) \<in> edges m \<longrightarrow> map_of cs s \<noteq> None \<longrightarrow> s \<in> blacks cs \<or> n \<in> cyc"
  shows "settled m (paint n Black cs) cyc"
proof -
  let ?B = "blacks cs"
  have B: "blacks (paint n Black cs) = insert n ?B"
    using gray by (auto simp: blacks_def map_of_paint)
  have nB: "n \<notin> ?B" using gray by (simp add: blacks_def)
  have dom: "(b, n) \<notin> edges m" if "b \<in> ?B - cyc" for b
    using that st gray nB unfolding settled_def by auto
  have D: "map_of (paint n Black cs) s \<noteq> None \<longleftrightarrow> map_of cs s \<noteq> None" for s
    using gray by (simp add: map_of_paint)
  have succ': "s \<in> insert n ?B"
    if "b \<in> insert n ?B - cyc" "(b, s) \<in> edges m" "map_of cs s \<noteq> None" for b s
    using that st succs unfolding settled_def by auto
  have "acyclic (unmarked_edges m (insert n ?B) cyc)"
  proof (cases "n \<in> cyc")
    case True
    then have "unmarked_edges m (insert n ?B) cyc = unmarked_edges m ?B cyc"
      by (auto simp: unmarked_edges_def)
    then show ?thesis using st by (simp add: settled_def)
  next
    case False
    have "acyclic (unmarked_edges m ?B cyc \<union> {n} \<times> (?B - cyc))"
      using st nB by (intro acyclic_add_source) (auto simp: settled_def unmarked_edges_def)
    moreover have "unmarked_edges m (insert n ?B) cyc \<subseteq> unmarked_edges m ?B cyc \<union> {n} \<times> (?B - cyc)"
      using dom succs gray False unfolding unmarked_edges_def by auto
    ultimately show ?thesis by (rule acyclic_subset)
  qed
  then show ?thesis using succ' B D unfolding settled_def by auto
qed

lemma blacks_paint: "map_of cs n \<noteq> None \<Longrightarrow> blacks (paint n Black cs) = insert n (blacks cs)"
  "blacks (paint n Gray cs) = blacks cs - {n}"
  by (auto simp: blacks_def map_of_paint split: if_splits)

lemma grays_paint_white: "map_of cs n = Some White \<Longrightarrow> grays (paint n Gray cs) = insert n (grays cs)"
  by (auto simp: grays_def map_of_paint)

text \<open>The frame of a search: it only adds marks, only blackens, and restores the grays.\<close>

definition grows :: "colors \<Rightarrow> string set \<Rightarrow> colors \<Rightarrow> string set \<Rightarrow> bool" where
  "grows cs cyc cs' cyc' \<longleftrightarrow>
     cyc \<subseteq> cyc' \<and> blacks cs \<subseteq> blacks cs' \<and> grays cs' = grays cs \<and>
     dom (map_of cs') = dom (map_of cs)"

lemma grows_refl: "grows cs cyc cs cyc"
  by (simp add: grows_def)

lemma grows_trans: "grows cs cyc cs' cyc' \<Longrightarrow> grows cs' cyc' cs'' cyc'' \<Longrightarrow> grows cs cyc cs'' cyc''"
  unfolding grows_def by blast

lemma grows_marks: "cyc \<subseteq> cyc' \<Longrightarrow> grows cs cyc cs cyc'"
  by (simp add: grows_def)

lemma color_cases:
  obtains (none) "map_of cs d = None" | (white) "map_of cs d = Some White"
  | (gray) "map_of cs d = Some Gray" | (black) "map_of cs d = Some Black"
  by (metis color.exhaust option.exhaust)

lemma dfs_complete:
  "settled m cs cyc \<Longrightarrow> map_of cs node = Some White \<Longrightarrow> dfs m node cs path cyc = (cs', cyc') \<Longrightarrow>
     settled m cs' cyc' \<and> grows cs cyc cs' cyc' \<and> node \<in> blacks cs'"
  "settled m cs cyc \<Longrightarrow> path \<noteq> [] \<Longrightarrow> dfs_deps m deps cs path cyc = (cs', cyc') \<Longrightarrow>
     settled m cs' cyc' \<and> grows cs cyc cs' cyc' \<and>
     (\<forall>d \<in> set deps. map_of cs d \<noteq> None \<longrightarrow> d \<in> blacks cs' \<or> last path \<in> cyc')"
proof (induct m node cs path cyc and m deps cs path cyc arbitrary: cs' cyc' and cs' cyc'
    rule: dfs_dfs_deps.induct)
  case (1 m node cs path cyc)
  let ?g = "paint node Gray cs"
  have st: "settled m ?g cyc" using 1(2,3) by (rule settled_paint_gray)
  have black: "blacks cs \<subseteq> blacks ?g" using 1(3) by (auto simp: blacks_def map_of_paint)
  obtain cs1 cyc1 where deps: "settled m cs1 cyc1" "grows ?g cyc cs1 cyc1"
    "\<forall>s. (node, s) \<in> edges m \<longrightarrow> map_of cs1 s \<noteq> None \<longrightarrow> s \<in> blacks cs1 \<or> node \<in> cyc1"
    "cs' = paint node Black cs1" "cyc' = cyc1"
  proof (cases "map_of m node")
    case None
    show ?thesis
      by (rule that [of ?g cyc])
        (use st grows_refl None 1(4) in \<open>auto simp: dfs.simps edges_def\<close>)
  next
    case (Some ds)
    obtain cs1 cyc1 where eq: "dfs_deps m ds ?g (path @ [node]) cyc = (cs1, cyc1)" by fastforce
    note IH = 1(1) [OF Some st _ eq]
    have "map_of ?g s \<noteq> None" if "map_of cs1 s \<noteq> None" for s
      using IH that by (auto simp: grows_def)
    then show ?thesis
      by (intro that [of cs1 cyc1]) (use IH Some eq 1(4) in \<open>auto simp: dfs.simps edges_def\<close>)
  qed
  have gray: "map_of cs1 node = Some Gray"
    using deps(2) 1(3) by (auto simp: grows_def grays_def map_of_paint)
  show ?case
    using settled_paint_black [OF deps(1) gray deps(3)] deps gray black 1(3)
    by (auto simp: grows_def blacks_paint grays_paint grays_paint_white map_of_paint dom_def
        grays_def split: if_splits)
next
  case (3 m dep deps cs path cyc)
  show ?case
  proof (cases rule: color_cases [of cs dep])
    case none
    have eq2: "dfs_deps m deps cs path cyc = (cs', cyc')"
      using 3(8) none by (simp add: dfs_deps.simps)
    show ?thesis using 3(1) [OF none 3(6,7) eq2] none by simp
  next
    case white
    obtain cs1 cyc1 where eq: "dfs m dep cs path cyc = (cs1, cyc1)" by fastforce
    have I1: "settled m cs1 cyc1" "grows cs cyc cs1 cyc1" "dep \<in> blacks cs1"
      using 3(2) [OF white refl 3(6) white eq] by auto
    have eq2: "dfs_deps m deps cs1 path cyc1 = (cs', cyc')"
      using 3(8) white eq by (simp add: dfs_deps.simps)
    have I2: "settled m cs' cyc'" "grows cs1 cyc1 cs' cyc'"
      "\<forall>d \<in> set deps. map_of cs1 d \<noteq> None \<longrightarrow> d \<in> blacks cs' \<or> last path \<in> cyc'"
      using 3(3) [OF white refl eq [symmetric] I1(1) 3(7) eq2] by auto
    have "map_of cs1 d \<noteq> None \<longleftrightarrow> map_of cs d \<noteq> None" for d
      using I1(2) by (auto simp: grows_def)
    then show ?thesis using I1 I2 grows_trans [OF I1(2) I2(2)] by (auto simp: grows_def)
  next
    case gray
    let ?cyc = "cyc \<union> set (path_from dep path)"
    have mark: "last path \<in> ?cyc" using last_path_from [OF 3(7)] by blast
    have eq2: "dfs_deps m deps cs path ?cyc = (cs', cyc')"
      using 3(8) gray by (simp add: dfs_deps.simps)
    have I: "settled m cs' cyc'" "grows cs ?cyc cs' cyc'"
      "\<forall>d \<in> set deps. map_of cs d \<noteq> None \<longrightarrow> d \<in> blacks cs' \<or> last path \<in> cyc'"
      using 3(4) [OF gray refl settled_mono_marks [OF 3(6)] 3(7) eq2] by auto
    then show ?thesis using mark by (auto simp: grows_def)
  next
    case black
    have "dfs_deps m deps cs path cyc = (cs', cyc')"
      using 3(8) black by (simp add: dfs_deps.simps)
    then have I: "settled m cs' cyc'" "grows cs cyc cs' cyc'"
      "\<forall>d \<in> set deps. map_of cs d \<noteq> None \<longrightarrow> d \<in> blacks cs' \<or> last path \<in> cyc'"
      using 3(5) [OF black refl 3(6,7)] by auto
    then show ?thesis using black by (auto simp: grows_def blacks_def)
  qed
qed (auto simp: grows_refl)

definition detect_step :: "dep_map \<Rightarrow> string \<Rightarrow> colors \<times> string set \<Rightarrow> colors \<times> string set" where
  "detect_step m node s =
     (if map_of (fst s) node = Some White then dfs m node (fst s) [] (snd s) else s)"

definition detect_cycles :: "string list \<Rightarrow> dep_map \<Rightarrow> string set" where
  "detect_cycles keys m = snd (fold (detect_step m) keys (List.map (\<lambda>k. (k, White)) keys, {}))"

lemma initial_colors: "map_of (List.map (\<lambda>k. (k, White)) keys) = (\<lambda>k. if k \<in> set keys then Some White else None)"
  by (induction keys) auto

lemma detect_fold:
  assumes "settled m (fst s) (snd s)" "grays (fst s) = {}" "dom (map_of (fst s)) = K" "set ks \<subseteq> K"
  shows "let s' = fold (detect_step m) ks s in
     settled m (fst s') (snd s') \<and> grays (fst s') = {} \<and> dom (map_of (fst s')) = K \<and>
     blacks (fst s) \<union> set ks \<subseteq> blacks (fst s')"
  using assms
proof (induction ks arbitrary: s)
  case (Cons k ks)
  let ?t = "detect_step m k s"
  have step: "settled m (fst ?t) (snd ?t) \<and> grays (fst ?t) = {} \<and> dom (map_of (fst ?t)) = K \<and>
      blacks (fst s) \<union> {k} \<subseteq> blacks (fst ?t)"
  proof (cases rule: color_cases [of "fst s" k])
    case white
    obtain cs' cyc' where eq: "dfs m k (fst s) [] (snd s) = (cs', cyc')" by fastforce
    from dfs_complete(1) [OF Cons.prems(1) white eq] show ?thesis
      using eq white Cons.prems by (auto simp: detect_step_def grows_def)
  next
    case none then show ?thesis using Cons.prems by (auto simp: dom_def)
  next
    case gray then show ?thesis using Cons.prems by (auto simp: grays_def)
  next
    case black then show ?thesis using Cons.prems by (auto simp: detect_step_def blacks_def)
  qed
  with Cons.IH [of ?t] Cons.prems(4) show ?case by (auto simp: Let_def)
qed simp

text \<open>The unmarked known workflows hold no cycle.\<close>

lemma detect_cycles_breaks_all:
  "set keys = dom (map_of m) \<Longrightarrow>
     acyclic (unmarked_edges m (dom (map_of m)) (detect_cycles keys m))"
proof -
  assume k: "set keys = dom (map_of m)"
  let ?s = "(List.map (\<lambda>k. (k, White)) keys, {}) :: colors \<times> string set"
  have "settled m (fst ?s) (snd ?s)" "grays (fst ?s) = {}" "dom (map_of (fst ?s)) = set keys"
    by (auto simp: settled_def blacks_def grays_def initial_colors unmarked_edges_def acyclic_def
        split: if_splits)
  from detect_fold [OF this subset_refl]
  have "settled m (fst (fold (detect_step m) keys ?s)) (detect_cycles keys m)"
    "set keys \<subseteq> blacks (fst (fold (detect_step m) keys ?s))"
    by (auto simp: Let_def detect_cycles_def)
  then show ?thesis unfolding settled_def k unmarked_edges_def
    by (elim conjE) (erule acyclic_subset, blast)
qed

lemma detect_cycles_sound: "detect_cycles keys m \<subseteq> on_cycle m"
proof -
  have "grays (fst s) \<subseteq> {} \<Longrightarrow> snd s \<subseteq> on_cycle m \<Longrightarrow>
      snd (fold (detect_step m) ks s) \<subseteq> on_cycle m" for ks s
  proof (induction ks arbitrary: s)
    case (Cons k ks)
    have "grays (fst (detect_step m k s)) \<subseteq> {} \<and> snd (detect_step m k s) \<subseteq> on_cycle m"
      using dfs_sound(1) [of "fst s" "[]" m k "snd s"] Cons.prems by (auto simp: detect_step_def)
    then show ?case using Cons.IH by simp
  qed simp
  from this [of "(List.map (\<lambda>k. (k, White)) keys, {})" keys] show ?thesis
    by (auto simp: detect_cycles_def grays_def initial_colors split: if_splits)
qed

lemma on_cycle_dom: "n \<in> on_cycle m \<Longrightarrow> n \<in> dom (map_of m)"
  unfolding on_cycle_def by (auto simp: edges_def dest: tranclD)

lemma acyclic_edges_iff: "acyclic (edges m) \<longleftrightarrow> on_cycle m = {}"
  by (auto simp: acyclic_def on_cycle_def)

lemma trancl_known:
  assumes "(a, b) \<in> (edges m)\<^sup>+" "b \<in> dom (map_of m)"
  shows "(a, b) \<in> (unmarked_edges m (dom (map_of m)) {})\<^sup>+"
  using assms
proof (induction rule: trancl_induct)
  case (base b) then show ?case by (auto simp: unmarked_edges_def edges_def)
next
  case (step b c)
  then have "b \<in> dom (map_of m)" by (auto simp: edges_def)
  then show ?case using step by (auto simp: unmarked_edges_def edges_def intro: trancl_into_trancl)
qed

lemma detect_cycles_empty_iff:
  assumes "set keys = dom (map_of m)"
  shows "detect_cycles keys m = {} \<longleftrightarrow> acyclic (edges m)"
proof
  assume e: "detect_cycles keys m = {}"
  have ac: "acyclic (unmarked_edges m (dom (map_of m)) {})"
    using detect_cycles_breaks_all [OF assms] unfolding e .
  show "acyclic (edges m)"
  proof (rule acyclicI, rule allI, rule notI)
    fix n assume n: "(n, n) \<in> (edges m)\<^sup>+"
    then have "n \<in> dom (map_of m)" by (intro on_cycle_dom) (simp add: on_cycle_def)
    from trancl_known [OF n this] ac show False by (simp add: acyclic_def)
  qed
next
  assume "acyclic (edges m)"
  then show "detect_cycles keys m = {}"
    using detect_cycles_sound [of keys m] by (simp add: acyclic_edges_iff)
qed

end
