(* ===== verification/Flow_Defs.thy ===== *)
theory Flow_Defs
  imports Dep_Graph
begin

text \<open>
  Flow definitions: \<open>AgentStepConfig\<close> of \<open>config/agent.rs\<close>, and of \<open>workflow/definitions.rs\<close>
  the discovery of definition files, the validation of their dependencies, the gate
  \<open>are_dependencies_met\<close>, the topological order and the ordering of the seeded flows.
  The YAML and TOML parsers are arguments, and so are the Unicode case tables.
\<close>

subsection \<open>Data\<close>

record skill_ref =
  skill_name :: string
  skill_args :: "string list"

datatype step_availability = Always | Ticketing | NoTicketing

record agent_step_config =
  as_name :: string
  as_prompt :: string
  as_repeat :: u8
  as_skills :: "skill_ref list"
  as_resume_previous :: bool
  as_when :: step_availability
  as_commands :: "string list"

definition available_for :: "bool \<Rightarrow> agent_step_config \<Rightarrow> bool" where
  "available_for ticketing_available s =
     (case as_when s of
        Always \<Rightarrow> True
      | Ticketing \<Rightarrow> ticketing_available
      | NoTicketing \<Rightarrow> \<not> ticketing_available)"

definition is_command_step :: "agent_step_config \<Rightarrow> bool" where
  "is_command_step s \<longleftrightarrow> as_commands s \<noteq> []"

record workflow_step_yaml =
  ys_run :: "string option"
  ys_name :: "string option"
  ys_prompt :: "string option"
  ys_commands :: "string list option"
  ys_repeat :: "u8 option"
  ys_skills :: "skill_ref list option"
  ys_when :: "string option"
  ys_resume_previous :: "bool option"

record workflow_yaml =
  wy_name :: string
  wy_steps :: "workflow_step_yaml list"
  wy_depends_on :: "string list"

record discovered_workflow =
  dw_filename :: string
  dw_name :: string
  dw_steps :: "agent_step_config list"
  dw_depends_on :: "string list"
  dw_valid :: bool
  dw_error :: "string option"

definition unwrap_or :: "'a \<Rightarrow> 'a option \<Rightarrow> 'a" where
  "unwrap_or d x = (case x of None \<Rightarrow> d | Some y \<Rightarrow> y)"

lemma unwrap_or_simps [simp]: "unwrap_or d None = d" "unwrap_or d (Some x) = x"
  by (simp_all add: unwrap_or_def)

subsection \<open>Converting the steps of a file\<close>

definition parse_step_availability :: "string option \<Rightarrow> step_availability" where
  "parse_step_availability w =
     (if w = Some ''ticketing'' then Ticketing
      else if w = Some ''no_ticketing'' then NoTicketing
      else Always)"

definition convert_single_step ::
  "workflow_step_yaml \<Rightarrow> nat \<Rightarrow> string \<Rightarrow> string + agent_step_config" where
  "convert_single_step ys index workflow_filename =
     (case ys_run ys of
        Some run_cmd \<Rightarrow>
          if ys_prompt ys \<noteq> None \<or> ys_commands ys \<noteq> None then
            Inl (''Step '' @ show_nat (index + 1) @ '' in '' @ quoted workflow_filename @ '': '' @
                 quoted ''run'' @ '' shorthand cannot be combined with '' @ quoted ''prompt'' @
                 '' or '' @ quoted ''commands'')
          else
            Inr \<lparr>as_name = unwrap_or run_cmd (ys_name ys), as_prompt = [],
                 as_repeat = unwrap_or 1 (ys_repeat ys), as_skills = [],
                 as_resume_previous = unwrap_or False (ys_resume_previous ys),
                 as_when = parse_step_availability (ys_when ys), as_commands = [run_cmd]\<rparr>
      | None \<Rightarrow>
          let name = unwrap_or (''Step '' @ show_nat (index + 1)) (ys_name ys);
              prompt = unwrap_or [] (ys_prompt ys);
              commands = unwrap_or [] (ys_commands ys);
              skills = unwrap_or [] (ys_skills ys);
              has_commands = commands \<noteq> [];
              has_prompt = trim prompt \<noteq> [];
              has_skills = skills \<noteq> [];
              loc = ''Step '' @ quoted name @ '' in '' @ quoted workflow_filename
          in
          if has_commands \<and> (has_prompt \<or> has_skills) then
            Inl (loc @ '': cannot specify both '' @ quoted ''commands'' @ '' and '' @
                 quoted ''prompt'' @ ''/'' @ quoted ''skills'' @ '' (mutually exclusive)'')
          else if \<not> has_commands \<and> \<not> has_prompt \<and> \<not> has_skills then
            Inl (loc @ '': must have '' @ quoted ''run'' @ '', '' @ quoted ''prompt'' @ '', '' @
                 quoted ''skills'' @ '', or '' @ quoted ''commands'')
          else
            Inr \<lparr>as_name = name, as_prompt = prompt, as_repeat = unwrap_or 1 (ys_repeat ys),
                 as_skills = skills, as_resume_previous = unwrap_or False (ys_resume_previous ys),
                 as_when = parse_step_availability (ys_when ys), as_commands = commands\<rparr>)"

fun convert_steps_from ::
  "nat \<Rightarrow> workflow_step_yaml list \<Rightarrow> string \<Rightarrow> string + agent_step_config list" where
  "convert_steps_from i [] fn = Inr []"
| "convert_steps_from i (ys # yss) fn =
     (case convert_single_step ys i fn of
        Inl e \<Rightarrow> Inl e
      | Inr step \<Rightarrow>
          (case convert_steps_from (Suc i) yss fn of
             Inl e \<Rightarrow> Inl e
           | Inr steps \<Rightarrow> Inr (step # steps)))"

definition convert_steps ::
  "workflow_step_yaml list \<Rightarrow> string \<Rightarrow> string + agent_step_config list" where
  "convert_steps yaml_steps fn = convert_steps_from 0 yaml_steps fn"

text \<open>
  The form every accepted step has: either a command step with no prompt or skill, or an
  agent step with one of them.
\<close>

definition step_config_ok :: "agent_step_config \<Rightarrow> bool" where
  "step_config_ok s \<longleftrightarrow>
     (if is_command_step s then trim (as_prompt s) = [] \<and> as_skills s = []
      else trim (as_prompt s) \<noteq> [] \<or> as_skills s \<noteq> [])"

lemma convert_single_step_ok: "convert_single_step ys i fn = Inr s \<Longrightarrow> step_config_ok s"
  by (auto simp: convert_single_step_def step_config_ok_def is_command_step_def Let_def
      split: option.splits if_splits)

lemma convert_steps_from_ok:
  "convert_steps_from i yss fn = Inr ss \<Longrightarrow> length ss = length yss \<and> list_all step_config_ok ss"
  by (induction yss arbitrary: i ss)
    (auto split: sum.splits dest: convert_single_step_ok)

subsection \<open>Validating the dependencies\<close>

definition missing_dep_error :: "string \<Rightarrow> string" where
  "missing_dep_error dep =
     ''Missing dependency: '' @ quoted dep @ '' does not match any discovered workflow filename''"

definition circular_error :: "string \<Rightarrow> string" where
  "circular_error fn =
     ''Circular dependency detected: workflow '' @ quoted fn @ '' is part of a dependency cycle''"

definition invalidate :: "string \<Rightarrow> discovered_workflow \<Rightarrow> discovered_workflow" where
  "invalidate e w = w\<lparr>dw_valid := False, dw_error := Some e\<rparr>"

definition valid_filenames :: "discovered_workflow list \<Rightarrow> string set" where
  "valid_filenames ws = dw_filename ` set (filter dw_valid ws)"

lemma mem_valid_filenames:
  "n \<in> valid_filenames ws \<longleftrightarrow> (\<exists>w \<in> set ws. dw_valid w \<and> dw_filename w = n)"
  by (auto simp: valid_filenames_def)

definition check_missing :: "string set \<Rightarrow> discovered_workflow \<Rightarrow> discovered_workflow" where
  "check_missing known w =
     (if dw_valid w then
        (case List.find (\<lambda>dep. dep \<notin> known) (dw_depends_on w) of
           Some dep \<Rightarrow> invalidate (missing_dep_error dep) w
         | None \<Rightarrow> w)
      else w)"

definition build_dep_map :: "discovered_workflow list \<Rightarrow> dep_map" where
  "build_dep_map ws =
     collect_map (List.map (\<lambda>w. (dw_filename w, dw_depends_on w)) (filter dw_valid ws))"

definition check_circular :: "string set \<Rightarrow> discovered_workflow \<Rightarrow> discovered_workflow" where
  "check_circular circular w =
     (if dw_filename w \<in> circular then invalidate (circular_error (dw_filename w)) w else w)"

text \<open>
  \<open>hash_order\<close> is the order in which the keys of \<open>dep_map\<close> come out of the \<open>HashMap\<close>: some
  rearrangement of them.
\<close>

definition validate_dependencies ::
  "(string list \<Rightarrow> string list) \<Rightarrow> discovered_workflow list \<Rightarrow> discovered_workflow list" where
  "validate_dependencies hash_order ws =
     (let ws1 = List.map (check_missing (valid_filenames ws)) ws;
          m = build_dep_map ws1;
          circular = detect_cycles (hash_order (List.map fst m)) m
      in if circular = {} then ws1 else List.map (check_circular circular) ws1)"

definition rearranges :: "('a list \<Rightarrow> 'a list) \<Rightarrow> bool" where
  "rearranges f \<longleftrightarrow> (\<forall>xs. mset (f xs) = mset xs)"

lemma rearranges_set: "rearranges f \<Longrightarrow> set (f xs) = set xs"
  unfolding rearranges_def by (metis set_mset_mset)

text \<open>The dependency relation between the valid workflows of a list.\<close>

definition valid_deps :: "discovered_workflow list \<Rightarrow> (string \<times> string) set" where
  "valid_deps ws = {(dw_filename w, d) | w d. w \<in> set ws \<and> dw_valid w \<and>
     d \<in> set (dw_depends_on w) \<and> d \<in> valid_filenames ws}"

lemma check_missing_simps [simp]:
  "dw_filename (check_missing K w) = dw_filename w" "dw_name (check_missing K w) = dw_name w"
  "dw_steps (check_missing K w) = dw_steps w"
  "dw_depends_on (check_missing K w) = dw_depends_on w"
  "dw_valid (check_missing K w) \<longleftrightarrow> dw_valid w \<and> set (dw_depends_on w) \<subseteq> K"
  by (auto simp: check_missing_def invalidate_def find_None_iff split: option.splits dest!: find_SomeD)

lemma check_missing_unchanged: "set (dw_depends_on w) \<subseteq> K \<Longrightarrow> check_missing K w = w"
  by (auto simp: check_missing_def split: option.splits dest!: find_SomeD)

lemma check_circular_simps [simp]:
  "dw_filename (check_circular C w) = dw_filename w" "dw_name (check_circular C w) = dw_name w"
  "dw_steps (check_circular C w) = dw_steps w"
  "dw_depends_on (check_circular C w) = dw_depends_on w"
  "dw_valid (check_circular C w) \<longleftrightarrow> dw_valid w \<and> dw_filename w \<notin> C"
  by (auto simp: check_circular_def invalidate_def)

lemma check_circular_empty [simp]: "check_circular {} w = w"
  by (simp add: check_circular_def)

lemma validate_dependencies_alt:
  "validate_dependencies hash_order ws =
     (let ws1 = List.map (check_missing (valid_filenames ws)) ws; m = build_dep_map ws1 in
      List.map (check_circular (detect_cycles (hash_order (List.map fst m)) m)) ws1)"
  by (auto simp: validate_dependencies_def Let_def)

lemma build_dep_map_Some:
  "distinct (List.map dw_filename ws) \<Longrightarrow> map_of (build_dep_map ws) n = Some ds \<longleftrightarrow>
    (\<exists>w \<in> set ws. dw_valid w \<and> dw_filename w = n \<and> dw_depends_on w = ds)"
  unfolding build_dep_map_def
  by (subst collect_map_Some) (auto simp: o_def distinct_map_filter)

lemma edges_build_dep_map:
  "distinct (List.map dw_filename ws) \<Longrightarrow>
     edges (build_dep_map ws) = {(dw_filename w, d) | w d. w \<in> set ws \<and> dw_valid w \<and> d \<in> set (dw_depends_on w)}"
  by (auto simp: edges_def build_dep_map_Some)

lemma dom_build_dep_map:
  "distinct (List.map dw_filename ws) \<Longrightarrow> dom (map_of (build_dep_map ws)) = valid_filenames ws"
  by (auto simp: dom_def build_dep_map_Some valid_filenames_def)

lemma valid_filenames_circular:
  "valid_filenames (List.map (check_circular C) ws) = valid_filenames ws - C"
  by (auto simp: mem_valid_filenames)

lemma valid_deps_circular:
  assumes "distinct (List.map dw_filename ws)"
  shows "valid_deps (List.map (check_circular C) ws) \<subseteq>
    unmarked_edges (build_dep_map ws) (dom (map_of (build_dep_map ws))) C"
  unfolding valid_deps_def valid_filenames_circular unmarked_edges_def dom_build_dep_map [OF assms]
    edges_build_dep_map [OF assms]
  by (auto simp: mem_valid_filenames)

lemma valid_deps_acyclic:
  assumes "rearranges hash_order" "distinct (List.map dw_filename ws)"
  shows "acyclic (valid_deps (validate_dependencies hash_order ws))"
proof -
  let ?ws1 = "List.map (check_missing (valid_filenames ws)) ws"
  let ?m = "build_dep_map ?ws1"
  have d: "distinct (List.map dw_filename ?ws1)" using assms(2) by (simp add: o_def)
  have "acyclic (unmarked_edges ?m (dom (map_of ?m)) (detect_cycles (hash_order (List.map fst ?m)) ?m))"
    by (rule detect_cycles_breaks_all)
      (simp add: rearranges_set [OF assms(1)] dom_map_of_conv_image_fst)
  then show ?thesis
    unfolding validate_dependencies_alt Let_def
    by (rule acyclic_subset) (rule valid_deps_circular [OF d])
qed

text \<open>What the validation makes of one workflow.\<close>

lemma validate_dependencies_nth:
  assumes "distinct (List.map dw_filename ws)" "i < length ws"
  shows "length (validate_dependencies hash_order ws) = length ws"
    and "dw_filename (validate_dependencies hash_order ws ! i) = dw_filename (ws ! i)"
    and "dw_depends_on (validate_dependencies hash_order ws ! i) = dw_depends_on (ws ! i)"
    and "dw_steps (validate_dependencies hash_order ws ! i) = dw_steps (ws ! i)"
    and "dw_valid (validate_dependencies hash_order ws ! i) \<Longrightarrow>
      dw_valid (ws ! i) \<and> set (dw_depends_on (ws ! i)) \<subseteq> valid_filenames ws"
  using assms by (simp_all add: validate_dependencies_alt Let_def)

lemma valid_after_validation:
  "w \<in> set (validate_dependencies hash_order ws) \<Longrightarrow> dw_valid w \<Longrightarrow>
     set (dw_depends_on w) \<subseteq> valid_filenames ws"
  by (auto simp: validate_dependencies_alt Let_def)

lemma edges_mono: "(n, n) \<in> A\<^sup>+ \<Longrightarrow> A \<subseteq> B \<Longrightarrow> (n, n) \<in> B\<^sup>+"
  by (rule trancl_mono)

lemma rejected_workflow:
  assumes "distinct (List.map dw_filename ws)" "i < length ws" "dw_valid (ws ! i)"
    and "\<not> dw_valid (validate_dependencies hash_order ws ! i)"
  shows "\<not> set (dw_depends_on (ws ! i)) \<subseteq> valid_filenames ws \<or>
    (dw_filename (ws ! i), dw_filename (ws ! i)) \<in> (valid_deps ws)\<^sup>+"
proof (rule disjCI)
  assume ok: "\<not> (dw_filename (ws ! i), dw_filename (ws ! i)) \<in> (valid_deps ws)\<^sup>+"
  let ?ws1 = "List.map (check_missing (valid_filenames ws)) ws"
  let ?m = "build_dep_map ?ws1"
  have d: "distinct (List.map dw_filename ?ws1)" using assms(1) by (simp add: o_def)
  have "edges ?m \<subseteq> valid_deps ws"
    unfolding edges_build_dep_map [OF d] valid_deps_def by auto blast
  then have "dw_filename (ws ! i) \<notin> on_cycle ?m"
    using ok edges_mono [of _ "edges ?m" "valid_deps ws"] by (auto simp only: on_cycle_def mem_Collect_eq)
  then have "dw_filename (ws ! i) \<notin> detect_cycles (hash_order (List.map fst ?m)) ?m"
    using detect_cycles_sound by blast
  then show "\<not> set (dw_depends_on (ws ! i)) \<subseteq> valid_filenames ws"
    using assms by (auto simp: validate_dependencies_alt Let_def)
qed

lemma validate_dependencies_accepts:
  assumes "rearranges hash_order" "distinct (List.map dw_filename ws)"
    and "\<And>w. w \<in> set ws \<Longrightarrow> set (dw_depends_on w) \<subseteq> valid_filenames ws"
    and "acyclic (valid_deps ws)"
  shows "validate_dependencies hash_order ws = ws"
proof -
  let ?m = "build_dep_map ws"
  have "List.map (check_missing (valid_filenames ws)) ws = ws"
    using assms(3) by (intro map_idI check_missing_unchanged)
  moreover have "acyclic (edges ?m)"
    by (rule acyclic_subset [OF assms(4)])
      (use assms(3) in \<open>auto simp: edges_build_dep_map [OF assms(2)] valid_deps_def\<close>)
  then have "detect_cycles (hash_order (List.map fst ?m)) ?m = {}"
    by (subst detect_cycles_empty_iff)
      (simp_all add: rearranges_set [OF assms(1)] dom_map_of_conv_image_fst)
  ultimately show ?thesis by (simp add: validate_dependencies_alt Let_def map_idI)
qed

subsection \<open>The dependency gate\<close>

definition are_dependencies_met ::
  "string \<Rightarrow> discovered_workflow list \<Rightarrow> (string \<rightharpoonup> def_run_state) \<Rightarrow> bool" where
  "are_dependencies_met workflow_filename ws run_states =
     (case List.find (\<lambda>v. dw_filename v = workflow_filename) ws of
        None \<Rightarrow> False
      | Some w \<Rightarrow>
          if dw_depends_on w = [] then True
          else list_all (\<lambda>dep. case run_states dep of
                 Some s \<Rightarrow> run_is_completed s | None \<Rightarrow> False) (dw_depends_on w))"

lemma are_dependencies_met_iff:
  "are_dependencies_met fn ws run_states \<longleftrightarrow>
     (\<exists>w. List.find (\<lambda>v. dw_filename v = fn) ws = Some w \<and>
           (\<forall>dep \<in> set (dw_depends_on w). run_states dep = Some RunCompleted))"
  by (auto simp: are_dependencies_met_def list_all_iff run_is_completed_def split: option.splits)

end
