(* ===== verification/Flow_Order.thy ===== *)
theory Flow_Order
  imports Flow_Defs
begin

text \<open>
  \<open>topological_order\<close> of \<open>workflow/definitions.rs\<close>, Kahn's algorithm over the valid
  definitions, and \<open>order_flows_dependencies_first\<close>, which orders the seeded flows. The
  in-degree is a \<open>usize\<close>: its decrement below zero is the result \<^const>\<open>None\<close>, which the
  correctness theorem excludes.
\<close>

subsection \<open>Building the in-degrees and the adjacency\<close>

type_synonym degrees = "(string \<times> nat) list"
type_synonym adjacency = "(string \<times> string list) list"

definition add_dependency ::
  "string set \<Rightarrow> string \<Rightarrow> string \<Rightarrow> degrees \<times> adjacency \<Rightarrow> degrees \<times> adjacency" where
  "add_dependency names fn dep s =
     (case s of (in_degree, adj) \<Rightarrow>
        if dep \<in> names then
          (AList.update fn (unwrap_or 0 (map_of in_degree fn) + 1) in_degree,
           AList.update dep (unwrap_or [] (map_of adj dep) @ [fn]) adj)
        else (in_degree, adj))"

definition or_insert :: "'k \<Rightarrow> 'v \<Rightarrow> ('k \<times> 'v) list \<Rightarrow> ('k \<times> 'v) list" where
  "or_insert k v al = (if map_of al k = None then AList.update k v al else al)"

definition add_workflow ::
  "string set \<Rightarrow> discovered_workflow \<Rightarrow> degrees \<times> adjacency \<Rightarrow> degrees \<times> adjacency" where
  "add_workflow names w s =
     fold (add_dependency names (dw_filename w)) (dw_depends_on w)
       (or_insert (dw_filename w) 0 (fst s), snd s)"

subsection \<open>The loop\<close>

fun release_children :: "string list \<Rightarrow> degrees \<Rightarrow> string list \<Rightarrow> (degrees \<times> string list) option" where
  "release_children [] in_degree queue = Some (in_degree, queue)"
| "release_children (child # children) in_degree queue =
     (case map_of in_degree child of
        None \<Rightarrow> release_children children in_degree queue
      | Some deg \<Rightarrow>
          if deg = 0 then None
          else release_children children (AList.update child (deg - 1) in_degree)
                 (if deg - 1 = 0 then queue @ [child] else queue))"

lemma sum_update:
  "map_of al k = Some v \<Longrightarrow> sum_list (List.map snd (AList.update k v' al)) + v = sum_list (List.map snd al) + (v' :: nat)"
  by (induction al) (auto split: if_splits)

lemma release_children_measure:
  "release_children cs deg q = Some (deg', q') \<Longrightarrow>
     sum_list (List.map snd deg') + length q' \<le> sum_list (List.map snd deg) + length q"
proof (induction cs deg q rule: release_children.induct)
  case (2 c cs deg q)
  show ?case
  proof (cases "map_of deg c")
    case (Some d)
    then show ?thesis
      using 2 sum_update [OF Some, of "d - 1"] by (fastforce split: if_splits)
  qed (use 2 in simp)
qed simp

function kahn :: "degrees \<Rightarrow> adjacency \<Rightarrow> string list \<Rightarrow> string list \<Rightarrow> string list option" where
  "kahn in_degree adj queue order =
     (case sort queue of
        [] \<Rightarrow> Some order
      | node # rest \<Rightarrow>
          (case release_children (unwrap_or [] (map_of adj node)) in_degree rest of
             None \<Rightarrow> None
           | Some (in_degree', queue') \<Rightarrow> kahn in_degree' adj queue' (order @ [node])))"
  by pat_completeness auto

termination
proof (relation "measure (\<lambda>(deg, adj, q, os). sum_list (List.map snd deg) + length q)", goal_cases)
  case (2 deg adj q os node rest p deg' q')
  have "length q = Suc (length rest)" using 2(1) by (metis length_Cons length_sort)
  then show ?case using 2 release_children_measure by fastforce
qed simp

declare kahn.simps [simp del]

definition topological_order :: "discovered_workflow list \<Rightarrow> string list option" where
  "topological_order ws =
     (let valid = filter dw_valid ws;
          names = valid_filenames ws;
          (in_degree, adj) = fold (add_workflow names) valid ([], [])
      in kahn in_degree adj (sort (List.map fst (filter (\<lambda>(_, deg). deg = 0) in_degree))) [])"

subsection \<open>What the in-degrees count\<close>

text \<open>
  \<open>L\<close> lists the dependencies as the code meets them, each a pair of a dependency and the
  workflow that has it.
\<close>

definition indeg :: "(string \<times> string) list \<Rightarrow> string set \<Rightarrow> string \<Rightarrow> nat" where
  "indeg L placed f = length (filter (\<lambda>e. snd e = f \<and> fst e \<notin> placed) L)"

definition succs :: "(string \<times> string) list \<Rightarrow> string \<Rightarrow> string list" where
  "succs L d = List.map snd (filter (\<lambda>e. fst e = d) L)"

lemma indeg_0: "indeg L P f = 0 \<longleftrightarrow> (\<forall>d. (d, f) \<in> set L \<longrightarrow> d \<in> P)"
  by (auto simp: indeg_def filter_empty_conv)

lemma indeg_insert:
  "n \<notin> P \<Longrightarrow> indeg L P f = indeg L (insert n P) f + count_list (succs L n) f"
  unfolding indeg_def succs_def by (induction L) auto

lemma set_succs: "f \<in> set (succs L d) \<longleftrightarrow> (d, f) \<in> set L"
  by (force simp: succs_def)

definition counts :: "string set \<Rightarrow> (string \<times> string) list \<Rightarrow> string set \<Rightarrow> degrees \<Rightarrow> bool" where
  "counts V L P deg \<longleftrightarrow> (\<forall>f. map_of deg f = (if f \<in> V then Some (indeg L P f) else None))"

definition represents :: "string set \<Rightarrow> (string \<times> string) list \<Rightarrow> degrees \<times> adjacency \<Rightarrow> bool" where
  "represents V L s \<longleftrightarrow> counts V L {} (fst s) \<and> distinct (List.map fst (fst s)) \<and>
     (\<forall>d. unwrap_or [] (map_of (snd s) d) = succs L d) \<and> snd ` set L \<subseteq> V"

lemma represents_add_dependency:
  assumes "represents V L s" "fn \<in> V" "dep \<in> names"
  shows "represents V (L @ [(dep, fn)]) (add_dependency names fn dep s)"
  using assms unfolding represents_def add_dependency_def counts_def
  by (cases s) (auto simp: indeg_def succs_def distinct_update)

lemma represents_dependencies:
  "represents V L s \<Longrightarrow> fn \<in> V \<Longrightarrow>
     represents V (L @ List.map (\<lambda>d. (d, fn)) (filter (\<lambda>d. d \<in> names) deps))
       (fold (add_dependency names fn) deps s)"
proof (induction deps arbitrary: L s)
  case (Cons d deps)
  show ?case
  proof (cases "d \<in> names")
    case True
    from Cons.IH [OF represents_add_dependency [OF Cons.prems True] Cons.prems(2)] True
    show ?thesis by simp
  next
    case False
    then have "add_dependency names fn d s = s" by (auto simp: add_dependency_def split: prod.splits)
    then show ?thesis using Cons False by simp
  qed
qed simp

lemma represents_or_insert:
  "represents V L s \<Longrightarrow> represents (insert fn V) L (or_insert fn 0 (fst s), snd s)"
  unfolding represents_def counts_def or_insert_def
  by (auto simp: distinct_update indeg_0 split: if_splits)

definition dep_list :: "string set \<Rightarrow> discovered_workflow list \<Rightarrow> (string \<times> string) list" where
  "dep_list names ws = concat (List.map (\<lambda>w.
     List.map (\<lambda>d. (d, dw_filename w)) (filter (\<lambda>d. d \<in> names) (dw_depends_on w))) ws)"

lemma represents_workflows:
  "represents V L s \<Longrightarrow>
     represents (V \<union> dw_filename ` set ws) (L @ dep_list names ws) (fold (add_workflow names) ws s)"
proof (induction ws arbitrary: V L s)
  case (Cons w ws)
  have "represents (insert (dw_filename w) V)
      (L @ List.map (\<lambda>d. (d, dw_filename w)) (filter (\<lambda>d. d \<in> names) (dw_depends_on w)))
      (add_workflow names w s)"
    unfolding add_workflow_def
    by (rule represents_dependencies [OF represents_or_insert [OF Cons.prems]]) simp
  from Cons.IH [OF this] show ?case by (simp add: dep_list_def)
qed (simp add: dep_list_def)

lemma represents_all:
  "represents (dw_filename ` set ws) (dep_list names ws) (fold (add_workflow names) ws ([], []))"
  using represents_workflows [of "{}" "[]" "([], [])" ws names]
  by (simp add: represents_def counts_def indeg_def succs_def)

subsection \<open>One round of the loop\<close>

lemma release_children_spec:
  assumes "\<forall>f. map_of deg f = (if f \<in> V then Some (base f + count_list cs f) else None)"
    and "set cs \<subseteq> V"
  shows "\<exists>deg' new. release_children cs deg q = Some (deg', q @ new) \<and> distinct new \<and>
    set new = {f \<in> set cs. base f = 0} \<and>
    (\<forall>f. map_of deg' f = (if f \<in> V then Some (base f) else None))"
  using assms
proof (induction cs arbitrary: deg q)
  case (Cons c cs)
  let ?d = "base c + count_list cs c"
  let ?deg = "AList.update c ?d deg"
  let ?q = "if ?d = 0 then q @ [c] else q"
  have c: "map_of deg c = Some (Suc ?d)" using Cons.prems by simp
  have *: "release_children (c # cs) deg q = release_children cs ?deg ?q"
    by (simp add: c)
  have "\<forall>f. map_of ?deg f = (if f \<in> V then Some (base f + count_list cs f) else None)"
    using Cons.prems by auto
  from Cons.IH [OF this, of ?q] Cons.prems(2) obtain deg' new where
    new: "release_children cs ?deg ?q = Some (deg', ?q @ new)" "distinct new"
      "set new = {f \<in> set cs. base f = 0}"
      "\<forall>f. map_of deg' f = (if f \<in> V then Some (base f) else None)"
    unfolding set_simps(2) insert_subset by blast
  show ?case
    unfolding * using new
    by (intro exI [of _ deg'] exI [of _ "if ?d = 0 then c # new else new"])
      (auto simp: count_list_0_iff)
qed auto

definition deps_first :: "(string \<times> string) set \<Rightarrow> string list \<Rightarrow> bool" where
  "deps_first R os \<longleftrightarrow> (\<forall>i < length os. \<forall>d. (os ! i, d) \<in> R \<longrightarrow> d \<in> set (take i os))"

lemma deps_first_Nil [simp]: "deps_first R []"
  by (simp add: deps_first_def)

lemma deps_first_snoc [simp]:
  "deps_first R (os @ [n]) \<longleftrightarrow> deps_first R os \<and> (\<forall>d. (n, d) \<in> R \<longrightarrow> d \<in> set os)"
  by (auto simp: deps_first_def nth_append less_Suc_eq)

text \<open>The loop invariant: the queue holds the unplaced workflows with no unplaced dependency.\<close>

definition kahn_inv :: "string set \<Rightarrow> (string \<times> string) list \<Rightarrow> degrees \<Rightarrow> string list \<Rightarrow> string list \<Rightarrow> bool" where
  "kahn_inv V L deg q os \<longleftrightarrow>
     distinct (os @ q) \<and> set (os @ q) \<subseteq> V \<and> counts V L (set os) deg \<and>
     (\<forall>f \<in> V. f \<in> set (os @ q) \<longleftrightarrow> indeg L (set os) f = 0) \<and> deps_first ((set L)\<inverse>) os"

lemma kahn_round:
  assumes inv: "kahn_inv V L deg q os" and q: "sort q = n # rest" and L: "snd ` set L \<subseteq> V"
  shows "\<exists>deg' q'. release_children (succs L n) deg rest = Some (deg', q') \<and>
    kahn_inv V L deg' q' (os @ [n])"
proof -
  let ?base = "indeg L (insert n (set os))"
  have sq: "set q = insert n (set rest)" by (metis q set_sort list.simps(15))
  have dq: "distinct (n # rest)" using inv q by (metis kahn_inv_def distinct_append distinct_sort)
  have n: "n \<notin> set os" "n \<in> V" "indeg L (set os) n = 0"
    using inv sq by (auto simp: kahn_inv_def)
  have sV: "set (succs L n) \<subseteq> V" using L by (force simp: set_succs)
  have "\<forall>f. map_of deg f = (if f \<in> V then Some (?base f + count_list (succs L n) f) else None)"
    using inv by (simp add: kahn_inv_def counts_def indeg_insert [OF n(1)])
  from release_children_spec [OF this sV, of rest] obtain deg' new where
    rc: "release_children (succs L n) deg rest = Some (deg', rest @ new)" "distinct new"
      "set new = {f \<in> set (succs L n). ?base f = 0}" "counts V L (insert n (set os)) deg'"
    by (auto simp: counts_def)
  have pos: "indeg L (set os) f \<noteq> 0" if "f \<in> set (succs L n)" for f
    using that n(1) by (auto simp: indeg_0 set_succs)
  have iff: "f \<in> set (os @ q) \<longleftrightarrow> indeg L (set os) f = 0" if "f \<in> V" for f
    using inv that by (simp add: kahn_inv_def)
  have "f \<notin> set (os @ q)" if "f \<in> set new" for f
  proof -
    have f: "f \<in> set (succs L n)" using that rc(3) by simp
    show ?thesis using iff [of f] pos [OF f] subsetD [OF sV f] by simp
  qed
  then have disj: "set new \<inter> set (os @ q) = {}" by blast
  have ready: "f \<in> set (os @ [n] @ rest @ new) \<longleftrightarrow> ?base f = 0" if "f \<in> V" for f
  proof -
    have "indeg L (set os) f = ?base f + count_list (succs L n) f"
      by (rule indeg_insert [OF n(1)])
    then show ?thesis using iff [OF that] sq rc(3) by (auto simp: count_list_0_iff)
  qed
  have "distinct (os @ [n] @ rest @ new)"
  proof -
    have "distinct os" "set os \<inter> insert n (set rest) = {}"
      using inv unfolding sq [symmetric] by (simp_all add: kahn_inv_def)
    then show ?thesis using disj [unfolded set_append sq] dq rc(2) by auto
  qed
  moreover have "set (os @ [n] @ rest @ new) \<subseteq> V"
    using inv sq sV rc(3) n(2) unfolding kahn_inv_def by auto
  moreover have "deps_first ((set L)\<inverse>) (os @ [n])"
    using inv n(3) by (simp add: kahn_inv_def indeg_0)
  ultimately have "kahn_inv V L deg' (rest @ new) (os @ [n])"
    using ready rc(4) unfolding kahn_inv_def by simp
  then show ?thesis using rc(1) by blast
qed

lemma kahn_correct:
  assumes "kahn_inv V L deg q os" and "snd ` set L \<subseteq> V" and "\<forall>d. unwrap_or [] (map_of adj d) = succs L d"
  shows "\<exists>os' deg'. kahn deg adj q os = Some os' \<and> kahn_inv V L deg' [] os'"
  using assms
proof (induction deg adj q os rule: kahn.induct)
  case (1 deg adj q os)
  show ?case
  proof (cases "sort q")
    case Nil
    then have "q = []" by (metis length_sort length_0_conv)
    then show ?thesis using 1(2) Nil by (auto simp: kahn.simps [of deg])
  next
    case (Cons n rest)
    from kahn_round [OF 1(2) Cons 1(3)] obtain deg' q' where
      r: "release_children (succs L n) deg rest = Some (deg', q')" "kahn_inv V L deg' q' (os @ [n])"
      by blast
    have c: "unwrap_or [] (map_of adj n) = succs L n" using 1(4) by simp
    show ?thesis
      using 1(1) [OF Cons r(1) [folded c] refl r(2) 1(3,4)] r(1) Cons c
      by (simp add: kahn.simps [of deg])
  qed
qed

lemma set_dep_list: "set (dep_list names ws) =
    {(d, dw_filename w) | w d. w \<in> set ws \<and> d \<in> set (dw_depends_on w) \<and> d \<in> names}"
  by (auto simp: dep_list_def)

lemma set_dep_list_valid:
  "(set (dep_list (valid_filenames ws) (filter dw_valid ws)))\<inverse> = valid_deps ws"
  unfolding set_dep_list valid_deps_def by auto

text \<open>The initial queue holds every workflow with no dependency.\<close>

lemma kahn_inv_init:
  assumes "represents V L (deg, adj)"
  shows "kahn_inv V L deg (sort (List.map fst (filter (\<lambda>(_, d). d = 0) deg))) []"
proof -
  have d: "distinct (List.map fst deg)" "counts V L {} deg" using assms by (auto simp: represents_def)
  have m: "(f, 0) \<in> set deg \<longleftrightarrow> f \<in> V \<and> indeg L {} f = 0" for f
    unfolding map_of_eq_Some_iff [OF d(1), symmetric] using d(2) by (simp add: counts_def)
  have s: "set (List.map fst (filter (\<lambda>(_, d). d = 0) deg)) = {f \<in> V. indeg L {} f = 0}"
    using m by force
  have "distinct (List.map fst (filter (\<lambda>(_, d). d = 0) deg))"
    using d(1) by (simp add: distinct_map_filter)
  then show ?thesis using s d(2) by (simp add: kahn_inv_def)
qed

lemma topological_order_inv:
  "\<exists>os deg'. topological_order ws = Some os \<and>
     kahn_inv (valid_filenames ws) (dep_list (valid_filenames ws) (filter dw_valid ws)) deg' [] os"
proof -
  let ?V = "valid_filenames ws" and ?ws = "filter dw_valid ws"
  obtain deg adj where s: "fold (add_workflow ?V) ?ws ([], []) = (deg, adj)" by fastforce
  have r: "represents ?V (dep_list ?V ?ws) (deg, adj)"
    using represents_all [of ?ws ?V] unfolding valid_filenames_def [symmetric] s .
  then have "snd ` set (dep_list ?V ?ws) \<subseteq> ?V"
    "\<forall>d. unwrap_or [] (map_of adj d) = succs (dep_list ?V ?ws) d" by (auto simp: represents_def)
  from kahn_correct [OF kahn_inv_init [OF r] this] show ?thesis
    unfolding topological_order_def Let_def by (auto simp: s)
qed

text \<open>Nothing is left out of an acyclic set of definitions.\<close>

lemma kahn_inv_complete:
  assumes inv: "kahn_inv V L deg [] os" and ac: "acyclic (set L)" and "fst ` set L \<subseteq> V"
  shows "set os = V"
proof (rule ccontr)
  assume "set os \<noteq> V"
  then obtain x where x: "x \<in> V - set os" using inv by (auto simp: kahn_inv_def)
  have "wf (set L)" using ac by (intro finite_acyclic_wf) simp_all
  then obtain z where z: "z \<in> V - set os" "\<And>y. (y, z) \<in> set L \<Longrightarrow> y \<notin> V - set os"
    using x by (rule wfE_min) blast
  then have "indeg L (set os) z = 0" using assms(3) by (force simp: indeg_0)
  then show False using z(1) inv by (auto simp: kahn_inv_def)
qed

subsection \<open>Ordering the seeded flows\<close>

record user_flow_step =
  fs_name :: string
  fs_prompt :: string
  fs_skills :: "skill_ref list"

record user_flow =
  uf_name :: string
  uf_depends_on :: "string list"
  uf_steps :: "user_flow_step list"

function order_loop :: "user_flow list \<Rightarrow> user_flow list \<Rightarrow> string set \<Rightarrow> user_flow list" where
  "order_loop remaining ordered placed =
     (if remaining = [] then ordered
      else (case position (\<lambda>f. list_all (\<lambda>d. d \<in> placed) (uf_depends_on f)) remaining of
              Some i \<Rightarrow> order_loop (remove_at i remaining) (ordered @ [remaining ! i])
                          (insert (uf_name (remaining ! i)) placed)
            | None \<Rightarrow> order_loop [] (ordered @ remaining) placed))"
  by pat_completeness auto
termination
  by (relation "measure (\<lambda>(r, ord, p). length r)")
    (auto simp: length_remove_at dest: position_Some)

declare order_loop.simps [simp del]

definition order_flows_dependencies_first :: "user_flow list \<Rightarrow> user_flow list" where
  "order_flows_dependencies_first flows = order_loop flows [] {}"

lemma order_loop_mset: "mset (order_loop r os p) = mset r + mset os"
proof (induction r os p rule: order_loop.induct)
  case (1 r os p)
  then show ?case
    by (subst order_loop.simps)
      (auto simp: mset_remove_at [symmetric] split: option.split dest: position_Some)
qed

text \<open>
  The flow relation by name, and the flows with their dependencies before them.
\<close>

definition flow_deps :: "user_flow list \<Rightarrow> (string \<times> string) set" where
  "flow_deps fs = {(uf_name f, d) | f d. f \<in> set fs \<and> d \<in> set (uf_depends_on f)}"

lemma flow_deps_simps [simp]:
  "flow_deps [] = {}" "flow_deps (f # fs) = {uf_name f} \<times> set (uf_depends_on f) \<union> flow_deps fs"
  by (auto simp: flow_deps_def)

definition flows_deps_first :: "user_flow list \<Rightarrow> bool" where
  "flows_deps_first fs \<longleftrightarrow>
     (\<forall>i < length fs. set (uf_depends_on (fs ! i)) \<subseteq> uf_name ` set (take i fs))"

lemma flows_deps_first_snoc [simp]:
  "flows_deps_first (fs @ [f]) \<longleftrightarrow>
     flows_deps_first fs \<and> set (uf_depends_on f) \<subseteq> uf_name ` set fs"
  by (auto simp: flows_deps_first_def nth_append less_Suc_eq)

lemma ready_flow_exists:
  assumes "r \<noteq> []" and ac: "acyclic (flow_deps r)"
    and known: "\<forall>f \<in> set r. set (uf_depends_on f) \<subseteq> uf_name ` set r \<union> p"
  shows "\<exists>f \<in> set r. set (uf_depends_on f) \<subseteq> p"
proof -
  have "finite (flow_deps r)"
    by (rule finite_subset [of _ "\<Union>f \<in> set r. {uf_name f} \<times> set (uf_depends_on f)"])
      (auto simp: flow_deps_def)
  then have "wf ((flow_deps r)\<inverse>)" using ac by (rule finite_acyclic_wf_converse)
  moreover obtain x where "x \<in> uf_name ` set r" using assms(1) by (cases r) auto
  ultimately obtain z where z: "z \<in> uf_name ` set r"
    "\<And>y. (y, z) \<in> (flow_deps r)\<inverse> \<Longrightarrow> y \<notin> uf_name ` set r"
    by (rule wfE_min) blast
  then obtain f where f: "f \<in> set r" "uf_name f = z" by blast
  have "d \<in> p" if "d \<in> set (uf_depends_on f)" for d
  proof -
    have "(z, d) \<in> flow_deps r" using f that by (auto simp: flow_deps_def)
    then have "d \<notin> uf_name ` set r" using z(2) by blast
    then show ?thesis using known f that by blast
  qed
  then show ?thesis using f by blast
qed

lemma order_loop_deps_first:
  "flows_deps_first os \<Longrightarrow> p = uf_name ` set os \<Longrightarrow> acyclic (flow_deps r) \<Longrightarrow>
     \<forall>f \<in> set r. set (uf_depends_on f) \<subseteq> uf_name ` set r \<union> p \<Longrightarrow>
     flows_deps_first (order_loop r os p)"
proof (induction r os p rule: order_loop.induct)
  case (1 r os p)
  show ?case
  proof (cases "r = []")
    case False
    then obtain f where "f \<in> set r" "set (uf_depends_on f) \<subseteq> p"
      using ready_flow_exists [OF False 1(5,6)] by blast
    then obtain i where i: "position (\<lambda>f. list_all (\<lambda>d. d \<in> p) (uf_depends_on f)) r = Some i"
      by (cases "position (\<lambda>f. list_all (\<lambda>d. d \<in> p) (uf_depends_on f)) r")
        (auto simp: position_None list_all_iff)
    note P = position_Some [OF i]
    have r: "set r = insert (r ! i) (set (remove_at i r))"
      using mset_remove_at [of i r] P by (metis set_mset_add_mset_insert set_mset_mset)
    have "flows_deps_first (os @ [r ! i])" using P 1(3,4) by (auto simp: list_all_iff)
    moreover have "acyclic (flow_deps (remove_at i r))"
      by (rule acyclic_subset [OF 1(5)]) (use r in \<open>auto simp: flow_deps_def\<close>)
    moreover have "\<forall>f \<in> set (remove_at i r). set (uf_depends_on f) \<subseteq>
        uf_name ` set (remove_at i r) \<union> insert (uf_name (r ! i)) p"
      using 1(6) unfolding r by auto
    ultimately have "flows_deps_first
        (order_loop (remove_at i r) (os @ [r ! i]) (insert (uf_name (r ! i)) p))"
      using 1(2) [OF False i] 1(4) by simp
    then show ?thesis using False i by (simp add: order_loop.simps [of r])
  qed (use 1(3) in \<open>simp add: order_loop.simps [of "[]"]\<close>)
qed

subsection \<open>Sample definitions\<close>

definition sample_workflow :: "string \<Rightarrow> string list \<Rightarrow> discovered_workflow" where
  "sample_workflow n deps = \<lparr>dw_filename = n, dw_name = n, dw_steps = [], dw_depends_on = deps,
     dw_valid = True, dw_error = None\<rparr>"

definition cyclic_sample :: "discovered_workflow list" where
  "cyclic_sample = [sample_workflow ''a'' [''b''], sample_workflow ''b'' [''a''],
     sample_workflow ''c'' [''a''], sample_workflow ''d'' [''x''], sample_workflow ''e'' []]"

lemma rearranges_id: "rearranges (\<lambda>xs. xs)"
  by (simp add: rearranges_def)

text \<open>
  The marking is by name of the path, so a name on a cycle that closes through a finished
  node is left out: here \<open>c\<close>, on the cycle of \<open>a\<close>, \<open>c\<close> and \<open>b\<close>. And a definition that
  depends on a rejected one stays valid: \<open>c\<close> of the sample.
\<close>

lemma detect_cycles_misses_cycle_member:
  "''c'' \<in> on_cycle [(''a'', [''b'', ''c'']), (''b'', [''a'']), (''c'', [''b''])] \<and>
   ''c'' \<notin> detect_cycles [''a'', ''b'', ''c'']
     [(''a'', [''b'', ''c'']), (''b'', [''a'']), (''c'', [''b''])]"
proof -
  let ?m = "[(''a'', [''b'', ''c'']), (''b'', [''a'']), (''c'', [''b''])] :: dep_map"
  have "(''c'', ''b'') \<in> edges ?m" "(''b'', ''a'') \<in> edges ?m" "(''a'', ''c'') \<in> edges ?m"
    by (simp_all add: edges_def)
  then have "(''c'', ''c'') \<in> (edges ?m)\<^sup>+" by (meson r_into_trancl trancl_trans)
  moreover have "''c'' \<notin> detect_cycles [''a'', ''b'', ''c''] ?m" by code_simp
  ultimately show ?thesis by (simp add: on_cycle_def)
qed

lemma cyclic_sample_validated:
  "List.map dw_valid (validate_dependencies (\<lambda>xs. xs) cyclic_sample) = [False, False, True, False, True]"
  by code_simp

lemma rejected_dependency_not_propagated:
  "\<exists>w \<in> set (validate_dependencies (\<lambda>xs. xs) cyclic_sample). dw_valid w \<and>
     \<not> set (dw_depends_on w) \<subseteq> valid_filenames (validate_dependencies (\<lambda>xs. xs) cyclic_sample)"
  by code_simp

subsection \<open>Properties\<close>

text \<open>
  C6: \<open>detect_cycles\<close> marks only names that lie on a dependency cycle, and the unmarked
  names have no cycle among them, whatever the order the map is iterated in.
\<close>

theorem detect_cycles_correct:
  assumes "set keys = dom (map_of m)"
  shows "detect_cycles keys m \<subseteq> on_cycle m \<and>
    acyclic (unmarked_edges m (dom (map_of m)) (detect_cycles keys m)) \<and>
    (detect_cycles keys m = {} \<longleftrightarrow> acyclic (edges m))"
  using detect_cycles_sound detect_cycles_breaks_all [OF assms] detect_cycles_empty_iff [OF assms]
  by blast

theorem detect_cycles_correct_witness:
  "detect_cycles [''a'', ''b'', ''c''] [(''a'', [''b'']), (''b'', [''a'']), (''c'', [''a''])] = {''a'', ''b''} \<and>
   {''a'', ''b''} \<subseteq> on_cycle [(''a'', [''b'']), (''b'', [''a'']), (''c'', [''a''])]"
proof -
  have k: "set [''a'', ''b'', ''c''] =
      dom (map_of [(''a'', [''b'']), (''b'', [''a'']), (''c'', [''a''])])" by auto
  have "detect_cycles [''a'', ''b'', ''c''] [(''a'', [''b'']), (''b'', [''a'']), (''c'', [''a''])] = {''a'', ''b''}"
    by code_simp
  then show ?thesis using detect_cycles_correct [OF k] by simp
qed

text \<open>
  After \<open>validate_dependencies\<close> the dependencies among the valid definitions hold no
  cycle and every valid definition named only definitions that were valid before.
\<close>

lemma validated_definitions_acyclic:
  assumes "rearranges hash_order" and "distinct (List.map dw_filename ws)"
  shows "acyclic (valid_deps (validate_dependencies hash_order ws)) \<and>
    (\<forall>w \<in> set (validate_dependencies hash_order ws). dw_valid w \<longrightarrow>
       set (dw_depends_on w) \<subseteq> valid_filenames ws)"
  using valid_deps_acyclic [OF assms] valid_after_validation by blast


text \<open>
  A definition that was valid is rejected only for a dependency that names no valid
  definition or for lying on a cycle, and a set of definitions without either is accepted
  as it is.
\<close>

lemma validation_rejects_with_cause:
  assumes "rearranges hash_order" and "distinct (List.map dw_filename ws)"
  shows "(\<forall>i < length ws. dw_valid (ws ! i) \<longrightarrow> \<not> dw_valid (validate_dependencies hash_order ws ! i) \<longrightarrow>
       \<not> set (dw_depends_on (ws ! i)) \<subseteq> valid_filenames ws \<or>
       (dw_filename (ws ! i), dw_filename (ws ! i)) \<in> (valid_deps ws)\<^sup>+) \<and>
    ((\<forall>w \<in> set ws. set (dw_depends_on w) \<subseteq> valid_filenames ws) \<and> acyclic (valid_deps ws) \<longrightarrow>
       validate_dependencies hash_order ws = ws)"
  using rejected_workflow [OF assms(2)] validate_dependencies_accepts [OF assms] by blast


text \<open>
  C32: the topological order exists (no in-degree falls below zero), lists valid definitions
  once each, a dependency before its dependents, and lists all of them when their
  dependencies hold no cycle.
\<close>

theorem topological_order_correct:
  "\<exists>os. topological_order ws = Some os \<and> distinct os \<and> set os \<subseteq> valid_filenames ws \<and>
     deps_first (valid_deps ws) os \<and>
     (acyclic (valid_deps ws) \<longrightarrow> set os = valid_filenames ws)"
proof -
  let ?L = "dep_list (valid_filenames ws) (filter dw_valid ws)"
  obtain os deg' where os: "topological_order ws = Some os" "kahn_inv (valid_filenames ws) ?L deg' [] os"
    using topological_order_inv by blast
  have L: "(set ?L)\<inverse> = valid_deps ws" by (rule set_dep_list_valid)
  have "fst ` set ?L \<subseteq> valid_filenames ws" by (auto simp: set_dep_list)
  then have "acyclic (valid_deps ws) \<longrightarrow> set os = valid_filenames ws"
    using kahn_inv_complete [OF os(2)] L acyclic_converse by metis
  then show ?thesis using os L by (auto simp: kahn_inv_def)
qed

theorem topological_order_correct_witness:
  "topological_order [sample_workflow ''b'' [''a''], sample_workflow ''a'' []] = Some [''a'', ''b''] \<and>
   deps_first (valid_deps [sample_workflow ''b'' [''a''], sample_workflow ''a'' []]) [''a'', ''b'']"
proof -
  have "topological_order [sample_workflow ''b'' [''a''], sample_workflow ''a'' []] = Some [''a'', ''b'']"
    by code_simp
  then show ?thesis
    using topological_order_correct [of "[sample_workflow ''b'' [''a''], sample_workflow ''a'' []]"] by simp
qed

text \<open>
  Ordering the seeded flows keeps exactly the given flows, and puts every flow after the
  flows it depends on when the dependencies are known and hold no cycle.
\<close>

lemma order_flows_correct:
  "mset (order_flows_dependencies_first fs) = mset fs \<and>
   ((\<forall>f \<in> set fs. set (uf_depends_on f) \<subseteq> uf_name ` set fs) \<and> acyclic (flow_deps fs) \<longrightarrow>
      flows_deps_first (order_flows_dependencies_first fs))"
  unfolding order_flows_dependencies_first_def
  using order_loop_mset [of fs "[]" "{}"] order_loop_deps_first [of "[]" "{}" fs]
  by (simp add: flows_deps_first_def)

definition sample_flow :: "string \<Rightarrow> string list \<Rightarrow> user_flow" where
  "sample_flow n deps = \<lparr>uf_name = n, uf_depends_on = deps,
     uf_steps = [\<lparr>fs_name = ''s'', fs_prompt = ''p'', fs_skills = []\<rparr>]\<rparr>"


end
