(* ===== verification/User_Flows.thy ===== *)
theory User_Flows
  imports Flow_Order
begin

text \<open>
  \<open>db/user_work_item_flows.rs\<close>: the slug of a flow name, the validation of a flow list, the
  table of flow lists; and of \<open>workflow/definitions.rs\<close> how a flow list becomes runnable
  definitions. JSON encoding is an argument.
\<close>

definition MAX_FLOWS_PER_WORKSPACE :: nat where "MAX_FLOWS_PER_WORKSPACE = 20"
definition MAX_SLUG_LEN :: nat where "MAX_SLUG_LEN = 64"

subsection \<open>Slugs\<close>

definition is_ascii_alphanumeric :: "char \<Rightarrow> bool" where
  "is_ascii_alphanumeric c \<longleftrightarrow> (let n = (of_char c :: nat) in
     (48 \<le> n \<and> n \<le> 57) \<or> (65 \<le> n \<and> n \<le> 90) \<or> (97 \<le> n \<and> n \<le> 122))"

text \<open>
  The loop over the characters. Every byte of a character outside ASCII is one that is not
  alphanumeric, and a run of those yields one dash, so going by bytes is the same.
\<close>

fun slug_chars :: "string \<Rightarrow> bool \<Rightarrow> string" where
  "slug_chars [] prev_dash = []"
| "slug_chars (ch # s) prev_dash =
     (if is_ascii_alphanumeric ch then to_ascii_lowercase [ch] @ slug_chars s False
      else if \<not> prev_dash then CHR ''-'' # slug_chars s True
      else slug_chars s prev_dash)"

definition trim_end_dashes :: "string \<Rightarrow> string" where
  "trim_end_dashes s = rev (dropWhile (\<lambda>c. c = CHR ''-'') (rev s))"

definition slugify :: "string \<Rightarrow> string" where
  "slugify name =
     trim_end_dashes (take MAX_SLUG_LEN
       (trim_end_dashes (dropWhile (\<lambda>c. c = CHR ''-'') (slug_chars name False))))"

definition slug :: "user_flow \<Rightarrow> string" where
  "slug f = slugify (uf_name f)"

definition slug_char :: "char \<Rightarrow> bool" where
  "slug_char c \<longleftrightarrow> (let n = (of_char c :: nat) in
     n = 45 \<or> (48 \<le> n \<and> n \<le> 57) \<or> (97 \<le> n \<and> n \<le> 122))"

lemma slug_char_chars: "c \<in> set (slug_chars s b) \<Longrightarrow> slug_char c"
proof (induction s b rule: slug_chars.induct)
  case (2 ch s b)
  have "slug_char d" if "is_ascii_alphanumeric ch" "d \<in> set (to_ascii_lowercase [ch])" for d
    using that by (auto simp: to_ascii_lowercase_def is_ascii_alphanumeric_def slug_char_def Let_def
        split: if_splits)
  moreover have "slug_char (CHR ''-'')" by (simp add: slug_char_def)
  ultimately show ?case using 2 by (auto split: if_splits)
qed simp

lemma trim_end_dashes_prefix: "prefix (trim_end_dashes s) s"
  unfolding trim_end_dashes_def
  by (metis rev_rev_ident suffix_dropWhile suffix_to_prefix)

lemma last_trim_end_dashes: "trim_end_dashes s \<noteq> [] \<Longrightarrow> last (trim_end_dashes s) \<noteq> CHR ''-''"
  unfolding trim_end_dashes_def
  by (metis (mono_tags, lifting) hd_dropWhile last_rev rev_is_Nil_conv)

lemma slugify_prefix:
  "prefix (slugify name) (dropWhile (\<lambda>c. c = CHR ''-'') (slug_chars name False))"
  unfolding slugify_def
  by (rule prefix_order.trans [OF trim_end_dashes_prefix
        prefix_order.trans [OF take_is_prefix trim_end_dashes_prefix]])

lemma hd_slugify: "slugify name \<noteq> [] \<Longrightarrow> hd (slugify name) \<noteq> CHR ''-''"
proof -
  let ?d = "dropWhile (\<lambda>c. c = CHR ''-'') (slug_chars name False)"
  assume ne: "slugify name \<noteq> []"
  obtain zs where d: "?d = slugify name @ zs"
    using slugify_prefix by (rule prefixE)
  then have "hd (slugify name) = hd ?d" "?d \<noteq> []" using ne by auto
  then show ?thesis using hd_dropWhile [of "\<lambda>c. c = CHR ''-''" "slug_chars name False"] by simp
qed

lemma slugify_shape:
  "length (slugify name) \<le> MAX_SLUG_LEN \<and> list_all slug_char (slugify name) \<and>
   (slugify name \<noteq> [] \<longrightarrow> hd (slugify name) \<noteq> CHR ''-'' \<and> last (slugify name) \<noteq> CHR ''-'')"
proof (intro conjI impI)
  let ?d = "dropWhile (\<lambda>c. c = CHR ''-'') (slug_chars name False)"
  have "prefix (slugify name) (take MAX_SLUG_LEN (trim_end_dashes ?d))"
    unfolding slugify_def by (rule trim_end_dashes_prefix)
  then have "length (slugify name) \<le> length (take MAX_SLUG_LEN (trim_end_dashes ?d))"
    by (rule prefix_length_le)
  then show "length (slugify name) \<le> MAX_SLUG_LEN" by simp
  have "prefix (slugify name) ?d" by (rule slugify_prefix)
  then have "set (slugify name) \<subseteq> set (slug_chars name False)"
    using set_mono_prefix set_dropWhileD by fast
  then show "list_all slug_char (slugify name)"
    using slug_char_chars by (auto simp: list_all_iff)
qed (use hd_slugify last_trim_end_dashes in \<open>auto simp: slugify_def\<close>)

subsection \<open>Validation errors\<close>

datatype flow_validation_error =
    TooManyFlows nat nat
  | EmptyFlowName
  | DuplicateFlowName string
  | DuplicateSlug string string string
  | EmptySlug string
  | NoSteps string
  | EmptyStepName string
  | EmptyStepPrompt string string
  | EmptySkillName string string
  | UnknownDependency string string
  | DependencyCycle string

fun flow_error_kind :: "flow_validation_error \<Rightarrow> string" where
  "flow_error_kind (TooManyFlows _ _) = ''too_many_flows''"
| "flow_error_kind EmptyFlowName = ''empty_flow_name''"
| "flow_error_kind (DuplicateFlowName _) = ''duplicate_flow_name''"
| "flow_error_kind (DuplicateSlug _ _ _) = ''duplicate_slug''"
| "flow_error_kind (EmptySlug _) = ''empty_slug''"
| "flow_error_kind (NoSteps _) = ''no_steps''"
| "flow_error_kind (EmptyStepName _) = ''empty_step_name''"
| "flow_error_kind (EmptyStepPrompt _ _) = ''empty_step_prompt''"
| "flow_error_kind (EmptySkillName _ _) = ''empty_skill_name''"
| "flow_error_kind (UnknownDependency _ _) = ''unknown_dependency''"
| "flow_error_kind (DependencyCycle _) = ''dependency_cycle''"

subsection \<open>The cycle check\<close>

text \<open>
  \<open>visit\<close> stops at the first gray child; the colours of the finished search are the result
  otherwise. \<open>colors.insert\<close> is \<^const>\<open>AList.update\<close>.
\<close>

function visit :: "dep_map \<Rightarrow> string \<Rightarrow> colors \<Rightarrow> flow_validation_error + colors"
  and visit_children :: "dep_map \<Rightarrow> string list \<Rightarrow> colors \<Rightarrow> flow_validation_error + colors"
where
  "visit deps node cs =
     (case (case map_of deps node of
              None \<Rightarrow> Inr (AList.update node Gray cs)
            | Some children \<Rightarrow> visit_children deps children (AList.update node Gray cs))
      of Inl e \<Rightarrow> Inl e | Inr cs' \<Rightarrow> Inr (AList.update node Black cs'))"
| "visit_children deps [] cs = Inr cs"
| "visit_children deps (child # children) cs =
     (case map_of cs child of
        Some Gray \<Rightarrow> Inl (DependencyCycle child)
      | Some White \<Rightarrow>
          (case visit deps child cs of
             Inl e \<Rightarrow> Inl e
           | Inr cs' \<Rightarrow> visit_children deps children cs')
      | _ \<Rightarrow> visit_children deps children cs)"
  by pat_completeness auto

lemma whites_update: "c \<noteq> White \<Longrightarrow> whites (AList.update n c cs) = whites cs - {n}"
  by (auto simp: whites_def split: if_splits)

lemma visit_whites:
  "visit_visit_children_dom (Inl (m, node, cs)) \<Longrightarrow> visit m node cs = Inr cs' \<Longrightarrow>
     whites cs' \<subseteq> whites cs - {node}"
  "visit_visit_children_dom (Inr (m, ds, cs)) \<Longrightarrow> visit_children m ds cs = Inr cs' \<Longrightarrow>
     whites cs' \<subseteq> whites cs"
proof (induct m node cs and m ds cs arbitrary: cs' and cs' rule: visit_visit_children.pinduct)
  case (1 m node cs)
  then show ?case
    by (fastforce simp: visit.psimps whites_update split: option.splits sum.splits)
next
  case (2 m cs)
  then show ?case by (simp add: visit_children.psimps)
next
  case (3 m d ds cs)
  show ?case
  proof (cases rule: color_cases [of cs d])
    case white
    then show ?thesis using 3 by (fastforce simp: visit_children.psimps split: sum.splits)
  qed (use 3 in \<open>auto simp: visit_children.psimps\<close>)
qed

lemma card_visit_whites:
  "visit_visit_children_dom (Inl (m, node, cs)) \<Longrightarrow> visit m node cs = Inr cs' \<Longrightarrow>
     card (whites cs') \<le> card (whites cs)"
  using visit_whites(1) [of m node cs cs'] by (intro card_mono finite_whites) blast

termination visit
proof (relation "measures
    [\<lambda>x. case x of Inl (m, node, cs) \<Rightarrow> card (whites cs - {node}) | Inr (m, ds, cs) \<Rightarrow> card (whites cs),
     \<lambda>x. case x of Inl _ \<Rightarrow> 1 | Inr _ \<Rightarrow> 0,
     \<lambda>x. case x of Inl _ \<Rightarrow> 0 | Inr (m, ds, cs) \<Rightarrow> length ds]", goal_cases)
  case 2 then show ?case by (simp add: whites_update)
next
  case 4 then show ?case by (simp add: card_whites_less)
next
  case 5 then show ?case using card_visit_whites by (simp add: le_less [symmetric])
qed simp_all

declare visit.simps [simp del] visit_children.simps(2) [simp del]

text \<open>
  The check runs the search of \<^const>\<open>dfs\<close>: it ends with the same colours when nothing is
  marked, and fails where the search marks a path.
\<close>

lemma dfs_marks_mono:
  "cyc \<subseteq> snd (dfs m node cs path cyc)" "cyc \<subseteq> snd (dfs_deps m ds cs path cyc)"
proof (induct m node cs path cyc and m ds cs path cyc rule: dfs_dfs_deps.induct)
  case (1 m node cs path cyc)
  then show ?case by (auto simp: dfs.simps split: option.splits prod.splits)
next
  case (3 m dep deps cs path cyc)
  show ?case
  proof (cases rule: color_cases [of cs dep])
    case white
    then show ?thesis using 3 by (auto simp: dfs_deps.simps split: prod.splits) (metis snd_conv subsetD)
  qed (use 3 in \<open>auto simp: dfs_deps.simps\<close>)
qed simp

definition mirrors :: "flow_validation_error + colors \<Rightarrow> colors \<Rightarrow> colors \<times> string set \<Rightarrow> string set \<Rightarrow> bool" where
  "mirrors r cs s cyc \<longleftrightarrow>
     (case r of Inl e \<Rightarrow> (\<exists>n. e = DependencyCycle n) \<and> snd s \<noteq> {}
      | Inr cs' \<Rightarrow> s = (cs', cyc) \<and> dom (map_of cs') = dom (map_of cs))"

lemma path_from_nonempty: "path \<noteq> [] \<Longrightarrow> path_from d path \<noteq> []"
  using last_path_from [of path d] by force

lemma visit_mirrors_dfs:
  "map_of cs node \<noteq> None \<Longrightarrow> mirrors (visit m node cs) cs (dfs m node cs path cyc) cyc"
  "path \<noteq> [] \<Longrightarrow> mirrors (visit_children m ds cs) cs (dfs_deps m ds cs path cyc) cyc"
proof (induct m node cs path cyc and m ds cs path cyc rule: dfs_dfs_deps.induct)
  case (1 m node cs path cyc)
  have p: "paint node c cs' = AList.update node c cs'" if "node \<in> dom (map_of cs')" for c cs'
    using that by (auto simp: paint_def)
  have n: "node \<in> dom (map_of cs)" using 1(2) by auto
  show ?case
  proof (cases "map_of m node")
    case None
    then show ?thesis using n by (auto simp: dfs.simps visit.simps mirrors_def p)
  next
    case (Some ds)
    from 1(1) [OF Some] have
      "mirrors (visit_children m ds (AList.update node Gray cs)) (AList.update node Gray cs)
         (dfs_deps m ds (AList.update node Gray cs) (path @ [node]) cyc) cyc"
      using p [OF n] by simp
    then show ?thesis using Some n
      by (cases "visit_children m ds (AList.update node Gray cs)")
        (auto simp: dfs.simps visit.simps mirrors_def p split: prod.splits)
  qed
next
  case (3 m dep deps cs path cyc)
  show ?case
  proof (cases rule: color_cases [of cs dep])
    case none
    then show ?thesis using 3(1) [OF none 3(6)] by (simp add: dfs_deps.simps visit_children.simps)
  next
    case white
    obtain cs1 cyc1 where eq: "dfs m dep cs path cyc = (cs1, cyc1)" by fastforce
    have v: "mirrors (visit m dep cs) cs (cs1, cyc1) cyc"
      using 3(2) [OF white refl] white eq by simp
    show ?thesis
    proof (cases "visit m dep cs")
      case (Inl e)
      have "cyc1 \<subseteq> snd (dfs_deps m deps cs1 path cyc1)" by (rule dfs_marks_mono(2))
      then show ?thesis using v Inl white eq
        by (auto simp: dfs_deps.simps visit_children.simps mirrors_def)
    next
      case (Inr cs')
      then show ?thesis using v white eq 3(3) [OF white refl eq [symmetric] 3(6)]
        by (auto simp: dfs_deps.simps visit_children.simps mirrors_def split: sum.splits)
    qed
  next
    case gray
    have "cyc \<union> set (path_from dep path) \<subseteq> snd (dfs_deps m deps cs path (cyc \<union> set (path_from dep path)))"
      by (rule dfs_marks_mono(2))
    then show ?thesis using gray path_from_nonempty [OF 3(6), of dep]
      by (auto simp: dfs_deps.simps visit_children.simps mirrors_def)
  next
    case black
    then show ?thesis using 3(5) [OF black refl 3(6)] by (simp add: dfs_deps.simps visit_children.simps)
  qed
qed (simp add: mirrors_def)

definition flow_dep_map :: "user_flow list \<Rightarrow> dep_map" where
  "flow_dep_map flows = collect_map (List.map (\<lambda>f. (uf_name f, uf_depends_on f)) flows)"

fun visit_all :: "dep_map \<Rightarrow> string list \<Rightarrow> colors \<Rightarrow> flow_validation_error + colors" where
  "visit_all deps [] cs = Inr cs"
| "visit_all deps (node # nodes) cs =
     (if map_of cs node = Some White then
        (case visit deps node cs of
           Inl e \<Rightarrow> Inl e
         | Inr cs' \<Rightarrow> visit_all deps nodes cs')
      else visit_all deps nodes cs)"

definition detect_cycle ::
  "(string list \<Rightarrow> string list) \<Rightarrow> user_flow list \<Rightarrow> flow_validation_error + unit" where
  "detect_cycle hash_order flows =
     (let deps = flow_dep_map flows; keys = hash_order (List.map fst deps) in
      case visit_all deps keys (List.map (\<lambda>k. (k, White)) keys) of
        Inl e \<Rightarrow> Inl e
      | Inr _ \<Rightarrow> Inr ())"

lemma detect_fold_mono: "snd s \<subseteq> snd (fold (detect_step m) ks s)"
proof (induction ks arbitrary: s)
  case (Cons k ks)
  have "snd s \<subseteq> snd (detect_step m k s)"
    using dfs_marks_mono(1) by (simp add: detect_step_def)
  also have "\<dots> \<subseteq> snd (fold (detect_step m) ks (detect_step m k s))" by (rule Cons.IH)
  finally show ?case by simp
qed simp

lemma visit_all_detects:
  "(case visit_all m ks cs of
      Inl e \<Rightarrow> (\<exists>n. e = DependencyCycle n) \<and> snd (fold (detect_step m) ks (cs, {})) \<noteq> {}
    | Inr _ \<Rightarrow> snd (fold (detect_step m) ks (cs, {})) = {})"
proof (induction ks arbitrary: cs)
  case (Cons k ks)
  show ?case
  proof (cases "map_of cs k = Some White")
    case True
    have v: "mirrors (visit m k cs) cs (dfs m k cs [] {}) {}"
      using True by (intro visit_mirrors_dfs(1)) simp
    have d: "detect_step m k (cs, {}) = dfs m k cs [] {}" using True by (simp add: detect_step_def)
    show ?thesis
    proof (cases "visit m k cs")
      case (Inl e)
      have "snd (dfs m k cs [] {}) \<subseteq> snd (fold (detect_step m) ks (dfs m k cs [] {}))"
        by (rule detect_fold_mono)
      then show ?thesis using v Inl True d by (auto simp: mirrors_def)
    next
      case (Inr cs')
      then show ?thesis using v True d Cons.IH [of cs'] by (auto simp: mirrors_def split: sum.splits)
    qed
  next
    case False
    then have "detect_step m k (cs, {}) = (cs, {})" by (simp add: detect_step_def)
    then show ?thesis using False Cons.IH [of cs] by (auto split: sum.splits)
  qed
qed simp

lemma edges_flow_dep_map:
  "distinct (List.map uf_name flows) \<Longrightarrow> edges (flow_dep_map flows) = flow_deps flows"
  by (auto simp: edges_def flow_dep_map_def collect_map_Some o_def flow_deps_def)

lemma detect_cycle_iff:
  assumes "rearranges hash_order" "distinct (List.map uf_name flows)"
  shows "detect_cycle hash_order flows = Inr () \<longleftrightarrow> acyclic (flow_deps flows)"
    and "detect_cycle hash_order flows = Inl e \<Longrightarrow> \<exists>n. e = DependencyCycle n"
proof -
  let ?m = "flow_dep_map flows"
  let ?keys = "hash_order (List.map fst ?m)"
  have "set ?keys = dom (map_of ?m)"
    by (simp add: rearranges_set [OF assms(1)] dom_map_of_conv_image_fst)
  then have "detect_cycles ?keys ?m = {} \<longleftrightarrow> acyclic (flow_deps flows)"
    using detect_cycles_empty_iff edges_flow_dep_map [OF assms(2)] by simp
  then show "detect_cycle hash_order flows = Inr () \<longleftrightarrow> acyclic (flow_deps flows)"
    "detect_cycle hash_order flows = Inl e \<Longrightarrow> \<exists>n. e = DependencyCycle n"
    using visit_all_detects [of ?m ?keys "List.map (\<lambda>k. (k, White)) ?keys"]
    by (auto simp: detect_cycle_def detect_cycles_def Let_def split: sum.splits)
qed

subsection \<open>Validation of a flow list\<close>

fun check_skills :: "string \<Rightarrow> string \<Rightarrow> skill_ref list \<Rightarrow> flow_validation_error option" where
  "check_skills fl st [] = None"
| "check_skills fl st (skill # skills) =
     (if trim (skill_name skill) = [] then Some (EmptySkillName fl st)
      else check_skills fl st skills)"

fun check_steps :: "string \<Rightarrow> user_flow_step list \<Rightarrow> flow_validation_error option" where
  "check_steps fl [] = None"
| "check_steps fl (step # steps) =
     (if trim (fs_name step) = [] then Some (EmptyStepName fl)
      else if trim (fs_prompt step) = [] then Some (EmptyStepPrompt fl (fs_name step))
      else (case check_skills fl (fs_name step) (fs_skills step) of
              Some e \<Rightarrow> Some e
            | None \<Rightarrow> check_steps fl steps))"

fun check_flows ::
  "user_flow list \<Rightarrow> string set \<Rightarrow> (string \<rightharpoonup> string) \<Rightarrow> flow_validation_error + string set" where
  "check_flows [] seen_names seen_slugs = Inr seen_names"
| "check_flows (flow # flows) seen_names seen_slugs =
     (if trim (uf_name flow) = [] then Inl EmptyFlowName
      else if uf_name flow \<in> seen_names then Inl (DuplicateFlowName (uf_name flow))
      else
        let slug = slugify (uf_name flow) in
        if slug = [] then Inl (EmptySlug (uf_name flow))
        else (case seen_slugs slug of
                Some first \<Rightarrow> Inl (DuplicateSlug first (uf_name flow) slug)
              | None \<Rightarrow>
                  if uf_steps flow = [] then Inl (NoSteps (uf_name flow))
                  else (case check_steps (uf_name flow) (uf_steps flow) of
                          Some e \<Rightarrow> Inl e
                        | None \<Rightarrow>
                            check_flows flows (insert (uf_name flow) seen_names)
                              (seen_slugs(slug \<mapsto> uf_name flow)))))"

fun check_references :: "string set \<Rightarrow> user_flow list \<Rightarrow> flow_validation_error option" where
  "check_references names [] = None"
| "check_references names (flow # flows) =
     (case List.find (\<lambda>dep. dep \<notin> names) (uf_depends_on flow) of
        Some dep \<Rightarrow> Some (UnknownDependency (uf_name flow) dep)
      | None \<Rightarrow> check_references names flows)"

definition validate_user_flows ::
  "(string list \<Rightarrow> string list) \<Rightarrow> user_flow list \<Rightarrow> flow_validation_error + unit" where
  "validate_user_flows hash_order flows =
     (if length flows > MAX_FLOWS_PER_WORKSPACE
      then Inl (TooManyFlows (length flows) MAX_FLOWS_PER_WORKSPACE)
      else (case check_flows flows {} Map.empty of
              Inl e \<Rightarrow> Inl e
            | Inr seen_names \<Rightarrow>
                (case check_references seen_names flows of
                   Some e \<Rightarrow> Inl e
                 | None \<Rightarrow> detect_cycle hash_order flows)))"

text \<open>What a valid flow list is, without the order of the checks.\<close>

definition flow_step_ok :: "user_flow_step \<Rightarrow> bool" where
  "flow_step_ok st \<longleftrightarrow> trim (fs_name st) \<noteq> [] \<and> trim (fs_prompt st) \<noteq> [] \<and>
     (\<forall>k \<in> set (fs_skills st). trim (skill_name k) \<noteq> [])"

definition flow_ok :: "user_flow \<Rightarrow> bool" where
  "flow_ok f \<longleftrightarrow> trim (uf_name f) \<noteq> [] \<and> slug f \<noteq> [] \<and> uf_steps f \<noteq> [] \<and>
     (\<forall>st \<in> set (uf_steps f). flow_step_ok st)"

definition flows_ok :: "user_flow list \<Rightarrow> bool" where
  "flows_ok fs \<longleftrightarrow> length fs \<le> 20 \<and> (\<forall>f \<in> set fs. flow_ok f) \<and>
     distinct (List.map slug fs) \<and>
     (\<forall>f \<in> set fs. set (uf_depends_on f) \<subseteq> uf_name ` set fs) \<and> acyclic (flow_deps fs)"

lemma check_skills_None: "check_skills fl st ks = None \<longleftrightarrow> (\<forall>k \<in> set ks. trim (skill_name k) \<noteq> [])"
  by (induction ks) auto

lemma check_steps_None: "check_steps fl sts = None \<longleftrightarrow> (\<forall>st \<in> set sts. flow_step_ok st)"
  by (induction sts) (auto simp: flow_step_ok_def check_skills_None)

lemma check_references_None:
  "check_references names fs = None \<longleftrightarrow> (\<forall>f \<in> set fs. set (uf_depends_on f) \<subseteq> names)"
  by (induction fs) (auto simp: find_None_iff split: option.splits dest!: find_SomeD)

lemma check_flows_Inr:
  "dom seen_slugs = slugify ` names \<Longrightarrow>
   check_flows fs names seen_slugs = Inr N \<longleftrightarrow>
     N = names \<union> uf_name ` set fs \<and> (\<forall>f \<in> set fs. flow_ok f) \<and>
     distinct (List.map slug fs) \<and> slug ` set fs \<inter> slugify ` names = {}"
proof (induction fs arbitrary: names seen_slugs)
  case (Cons f fs)
  have d: "dom (seen_slugs(slugify (uf_name f) \<mapsto> uf_name f)) = slugify ` insert (uf_name f) names"
    using Cons.prems by simp
  have seen: "seen_slugs (slugify (uf_name f)) = None \<longleftrightarrow> slugify (uf_name f) \<notin> slugify ` names"
    using Cons.prems [symmetric] by (auto simp only: domIff)
  have "check_flows (f # fs) names seen_slugs = Inr N \<longleftrightarrow>
      trim (uf_name f) \<noteq> [] \<and> uf_name f \<notin> names \<and> slug f \<noteq> [] \<and> slug f \<notin> slugify ` names \<and>
      uf_steps f \<noteq> [] \<and> (\<forall>st \<in> set (uf_steps f). flow_step_ok st) \<and>
      check_flows fs (insert (uf_name f) names) (seen_slugs(slugify (uf_name f) \<mapsto> uf_name f)) = Inr N"
    by (simp add: Let_def seen check_steps_None slug_def)
  moreover have "uf_name f \<in> names \<Longrightarrow> slug f \<in> slugify ` names" by (simp add: slug_def)
  moreover have "slugify ` insert (uf_name f) names = insert (slug f) (slugify ` names)"
    by (simp add: slug_def)
  moreover have "insert (uf_name f) names \<union> uf_name ` set fs = names \<union> uf_name ` set (f # fs)"
    by simp
  ultimately show ?case
    unfolding Cons.IH [OF d] flow_ok_def list.map distinct.simps list.set image_insert by auto
qed auto

lemma distinct_slugs_names: "distinct (List.map slug fs) \<Longrightarrow> distinct (List.map uf_name fs)"
  by (induction fs) (auto simp: slug_def)

lemma validate_user_flows_iff:
  assumes "rearranges hash_order"
  shows "validate_user_flows hash_order fs = Inr () \<longleftrightarrow> flows_ok fs"
proof -
  have "check_flows fs {} Map.empty = Inr N \<longleftrightarrow>
      N = uf_name ` set fs \<and> (\<forall>f \<in> set fs. flow_ok f) \<and> distinct (List.map slug fs)" for N
    using check_flows_Inr [of Map.empty "{}" fs N] by simp
  then show ?thesis
    using detect_cycle_iff(1) [OF assms distinct_slugs_names, of fs]
    by (auto simp: validate_user_flows_def flows_ok_def MAX_FLOWS_PER_WORKSPACE_def
        check_references_None)
qed

subsection \<open>The table of flow lists\<close>

datatype db_error = NulByte string | JsonEncode | JsonDecode | SqlError

type_synonym flow_table = "string \<times> string \<rightharpoonup> string \<times> time"

definition has_nul :: "string \<Rightarrow> bool" where
  "has_nul s \<longleftrightarrow> CHR 0x00 \<in> set s"

definition guard_nul_step :: "user_flow_step \<Rightarrow> string option" where
  "guard_nul_step st =
     (if has_nul (fs_name st) \<or> has_nul (fs_prompt st) then Some ''flow_step_name_or_prompt''
      else if list_ex (\<lambda>k. has_nul (skill_name k) \<or> list_ex has_nul (skill_args k)) (fs_skills st)
      then Some ''flow_step_skill''
      else None)"

fun first_some :: "('a \<Rightarrow> 'b option) \<Rightarrow> 'a list \<Rightarrow> 'b option" where
  "first_some f [] = None"
| "first_some f (x # xs) = (case f x of Some y \<Rightarrow> Some y | None \<Rightarrow> first_some f xs)"

definition guard_nul_flow :: "user_flow \<Rightarrow> string option" where
  "guard_nul_flow f =
     (if has_nul (uf_name f) then Some ''flow_name''
      else if list_ex has_nul (uf_depends_on f) then Some ''flow_depends_on''
      else first_some guard_nul_step (uf_steps f))"

definition guard_nul :: "string \<Rightarrow> string \<Rightarrow> user_flow list \<Rightarrow> string option" where
  "guard_nul user_id workspace_name flows =
     (if has_nul user_id \<or> has_nul workspace_name then Some ''user_id_or_workspace_name''
      else first_some guard_nul_flow flows)"

text \<open>
  \<open>io\<close> says whether the query reaches the database; \<open>encode\<close> and \<open>decode\<close> are
  \<open>serde_json\<close>'s, \<open>now\<close> is the reading of the clock.
\<close>

definition flows_get ::
  "bool \<Rightarrow> (string \<Rightarrow> user_flow list option) \<Rightarrow> flow_table \<Rightarrow> string \<Rightarrow> string \<Rightarrow>
   db_error + user_flow list option" where
  "flows_get io decode tbl user_id workspace_name =
     (if \<not> io then Inl SqlError
      else (case tbl (user_id, workspace_name) of
              None \<Rightarrow> Inr None
            | Some (flows_json, _) \<Rightarrow>
                (case decode flows_json of
                   None \<Rightarrow> Inl JsonDecode
                 | Some flows \<Rightarrow> Inr (Some flows))))"

definition flows_set ::
  "bool \<Rightarrow> (user_flow list \<Rightarrow> string option) \<Rightarrow> time \<Rightarrow> string \<Rightarrow> string \<Rightarrow> user_flow list \<Rightarrow>
   flow_table \<Rightarrow> (db_error + unit) \<times> flow_table" where
  "flows_set io encode now user_id workspace_name flows tbl =
     (case guard_nul user_id workspace_name flows of
        Some field \<Rightarrow> (Inl (NulByte field), tbl)
      | None \<Rightarrow>
          (case encode flows of
             None \<Rightarrow> (Inl JsonEncode, tbl)
           | Some flows_json \<Rightarrow>
               if \<not> io then (Inl SqlError, tbl)
               else (Inr (), tbl((user_id, workspace_name) \<mapsto> (flows_json, now)))))"

definition seed_if_absent ::
  "bool \<Rightarrow> (user_flow list \<Rightarrow> string option) \<Rightarrow> time \<Rightarrow> string \<Rightarrow> string \<Rightarrow> user_flow list \<Rightarrow>
   flow_table \<Rightarrow> (db_error + bool) \<times> flow_table" where
  "seed_if_absent io encode now user_id workspace_name defaults tbl =
     (case guard_nul user_id workspace_name defaults of
        Some field \<Rightarrow> (Inl (NulByte field), tbl)
      | None \<Rightarrow>
          (case encode defaults of
             None \<Rightarrow> (Inl JsonEncode, tbl)
           | Some flows_json \<Rightarrow>
               if \<not> io then (Inl SqlError, tbl)
               else if tbl (user_id, workspace_name) \<noteq> None then (Inr False, tbl)
               else (Inr True, tbl((user_id, workspace_name) \<mapsto> (flows_json, now)))))"

subsection \<open>Runnable definitions of a flow list\<close>

definition flow_to_discovered :: "user_flow \<Rightarrow> discovered_workflow" where
  "flow_to_discovered f =
     \<lparr>dw_filename = slug f, dw_name = uf_name f,
      dw_steps = List.map (\<lambda>s. \<lparr>as_name = fs_name s, as_prompt = fs_prompt s, as_repeat = 1,
         as_skills = fs_skills s, as_resume_previous = False, as_when = Always,
         as_commands = []\<rparr>) (uf_steps f),
      dw_depends_on = List.map slugify (uf_depends_on f), dw_valid = True, dw_error = None\<rparr>"

definition user_flows_to_discovered ::
  "(string list \<Rightarrow> string list) \<Rightarrow> user_flow list \<Rightarrow> discovered_workflow list" where
  "user_flows_to_discovered hash_order flows =
     validate_dependencies hash_order (List.map flow_to_discovered flows)"

definition resolve_user_flows ::
  "bool \<times> bool \<times> bool \<Rightarrow> (user_flow list \<Rightarrow> string option) \<Rightarrow> (string \<Rightarrow> user_flow list option) \<Rightarrow>
   (string list \<Rightarrow> string list) \<Rightarrow> time \<Rightarrow> string \<Rightarrow> string \<Rightarrow> user_flow list \<Rightarrow> flow_table \<Rightarrow>
   discovered_workflow list \<times> flow_table" where
  "resolve_user_flows io encode decode hash_order now user_id workspace defaults tbl =
     (case io of (io1, io2, io3) \<Rightarrow>
       (case flows_get io1 decode tbl user_id workspace of
          Inr (Some flows) \<Rightarrow> (user_flows_to_discovered hash_order flows, tbl)
        | Inr None \<Rightarrow>
            (let tbl' = snd (seed_if_absent io2 encode now user_id workspace defaults tbl);
                 flows = (case flows_get io3 decode tbl' user_id workspace of
                            Inr (Some fs) \<Rightarrow> fs
                          | _ \<Rightarrow> [])
             in (user_flows_to_discovered hash_order flows, tbl'))
        | Inl _ \<Rightarrow> ([], tbl)))"

lemma flow_to_discovered_simps [simp]:
  "dw_filename (flow_to_discovered f) = slug f" "dw_valid (flow_to_discovered f)"
  "dw_depends_on (flow_to_discovered f) = List.map slugify (uf_depends_on f)"
  by (simp_all add: flow_to_discovered_def)

lemma acyclic_rename:
  assumes "acyclic r" "r \<subseteq> A \<times> A" "inj_on g A"
  shows "acyclic {(g a, g b) | a b. (a, b) \<in> r}"
proof -
  let ?R = "{(g a, g b) | a b. (a, b) \<in> r}" and ?h = "inv_into A g"
  have R: "(?h x, ?h y) \<in> r" if "(x, y) \<in> ?R" for x y
    using that assms(2,3) by (auto simp: inv_into_f_f)
  have "(?h x, ?h y) \<in> r\<^sup>+" if "(x, y) \<in> ?R\<^sup>+" for x y
    using that by induction (use R in \<open>blast intro: trancl_into_trancl\<close>)+
  then show ?thesis using assms(1) unfolding acyclic_def by blast
qed

lemma inj_on_slugify:
  "distinct (List.map slug fs) \<Longrightarrow> inj_on slugify (uf_name ` set fs)"
  by (auto simp: inj_on_def distinct_map slug_def)

lemma flow_deps_domain:
  "(\<forall>f \<in> set fs. set (uf_depends_on f) \<subseteq> uf_name ` set fs) \<Longrightarrow>
     flow_deps fs \<subseteq> uf_name ` set fs \<times> uf_name ` set fs"
  by (auto simp: flow_deps_def)

text \<open>A valid flow list becomes definitions the dependency validation leaves as they are.\<close>

lemma discovered_of_valid_flows:
  assumes "rearranges hash_order" and ok: "flows_ok fs"
  shows "user_flows_to_discovered hash_order fs = List.map flow_to_discovered fs"
  unfolding user_flows_to_discovered_def
proof (rule validate_dependencies_accepts [OF assms(1)])
  let ?ws = "List.map flow_to_discovered fs"
  have dom: "flow_deps fs \<subseteq> uf_name ` set fs \<times> uf_name ` set fs"
    using ok by (intro flow_deps_domain) (simp add: flows_ok_def)
  have names: "valid_filenames ?ws = slugify ` uf_name ` set fs"
    by (force simp: mem_valid_filenames slug_def)
  show "distinct (List.map dw_filename ?ws)" using ok by (simp add: flows_ok_def o_def)
  show "set (dw_depends_on w) \<subseteq> valid_filenames ?ws" if "w \<in> set ?ws" for w
  proof -
    obtain f where f: "f \<in> set fs" "w = flow_to_discovered f" using \<open>w \<in> set ?ws\<close> by auto
    then have "set (uf_depends_on f) \<subseteq> uf_name ` set fs" using ok by (simp add: flows_ok_def)
    then show ?thesis unfolding names f(2) by (simp add: image_mono)
  qed
  have "valid_deps ?ws \<subseteq> {(slugify a, slugify b) | a b. (a, b) \<in> flow_deps fs}"
    by (auto simp: valid_deps_def flow_deps_def slug_def) blast
  moreover have "acyclic {(slugify a, slugify b) | a b. (a, b) \<in> flow_deps fs}"
    using ok dom inj_on_slugify by (intro acyclic_rename) (auto simp: flows_ok_def)
  ultimately show "acyclic (valid_deps ?ws)" by (rule acyclic_subset [rotated])
qed

subsection \<open>Properties\<close>

definition sample_flows :: "user_flow list" where
  "sample_flows = [sample_flow ''Build it'' [''Plan''], sample_flow ''Plan'' []]"

text \<open>
  C7: a flow list is accepted exactly when it holds at most 20 flows, each with a name, a slug
  and steps with name, prompt and named skills, with distinct slugs, known dependencies and
  no dependency cycle, whatever the iteration order of the maps.
\<close>

theorem validate_user_flows_correct:
  assumes "rearranges hash_order"
  shows "validate_user_flows hash_order fs = Inr () \<longleftrightarrow> flows_ok fs"
  by (rule validate_user_flows_iff [OF assms])

theorem validate_user_flows_correct_witness: "flows_ok sample_flows"
proof -
  have "validate_user_flows (\<lambda>xs. xs) sample_flows = Inr ()" by code_simp
  then show ?thesis using validate_user_flows_correct [OF rearranges_id] by simp
qed

text \<open>
  Every flow of an accepted list becomes a valid runnable definition with a slug of its
  own, unchanged by the dependency validation.
\<close>

lemma accepted_flows_are_runnable:
  assumes "rearranges hash_order" and "validate_user_flows hash_order fs = Inr ()"
  shows "user_flows_to_discovered hash_order fs = List.map flow_to_discovered fs \<and>
    list_all dw_valid (user_flows_to_discovered hash_order fs) \<and>
    distinct (List.map dw_filename (user_flows_to_discovered hash_order fs))"
proof -
  have ok: "flows_ok fs" using assms validate_user_flows_iff by blast
  then show ?thesis
    using discovered_of_valid_flows [OF assms(1) ok]
    by (simp add: list_all_iff flows_ok_def o_def)
qed


text \<open>
  A slug has at most 64 characters, all of them lower-case letters, digits or dashes, and
  neither starts nor ends with a dash.
\<close>

lemma slug_well_formed:
  "length (slugify name) \<le> 64 \<and> list_all slug_char (slugify name) \<and>
   (slugify name = [] \<or> hd (slugify name) \<noteq> CHR ''-'' \<and> last (slugify name) \<noteq> CHR ''-'')"
  using slugify_shape [of name] by (auto simp: MAX_SLUG_LEN_def)

text \<open>
  Seeding never changes a stored flow list, an emptied one included, and a stored list is
  what the user's runnable definitions are made of.
\<close>

lemma stored_flows_survive_seeding:
  assumes "\<And>fs json. encode fs = Some json \<Longrightarrow> decode json = Some fs"
    and "flows_set io encode now user ws flows tbl = (Inr (), tbl')"
  shows "flows_get True decode tbl' user ws = Inr (Some flows) \<and>
    snd (seed_if_absent io2 encode now2 user ws defaults tbl') = tbl' \<and>
    resolve_user_flows (True, b, c) encode decode hash_order now2 user ws defaults tbl' =
      (user_flows_to_discovered hash_order flows, tbl')"
proof -
  obtain json where "encode flows = Some json" "tbl' = tbl((user, ws) \<mapsto> (json, now))"
    using assms(2) by (auto simp: flows_set_def split: option.splits if_splits)
  then show ?thesis
    using assms(1) [of flows json]
    by (simp add: flows_get_def seed_if_absent_def resolve_user_flows_def split: option.split)
qed


end
