(* ===== verification/Flow_Discovery.thy ===== *)
theory Flow_Discovery
  imports User_Flows
begin

text \<open>
  The discovery of definition files in \<open>workflow/definitions.rs\<close> (\<open>discover_workflows\<close>,
  \<open>parse_workflow_file\<close>) and the default flows seeded from them
  (\<open>default_flows_from_dir\<close>). A directory is the list of its entries, or nothing when it is
  no directory or cannot be read; an entry is a file name and what reading it gives. The
  TOML and YAML parsers and the case tables of Unicode are arguments.
\<close>

type_synonym dir_entry = "string \<times> (string + string)"

record parsers =
  toml_from_str :: "string \<Rightarrow> string + workflow_yaml"
  yaml_from_str :: "string \<Rightarrow> string + workflow_yaml"

subsection \<open>File names\<close>

text \<open>
  \<open>extension\<close> and \<open>file_stem\<close>: the name is cut at its last dot, unless the name starts there.
\<close>

definition rsplit_dot :: "string \<Rightarrow> (string \<times> string) option" where
  "rsplit_dot name =
     (let r = rev name; ext = takeWhile (\<lambda>c. c \<noteq> CHR ''.'') r;
          rest = dropWhile (\<lambda>c. c \<noteq> CHR ''.'') r in
      case rest of
        [] \<Rightarrow> None
      | _ # stem \<Rightarrow> if stem = [] then None else Some (rev stem, rev ext))"

definition extension :: "string \<Rightarrow> string option" where
  "extension name = map_option snd (rsplit_dot name)"

definition file_stem :: "string \<Rightarrow> string" where
  "file_stem name = (case rsplit_dot name of None \<Rightarrow> name | Some (stem, _) \<Rightarrow> stem)"

text \<open>\<open>to_str\<close> with the empty string in place of a name that is not UTF-8.\<close>

definition to_str :: "string \<Rightarrow> string" where
  "to_str s = (if utf8_valid s then s else [])"

subsection \<open>Parsing one file\<close>

definition parse_workflow_file :: "parsers \<Rightarrow> dir_entry \<Rightarrow> string + workflow_yaml" where
  "parse_workflow_file ps entry =
     (case snd entry of
        Inl e \<Rightarrow> Inl (''Failed to read file: '' @ e)
      | Inr content \<Rightarrow>
          (case (if extension (fst entry) = Some ''toml''
                 then (case toml_from_str ps content of
                         Inl e \<Rightarrow> Inl (''Invalid TOML schema: '' @ e) | Inr w \<Rightarrow> Inr w)
                 else (case yaml_from_str ps content of
                         Inl e \<Rightarrow> Inl (''Invalid YAML schema: '' @ e) | Inr w \<Rightarrow> Inr w))
           of Inl e \<Rightarrow> Inl e
            | Inr w \<Rightarrow>
                if trim (wy_name w) = [] then
                  Inl (quoted ''name'' @ '' field is required and must not be empty'')
                else if wy_steps w = [] then
                  Inl (quoted ''steps'' @ '' field is required and must contain at least one step'')
                else Inr w))"

definition discover_file :: "parsers \<Rightarrow> dir_entry \<Rightarrow> discovered_workflow option" where
  "discover_file ps entry =
     (let filename = to_str (file_stem (fst entry)) in
      if filename = [] then None
      else if str_contains ''.example.'' (to_str (fst entry)) then None
      else
        Some (case parse_workflow_file ps entry of
          Inr w \<Rightarrow>
            (case convert_steps (wy_steps w) filename of
               Inr steps \<Rightarrow>
                 \<lparr>dw_filename = filename, dw_name = wy_name w, dw_steps = steps,
                  dw_depends_on = wy_depends_on w, dw_valid = True, dw_error = None\<rparr>
             | Inl e \<Rightarrow>
                 \<lparr>dw_filename = filename, dw_name = wy_name w, dw_steps = [],
                  dw_depends_on = wy_depends_on w, dw_valid = False, dw_error = Some e\<rparr>)
        | Inl e \<Rightarrow>
            \<lparr>dw_filename = filename, dw_name = filename @ '' (invalid)'', dw_steps = [],
             dw_depends_on = [], dw_valid = False, dw_error = Some e\<rparr>))"

definition definition_file :: "dir_entry \<Rightarrow> bool" where
  "definition_file entry \<longleftrightarrow>
     extension (fst entry) \<in> {Some ''yml'', Some ''yaml'', Some ''toml''}"

definition discover_workflows ::
  "(string list \<Rightarrow> string list) \<Rightarrow> parsers \<Rightarrow> dir_entry list option \<Rightarrow> discovered_workflow list" where
  "discover_workflows hash_order ps dir =
     (case dir of
        None \<Rightarrow> []
      | Some entries \<Rightarrow>
          validate_dependencies hash_order
            (List.map_filter (discover_file ps)
              (sort_key fst (filter definition_file entries))))"

subsection \<open>The default flows\<close>

record case_tables =
  to_lowercase :: "string \<Rightarrow> string"
  char_to_uppercase :: "string \<Rightarrow> string"

text \<open>The bytes of the first character, by its UTF-8 lead byte.\<close>

definition first_char_len :: "string \<Rightarrow> nat" where
  "first_char_len s = (case s of [] \<Rightarrow> 0 | c # _ \<Rightarrow>
     (let n = (of_char c :: nat) in
      if n < 192 then 1 else if n < 224 then 2 else if n < 240 then 3 else 4))"

definition prettify_name :: "case_tables \<Rightarrow> string \<Rightarrow> string" where
  "prettify_name ct raw =
     (let spaced = List.map (\<lambda>c. if c = CHR ''_'' then CHR '' '' else c) raw;
          n = first_char_len spaced in
      if spaced = [] then []
      else char_to_uppercase ct (take n spaced) @ drop n spaced)"

fun flow_steps_loop ::
  "case_tables \<Rightarrow> string set \<Rightarrow> agent_step_config list \<Rightarrow> user_flow_step list" where
  "flow_steps_loop ct seen [] = []"
| "flow_steps_loop ct seen (step # steps) =
     (if is_command_step step then flow_steps_loop ct seen steps
      else
        let pretty = prettify_name ct (as_name step); key = to_lowercase ct pretty in
        if key \<in> seen then flow_steps_loop ct seen steps
        else \<lparr>fs_name = pretty, fs_prompt = as_prompt step, fs_skills = as_skills step\<rparr> #
             flow_steps_loop ct (insert key seen) steps)"

definition agent_steps_to_flow_steps :: "case_tables \<Rightarrow> agent_step_config list \<Rightarrow> user_flow_step list" where
  "agent_steps_to_flow_steps ct steps = flow_steps_loop ct {} steps"

definition kept_flow :: "case_tables \<Rightarrow> discovered_workflow \<Rightarrow> (string \<times> user_flow) option" where
  "kept_flow ct w =
     (let steps = agent_steps_to_flow_steps ct (dw_steps w) in
      if steps = [] then None
      else Some (dw_filename w,
        \<lparr>uf_name = prettify_name ct (dw_name w), uf_depends_on = dw_depends_on w, uf_steps = steps\<rparr>))"

definition rewrite_dependencies :: "(string \<rightharpoonup> string) \<Rightarrow> user_flow \<Rightarrow> user_flow" where
  "rewrite_dependencies filename_to_name f =
     f\<lparr>uf_depends_on := List.map_filter filename_to_name (uf_depends_on f)\<rparr>"

definition default_flows_from_dir ::
  "(string list \<Rightarrow> string list) \<Rightarrow> parsers \<Rightarrow> case_tables \<Rightarrow> dir_entry list option \<Rightarrow> user_flow list" where
  "default_flows_from_dir hash_order ps ct dir =
     (let flows = List.map_filter (kept_flow ct)
            (filter dw_valid (discover_workflows hash_order ps dir));
          filename_to_name = map_of (collect_map (List.map (\<lambda>(fn, f). (fn, uf_name f)) flows))
      in order_flows_dependencies_first
           (List.map (\<lambda>(fn, f). rewrite_dependencies filename_to_name f) flows))"

subsection \<open>What a discovered definition holds\<close>

definition discovered_ok :: "discovered_workflow \<Rightarrow> bool" where
  "discovered_ok w \<longleftrightarrow> dw_filename w \<noteq> [] \<and>
     (if dw_valid w then trim (dw_name w) \<noteq> [] \<and> dw_steps w \<noteq> [] \<and> list_all step_config_ok (dw_steps w)
        \<and> dw_error w = None
      else dw_error w \<noteq> None)"

lemma parse_workflow_file_ok:
  "parse_workflow_file ps entry = Inr w \<Longrightarrow> trim (wy_name w) \<noteq> [] \<and> wy_steps w \<noteq> []"
  by (auto simp: parse_workflow_file_def split: sum.splits if_splits)

lemma discover_file_ok: "discover_file ps entry = Some w \<Longrightarrow> discovered_ok w"
proof -
  assume *: "discover_file ps entry = Some w"
  have "steps \<noteq> [] \<and> list_all step_config_ok steps"
    if "parse_workflow_file ps entry = Inr y" "convert_steps (wy_steps y) fn = Inr steps" for y fn steps
    using parse_workflow_file_ok [OF that(1)] convert_steps_from_ok that(2)
    unfolding convert_steps_def by (metis length_0_conv)
  then show ?thesis
    using * parse_workflow_file_ok [of ps entry]
    by (auto simp: discover_file_def discovered_ok_def Let_def split: sum.splits if_splits)
qed

lemma validate_dependencies_discovered_ok:
  "\<forall>w \<in> set ws. discovered_ok w \<Longrightarrow> w \<in> set (validate_dependencies hash_order ws) \<Longrightarrow> discovered_ok w"
proof -
  assume ok: "\<forall>w \<in> set ws. discovered_ok w" and "w \<in> set (validate_dependencies hash_order ws)"
  then obtain v C where v: "v \<in> set ws" "w = check_circular C (check_missing (valid_filenames ws) v)"
    by (auto simp: validate_dependencies_alt Let_def)
  have inv: "discovered_ok (invalidate e u)" if "discovered_ok u" for e u
    using that by (auto simp: discovered_ok_def invalidate_def)
  have "discovered_ok (check_missing (valid_filenames ws) v)"
    using ok v inv by (auto simp: check_missing_def split: option.splits)
  then show ?thesis unfolding v using inv by (simp add: check_circular_def)
qed

lemma discover_workflows_ok: "\<forall>w \<in> set (discover_workflows hash_order ps dir). discovered_ok w"
proof (cases dir)
  case (Some entries)
  have "\<forall>w \<in> set (List.map_filter (discover_file ps) (sort_key fst (filter definition_file entries))).
      discovered_ok w"
    by (auto simp: mem_map_filter dest: discover_file_ok)
  from validate_dependencies_discovered_ok [OF this] show ?thesis
    by (auto simp: discover_workflows_def Some)
qed (simp add: discover_workflows_def)

lemma flow_steps_loop_ok:
  "list_all step_config_ok ss \<Longrightarrow> st \<in> set (flow_steps_loop ct seen ss) \<Longrightarrow>
     trim (fs_prompt st) \<noteq> [] \<or> fs_skills st \<noteq> []"
  by (induction ss arbitrary: seen)
    (auto simp: step_config_ok_def Let_def split: if_splits)

lemma flow_steps_loop_keys:
  "distinct (List.map (\<lambda>st. to_lowercase ct (fs_name st)) (flow_steps_loop ct seen ss)) \<and>
   (\<lambda>st. to_lowercase ct (fs_name st)) ` set (flow_steps_loop ct seen ss) \<inter> seen = {}"
  by (induction ss arbitrary: seen) (auto simp: Let_def)

lemma default_flows_steps:
  assumes "f \<in> set (default_flows_from_dir hash_order ps ct dir)"
  shows "\<exists>w \<in> set (discover_workflows hash_order ps dir). dw_valid w \<and> dw_steps w \<noteq> [] \<and>
    uf_steps f = agent_steps_to_flow_steps ct (dw_steps w) \<and> uf_steps f \<noteq> [] \<and>
    uf_name f = prettify_name ct (dw_name w)"
proof -
  let ?flows = "List.map_filter (kept_flow ct) (filter dw_valid (discover_workflows hash_order ps dir))"
  have "set (order_flows_dependencies_first xs) = set xs" for xs
    using order_loop_mset [of xs "[]" "{}"]
    by (metis add.right_neutral mset.simps(1) order_flows_dependencies_first_def set_mset_mset)
  then obtain fn g M where g: "(fn, g) \<in> set ?flows" "f = rewrite_dependencies M g"
    using assms by (auto simp: default_flows_from_dir_def Let_def)
  then obtain w where w: "w \<in> set (discover_workflows hash_order ps dir)" "dw_valid w"
    "kept_flow ct w = Some (fn, g)"
    by (auto simp: mem_map_filter)
  then have "dw_steps w \<noteq> []"
    by (auto simp: kept_flow_def agent_steps_to_flow_steps_def Let_def)
  then show ?thesis using w g(2)
    by (intro bexI [of _ w]) (auto simp: kept_flow_def Let_def rewrite_dependencies_def split: if_splits)
qed

subsection \<open>Properties\<close>

definition sample_parsers :: parsers where
  "sample_parsers = (let step = \<lparr>ys_run = None, ys_name = Some ''Do_it'', ys_prompt = Some ''go'',
       ys_commands = None, ys_repeat = None, ys_skills = None, ys_when = None,
       ys_resume_previous = None\<rparr> in
     \<lparr>toml_from_str = (\<lambda>_. Inr \<lparr>wy_name = ''t'', wy_steps = [step, step], wy_depends_on = []\<rparr>),
      yaml_from_str = (\<lambda>_. Inl ''bad'')\<rparr>)"

definition sample_case_tables :: case_tables where
  "sample_case_tables = \<lparr>to_lowercase = to_ascii_lowercase, char_to_uppercase = (\<lambda>s. s)\<rparr>"

definition sample_dir :: "dir_entry list option" where
  "sample_dir = Some [(''b.toml'', Inr []), (''a.yml'', Inr []), (''x.example.toml'', Inr []),
     (''.toml'', Inr []), (''notes.txt'', Inr [])]"

text \<open>
  Every discovered definition has a file name; a valid one has a name and steps, each
  either a command step without prompt and skills or an agent step with one of them, and an
  invalid one says why.
\<close>

lemma discovered_definitions_well_formed:
  "w \<in> set (discover_workflows hash_order ps dir) \<Longrightarrow> discovered_ok w"
  using discover_workflows_ok by blast


text \<open>
  Every seeded default flow has steps, each with a prompt or a skill, and no two of them
  have the same name in lower case.
\<close>

lemma default_flows_well_formed:
  assumes "f \<in> set (default_flows_from_dir hash_order ps ct dir)"
  shows "uf_steps f \<noteq> [] \<and>
    (\<forall>st \<in> set (uf_steps f). trim (fs_prompt st) \<noteq> [] \<or> fs_skills st \<noteq> []) \<and>
    distinct (List.map (\<lambda>st. to_lowercase ct (fs_name st)) (uf_steps f))"
proof -
  obtain w where w: "w \<in> set (discover_workflows hash_order ps dir)" "dw_valid w"
    "uf_steps f = agent_steps_to_flow_steps ct (dw_steps w)" "uf_steps f \<noteq> []"
    using default_flows_steps [OF assms] by blast
  then have "list_all step_config_ok (dw_steps w)"
    using discover_workflows_ok by (auto simp: discovered_ok_def)
  then show ?thesis
    using w(3,4) flow_steps_loop_ok flow_steps_loop_keys
    unfolding agent_steps_to_flow_steps_def by auto
qed


end
