(* ===== verification/Db_Enums.thy ===== *)
theory Db_Enums
  imports Prelude "HOL-Library.Product_Lexorder"
begin

text \<open>
  The enumerations of \<open>db/work_items/mod.rs\<close> and their text columns. Each is stored as a
  short name (\<open>as_str\<close>) and read back with \<open>from_str\<close>; the locale \<open>codec\<close> states what the
  queries rely on, and each enumeration of the code interprets it.
\<close>

subsection \<open>The contract of a text column\<close>

locale codec =
  fixes as_str :: "'a \<Rightarrow> string" and from_str :: "string \<Rightarrow> string + 'a"
  assumes decode_encode: "from_str (as_str x) = Inr x"
    and encode_decode: "from_str s = Inr x \<Longrightarrow> as_str x = s"
begin

lemma as_str_eq_iff: "as_str x = as_str y \<longleftrightarrow> x = y"
  by (metis decode_encode sum.inject(2))

lemma from_str_Inr_iff: "from_str s = Inr x \<longleftrightarrow> s = as_str x"
  using decode_encode encode_decode by blast

lemma decodable_iff: "(\<exists>x. from_str s = Inr x) \<longleftrightarrow> s \<in> range as_str"
  by (auto simp: from_str_Inr_iff)

end

subsection \<open>WorkItemStateKind\<close>

datatype work_item_state_kind =
    KPending | KAssigning | KRetrievingDetails | KCreatingWorktree | KAddressingTicket
  | KAddressingPrComments | KMergingBaseBranch | KReviewing | KCreatingPr | KDone | KStopped
  | KError | KPaused

fun kind_as_str :: "work_item_state_kind \<Rightarrow> string" where
  "kind_as_str KPending = ''pending''"
| "kind_as_str KAssigning = ''assigning''"
| "kind_as_str KRetrievingDetails = ''retrieving_details''"
| "kind_as_str KCreatingWorktree = ''creating_worktree''"
| "kind_as_str KAddressingTicket = ''addressing_ticket''"
| "kind_as_str KAddressingPrComments = ''addressing_pr_comments''"
| "kind_as_str KMergingBaseBranch = ''merging_base_branch''"
| "kind_as_str KReviewing = ''reviewing''"
| "kind_as_str KCreatingPr = ''creating_pr''"
| "kind_as_str KDone = ''done''"
| "kind_as_str KStopped = ''stopped''"
| "kind_as_str KError = ''error''"
| "kind_as_str KPaused = ''paused''"

definition kind_from_str :: "string \<Rightarrow> string + work_item_state_kind" where
  "kind_from_str s =
     (if s = ''pending'' then Inr KPending
      else if s = ''assigning'' then Inr KAssigning
      else if s = ''retrieving_details'' then Inr KRetrievingDetails
      else if s = ''creating_worktree'' then Inr KCreatingWorktree
      else if s = ''addressing_ticket'' then Inr KAddressingTicket
      else if s = ''addressing_pr_comments'' then Inr KAddressingPrComments
      else if s = ''merging_base_branch'' then Inr KMergingBaseBranch
      else if s = ''reviewing'' then Inr KReviewing
      else if s = ''creating_pr'' then Inr KCreatingPr
      else if s = ''done'' then Inr KDone
      else if s = ''stopped'' then Inr KStopped
      else if s = ''error'' then Inr KError
      else if s = ''paused'' then Inr KPaused
      else Inl (''unknown WorkItemStateKind: '' @ s))"

interpretation kind: codec kind_as_str kind_from_str
proof
  show "kind_from_str (kind_as_str x) = Inr x" for x
    by (cases x) (simp_all add: kind_from_str_def)
  show "kind_as_str x = s" if "kind_from_str s = Inr x" for s x
    using that by (auto simp: kind_from_str_def split: if_splits)
qed

subsection \<open>StepStatus\<close>

datatype db_step_status = SRunning | SSuccess | SFailed | SSkipped

fun status_as_str :: "db_step_status \<Rightarrow> string" where
  "status_as_str SRunning = ''running''"
| "status_as_str SSuccess = ''success''"
| "status_as_str SFailed = ''failed''"
| "status_as_str SSkipped = ''skipped''"

definition status_from_str :: "string \<Rightarrow> string + db_step_status" where
  "status_from_str s =
     (if s = ''running'' then Inr SRunning
      else if s = ''success'' then Inr SSuccess
      else if s = ''failed'' then Inr SFailed
      else if s = ''skipped'' then Inr SSkipped
      else Inl (''unknown StepStatus: '' @ s))"

interpretation status: codec status_as_str status_from_str
proof
  show "status_from_str (status_as_str x) = Inr x" for x
    by (cases x) (simp_all add: status_from_str_def)
  show "status_as_str x = s" if "status_from_str s = Inr x" for s x
    using that by (auto simp: status_from_str_def split: if_splits)
qed

subsection \<open>DefRunState\<close>

datatype db_run_state = DIdle | DRunning | DCompleted | DError

fun run_as_str :: "db_run_state \<Rightarrow> string" where
  "run_as_str DIdle = ''idle''"
| "run_as_str DRunning = ''running''"
| "run_as_str DCompleted = ''completed''"
| "run_as_str DError = ''error''"

definition run_from_str :: "string \<Rightarrow> string + db_run_state" where
  "run_from_str s =
     (if s = ''idle'' then Inr DIdle
      else if s = ''running'' then Inr DRunning
      else if s = ''completed'' then Inr DCompleted
      else if s = ''error'' then Inr DError
      else Inl (''unknown DefRunState: '' @ s))"

interpretation run: codec run_as_str run_from_str
proof
  show "run_from_str (run_as_str x) = Inr x" for x
    by (cases x) (simp_all add: run_from_str_def)
  show "run_as_str x = s" if "run_from_str s = Inr x" for s x
    using that by (auto simp: run_from_str_def split: if_splits)
qed

subsection \<open>LogStream\<close>

datatype log_stream = Stdout | Stderr | Info | System

fun stream_as_str :: "log_stream \<Rightarrow> string" where
  "stream_as_str Stdout = ''stdout''"
| "stream_as_str Stderr = ''stderr''"
| "stream_as_str Info = ''info''"
| "stream_as_str System = ''system''"

definition stream_from_str :: "string \<Rightarrow> string + log_stream" where
  "stream_from_str s =
     (if s = ''stdout'' then Inr Stdout
      else if s = ''stderr'' then Inr Stderr
      else if s = ''info'' then Inr Info
      else if s = ''system'' then Inr System
      else Inl (''unknown LogStream: '' @ s))"

interpretation stream: codec stream_as_str stream_from_str
proof
  show "stream_from_str (stream_as_str x) = Inr x" for x
    by (cases x) (simp_all add: stream_from_str_def)
  show "stream_as_str x = s" if "stream_from_str s = Inr x" for s x
    using that by (auto simp: stream_from_str_def split: if_splits)
qed

subsection \<open>PortMappingKind\<close>

datatype port_mapping_kind = PEditor | PTerminal | PDynamic | PRunCommand

fun port_as_str :: "port_mapping_kind \<Rightarrow> string" where
  "port_as_str PEditor = ''editor''"
| "port_as_str PTerminal = ''terminal''"
| "port_as_str PDynamic = ''dynamic''"
| "port_as_str PRunCommand = ''run_command''"

definition port_from_str :: "string \<Rightarrow> string + port_mapping_kind" where
  "port_from_str s =
     (if s = ''editor'' then Inr PEditor
      else if s = ''terminal'' then Inr PTerminal
      else if s = ''dynamic'' then Inr PDynamic
      else if s = ''run_command'' then Inr PRunCommand
      else Inl (''unknown PortMappingKind: '' @ s))"

interpretation port: codec port_as_str port_from_str
proof
  show "port_from_str (port_as_str x) = Inr x" for x
    by (cases x) (simp_all add: port_from_str_def)
  show "port_as_str x = s" if "port_from_str s = Inr x" for s x
    using that by (auto simp: port_from_str_def split: if_splits)
qed

end
