(* ===== verification/Work_Items_Db.thy ===== *)
theory Work_Items_Db
  imports Db_Enums User_Flows
begin

text \<open>
  The work-item tables (\<open>db/work_items/*.rs\<close> over the schema of
  \<open>migrations/20260117000001_work_items_and_logs.sql\<close> and its two successors). A table is the
  list of its rows in insertion order; an enumeration column holds its text, so that reading
  a row can fail. Foreign keys are enforced, as the pool opens SQLite with
  \<open>foreign_keys(true)\<close>. Every statement takes effect as a whole or not at all; whether it
  reaches the database is the business of the caller.
\<close>

subsection \<open>Rows\<close>

record 'k work_item_row =
  wi_id :: string
  wi_ticket_key :: string
  wi_workspace_name :: string
  wi_user_id :: "string option"
  wi_repository_id :: "string option"
  wi_private :: bool
  wi_started_manually :: bool
  wi_counts_toward_manual_cap :: bool
  wi_driver_started :: bool
  wi_jira_available :: bool
  wi_ticket_summary :: "string option"
  wi_ticket_description :: "string option"
  wi_ticket_type :: "string option"
  wi_ticket_url :: "string option"
  wi_acceptance_criteria :: "string option"
  wi_base_branch :: "string option"
  wi_branch_name :: "string option"
  wi_worktree_path :: "string option"
  wi_pr_url :: "string option"
  wi_pr_merged :: bool
  wi_last_session_id :: "string option"
  wi_state_kind :: 'k
  wi_state_payload :: "string option"
  wi_current_step_label :: "string option"
  wi_created_at :: int
  wi_started_at :: int
  wi_updated_at :: int

text \<open>A stored row has the text of its state kind and the soft-delete stamp.\<close>

record stored_work_item = "string work_item_row" +
  wi_deleted_at :: "int option"

record 's step_row =
  st_id :: int
  st_work_item_id :: string
  st_sequence :: int
  st_name :: string
  st_definition_filename :: "string option"
  st_status :: 's
  st_started_at :: int
  st_ended_at :: "int option"
  st_exit_code :: "int option"
  st_error_message :: "string option"

record 's definition_run_row =
  dr_work_item_id :: string
  dr_definition_filename :: string
  dr_state :: 's
  dr_error_message :: "string option"
  dr_started_at :: "int option"
  dr_ended_at :: "int option"

record 's log_line =
  ll_id :: int
  ll_work_item_id :: string
  ll_step_id :: "int option"
  ll_stream :: 's
  ll_content :: string
  ll_emitted_at :: int

record log_line_insert =
  li_work_item_id :: string
  li_step_id :: "int option"
  li_stream :: log_stream
  li_content :: string
  li_emitted_at :: int

record 'k port_mapping_row =
  pm_id :: int
  pm_work_item_id :: string
  pm_container_port :: int
  pm_host_port :: int
  pm_proxy_url :: string
  pm_path_token :: string
  pm_kind :: 'k
  pm_run_command_index :: "int option"
  pm_created_at :: int

record run_command_row =
  rc_work_item_id :: string
  rc_command_index :: int
  rc_name :: string
  rc_running :: bool
  rc_container_id :: "string option"
  rc_started_at :: "int option"
  rc_ended_at :: "int option"

record database =
  db_users :: "string set"
  db_items :: "stored_work_item list"
  db_steps :: "string step_row list"
  db_runs :: "string definition_run_row list"
  db_logs :: "string log_line list"
  db_ports :: "string port_mapping_row list"
  db_commands :: "run_command_row list"
  db_next_step :: int
  db_next_log :: int
  db_next_port :: int

text \<open>Reading a column of an enumeration, and the rows of a query one by one.\<close>

definition decode_column :: "(string \<Rightarrow> string + 'a) \<Rightarrow> string \<Rightarrow> db_error + 'a" where
  "decode_column from_str s = (case from_str s of Inl _ \<Rightarrow> Inl SqlError | Inr x \<Rightarrow> Inr x)"

fun decode_rows :: "('r \<Rightarrow> db_error + 'a) \<Rightarrow> 'r list \<Rightarrow> db_error + 'a list" where
  "decode_rows d [] = Inr []"
| "decode_rows d (r # rs) =
     (case d r of
        Inl e \<Rightarrow> Inl e
      | Inr x \<Rightarrow> (case decode_rows d rs of Inl e \<Rightarrow> Inl e | Inr xs \<Rightarrow> Inr (x # xs)))"

lemma decode_rows_Inr:
  "decode_rows d rs = Inr xs \<longleftrightarrow> list_all2 (\<lambda>r x. d r = Inr x) rs xs"
  by (induction rs arbitrary: xs) (auto simp: list_all2_Cons1)

subsection \<open>Reading work items\<close>

definition decode_work_item ::
  "('z::type) stored_work_item_scheme \<Rightarrow> db_error + work_item_state_kind work_item_row" where
  "decode_work_item r =
     (case decode_column kind_from_str (wi_state_kind r) of
        Inl e \<Rightarrow> Inl e
      | Inr k \<Rightarrow> Inr
          \<lparr>wi_id = wi_id r, wi_ticket_key = wi_ticket_key r, wi_workspace_name = wi_workspace_name r,
           wi_user_id = wi_user_id r, wi_repository_id = wi_repository_id r,
           wi_private = wi_private r, wi_started_manually = wi_started_manually r,
           wi_counts_toward_manual_cap = wi_counts_toward_manual_cap r,
           wi_driver_started = wi_driver_started r, wi_jira_available = wi_jira_available r,
           wi_ticket_summary = wi_ticket_summary r, wi_ticket_description = wi_ticket_description r,
           wi_ticket_type = wi_ticket_type r, wi_ticket_url = wi_ticket_url r,
           wi_acceptance_criteria = wi_acceptance_criteria r, wi_base_branch = wi_base_branch r,
           wi_branch_name = wi_branch_name r, wi_worktree_path = wi_worktree_path r,
           wi_pr_url = wi_pr_url r, wi_pr_merged = wi_pr_merged r,
           wi_last_session_id = wi_last_session_id r, wi_state_kind = k,
           wi_state_payload = wi_state_payload r, wi_current_step_label = wi_current_step_label r,
           wi_created_at = wi_created_at r, wi_started_at = wi_started_at r,
           wi_updated_at = wi_updated_at r\<rparr>)"

definition live :: "stored_work_item \<Rightarrow> bool" where
  "live r \<longleftrightarrow> wi_deleted_at r = None"

text \<open>\<open>ORDER BY started_at DESC LIMIT 1\<close>: among equals the one inserted first.\<close>

fun latest :: "stored_work_item list \<Rightarrow> stored_work_item option" where
  "latest [] = None"
| "latest (r # rs) =
     (case latest rs of
        None \<Rightarrow> Some r
      | Some b \<Rightarrow> if wi_started_at r \<ge> wi_started_at b then Some r else Some b)"

lemma latest_None [simp]: "latest rs = None \<longleftrightarrow> rs = []"
  by (cases rs) (auto split: option.splits)

lemma latest_Some:
  "latest rs = Some r \<Longrightarrow> r \<in> set rs \<and> (\<forall>x \<in> set rs. wi_started_at x \<le> wi_started_at r)"
  by (induction rs arbitrary: r) (fastforce split: option.splits if_splits)+

definition get_access_fields_by_ticket_key ::
  "database \<Rightarrow> string \<Rightarrow> (string option \<times> string option \<times> string) option" where
  "get_access_fields_by_ticket_key db ticket_key =
     map_option (\<lambda>r. (wi_user_id r, wi_repository_id r, wi_workspace_name r))
       (latest (filter (\<lambda>r. wi_ticket_key r = ticket_key \<and> live r) (db_items db)))"

definition newest_of_user :: "stored_work_item list \<Rightarrow> stored_work_item \<Rightarrow> bool" where
  "newest_of_user rows r \<longleftrightarrow>
     list_all (\<lambda>r2. wi_ticket_key r2 = wi_ticket_key r \<and> wi_user_id r2 = wi_user_id r \<and> live r2
       \<longrightarrow> wi_started_at r2 \<le> wi_started_at r) rows"

definition list_user_state_kinds ::
  "database \<Rightarrow> string \<Rightarrow> db_error + (string \<times> work_item_state_kind) list" where
  "list_user_state_kinds db user_id =
     decode_rows (\<lambda>r. case decode_column kind_from_str (wi_state_kind r) of
         Inl e \<Rightarrow> Inl e | Inr k \<Rightarrow> Inr (wi_ticket_key r, k))
       (filter (\<lambda>r. wi_user_id r = Some user_id \<and> live r \<and> newest_of_user (db_items db) r)
          (db_items db))"

definition decode_optional ::
  "stored_work_item option \<Rightarrow> db_error + work_item_state_kind work_item_row option" where
  "decode_optional row =
     (case row of
        None \<Rightarrow> Inr None
      | Some r \<Rightarrow> (case decode_work_item r of Inl e \<Rightarrow> Inl e | Inr w \<Rightarrow> Inr (Some w)))"

definition get_work_item_by_ticket_key ::
  "database \<Rightarrow> string \<Rightarrow> db_error + work_item_state_kind work_item_row option" where
  "get_work_item_by_ticket_key db ticket_key =
     decode_optional (latest (filter (\<lambda>r. wi_ticket_key r = ticket_key \<and> live r) (db_items db)))"

definition caller_can_see ::
  "('k, 'z) work_item_row_scheme \<Rightarrow> string option \<Rightarrow> bool \<Rightarrow> bool \<Rightarrow> bool" where
  "caller_can_see item caller_user_id caller_is_admin include_team_visible =
     (if caller_is_admin then True
      else (case caller_user_id of
              None \<Rightarrow> include_team_visible \<and> \<not> wi_private item
            | Some uid \<Rightarrow>
                if wi_user_id item = Some uid then True
                else include_team_visible \<and> \<not> wi_private item))"

definition get_work_item ::
  "database \<Rightarrow> string \<Rightarrow> string option \<Rightarrow> bool \<Rightarrow> db_error + work_item_state_kind work_item_row option" where
  "get_work_item db i caller_user_id caller_is_admin =
     (case decode_optional (List.find (\<lambda>r. wi_id r = i) (db_items db)) of
        Inr (Some item) \<Rightarrow>
          if \<not> caller_can_see item caller_user_id caller_is_admin False then Inr None
          else Inr (Some item)
      | other \<Rightarrow> other)"

record work_item_list_query =
  q_caller_user_id :: "string option"
  q_caller_is_admin :: bool
  q_workspace_name :: "string option"
  q_state_filter :: "work_item_state_kind list option"
  q_include_team_visible :: bool
  q_limit :: u32
  q_offset :: u32

text \<open>The visibility clause; the case without a caller and without team visibility is the
  early return of the code.\<close>

definition visible_clause :: "work_item_list_query \<Rightarrow> stored_work_item \<Rightarrow> bool" where
  "visible_clause q r =
     (if q_caller_is_admin q then True
      else (case (q_caller_user_id q, q_include_team_visible q) of
              (Some uid, True) \<Rightarrow> wi_user_id r = Some uid \<or> \<not> wi_private r
            | (Some uid, False) \<Rightarrow> wi_user_id r = Some uid
            | (None, True) \<Rightarrow> \<not> wi_private r
            | (None, False) \<Rightarrow> False))"

definition list_clause :: "work_item_list_query \<Rightarrow> stored_work_item \<Rightarrow> bool" where
  "list_clause q r \<longleftrightarrow> live r \<and>
     (case q_workspace_name q of None \<Rightarrow> True | Some ws \<Rightarrow> wi_workspace_name r = ws) \<and>
     (case q_state_filter q of
        None \<Rightarrow> True
      | Some ks \<Rightarrow> if ks = [] then True else wi_state_kind r \<in> set (List.map kind_as_str ks)) \<and>
     visible_clause q r"

definition newest_first :: "stored_work_item list \<Rightarrow> stored_work_item list" where
  "newest_first rs = rev (sort_key (\<lambda>r. (wi_started_at r, wi_id r)) rs)"

definition page :: "u32 \<Rightarrow> u32 \<Rightarrow> 'a list \<Rightarrow> 'a list" where
  "page limit offset xs = take (unat limit) (drop (unat offset) xs)"

definition list_work_items ::
  "database \<Rightarrow> work_item_list_query \<Rightarrow> db_error + work_item_state_kind work_item_row list" where
  "list_work_items db q =
     decode_rows decode_work_item
       (page (q_limit q) (q_offset q) (newest_first (filter (list_clause q) (db_items db))))"

definition list_all_for_restore :: "database \<Rightarrow> db_error + work_item_state_kind work_item_row list" where
  "list_all_for_restore db =
     decode_rows decode_work_item
       (sort_key (\<lambda>r. (wi_started_at r, wi_id r)) (filter live (db_items db)))"

definition count_runs_for_ticket :: "database \<Rightarrow> string \<Rightarrow> string \<Rightarrow> u32" where
  "count_runs_for_ticket db workspace_name ticket_key =
     of_nat (length (filter (\<lambda>r. wi_workspace_name r = workspace_name \<and> wi_ticket_key r = ticket_key)
       (db_items db)))"

definition latest_pr_url_for_ticket :: "database \<Rightarrow> string \<Rightarrow> string \<Rightarrow> string option" where
  "latest_pr_url_for_ticket db workspace_name ticket_key =
     (case latest (filter (\<lambda>r. wi_workspace_name r = workspace_name \<and> wi_ticket_key r = ticket_key \<and>
                wi_pr_url r \<noteq> None) (db_items db)) of
        None \<Rightarrow> None
      | Some r \<Rightarrow> wi_pr_url r)"

subsection \<open>Writing work items\<close>

definition encode_work_item :: "work_item_state_kind work_item_row \<Rightarrow> stored_work_item" where
  "encode_work_item r =
     \<lparr>wi_id = wi_id r, wi_ticket_key = wi_ticket_key r, wi_workspace_name = wi_workspace_name r,
      wi_user_id = wi_user_id r, wi_repository_id = wi_repository_id r,
      wi_private = wi_private r, wi_started_manually = wi_started_manually r,
      wi_counts_toward_manual_cap = wi_counts_toward_manual_cap r,
      wi_driver_started = wi_driver_started r, wi_jira_available = wi_jira_available r,
      wi_ticket_summary = wi_ticket_summary r, wi_ticket_description = wi_ticket_description r,
      wi_ticket_type = wi_ticket_type r, wi_ticket_url = wi_ticket_url r,
      wi_acceptance_criteria = wi_acceptance_criteria r, wi_base_branch = wi_base_branch r,
      wi_branch_name = wi_branch_name r, wi_worktree_path = wi_worktree_path r,
      wi_pr_url = wi_pr_url r, wi_pr_merged = wi_pr_merged r,
      wi_last_session_id = wi_last_session_id r, wi_state_kind = kind_as_str (wi_state_kind r),
      wi_state_payload = wi_state_payload r, wi_current_step_label = wi_current_step_label r,
      wi_created_at = wi_created_at r, wi_started_at = wi_started_at r,
      wi_updated_at = wi_updated_at r, wi_deleted_at = None\<rparr>"

definition has_item :: "database \<Rightarrow> string \<Rightarrow> bool" where
  "has_item db i \<longleftrightarrow> i \<in> wi_id ` set (db_items db)"

text \<open>
  The primary key on \<open>id\<close> and the foreign key on \<open>user_id\<close> can refuse the row; the unique
  index on workspace and ticket is gone since the soft-delete migration.
\<close>

definition insert_work_item :: "work_item_state_kind work_item_row \<Rightarrow> database \<Rightarrow> (db_error + unit) \<times> database" where
  "insert_work_item row db =
     (if has_item db (wi_id row) \<or>
         (case wi_user_id row of None \<Rightarrow> False | Some u \<Rightarrow> u \<notin> db_users db)
      then (Inl SqlError, db)
      else (Inr (), db\<lparr>db_items := db_items db @ [encode_work_item row]\<rparr>))"

text \<open>\<open>UPDATE work_items SET ... WHERE id = ?\<close>; no row with the id is no error.\<close>

definition update_item :: "string \<Rightarrow> (stored_work_item \<Rightarrow> stored_work_item) \<Rightarrow> database \<Rightarrow> database" where
  "update_item i f db =
     db\<lparr>db_items := List.map (\<lambda>r. if wi_id r = i then f r else r) (db_items db)\<rparr>"

definition update_work_item_state ::
  "string \<Rightarrow> work_item_state_kind \<Rightarrow> string option \<Rightarrow> string option \<Rightarrow> int \<Rightarrow> database \<Rightarrow> database" where
  "update_work_item_state i state_kind state_payload current_step_label now =
     update_item i (\<lambda>r. r\<lparr>wi_state_kind := kind_as_str state_kind, wi_state_payload := state_payload,
       wi_current_step_label := current_step_label, wi_updated_at := now\<rparr>)"

definition update_work_item_pr_url_and_state ::
  "string \<Rightarrow> string option \<Rightarrow> work_item_state_kind \<Rightarrow> string option \<Rightarrow> string option \<Rightarrow> int \<Rightarrow>
   database \<Rightarrow> database" where
  "update_work_item_pr_url_and_state i pr_url state_kind state_payload current_step_label now =
     update_item i (\<lambda>r. r\<lparr>wi_pr_url := pr_url, wi_state_kind := kind_as_str state_kind,
       wi_state_payload := state_payload, wi_current_step_label := current_step_label,
       wi_updated_at := now\<rparr>)"

definition update_pr_url :: "string \<Rightarrow> string option \<Rightarrow> int \<Rightarrow> database \<Rightarrow> database" where
  "update_pr_url i pr_url now =
     update_item i (\<lambda>r. r\<lparr>wi_pr_url := pr_url, wi_updated_at := now\<rparr>)"

definition update_branch_name :: "string \<Rightarrow> string option \<Rightarrow> int \<Rightarrow> database \<Rightarrow> database" where
  "update_branch_name i branch_name now =
     update_item i (\<lambda>r. r\<lparr>wi_branch_name := branch_name, wi_updated_at := now\<rparr>)"

definition update_work_item_branch_and_worktree ::
  "string \<Rightarrow> string option \<Rightarrow> string option \<Rightarrow> int \<Rightarrow> database \<Rightarrow> database" where
  "update_work_item_branch_and_worktree i branch_name worktree_path now =
     update_item i (\<lambda>r. r\<lparr>wi_branch_name := branch_name, wi_worktree_path := worktree_path,
       wi_updated_at := now\<rparr>)"

definition update_pr_merged :: "string \<Rightarrow> bool \<Rightarrow> int \<Rightarrow> database \<Rightarrow> database" where
  "update_pr_merged i pr_merged now =
     update_item i (\<lambda>r. r\<lparr>wi_pr_merged := pr_merged, wi_updated_at := now\<rparr>)"

text \<open>The foreign keys delete the child rows of a deleted work item, and clear the step of a
  log line whose step is gone; a log line of another item keeps its step unless that step
  belonged to the deleted item.\<close>

definition delete_work_item :: "string \<Rightarrow> database \<Rightarrow> database" where
  "delete_work_item i db =
     (let gone = st_id ` set (filter (\<lambda>s. st_work_item_id s = i) (db_steps db)) in
      db\<lparr>db_items := filter (\<lambda>r. wi_id r \<noteq> i) (db_items db),
         db_steps := filter (\<lambda>s. st_work_item_id s \<noteq> i) (db_steps db),
         db_runs := filter (\<lambda>d. dr_work_item_id d \<noteq> i) (db_runs db),
         db_logs := List.map (\<lambda>l. if (case ll_step_id l of None \<Rightarrow> False | Some s \<Rightarrow> s \<in> gone)
             then l\<lparr>ll_step_id := None\<rparr> else l)
           (filter (\<lambda>l. ll_work_item_id l \<noteq> i) (db_logs db)),
         db_ports := filter (\<lambda>p. pm_work_item_id p \<noteq> i) (db_ports db),
         db_commands := filter (\<lambda>c. rc_work_item_id c \<noteq> i) (db_commands db)\<rparr>)"

definition soft_delete_work_item :: "string \<Rightarrow> int \<Rightarrow> database \<Rightarrow> database" where
  "soft_delete_work_item i now = update_item i (\<lambda>r. r\<lparr>wi_deleted_at := Some now\<rparr>)"

subsection \<open>Counts by state\<close>

record state_counts =
  sc_pending :: nat
  sc_in_progress :: nat
  sc_done :: nat
  sc_stopped :: nat
  sc_error :: nat
  sc_paused :: nat

definition zero_counts :: state_counts where
  "zero_counts = \<lparr>sc_pending = 0, sc_in_progress = 0, sc_done = 0, sc_stopped = 0, sc_error = 0, sc_paused = 0\<rparr>"

fun add_count :: "work_item_state_kind \<Rightarrow> nat \<Rightarrow> state_counts \<Rightarrow> state_counts" where
  "add_count KPending n c = c\<lparr>sc_pending := sc_pending c + n\<rparr>"
| "add_count KDone n c = c\<lparr>sc_done := sc_done c + n\<rparr>"
| "add_count KStopped n c = c\<lparr>sc_stopped := sc_stopped c + n\<rparr>"
| "add_count KError n c = c\<lparr>sc_error := sc_error c + n\<rparr>"
| "add_count KPaused n c = c\<lparr>sc_paused := sc_paused c + n\<rparr>"
| "add_count _ n c = c\<lparr>sc_in_progress := sc_in_progress c + n\<rparr>"

text \<open>\<open>GROUP BY state_kind\<close> with the number of rows of each group.\<close>

definition group_counts :: "string list \<Rightarrow> (string \<times> nat) list" where
  "group_counts ks = List.map (\<lambda>k. (k, count_list ks k)) (remdups ks)"

definition count_by_state :: "database \<Rightarrow> string option \<Rightarrow> state_counts" where
  "count_by_state db workspace_name =
     fold (\<lambda>(k, n) c. case kind_from_str k of Inr kind \<Rightarrow> add_count kind n c | Inl _ \<Rightarrow> c)
       (group_counts (List.map wi_state_kind (filter (\<lambda>r. live r \<and>
          (case workspace_name of None \<Rightarrow> True | Some ws \<Rightarrow> wi_workspace_name r = ws)) (db_items db))))
       zero_counts"

subsection \<open>Definition runs\<close>

definition upsert_definition_run ::
  "string \<Rightarrow> string \<Rightarrow> db_run_state \<Rightarrow> string option \<Rightarrow> int option \<Rightarrow> int option \<Rightarrow> database \<Rightarrow>
   (db_error + unit) \<times> database" where
  "upsert_definition_run i fn state error_message started_at ended_at db =
     (if \<not> has_item db i then (Inl SqlError, db)
      else
        let row = \<lparr>dr_work_item_id = i, dr_definition_filename = fn, dr_state = run_as_str state,
                   dr_error_message = error_message, dr_started_at = started_at, dr_ended_at = ended_at\<rparr>;
            same = (\<lambda>d. dr_work_item_id d = i \<and> dr_definition_filename d = fn)
        in (Inr (),
            if list_ex same (db_runs db)
            then db\<lparr>db_runs := List.map (\<lambda>d. if same d then row else d) (db_runs db)\<rparr>
            else db\<lparr>db_runs := db_runs db @ [row]\<rparr>))"

definition start_definition_run ::
  "string \<Rightarrow> string \<Rightarrow> int \<Rightarrow> database \<Rightarrow> (db_error + unit) \<times> database" where
  "start_definition_run i fn started_at =
     upsert_definition_run i fn DRunning None (Some started_at) None"

definition finish_definition_run ::
  "string \<Rightarrow> string \<Rightarrow> db_run_state \<Rightarrow> string option \<Rightarrow> int \<Rightarrow> database \<Rightarrow> database" where
  "finish_definition_run i fn state error_message ended_at db =
     db\<lparr>db_runs := List.map (\<lambda>d. if dr_work_item_id d = i \<and> dr_definition_filename d = fn
        then d\<lparr>dr_state := run_as_str state, dr_error_message := error_message,
               dr_ended_at := Some ended_at\<rparr>
        else d) (db_runs db)\<rparr>"

definition decode_run :: "string definition_run_row \<Rightarrow> db_error + db_run_state definition_run_row" where
  "decode_run d =
     (case decode_column run_from_str (dr_state d) of
        Inl e \<Rightarrow> Inl e
      | Inr st \<Rightarrow> Inr \<lparr>dr_work_item_id = dr_work_item_id d,
          dr_definition_filename = dr_definition_filename d, dr_state = st,
          dr_error_message = dr_error_message d, dr_started_at = dr_started_at d,
          dr_ended_at = dr_ended_at d\<rparr>)"

definition list_definition_runs ::
  "database \<Rightarrow> string \<Rightarrow> db_error + db_run_state definition_run_row list" where
  "list_definition_runs db i =
     decode_rows decode_run
       (sort_key dr_definition_filename (filter (\<lambda>d. dr_work_item_id d = i) (db_runs db)))"

subsection \<open>Steps\<close>

text \<open>
  \<open>SELECT COALESCE(MAX(sequence), -1) + 1\<close>, the insert, and the read back of the id by item
  and sequence.
\<close>

definition next_sequence :: "database \<Rightarrow> string \<Rightarrow> int" where
  "next_sequence db i =
     fold (\<lambda>s m. max m (st_sequence s)) (filter (\<lambda>s. st_work_item_id s = i) (db_steps db)) (- 1) + 1"

definition record_step_start ::
  "string \<Rightarrow> string \<Rightarrow> string option \<Rightarrow> int \<Rightarrow> database \<Rightarrow> (db_error + int) \<times> database" where
  "record_step_start i name definition_filename started_at db =
     (let next_seq = next_sequence db i in
      if \<not> has_item db i then (Inl SqlError, db)
      else
        let db' = db\<lparr>db_steps := db_steps db @
              [\<lparr>st_id = db_next_step db, st_work_item_id = i, st_sequence = next_seq, st_name = name,
                st_definition_filename = definition_filename, st_status = status_as_str SRunning,
                st_started_at = started_at, st_ended_at = None, st_exit_code = None,
                st_error_message = None\<rparr>],
              db_next_step := db_next_step db + 1\<rparr>
        in (case List.find (\<lambda>s. st_work_item_id s = i \<and> st_sequence s = next_seq) (db_steps db') of
              None \<Rightarrow> (Inl SqlError, db')
            | Some s \<Rightarrow> (Inr (st_id s), db')))"

definition record_step_end ::
  "int \<Rightarrow> db_step_status \<Rightarrow> int option \<Rightarrow> string option \<Rightarrow> int \<Rightarrow> database \<Rightarrow> database" where
  "record_step_end step_id status exit_code error_message ended_at db =
     db\<lparr>db_steps := List.map (\<lambda>s. if st_id s = step_id
        then s\<lparr>st_status := status_as_str status, st_exit_code := exit_code,
               st_error_message := error_message, st_ended_at := Some ended_at\<rparr>
        else s) (db_steps db)\<rparr>"

definition decode_step :: "string step_row \<Rightarrow> db_error + db_step_status step_row" where
  "decode_step s =
     (case decode_column status_from_str (st_status s) of
        Inl e \<Rightarrow> Inl e
      | Inr st \<Rightarrow> Inr \<lparr>st_id = st_id s, st_work_item_id = st_work_item_id s,
          st_sequence = st_sequence s, st_name = st_name s,
          st_definition_filename = st_definition_filename s, st_status = st,
          st_started_at = st_started_at s, st_ended_at = st_ended_at s,
          st_exit_code = map_option (\<lambda>v. sint (word_of_int v :: 32 word)) (st_exit_code s),
          st_error_message = st_error_message s\<rparr>)"

definition list_steps :: "database \<Rightarrow> string \<Rightarrow> db_error + db_step_status step_row list" where
  "list_steps db i =
     decode_rows decode_step
       (sort_key st_sequence (filter (\<lambda>s. st_work_item_id s = i) (db_steps db)))"

text \<open>
  The latest completed runs of an item (all that share the greatest \<open>ended_at\<close>; \<open>MAX\<close> skips
  nulls), and the number of join pairs of a run with a step recorded under its file name.
\<close>

definition latest_completed :: "database \<Rightarrow> string \<Rightarrow> string definition_run_row list" where
  "latest_completed db i =
     (let done = filter (\<lambda>d. dr_work_item_id d = i \<and> dr_state d = ''completed'') (db_runs db);
          ends = List.map_filter dr_ended_at done
      in case ends of
           [] \<Rightarrow> []
         | e # es \<Rightarrow> filter (\<lambda>d. dr_ended_at d = Some (fold max es e)) done)"

definition count_steps_of_latest_completed_def :: "database \<Rightarrow> string list \<Rightarrow> (string \<times> u32) list" where
  "count_steps_of_latest_completed_def db ids =
     List.map_filter (\<lambda>i.
         let n = sum_list (List.map (\<lambda>d. length (filter (\<lambda>s. st_work_item_id s = i \<and>
               st_definition_filename s = Some (dr_definition_filename d)) (db_steps db)))
               (latest_completed db i))
         in if n = 0 then None else Some (i, of_nat n))
       (remdups ids)"

subsection \<open>Log lines\<close>

text \<open>
  A batch is one transaction: a line whose item (or step) does not exist rolls all back.
\<close>

fun insert_lines :: "log_line_insert list \<Rightarrow> database \<Rightarrow> database option" where
  "insert_lines [] db = Some db"
| "insert_lines (l # ls) db =
     (if \<not> has_item db (li_work_item_id l) \<or>
         (case li_step_id l of None \<Rightarrow> False | Some s \<Rightarrow> s \<notin> st_id ` set (db_steps db))
      then None
      else insert_lines ls (db\<lparr>db_logs := db_logs db @
             [\<lparr>ll_id = db_next_log db, ll_work_item_id = li_work_item_id l, ll_step_id = li_step_id l,
               ll_stream = stream_as_str (li_stream l), ll_content = li_content l,
               ll_emitted_at = li_emitted_at l\<rparr>],
             db_next_log := db_next_log db + 1\<rparr>))"

definition append_log_lines :: "log_line_insert list \<Rightarrow> database \<Rightarrow> (db_error + unit) \<times> database" where
  "append_log_lines batch db =
     (if batch = [] then (Inr (), db)
      else (case insert_lines batch db of
              None \<Rightarrow> (Inl SqlError, db)
            | Some db' \<Rightarrow> (Inr (), db')))"

record log_paging =
  lp_step_id :: "int option"
  lp_limit :: u32
  lp_offset :: u32

definition decode_log_line :: "string log_line \<Rightarrow> db_error + log_stream log_line" where
  "decode_log_line l =
     (case decode_column stream_from_str (ll_stream l) of
        Inl e \<Rightarrow> Inl e
      | Inr st \<Rightarrow> Inr \<lparr>ll_id = ll_id l, ll_work_item_id = ll_work_item_id l, ll_step_id = ll_step_id l,
          ll_stream = st, ll_content = ll_content l, ll_emitted_at = ll_emitted_at l\<rparr>)"

definition fetch_log_lines ::
  "database \<Rightarrow> string \<Rightarrow> log_paging \<Rightarrow> db_error + log_stream log_line list" where
  "fetch_log_lines db i paging =
     decode_rows decode_log_line
       (page (lp_limit paging) (lp_offset paging)
         (sort_key (\<lambda>l. (ll_emitted_at l, ll_id l))
           (filter (\<lambda>l. ll_work_item_id l = i \<and>
              (case lp_step_id paging of None \<Rightarrow> True | Some s \<Rightarrow> ll_step_id l = Some s)) (db_logs db))))"

definition purge_log_lines_older_than :: "int \<Rightarrow> database \<Rightarrow> nat \<times> database" where
  "purge_log_lines_older_than cutoff_emitted_at db =
     (length (filter (\<lambda>l. ll_emitted_at l < cutoff_emitted_at) (db_logs db)),
      db\<lparr>db_logs := filter (\<lambda>l. \<not> ll_emitted_at l < cutoff_emitted_at) (db_logs db)\<rparr>)"

subsection \<open>Port mappings\<close>

definition same_port :: "string \<Rightarrow> int \<Rightarrow> port_mapping_kind \<Rightarrow> string port_mapping_row \<Rightarrow> bool" where
  "same_port i container_port kind p \<longleftrightarrow>
     pm_work_item_id p = i \<and> pm_container_port p = container_port \<and> pm_kind p = port_as_str kind"

definition delete_port_mapping :: "string \<Rightarrow> int \<Rightarrow> port_mapping_kind \<Rightarrow> database \<Rightarrow> database" where
  "delete_port_mapping i container_port kind db =
     db\<lparr>db_ports := filter (\<lambda>p. \<not> same_port i container_port kind p) (db_ports db)\<rparr>"

text \<open>The delete stays when the insert is refused: two statements, no transaction.\<close>

definition upsert_port_mapping ::
  "string \<Rightarrow> int \<Rightarrow> int \<Rightarrow> string \<Rightarrow> string \<Rightarrow> port_mapping_kind \<Rightarrow> int option \<Rightarrow> int \<Rightarrow> database \<Rightarrow>
   (db_error + unit) \<times> database" where
  "upsert_port_mapping i container_port host_port proxy_url path_token kind run_command_index created_at db =
     (let db1 = delete_port_mapping i container_port kind db in
      if \<not> has_item db1 i then (Inl SqlError, db1)
      else (Inr (), db1\<lparr>db_ports := db_ports db1 @
              [\<lparr>pm_id = db_next_port db1, pm_work_item_id = i, pm_container_port = container_port,
                pm_host_port = host_port, pm_proxy_url = proxy_url, pm_path_token = path_token,
                pm_kind = port_as_str kind, pm_run_command_index = run_command_index,
                pm_created_at = created_at\<rparr>],
              db_next_port := db_next_port db1 + 1\<rparr>))"

definition delete_port_mappings_for_work_item :: "string \<Rightarrow> database \<Rightarrow> database" where
  "delete_port_mappings_for_work_item i db =
     db\<lparr>db_ports := filter (\<lambda>p. pm_work_item_id p \<noteq> i) (db_ports db)\<rparr>"

definition decode_port :: "string port_mapping_row \<Rightarrow> db_error + port_mapping_kind port_mapping_row" where
  "decode_port p =
     (case decode_column port_from_str (pm_kind p) of
        Inl e \<Rightarrow> Inl e
      | Inr k \<Rightarrow> Inr \<lparr>pm_id = pm_id p, pm_work_item_id = pm_work_item_id p,
          pm_container_port = sint (word_of_int (pm_container_port p) :: 32 word),
          pm_host_port = sint (word_of_int (pm_host_port p) :: 32 word),
          pm_proxy_url = pm_proxy_url p, pm_path_token = pm_path_token p, pm_kind = k,
          pm_run_command_index = map_option (\<lambda>v. sint (word_of_int v :: 32 word)) (pm_run_command_index p),
          pm_created_at = pm_created_at p\<rparr>)"

definition list_port_mappings :: "database \<Rightarrow> string \<Rightarrow> db_error + port_mapping_kind port_mapping_row list" where
  "list_port_mappings db i =
     decode_rows decode_port
       (sort_key (\<lambda>p. (pm_kind p, pm_container_port p)) (filter (\<lambda>p. pm_work_item_id p = i) (db_ports db)))"

subsection \<open>Run commands\<close>

definition same_command :: "string \<Rightarrow> int \<Rightarrow> run_command_row \<Rightarrow> bool" where
  "same_command i command_index c \<longleftrightarrow> rc_work_item_id c = i \<and> rc_command_index c = command_index"

definition upsert_run_command ::
  "string \<Rightarrow> int \<Rightarrow> string \<Rightarrow> bool \<Rightarrow> string option \<Rightarrow> int option \<Rightarrow> int option \<Rightarrow> database \<Rightarrow>
   (db_error + unit) \<times> database" where
  "upsert_run_command i command_index name running container_id started_at ended_at db =
     (if \<not> has_item db i then (Inl SqlError, db)
      else
        let row = \<lparr>rc_work_item_id = i, rc_command_index = command_index, rc_name = name,
                   rc_running = running, rc_container_id = container_id, rc_started_at = started_at,
                   rc_ended_at = ended_at\<rparr>
        in (Inr (),
            if list_ex (same_command i command_index) (db_commands db)
            then db\<lparr>db_commands := List.map (\<lambda>c. if same_command i command_index c then row else c) (db_commands db)\<rparr>
            else db\<lparr>db_commands := db_commands db @ [row]\<rparr>))"

definition start_run_command_row ::
  "string \<Rightarrow> int \<Rightarrow> string \<Rightarrow> string option \<Rightarrow> int \<Rightarrow> database \<Rightarrow> (db_error + unit) \<times> database" where
  "start_run_command_row i command_index name container_id started_at =
     upsert_run_command i command_index name True container_id (Some started_at) None"

definition finish_run_command_row :: "string \<Rightarrow> int \<Rightarrow> int \<Rightarrow> database \<Rightarrow> database" where
  "finish_run_command_row i command_index ended_at db =
     db\<lparr>db_commands := List.map (\<lambda>c. if same_command i command_index c
        then c\<lparr>rc_running := False, rc_ended_at := Some ended_at\<rparr> else c) (db_commands db)\<rparr>"

definition list_run_commands :: "database \<Rightarrow> string \<Rightarrow> run_command_row list" where
  "list_run_commands db i =
     sort_key rc_command_index (filter (\<lambda>c. rc_work_item_id c = i) (db_commands db))"

end
