(* ===== verification/Work_Items_Db_Props.thy ===== *)
theory Work_Items_Db_Props
  imports Work_Items_Db
begin

text \<open>
  What the work-item tables keep: the invariant of the database, that every statement of
  the preceding theory keeps it, and what the queries return.
\<close>

definition items_ok :: "stored_work_item list \<Rightarrow> bool" where
  "items_ok rs \<longleftrightarrow> distinct (List.map wi_id rs) \<and> (\<forall>r \<in> set rs. wi_state_kind r \<in> range kind_as_str)"

definition steps_ok :: "string set \<Rightarrow> int \<Rightarrow> string step_row list \<Rightarrow> bool" where
  "steps_ok ids next ss \<longleftrightarrow>
     distinct (List.map st_id ss) \<and> distinct (List.map (\<lambda>s. (st_work_item_id s, st_sequence s)) ss) \<and>
     (\<forall>s \<in> set ss. st_work_item_id s \<in> ids \<and> st_id s < next \<and> 0 \<le> st_sequence s \<and>
        st_status s \<in> range status_as_str)"

definition runs_ok :: "string set \<Rightarrow> string definition_run_row list \<Rightarrow> bool" where
  "runs_ok ids ds \<longleftrightarrow>
     distinct (List.map (\<lambda>d. (dr_work_item_id d, dr_definition_filename d)) ds) \<and>
     (\<forall>d \<in> set ds. dr_work_item_id d \<in> ids \<and> dr_state d \<in> range run_as_str)"

definition logs_ok :: "string set \<Rightarrow> int set \<Rightarrow> string log_line list \<Rightarrow> bool" where
  "logs_ok ids steps ls \<longleftrightarrow>
     (\<forall>l \<in> set ls. ll_work_item_id l \<in> ids \<and> (\<forall>s. ll_step_id l = Some s \<longrightarrow> s \<in> steps) \<and>
        ll_stream l \<in> range stream_as_str)"

definition ports_ok :: "string set \<Rightarrow> string port_mapping_row list \<Rightarrow> bool" where
  "ports_ok ids ps \<longleftrightarrow>
     distinct (List.map (\<lambda>p. (pm_work_item_id p, pm_container_port p, pm_kind p)) ps) \<and>
     (\<forall>p \<in> set ps. pm_work_item_id p \<in> ids \<and> pm_kind p \<in> range port_as_str)"

definition commands_ok :: "string set \<Rightarrow> run_command_row list \<Rightarrow> bool" where
  "commands_ok ids cs \<longleftrightarrow>
     distinct (List.map (\<lambda>c. (rc_work_item_id c, rc_command_index c)) cs) \<and>
     (\<forall>c \<in> set cs. rc_work_item_id c \<in> ids)"

definition item_ids :: "database \<Rightarrow> string set" where
  "item_ids db = wi_id ` set (db_items db)"

definition db_ok :: "database \<Rightarrow> bool" where
  "db_ok db \<longleftrightarrow> items_ok (db_items db) \<and> steps_ok (item_ids db) (db_next_step db) (db_steps db) \<and>
     runs_ok (item_ids db) (db_runs db) \<and>
     logs_ok (item_ids db) (st_id ` set (db_steps db)) (db_logs db) \<and>
     ports_ok (item_ids db) (db_ports db) \<and> commands_ok (item_ids db) (db_commands db)"

lemma has_item_iff: "has_item db i \<longleftrightarrow> i \<in> item_ids db"
  by (simp add: has_item_def item_ids_def)

subsection \<open>Work items\<close>

lemma children_mono:
  "steps_ok I n ss \<Longrightarrow> I \<subseteq> J \<Longrightarrow> steps_ok J n ss" "runs_ok I ds \<Longrightarrow> I \<subseteq> J \<Longrightarrow> runs_ok J ds"
  "logs_ok I S ls \<Longrightarrow> I \<subseteq> J \<Longrightarrow> S \<subseteq> T \<Longrightarrow> logs_ok J T ls" "ports_ok I ps \<Longrightarrow> I \<subseteq> J \<Longrightarrow> ports_ok J ps"
  "commands_ok I cs \<Longrightarrow> I \<subseteq> J \<Longrightarrow> commands_ok J cs"
  by (fastforce simp: steps_ok_def runs_ok_def logs_ok_def ports_ok_def commands_ok_def)+

lemma encode_simps [simp]: "wi_id (encode_work_item r) = wi_id r"
  "wi_state_kind (encode_work_item r) = kind_as_str (wi_state_kind r)"
  "wi_deleted_at (encode_work_item r) = None" "wi_started_at (encode_work_item r) = wi_started_at r"
  "wi_ticket_key (encode_work_item r) = wi_ticket_key r"
  "wi_workspace_name (encode_work_item r) = wi_workspace_name r"
  by (simp_all add: encode_work_item_def)

lemma insert_work_item_ok [state_intros]: "db_ok db \<Longrightarrow> db_ok (snd (insert_work_item row db))"
proof (cases "fst (insert_work_item row db)")
  case (Inr u)
  assume ok: "db_ok db"
  have new: "wi_id row \<notin> item_ids db" and
    eq: "snd (insert_work_item row db) = db\<lparr>db_items := db_items db @ [encode_work_item row]\<rparr>"
    using Inr by (auto simp: insert_work_item_def has_item_iff split: if_splits)
  have ids: "item_ids (db\<lparr>db_items := db_items db @ [encode_work_item row]\<rparr>) = insert (wi_id row) (item_ids db)"
    by (simp add: item_ids_def)
  have "items_ok (db_items db @ [encode_work_item row])"
    using ok new by (auto simp: db_ok_def items_ok_def item_ids_def)
  then show ?thesis
    using ok ids eq by (auto simp: db_ok_def intro: children_mono)
qed (auto simp: insert_work_item_def split: if_splits)

lemma update_item_simps [simp]:
  "db_steps (update_item i f db) = db_steps db" "db_runs (update_item i f db) = db_runs db"
  "db_logs (update_item i f db) = db_logs db" "db_ports (update_item i f db) = db_ports db"
  "db_commands (update_item i f db) = db_commands db"
  "db_next_step (update_item i f db) = db_next_step db"
  "db_users (update_item i f db) = db_users db"
  by (simp_all add: update_item_def)

text \<open>An update that keeps the id and writes the text of a kind keeps the invariant.\<close>

lemma update_item_ok:
  assumes "db_ok db" and "\<And>r. wi_id (f r) = wi_id r"
    and "\<And>r. wi_state_kind r \<in> range kind_as_str \<Longrightarrow> wi_state_kind (f r) \<in> range kind_as_str"
  shows "db_ok (update_item i f db)"
proof -
  have ids: "List.map wi_id (db_items (update_item i f db)) = List.map wi_id (db_items db)"
    by (simp add: update_item_def assms(2))
  then have "item_ids (update_item i f db) = item_ids db"
    unfolding item_ids_def by (metis set_map)
  moreover have "items_ok (db_items (update_item i f db))"
    using assms(1,3) ids by (auto simp: db_ok_def items_ok_def) (auto simp: update_item_def)
  ultimately show ?thesis using assms(1) by (simp add: db_ok_def)
qed

lemma update_ok [state_intros]:
  "db_ok db \<Longrightarrow> db_ok (update_work_item_state i k p l now db)"
  "db_ok db \<Longrightarrow> db_ok (update_work_item_pr_url_and_state i u k p l now db)"
  "db_ok db \<Longrightarrow> db_ok (update_pr_url i u now db)"
  "db_ok db \<Longrightarrow> db_ok (update_branch_name i b now db)"
  "db_ok db \<Longrightarrow> db_ok (update_work_item_branch_and_worktree i b w now db)"
  "db_ok db \<Longrightarrow> db_ok (update_pr_merged i m now db)"
  "db_ok db \<Longrightarrow> db_ok (soft_delete_work_item i now db)"
  by (auto simp: update_work_item_state_def update_work_item_pr_url_and_state_def update_pr_url_def
      update_branch_name_def update_work_item_branch_and_worktree_def update_pr_merged_def
      soft_delete_work_item_def intro!: update_item_ok)

lemma delete_work_item_ok [state_intros]: "db_ok db \<Longrightarrow> db_ok (delete_work_item i db)"
proof -
  assume ok: "db_ok db"
  let ?db = "delete_work_item i db"
  have ids: "item_ids ?db = item_ids db - {i}"
    by (auto simp: item_ids_def delete_work_item_def Let_def)
  have "items_ok (db_items ?db)" "steps_ok (item_ids ?db) (db_next_step ?db) (db_steps ?db)"
    "runs_ok (item_ids ?db) (db_runs ?db)" "ports_ok (item_ids ?db) (db_ports ?db)"
    "commands_ok (item_ids ?db) (db_commands ?db)"
    using ok unfolding ids
    by (auto simp: db_ok_def items_ok_def steps_ok_def runs_ok_def ports_ok_def commands_ok_def
        delete_work_item_def Let_def distinct_map_filter)
  moreover have "logs_ok (item_ids ?db) (st_id ` set (db_steps ?db)) (db_logs ?db)"
    using ok unfolding ids
    by (fastforce simp: db_ok_def logs_ok_def delete_work_item_def Let_def split: option.splits if_splits)
  ultimately show ?thesis by (simp add: db_ok_def)
qed

subsection \<open>Definition runs, ports and run commands\<close>

lemma distinct_map_replace:
  "distinct (List.map k xs) \<Longrightarrow> (\<And>x. P x \<Longrightarrow> k (f x) = k x) \<Longrightarrow>
     distinct (List.map k (List.map (\<lambda>x. if P x then f x else x) xs))"
proof -
  assume "distinct (List.map k xs)" "\<And>x. P x \<Longrightarrow> k (f x) = k x"
  moreover from this(2) have "List.map k (List.map (\<lambda>x. if P x then f x else x) xs) = List.map k xs"
    by auto
  ultimately show ?thesis by (simp only:)
qed

lemma runs_ok_replace:
  "runs_ok I ds \<Longrightarrow> (\<And>d. P d \<Longrightarrow> dr_work_item_id (f d) = dr_work_item_id d \<and>
     dr_definition_filename (f d) = dr_definition_filename d \<and> dr_state (f d) \<in> range run_as_str) \<Longrightarrow>
   runs_ok I (List.map (\<lambda>d. if P d then f d else d) ds)"
  unfolding runs_ok_def by (intro conjI distinct_map_replace; auto)

lemma commands_ok_replace:
  "commands_ok I cs \<Longrightarrow> (\<And>c. P c \<Longrightarrow> rc_work_item_id (f c) = rc_work_item_id c \<and>
     rc_command_index (f c) = rc_command_index c) \<Longrightarrow>
   commands_ok I (List.map (\<lambda>c. if P c then f c else c) cs)"
  unfolding commands_ok_def by (intro conjI distinct_map_replace; auto)

lemma upsert_definition_run_ok [state_intros]:
  "db_ok db \<Longrightarrow> db_ok (snd (upsert_definition_run i fn st e s t db))"
proof -
  assume ok: "db_ok db"
  let ?row = "\<lparr>dr_work_item_id = i, dr_definition_filename = fn, dr_state = run_as_str st,
    dr_error_message = e, dr_started_at = s, dr_ended_at = t\<rparr>"
  let ?same = "\<lambda>d. dr_work_item_id d = i \<and> dr_definition_filename d = fn"
  have r: "runs_ok (item_ids db) (db_runs db)" using ok by (simp add: db_ok_def)
  have "runs_ok (item_ids db) (List.map (\<lambda>d. if ?same d then ?row else d) (db_runs db))"
    by (rule runs_ok_replace [OF r]) auto
  moreover have "runs_ok (item_ids db) (db_runs db @ [?row])"
    if "has_item db i" "\<not> list_ex ?same (db_runs db)"
    using r that by (auto simp: runs_ok_def has_item_iff list_ex_iff)
  ultimately show ?thesis
    using ok by (auto simp: upsert_definition_run_def Let_def db_ok_def item_ids_def)
qed

lemma finish_definition_run_ok [state_intros]:
  "db_ok db \<Longrightarrow> db_ok (finish_definition_run i fn st e t db)"
proof -
  assume ok: "db_ok db"
  let ?same = "\<lambda>d. dr_work_item_id d = i \<and> dr_definition_filename d = fn"
  let ?f = "\<lambda>d. d\<lparr>dr_state := run_as_str st, dr_error_message := e, dr_ended_at := Some t\<rparr>"
  have "runs_ok (item_ids db) (List.map (\<lambda>d. if ?same d then ?f d else d) (db_runs db))"
    by (rule runs_ok_replace) (use ok in \<open>auto simp: db_ok_def\<close>)
  then show ?thesis using ok by (auto simp: finish_definition_run_def db_ok_def item_ids_def)
qed

lemma port_ok [state_intros]:
  "db_ok db \<Longrightarrow> db_ok (delete_port_mapping i c k db)"
  "db_ok db \<Longrightarrow> db_ok (delete_port_mappings_for_work_item i db)"
  by (auto simp: delete_port_mapping_def delete_port_mappings_for_work_item_def db_ok_def item_ids_def
      ports_ok_def distinct_map_filter)

lemma upsert_port_mapping_ok [state_intros]:
  "db_ok db \<Longrightarrow> db_ok (snd (upsert_port_mapping i c h u t k x n db))"
proof -
  assume "db_ok db"
  then have ok: "db_ok (delete_port_mapping i c k db)" by (rule port_ok)
  have "\<forall>p \<in> set (db_ports (delete_port_mapping i c k db)). \<not> same_port i c k p"
    by (simp add: delete_port_mapping_def)
  then show ?thesis
    using ok by (auto simp: upsert_port_mapping_def Let_def db_ok_def item_ids_def ports_ok_def
        has_item_def same_port_def)
qed

lemma upsert_run_command_ok [state_intros]:
  "db_ok db \<Longrightarrow> db_ok (snd (upsert_run_command i c n r cid s t db))"
proof -
  assume ok: "db_ok db"
  let ?row = "\<lparr>rc_work_item_id = i, rc_command_index = c, rc_name = n, rc_running = r,
    rc_container_id = cid, rc_started_at = s, rc_ended_at = t\<rparr>"
  have r: "commands_ok (item_ids db) (db_commands db)" using ok by (simp add: db_ok_def)
  have "commands_ok (item_ids db) (List.map (\<lambda>d. if same_command i c d then ?row else d) (db_commands db))"
    by (rule commands_ok_replace [OF r]) (auto simp: same_command_def)
  moreover have "commands_ok (item_ids db) (db_commands db @ [?row])"
    if "has_item db i" "\<not> list_ex (same_command i c) (db_commands db)"
    using r that by (auto simp: commands_ok_def has_item_iff list_ex_iff same_command_def)
  ultimately show ?thesis
    using ok by (auto simp: upsert_run_command_def Let_def db_ok_def item_ids_def)
qed

lemma finish_run_command_row_ok [state_intros]:
  "db_ok db \<Longrightarrow> db_ok (finish_run_command_row i c t db)"
proof -
  assume ok: "db_ok db"
  let ?f = "\<lambda>d. d\<lparr>rc_running := False, rc_ended_at := Some t\<rparr>"
  have "commands_ok (item_ids db) (List.map (\<lambda>d. if same_command i c d then ?f d else d) (db_commands db))"
    by (rule commands_ok_replace) (use ok in \<open>auto simp: db_ok_def\<close>)
  then show ?thesis using ok by (auto simp: finish_run_command_row_def db_ok_def item_ids_def)
qed

subsection \<open>Steps and log lines\<close>

lemma fold_max_ge: "m \<le> fold (\<lambda>s m. max m (f s)) xs (m :: int)"
  "x \<in> set xs \<Longrightarrow> f x \<le> fold (\<lambda>s m. max m (f s)) xs m"
proof (induction xs arbitrary: m)
  case (Cons y xs)
  { case 1 then show ?case using Cons(1) [of "max m (f y)"] by simp }
  { case 2 then show ?case using Cons(1) [of "max m (f y)"] Cons(2) [of "max m (f y)"] by auto }
qed simp_all

lemma next_sequence_fresh:
  "s \<in> set (db_steps db) \<Longrightarrow> st_work_item_id s = i \<Longrightarrow> st_sequence s < next_sequence db i"
  "0 \<le> next_sequence db i"
  unfolding next_sequence_def
  using fold_max_ge(2) [of s "filter (\<lambda>s. st_work_item_id s = i) (db_steps db)" st_sequence "- 1"]
    fold_max_ge(1) [of "- 1" st_sequence "filter (\<lambda>s. st_work_item_id s = i) (db_steps db)"]
  by auto

lemma find_append: "List.find P (xs @ ys) = (case List.find P xs of None \<Rightarrow> List.find P ys | Some x \<Rightarrow> Some x)"
  by (induction xs) auto

lemma record_step_start_eq:
  "has_item db i \<Longrightarrow> record_step_start i n fn t db = (Inr (db_next_step db), db\<lparr>db_steps := db_steps db @
     [\<lparr>st_id = db_next_step db, st_work_item_id = i, st_sequence = next_sequence db i, st_name = n,
       st_definition_filename = fn, st_status = status_as_str SRunning, st_started_at = t,
       st_ended_at = None, st_exit_code = None, st_error_message = None\<rparr>],
     db_next_step := db_next_step db + 1\<rparr>)"
proof -
  assume h: "has_item db i"
  have "List.find (\<lambda>s. st_work_item_id s = i \<and> st_sequence s = next_sequence db i) (db_steps db) = None"
    using next_sequence_fresh(1) by (fastforce simp: find_None_iff)
  then show ?thesis by (simp add: record_step_start_def Let_def h find_append)
qed

lemma record_step_start_ok [state_intros]: "db_ok db \<Longrightarrow> db_ok (snd (record_step_start i n fn t db))"
proof (cases "has_item db i")
  case True
  assume ok: "db_ok db"
  have S: "steps_ok (item_ids db) (db_next_step db) (db_steps db)" using ok by (simp add: db_ok_def)
  have new: "db_next_step db \<notin> st_id ` set (db_steps db)" using S by (auto simp: steps_ok_def)
  have seq: "(i, next_sequence db i) \<notin> (\<lambda>s. (st_work_item_id s, st_sequence s)) ` set (db_steps db)"
    using next_sequence_fresh(1) by force
  have lt: "\<forall>s \<in> set (db_steps db). st_id s < db_next_step db + 1" using S by (auto simp: steps_ok_def)
  have "steps_ok (item_ids db) (db_next_step db + 1) (db_steps (snd (record_step_start i n fn t db)))"
    using S new seq lt True next_sequence_fresh(2) [of db i] unfolding steps_ok_def
    by (simp add: record_step_start_eq has_item_iff del: status_as_str.simps)
  moreover have "logs_ok (item_ids db) (st_id ` set (db_steps (snd (record_step_start i n fn t db)))) (db_logs db)"
    using ok True by (auto simp: db_ok_def record_step_start_eq intro: children_mono(3))
  ultimately show ?thesis using ok True by (simp add: db_ok_def record_step_start_eq item_ids_def)
qed (simp add: record_step_start_def Let_def)

lemma record_step_end_ok [state_intros]: "db_ok db \<Longrightarrow> db_ok (record_step_end j st x e t db)"
proof -
  assume ok: "db_ok db"
  let ?f = "\<lambda>s. s\<lparr>st_status := status_as_str st, st_exit_code := x, st_error_message := e, st_ended_at := Some t\<rparr>"
  let ?ss = "List.map (\<lambda>s. if st_id s = j then ?f s else s) (db_steps db)"
  have "steps_ok (item_ids db) (db_next_step db) ?ss"
    using ok unfolding db_ok_def steps_ok_def by (intro conjI distinct_map_replace; auto)
  moreover have "List.map st_id ?ss = List.map st_id (db_steps db)" by simp
  then have "st_id ` set ?ss = st_id ` set (db_steps db)" by (metis set_map)
  ultimately show ?thesis using ok by (simp add: record_step_end_def db_ok_def item_ids_def)
qed

lemma insert_lines_frame:
  "insert_lines ls db = Some db' \<Longrightarrow> db_items db' = db_items db \<and> db_steps db' = db_steps db \<and>
     db_runs db' = db_runs db \<and> db_ports db' = db_ports db \<and> db_commands db' = db_commands db \<and>
     db_next_step db' = db_next_step db \<and> db_users db' = db_users db"
  by (induction ls arbitrary: db) (fastforce split: if_splits)+

lemma insert_lines_ok: "insert_lines ls db = Some db' \<Longrightarrow> db_ok db \<Longrightarrow> db_ok db'"
proof (induction ls arbitrary: db)
  case (Cons l ls)
  let ?db = "db\<lparr>db_logs := db_logs db @
     [\<lparr>ll_id = db_next_log db, ll_work_item_id = li_work_item_id l, ll_step_id = li_step_id l,
       ll_stream = stream_as_str (li_stream l), ll_content = li_content l,
       ll_emitted_at = li_emitted_at l\<rparr>], db_next_log := db_next_log db + 1\<rparr>"
  have l: "has_item db (li_work_item_id l)" "\<forall>s. li_step_id l = Some s \<longrightarrow> s \<in> st_id ` set (db_steps db)"
    "insert_lines ls ?db = Some db'"
    using Cons.prems(1) by (auto split: if_splits option.splits)
  have "db_ok ?db"
    using l(1,2) Cons.prems(2) by (auto simp: db_ok_def logs_ok_def item_ids_def has_item_def)
  then show ?case by (rule Cons.IH [OF l(3)])
qed simp

lemma append_log_lines_ok [state_intros]: "db_ok db \<Longrightarrow> db_ok (snd (append_log_lines b db))"
  by (auto simp: append_log_lines_def intro: insert_lines_ok split: option.splits)

lemma purge_ok [state_intros]: "db_ok db \<Longrightarrow> db_ok (snd (purge_log_lines_older_than c db))"
  by (auto simp: purge_log_lines_older_than_def db_ok_def logs_ok_def item_ids_def)

subsection \<open>Reachable databases\<close>

inductive db_step :: "database \<Rightarrow> database \<Rightarrow> bool" where
  "db_step db (snd (insert_work_item row db))"
| "db_step db (update_work_item_state i k p l now db)"
| "db_step db (update_work_item_pr_url_and_state i u k p l now db)"
| "db_step db (update_pr_url i u now db)"
| "db_step db (update_branch_name i b now db)"
| "db_step db (update_work_item_branch_and_worktree i b w now db)"
| "db_step db (update_pr_merged i m now db)"
| "db_step db (soft_delete_work_item i now db)"
| "db_step db (delete_work_item i db)"
| "db_step db (snd (upsert_definition_run i fn st e s t db))"
| "db_step db (finish_definition_run i fn st e t db)"
| "db_step db (snd (record_step_start i n fo t db))"
| "db_step db (record_step_end j ss x e t db)"
| "db_step db (snd (append_log_lines b db))"
| "db_step db (snd (purge_log_lines_older_than c db))"
| "db_step db (delete_port_mapping i cp pk db)"
| "db_step db (delete_port_mappings_for_work_item i db)"
| "db_step db (snd (upsert_port_mapping i cp hp u tok pk ri now db))"
| "db_step db (snd (upsert_run_command i ci n r cid s t db))"
| "db_step db (finish_run_command_row i ci t db)"

definition empty_db :: "string set \<Rightarrow> database" where
  "empty_db users = \<lparr>db_users = users, db_items = [], db_steps = [], db_runs = [], db_logs = [],
     db_ports = [], db_commands = [], db_next_step = 1, db_next_log = 1, db_next_port = 1\<rparr>"

lemma db_step_ok: "db_step db db' \<Longrightarrow> db_ok db \<Longrightarrow> db_ok db'"
  by (induction rule: db_step.induct) (auto intro: state_intros)

lemma reachable_db_ok: "db_step\<^sup>*\<^sup>* (empty_db users) db \<Longrightarrow> db_ok db"
proof (induction rule: rtranclp_induct)
  case base
  show ?case by (simp add: empty_db_def db_ok_def items_ok_def steps_ok_def runs_ok_def logs_ok_def
      ports_ok_def commands_ok_def)
qed (rule db_step_ok)

subsection \<open>What the queries return\<close>

text \<open>On a database with the invariant no row fails to decode.\<close>

lemma decode_work_item_ok:
  "wi_state_kind r \<in> range kind_as_str \<Longrightarrow>
     \<exists>w. decode_work_item r = Inr w \<and> kind_as_str (wi_state_kind w) = wi_state_kind r"
  by (auto simp: decode_work_item_def decode_column_def kind.decode_encode)

lemma decode_rows_total:
  "(\<And>r. r \<in> set rs \<Longrightarrow> \<exists>x. d r = Inr x) \<Longrightarrow> \<exists>xs. decode_rows d rs = Inr xs"
proof (induction rs)
  case (Cons r rs)
  then obtain x xs where "d r = Inr x" "decode_rows d rs = Inr xs" by fastforce
  then show ?case by simp
qed simp

lemma decode_work_item_fields:
  "decode_work_item r = Inr w \<Longrightarrow> wi_id w = wi_id r \<and> wi_user_id w = wi_user_id r \<and>
     wi_private w = wi_private r \<and> wi_workspace_name w = wi_workspace_name r \<and>
     wi_started_at w = wi_started_at r \<and> wi_ticket_key w = wi_ticket_key r \<and>
     kind_as_str (wi_state_kind w) = wi_state_kind r"
  by (auto simp: decode_work_item_def decode_column_def kind.from_str_Inr_iff split: sum.splits)

lemma decode_encode_work_item [simp]: "decode_work_item (encode_work_item w) = Inr w"
  by (cases w) (simp add: decode_work_item_def encode_work_item_def decode_column_def kind.decode_encode)

lemma visible_clause_iff:
  "visible_clause q r \<longleftrightarrow>
     caller_can_see r (q_caller_user_id q) (q_caller_is_admin q) (q_include_team_visible q)"
  by (auto simp: visible_clause_def caller_can_see_def split: option.splits bool.splits)

lemma set_newest_first [simp]: "set (newest_first rs) = set rs"
  by (simp add: newest_first_def)

lemma set_page: "set (page l f xs) \<subseteq> set xs"
  unfolding page_def by (meson order_trans set_drop_subset set_take_subset)

lemma caller_can_see_decoded:
  "decode_work_item r = Inr w \<Longrightarrow> caller_can_see w c a t \<longleftrightarrow> caller_can_see r c a t"
  using decode_work_item_fields [of r w] by (auto simp: caller_can_see_def split: option.splits)

lemma db_ok_kind: "db_ok db \<Longrightarrow> r \<in> set (db_items db) \<Longrightarrow> wi_state_kind r \<in> range kind_as_str"
  by (auto simp: db_ok_def items_ok_def)

lemma list_work_items_total: "db_ok db \<Longrightarrow> \<exists>xs. list_work_items db q = Inr xs"
  unfolding list_work_items_def
proof (rule decode_rows_total)
  fix r assume "db_ok db"
    "r \<in> set (page (q_limit q) (q_offset q) (newest_first (filter (list_clause q) (db_items db))))"
  then have "wi_state_kind r \<in> range kind_as_str"
    using set_page db_ok_kind by fastforce
  then show "\<exists>x. decode_work_item r = Inr x" using decode_work_item_ok by blast
qed

lemma list_all_for_restore_total: "db_ok db \<Longrightarrow> \<exists>xs. list_all_for_restore db = Inr xs"
  unfolding list_all_for_restore_def
  by (rule decode_rows_total) (use db_ok_kind decode_work_item_ok in \<open>fastforce\<close>)

lemma list_definition_runs_total: "db_ok db \<Longrightarrow> \<exists>xs. list_definition_runs db i = Inr xs"
  unfolding list_definition_runs_def
  by (rule decode_rows_total)
    (auto simp: db_ok_def runs_ok_def decode_run_def decode_column_def run.decode_encode)

lemma list_steps_total: "db_ok db \<Longrightarrow> \<exists>xs. list_steps db i = Inr xs"
  unfolding list_steps_def
proof (rule decode_rows_total)
  fix r assume "db_ok db" "r \<in> set (sort_key st_sequence (filter (\<lambda>s. st_work_item_id s = i) (db_steps db)))"
  then obtain st where "st_status r = status_as_str st" by (auto simp: db_ok_def steps_ok_def)
  then show "\<exists>x. decode_step r = Inr x" by (simp add: decode_step_def decode_column_def status.decode_encode)
qed

lemma listed_rows:
  assumes "list_work_items db q = Inr xs" "w \<in> set xs"
  shows "\<exists>r \<in> set (db_items db). live r \<and> decode_work_item r = Inr w \<and> list_clause q r"
proof -
  let ?rows = "page (q_limit q) (q_offset q) (newest_first (filter (list_clause q) (db_items db)))"
  have all: "list_all2 (\<lambda>r x. decode_work_item r = Inr x) ?rows xs"
    using assms(1) by (simp add: list_work_items_def decode_rows_Inr)
  obtain n where n: "n < length xs" "xs ! n = w" using assms(2) by (auto simp: in_set_conv_nth)
  have "decode_work_item (?rows ! n) = Inr w" "?rows ! n \<in> set ?rows"
    using all n by (auto simp: list_all2_conv_all_nth)
  moreover have "set ?rows \<subseteq> {r \<in> set (db_items db). list_clause q r}"
    using set_page [of "q_limit q" "q_offset q" "newest_first (filter (list_clause q) (db_items db))"] by simp
  moreover have "list_clause q r \<Longrightarrow> live r" for r by (simp add: list_clause_def)
  ultimately show ?thesis by blast
qed

text \<open>Counting by state counts every live row once.\<close>

definition total_count :: "state_counts \<Rightarrow> nat" where
  "total_count c = sc_pending c + sc_in_progress c + sc_done c + sc_stopped c + sc_error c + sc_paused c"

lemma total_add_count: "total_count (add_count k n c) = total_count c + n"
  by (cases k) (simp_all add: total_count_def)

lemma total_group_fold:
  "\<forall>k \<in> set ks. k \<in> range kind_as_str \<Longrightarrow>
     total_count (fold (\<lambda>(k, n) c. case kind_from_str k of Inr kind \<Rightarrow> add_count kind n c | Inl _ \<Rightarrow> c)
       (List.map (\<lambda>k. (k, g k)) ks) c) = total_count c + sum_list (List.map g ks)"
  by (induction ks arbitrary: c) (auto simp: kind.decode_encode total_add_count)

lemma sum_list_count_remdups: "sum_list (List.map (count_list ks) (remdups ks)) = length ks"
  using sum_count_set [of ks "set ks"] by (simp add: sum_list_distinct_conv_sum_set)

lemma total_count_by_state:
  assumes "db_ok db"
  shows "total_count (count_by_state db None) = length (filter live (db_items db))"
proof -
  let ?ks = "List.map wi_state_kind (filter live (db_items db))"
  have "\<forall>k \<in> set (remdups ?ks). k \<in> range kind_as_str" using db_ok_kind [OF assms] by auto
  from total_group_fold [OF this, of "count_list ?ks" zero_counts] show ?thesis
    by (simp add: count_by_state_def group_counts_def sum_list_count_remdups)
      (simp add: total_count_def zero_counts_def)
qed

lemma decode_rows_mem:
  "decode_rows d rs = Inr xs \<Longrightarrow> r \<in> set rs \<Longrightarrow> \<exists>x \<in> set xs. d r = Inr x"
  by (induction rs arbitrary: xs) auto

lemma decode_rows_from:
  "decode_rows d rs = Inr xs \<Longrightarrow> x \<in> set xs \<Longrightarrow> \<exists>r \<in> set rs. d r = Inr x"
  by (induction rs arbitrary: xs) auto

lemma page_all: "length xs \<le> unat limit \<Longrightarrow> page limit 0 xs = xs"
  by (simp add: page_def)

lemma soft_deleted_not_live:
  "r \<in> set (db_items (soft_delete_work_item i now db)) \<Longrightarrow> live r \<Longrightarrow> wi_id r \<noteq> i"
proof -
  assume "r \<in> set (db_items (soft_delete_work_item i now db))" and l: "live r"
  then obtain r0 where r: "r = (if wi_id r0 = i then r0\<lparr>wi_deleted_at := Some now\<rparr> else r0)"
    unfolding soft_delete_work_item_def update_item_def
    by (simp del: if_image_distrib add: image_iff) blast
  then show ?thesis using l by (cases "wi_id r0 = i") (simp_all add: live_def)
qed

lemma find_snoc_new:
  "\<forall>x \<in> set xs. \<not> P x \<Longrightarrow> P y \<Longrightarrow> List.find P (xs @ [y]) = Some y"
  by (induction xs) auto

lemma latest_snoc_newest:
  "\<forall>x \<in> set xs. wi_started_at x < wi_started_at y \<Longrightarrow> latest (xs @ [y]) = Some y"
  by (induction xs) auto

lemma insert_lines_logs:
  "insert_lines ls db = Some db' \<Longrightarrow>
     List.map ll_content (db_logs db') = List.map ll_content (db_logs db) @ List.map li_content ls"
  by (induction ls arbitrary: db) (auto split: if_split_asm)

lemma insert_lines_None:
  "insert_lines ls db = None \<longleftrightarrow> (\<exists>l \<in> set ls. \<not> has_item db (li_work_item_id l) \<or>
     (\<exists>s. li_step_id l = Some s \<and> s \<notin> st_id ` set (db_steps db)))"
  by (induction ls arbitrary: db) (auto simp: has_item_def split: option.splits)

subsection \<open>Properties\<close>

definition sample_row :: "string \<Rightarrow> int \<Rightarrow> work_item_state_kind work_item_row" where
  "sample_row i t = \<lparr>wi_id = i, wi_ticket_key = ''T-1'', wi_workspace_name = ''ws'', wi_user_id = Some ''ann'',
     wi_repository_id = None, wi_private = True, wi_started_manually = True,
     wi_counts_toward_manual_cap = True, wi_driver_started = False, wi_jira_available = True,
     wi_ticket_summary = None, wi_ticket_description = None, wi_ticket_type = None, wi_ticket_url = None,
     wi_acceptance_criteria = None, wi_base_branch = None, wi_branch_name = None, wi_worktree_path = None,
     wi_pr_url = None, wi_pr_merged = False, wi_last_session_id = None, wi_state_kind = KPending,
     wi_state_payload = None, wi_current_step_label = None, wi_created_at = t, wi_started_at = t,
     wi_updated_at = t\<rparr>"

definition sample_db :: database where
  "sample_db = snd (insert_work_item (sample_row ''i1'' 10) (empty_db {''ann''}))"

lemma sample_db_reachable: "db_step\<^sup>*\<^sup>* (empty_db {''ann''}) sample_db"
  unfolding sample_db_def by (rule r_into_rtranclp) (rule db_step.intros)

text \<open>
  Whatever statements have run, the tables keep their invariant (unique keys, no child row
  without its item, ascending step sequences, readable enumeration columns), and so reading
  the work items, the runs and the steps never fails.
\<close>

lemma reachable_database_readable:
  assumes "db_step\<^sup>*\<^sup>* (empty_db users) db"
  shows "db_ok db \<and> (\<exists>xs. list_work_items db q = Inr xs) \<and> (\<exists>xs. list_all_for_restore db = Inr xs) \<and>
    (\<exists>xs. list_definition_runs db i = Inr xs) \<and> (\<exists>xs. list_steps db i = Inr xs)"
  using reachable_db_ok [OF assms] list_work_items_total list_all_for_restore_total
    list_definition_runs_total list_steps_total by blast


text \<open>
  C31: a list query returns exactly the live rows of its workspace and kinds that its caller may
  see, by the same rule that guards the single lookup, as far as its page reaches.
\<close>

theorem list_work_items_respects_visibility:
  assumes ok: "db_ok db" and xs: "list_work_items db q = Inr xs"
  shows "(\<forall>w \<in> set xs. caller_can_see w (q_caller_user_id q) (q_caller_is_admin q) (q_include_team_visible q) \<and>
      (\<forall>ws. q_workspace_name q = Some ws \<longrightarrow> wi_workspace_name w = ws)) \<and>
    (q_offset q = 0 \<and> length (db_items db) \<le> unat (q_limit q) \<longrightarrow>
      wi_id ` set xs = wi_id ` {r \<in> set (db_items db). list_clause q r})"
proof (intro conjI ballI impI allI)
  fix w assume w: "w \<in> set xs"
  from listed_rows [OF xs w] obtain r where r: "decode_work_item r = Inr w" "list_clause q r" by blast
  then show "caller_can_see w (q_caller_user_id q) (q_caller_is_admin q) (q_include_team_visible q)"
    using caller_can_see_decoded [OF r(1)] by (simp add: list_clause_def visible_clause_iff)
  fix ws assume "q_workspace_name q = Some ws"
  then show "wi_workspace_name w = ws"
    using r decode_work_item_fields [OF r(1)] by (simp add: list_clause_def)
next
  assume a: "q_offset q = 0 \<and> length (db_items db) \<le> unat (q_limit q)"
  let ?rows = "newest_first (filter (list_clause q) (db_items db))"
  have "length ?rows \<le> length (db_items db)" by (simp add: newest_first_def)
  then have xs': "decode_rows decode_work_item ?rows = Inr xs"
    using xs a by (simp add: list_work_items_def page_all)
  show "wi_id ` set xs = wi_id ` {r \<in> set (db_items db). list_clause q r}"
  proof (intro equalityI subsetI; elim imageE)
    fix i w assume "i = wi_id w" "w \<in> set xs"
    then obtain r where "r \<in> set ?rows" "decode_work_item r = Inr w"
      using decode_rows_from [OF xs'] by blast
    then show "i \<in> wi_id ` {r \<in> set (db_items db). list_clause q r}"
      using decode_work_item_fields [of r w] \<open>i = wi_id w\<close> by (intro image_eqI [of _ _ r]) simp_all
  next
    fix i r assume "i = wi_id r" "r \<in> {r \<in> set (db_items db). list_clause q r}"
    then obtain w where "w \<in> set xs" "decode_work_item r = Inr w"
      using decode_rows_mem [OF xs', of r] by auto
    then show "i \<in> wi_id ` set xs"
      using decode_work_item_fields [of r w] \<open>i = wi_id r\<close> by (intro image_eqI [of _ _ w]) simp_all
  qed
qed

definition sample_query :: "string \<Rightarrow> work_item_list_query" where
  "sample_query u = \<lparr>q_caller_user_id = Some u, q_caller_is_admin = False, q_workspace_name = Some ''ws'',
     q_state_filter = None, q_include_team_visible = True, q_limit = 50, q_offset = 0\<rparr>"

theorem list_work_items_respects_visibility_witness:
  "list_work_items sample_db (sample_query ''bob'') = Inr [] \<and>
   list_work_items sample_db (sample_query ''ann'') = Inr [sample_row ''i1'' 10] \<and>
   caller_can_see (sample_row ''i1'' 10) (Some ''ann'') False True"
proof -
  have a: "list_work_items sample_db (sample_query ''ann'') = Inr [sample_row ''i1'' 10]"
    and b: "list_work_items sample_db (sample_query ''bob'') = Inr []"
    by code_simp+
  then show ?thesis
    using list_work_items_respects_visibility [OF reachable_db_ok [OF sample_db_reachable] a]
    by (simp add: sample_query_def)
qed

text \<open>
  An inserted work item reads back as it was written, by its id and, when it was started
  last, by its ticket key.
\<close>

lemma inserted_work_item_reads_back:
  assumes "insert_work_item row db = (Inr (), db')"
    and "\<forall>r \<in> set (db_items db). wi_ticket_key r = wi_ticket_key row \<and> live r \<longrightarrow> wi_started_at r < wi_started_at row"
  shows "get_work_item db' (wi_id row) caller True = Inr (Some row) \<and>
    get_work_item_by_ticket_key db' (wi_ticket_key row) = Inr (Some row)"
proof -
  have new: "\<forall>r \<in> set (db_items db). wi_id r \<noteq> wi_id row" and
    db': "db_items db' = db_items db @ [encode_work_item row]"
    using assms(1) by (force simp: insert_work_item_def has_item_def split: if_splits)+
  have "List.find (\<lambda>r. wi_id r = wi_id row) (db_items db') = Some (encode_work_item row)"
    unfolding db' using new by (intro find_snoc_new) auto
  moreover have "latest (filter (\<lambda>r. wi_ticket_key r = wi_ticket_key row \<and> live r) (db_items db')) =
      Some (encode_work_item row)"
    unfolding db' using assms(2) by (simp add: live_def latest_snoc_newest)
  ultimately show ?thesis
    by (simp add: get_work_item_def get_work_item_by_ticket_key_def decode_optional_def caller_can_see_def)
qed


text \<open>
  A soft-deleted work item is in no live query, while its steps, runs and log lines stay and
  the number of runs of its ticket does not change.
\<close>

lemma soft_delete_keeps_history:
  fixes i now db
  defines "db' \<equiv> soft_delete_work_item i now db"
  shows "(\<forall>xs. list_work_items db' q = Inr xs \<longrightarrow> i \<notin> wi_id ` set xs) \<and>
    (\<forall>xs. list_all_for_restore db' = Inr xs \<longrightarrow> i \<notin> wi_id ` set xs) \<and>
    (\<forall>k w. get_work_item_by_ticket_key db' k = Inr (Some w) \<longrightarrow> wi_id w \<noteq> i) \<and>
    db_steps db' = db_steps db \<and> db_runs db' = db_runs db \<and> db_logs db' = db_logs db \<and>
    (\<forall>ws k. count_runs_for_ticket db' ws k = count_runs_for_ticket db ws k)"
proof (intro conjI allI impI)
  show "i \<notin> wi_id ` set xs" if "list_work_items db' q = Inr xs" for xs
    using listed_rows [OF that] soft_deleted_not_live decode_work_item_fields
    unfolding db'_def by fastforce
  show "i \<notin> wi_id ` set xs" if "list_all_for_restore db' = Inr xs" for xs
    using decode_rows_from [OF that [unfolded list_all_for_restore_def]] soft_deleted_not_live decode_work_item_fields
    unfolding db'_def by fastforce
  show "wi_id w \<noteq> i" if *: "get_work_item_by_ticket_key db' k = Inr (Some w)" for k w
  proof -
    obtain r where "latest (filter (\<lambda>r. wi_ticket_key r = k \<and> live r) (db_items db')) = Some r"
      "decode_work_item r = Inr w"
      using * by (auto simp: get_work_item_by_ticket_key_def decode_optional_def split: option.splits sum.splits)
    then show ?thesis
      using latest_Some soft_deleted_not_live decode_work_item_fields unfolding db'_def by fastforce
  qed
  show "count_runs_for_ticket db' ws k = count_runs_for_ticket db ws k" for ws k
    unfolding db'_def count_runs_for_ticket_def soft_delete_work_item_def update_item_def
    by (simp add: filter_map o_def if_distrib cong: if_cong)
qed (simp_all add: db'_def soft_delete_work_item_def)


text \<open>
  A batch of log lines is written as a whole, in its order after the lines already there,
  or, when a line names an unknown item or step, not at all.
\<close>

lemma append_log_lines_atomic:
  "append_log_lines batch db = (Inl SqlError, db) \<and>
     (\<exists>l \<in> set batch. \<not> has_item db (li_work_item_id l) \<or>
        (\<exists>s. li_step_id l = Some s \<and> s \<notin> st_id ` set (db_steps db))) \<or>
   (\<exists>db'. append_log_lines batch db = (Inr (), db') \<and>
      List.map ll_content (db_logs db') = List.map ll_content (db_logs db) @ List.map li_content batch \<and>
      db_items db' = db_items db \<and> db_steps db' = db_steps db \<and> db_runs db' = db_runs db)"
proof (cases "insert_lines batch db")
  case None
  then have "batch \<noteq> []" by auto
  then show ?thesis using None insert_lines_None [of batch db] by (simp add: append_log_lines_def)
next
  case (Some db')
  then show ?thesis
    using insert_lines_logs [OF Some] insert_lines_frame [OF Some]
    by (cases "batch = []") (auto simp: append_log_lines_def)
qed


text \<open>
  The counts by state add up to the live rows: each is counted once, under one heading.
\<close>

lemma counts_cover_live_rows:
  assumes "db_ok db"
  shows "total_count (count_by_state db None) = length (filter live (db_items db))"
  by (rule total_count_by_state [OF assms])


subsection \<open>Definition runs and steps\<close>

text \<open>
  Starting a definition run and finishing it leaves one row for the item and the
  definition, with the start time of the start and the state and end time of the finish;
  finishing a run that was never started writes nothing.
\<close>

lemma definition_run_start_finish:
  fixes db db1 db2 :: database and i fn st e t0 t1
  assumes "db_ok db" and "has_item db i"
  defines "db1 \<equiv> snd (start_definition_run i fn t0 db)"
  defines "db2 \<equiv> finish_definition_run i fn st e t1 db1"
  shows "filter (\<lambda>d. dr_work_item_id d = i \<and> dr_definition_filename d = fn) (db_runs db2) =
      [\<lparr>dr_work_item_id = i, dr_definition_filename = fn, dr_state = run_as_str st,
        dr_error_message = e, dr_started_at = Some t0, dr_ended_at = Some t1\<rparr>] \<and>
    ((\<forall>d \<in> set (db_runs db). \<not> (dr_work_item_id d = i \<and> dr_definition_filename d = fn)) \<longrightarrow>
      finish_definition_run i fn st e t1 db = db)"
proof (intro conjI impI)
  let ?same = "\<lambda>d. dr_work_item_id d = i \<and> dr_definition_filename d = fn"
  let ?row = "\<lparr>dr_work_item_id = i, dr_definition_filename = fn, dr_state = run_as_str DRunning,
    dr_error_message = None, dr_started_at = Some t0, dr_ended_at = None\<rparr>"
  have one: "filter ?same (List.map (\<lambda>d. if ?same d then r else d) ds) = [r]"
    if "distinct (List.map (\<lambda>d. (dr_work_item_id d, dr_definition_filename d)) ds)" "list_ex ?same ds" "?same r"
    for ds and r :: "string definition_run_row"
    using that by (induction ds) (auto simp: filter_empty_conv image_iff list_ex_iff)
  have d: "distinct (List.map (\<lambda>d. (dr_work_item_id d, dr_definition_filename d)) (db_runs db))"
    using assms(1) by (simp add: db_ok_def runs_ok_def)
  have "filter ?same (db_runs db1) = [?row]"
  proof (cases "list_ex ?same (db_runs db)")
    case True
    then show ?thesis
      using one [OF d True, of ?row] assms(2)
      by (simp add: db1_def start_definition_run_def upsert_definition_run_def Let_def del: run_as_str.simps)
  next
    case False
    then show ?thesis
      using assms(2)
      by (auto simp: db1_def start_definition_run_def upsert_definition_run_def Let_def list_ex_iff
          filter_empty_conv)
  qed
  moreover have "filter ?same (List.map (\<lambda>d. if ?same d then f d else d) ds) = List.map f (filter ?same ds)"
    if "\<And>d. ?same (f d) = ?same d" for ds and f :: "string definition_run_row \<Rightarrow> string definition_run_row"
    using that by (induction ds) auto
  ultimately show "filter ?same (db_runs db2) = [\<lparr>dr_work_item_id = i, dr_definition_filename = fn,
      dr_state = run_as_str st, dr_error_message = e, dr_started_at = Some t0, dr_ended_at = Some t1\<rparr>]"
    by (simp add: db2_def finish_definition_run_def)
  assume "\<forall>d \<in> set (db_runs db). \<not> ?same d"
  then have "List.map (\<lambda>d. if ?same d then f d else d) (db_runs db) = db_runs db" for f
    by (intro map_idI) auto
  then show "finish_definition_run i fn st e t1 db = db"
    by (simp add: finish_definition_run_def)
qed


text \<open>
  A run repeated under the same definition file name adds its steps to those of the earlier
  run: the count of the steps of the latest completed run then counts both. Here one step
  was run twice, and the latest run executed one.
\<close>

definition rerun_db :: database where
  "rerun_db =
     (let once = (\<lambda>t db. finish_definition_run ''i1'' ''plan'' DCompleted None (t + 2)
            (snd (record_step_start ''i1'' ''step'' (Some ''plan'') (t + 1)
               (snd (start_definition_run ''i1'' ''plan'' t db)))))
      in once 100 (once 20 sample_db))"

lemma step_count_sums_reruns:
  "count_steps_of_latest_completed_def rerun_db [''i1''] = [(''i1'', 2)] \<and>
   length (filter (\<lambda>s. st_started_at s \<ge> 100) (db_steps rerun_db)) = 1"
  by code_simp

end
