(* ===== verification/Workflow_Types.thy ===== *)
theory Workflow_Types
  imports Workflow_State Work_Items_Db "HOL-Library.Countable"
begin

text \<open>
  \<open>workflow/engine/types.rs\<close>: the workflow record the engine keeps in memory, the events it
  broadcasts, and the conversions to and from the database row and the snapshot record of
  \<open>workflow/snapshot.rs\<close>. A path is its text; the lock that serialises worktree creation is
  left out, for every operation here is atomic.
\<close>

datatype ticketing_system = TicketingNone | Jira | GitHub

record terminal_line =
  tl_text :: string
  tl_stream :: string

record auth_pin =
  ap_provider :: string
  ap_provider_credential_row_id :: "int option"
  ap_github_mode :: string
  ap_github_credential_row_id :: "int option"
  ap_started_at :: string

text \<open>\<open>workflow_def_runs\<close>: a map from definition file names to run states.\<close>

type_synonym def_runs = "(string \<times> def_run_state) list"

record workflow =
  wf_id :: string
  wf_ticket_key :: string
  wf_ticket_summary :: string
  wf_ticket_description :: string
  wf_ticket_type :: string
  wf_state :: workflow_state
  wf_started_at :: time
  wf_updated_at :: time
  wf_steps_log :: "step_log list"
  wf_branch_name :: string
  wf_worktree_path :: "string option"
  wf_pr_url :: "string option"
  wf_pr_merged :: bool
  wf_cancel_token :: nat
  wf_current_def_total_steps :: "u32 option"
  wf_terminal_lines :: "terminal_line list"
  wf_current_step_label :: "string option"
  wf_started_manually :: bool
  wf_jira_available :: bool
  wf_ticketing_available :: bool
  wf_ticketing_system :: ticketing_system
  wf_ticket_url :: "string option"
  wf_last_session_id :: "string option"
  wf_description_session_id :: "string option"
  wf_driver_started :: bool
  wf_def_runs :: def_runs
  wf_worktree_bootstrapped :: bool
  wf_worktree_preparing :: bool
  wf_workspace_name :: string
  wf_repository_id :: "string option"
  wf_user_id :: "string option"
  wf_auth_pin :: "auth_pin option"

record workflow_event =
  ev_type :: string
  ev_workflow_id :: string
  ev_ticket_key :: string
  ev_state :: string
  ev_timestamp :: time
  ev_error :: "string option"
  ev_step_name :: "string option"
  ev_output_line :: "string option"
  ev_stream :: "string option"
  ev_progress_percent :: "u8 option"
  ev_progress_steps_total :: "u32 option"
  ev_forwarded_port :: "(16 word \<times> 16 word) option"
  ev_pr_merged :: "bool option"
  ev_user_id :: "string option"
  ev_provider_from :: "string option"
  ev_provider_to :: "string option"
  ev_affected_users :: "string list option"
  ev_auth_warning_code :: "string option"
  ev_auth_warning_message :: "string option"

definition default_event :: "time \<Rightarrow> workflow_event" where
  "default_event now =
     \<lparr>ev_type = [], ev_workflow_id = [], ev_ticket_key = [], ev_state = [], ev_timestamp = now,
      ev_error = None, ev_step_name = None, ev_output_line = None, ev_stream = None,
      ev_progress_percent = None, ev_progress_steps_total = None, ev_forwarded_port = None,
      ev_pr_merged = None, ev_user_id = None, ev_provider_from = None, ev_provider_to = None,
      ev_affected_users = None, ev_auth_warning_code = None, ev_auth_warning_message = None\<rparr>"

text \<open>
  A new workflow: \<open>now\<close> is the clock, \<open>uuid\<close> the fresh identifier, \<open>token\<close> the fresh
  cancellation token.
\<close>

definition workflow_new ::
  "time \<Rightarrow> string \<Rightarrow> nat \<Rightarrow> string \<Rightarrow> string \<Rightarrow> bool \<Rightarrow> bool \<Rightarrow> ticketing_system \<Rightarrow> string option \<Rightarrow>
   string \<Rightarrow> workflow" where
  "workflow_new now uuid token ticket_key ticket_summary started_manually jira_available
      ticketing_system ticket_url workspace_name =
     \<lparr>wf_id = uuid, wf_ticket_key = ticket_key, wf_ticket_summary = ticket_summary,
      wf_ticket_description = [], wf_ticket_type = ''Task'', wf_state = Pending,
      wf_started_at = now, wf_updated_at = now, wf_steps_log = [], wf_branch_name = [],
      wf_worktree_path = None, wf_pr_url = None, wf_pr_merged = False, wf_cancel_token = token,
      wf_current_def_total_steps = None, wf_terminal_lines = [], wf_current_step_label = None,
      wf_started_manually = started_manually, wf_jira_available = jira_available,
      wf_ticketing_available = (ticketing_system \<noteq> TicketingNone),
      wf_ticketing_system = ticketing_system, wf_ticket_url = ticket_url,
      wf_last_session_id = None, wf_description_session_id = None, wf_driver_started = False,
      wf_def_runs = [], wf_worktree_bootstrapped = False, wf_worktree_preparing = False,
      wf_workspace_name = workspace_name, wf_repository_id = None, wf_user_id = None,
      wf_auth_pin = None\<rparr>"

fun status_display :: "workflow \<Rightarrow> string" where
  "status_display w =
     (case wf_state w of
        AddressingTicket _ \<Rightarrow> unwrap_or ''Running agent steps'' (wf_current_step_label w)
      | AddressingPrComments _ \<Rightarrow> unwrap_or ''Addressing PR comments'' (wf_current_step_label w)
      | s \<Rightarrow> display_name s)"

subsection \<open>State kind and payload\<close>

text \<open>\<open>serde_json\<close> for a workflow state: writing may fail (\<open>ok()\<close>), reading may fail.\<close>

record state_json =
  state_to_string :: "workflow_state \<Rightarrow> string option"
  state_from_str :: "string \<Rightarrow> workflow_state option"

fun state_kind :: "workflow_state \<Rightarrow> work_item_state_kind" where
  "state_kind Pending = KPending"
| "state_kind Assigning = KAssigning"
| "state_kind RetrievingDetails = KRetrievingDetails"
| "state_kind CreatingWorktree = KCreatingWorktree"
| "state_kind (AddressingTicket _) = KAddressingTicket"
| "state_kind (AddressingPrComments _) = KAddressingPrComments"
| "state_kind (MergingBaseBranch _) = KMergingBaseBranch"
| "state_kind Reviewing = KReviewing"
| "state_kind CreatingPR = KCreatingPr"
| "state_kind Done = KDone"
| "state_kind Stopped = KStopped"
| "state_kind (Error _ _) = KError"
| "state_kind (Paused _) = KPaused"

definition carries_data :: "work_item_state_kind \<Rightarrow> bool" where
  "carries_data k \<longleftrightarrow>
     k \<in> {KAddressingTicket, KAddressingPrComments, KMergingBaseBranch, KError, KPaused}"

definition state_to_kind_and_payload ::
  "state_json \<Rightarrow> workflow_state \<Rightarrow> work_item_state_kind \<times> string option" where
  "state_to_kind_and_payload json s =
     (state_kind s, if carries_data (state_kind s) then state_to_string json s else None)"

fun state_from_kind_and_payload ::
  "state_json \<Rightarrow> work_item_state_kind \<Rightarrow> string option \<Rightarrow> workflow_state" where
  "state_from_kind_and_payload json KPending _ = Pending"
| "state_from_kind_and_payload json KAssigning _ = Assigning"
| "state_from_kind_and_payload json KRetrievingDetails _ = RetrievingDetails"
| "state_from_kind_and_payload json KCreatingWorktree _ = CreatingWorktree"
| "state_from_kind_and_payload json KReviewing _ = Reviewing"
| "state_from_kind_and_payload json KCreatingPr _ = CreatingPR"
| "state_from_kind_and_payload json KDone _ = Done"
| "state_from_kind_and_payload json KStopped _ = Stopped"
| "state_from_kind_and_payload json kind payload =
     (case (case payload of None \<Rightarrow> None | Some p \<Rightarrow> state_from_str json p) of
        Some s \<Rightarrow> s
      | None \<Rightarrow> Error Pending (''restored work item had state_kind='' @ kind_as_str kind @
          '' with no decodable state payload''))"

subsection \<open>Database rows\<close>

definition non_empty :: "string \<Rightarrow> string option" where
  "non_empty s = (if s = [] then None else Some s)"

definition to_work_item_row :: "state_json \<Rightarrow> workflow \<Rightarrow> work_item_state_kind work_item_row" where
  "to_work_item_row json w =
     (case state_to_kind_and_payload json (wf_state w) of (kind, payload) \<Rightarrow>
       \<lparr>wi_id = wf_id w, wi_ticket_key = wf_ticket_key w, wi_workspace_name = wf_workspace_name w,
        wi_user_id = wf_user_id w, wi_repository_id = wf_repository_id w, wi_private = False,
        wi_started_manually = wf_started_manually w,
        wi_counts_toward_manual_cap = wf_started_manually w,
        wi_driver_started = wf_driver_started w, wi_jira_available = wf_jira_available w,
        wi_ticket_summary = non_empty (wf_ticket_summary w),
        wi_ticket_description = non_empty (wf_ticket_description w),
        wi_ticket_type = non_empty (wf_ticket_type w), wi_ticket_url = wf_ticket_url w,
        wi_acceptance_criteria = None, wi_base_branch = None,
        wi_branch_name = non_empty (wf_branch_name w), wi_worktree_path = wf_worktree_path w,
        wi_pr_url = wf_pr_url w, wi_pr_merged = wf_pr_merged w,
        wi_last_session_id = wf_last_session_id w, wi_state_kind = kind, wi_state_payload = payload,
        wi_current_step_label = wf_current_step_label w,
        wi_created_at = timestamp (wf_started_at w), wi_started_at = timestamp (wf_started_at w),
        wi_updated_at = timestamp (wf_updated_at w)\<rparr>)"

text \<open>\<open>DateTime::from_timestamp(secs, 0)\<close>: nothing outside the range of \<open>chrono\<close>'s dates.\<close>

definition from_timestamp :: "int \<Rightarrow> time option" where
  "from_timestamp secs =
     (if - 8334601228800 \<le> secs \<and> secs \<le> 8210266876799 then Some (secs * 1000000000) else None)"

fun run_state_of_row :: "db_run_state definition_run_row \<Rightarrow> def_run_state" where
  "run_state_of_row d =
     (case dr_state d of
        DIdle \<Rightarrow> RunIdle
      | DRunning \<Rightarrow> RunRunning
      | DCompleted \<Rightarrow> RunCompleted
      | DError \<Rightarrow> RunError (unwrap_or [] (dr_error_message d)))"

definition from_work_item_row ::
  "state_json \<Rightarrow> time \<Rightarrow> nat \<Rightarrow> work_item_state_kind work_item_row \<Rightarrow>
   db_run_state definition_run_row list \<Rightarrow> workflow" where
  "from_work_item_row json now token row def_runs =
     (let ticketing_system = (if wi_jira_available row then Jira else TicketingNone) in
      \<lparr>wf_id = wi_id row, wf_ticket_key = wi_ticket_key row,
       wf_ticket_summary = unwrap_or [] (wi_ticket_summary row),
       wf_ticket_description = unwrap_or [] (wi_ticket_description row),
       wf_ticket_type = unwrap_or [] (wi_ticket_type row),
       wf_state = state_from_kind_and_payload json (wi_state_kind row) (wi_state_payload row),
       wf_started_at = unwrap_or now (from_timestamp (wi_started_at row)),
       wf_updated_at = unwrap_or now (from_timestamp (wi_updated_at row)),
       wf_steps_log = [], wf_branch_name = unwrap_or [] (wi_branch_name row),
       wf_worktree_path = wi_worktree_path row, wf_pr_url = wi_pr_url row,
       wf_pr_merged = wi_pr_merged row, wf_cancel_token = token,
       wf_current_def_total_steps = None, wf_terminal_lines = [],
       wf_current_step_label = wi_current_step_label row,
       wf_started_manually = wi_started_manually row, wf_jira_available = wi_jira_available row,
       wf_ticketing_available = (ticketing_system \<noteq> TicketingNone),
       wf_ticketing_system = ticketing_system, wf_ticket_url = wi_ticket_url row,
       wf_last_session_id = wi_last_session_id row, wf_description_session_id = None,
       wf_driver_started = wi_driver_started row,
       wf_def_runs = collect_map (List.map (\<lambda>d. (dr_definition_filename d, run_state_of_row d)) def_runs),
       wf_worktree_bootstrapped = False, wf_worktree_preparing = False,
       wf_workspace_name = wi_workspace_name row, wf_repository_id = wi_repository_id row,
       wf_user_id = wi_user_id row, wf_auth_pin = None\<rparr>)"

subsection \<open>Snapshot records\<close>

record persisted_workflow_record =
  pr_id :: string
  pr_ticket_key :: string
  pr_ticket_summary :: string
  pr_ticket_description :: string
  pr_ticket_type :: string
  pr_state :: workflow_state
  pr_started_at :: time
  pr_updated_at :: time
  pr_steps_log :: "step_log list"
  pr_branch_name :: string
  pr_worktree_path :: "string option"
  pr_pr_url :: "string option"
  pr_pr_merged :: bool
  pr_terminal_lines :: "terminal_line list"
  pr_current_step_label :: "string option"
  pr_started_manually :: bool
  pr_jira_available :: bool
  pr_last_session_id :: "string option"
  pr_description_session_id :: "string option"
  pr_ticketing_system :: ticketing_system
  pr_ticket_url :: "string option"
  pr_driver_started :: bool
  pr_def_runs :: def_runs
  pr_worktree_bootstrapped :: bool
  pr_workspace_name :: string
  pr_repository_id :: "string option"
  pr_user_id :: "string option"
  pr_auth_pin :: "auth_pin option"

definition workflow_to_persisted_record :: "workflow \<Rightarrow> persisted_workflow_record" where
  "workflow_to_persisted_record w =
     \<lparr>pr_id = wf_id w, pr_ticket_key = wf_ticket_key w, pr_ticket_summary = wf_ticket_summary w,
      pr_ticket_description = wf_ticket_description w, pr_ticket_type = wf_ticket_type w,
      pr_state = wf_state w, pr_started_at = wf_started_at w, pr_updated_at = wf_updated_at w,
      pr_steps_log = wf_steps_log w, pr_branch_name = wf_branch_name w,
      pr_worktree_path = wf_worktree_path w, pr_pr_url = wf_pr_url w, pr_pr_merged = wf_pr_merged w,
      pr_terminal_lines = List.map (\<lambda>l. \<lparr>tl_text = tl_text l, tl_stream = tl_stream l\<rparr>) (wf_terminal_lines w),
      pr_current_step_label = wf_current_step_label w, pr_started_manually = wf_started_manually w,
      pr_jira_available = wf_jira_available w, pr_last_session_id = wf_last_session_id w,
      pr_description_session_id = wf_description_session_id w,
      pr_ticketing_system = wf_ticketing_system w, pr_ticket_url = wf_ticket_url w,
      pr_driver_started = wf_driver_started w, pr_def_runs = wf_def_runs w,
      pr_worktree_bootstrapped = wf_worktree_bootstrapped w, pr_workspace_name = wf_workspace_name w,
      pr_repository_id = wf_repository_id w, pr_user_id = wf_user_id w, pr_auth_pin = wf_auth_pin w\<rparr>"

definition from_persisted_record :: "nat \<Rightarrow> persisted_workflow_record \<Rightarrow> workflow" where
  "from_persisted_record token rec =
     (let ticketing_system = (if pr_ticketing_system rec = TicketingNone \<and> pr_jira_available rec
                              then Jira else pr_ticketing_system rec) in
      \<lparr>wf_id = pr_id rec, wf_ticket_key = pr_ticket_key rec, wf_ticket_summary = pr_ticket_summary rec,
       wf_ticket_description = pr_ticket_description rec, wf_ticket_type = pr_ticket_type rec,
       wf_state = pr_state rec, wf_started_at = pr_started_at rec, wf_updated_at = pr_updated_at rec,
       wf_steps_log = filter (\<lambda>s. sl_status s \<noteq> Running) (pr_steps_log rec),
       wf_branch_name = pr_branch_name rec, wf_worktree_path = pr_worktree_path rec,
       wf_pr_url = pr_pr_url rec, wf_pr_merged = pr_pr_merged rec, wf_cancel_token = token,
       wf_current_def_total_steps = None,
       wf_terminal_lines = List.map (\<lambda>l. \<lparr>tl_text = tl_text l, tl_stream = tl_stream l\<rparr>) (pr_terminal_lines rec),
       wf_current_step_label = pr_current_step_label rec, wf_started_manually = pr_started_manually rec,
       wf_jira_available = pr_jira_available rec,
       wf_ticketing_available = (ticketing_system \<noteq> TicketingNone),
       wf_ticketing_system = ticketing_system, wf_ticket_url = pr_ticket_url rec,
       wf_last_session_id = pr_last_session_id rec,
       wf_description_session_id = pr_description_session_id rec,
       wf_driver_started = pr_driver_started rec, wf_def_runs = pr_def_runs rec,
       wf_worktree_bootstrapped = pr_worktree_bootstrapped rec, wf_worktree_preparing = False,
       wf_workspace_name = pr_workspace_name rec, wf_repository_id = pr_repository_id rec,
       wf_user_id = pr_user_id rec, wf_auth_pin = pr_auth_pin rec\<rparr>)"

subsection \<open>Round trips\<close>

text \<open>What the engine relies on of \<open>serde_json\<close>: a state that is written reads back.\<close>

definition json_round_trips :: "state_json \<Rightarrow> bool" where
  "json_round_trips json \<longleftrightarrow>
     (\<forall>s. \<exists>j. state_to_string json s = Some j \<and> state_from_str json j = Some s)"

lemma state_kind_payload_round_trip:
  "json_round_trips json \<Longrightarrow>
     (case state_to_kind_and_payload json s of (k, p) \<Rightarrow> state_from_kind_and_payload json k p) = s"
proof -
  assume "json_round_trips json"
  then obtain j where "state_to_string json s = Some j" "state_from_str json j = Some s"
    unfolding json_round_trips_def by blast
  then show ?thesis by (cases s) (simp_all add: state_to_kind_and_payload_def carries_data_def)
qed

lemma unwrap_non_empty [simp]: "unwrap_or [] (non_empty s) = s"
  by (simp add: non_empty_def)

definition whole_seconds :: "time \<Rightarrow> time" where
  "whole_seconds t = timestamp t * 1000000000"

definition in_date_range :: "time \<Rightarrow> bool" where
  "in_date_range t \<longleftrightarrow> - 8334601228800 \<le> timestamp t \<and> timestamp t \<le> 8210266876799"

lemma from_timestamp_timestamp [simp]:
  "in_date_range t \<Longrightarrow> from_timestamp (timestamp t) = Some (whole_seconds t)"
  by (simp add: from_timestamp_def in_date_range_def whole_seconds_def)

definition def_runs_of_rows :: "db_run_state definition_run_row list \<Rightarrow> def_runs" where
  "def_runs_of_rows rows =
     collect_map (List.map (\<lambda>d. (dr_definition_filename d, run_state_of_row d)) rows)"

text \<open>What the database keeps of a workflow, and what the snapshot keeps.\<close>

definition db_view :: "nat \<Rightarrow> def_runs \<Rightarrow> workflow \<Rightarrow> workflow" where
  "db_view token runs w =
     (let ts = (if wf_jira_available w then Jira else TicketingNone) in
      w\<lparr>wf_started_at := whole_seconds (wf_started_at w), wf_updated_at := whole_seconds (wf_updated_at w),
        wf_steps_log := [], wf_cancel_token := token, wf_current_def_total_steps := None,
        wf_terminal_lines := [], wf_ticketing_available := (ts \<noteq> TicketingNone),
        wf_ticketing_system := ts, wf_description_session_id := None, wf_def_runs := runs,
        wf_worktree_bootstrapped := False, wf_worktree_preparing := False, wf_auth_pin := None\<rparr>)"

lemma from_to_work_item_row:
  assumes "json_round_trips json" "in_date_range (wf_started_at w)" "in_date_range (wf_updated_at w)"
  shows "from_work_item_row json now token (to_work_item_row json w) rows =
    db_view token (def_runs_of_rows rows) w"
proof -
  obtain k p where kp: "state_to_kind_and_payload json (wf_state w) = (k, p)" by fastforce
  have "state_from_kind_and_payload json k p = wf_state w"
    using state_kind_payload_round_trip [OF assms(1), of "wf_state w"] kp by simp
  then show ?thesis
    using assms(2,3) kp
    by (cases w) (simp add: to_work_item_row_def from_work_item_row_def db_view_def def_runs_of_rows_def Let_def)
qed

definition snapshot_view :: "nat \<Rightarrow> workflow \<Rightarrow> workflow" where
  "snapshot_view token w =
     w\<lparr>wf_steps_log := filter (\<lambda>s. sl_status s \<noteq> Running) (wf_steps_log w), wf_cancel_token := token,
       wf_current_def_total_steps := None, wf_worktree_preparing := False\<rparr>"

definition ticketing_ok :: "workflow \<Rightarrow> bool" where
  "ticketing_ok w \<longleftrightarrow> wf_ticketing_available w = (wf_ticketing_system w \<noteq> TicketingNone) \<and>
     (wf_jira_available w \<longrightarrow> wf_ticketing_system w \<noteq> TicketingNone)"

lemma terminal_line_copy [simp]: "\<lparr>tl_text = tl_text l, tl_stream = tl_stream l\<rparr> = l"
  by (cases l) simp

lemma from_to_persisted_record:
  "ticketing_ok w \<Longrightarrow> from_persisted_record token (workflow_to_persisted_record w) = snapshot_view token w"
  by (cases w) (auto simp: from_persisted_record_def workflow_to_persisted_record_def snapshot_view_def
      ticketing_ok_def Let_def)

subsection \<open>Properties\<close>

text \<open>
  A workflow state survives the database: the state read from the kind and the payload
  written for it is the state itself, however it is nested.
\<close>

lemma state_survives_database:
  assumes "json_round_trips json"
  shows "(case state_to_kind_and_payload json s of (k, p) \<Rightarrow> state_from_kind_and_payload json k p) = s \<and>
    (snd (state_to_kind_and_payload json s) = None \<longleftrightarrow> \<not> carries_data (state_kind s))"
  using state_kind_payload_round_trip [OF assms, of s] assms
  by (auto simp: state_to_kind_and_payload_def json_round_trips_def)

instance workflow_state :: countable
  by countable_datatype

text \<open>Some encoding of the states as text.\<close>

definition sample_json :: state_json where
  "sample_json = \<lparr>state_to_string = (\<lambda>s. Some (replicate (to_nat s) (CHR ''x''))),
     state_from_str = (\<lambda>j. Some (from_nat (length j)))\<rparr>"

lemma sample_json_round_trips: "json_round_trips sample_json"
  by (simp add: json_round_trips_def sample_json_def)


text \<open>
  Restoring a workflow from its database row gives back every field the row keeps, with
  the times cut to whole seconds, the ticketing system approximated from the Jira flag and
  the fields without a column at their defaults.
\<close>

lemma workflow_survives_database_row:
  assumes "json_round_trips json" and "in_date_range (wf_started_at w)" and "in_date_range (wf_updated_at w)"
  shows "from_work_item_row json now token (to_work_item_row json w) rows =
    db_view token (def_runs_of_rows rows) w"
  by (rule from_to_work_item_row [OF assms])

definition sample_workflow_record :: workflow where
  "sample_workflow_record = (workflow_new 1500000000 ''u1'' 0 ''T-1'' ''Fix it'' True True Jira None ''ws'')
     \<lparr>wf_state := Paused (AddressingTicket 2)\<rparr>"


text \<open>
  Restoring a workflow from its snapshot record changes nothing but the run-time handles
  and drops the log entries of steps that were still running.
\<close>

lemma workflow_survives_snapshot:
  assumes "ticketing_ok w"
  shows "from_persisted_record token (workflow_to_persisted_record w) = snapshot_view token w"
  by (rule from_to_persisted_record [OF assms])


end
