(* ===== verification/Progress.thy ===== *)
theory Progress
  imports Workflow_Types "HOL-Library.Log_Nat"
begin

text \<open>
  \<open>workflow/dashboard_progress.rs\<close>: how far a workflow is, in percent and in steps. The
  percentage is computed in \<open>f64\<close>; a non-negative \<open>f64\<close> is a fraction, every operation is
  rounded to 53 significant bits, to even on a tie.
\<close>

subsection \<open>Double precision\<close>

type_synonym f64 = "nat \<times> nat"

definition round_even :: "nat \<Rightarrow> nat \<Rightarrow> nat" where
  "round_even a b =
     (let q = a div b; r = a mod b in
      if 2 * r < b \<or> (2 * r = b \<and> even q) then q else q + 1)"

text \<open>The binary exponent \<open>e\<close> with \<open>2\<^sup>e \<le> a / b < 2\<^sup>e\<^sup>+\<^sup>1\<close>.\<close>

definition exponent :: "nat \<Rightarrow> nat \<Rightarrow> int" where
  "exponent a b =
     (let k = int (floorlog 2 a) - int (floorlog 2 b) in
      if (if 0 \<le> k then b * 2 ^ nat k \<le> a else b \<le> a * 2 ^ nat (- k)) then k else k - 1)"

definition fl :: "nat \<Rightarrow> nat \<Rightarrow> f64" where
  "fl a b =
     (if a = 0 then (0, 1)
      else
        let s = 52 - exponent a b in
        if 0 \<le> s then (round_even (a * 2 ^ nat s) b, 2 ^ nat s)
        else (round_even a (b * 2 ^ nat (- s)) * 2 ^ nat (- s), 1))"

definition f64_of_nat :: "nat \<Rightarrow> f64" where
  "f64_of_nat n = fl n 1"

definition f64_add :: "f64 \<Rightarrow> f64 \<Rightarrow> f64" where
  "f64_add x y = fl (fst x * snd y + fst y * snd x) (snd x * snd y)"

definition f64_mul :: "f64 \<Rightarrow> f64 \<Rightarrow> f64" where
  "f64_mul x y = fl (fst x * fst y) (snd x * snd y)"

definition f64_div :: "f64 \<Rightarrow> f64 \<Rightarrow> f64" where
  "f64_div x y = fl (fst x * snd y) (snd x * fst y)"

text \<open>\<open>round()\<close>, a half away from zero, and \<open>as u32\<close>, which saturates.\<close>

definition f64_round :: "f64 \<Rightarrow> nat" where
  "f64_round x = (2 * fst x + snd x) div (2 * snd x)"

definition nat_to_u32 :: "nat \<Rightarrow> u32" where
  "nat_to_u32 n = of_nat (min n (2 ^ 32 - 1))"

subsection \<open>Progress of a workflow\<close>

definition in_flight_partial_credit :: "workflow \<Rightarrow> bool" where
  "in_flight_partial_credit w =
     (case wf_state w of
        Done \<Rightarrow> False | Stopped \<Rightarrow> False | Error _ _ \<Rightarrow> False | Paused _ \<Rightarrow> False | Pending \<Rightarrow> False
      | Reviewing \<Rightarrow> True | CreatingPR \<Rightarrow> True
      | Assigning \<Rightarrow> True | RetrievingDetails \<Rightarrow> True | CreatingWorktree \<Rightarrow> True
      | AddressingTicket _ \<Rightarrow> True | AddressingPrComments _ \<Rightarrow> True | MergingBaseBranch _ \<Rightarrow> True)"

definition saturating_sub :: "'a::len word \<Rightarrow> 'a word \<Rightarrow> 'a word" where
  "saturating_sub a b = (if b \<le> a then a - b else 0)"

definition saturating_mul :: "u32 \<Rightarrow> u32 \<Rightarrow> u32" where
  "saturating_mul a b = of_nat (min (unat a * unat b) (2 ^ 32 - 1))"

text \<open>
  \<open>has_mise\<close> tells whether a directory has a mise configuration, \<open>repo_path\<close> is
  \<open>[git] repo_path\<close>. The sums wrap in a release build.
\<close>

definition estimated_step_total :: "(string \<Rightarrow> bool) \<Rightarrow> string \<Rightarrow> workflow \<Rightarrow> u32" where
  "estimated_step_total has_mise repo_path w =
     (case wf_current_def_total_steps w of
        Some t \<Rightarrow> max t 1
      | None \<Rightarrow>
          let t0 = (if wf_jira_available w then 3 else 1 :: u32);
              t1 = (if has_mise (unwrap_or repo_path (wf_worktree_path w)) then t0 + 1 else t0);
              logged = of_nat (length (wf_steps_log w)) :: u32;
              agent_estimate = (if \<not> is_terminal (wf_state w) then saturating_sub logged t1 + 2
                                else saturating_sub logged t1)
          in max (t1 + max agent_estimate 1 + 1) 1)"

definition workflow_progress_percent :: "(string \<Rightarrow> bool) \<Rightarrow> string \<Rightarrow> workflow \<Rightarrow> u8" where
  "workflow_progress_percent has_mise repo_path w =
     (if wf_state w = Done then 100
      else
        let tot = estimated_step_total has_mise repo_path w in
        if tot = 0 then 0
        else
          let n = length (filter (\<lambda>s. \<not> sl_bootstrap s \<and> sl_status s \<noteq> Running) (wf_steps_log w));
              done = (if in_flight_partial_credit w then f64_add (f64_of_nat n) (fl 2 5)
                      else f64_of_nat n);
              p = nat_to_u32 (f64_round (f64_mul (f64_div done (f64_of_nat (unat tot))) (f64_of_nat 100)))
          in ucast (min p 100))"

definition progress_fields ::
  "(string \<Rightarrow> bool) \<Rightarrow> string \<Rightarrow> workflow \<Rightarrow> u32 option \<Rightarrow> u8 \<times> u32" where
  "progress_fields has_mise repo_path w persisted_completed_steps =
     (case persisted_completed_steps of
        Some n \<Rightarrow>
          if wf_state w = Done \<and> n > 0 then (100, n)
          else (workflow_progress_percent has_mise repo_path w, estimated_step_total has_mise repo_path w)
      | None \<Rightarrow> (workflow_progress_percent has_mise repo_path w, estimated_step_total has_mise repo_path w))"

text \<open>\<open>None\<close> is the overflow of \<open>+ 50\<close>, a panic with overflow checks.\<close>

definition workflow_progress_filled_segments :: "u8 \<Rightarrow> u32 \<Rightarrow> u32 option" where
  "workflow_progress_filled_segments progress_percent tot =
     (if tot = 0 then Some 0
      else
        let m = saturating_mul (ucast progress_percent) tot in
        if unat m + 50 \<ge> 2 ^ 32 then None
        else Some (min ((m + 50) div 100) tot))"

subsection \<open>Bounds\<close>

lemma max_one_pos: "(0 :: u32) < max t 1"
  by (metis max.cobounded2 order_less_le_trans word_neq_0_conv zero_neq_one)

lemma estimated_step_total_pos: "0 < estimated_step_total has_mise repo_path w"
  by (auto simp: estimated_step_total_def Let_def max_one_pos split: option.splits)

lemma ucast_min_100: "unat (ucast (min p (100 :: u32)) :: u8) \<le> 100"
proof -
  have "min p (100 :: u32) \<le> 100" by simp
  then have "unat (min p (100 :: u32)) \<le> unat (100 :: u32)" unfolding word_le_nat_alt .
  then show ?thesis by (simp add: unsigned_ucast_eq unsigned_take_bit_eq take_bit_nat_eq_self)
qed

lemma percent_le_100: "unat (workflow_progress_percent has_mise repo_path w) \<le> 100"
  by (auto simp: workflow_progress_percent_def Let_def intro: ucast_min_100)

lemma filled_le_total:
  "workflow_progress_filled_segments p tot = Some k \<Longrightarrow> k \<le> tot"
  by (auto simp: workflow_progress_filled_segments_def Let_def split: if_splits)

lemma unat_of_nat_small: "n < 2 ^ 32 \<Longrightarrow> unat (of_nat n :: u32) = n"
  by (simp add: unsigned_of_nat take_bit_nat_eq_self)

text \<open>With at most a hundred percent of a total below 42 million the sum does not overflow.\<close>

lemma filled_defined:
  assumes "unat p \<le> 100" "unat tot < 42949672"
  shows "workflow_progress_filled_segments p tot \<noteq> None"
proof -
  have "unat p < 2 ^ 32" using assms(1) by simp
  then have p: "unat (ucast p :: u32) = unat p"
    by (simp add: unsigned_ucast_eq take_bit_nat_eq_self)
  have "unat p * unat tot \<le> 100 * 42949671"
    using assms by (intro mult_le_mono) simp_all
  then have m: "min (unat p * unat tot) (2 ^ 32 - 1) \<le> 4294967100" by simp
  then have "unat (saturating_mul (ucast p) tot) \<le> 4294967100"
    unfolding saturating_mul_def p by (subst unat_of_nat_small) simp_all
  then show ?thesis by (simp add: workflow_progress_filled_segments_def Let_def)
qed

subsection \<open>Properties\<close>

text \<open>
  The progress of a workflow is between 0 and 100 percent of at least one step, a
  finished one is at 100, and the filled segments of the bar are at most the total and always
  computed for a total below 42 million.
\<close>

lemma progress_in_bounds:
  "unat (fst (progress_fields m r w n)) \<le> 100 \<and> 0 < snd (progress_fields m r w n) \<and>
   (wf_state w = Done \<longrightarrow> fst (progress_fields m r w n) = 100) \<and>
   (unat (snd (progress_fields m r w n)) < 42949672 \<longrightarrow>
     (\<exists>k. workflow_progress_filled_segments (fst (progress_fields m r w n)) (snd (progress_fields m r w n)) = Some k \<and>
        k \<le> snd (progress_fields m r w n)))"
proof (intro conjI impI)
  show p: "unat (fst (progress_fields m r w n)) \<le> 100"
    using percent_le_100 by (simp add: progress_fields_def split: option.splits)
  show "0 < snd (progress_fields m r w n)"
    using estimated_step_total_pos by (simp add: progress_fields_def split: option.splits)
  show "fst (progress_fields m r w n) = 100" if "wf_state w = Done"
    using that by (simp add: progress_fields_def workflow_progress_percent_def split: option.splits)
  show "\<exists>k. workflow_progress_filled_segments (fst (progress_fields m r w n)) (snd (progress_fields m r w n)) = Some k \<and>
      k \<le> snd (progress_fields m r w n)" if "unat (snd (progress_fields m r w n)) < 42949672"
    using filled_defined [OF p that] filled_le_total by fastforce
qed


text \<open>The addition after the saturating product can overflow all the same.\<close>

lemma filled_segments_overflow: "workflow_progress_filled_segments 100 42949673 = None"
  by (simp add: workflow_progress_filled_segments_def saturating_mul_def)

end
