(* ===== verification/Repositories_Db.thy ===== *)
theory Repositories_Db
  imports Work_Items_Db
begin

text \<open>
  The repository registry (\<open>db/repositories.rs\<close> over the schema of
  \<open>migrations/20260105000001_repositories_and_user_repos.sql\<close>): the clones on disk and which
  user has added which. A table is the list of its rows; the fresh identifier and the
  reading of the clock are arguments.
\<close>

record repository_row =
  rp_id :: string
  rp_name :: string
  rp_repo_url :: "string option"
  rp_local_path :: string
  rp_default_branch :: string
  rp_created_at :: int
  rp_created_by :: "string option"

record user_repository_row =
  ur_user_id :: string
  ur_repository_id :: string
  ur_added_at :: int

record repo_tables =
  rt_repos :: "repository_row list"
  rt_links :: "user_repository_row list"

subsection \<open>repositories\<close>

definition repositories_get :: "repo_tables \<Rightarrow> string \<Rightarrow> repository_row option" where
  "repositories_get t i = List.find (\<lambda>r. rp_id r = i) (rt_repos t)"

text \<open>\<open>ORDER BY created_at ASC LIMIT 1\<close>: of several, the first in table order.\<close>

definition repositories_get_by_name :: "repo_tables \<Rightarrow> string \<Rightarrow> repository_row option" where
  "repositories_get_by_name t name =
     (case sort_key rp_created_at (filter (\<lambda>r. rp_name r = name) (rt_repos t)) of
        [] \<Rightarrow> None | r # _ \<Rightarrow> Some r)"

definition repositories_get_by_path :: "repo_tables \<Rightarrow> string \<Rightarrow> repository_row option" where
  "repositories_get_by_path t p = List.find (\<lambda>r. rp_local_path r = p) (rt_repos t)"

definition by_creation :: "repository_row list \<Rightarrow> repository_row list" where
  "by_creation rs = sort_key rp_created_at (sort_key rp_name rs)"

definition repositories_list_all :: "repo_tables \<Rightarrow> repository_row list" where
  "repositories_list_all t = by_creation (rt_repos t)"

text \<open>
  \<open>INSERT ... ON CONFLICT(local_path) DO NOTHING\<close> and the read back of the id. The primary
  key and the foreign key on \<open>created_by\<close> can refuse a new row.
\<close>

definition repositories_upsert ::
  "string set \<Rightarrow> string \<Rightarrow> int \<Rightarrow> string \<Rightarrow> string option \<Rightarrow> string \<Rightarrow> string \<Rightarrow> string option \<Rightarrow>
   repo_tables \<Rightarrow> (db_error + string) \<times> repo_tables" where
  "repositories_upsert users new_id now name repo_url local_path default_branch created_by t =
     (case repositories_get_by_path t local_path of
        Some r \<Rightarrow> (Inr (rp_id r), t)
      | None \<Rightarrow>
          if repositories_get t new_id \<noteq> None \<or>
             (case created_by of None \<Rightarrow> False | Some u \<Rightarrow> u \<notin> users)
          then (Inl SqlError, t)
          else
            let t' = t\<lparr>rt_repos := rt_repos t @
                  [\<lparr>rp_id = new_id, rp_name = name, rp_repo_url = repo_url,
                    rp_local_path = local_path, rp_default_branch = default_branch,
                    rp_created_at = now, rp_created_by = created_by\<rparr>]\<rparr>
            in (case repositories_get_by_path t' local_path of
                  None \<Rightarrow> (Inl SqlError, t')
                | Some r \<Rightarrow> (Inr (rp_id r), t')))"

text \<open>The links of a deleted repository go with it.\<close>

definition repositories_delete :: "string \<Rightarrow> repo_tables \<Rightarrow> bool \<times> repo_tables" where
  "repositories_delete i t =
     (list_ex (\<lambda>r. rp_id r = i) (rt_repos t),
      \<lparr>rt_repos = filter (\<lambda>r. rp_id r \<noteq> i) (rt_repos t),
       rt_links = filter (\<lambda>l. ur_repository_id l \<noteq> i) (rt_links t)\<rparr>)"

subsection \<open>user_repositories\<close>

definition links_of :: "repo_tables \<Rightarrow> string \<Rightarrow> user_repository_row list" where
  "links_of t user = filter (\<lambda>l. ur_user_id l = user) (rt_links t)"

text \<open>The inner join, \<open>ORDER BY added_at DESC, repository_id DESC\<close>.\<close>

definition list_for_user :: "repo_tables \<Rightarrow> string \<Rightarrow> repository_row list" where
  "list_for_user t user =
     concat (List.map (\<lambda>l. filter (\<lambda>r. rp_id r = ur_repository_id l) (rt_repos t))
       (rev (sort_key ur_added_at (sort_key ur_repository_id (links_of t user)))))"

definition list_available_for_user :: "repo_tables \<Rightarrow> string \<Rightarrow> repository_row list" where
  "list_available_for_user t user =
     by_creation (filter (\<lambda>r. \<not> list_ex (\<lambda>l. ur_repository_id l = rp_id r) (links_of t user)) (rt_repos t))"

definition add_for_user ::
  "string set \<Rightarrow> int \<Rightarrow> string \<Rightarrow> string \<Rightarrow> repo_tables \<Rightarrow> (db_error + bool) \<times> repo_tables" where
  "add_for_user users now user i t =
     (if list_ex (\<lambda>l. ur_repository_id l = i) (links_of t user) then (Inr False, t)
      else if user \<notin> users \<or> repositories_get t i = None then (Inl SqlError, t)
      else (Inr True, t\<lparr>rt_links := rt_links t @
             [\<lparr>ur_user_id = user, ur_repository_id = i, ur_added_at = now\<rparr>]\<rparr>))"

definition remove_for_user :: "string \<Rightarrow> string \<Rightarrow> repo_tables \<Rightarrow> bool \<times> repo_tables" where
  "remove_for_user user i t =
     (list_ex (\<lambda>l. ur_repository_id l = i) (links_of t user),
      t\<lparr>rt_links := filter (\<lambda>l. \<not> (ur_user_id l = user \<and> ur_repository_id l = i)) (rt_links t)\<rparr>)"

definition user_has :: "repo_tables \<Rightarrow> string \<Rightarrow> string \<Rightarrow> bool" where
  "user_has t user repository_name \<longleftrightarrow>
     0 < length (filter (\<lambda>r. rp_name r = repository_name) (list_for_user t user))"

subsection \<open>The tables stay well formed\<close>

definition repo_tables_ok :: "string set \<Rightarrow> repo_tables \<Rightarrow> bool" where
  "repo_tables_ok users t \<longleftrightarrow>
     distinct (List.map rp_id (rt_repos t)) \<and> distinct (List.map rp_local_path (rt_repos t)) \<and>
     distinct (List.map (\<lambda>l. (ur_user_id l, ur_repository_id l)) (rt_links t)) \<and>
     (\<forall>l \<in> set (rt_links t). ur_user_id l \<in> users \<and> ur_repository_id l \<in> rp_id ` set (rt_repos t))"

lemma find_None_iff_key: "List.find (\<lambda>r. f r = i) rs = None \<longleftrightarrow> i \<notin> f ` set rs"
  by (induction rs) auto

lemma repo_lookup_None:
  "repositories_get t i = None \<longleftrightarrow> i \<notin> rp_id ` set (rt_repos t)"
  "repositories_get_by_path t p = None \<longleftrightarrow> p \<notin> rp_local_path ` set (rt_repos t)"
  by (simp_all add: repositories_get_def repositories_get_by_path_def find_None_iff_key)

lemma links_of_ok:
  "repo_tables_ok users t \<Longrightarrow> distinct (List.map ur_repository_id (links_of t user)) \<and>
     ur_repository_id ` set (links_of t user) \<subseteq> rp_id ` set (rt_repos t)"
  unfolding repo_tables_ok_def links_of_def
  by (auto simp: distinct_map inj_on_def)

lemma list_ex_link: "list_ex (\<lambda>l. ur_repository_id l = i) ls \<longleftrightarrow> i \<in> ur_repository_id ` set ls"
  by (auto simp: list_ex_iff)

lemma repositories_upsert_ok [state_intros]:
  "repo_tables_ok users t \<Longrightarrow>
     repo_tables_ok users (snd (repositories_upsert users i now n u p b c t))"
  by (auto simp: repositories_upsert_def repo_tables_ok_def repo_lookup_None Let_def
      split: option.splits)

lemma repositories_delete_ok [state_intros]:
  "repo_tables_ok users t \<Longrightarrow> repo_tables_ok users (snd (repositories_delete i t))"
  by (auto simp: repositories_delete_def repo_tables_ok_def distinct_map_filter image_iff)

lemma link_changes_ok [state_intros]:
  "repo_tables_ok users t \<Longrightarrow> repo_tables_ok users (snd (add_for_user users now user i t))"
  "repo_tables_ok users t \<Longrightarrow> repo_tables_ok users (snd (remove_for_user user i t))"
  by (auto simp: add_for_user_def remove_for_user_def repo_tables_ok_def repo_lookup_None
      list_ex_link links_of_def image_iff distinct_map_filter)

subsection \<open>What the queries return\<close>

lemma filter_unique_key:
  "distinct (List.map f rs) \<Longrightarrow> r \<in> set rs \<Longrightarrow> filter (\<lambda>x. f x = f r) rs = [r]"
  by (induction rs) (auto simp: filter_empty_conv image_iff)

lemma join_on_key:
  assumes "distinct (List.map f rs)" "distinct ks" "set ks \<subseteq> f ` set rs"
  shows "mset (concat (List.map (\<lambda>k. filter (\<lambda>r. f r = k) rs) ks)) =
    filter_mset (\<lambda>r. f r \<in> set ks) (mset rs)"
  using assms(2,3)
proof (induction ks)
  case (Cons k ks)
  obtain r where r: "r \<in> set rs" "f r = k" using Cons.prems(2) by auto
  have "filter_mset (\<lambda>x. f x = k \<or> f x \<in> set ks) (mset rs) =
    filter_mset (\<lambda>x. f x = k) (mset rs) + filter_mset (\<lambda>x. f x \<in> set ks) (mset rs)"
    using Cons.prems(1) by (induction rs) auto
  then show ?case using Cons by (simp add: mset_filter)
qed simp

lemma mset_list_for_user:
  assumes "repo_tables_ok users t"
  shows "mset (list_for_user t user) =
    filter_mset (\<lambda>r. rp_id r \<in> ur_repository_id ` set (links_of t user)) (mset (rt_repos t))"
proof -
  let ?ls = "rev (sort_key ur_added_at (sort_key ur_repository_id (links_of t user)))"
  have "distinct (List.map ur_repository_id ?ls)"
    using links_of_ok [OF assms, of user] by (simp add: distinct_map rev_map [symmetric])
  moreover have "set (List.map ur_repository_id ?ls) \<subseteq> rp_id ` set (rt_repos t)"
    using links_of_ok [OF assms, of user] by simp
  ultimately show ?thesis
    using join_on_key [of rp_id "rt_repos t" "List.map ur_repository_id ?ls"] assms
    by (simp add: repo_tables_ok_def list_for_user_def comp_def)
qed

lemma set_list_for_user:
  "repo_tables_ok users t \<Longrightarrow> set (list_for_user t user) =
     {r \<in> set (rt_repos t). rp_id r \<in> ur_repository_id ` set (links_of t user)}"
  using arg_cong [OF mset_list_for_user, of users t set_mset user] by simp

lemma mset_by_creation [simp]: "mset (by_creation rs) = mset rs"
  by (simp add: by_creation_def)

subsection \<open>Properties\<close>

text \<open>
  For every user the registry splits into the repositories the user has added and the ones
  still available, without overlap or duplicate, and adding an available one moves it over.
\<close>

lemma user_repositories_partition:
  assumes "repo_tables_ok users t"
  shows "mset (list_for_user t user) + mset (list_available_for_user t user) =
      mset (repositories_list_all t) \<and>
    (\<forall>r. r \<in> set (list_available_for_user t user) \<and> user \<in> users \<longrightarrow>
      fst (add_for_user users now user (rp_id r) t) = Inr True \<and>
      r \<in> set (list_for_user (snd (add_for_user users now user (rp_id r) t)) user))"
proof (intro conjI allI impI; (elim conjE)?)
  show "mset (list_for_user t user) + mset (list_available_for_user t user) =
      mset (repositories_list_all t)"
    unfolding mset_list_for_user [OF assms] list_available_for_user_def repositories_list_all_def
    by (simp add: list_ex_link mset_filter)
next
  fix r assume r: "r \<in> set (list_available_for_user t user)" and u: "user \<in> users"
  let ?t = "snd (add_for_user users now user (rp_id r) t)"
  have mem: "r \<in> set (rt_repos t)" and new: "rp_id r \<notin> ur_repository_id ` set (links_of t user)"
    using r by (auto simp: list_available_for_user_def by_creation_def list_ex_link)
  have eq: "add_for_user users now user (rp_id r) t = (Inr True, t\<lparr>rt_links := rt_links t @
      [\<lparr>ur_user_id = user, ur_repository_id = rp_id r, ur_added_at = now\<rparr>]\<rparr>)"
    using mem new u by (auto simp: add_for_user_def list_ex_link repo_lookup_None)
  then show "fst (add_for_user users now user (rp_id r) t) = Inr True" by simp
  show "r \<in> set (list_for_user ?t user)"
    unfolding set_list_for_user [OF link_changes_ok(1) [OF assms]] using mem by (simp add: eq links_of_def)
qed

text \<open>
  Registering a path twice keeps the first registration: the same id comes back, and the
  registry does not change.
\<close>

lemma repository_upsert_idempotent:
  assumes "repositories_upsert users i now name url p branch by t = (Inr j, t')"
  shows "repositories_upsert users i2 now2 name2 url2 p branch2 by2 t' = (Inr j, t') \<and>
    map_option rp_id (repositories_get_by_path t' p) = Some j"
  using assms
  by (auto simp: repositories_upsert_def Let_def split: option.splits if_splits)

end
