(* ===== verification/Settings_Db.thy ===== *)
theory Settings_Db
  imports User_Flows
begin

text \<open>
  The two tables of settings a user keeps per workspace: the polling settings
  (\<open>db/user_repo_polling_settings.rs\<close>) and the worktree commands
  (\<open>db/user_worktree_commands.rs\<close>). Both have the key \<open>(user_id, workspace_name)\<close> and JSON
  columns; \<open>encode\<close> and \<open>decode\<close> stand for \<open>serde_json\<close>, \<open>io\<close> says whether the statement
  reaches the database, \<open>users\<close> are the ids the foreign key allows.
\<close>

subsection \<open>Tables keyed by user and workspace\<close>

record 'c settings_row =
  sr_user_id :: string
  sr_workspace_name :: string
  sr_columns :: 'c
  sr_updated_at :: int

definition has_key :: "string \<Rightarrow> string \<Rightarrow> 'c settings_row \<Rightarrow> bool" where
  "has_key u ws r \<longleftrightarrow> sr_user_id r = u \<and> sr_workspace_name r = ws"

text \<open>\<open>SELECT ... WHERE user_id = ? AND workspace_name = ?\<close>\<close>

definition row_at :: "'c settings_row list \<Rightarrow> string \<Rightarrow> string \<Rightarrow> 'c settings_row option" where
  "row_at t u ws = List.find (has_key u ws) t"

text \<open>\<open>INSERT ... ON CONFLICT(user_id, workspace_name) DO UPDATE\<close>\<close>

definition upsert_row :: "'c settings_row \<Rightarrow> 'c settings_row list \<Rightarrow> 'c settings_row list" where
  "upsert_row r t =
     (if list_ex (has_key (sr_user_id r) (sr_workspace_name r)) t
      then List.map (\<lambda>x. if has_key (sr_user_id r) (sr_workspace_name r) x then r else x) t
      else t @ [r])"

definition delete_row :: "string \<Rightarrow> string \<Rightarrow> 'c settings_row list \<Rightarrow> bool \<times> 'c settings_row list" where
  "delete_row u ws t = (list_ex (has_key u ws) t, filter (\<lambda>r. \<not> has_key u ws r) t)"

definition rows_of_user :: "string \<Rightarrow> 'c settings_row list \<Rightarrow> 'c settings_row list" where
  "rows_of_user u t = sort_key (\<lambda>r. - sr_updated_at r) (filter (\<lambda>r. sr_user_id r = u) t)"

definition keys_distinct :: "'c settings_row list \<Rightarrow> bool" where
  "keys_distinct t \<longleftrightarrow> distinct (List.map (\<lambda>r. (sr_user_id r, sr_workspace_name r)) t)"

text \<open>Decoding rows one by one; the first that fails fails the query.\<close>

fun traverse :: "('a \<Rightarrow> db_error + 'b) \<Rightarrow> 'a list \<Rightarrow> db_error + 'b list" where
  "traverse f [] = Inr []"
| "traverse f (x # xs) =
     (case f x of
        Inl e \<Rightarrow> Inl e
      | Inr y \<Rightarrow> (case traverse f xs of Inl e \<Rightarrow> Inl e | Inr ys \<Rightarrow> Inr (y # ys)))"

lemma row_at_append:
  "row_at (t @ [r]) u ws =
     (case row_at t u ws of Some x \<Rightarrow> Some x | None \<Rightarrow> if has_key u ws r then Some r else None)"
  by (induction t) (auto simp: row_at_def)

lemma row_at_replace:
  "row_at (List.map (\<lambda>x. if has_key (sr_user_id r) (sr_workspace_name r) x then r else x) t) u ws =
     (if u = sr_user_id r \<and> ws = sr_workspace_name r
      then (if list_ex (has_key u ws) t then Some r else None) else row_at t u ws)"
  by (induction t) (auto simp: row_at_def list_ex_iff has_key_def)

lemma row_at_None: "\<not> list_ex (has_key u ws) t \<Longrightarrow> row_at t u ws = None"
  by (simp add: row_at_def find_None_iff list_ex_iff)

lemma row_at_upsert:
  "row_at (upsert_row r t) u ws =
     (if u = sr_user_id r \<and> ws = sr_workspace_name r then Some r else row_at t u ws)"
proof (cases "list_ex (has_key (sr_user_id r) (sr_workspace_name r)) t")
  case False
  then show ?thesis
    using row_at_None [OF False] by (auto simp: upsert_row_def row_at_append has_key_def split: option.split)
qed (simp add: upsert_row_def row_at_replace)

lemma row_at_delete: "row_at (snd (delete_row u ws t)) u' ws' =
    (if u' = u \<and> ws' = ws then None else row_at t u' ws')"
  by (induction t) (auto simp: row_at_def delete_row_def has_key_def)

lemma keys_distinct_upsert:
  assumes "keys_distinct t" shows "keys_distinct (upsert_row r t)"
proof -
  have eq: "List.map (\<lambda>r. (sr_user_id r, sr_workspace_name r))
      (List.map (\<lambda>x. if has_key (sr_user_id r) (sr_workspace_name r) x then r else x) t) =
    List.map (\<lambda>r. (sr_user_id r, sr_workspace_name r)) t"
    by (auto simp: has_key_def)
  show ?thesis
  proof (cases "list_ex (has_key (sr_user_id r) (sr_workspace_name r)) t")
    case True
    then show ?thesis using assms by (simp add: keys_distinct_def upsert_row_def eq del: map_map)
  next
    case False
    then show ?thesis using assms by (auto simp: keys_distinct_def upsert_row_def list_ex_iff has_key_def)
  qed
qed

lemma keys_distinct_delete: "keys_distinct t \<Longrightarrow> keys_distinct (snd (delete_row u ws t))"
  by (simp add: keys_distinct_def delete_row_def distinct_map_filter)

subsection \<open>Polling settings\<close>

datatype linked_items_prompt_mode = Full | SummaryOnly | Omit

record polling_settings =
  ps_auto_polling :: bool
  ps_auto_start_flow :: string
  ps_max_parallel_items :: u32
  ps_project_keys :: "string list"
  ps_item_types :: "string list"
  ps_jira_summary_keywords :: "string list"
  ps_github_labels :: "string list"
  ps_github_title_keywords :: "string list"
  ps_linked_items_in_prompt :: linked_items_prompt_mode
  ps_ticket_context_max_description_bytes :: nat
  ps_linked_issue_description_max_bytes :: nat
  ps_jql_filter :: string
  ps_done_status :: string

definition default_polling_settings :: polling_settings where
  "default_polling_settings =
     \<lparr>ps_auto_polling = False, ps_auto_start_flow = [], ps_max_parallel_items = 0, ps_project_keys = [],
      ps_item_types = [''Task'', ''Bug''], ps_jira_summary_keywords = [], ps_github_labels = [],
      ps_github_title_keywords = [], ps_linked_items_in_prompt = Full,
      ps_ticket_context_max_description_bytes = 0, ps_linked_issue_description_max_bytes = 0,
      ps_jql_filter = [], ps_done_status = ''Done''\<rparr>"

type_synonym polling_table = "string settings_row list"

definition decode_settings ::
  "(string \<Rightarrow> polling_settings option) \<Rightarrow> string \<Rightarrow> db_error + polling_settings" where
  "decode_settings decode json = (case decode json of None \<Rightarrow> Inl JsonDecode | Some s \<Rightarrow> Inr s)"

definition polling_get ::
  "bool \<Rightarrow> (string \<Rightarrow> polling_settings option) \<Rightarrow> polling_table \<Rightarrow> string \<Rightarrow> string \<Rightarrow>
   db_error + polling_settings option" where
  "polling_get io decode t u ws =
     (if \<not> io then Inl SqlError
      else (case row_at t u ws of
              None \<Rightarrow> Inr None
            | Some r \<Rightarrow>
                (case decode_settings decode (sr_columns r) of Inl e \<Rightarrow> Inl e | Inr s \<Rightarrow> Inr (Some s))))"

definition polling_list_for_user ::
  "bool \<Rightarrow> (string \<Rightarrow> polling_settings option) \<Rightarrow> polling_table \<Rightarrow> string \<Rightarrow>
   db_error + polling_settings settings_row list" where
  "polling_list_for_user io decode t u =
     (if \<not> io then Inl SqlError
      else traverse (\<lambda>r. case decode_settings decode (sr_columns r) of
          Inl e \<Rightarrow> Inl e
        | Inr s \<Rightarrow> Inr \<lparr>sr_user_id = sr_user_id r, sr_workspace_name = sr_workspace_name r,
                       sr_columns = s, sr_updated_at = sr_updated_at r\<rparr>) (rows_of_user u t))"

definition polling_strings :: "polling_settings \<Rightarrow> string list" where
  "polling_strings s =
     ps_project_keys s @ ps_item_types s @ ps_jira_summary_keywords s @ ps_github_labels s @
     ps_github_title_keywords s @ [ps_auto_start_flow s] @ [ps_jql_filter s] @ [ps_done_status s]"

definition polling_set ::
  "bool \<Rightarrow> string set \<Rightarrow> (polling_settings \<Rightarrow> string option) \<Rightarrow> int \<Rightarrow> string \<Rightarrow> string \<Rightarrow>
   polling_settings \<Rightarrow> polling_table \<Rightarrow> (db_error + unit) \<times> polling_table" where
  "polling_set io users encode now u ws settings t =
     (if has_nul u \<or> has_nul ws then (Inl (NulByte ''user_id_or_workspace_name''), t)
      else if list_ex has_nul (polling_strings settings) then (Inl (NulByte ''polling_settings_string''), t)
      else (case encode settings of
              None \<Rightarrow> (Inl JsonEncode, t)
            | Some settings_json \<Rightarrow>
                if \<not> io \<or> u \<notin> users then (Inl SqlError, t)
                else (Inr (), upsert_row \<lparr>sr_user_id = u, sr_workspace_name = ws,
                        sr_columns = settings_json, sr_updated_at = now\<rparr> t)))"

definition polling_delete ::
  "bool \<Rightarrow> string \<Rightarrow> string \<Rightarrow> polling_table \<Rightarrow> (db_error + bool) \<times> polling_table" where
  "polling_delete io u ws t =
     (if \<not> io then (Inl SqlError, t) else (case delete_row u ws t of (b, t') \<Rightarrow> (Inr b, t')))"

subsection \<open>Worktree commands\<close>

record run_command =
  rc_name :: string
  rc_command :: string

record worktree_columns =
  wc_init_commands_json :: string
  wc_run_commands_json :: string
  wc_generate_report :: int

record worktree_commands =
  wk_init_commands :: "string list"
  wk_run_commands :: "run_command list"
  wk_generate_report :: bool

record commands_json =
  encode_init :: "string list \<Rightarrow> string option"
  decode_init :: "string \<Rightarrow> string list option"
  encode_run :: "run_command list \<Rightarrow> string option"
  decode_run :: "string \<Rightarrow> run_command list option"

type_synonym worktree_table = "worktree_columns settings_row list"

definition decode_commands_row ::
  "commands_json \<Rightarrow> worktree_columns settings_row \<Rightarrow> db_error + worktree_commands settings_row" where
  "decode_commands_row json r =
     (case (decode_init json (wc_init_commands_json (sr_columns r)),
            decode_run json (wc_run_commands_json (sr_columns r))) of
        (Some inits, Some runs) \<Rightarrow>
          Inr \<lparr>sr_user_id = sr_user_id r, sr_workspace_name = sr_workspace_name r,
               sr_columns = \<lparr>wk_init_commands = inits, wk_run_commands = runs,
                 wk_generate_report = (wc_generate_report (sr_columns r) \<noteq> 0)\<rparr>,
               sr_updated_at = sr_updated_at r\<rparr>
      | _ \<Rightarrow> Inl JsonDecode)"

definition commands_get ::
  "bool \<Rightarrow> commands_json \<Rightarrow> worktree_table \<Rightarrow> string \<Rightarrow> string \<Rightarrow>
   db_error + worktree_commands settings_row option" where
  "commands_get io json t u ws =
     (if \<not> io then Inl SqlError
      else (case row_at t u ws of
              None \<Rightarrow> Inr None
            | Some r \<Rightarrow> (case decode_commands_row json r of Inl e \<Rightarrow> Inl e | Inr row \<Rightarrow> Inr (Some row))))"

definition commands_list_for_user ::
  "bool \<Rightarrow> commands_json \<Rightarrow> worktree_table \<Rightarrow> string \<Rightarrow> db_error + worktree_commands settings_row list" where
  "commands_list_for_user io json t u =
     (if \<not> io then Inl SqlError else traverse (decode_commands_row json) (rows_of_user u t))"

definition commands_upsert ::
  "bool \<Rightarrow> string set \<Rightarrow> commands_json \<Rightarrow> int \<Rightarrow> string \<Rightarrow> string \<Rightarrow> string list \<Rightarrow> run_command list \<Rightarrow> bool \<Rightarrow>
   worktree_table \<Rightarrow> (db_error + unit) \<times> worktree_table" where
  "commands_upsert io users json now u ws init_commands run_commands generate_report t =
     (if has_nul u \<or> has_nul ws then (Inl (NulByte ''user_id_or_workspace_name''), t)
      else if list_ex has_nul init_commands then (Inl (NulByte ''init_command''), t)
      else if list_ex (\<lambda>rc. has_nul (rc_name rc) \<or> has_nul (rc_command rc)) run_commands
           then (Inl (NulByte ''run_command_name_or_command''), t)
      else (case (encode_init json init_commands, encode_run json run_commands) of
              (Some init_json, Some run_json) \<Rightarrow>
                if \<not> io \<or> u \<notin> users then (Inl SqlError, t)
                else (Inr (), upsert_row \<lparr>sr_user_id = u, sr_workspace_name = ws,
                        sr_columns = \<lparr>wc_init_commands_json = init_json, wc_run_commands_json = run_json,
                          wc_generate_report = (if generate_report then 1 else 0)\<rparr>,
                        sr_updated_at = now\<rparr> t)
            | _ \<Rightarrow> (Inl JsonEncode, t)))"

definition commands_delete ::
  "bool \<Rightarrow> string \<Rightarrow> string \<Rightarrow> worktree_table \<Rightarrow> (db_error + bool) \<times> worktree_table" where
  "commands_delete io u ws t =
     (if \<not> io then (Inl SqlError, t) else (case delete_row u ws t of (b, t') \<Rightarrow> (Inr b, t')))"

text \<open>The lookup for the whole dashboard leaves out the rows it cannot decode.\<close>

definition get_run_commands_for_pairs ::
  "bool \<Rightarrow> commands_json \<Rightarrow> worktree_table \<Rightarrow> (string \<times> string) list \<Rightarrow>
   db_error + (string \<times> string \<rightharpoonup> run_command list)" where
  "get_run_commands_for_pairs io json t pairs =
     (if pairs = [] then Inr Map.empty
      else if \<not> io then Inl SqlError
      else Inr (foldl (\<lambda>out r. case decode_run json (wc_run_commands_json (sr_columns r)) of
                  Some v \<Rightarrow> out((sr_user_id r, sr_workspace_name r) \<mapsto> v)
                | None \<Rightarrow> out) Map.empty
              (filter (\<lambda>r. (sr_user_id r, sr_workspace_name r) \<in> set pairs) t)))"

subsection \<open>Properties\<close>

lemma get_run_commands_at:
  assumes "keys_distinct t"
  shows "foldl (\<lambda>out r. case decode_run json (wc_run_commands_json (sr_columns r)) of
      Some v \<Rightarrow> out((sr_user_id r, sr_workspace_name r) \<mapsto> v) | None \<Rightarrow> out) m
      (filter (\<lambda>r. (sr_user_id r, sr_workspace_name r) \<in> P) t) (u, ws) =
    (case row_at t u ws of
       Some r \<Rightarrow> if (u, ws) \<in> P then (case decode_run json (wc_run_commands_json (sr_columns r)) of
                  Some v \<Rightarrow> Some v | None \<Rightarrow> m (u, ws)) else m (u, ws)
     | None \<Rightarrow> m (u, ws))"
  using assms
proof (induction t arbitrary: m)
  case (Cons r t)
  have "row_at t u ws = None" if "has_key u ws r"
    using Cons.prems that
    by (auto simp: row_at_def find_None_iff keys_distinct_def has_key_def intro: rev_image_eqI)
  then show ?case
    using Cons by (auto simp: row_at_def keys_distinct_def has_key_def split: option.splits)
qed (simp add: row_at_def)

text \<open>
  Settings that were stored are what the next read returns, each read returns what was last
  stored under its own key, the run commands of the dashboard are those of the single read, and
  a refused write changes nothing.
\<close>
lemma worktree_commands_round_trip:
  assumes "encode_init json inits = Some ij" and "decode_init json ij = Some inits"
    and "encode_run json runs = Some rj" and "decode_run json rj = Some runs"
    and "keys_distinct t" and "commands_upsert io users json now u ws inits runs rep t = (res, t')"
  shows "(case res of
      Inl _ \<Rightarrow> t' = t
    | Inr _ \<Rightarrow> commands_get True json t' u ws =
          Inr (Some \<lparr>sr_user_id = u, sr_workspace_name = ws,
            sr_columns = \<lparr>wk_init_commands = inits, wk_run_commands = runs, wk_generate_report = rep\<rparr>,
            sr_updated_at = now\<rparr>) \<and>
        (\<forall>u' ws'. (u', ws') \<noteq> (u, ws) \<longrightarrow> commands_get True json t' u' ws' = commands_get True json t u' ws') \<and>
        map_option (\<lambda>m. m (u, ws)) (case get_run_commands_for_pairs True json t' [(u, ws)] of
           Inr m \<Rightarrow> Some m | Inl _ \<Rightarrow> None) = Some (Some runs))"
proof (cases res)
  case (Inl e)
  then show ?thesis using assms(6) by (auto simp: commands_upsert_def split: if_splits option.splits)
next
  case (Inr x)
  let ?r = "\<lparr>sr_user_id = u, sr_workspace_name = ws,
    sr_columns = \<lparr>wc_init_commands_json = ij, wc_run_commands_json = rj,
      wc_generate_report = (if rep then 1 else 0)\<rparr>, sr_updated_at = now\<rparr>"
  have t': "t' = upsert_row ?r t"
    using assms(1,3,6) Inr by (auto simp: commands_upsert_def split: if_splits)
  have at: "row_at t' u' ws' = (if u' = u \<and> ws' = ws then Some ?r else row_at t u' ws')" for u' ws'
    unfolding t' by (subst row_at_upsert) simp
  have "keys_distinct t'" unfolding t' by (rule keys_distinct_upsert) fact
  from get_run_commands_at [OF this, of json Map.empty "set [(u, ws)]" u ws]
  show ?thesis
    using Inr assms(2,4) by (simp add: at commands_get_def decode_commands_row_def get_run_commands_for_pairs_def)
qed

definition sample_commands_json :: commands_json where
  "sample_commands_json = \<lparr>encode_init = (\<lambda>cs. Some (concat cs)), decode_init = (\<lambda>j. Some [j]),
     encode_run = (\<lambda>_. Some ''r''), decode_run = (\<lambda>j. if j = ''r'' then Some [] else None)\<rparr>"


end
