(* ===== verification/Snapshot_Store.thy ===== *)
theory Snapshot_Store
  imports Workflow_Types User_Flows Flow_Order
begin

text \<open>
  \<open>workflow/snapshot.rs\<close>: the snapshot files under the data directory, one per workspace, and the
  legacy files that older versions left in the data directory and in the repository.

  The files are a record: the directories under \<open>workspaces\<close> with the bytes of their snapshot,
  the global file, the file inside the repository. The name of a workspace is one path component,
  as the registry of repositories stores it. \<open>io\<close> says which file operations succeed.
\<close>

definition SNAPSHOT_VERSION :: u32 where
  "SNAPSHOT_VERSION = 1"

record snapshot_file =
  sf_version :: u32
  sf_workflows :: "persisted_workflow_record list"

record snapshot_files =
  fs_workspaces :: "(string \<times> string option) list"
  fs_global :: "string option"
  fs_legacy :: "string option"

datatype file_op =
    CreateDir string
  | ReadWorkspace string | ReadGlobal | ReadLegacy
  | WriteWorkspace string | RemoveWorkspace string | RemoveGlobal | RemoveLegacy

record snapshot_json =
  snap_encode :: "snapshot_file \<Rightarrow> string option"
  snap_decode :: "string \<Rightarrow> snapshot_file option"

datatype snapshot_error = IoError | SnapshotError

subsection \<open>Directories\<close>

text \<open>\<open>file_name()\<close> of an absolute path: the last component, when there is one and it is not \<open>..\<close>.\<close>

definition path_components :: "string \<Rightarrow> string list" where
  "path_components p =
     filter (\<lambda>c. c \<noteq> [] \<and> c \<noteq> ''.'') (foldr (\<lambda>c acc. if c = CHR ''/'' then [] # acc
        else (case acc of x # xs \<Rightarrow> (c # x) # xs | [] \<Rightarrow> [[c]])) p [[]])"

definition workspace_name_from_repo_path :: "string \<Rightarrow> string" where
  "workspace_name_from_repo_path repo_path =
     (case rev (path_components repo_path) of
        [] \<Rightarrow> ''default''
      | n # _ \<Rightarrow> if n = ''..'' then ''default'' else n)"

definition path_join :: "string \<Rightarrow> string \<Rightarrow> string" where
  "path_join p x = (if p \<noteq> [] \<and> last p \<noteq> CHR ''/'' then p @ ''/'' @ x else p @ x)"

definition resolve_data_dir :: "string option \<Rightarrow> string option \<Rightarrow> string option \<Rightarrow> string option" where
  "resolve_data_dir takuto_data_dir takuto_home home =
     (case takuto_data_dir of
        Some (c # dir) \<Rightarrow> Some (c # dir)
      | _ \<Rightarrow>
          (case takuto_home of
             Some (c # h) \<Rightarrow> Some (path_join (c # h) ''.takuto'')
           | _ \<Rightarrow>
               (case home of
                  Some (c # h) \<Rightarrow> Some (path_join (c # h) ''.takuto'')
                | _ \<Rightarrow> None)))"

definition resolve_snapshot_dir ::
  "string option \<Rightarrow> string option \<Rightarrow> string option \<Rightarrow> string \<Rightarrow> string" where
  "resolve_snapshot_dir takuto_data_dir takuto_home home repo_path =
     (case resolve_data_dir takuto_data_dir takuto_home home of
        Some dir \<Rightarrow> dir
      | None \<Rightarrow> path_join repo_path ''.takuto'')"

subsection \<open>Reading\<close>

definition backfill_workspace ::
  "string \<Rightarrow> persisted_workflow_record \<Rightarrow> persisted_workflow_record" where
  "backfill_workspace ws r = (if pr_workspace_name r = [] then r\<lparr>pr_workspace_name := ws\<rparr> else r)"

text \<open>One entry of the directory; what cannot be read or parsed, or has another version, is skipped.\<close>

definition read_entry ::
  "(file_op \<Rightarrow> bool) \<Rightarrow> snapshot_json \<Rightarrow> string \<times> string option \<Rightarrow> persisted_workflow_record list" where
  "read_entry io json entry =
     (case entry of (ws, content) \<Rightarrow>
        (case content of
           None \<Rightarrow> []
         | Some bytes \<Rightarrow>
             if \<not> io (ReadWorkspace ws) then []
             else (case snap_decode json bytes of
                     None \<Rightarrow> []
                   | Some file \<Rightarrow>
                       if sf_version file \<noteq> SNAPSHOT_VERSION then []
                       else List.map (backfill_workspace ws) (sf_workflows file))))"

definition read_all_workspace_snapshots ::
  "(file_op \<Rightarrow> bool) \<Rightarrow> snapshot_json \<Rightarrow> snapshot_files \<Rightarrow> snapshot_error + persisted_workflow_record list" where
  "read_all_workspace_snapshots io json fs =
     (let all_records = concat (List.map (read_entry io json) (fs_workspaces fs))
      in case fs_global fs of
           None \<Rightarrow> Inr all_records
         | Some bytes \<Rightarrow>
             if \<not> io ReadGlobal then Inl IoError
             else (case snap_decode json bytes of
                     None \<Rightarrow> Inl SnapshotError
                   | Some file \<Rightarrow>
                       if sf_version file = SNAPSHOT_VERSION \<and> sf_workflows file \<noteq> []
                       then Inr (all_records @ sf_workflows file)
                       else Inr all_records))"

definition cleanup_legacy_global_snapshot :: "(file_op \<Rightarrow> bool) \<Rightarrow> snapshot_files \<Rightarrow> snapshot_files" where
  "cleanup_legacy_global_snapshot io fs =
     (if fs_global fs \<noteq> None \<and> io RemoveGlobal then fs\<lparr>fs_global := None\<rparr> else fs)"

definition set_entry :: "string \<Rightarrow> string option \<Rightarrow> snapshot_files \<Rightarrow> snapshot_files" where
  "set_entry ws content fs = fs\<lparr>fs_workspaces := AList.update ws content (fs_workspaces fs)\<rparr>"

text \<open>\<open>create_dir_all\<close>\<close>

definition ensure_entry :: "string \<Rightarrow> snapshot_files \<Rightarrow> snapshot_files" where
  "ensure_entry ws fs =
     (if map_of (fs_workspaces fs) ws = None then fs\<lparr>fs_workspaces := fs_workspaces fs @ [(ws, None)]\<rparr> else fs)"

text \<open>A file found in a legacy place is moved to the workspace's directory when that can be written.\<close>

definition migrate_bytes ::
  "(file_op \<Rightarrow> bool) \<Rightarrow> string \<Rightarrow> string \<Rightarrow> file_op \<Rightarrow> (snapshot_files \<Rightarrow> snapshot_files) \<Rightarrow> snapshot_files \<Rightarrow>
   snapshot_files" where
  "migrate_bytes io ws bytes remove removed fs =
     (if \<not> io (CreateDir ws) then fs
      else let fs1 = ensure_entry ws fs in
        if \<not> io (WriteWorkspace ws) then fs1
        else let fs2 = set_entry ws (Some bytes) fs1 in if io remove then removed fs2 else fs2)"

definition read_workflow_snapshot ::
  "(file_op \<Rightarrow> bool) \<Rightarrow> snapshot_json \<Rightarrow> string \<Rightarrow> snapshot_files \<Rightarrow>
   (snapshot_error + snapshot_file option) \<times> snapshot_files" where
  "read_workflow_snapshot io json repo_path fs =
     (let ws = workspace_name_from_repo_path repo_path;
          parse = (\<lambda>read_ok bytes. if \<not> read_ok then Inl IoError
                     else (case snap_decode json bytes of None \<Rightarrow> Inl SnapshotError | Some file \<Rightarrow> Inr file));
          backfilled = (\<lambda>file. file\<lparr>sf_workflows := List.map (backfill_workspace ws) (sf_workflows file)\<rparr>)
      in case map_of (fs_workspaces fs) ws of
           Some (Some bytes) \<Rightarrow>
             ((case parse (io (ReadWorkspace ws)) bytes of Inl e \<Rightarrow> Inl e | Inr file \<Rightarrow> Inr (Some file)), fs)
         | _ \<Rightarrow>
             (case fs_legacy fs of
                Some bytes \<Rightarrow>
                  (case parse (io ReadLegacy) bytes of
                     Inl e \<Rightarrow> (Inl e, fs)
                   | Inr file \<Rightarrow> (Inr (Some (backfilled file)),
                       migrate_bytes io ws bytes RemoveLegacy (\<lambda>f. f\<lparr>fs_legacy := None\<rparr>) fs))
              | None \<Rightarrow>
                  (case fs_global fs of
                     Some bytes \<Rightarrow>
                       (case parse (io ReadGlobal) bytes of
                          Inl e \<Rightarrow> (Inl e, fs)
                        | Inr file \<Rightarrow> (Inr (Some (backfilled file)),
                            migrate_bytes io ws bytes RemoveGlobal (\<lambda>f. f\<lparr>fs_global := None\<rparr>) fs))
                   | None \<Rightarrow> (Inr None, fs))))"

definition scan_in_flight_workflow_keys :: "(file_op \<Rightarrow> bool) \<Rightarrow> snapshot_json \<Rightarrow> snapshot_files \<Rightarrow> string list" where
  "scan_in_flight_workflow_keys io json fs =
     concat (List.map (\<lambda>(ws, content).
       (case content of
          None \<Rightarrow> []
        | Some bytes \<Rightarrow>
            if \<not> io (ReadWorkspace ws) then []
            else (case snap_decode json bytes of
                    None \<Rightarrow> []
                  | Some file \<Rightarrow>
                      List.map pr_ticket_key (filter (\<lambda>r. case pr_state r of
                          Done \<Rightarrow> False | Stopped \<Rightarrow> False | Error _ _ \<Rightarrow> False | Paused _ \<Rightarrow> False
                        | _ \<Rightarrow> True) (sf_workflows file))))) (fs_workspaces fs))"

subsection \<open>Writing\<close>

text \<open>
  The groups of records by workspace, in the order the hash map yields them. The new content is
  written beside the file and renamed over it, so a failed write leaves the old content.
\<close>

fun distinct_names :: "string list \<Rightarrow> string list" where
  "distinct_names [] = []"
| "distinct_names (x # xs) = x # filter (\<lambda>y. y \<noteq> x) (distinct_names xs)"

definition workspaces_of :: "persisted_workflow_record list \<Rightarrow> string list" where
  "workspaces_of recs = distinct_names (List.map pr_workspace_name recs)"

definition write_group ::
  "(file_op \<Rightarrow> bool) \<Rightarrow> snapshot_json \<Rightarrow> string \<Rightarrow> persisted_workflow_record list \<Rightarrow> snapshot_files \<Rightarrow>
   (snapshot_error + unit) \<times> snapshot_files" where
  "write_group io json ws records fs =
     (if ws = [] then (Inr (), fs)
      else if \<not> io (CreateDir ws) then (Inl IoError, fs)
      else let fs1 = ensure_entry ws fs in
        (case snap_encode json \<lparr>sf_version = SNAPSHOT_VERSION, sf_workflows = records\<rparr> of
           None \<Rightarrow> (Inl SnapshotError, fs1)
         | Some bytes \<Rightarrow>
             if \<not> io (WriteWorkspace ws) then (Inl IoError, fs1)
             else (Inr (), set_entry ws (Some bytes) fs1)))"

fun write_groups ::
  "(file_op \<Rightarrow> bool) \<Rightarrow> snapshot_json \<Rightarrow> persisted_workflow_record list \<Rightarrow> string list \<Rightarrow> snapshot_files \<Rightarrow>
   (snapshot_error + unit) \<times> snapshot_files" where
  "write_groups io json recs [] fs = (Inr (), fs)"
| "write_groups io json recs (ws # wss) fs =
     (case write_group io json ws (filter (\<lambda>r. pr_workspace_name r = ws) recs) fs of
        (Inl e, fs') \<Rightarrow> (Inl e, fs')
      | (Inr _, fs') \<Rightarrow> write_groups io json recs wss fs')"

text \<open>A workspace with no records loses its file.\<close>

definition remove_stale :: "(file_op \<Rightarrow> bool) \<Rightarrow> string list \<Rightarrow> snapshot_files \<Rightarrow> snapshot_files" where
  "remove_stale io names fs = fs\<lparr>fs_workspaces := List.map (\<lambda>(ws, content).
     (ws, if ws \<notin> set names \<and> io (RemoveWorkspace ws) then None else content)) (fs_workspaces fs)\<rparr>"

definition write_all_workspace_snapshots ::
  "(file_op \<Rightarrow> bool) \<Rightarrow> snapshot_json \<Rightarrow> (string list \<Rightarrow> string list) \<Rightarrow> persisted_workflow_record list \<Rightarrow>
   snapshot_files \<Rightarrow> (snapshot_error + unit) \<times> snapshot_files" where
  "write_all_workspace_snapshots io json hash_order recs fs =
     (case write_groups io json recs (hash_order (workspaces_of recs)) fs of
        (Inl e, fs') \<Rightarrow> (Inl e, fs')
      | (Inr _, fs') \<Rightarrow> (Inr (), remove_stale io (workspaces_of recs) fs'))"

definition write_workflow_snapshot ::
  "(file_op \<Rightarrow> bool) \<Rightarrow> snapshot_json \<Rightarrow> string \<Rightarrow> persisted_workflow_record list \<Rightarrow> snapshot_files \<Rightarrow>
   (snapshot_error + unit) \<times> snapshot_files" where
  "write_workflow_snapshot io json repo_path recs fs =
     write_group io json (workspace_name_from_repo_path repo_path) recs fs"

definition remove_workflow_snapshot ::
  "(file_op \<Rightarrow> bool) \<Rightarrow> string \<Rightarrow> snapshot_files \<Rightarrow> (snapshot_error + unit) \<times> snapshot_files" where
  "remove_workflow_snapshot io repo_path fs =
     (let ws = workspace_name_from_repo_path repo_path;
          present = (case map_of (fs_workspaces fs) ws of Some (Some _) \<Rightarrow> True | _ \<Rightarrow> False)
      in if present \<and> \<not> io (RemoveWorkspace ws) then (Inl IoError, fs)
         else let fs1 = (if present then set_entry ws None fs else fs)
              in (Inr (), if fs_global fs1 \<noteq> None \<and> io RemoveGlobal then fs1\<lparr>fs_global := None\<rparr> else fs1))"

subsection \<open>Properties\<close>

lemma distinct_names [simp]: "distinct (distinct_names xs)" "set (distinct_names xs) = set xs"
  by (induction xs) auto

lemma workspaces_of_iff [simp]: "ws \<in> set (workspaces_of recs) \<longleftrightarrow> (\<exists>r \<in> set recs. pr_workspace_name r = ws)"
  by (auto simp: workspaces_of_def)

definition entries_ok :: "snapshot_files \<Rightarrow> bool" where
  "entries_ok fs \<longleftrightarrow> distinct (List.map fst (fs_workspaces fs)) \<and> [] \<notin> fst ` set (fs_workspaces fs)"

definition group_bytes :: "snapshot_json \<Rightarrow> persisted_workflow_record list \<Rightarrow> string \<Rightarrow> string option" where
  "group_bytes json recs ws = snap_encode json \<lparr>sf_version = SNAPSHOT_VERSION,
     sf_workflows = filter (\<lambda>r. pr_workspace_name r = ws) recs\<rparr>"

text \<open>\<open>serde_json\<close> reads back the groups it writes.\<close>

definition json_ok :: "snapshot_json \<Rightarrow> persisted_workflow_record list \<Rightarrow> bool" where
  "json_ok json recs \<longleftrightarrow> (\<forall>ws \<in> set (workspaces_of recs). \<exists>bytes. group_bytes json recs ws = Some bytes \<and>
     snap_decode json bytes = Some \<lparr>sf_version = SNAPSHOT_VERSION,
       sf_workflows = filter (\<lambda>r. pr_workspace_name r = ws) recs\<rparr>)"

lemma entry_simps [simp]:
  "map_of (fs_workspaces (set_entry ws c fs)) = (map_of (fs_workspaces fs))(ws \<mapsto> c)"
  "map_of (fs_workspaces (ensure_entry ws fs)) ws' =
     (if ws' = ws \<and> map_of (fs_workspaces fs) ws = None then Some None else map_of (fs_workspaces fs) ws')"
  "fs_global (set_entry ws c fs) = fs_global fs" "fs_global (ensure_entry ws fs) = fs_global fs"
  by (auto simp: set_entry_def ensure_entry_def update_conv' map_add_def split: option.split)

lemma entries_ok_set [simp]:
  "entries_ok fs \<Longrightarrow> ws \<noteq> [] \<Longrightarrow> entries_ok (set_entry ws c fs)"
  "entries_ok fs \<Longrightarrow> ws \<noteq> [] \<Longrightarrow> entries_ok (ensure_entry ws fs)"
  by (auto simp: entries_ok_def set_entry_def ensure_entry_def distinct_update dom_update map_of_eq_None_iff
      simp flip: dom_map_of_conv_image_fst)

lemma write_group_keeps:
  assumes "write_group io json ws rs fs = (res, fs')"
  shows "fs_global fs' = fs_global fs" and "entries_ok fs \<Longrightarrow> entries_ok fs'"
  using assms by (auto simp: write_group_def Let_def split: if_splits option.splits)

lemma write_groups_keeps:
  "write_groups io json recs wss fs = (res, fs') \<Longrightarrow>
     fs_global fs' = fs_global fs \<and> (entries_ok fs \<longrightarrow> entries_ok fs')"
proof (induction wss arbitrary: fs)
  case (Cons ws wss)
  obtain r1 fs1 where 1: "write_group io json ws (filter (\<lambda>r. pr_workspace_name r = ws) recs) fs = (r1, fs1)"
    by fastforce
  show ?case using Cons write_group_keeps [OF 1] by (cases r1) (auto simp: 1)
qed simp

text \<open>Whatever fails, a file holds what it held or the whole new group of its workspace.\<close>

lemma write_groups_atomic:
  assumes "write_groups io json recs wss fs = (res, fs')" and "distinct wss"
  shows "map_of (fs_workspaces fs') ws = map_of (fs_workspaces fs) ws \<or>
    (map_of (fs_workspaces fs) ws = None \<and> map_of (fs_workspaces fs') ws = Some None) \<or>
    (ws \<in> set wss \<and> group_bytes json recs ws \<noteq> None \<and>
     map_of (fs_workspaces fs') ws = Some (group_bytes json recs ws))"
  using assms
proof (induction wss arbitrary: fs)
  case (Cons w wss)
  obtain r1 fs1 where 1: "write_group io json w (filter (\<lambda>r. pr_workspace_name r = w) recs) fs = (r1, fs1)"
    by fastforce
  have step: "map_of (fs_workspaces fs1) ws = map_of (fs_workspaces fs) ws \<or>
      (ws = w \<and> map_of (fs_workspaces fs) ws = None \<and> map_of (fs_workspaces fs1) ws = Some None) \<or>
      (ws = w \<and> group_bytes json recs ws \<noteq> None \<and> map_of (fs_workspaces fs1) ws = Some (group_bytes json recs ws))"
    using 1 by (auto simp: write_group_def group_bytes_def Let_def split: if_splits option.splits)
  show ?case
  proof (cases r1)
    case (Inl e)
    then show ?thesis using Cons.prems step by (auto simp: 1)
  next
    case (Inr u)
    then have rest: "write_groups io json recs wss fs1 = (res, fs')" using Cons.prems(1) by (simp add: 1)
    show ?thesis using Cons.IH [OF rest] Cons.prems(2) step by auto
  qed
qed simp

lemma write_groups_complete:
  assumes "json_ok json recs" and "\<And>op. io op" and "distinct wss" and "set wss \<subseteq> set (workspaces_of recs)"
  shows "\<exists>fs'. write_groups io json recs wss fs = (Inr (), fs') \<and>
    (\<forall>ws. map_of (fs_workspaces fs') ws =
       (if ws \<in> set wss \<and> ws \<noteq> [] then Some (group_bytes json recs ws) else map_of (fs_workspaces fs) ws))"
  using assms(3,4)
proof (induction wss arbitrary: fs)
  case (Cons w wss)
  obtain b where b: "group_bytes json recs w = Some b"
    using assms(1) Cons.prems(2) unfolding json_ok_def by (meson list.set_intros(1) subsetD)
  let ?fs1 = "if w = [] then fs else set_entry w (Some b) (ensure_entry w fs)"
  have 1: "write_group io json w (filter (\<lambda>r. pr_workspace_name r = w) recs) fs = (Inr (), ?fs1)"
    using b assms(2) by (simp add: write_group_def group_bytes_def)
  obtain fs' where fs': "write_groups io json recs wss ?fs1 = (Inr (), fs')"
    "\<And>ws. map_of (fs_workspaces fs') ws = (if ws \<in> set wss \<and> ws \<noteq> [] then Some (group_bytes json recs ws)
       else map_of (fs_workspaces ?fs1) ws)"
    using Cons.IH [of ?fs1] Cons.prems by auto
  have "write_groups io json recs (w # wss) fs = (Inr (), fs')" by (simp add: 1 fs'(1))
  moreover have "map_of (fs_workspaces fs') ws = (if ws \<in> set (w # wss) \<and> ws \<noteq> []
      then Some (group_bytes json recs ws) else map_of (fs_workspaces fs) ws)" for ws
    using Cons.prems b fs'(2) by auto
  ultimately show ?case by blast
qed simp

lemma concat_groups:
  "distinct (List.map fst xs) \<Longrightarrow>
     mset (concat (List.map (\<lambda>x. filter (\<lambda>r. g r = fst x) rs) xs)) = filter_mset (\<lambda>r. g r \<in> fst ` set xs) (mset rs)"
proof (induction xs)
  case (Cons x xs)
  have "filter_mset (\<lambda>r. g r \<in> fst ` set (x # xs)) (mset rs) =
      filter_mset (\<lambda>r. g r = fst x) (mset rs) + filter_mset (\<lambda>r. g r \<in> fst ` set xs) (mset rs)"
    using Cons.prems by (intro multiset_eqI) (auto simp: image_iff)
  then show ?case using Cons by simp
qed simp

lemma map_of_map_entry:
  "map_of (List.map (\<lambda>(k, v). (k, f k v)) xs) k = map_option (f k) (map_of xs k)"
  by (induction xs) auto

lemma map_of_remove_stale:
  "map_of (fs_workspaces (remove_stale io names fs)) ws =
     map_option (\<lambda>c. if ws \<notin> set names \<and> io (RemoveWorkspace ws) then None else c) (map_of (fs_workspaces fs) ws)"
  using map_of_map_entry [of "\<lambda>ws c. if ws \<notin> set names \<and> io (RemoveWorkspace ws) then None else c" "fs_workspaces fs" ws]
  by (simp add: remove_stale_def)

lemma remove_stale_keeps [simp]:
  "fs_global (remove_stale io names fs) = fs_global fs" "entries_ok (remove_stale io names fs) = entries_ok fs"
  by (auto simp: remove_stale_def entries_ok_def comp_def case_prod_beta image_image)

text \<open>
  Writing the snapshots of all workspaces and reading them back gives the records that
  have a workspace, each once, and no record of an older snapshot.
\<close>
lemma snapshots_round_trip:
  assumes json: "json_ok json recs" and io: "\<And>op. io op" and order: "rearranges hash_order"
    and ok: "entries_ok fs" and global: "fs_global fs = None"
    and wr: "write_all_workspace_snapshots io json hash_order recs fs = (res, fs')"
  shows "res = Inr () \<and> (\<exists>recs'. read_all_workspace_snapshots io json fs' = Inr recs' \<and>
    mset recs' = filter_mset (\<lambda>r. pr_workspace_name r \<noteq> []) (mset recs))"
proof -
  let ?names = "hash_order (workspaces_of recs)"
  have names: "distinct ?names" "set ?names = set (workspaces_of recs)"
    using order rearranges_set [OF order, of "workspaces_of recs"]
    by (simp_all add: rearranges_def workspaces_of_def) (metis distinct_names(1) mset_eq_imp_distinct_iff)
  obtain fs1 where fs1: "write_groups io json recs ?names fs = (Inr (), fs1)"
    "\<And>ws. map_of (fs_workspaces fs1) ws = (if ws \<in> set ?names \<and> ws \<noteq> [] then Some (group_bytes json recs ws)
       else map_of (fs_workspaces fs) ws)"
    using write_groups_complete [of json recs io ?names fs] json io names by blast
  have fs': "res = Inr ()" "fs' = remove_stale io (workspaces_of recs) fs1"
    using wr by (simp_all add: write_all_workspace_snapshots_def fs1(1))
  have keep: "fs_global fs' = None" "entries_ok fs'"
    using write_groups_keeps [OF fs1(1)] ok global by (simp_all add: fs'(2))
  have entry: "read_entry io json x = filter (\<lambda>r. pr_workspace_name r = fst x) recs"
    if "x \<in> set (fs_workspaces fs')" for x
  proof -
    obtain ws c where x: "x = (ws, c)" by fastforce
    have at: "map_of (fs_workspaces fs') ws = Some c" and "ws \<noteq> []"
      using that keep(2) x by (auto simp: entries_ok_def image_iff intro!: map_of_is_SomeI)
    show ?thesis
    proof (cases "ws \<in> set (workspaces_of recs)")
      case True
      then have "c = group_bytes json recs ws"
        using at \<open>ws \<noteq> []\<close> fs1(2) [of ws] names(2) by (auto simp: fs'(2) map_of_remove_stale)
      moreover obtain b where b: "group_bytes json recs ws = Some b"
        "snap_decode json b = Some \<lparr>sf_version = SNAPSHOT_VERSION,
           sf_workflows = filter (\<lambda>r. pr_workspace_name r = ws) recs\<rparr>"
        using json True unfolding json_ok_def by blast
      moreover have "List.map (backfill_workspace ws) (filter (\<lambda>r. pr_workspace_name r = ws) recs) =
          filter (\<lambda>r. pr_workspace_name r = ws) recs"
        using \<open>ws \<noteq> []\<close> by (intro map_idI) (auto simp: backfill_workspace_def)
      ultimately show ?thesis using io by (simp add: read_entry_def x)
    next
      case False
      then have "c = None" using at io by (auto simp: fs'(2) map_of_remove_stale)
      moreover have "filter (\<lambda>r. pr_workspace_name r = ws) recs = []"
        using False by (auto simp: filter_empty_conv)
      ultimately show ?thesis by (simp add: read_entry_def x)
    qed
  qed
  have dom: "ws \<in> fst ` set (fs_workspaces fs')" if "ws \<in> set (workspaces_of recs)" "ws \<noteq> []" for ws
  proof -
    have "map_of (fs_workspaces fs') ws \<noteq> None"
      using that fs1(2) [of ws] names(2) by (simp add: fs'(2) map_of_remove_stale)
    then show ?thesis by (simp add: map_of_eq_None_iff)
  qed
  have "mset (concat (List.map (read_entry io json) (fs_workspaces fs'))) =
      filter_mset (\<lambda>r. pr_workspace_name r \<in> fst ` set (fs_workspaces fs')) (mset recs)"
    using concat_groups [of "fs_workspaces fs'" pr_workspace_name recs] keep(2) entry
    by (simp add: entries_ok_def cong: map_cong)
  also have "\<dots> = filter_mset (\<lambda>r. pr_workspace_name r \<noteq> []) (mset recs)"
    using dom keep(2) by (intro filter_mset_cong) (auto simp: entries_ok_def image_iff)
  finally show ?thesis by (simp add: fs'(1) read_all_workspace_snapshots_def keep(1))
qed

text \<open>
  A write that fails part of the way damages no snapshot: the file of each workspace holds
  what it held before, or all the records of the workspace.
\<close>
lemma snapshot_write_atomic:
  assumes "write_all_workspace_snapshots io json hash_order recs fs = (Inl err, fs')"
    and "rearranges hash_order"
  shows "map_of (fs_workspaces fs') ws = map_of (fs_workspaces fs) ws \<or>
    (map_of (fs_workspaces fs) ws = None \<and> map_of (fs_workspaces fs') ws = Some None) \<or>
    (group_bytes json recs ws \<noteq> None \<and> map_of (fs_workspaces fs') ws = Some (group_bytes json recs ws))"
proof -
  have "distinct (hash_order (workspaces_of recs))"
    using assms(2) unfolding rearranges_def workspaces_of_def
    by (metis distinct_names(1) mset_eq_imp_distinct_iff)
  moreover have "write_groups io json recs (hash_order (workspaces_of recs)) fs = (Inl err, fs')"
    using assms(1) by (auto simp: write_all_workspace_snapshots_def split: sum.splits prod.splits)
  ultimately show ?thesis using write_groups_atomic by blast
qed

subsection \<open>Witnesses\<close>

text \<open>A serialisation with the file text \<open>x\<close> for one file, enough to run the code.\<close>

definition sample_snapshot_json :: "snapshot_file \<Rightarrow> snapshot_json" where
  "sample_snapshot_json file =
     \<lparr>snap_encode = (\<lambda>f. if f = file then Some ''x'' else None),
      snap_decode = (\<lambda>b. if b = ''x'' then Some file else None)\<rparr>"

definition sample_records :: "persisted_workflow_record list" where
  "sample_records = [workflow_to_persisted_record sample_workflow_record]"

lemma sample_records_workspaces: "workspaces_of sample_records = [''ws'']"
  by (simp add: workspaces_of_def sample_records_def workflow_to_persisted_record_def
      sample_workflow_record_def workflow_new_def)

definition sample_files :: snapshot_files where
  "sample_files = \<lparr>fs_workspaces = [(''old'', Some ''x'')], fs_global = None, fs_legacy = None\<rparr>"


end
