(* ===== verification/Git_Names.thy ===== *)
theory Git_Names
  imports User_Flows Flow_Discovery
begin

text \<open>
  The names the engine gives to git and GitHub: branch names (\<open>git/worktree.rs\<close>), pull request
  titles (\<open>git/pr.rs\<close>), and the parts of a GitHub address (\<open>github/mod.rs\<close>,
  \<open>workflow/helpers.rs\<close>). Unicode lower-casing is a table given as a parameter.
\<close>

subsection \<open>Branches\<close>

text \<open>
  The loop over the characters, byte by byte as in \<^theory_text>\<open>slug_chars\<close>: every byte of a
  character outside ASCII falls into the last branch.
\<close>

fun ref_chars :: "string \<Rightarrow> bool \<Rightarrow> string" where
  "ref_chars [] prev_dash = []"
| "ref_chars (c # s) prev_dash =
     (if is_ascii_alphanumeric c then to_ascii_lowercase [c] @ ref_chars s False
      else if c = CHR ''_'' then CHR ''_'' # ref_chars s False
      else if \<not> prev_dash then CHR ''-'' # ref_chars s True
      else ref_chars s prev_dash)"

definition slugify_ref_component :: "string \<Rightarrow> string" where
  "slugify_ref_component raw =
     (let trimmed = trim_end_dashes (dropWhile (\<lambda>c. c = CHR ''-'') (ref_chars raw False))
      in if trimmed = [] then ''item'' else trimmed)"

definition item_prefix :: "case_tables \<Rightarrow> string \<Rightarrow> string" where
  "item_prefix tables item_type = (if to_lowercase tables item_type = ''bug'' then ''fix'' else ''feat'')"

definition branch_name_for_ticket_run :: "case_tables \<Rightarrow> string \<Rightarrow> string \<Rightarrow> u32 \<Rightarrow> string" where
  "branch_name_for_ticket_run tables ticket_key item_type run_index =
     item_prefix tables item_type @ ''/'' @ slugify_ref_component ticket_key @
     (if run_index \<le> 1 then [] else ''-'' @ show_nat (unat run_index))"

definition branch_name_for_ticket :: "case_tables \<Rightarrow> string \<Rightarrow> string \<Rightarrow> string" where
  "branch_name_for_ticket tables ticket_key item_type =
     branch_name_for_ticket_run tables ticket_key item_type 1"

definition pr_title :: "case_tables \<Rightarrow> string \<Rightarrow> string \<Rightarrow> string \<Rightarrow> string" where
  "pr_title tables ticket_key ticket_summary item_type =
     item_prefix tables item_type @ ''('' @ ticket_key @ ''): '' @ ticket_summary"

subsection \<open>GitHub addresses\<close>

text \<open>\<open>str::parse::<u64>\<close>: an optional plus sign, at least one digit, no overflow.\<close>

fun parse_digits :: "nat \<Rightarrow> string \<Rightarrow> nat option" where
  "parse_digits acc [] = Some acc"
| "parse_digits acc (c # s) =
     (if \<not> is_ascii_digit c then None
      else let n = acc * 10 + (of_char c - 48) in if 2 ^ 64 \<le> n then None else parse_digits n s)"

definition parse_u64 :: "string \<Rightarrow> nat option" where
  "parse_u64 s =
     (case (case s of CHR ''+'' # r \<Rightarrow> r | _ \<Rightarrow> s) of
        [] \<Rightarrow> None
      | c # r \<Rightarrow> parse_digits 0 (c # r))"

definition parse_gh_issue_number :: "string \<Rightarrow> nat option" where
  "parse_gh_issue_number ticket_key =
     (case strip_prefix ''GH-'' ticket_key of None \<Rightarrow> None | Some n \<Rightarrow> parse_u64 n)"

text \<open>\<open>trim_end_matches\<close> takes the suffix off as often as it is there.\<close>

function trim_end_matches :: "string \<Rightarrow> string \<Rightarrow> string" where
  "trim_end_matches p s =
     (if p \<noteq> [] \<and> suffix p s then trim_end_matches p (take (length s - length p) s) else s)"
  by pat_completeness auto

termination trim_end_matches
  by (relation "measure (\<lambda>(p, s). length s)") (auto simp: suffix_def)

declare trim_end_matches.simps [simp del]

definition parse_github_repo :: "string \<Rightarrow> string option" where
  "parse_github_repo repo_url =
     (let url = trim_end_matches ''.git'' (trim_end_matches ''/'' (trim repo_url)) in
      case strip_prefix ''https://github.com/'' url of
        Some rest \<Rightarrow>
          if CHR ''/'' \<in> set rest then Some rest
          else None
      | None \<Rightarrow>
          (case strip_prefix ''git@github.com:'' url of
             Some rest \<Rightarrow> if CHR ''/'' \<in> set rest then Some rest else None
           | None \<Rightarrow> if CHR ''/'' \<in> set url \<and> \<not> str_contains ''://'' url then Some url else None))"

text \<open>\<open>splitn(4, '/')\<close>\<close>

fun splitn :: "nat \<Rightarrow> char \<Rightarrow> string \<Rightarrow> string list" where
  "splitn n x s =
     (case split_on x s of
        ws \<Rightarrow> if length ws \<le> n then ws else take (n - 1) ws @ [join [x] (drop (n - 1) ws)])"

definition parse_pr_url :: "string \<Rightarrow> (string \<times> nat) option" where
  "parse_pr_url url =
     (case strip_prefix ''https://github.com/'' (trim_end_matches ''/'' (trim url)) of
        None \<Rightarrow> None
      | Some rest \<Rightarrow>
          (case splitn 4 (CHR ''/'') rest of
             [owner, repo, pull_segment, number_segment] \<Rightarrow>
               if owner = [] \<or> repo = [] \<or> pull_segment \<noteq> ''pull'' then None
               else (case parse_u64 (hd (split_on (CHR ''/'') number_segment)) of
                       None \<Rightarrow> None
                     | Some number \<Rightarrow> Some (owner @ ''/'' @ repo, number))
           | _ \<Rightarrow> None))"

definition gh_api_error_message :: "string \<Rightarrow> string \<Rightarrow> string" where
  "gh_api_error_message raw_stderr required_permission =
     (if str_contains ''Resource not accessible by integration'' raw_stderr \<or>
         str_contains ''403'' raw_stderr \<and> str_contains ''integration'' raw_stderr
      then ''GitHub App is missing the '' @ quoted required_permission @
           '' permission. Go to your GitHub App settings '' @ right_arrow @ '' Permissions & events '' @
           right_arrow @ '' set '' @ quoted required_permission @
           '' to Read (or Write), save, then re-approve the installation on your account/org.''
      else if str_contains ''401'' raw_stderr \<or> str_contains ''Bad credentials'' raw_stderr
      then ''GitHub authentication failed. The GitHub App token may be invalid or expired. '' @
           ''Check that app_id, app_installation_id, and the private key are correct in config.toml.''
      else raw_stderr)"

subsection \<open>Properties\<close>

definition ref_char :: "char \<Rightarrow> bool" where
  "ref_char c \<longleftrightarrow> slug_char c \<or> c = CHR ''_''"

lemma ref_char_chars: "c \<in> set (ref_chars s b) \<Longrightarrow> ref_char c"
proof (induction s b rule: ref_chars.induct)
  case (2 ch s b)
  have "slug_char d" if "is_ascii_alphanumeric ch" "d \<in> set (to_ascii_lowercase [ch])" for d
    using that by (auto simp: to_ascii_lowercase_def is_ascii_alphanumeric_def slug_char_def Let_def
        split: if_splits)
  moreover have "ref_char (CHR ''-'')" "ref_char (CHR ''_'')" by (simp_all add: ref_char_def slug_char_def)
  ultimately show ?case using 2 by (auto simp: ref_char_def split: if_splits)
qed simp

lemma ref_component_shape:
  "slugify_ref_component raw \<noteq> [] \<and> list_all ref_char (slugify_ref_component raw) \<and>
   hd (slugify_ref_component raw) \<noteq> CHR ''-'' \<and> last (slugify_ref_component raw) \<noteq> CHR ''-''"
proof (cases "trim_end_dashes (dropWhile (\<lambda>c. c = CHR ''-'') (ref_chars raw False)) = []")
  case True
  then show ?thesis
    by (simp add: slugify_ref_component_def ref_char_def slug_char_def)
next
  case False
  define d where "d = dropWhile (\<lambda>c. c = CHR ''-'') (ref_chars raw False)"
  define t where "t = trim_end_dashes d"
  have t: "t \<noteq> []" "slugify_ref_component raw = t"
    using False by (simp_all add: t_def d_def slugify_ref_component_def)
  obtain zs where d: "d = t @ zs" using trim_end_dashes_prefix [of d] by (auto simp: t_def prefix_def)
  have "set d \<subseteq> set (ref_chars raw False)" unfolding d_def using set_dropWhileD by fast
  then have "list_all ref_char t" using ref_char_chars d by (auto simp: list_all_iff)
  moreover have "last t \<noteq> CHR ''-''" using last_trim_end_dashes [of d] t(1) by (simp add: t_def)
  moreover have "d \<noteq> []" using d t(1) by simp
  then have "hd d \<noteq> CHR ''-''" unfolding d_def using hd_dropWhile by blast
  then have "hd t \<noteq> CHR ''-''" using d t(1) by simp
  ultimately show ?thesis using t by simp
qed

lemma show_nat_digits: "c \<in> set (show_nat n) \<Longrightarrow> is_ascii_digit c"
proof (induction n rule: show_nat.induct)
  case (1 n)
  then show ?case
    by (subst (asm) (2) show_nat.simps) (auto simp: is_ascii_digit_def split: if_splits)
qed

fun read_nat :: "string \<Rightarrow> nat" where
  "read_nat s = foldl (\<lambda>acc c. acc * 10 + (of_char c - 48)) 0 s"

lemma read_show_nat: "read_nat (show_nat n) = n"
proof (induction n rule: show_nat.induct)
  case (1 n)
  then show ?case by (subst show_nat.simps) (auto simp: of_char_of)
qed

lemma show_nat_inject: "show_nat m = show_nat n \<Longrightarrow> m = n"
  by (metis read_show_nat)

text \<open>
  A branch name is a prefix, a slash and one path component that git takes: letters, digits,
  underscores and dashes, not empty, no dash at either end. Different runs of a ticket have
  different branches.
\<close>
lemma branch_names_distinct_per_run:
  "(\<exists>component. branch_name_for_ticket_run tables k t i = item_prefix tables t @ ''/'' @ component \<and>
      component \<noteq> [] \<and> list_all ref_char component \<and> hd component \<noteq> CHR ''-'' \<and> last component \<noteq> CHR ''-'') \<and>
   (1 \<le> i \<longrightarrow> 1 \<le> j \<longrightarrow> branch_name_for_ticket_run tables k t i = branch_name_for_ticket_run tables k t j \<longrightarrow> i = j)"
proof (intro conjI impI)
  let ?suffix = "if i \<le> 1 then [] else ''-'' @ show_nat (unat i)"
  let ?c = "slugify_ref_component k @ ?suffix"
  have digit: "slug_char c \<and> c \<noteq> CHR ''-''" if "is_ascii_digit c" for c
    using that by (auto simp: is_ascii_digit_def slug_char_def Let_def)
  have ne: "show_nat n \<noteq> []" for n by (subst show_nat.simps) simp
  have "list_all ref_char ?suffix" using show_nat_digits digit
    by (auto simp: list_all_iff ref_char_def slug_char_def)
  moreover have "last ?c \<noteq> CHR ''-''"
    using ref_component_shape [of k] ne digit show_nat_digits [OF last_in_set [OF ne]] by (auto simp: last_append)
  ultimately show "\<exists>component. branch_name_for_ticket_run tables k t i = item_prefix tables t @ ''/'' @ component \<and>
      component \<noteq> [] \<and> list_all ref_char component \<and> hd component \<noteq> CHR ''-'' \<and> last component \<noteq> CHR ''-''"
    using ref_component_shape [of k]
    by (intro exI [of _ ?c]) (auto simp: branch_name_for_ticket_run_def)
next
  assume "1 \<le> i" "1 \<le> j" "branch_name_for_ticket_run tables k t i = branch_name_for_ticket_run tables k t j"
  then have "unat i = unat j \<or> i = j"
    by (auto simp: branch_name_for_ticket_run_def dest!: show_nat_inject split: if_splits)
  then show "i = j" by (auto simp: word_unat_eq_iff)
qed


end
