(* ===== verification/Engine_State.thy ===== *)
theory Engine_State
  imports Workflow_Types Work_Items_Db_Props User_Flows Flow_Discovery Progress Repositories_Db
    Settings_Db Snapshot_Store Git_Names
begin

text \<open>
  The engine's state and the operations the other engine modules share: the in-memory map of
  \<open>engine/repository.rs\<close>, the event bus, and the helpers at the end of
  \<open>engine/driver.rs\<close> (state transitions, shadow writes, retries).

  An operation that can raise an error returns \<open>(error + 'a) \<times> engine\<close>. Each operation runs as
  a whole; the clock is read as often as the code reads it. Whether the next database
  statement reaches the database is the head of \<^term>\<open>eng_io\<close>, and an exhausted list means
  that it does.
\<close>

subsection \<open>Errors\<close>

text \<open>
  The errors the engine itself raises or looks at: a rejected Jira token, an agent session that
  failed with no output or a bad exit code (\<open>AgentAuthShaped\<close>). Every other error is
  \<open>OtherError\<close> with its message.
\<close>

datatype takuto_error =
    WorkflowNotFound string
  | InvalidWorkflowState string string string
  | DefinitionNotFound string string
  | DefinitionInvalid string string
  | DefinitionAlreadyRunning string string
  | DefinitionDependenciesNotMet string
  | DefinitionRetryWrongState string string
  | DefinitionNoRunState string string
  | DockerUnavailable
  | Operational string string
  | Cancelled
  | CommandStepFailed
  | AgentStepAborted string
  | AgentStepFailed string
  | NoProgressLoop u32 string
  | JiraCredentialRejected string
  | AgentAuthShaped string
  | OtherError string

text \<open>\<open>to_string()\<close> of an error, from the \<open>#[error]\<close> attributes.\<close>

fun error_text :: "takuto_error \<Rightarrow> string" where
  "error_text (WorkflowNotFound k) = ''Workflow not found: '' @ k"
| "error_text (InvalidWorkflowState op st _) =
     ''Cannot '' @ op @ '' workflow in state: '' @ st"
| "error_text (DefinitionNotFound d dir) =
     ''Workflow definition '' @ quoted d @ '' not found in '' @ dir"
| "error_text (DefinitionInvalid d reason) =
     ''Workflow definition '' @ quoted d @ '' is invalid: '' @ reason"
| "error_text (DefinitionAlreadyRunning d k) =
     ''Workflow definition '' @ quoted d @ '' is already running for '' @ k"
| "error_text (DefinitionDependenciesNotMet d) =
     ''Dependencies not met for workflow definition '' @ quoted d"
| "error_text (DefinitionRetryWrongState d st) =
     ''Cannot retry workflow definition '' @ quoted d @ '': current state is '' @ quoted st @
     '', expected '' @ quoted ''error''"
| "error_text (DefinitionNoRunState d k) =
     ''Workflow definition '' @ quoted d @ '' has no run state for '' @ k"
| "error_text DockerUnavailable =
     ''Docker daemon is not available. DinD is required for workflow isolation. Set [docker] mode = '' @
     [CHR 0x22] @ ''dind'' @ [CHR 0x22] @ '' or run with DOCKER_HOST pointing at a reachable daemon.''"
| "error_text (Operational op detail) = op @ '': '' @ detail"
| "error_text Cancelled = ''Workflow cancelled''"
| "error_text CommandStepFailed = ''Command step failed''"
| "error_text (AgentStepAborted hint) = ''Agent step failed '' @ em_dash @ '' '' @ hint"
| "error_text (AgentStepFailed m) = ''Agent step failed: '' @ m"
| "error_text (NoProgressLoop n line) =
     ''Agent step aborted '' @ em_dash @ '' no progress: repeated the same output '' @
     show_nat (unat n) @ '' times ('' @ [CHR 0x22] @ line @ [CHR 0x22] @ '')''"
| "error_text (JiraCredentialRejected m) = m"
| "error_text (AgentAuthShaped m) = m"
| "error_text (OtherError m) = m"

subsection \<open>Environment and state\<close>

text \<open>
  Calls of external commands and spawned background tasks, in the order they are made. The
  running drivers are kept apart, in \<open>eng_drivers\<close>.
\<close>

datatype effect =
    RevertTicket string string "string option"
  | StartTicket string string "string option"
  | RevalidatePat string string
  | PrepareWorktree string
  | CleanupContainers string
  | AssignTicket string string "string option"
  | UnassignTicket string string "string option"
  | TransitionTicket string string string "string option"
  | CloseIssue string nat string
  | CreateWorktree string string string
  | RemoveWorktree string string
  | DeleteLocalBranch string string
  | GitWorktreePrune string
  | ConfigureGitAuthor string
  | WriteFile string string

text \<open>
  What the engine reads but does not own: the clock, the file system, the configuration, the
  workflows directory, the parsers and \<open>serde_json\<close>, the iteration order of hash maps, and how the
  \<open>n\<close>th external call ends. A call that creates a worktree yields its path.
\<close>

record env =
  env_clock :: "nat \<Rightarrow> time"
  env_json :: state_json
  env_hash_order :: "string list \<Rightarrow> string list"
  env_path_exists :: "string \<Rightarrow> bool"
  env_has_mise :: "string \<Rightarrow> bool"
  env_repo_path :: string
  env_base_branch :: string
  env_ticketing_system :: ticketing_system
  env_workflows_dir :: string
  env_parsers :: parsers
  env_case_tables :: case_tables
  env_dir :: "dir_entry list option"
  env_encode_flows :: "user_flow list \<Rightarrow> string option"
  env_decode_flows :: "string \<Rightarrow> user_flow list option"
  env_decode_polling :: "string \<Rightarrow> polling_settings option"
  env_commands_json :: commands_json
  env_snapshot_json :: snapshot_json
  env_file_io :: "file_op \<Rightarrow> bool"
  env_jira_available :: bool
  env_done_status :: string
  env_remote_url :: "string \<Rightarrow> takuto_error + string"
  env_db_message :: "db_error \<Rightarrow> string"
  env_outcome :: "nat \<Rightarrow> effect \<Rightarrow> takuto_error + string"

text \<open>
  The arguments of a spawned \<open>drive_workflow_def\<close>; \<open>drv_resume\<close> is the session of a resume
  context, \<open>None\<close> for a fresh start.
\<close>

record driver =
  drv_ticket_key :: string
  drv_def_name :: string
  drv_steps :: "agent_step_config list"
  drv_worktree_path :: "string option"
  drv_ticket_summary :: string
  drv_ticket_description :: string
  drv_ticket_type :: string
  drv_cancel_token :: nat
  drv_resume :: "string option option"

record engine =
  eng_workflows :: "(string \<times> workflow) list"
  eng_db :: "database option"
  eng_flows :: flow_table
  eng_repos :: repo_tables
  eng_polling :: polling_table
  eng_commands :: worktree_table
  eng_files :: snapshot_files
  eng_events :: "workflow_event list"
  eng_effects :: "effect list"
  eng_drivers :: "driver list"
  eng_cancelled :: "nat set"
  eng_next_token :: nat
  eng_suppress :: bool
  eng_revalidates :: bool
  eng_ticks :: nat
  eng_io :: "bool list"

definition wf_get :: "engine \<Rightarrow> string \<Rightarrow> workflow option" where
  "wf_get e k = map_of (eng_workflows e) k"

definition wf_put :: "string \<Rightarrow> workflow \<Rightarrow> engine \<Rightarrow> engine" where
  "wf_put k w e = e\<lparr>eng_workflows := AList.update k w (eng_workflows e)\<rparr>"

definition wf_remove :: "string \<Rightarrow> engine \<Rightarrow> engine" where
  "wf_remove k e = e\<lparr>eng_workflows := AList.delete k (eng_workflows e)\<rparr>"

definition modify_workflow :: "string \<Rightarrow> (workflow \<Rightarrow> workflow) \<Rightarrow> engine \<Rightarrow> engine" where
  "modify_workflow k f e = (case wf_get e k of None \<Rightarrow> e | Some w \<Rightarrow> wf_put k (f w) e)"

definition spawn_driver :: "driver \<Rightarrow> engine \<Rightarrow> engine" where
  "spawn_driver d e = e\<lparr>eng_drivers := eng_drivers e @ [d]\<rparr>"

definition tick :: "env \<Rightarrow> engine \<Rightarrow> time \<times> engine" where
  "tick env e = (env_clock env (eng_ticks e), e\<lparr>eng_ticks := Suc (eng_ticks e)\<rparr>)"

text \<open>A write under the lock that also stamps \<open>updated_at\<close>.\<close>

definition update_workflow :: "env \<Rightarrow> string \<Rightarrow> (workflow \<Rightarrow> workflow) \<Rightarrow> engine \<Rightarrow> engine" where
  "update_workflow env k f e =
     (case wf_get e k of
        None \<Rightarrow> e
      | Some w \<Rightarrow> (case tick env e of (now, e1) \<Rightarrow> wf_put k ((f w)\<lparr>wf_updated_at := now\<rparr>) e1))"

definition send :: "workflow_event \<Rightarrow> engine \<Rightarrow> engine" where
  "send ev e = e\<lparr>eng_events := eng_events e @ [ev]\<rparr>"

definition emit :: "effect \<Rightarrow> engine \<Rightarrow> engine" where
  "emit x e = e\<lparr>eng_effects := eng_effects e @ [x]\<rparr>"

text \<open>An external call that is waited for.\<close>

definition perform :: "env \<Rightarrow> effect \<Rightarrow> engine \<Rightarrow> (takuto_error + string) \<times> engine" where
  "perform env x e = (env_outcome env (length (eng_effects e)) x, emit x e)"

definition cancel :: "nat \<Rightarrow> engine \<Rightarrow> engine" where
  "cancel t e = e\<lparr>eng_cancelled := insert t (eng_cancelled e)\<rparr>"

definition fresh_token :: "engine \<Rightarrow> nat \<times> engine" where
  "fresh_token e = (eng_next_token e, e\<lparr>eng_next_token := Suc (eng_next_token e)\<rparr>)"

definition next_io :: "engine \<Rightarrow> bool \<times> engine" where
  "next_io e = (case eng_io e of [] \<Rightarrow> (True, e) | b # bs \<Rightarrow> (b, e\<lparr>eng_io := bs\<rparr>))"

text \<open>A statement on the work-item tables. The callers have seen that a database is attached.\<close>

definition db_exec ::
  "(database \<Rightarrow> (db_error + 'a) \<times> database) \<Rightarrow> engine \<Rightarrow> (db_error + 'a) \<times> engine" where
  "db_exec stmt e =
     (case next_io e of (ok, e') \<Rightarrow>
        (case eng_db e' of
           Some db \<Rightarrow>
             if ok then (case stmt db of (r, db') \<Rightarrow> (r, e'\<lparr>eng_db := Some db'\<rparr>))
             else (Inl SqlError, e')
         | None \<Rightarrow> (Inl SqlError, e')))"

definition db_write :: "(database \<Rightarrow> database) \<Rightarrow> engine \<Rightarrow> (db_error + unit) \<times> engine" where
  "db_write f = db_exec (\<lambda>db. (Inr (), f db))"

definition db_read :: "(database \<Rightarrow> db_error + 'a) \<Rightarrow> engine \<Rightarrow> (db_error + 'a) \<times> engine" where
  "db_read q = db_exec (\<lambda>db. (q db, db))"

subsection \<open>The repository of workflows\<close>

definition workflow_values :: "engine \<Rightarrow> workflow list" where
  "workflow_values e = List.map snd (eng_workflows e)"

definition repository_insert :: "workflow \<Rightarrow> engine \<Rightarrow> engine" where
  "repository_insert w e = wf_put (wf_ticket_key w) w e"

definition reassign_orphans_to_owner :: "string \<Rightarrow> engine \<Rightarrow> nat \<times> engine" where
  "reassign_orphans_to_owner owner_id e =
     (length (filter (\<lambda>w. wf_user_id w = None) (workflow_values e)),
      e\<lparr>eng_workflows := List.map (\<lambda>(k, w).
          (k, if wf_user_id w = None then w\<lparr>wf_user_id := Some owner_id\<rparr> else w)) (eng_workflows e)\<rparr>)"

definition count_all :: "engine \<Rightarrow> nat" where
  "count_all e = length (eng_workflows e)"

definition count_active :: "engine \<Rightarrow> nat" where
  "count_active e = length (filter (\<lambda>w. is_active (wf_state w)) (workflow_values e))"

definition count_occupying_slot :: "engine \<Rightarrow> nat" where
  "count_occupying_slot e =
     length (filter (\<lambda>w. occupies_concurrency_slot (wf_state w)) (workflow_values e))"

definition count_occupying_slot_for_user :: "engine \<Rightarrow> string option \<Rightarrow> nat" where
  "count_occupying_slot_for_user e user_id =
     length (filter (\<lambda>w. case user_id of Some i \<Rightarrow> wf_user_id w = Some i | None \<Rightarrow> True)
       (filter (\<lambda>w. occupies_concurrency_slot (wf_state w)) (workflow_values e)))"

definition count_manual_toward_cap :: "engine \<Rightarrow> nat" where
  "count_manual_toward_cap e =
     length (filter (\<lambda>w. wf_started_manually w \<and>
       \<not> (case wf_state w of Done \<Rightarrow> True | Stopped \<Rightarrow> True | Error _ _ \<Rightarrow> True | _ \<Rightarrow> False))
       (workflow_values e))"

subsection \<open>Retries and shadow writes\<close>

definition DURABLE_WRITE_ATTEMPTS :: nat where
  "DURABLE_WRITE_ATTEMPTS = 3"

function retry_from ::
  "nat \<Rightarrow> (engine \<Rightarrow> (db_error + unit) \<times> engine) \<Rightarrow> engine \<Rightarrow> (db_error + unit) \<times> engine" where
  "retry_from attempt op e =
     (case op e of
        (Inr u, e') \<Rightarrow> (Inr u, e')
      | (Inl err, e') \<Rightarrow>
          if DURABLE_WRITE_ATTEMPTS \<le> attempt then (Inl err, e')
          else retry_from (attempt + 1) op e')"
  by pat_completeness auto

termination retry_from
  by (relation "measure (\<lambda>(attempt, op, e). DURABLE_WRITE_ATTEMPTS - attempt)") auto

declare retry_from.simps [simp del]

definition retry_durable_write ::
  "(engine \<Rightarrow> (db_error + unit) \<times> engine) \<Rightarrow> engine \<Rightarrow> (db_error + unit) \<times> engine" where
  "retry_durable_write op e = retry_from 1 op e"

definition shadow_persist_state_change ::
  "env \<Rightarrow> string \<Rightarrow> workflow_state \<Rightarrow> string option \<Rightarrow> int \<Rightarrow> engine \<Rightarrow> engine" where
  "shadow_persist_state_change env work_item_id new_state current_step_label updated_at e =
     (case eng_db e of
        None \<Rightarrow> e
      | Some _ \<Rightarrow>
          (case state_to_kind_and_payload (env_json env) new_state of (kind, payload) \<Rightarrow>
             let write = db_write (update_work_item_state work_item_id kind payload
                   current_step_label updated_at)
             in if is_terminal new_state then snd (retry_durable_write write e) else snd (write e)))"

definition shadow_persist_branch_and_worktree ::
  "string \<Rightarrow> string \<Rightarrow> string option \<Rightarrow> int \<Rightarrow> engine \<Rightarrow> engine" where
  "shadow_persist_branch_and_worktree work_item_id branch_name worktree_path updated_at e =
     (case eng_db e of
        None \<Rightarrow> e
      | Some _ \<Rightarrow>
          snd (db_write (update_work_item_branch_and_worktree work_item_id
            (if branch_name = [] then None else Some branch_name) worktree_path updated_at) e))"

text \<open>
  \<open>record_step_start\<close> is three statements: the next sequence, the insert, the read of the id.
\<close>

definition shadow_record_step_start ::
  "string \<Rightarrow> string \<Rightarrow> string option \<Rightarrow> int \<Rightarrow> engine \<Rightarrow> int option \<times> engine" where
  "shadow_record_step_start work_item_id step_name definition_filename started_at e =
     (case eng_db e of
        None \<Rightarrow> (None, e)
      | Some _ \<Rightarrow>
          (case next_io e of (ok1, e1) \<Rightarrow>
             if \<not> ok1 then (None, e1)
             else (case db_exec (record_step_start work_item_id step_name definition_filename started_at) e1 of
                     (Inl _, e2) \<Rightarrow> (None, e2)
                   | (Inr i, e2) \<Rightarrow>
                       (case next_io e2 of (ok3, e3) \<Rightarrow> (if ok3 then Some i else None, e3)))))"

definition shadow_record_step_end ::
  "int option \<Rightarrow> db_step_status \<Rightarrow> int option \<Rightarrow> string option \<Rightarrow> int \<Rightarrow> engine \<Rightarrow> engine" where
  "shadow_record_step_end step_db_id status exit_code error_message ended_at e =
     (case (eng_db e, step_db_id) of
        (Some _, Some i) \<Rightarrow>
          snd (db_write (record_step_end i status exit_code error_message ended_at) e)
      | _ \<Rightarrow> e)"

definition shadow_start_def_run :: "string \<Rightarrow> string \<Rightarrow> int \<Rightarrow> engine \<Rightarrow> engine" where
  "shadow_start_def_run work_item_id def_filename started_at e =
     (case eng_db e of
        None \<Rightarrow> e
      | Some _ \<Rightarrow> snd (db_exec (start_definition_run work_item_id def_filename started_at) e))"

definition shadow_finish_def_run ::
  "string \<Rightarrow> string \<Rightarrow> db_run_state \<Rightarrow> string option \<Rightarrow> int \<Rightarrow> engine \<Rightarrow> engine" where
  "shadow_finish_def_run work_item_id def_filename state error_message ended_at e =
     (case eng_db e of
        None \<Rightarrow> e
      | Some _ \<Rightarrow>
          snd (db_write (finish_definition_run work_item_id def_filename state error_message ended_at) e))"

subsection \<open>Events and dashboard fields\<close>

definition user_id_for_ticket :: "engine \<Rightarrow> string \<Rightarrow> string option" where
  "user_id_for_ticket e k = (case wf_get e k of None \<Rightarrow> None | Some w \<Rightarrow> wf_user_id w)"

definition progress_dashboard_fields_for_ticket :: "env \<Rightarrow> engine \<Rightarrow> string \<Rightarrow> (u8 \<times> u32) option" where
  "progress_dashboard_fields_for_ticket env e k =
     map_option (\<lambda>w. (workflow_progress_percent (env_has_mise env) (env_repo_path env) w,
                      estimated_step_total (env_has_mise env) (env_repo_path env) w)) (wf_get e k)"

definition progress_dashboard_fields_for_ticket_with_db ::
  "env \<Rightarrow> string \<Rightarrow> engine \<Rightarrow> (u8 \<times> u32) option \<times> engine" where
  "progress_dashboard_fields_for_ticket_with_db env k e =
     (case wf_get e k of
        None \<Rightarrow> (None, e)
      | Some w \<Rightarrow>
          let fallback = progress_dashboard_fields_for_ticket env e k in
          if wf_state w = Done \<and> eng_db e \<noteq> None then
            (case db_read (\<lambda>db. Inr (count_steps_of_latest_completed_def db [wf_id w])) e of
               (Inr step_counts, e') \<Rightarrow>
                 (case map_of step_counts (wf_id w) of
                    Some n \<Rightarrow> if n > 0 then (Some (100, n), e') else (fallback, e')
                  | None \<Rightarrow> (fallback, e'))
             | (Inl _, e') \<Rightarrow> (fallback, e'))
          else (fallback, e))"

text \<open>The event most operations send: the item's state line, an error, the progress fields.\<close>

definition item_updated ::
  "time \<Rightarrow> string \<Rightarrow> string \<Rightarrow> string \<Rightarrow> string option \<Rightarrow> (u8 \<times> u32) option \<Rightarrow> string option \<Rightarrow>
   workflow_event" where
  "item_updated now workflow_id ticket_key state err dash user_id =
     (default_event now)\<lparr>ev_type := ''work_item_updated'', ev_workflow_id := workflow_id,
       ev_ticket_key := ticket_key, ev_state := state, ev_error := err,
       ev_progress_percent := map_option fst dash, ev_progress_steps_total := map_option snd dash,
       ev_user_id := user_id\<rparr>"

subsection \<open>Transitions\<close>

definition transition_to_agent_step ::
  "env \<Rightarrow> string \<Rightarrow> u8 \<Rightarrow> string \<Rightarrow> engine \<Rightarrow> engine" where
  "transition_to_agent_step env k pass step_label e =
     (case wf_get e k of
        None \<Rightarrow> e
      | Some w0 \<Rightarrow>
          (case tick env e of (now, e1) \<Rightarrow>
             let w = w0\<lparr>wf_state := AddressingTicket pass, wf_current_step_label := Some step_label,
                        wf_updated_at := now\<rparr>;
                 e2 = wf_put k w e1;
                 e3 = shadow_persist_state_change env (wf_id w) (wf_state w) (wf_current_step_label w)
                        (timestamp (wf_updated_at w)) e2;
                 dash = progress_dashboard_fields_for_ticket env e3 k
             in (case tick env e3 of (now', e4) \<Rightarrow>
                  send (item_updated now' (wf_id w) k (status_display w) None dash (wf_user_id w)) e4)))"

definition transition :: "env \<Rightarrow> string \<Rightarrow> workflow_state \<Rightarrow> engine \<Rightarrow> engine" where
  "transition env k new_state e =
     (case wf_get e k of
        None \<Rightarrow> e
      | Some w0 \<Rightarrow>
          (case tick env e of (now, e1) \<Rightarrow>
             let w = w0\<lparr>wf_current_step_label := None, wf_state := new_state, wf_updated_at := now\<rparr>;
                 e2 = wf_put k w e1;
                 e3 = shadow_persist_state_change env (wf_id w) (wf_state w) None
                        (timestamp (wf_updated_at w)) e2;
                 dash = progress_dashboard_fields_for_ticket env e3 k
             in (case tick env e3 of (now', e4) \<Rightarrow>
                  send (item_updated now' (wf_id w) k (status_display w) None dash (wf_user_id w)) e4)))"

definition transition_to_done_with_pr_url :: "env \<Rightarrow> string \<Rightarrow> string \<Rightarrow> engine \<Rightarrow> engine" where
  "transition_to_done_with_pr_url env k pr_url e =
     (case wf_get e k of
        None \<Rightarrow> e
      | Some w0 \<Rightarrow>
          (case tick env e of (now, e1) \<Rightarrow>
             let w = w0\<lparr>wf_pr_url := Some pr_url, wf_current_step_label := None, wf_state := Done,
                        wf_updated_at := now\<rparr>;
                 e2 = wf_put k w e1;
                 e3 = (case eng_db e2 of
                         None \<Rightarrow> e2
                       | Some _ \<Rightarrow>
                           (case state_to_kind_and_payload (env_json env) Done of
                              (kind, payload) \<Rightarrow>
                                snd (retry_durable_write (db_write (update_work_item_pr_url_and_state
                                  (wf_id w) (Some pr_url) kind payload None
                                  (timestamp (wf_updated_at w)))) e2)));
                 dash = progress_dashboard_fields_for_ticket env e3 k
             in (case tick env e3 of (now', e4) \<Rightarrow>
                  send (item_updated now' (wf_id w) k (status_display w) None dash (wf_user_id w)) e4)))"

definition add_step_log :: "string \<Rightarrow> step_log \<Rightarrow> engine \<Rightarrow> engine" where
  "add_step_log k l = modify_workflow k (\<lambda>w. w\<lparr>wf_steps_log := wf_steps_log w @ [l]\<rparr>)"

text \<open>
  One look of \<open>wait_if_paused\<close> and \<open>check_cancelled\<close> at the state; \<open>None\<close> is to wait on.
\<close>

definition wait_if_paused :: "string \<Rightarrow> nat \<Rightarrow> engine \<Rightarrow> (takuto_error + unit) option" where
  "wait_if_paused k token e =
     (if \<not> (case wf_get e k of None \<Rightarrow> False | Some w \<Rightarrow> is_paused (wf_state w)) then Some (Inr ())
      else if token \<in> eng_cancelled e then Some (Inl Cancelled)
      else None)"

definition check_cancelled :: "nat \<Rightarrow> engine \<Rightarrow> takuto_error + unit" where
  "check_cancelled token e = (if token \<in> eng_cancelled e then Inl Cancelled else Inr ())"

end
