(* ===== verification/Engine_Control.thy ===== *)
theory Engine_Control
  imports Engine_State
begin

text \<open>
  The operations on a work item: the start and the end of \<open>drive_workflow_def\<close>
  (\<open>engine/driver.rs\<close>), pause, resume, stop and resume-from-error
  (\<open>engine/transitions.rs\<close>), and the start and retry of a definition
  (\<open>engine/definitions.rs\<close>).
\<close>

subsection \<open>The driver of a definition run\<close>

text \<open>
  Before the steps: fix the denominator of the progress bar and look up the row the log lines
  go to.
\<close>

definition flow_step_count :: "agent_step_config list \<Rightarrow> u32" where
  "flow_step_count steps = max (if length steps < 2 ^ 32 then of_nat (length steps) else - 1) 1"

definition drive_start :: "env \<Rightarrow> driver \<Rightarrow> engine \<Rightarrow> string option \<times> engine" where
  "drive_start env d e =
     (let e1 = modify_workflow (drv_ticket_key d)
            (\<lambda>w. w\<lparr>wf_current_def_total_steps := Some (flow_step_count (drv_steps d))\<rparr>) e
      in case eng_db e1 of
           None \<Rightarrow> (None, e1)
         | Some _ \<Rightarrow>
             (case db_read (\<lambda>db. get_work_item_by_ticket_key db (drv_ticket_key d)) e1 of
                (Inr (Some row), e2) \<Rightarrow> (Some (wi_id row), e2)
              | (_, e2) \<Rightarrow> (None, e2)))"

definition set_def_run :: "string \<Rightarrow> def_run_state \<Rightarrow> workflow \<Rightarrow> workflow" where
  "set_def_run def_name st w = w\<lparr>wf_def_runs := AList.update def_name st (wf_def_runs w)\<rparr>"

text \<open>A failed run: the run is in error, and so is the work item unless it is finished.\<close>

definition fail_def_run :: "string \<Rightarrow> string \<Rightarrow> workflow \<Rightarrow> workflow" where
  "fail_def_run def_name message w =
     (let w1 = set_def_run def_name (RunError message) w in
      if \<not> is_terminal (wf_state w1) then w1\<lparr>wf_state := Error (wf_state w1) message\<rparr> else w1)"

definition state_line :: "engine \<Rightarrow> string \<Rightarrow> string" where
  "state_line e k = (case wf_get e k of None \<Rightarrow> [] | Some w \<Rightarrow> status_display w)"

definition finish_and_tell ::
  "env \<Rightarrow> string \<Rightarrow> string \<Rightarrow> string option \<Rightarrow> string \<Rightarrow> db_run_state \<Rightarrow> string option \<Rightarrow> engine \<Rightarrow> engine" where
  "finish_and_tell env k workflow_id user_id def_name st message e =
     (case tick env e of (now, e1) \<Rightarrow>
        let e2 = shadow_finish_def_run workflow_id def_name st message (timestamp now) e1 in
        (case tick env e2 of (now', e3) \<Rightarrow>
           send (item_updated now' workflow_id k (state_line e3 k) message None user_id) e3))"

text \<open>
  After the steps, with their result. A cancelled driver leaves a work item alone that was
  stopped, paused or removed, and every work item during a shutdown.
\<close>

definition drive_finish :: "env \<Rightarrow> driver \<Rightarrow> takuto_error + unit \<Rightarrow> engine \<Rightarrow> engine" where
  "drive_finish env d result e =
     (let k = drv_ticket_key d; def_name = drv_def_name d;
          e1 = emit (CleanupContainers k) (e\<lparr>eng_drivers := remove1 d (eng_drivers e)\<rparr>);
          workflow_id = (case wf_get e1 k of None \<Rightarrow> [] | Some w \<Rightarrow> wf_id w);
          user_id = user_id_for_ticket e1 k
      in case result of
           Inr _ \<Rightarrow>
             finish_and_tell env k workflow_id user_id def_name DCompleted None
               (update_workflow env k (set_def_run def_name RunCompleted) e1)
         | Inl err \<Rightarrow>
             if err = Cancelled \<and> eng_suppress e1 then e1
             else if err = Cancelled \<and>
                 (case wf_get e1 k of
                    None \<Rightarrow> True
                  | Some w \<Rightarrow> wf_state w = Stopped \<or> is_paused (wf_state w)) then e1
             else
               finish_and_tell env k workflow_id user_id def_name DError (Some (error_text err))
                 (update_workflow env k (fail_def_run def_name (error_text err)) e1))"

subsection \<open>Resolving the repository of a work item\<close>

definition resolve_repo_for_ticket :: "env \<Rightarrow> string \<Rightarrow> engine \<Rightarrow> (string \<times> string) \<times> engine" where
  "resolve_repo_for_ticket env k e =
     (let repository_id = (case wf_get e k of None \<Rightarrow> None | Some w \<Rightarrow> wf_repository_id w);
          workspace_name = (case wf_get e k of None \<Rightarrow> [] | Some w \<Rightarrow> wf_workspace_name w);
          attached = (eng_db e \<noteq> None);
          by_id = (case repository_id of
                     None \<Rightarrow> (None, e)
                   | Some i \<Rightarrow>
                       if \<not> attached then (None, e)
                       else (case next_io e of (ok, e1) \<Rightarrow>
                               (if ok then repositories_get (eng_repos e) i else None, e1)))
      in case by_id of
           (Some row, e1) \<Rightarrow> ((rp_local_path row, rp_default_branch row), e1)
         | (None, e1) \<Rightarrow>
             if attached \<and> workspace_name \<noteq> [] then
               (case next_io e1 of (ok, e2) \<Rightarrow>
                  (case (if ok then repositories_get_by_name (eng_repos e) workspace_name else None) of
                     Some row \<Rightarrow> ((rp_local_path row, rp_default_branch row), e2)
                   | None \<Rightarrow> ((env_repo_path env, env_base_branch env), e2)))
             else ((env_repo_path env, env_base_branch env), e1))"

subsection \<open>Pause and stop\<close>

definition pause_workflow :: "env \<Rightarrow> string \<Rightarrow> engine \<Rightarrow> (takuto_error + unit) \<times> engine" where
  "pause_workflow env k e =
     (case wf_get e k of
        None \<Rightarrow> (Inl (WorkflowNotFound k), e)
      | Some w0 \<Rightarrow>
          if \<not> is_active (wf_state w0) then
            (Inl (InvalidWorkflowState ''pause'' (display_name (wf_state w0)) k), e)
          else
            let e1 = cancel (wf_cancel_token w0) e in
            (case tick env e1 of (now, e2) \<Rightarrow>
             (case fresh_token e2 of (token, e3) \<Rightarrow>
                let w = w0\<lparr>wf_state := Paused (wf_state w0), wf_updated_at := now,
                           wf_cancel_token := token\<rparr>;
                    e4 = shadow_persist_state_change env (wf_id w) (wf_state w)
                           (wf_current_step_label w) (timestamp now) (wf_put k w e3);
                    e5 = emit (CleanupContainers k) e4
                in (case tick env e5 of (now', e6) \<Rightarrow>
                      (Inr (), send (item_updated now' (wf_id w) k ''Paused'' None None (wf_user_id w)) e6)))))"

definition stop_workflow :: "env \<Rightarrow> string \<Rightarrow> engine \<Rightarrow> (takuto_error + unit) \<times> engine" where
  "stop_workflow env k e =
     (case wf_get e k of
        None \<Rightarrow> (Inl (WorkflowNotFound k), e)
      | Some w0 \<Rightarrow>
          let e1 = cancel (wf_cancel_token w0) e in
          (case tick env e1 of (now, e2) \<Rightarrow>
             let w = w0\<lparr>wf_current_step_label := None, wf_state := Stopped, wf_updated_at := now\<rparr>;
                 e3 = shadow_persist_state_change env (wf_id w) Stopped None (timestamp now) (wf_put k w e2);
                 e4 = emit (CleanupContainers k) e3;
                 e5 = (if env_ticketing_system env = Jira
                       then (case resolve_repo_for_ticket env k e4 of ((repo_path, _), e') \<Rightarrow>
                               emit (RevertTicket k repo_path (wf_user_id w)) e')
                       else e4)
             in (case tick env e5 of (now', e6) \<Rightarrow>
                   (Inr (), send (item_updated now' (wf_id w) k ''Stopped'' None None (wf_user_id w)) e6))))"

subsection \<open>Resume\<close>

text \<open>The definition runs in a state, in the order the hash map yields them.\<close>

definition runs_where :: "env \<Rightarrow> (def_run_state \<Rightarrow> bool) \<Rightarrow> workflow \<Rightarrow> string list" where
  "runs_where env P w = env_hash_order env (List.map fst (filter (\<lambda>(_, s). P s) (wf_def_runs w)))"

definition is_run_error :: "def_run_state \<Rightarrow> bool" where
  "is_run_error s = (case s of RunError _ \<Rightarrow> True | _ \<Rightarrow> False)"

text \<open>The owner whose stored token is checked again before a pinned work item goes on.\<close>

definition pinned_user :: "engine \<Rightarrow> string \<Rightarrow> string option" where
  "pinned_user e k =
     (case wf_get e k of
        None \<Rightarrow> None
      | Some w \<Rightarrow>
          (case wf_auth_pin w of
             None \<Rightarrow> None
           | Some p \<Rightarrow>
               (case wf_user_id w of
                  None \<Rightarrow> None
                | Some uid \<Rightarrow> if ap_github_credential_row_id p = None then None else Some uid)))"

definition respawn ::
  "string \<Rightarrow> discovered_workflow list \<Rightarrow> string option \<Rightarrow> nat \<Rightarrow> string option \<Rightarrow> string \<Rightarrow> engine \<Rightarrow> engine" where
  "respawn k discovered worktree_path token session def_name e =
     (case List.find (\<lambda>d. dw_filename d = def_name) discovered of
        None \<Rightarrow> e
      | Some d \<Rightarrow>
          let texts = (case wf_get e k of
                 None \<Rightarrow> ([], [], [])
               | Some w \<Rightarrow> (wf_ticket_summary w, wf_ticket_description w, wf_ticket_type w));
              e1 = (if eng_revalidates e
                    then (case pinned_user e k of None \<Rightarrow> e | Some uid \<Rightarrow> emit (RevalidatePat uid k) e)
                    else e)
          in (case texts of (ts, td, tt) \<Rightarrow>
                spawn_driver \<lparr>drv_ticket_key = k, drv_def_name = def_name, drv_steps = dw_steps d,
                  drv_worktree_path = worktree_path, drv_ticket_summary = ts,
                  drv_ticket_description = td, drv_ticket_type = tt, drv_cancel_token = token,
                  drv_resume = Some session\<rparr> e1))"

definition resume_workflow :: "env \<Rightarrow> string \<Rightarrow> engine \<Rightarrow> (takuto_error + unit) \<times> engine" where
  "resume_workflow env k e =
     (case wf_get e k of
        None \<Rightarrow> (Inl (WorkflowNotFound k), e)
      | Some w0 \<Rightarrow>
          (case wf_state w0 of
             Paused source_state \<Rightarrow>
               (case tick env e of (now, e1) \<Rightarrow>
                  let w = w0\<lparr>wf_state := source_state, wf_updated_at := now,
                        wf_steps_log := filter (\<lambda>s. sl_status s \<noteq> Running) (wf_steps_log w0)\<rparr>
                  in (case tick env (wf_put k w e1) of (now', e2) \<Rightarrow>
                        let e3 = send (item_updated now' (wf_id w) k (status_display w) None None (wf_user_id w)) e2;
                            running = runs_where env (\<lambda>s. s = RunRunning) w;
                            worktree = (case wf_worktree_path w of
                                          Some p \<Rightarrow> if env_path_exists env p then Some p else None
                                        | None \<Rightarrow> None);
                            e4 = shadow_persist_state_change env (wf_id w) (wf_state w)
                                   (wf_current_step_label w) (timestamp now) e3
                        in if running = [] then (Inr (), e4)
                           else
                             let discovered = discover_workflows (env_hash_order env) (env_parsers env) (env_dir env)
                             in (Inr (), fold (respawn k discovered worktree (wf_cancel_token w)
                                    (wf_last_session_id w)) running e4)))
           | s \<Rightarrow> (Inl (InvalidWorkflowState ''resume'' (display_name s) k), e)))"

subsection \<open>Definitions\<close>

text \<open>
  The definitions of a work item: its owner's flows in its workspace when there is a database,
  the workflows directory otherwise. Seeding reads the clock and writes only when the default
  flows can be encoded.
\<close>

definition resolve_definitions ::
  "env \<Rightarrow> string \<Rightarrow> string option \<Rightarrow> engine \<Rightarrow> discovered_workflow list \<times> engine" where
  "resolve_definitions env k override_user e =
     (let wf_user = (case wf_get e k of None \<Rightarrow> None | Some w \<Rightarrow> wf_user_id w);
          workspace = (case wf_get e k of None \<Rightarrow> [] | Some w \<Rightarrow> wf_workspace_name w);
          user = (case override_user of Some u \<Rightarrow> Some u | None \<Rightarrow> wf_user);
          from_dir = discover_workflows (env_hash_order env) (env_parsers env) (env_dir env)
      in case (eng_db e, user) of
           (Some _, Some uid) \<Rightarrow>
             if workspace = [] then (from_dir, e)
             else
               let defaults = default_flows_from_dir (env_hash_order env) (env_parsers env)
                     (env_case_tables env) (env_dir env);
                   seeds = (guard_nul uid workspace defaults = None \<and> env_encode_flows env defaults \<noteq> None)
               in (case next_io e of (io1, e1) \<Rightarrow>
                   (case (if flows_get io1 (env_decode_flows env) (eng_flows e) uid workspace = Inr None
                          then (if seeds
                                then (case tick env e1 of (now, e2) \<Rightarrow>
                                      (case next_io e2 of (io2, e3) \<Rightarrow>
                                      (case next_io e3 of (io3, e4) \<Rightarrow> (now, io2, io3, e4))))
                                else (case next_io e1 of (io3, e2) \<Rightarrow> (0, True, io3, e2)))
                          else (0, True, True, e1)) of (now, io2, io3, e') \<Rightarrow>
                    (case resolve_user_flows (io1, io2, io3) (env_encode_flows env) (env_decode_flows env)
                            (env_hash_order env) (now div 1000000) uid workspace defaults (eng_flows e) of
                       (defs, tbl) \<Rightarrow> (defs, e'\<lparr>eng_flows := tbl\<rparr>))))
         | _ \<Rightarrow> (from_dir, e))"

text \<open>
  The part under the read lock: the work item must exist and not run the definition already.
\<close>

definition start_check ::
  "env \<Rightarrow> string \<Rightarrow> string \<Rightarrow> engine \<Rightarrow> takuto_error + workflow \<times> string option" where
  "start_check env k def_name e =
     (case wf_get e k of
        None \<Rightarrow> Inl (WorkflowNotFound k)
      | Some w \<Rightarrow>
          let maybe_wt = (if wf_worktree_bootstrapped w
                then (case wf_worktree_path w of
                        Some p \<Rightarrow> if env_path_exists env p then Some p else None
                      | None \<Rightarrow> None)
                else None)
          in if map_of (wf_def_runs w) def_name = Some RunRunning
             then Inl (DefinitionAlreadyRunning def_name k)
             else Inr (w, maybe_wt))"

text \<open>The part under the write lock, and what follows it.\<close>

definition start_commit ::
  "env \<Rightarrow> string \<Rightarrow> string \<Rightarrow> discovered_workflow \<Rightarrow> workflow \<Rightarrow> string option \<Rightarrow> engine \<Rightarrow>
   (takuto_error + unit) \<times> engine" where
  "start_commit env k def_name d seen maybe_wt e =
     (case wf_get e k of
        None \<Rightarrow> (Inl (WorkflowNotFound k), e)
      | Some w0 \<Rightarrow>
          (case fresh_token e of (token, e1) \<Rightarrow>
          (case tick env e1 of (now, e2) \<Rightarrow>
             let w = (set_def_run def_name RunRunning w0)\<lparr>wf_cancel_token := token,
                       wf_driver_started := True, wf_updated_at := now\<rparr>
             in (case tick env (wf_put k w e2) of (now2, e3) \<Rightarrow>
                  let e4 = shadow_start_def_run (wf_id seen) def_name (timestamp now2) e3 in
                  (case tick env e4 of (now3, e5) \<Rightarrow>
                     (Inr (), spawn_driver \<lparr>drv_ticket_key = k, drv_def_name = def_name,
                         drv_steps = dw_steps d, drv_worktree_path = maybe_wt,
                         drv_ticket_summary = wf_ticket_summary seen,
                         drv_ticket_description = wf_ticket_description seen,
                         drv_ticket_type = wf_ticket_type seen, drv_cancel_token = token,
                         drv_resume = None\<rparr>
                       (send (item_updated now3 (wf_id seen) k (status_display w) None None (wf_user_id w)) e5)))))))"

definition start_workflow_def ::
  "env \<Rightarrow> string \<Rightarrow> string \<Rightarrow> string option \<Rightarrow> engine \<Rightarrow> (takuto_error + unit) \<times> engine" where
  "start_workflow_def env k def_name user_id e =
     (case resolve_definitions env k user_id e of (definitions, e1) \<Rightarrow>
        (case List.find (\<lambda>d. dw_filename d = def_name) definitions of
           None \<Rightarrow> (Inl (DefinitionNotFound def_name (env_workflows_dir env)), e1)
         | Some d \<Rightarrow>
             if \<not> dw_valid d then
               (Inl (DefinitionInvalid def_name (unwrap_or ''unknown error'' (dw_error d))), e1)
             else
               (case start_check env k def_name e1 of
                  Inl err \<Rightarrow> (Inl err, e1)
                | Inr (w, maybe_wt) \<Rightarrow>
                    if \<not> are_dependencies_met def_name definitions (map_of (wf_def_runs w)) then
                      (Inl (DefinitionDependenciesNotMet def_name), e1)
                    else start_commit env k def_name d w maybe_wt e1)))"

definition retry_workflow_def ::
  "env \<Rightarrow> string \<Rightarrow> string \<Rightarrow> string option \<Rightarrow> engine \<Rightarrow> (takuto_error + unit) \<times> engine" where
  "retry_workflow_def env k def_name user_id e =
     (case wf_get e k of
        None \<Rightarrow> (Inl (WorkflowNotFound k), e)
      | Some w \<Rightarrow>
          (case map_of (wf_def_runs w) def_name of
             Some (RunError _) \<Rightarrow>
               start_workflow_def env k def_name user_id (wf_put k (set_def_run def_name RunIdle w) e)
           | Some st \<Rightarrow> (Inl (DefinitionRetryWrongState def_name (run_display_name st)), e)
           | None \<Rightarrow> (Inl (DefinitionNoRunState def_name k), e)))"

text \<open>A failed restart of one definition is logged and does not keep the others from starting.\<close>

definition resume_from_error :: "env \<Rightarrow> string \<Rightarrow> engine \<Rightarrow> (takuto_error + unit) \<times> engine" where
  "resume_from_error env k e =
     (case wf_get e k of
        None \<Rightarrow> (Inl (WorkflowNotFound k), e)
      | Some w0 \<Rightarrow>
          if \<not> (is_error (wf_state w0) \<or> wf_state w0 = Stopped) then
            (Inl (InvalidWorkflowState ''resume-from-error'' (display_name (wf_state w0)) k), e)
          else
            let defs = runs_where env is_run_error w0 in
            if defs = [] then
              (Inl (Operational ''retry workflow''
                ''No failed workflow definitions to retry. Use the individual def retry buttons.''), e)
            else
              (case tick env e of (now, e1) \<Rightarrow>
                 let w = (fold (\<lambda>d. set_def_run d RunIdle) defs w0)\<lparr>wf_state := Pending,
                           wf_current_step_label := None, wf_updated_at := now\<rparr>;
                     e2 = shadow_persist_state_change env (wf_id w) (wf_state w) None (timestamp now)
                            (wf_put k w e1)
                 in (Inr (), fold (\<lambda>d e'. snd (start_workflow_def env k d None e')) defs e2)))"

end
