(* ===== verification/Engine_Inv.thy ===== *)
theory Engine_Inv
  imports Engine_Control
begin

text \<open>
  What the engine keeps: the invariant of its state, that every operation of
  \<^theory_text>\<open>Engine_State\<close> and \<^theory_text>\<open>Engine_Control\<close> keeps it, and what the shadow writes leave
  alone.
\<close>

subsection \<open>The invariant\<close>

definition workflow_ok :: "string \<Rightarrow> workflow \<Rightarrow> bool" where
  "workflow_ok k w \<longleftrightarrow> wf_ticket_key w = k \<and> state_ok (wf_state w) \<and>
     (\<forall>l \<in> set (wf_steps_log w). step_log_ok l)"

text \<open>
  Every cancellation token in use was handed out, and belongs to one work item: the item that
  holds it or held it, and the drivers spawned for that item.
\<close>

definition token_users :: "engine \<Rightarrow> (string \<times> nat) set" where
  "token_users e = {(k, wf_cancel_token w) | k w. wf_get e k = Some w} \<union>
     (\<lambda>d. (drv_ticket_key d, drv_cancel_token d)) ` set (eng_drivers e)"

definition tokens_ok :: "(string \<times> nat) set \<Rightarrow> nat set \<Rightarrow> nat \<Rightarrow> bool" where
  "tokens_ok users cancelled next \<longleftrightarrow>
     (\<forall>k t. (k, t) \<in> users \<longrightarrow> t < next) \<and>
     (\<forall>k k' t. (k, t) \<in> users \<longrightarrow> (k', t) \<in> users \<longrightarrow> k = k') \<and>
     (\<forall>t \<in> cancelled. t < next)"

definition engine_ok :: "engine \<Rightarrow> bool" where
  "engine_ok e \<longleftrightarrow> distinct (List.map fst (eng_workflows e)) \<and>
     (\<forall>k w. wf_get e k = Some w \<longrightarrow> workflow_ok k w) \<and>
     tokens_ok (token_users e) (eng_cancelled e) (eng_next_token e) \<and>
     (\<forall>db. eng_db e = Some db \<longrightarrow> db_ok db)"

lemma tokens_ok_mono: "tokens_ok U C n \<Longrightarrow> V \<subseteq> U \<Longrightarrow> tokens_ok V C n"
  unfolding tokens_ok_def by blast

lemma tokens_ok_fresh: "tokens_ok U C n \<Longrightarrow> V \<subseteq> insert (k, n) U \<Longrightarrow> tokens_ok V C (Suc n)"
  unfolding tokens_ok_def subset_iff
  by (intro conjI allI impI ballI) (metis insertE less_Suc_eq less_irrefl prod.inject)+

lemma engine_okD:
  "engine_ok e \<Longrightarrow> wf_get e k = Some w \<Longrightarrow> workflow_ok k w"
  "engine_ok e \<Longrightarrow> tokens_ok (token_users e) (eng_cancelled e) (eng_next_token e)"
  by (simp_all add: engine_ok_def)

lemma token_owner:
  "engine_ok e \<Longrightarrow> (k, t) \<in> token_users e \<Longrightarrow> (k', t) \<in> token_users e \<Longrightarrow> k = k'"
  and token_below: "engine_ok e \<Longrightarrow> (k, t) \<in> token_users e \<Longrightarrow> t < eng_next_token e"
  by (auto dest!: engine_okD(2) simp: tokens_ok_def)

lemma token_users_wf: "wf_get e k = Some w \<Longrightarrow> (k, wf_cancel_token w) \<in> token_users e"
  and token_users_driver: "d \<in> set (eng_drivers e) \<Longrightarrow> (drv_ticket_key d, drv_cancel_token d) \<in> token_users e"
  by (auto simp: token_users_def)

subsection \<open>Elementary updates\<close>

lemma wf_get_put [simp]: "wf_get (wf_put k w e) k' = (if k' = k then Some w else wf_get e k')"
  by (simp add: wf_get_def wf_put_def)

lemma wf_get_remove [simp]: "wf_get (wf_remove k e) k' = (if k' = k then None else wf_get e k')"
  by (simp add: wf_get_def wf_remove_def delete_conv')

lemma put_fields [simp]:
  "eng_drivers (wf_put k w e) = eng_drivers e" "eng_cancelled (wf_put k w e) = eng_cancelled e"
  "eng_next_token (wf_put k w e) = eng_next_token e" "eng_db (wf_put k w e) = eng_db e"
  "eng_io (wf_put k w e) = eng_io e" "eng_flows (wf_put k w e) = eng_flows e"
  "eng_ticks (wf_put k w e) = eng_ticks e" "eng_suppress (wf_put k w e) = eng_suppress e"
  "eng_repos (wf_put k w e) = eng_repos e" "eng_effects (wf_put k w e) = eng_effects e"
  "eng_events (wf_put k w e) = eng_events e"
  by (simp_all add: wf_put_def)

lemma wf_get_update [simp]:
  "wf_get (e\<lparr>eng_ticks := n\<rparr>) k = wf_get e k" "wf_get (e\<lparr>eng_io := bs\<rparr>) k = wf_get e k"
  "wf_get (e\<lparr>eng_db := d\<rparr>) k = wf_get e k" "wf_get (e\<lparr>eng_events := evs\<rparr>) k = wf_get e k"
  "wf_get (e\<lparr>eng_effects := xs\<rparr>) k = wf_get e k" "wf_get (e\<lparr>eng_drivers := ds\<rparr>) k = wf_get e k"
  "wf_get (e\<lparr>eng_cancelled := T\<rparr>) k = wf_get e k" "wf_get (e\<lparr>eng_next_token := n\<rparr>) k = wf_get e k"
  "wf_get (e\<lparr>eng_flows := f\<rparr>) k = wf_get e k" "wf_get (e\<lparr>eng_suppress := b\<rparr>) k = wf_get e k"
  by (simp_all add: wf_get_def)

lemma engine_ok_update [simp]:
  "engine_ok (e\<lparr>eng_ticks := n\<rparr>) = engine_ok e" "engine_ok (e\<lparr>eng_io := bs\<rparr>) = engine_ok e"
  "engine_ok (e\<lparr>eng_events := evs\<rparr>) = engine_ok e" "engine_ok (e\<lparr>eng_effects := xs\<rparr>) = engine_ok e"
  "engine_ok (e\<lparr>eng_flows := f\<rparr>) = engine_ok e" "engine_ok (e\<lparr>eng_suppress := b\<rparr>) = engine_ok e"
  by (simp_all add: engine_ok_def token_users_def)

lemma send_fields [simp]:
  "eng_workflows (send ev e) = eng_workflows e" "wf_get (send ev e) k = wf_get e k"
  "eng_db (send ev e) = eng_db e" "eng_io (send ev e) = eng_io e"
  "eng_drivers (send ev e) = eng_drivers e" "eng_cancelled (send ev e) = eng_cancelled e"
  "eng_next_token (send ev e) = eng_next_token e" "engine_ok (send ev e) = engine_ok e"
  "eng_suppress (send ev e) = eng_suppress e" "eng_ticks (send ev e) = eng_ticks e"
  "eng_effects (send ev e) = eng_effects e" "eng_events (send ev e) = eng_events e @ [ev]"
  by (simp_all add: send_def)

lemma emit_fields [simp]:
  "eng_workflows (emit x e) = eng_workflows e" "wf_get (emit x e) k = wf_get e k"
  "eng_db (emit x e) = eng_db e" "eng_io (emit x e) = eng_io e"
  "eng_drivers (emit x e) = eng_drivers e" "eng_cancelled (emit x e) = eng_cancelled e"
  "eng_next_token (emit x e) = eng_next_token e" "engine_ok (emit x e) = engine_ok e"
  "eng_suppress (emit x e) = eng_suppress e" "eng_ticks (emit x e) = eng_ticks e"
  "eng_effects (emit x e) = eng_effects e @ [x]" "eng_events (emit x e) = eng_events e"
  by (simp_all add: emit_def)

lemma cancel_fields [simp]:
  "eng_workflows (cancel t e) = eng_workflows e" "wf_get (cancel t e) k = wf_get e k"
  "eng_db (cancel t e) = eng_db e" "eng_io (cancel t e) = eng_io e"
  "eng_drivers (cancel t e) = eng_drivers e" "eng_cancelled (cancel t e) = insert t (eng_cancelled e)"
  "eng_next_token (cancel t e) = eng_next_token e" "eng_ticks (cancel t e) = eng_ticks e"
  "eng_suppress (cancel t e) = eng_suppress e" "eng_effects (cancel t e) = eng_effects e"
  "eng_events (cancel t e) = eng_events e"
  by (simp_all add: cancel_def)

lemma spawn_driver_fields [simp]:
  "eng_workflows (spawn_driver d e) = eng_workflows e" "wf_get (spawn_driver d e) k = wf_get e k"
  "eng_db (spawn_driver d e) = eng_db e" "eng_io (spawn_driver d e) = eng_io e"
  "eng_drivers (spawn_driver d e) = eng_drivers e @ [d]"
  "eng_cancelled (spawn_driver d e) = eng_cancelled e"
  "eng_next_token (spawn_driver d e) = eng_next_token e" "eng_ticks (spawn_driver d e) = eng_ticks e"
  "eng_suppress (spawn_driver d e) = eng_suppress e" "eng_effects (spawn_driver d e) = eng_effects e"
  "eng_events (spawn_driver d e) = eng_events e"
  by (simp_all add: spawn_driver_def)

lemma distinct_put: "distinct (List.map fst (eng_workflows e)) \<Longrightarrow>
    distinct (List.map fst (eng_workflows (wf_put k w e)))"
  by (simp add: wf_put_def distinct_update)

lemma token_users_put:
  "token_users (wf_put k w e) \<subseteq> insert (k, wf_cancel_token w) (token_users e)"
  by (auto simp: token_users_def split: if_splits)

lemma engine_ok_put [state_intros]:
  assumes "engine_ok e" and "workflow_ok k w" and "(k, wf_cancel_token w) \<in> token_users e"
  shows "engine_ok (wf_put k w e)"
proof -
  have "token_users (wf_put k w e) \<subseteq> token_users e"
    using token_users_put [of k w e] assms(3) by blast
  then have "tokens_ok (token_users (wf_put k w e)) (eng_cancelled e) (eng_next_token e)"
    using engine_okD(2) [OF assms(1)] tokens_ok_mono by blast
  then show ?thesis
    using assms(1,2) distinct_put [of e k w] by (simp add: engine_ok_def)
qed

lemma engine_ok_put_fresh [state_intros]:
  assumes ok: "engine_ok e" and "workflow_ok k w" and t: "wf_cancel_token w = eng_next_token e"
  shows "engine_ok (wf_put k w (e\<lparr>eng_next_token := Suc (eng_next_token e)\<rparr>))"
proof -
  let ?e = "e\<lparr>eng_next_token := Suc (eng_next_token e)\<rparr>"
  have "token_users ?e = token_users e" by (simp add: token_users_def)
  then have "token_users (wf_put k w ?e) \<subseteq> insert (k, eng_next_token e) (token_users e)"
    using token_users_put [of k w ?e] t by simp
  then have "tokens_ok (token_users (wf_put k w ?e)) (eng_cancelled e) (Suc (eng_next_token e))"
    using engine_okD(2) [OF ok] tokens_ok_fresh by blast
  then show ?thesis
    using ok assms(2) distinct_put [of ?e k w] by (simp add: engine_ok_def)
qed

lemma engine_ok_cancel [state_intros]:
  assumes ok: "engine_ok e" and "t < eng_next_token e" shows "engine_ok (cancel t e)"
proof -
  have "token_users (cancel t e) = token_users e" by (simp add: token_users_def)
  then show ?thesis using assms by (simp add: engine_ok_def tokens_ok_def)
qed

lemma token_users_frame [simp]:
  "token_users (emit x e) = token_users e"
  "token_users (spawn_driver d e) = insert (drv_ticket_key d, drv_cancel_token d) (token_users e)"
  by (simp_all add: token_users_def)

lemma engine_ok_spawn [state_intros]:
  assumes ok: "engine_ok e" and u: "(drv_ticket_key d, drv_cancel_token d) \<in> token_users e"
  shows "engine_ok (spawn_driver d e)"
proof -
  have "token_users (spawn_driver d e) = token_users e" using insert_absorb [OF u] by simp
  then show ?thesis using ok by (simp add: engine_ok_def)
qed

lemma engine_ok_fewer_drivers [state_intros]:
  assumes ok: "engine_ok e" and "set ds \<subseteq> set (eng_drivers e)"
  shows "engine_ok (e\<lparr>eng_drivers := ds\<rparr>)"
proof -
  have "token_users (e\<lparr>eng_drivers := ds\<rparr>) \<subseteq> token_users e"
    using assms(2) unfolding token_users_def by auto
  then show ?thesis
    using ok tokens_ok_mono by (auto simp: engine_ok_def)
qed

lemma engine_ok_remove [state_intros]:
  assumes ok: "engine_ok e" shows "engine_ok (wf_remove k e)"
proof -
  have fields: "eng_db (wf_remove k e) = eng_db e" "eng_cancelled (wf_remove k e) = eng_cancelled e"
    "eng_next_token (wf_remove k e) = eng_next_token e" "eng_drivers (wf_remove k e) = eng_drivers e"
    by (simp_all add: wf_remove_def)
  have "token_users (wf_remove k e) \<subseteq> token_users e"
    unfolding token_users_def fields by (auto split: if_splits)
  then have "tokens_ok (token_users (wf_remove k e)) (eng_cancelled e) (eng_next_token e)"
    using engine_okD(2) [OF ok] tokens_ok_mono by blast
  moreover have "distinct (List.map fst (eng_workflows (wf_remove k e)))"
    using ok by (simp add: wf_remove_def engine_ok_def distinct_delete)
  ultimately show ?thesis using ok by (simp add: engine_ok_def fields)
qed

subsection \<open>Shadow writes\<close>

text \<open>A shadow write changes the database and uses up outcomes, nothing else.\<close>

definition only_db :: "engine \<Rightarrow> engine \<Rightarrow> bool" where
  "only_db e e' \<longleftrightarrow> e' = e\<lparr>eng_db := eng_db e', eng_io := eng_io e'\<rparr> \<and> (eng_db e' = None \<longleftrightarrow> eng_db e = None)"

lemma only_dbD:
  assumes "only_db e e'"
  shows "eng_workflows e' = eng_workflows e" "wf_get e' k = wf_get e k"
    "eng_drivers e' = eng_drivers e" "eng_cancelled e' = eng_cancelled e"
    "eng_next_token e' = eng_next_token e" "eng_events e' = eng_events e"
    "eng_effects e' = eng_effects e" "eng_flows e' = eng_flows e" "eng_repos e' = eng_repos e"
    "eng_suppress e' = eng_suppress e" "eng_ticks e' = eng_ticks e"
    "eng_revalidates e' = eng_revalidates e"
proof -
  have eq: "e' = e\<lparr>eng_db := eng_db e', eng_io := eng_io e'\<rparr>" using assms by (simp add: only_db_def)
  show "wf_get e' k = wf_get e k" by (subst eq) (simp add: wf_get_def)
qed (subst assms [unfolded only_db_def, THEN conjunct1], simp)+

lemma only_db_refl [simp, intro]: "only_db e e"
  by (simp add: only_db_def)

lemma only_db_trans: "only_db e e' \<Longrightarrow> only_db e' e'' \<Longrightarrow> only_db e e''"
  unfolding only_db_def by (cases e; cases e'; cases e'') simp

definition dbs_ok :: "engine \<Rightarrow> bool" where
  "dbs_ok e \<longleftrightarrow> (\<forall>db. eng_db e = Some db \<longrightarrow> db_ok db)"

lemma engine_ok_dbs: "engine_ok e \<Longrightarrow> dbs_ok e"
  by (simp add: engine_ok_def dbs_ok_def)

lemma engine_ok_only_db: "only_db e e' \<Longrightarrow> engine_ok e \<Longrightarrow> dbs_ok e' \<Longrightarrow> engine_ok e'"
  by (auto simp: engine_ok_def dbs_ok_def token_users_def only_dbD)

lemma only_db_next_io: "next_io e = (ok, e') \<Longrightarrow> only_db e e' \<and> eng_db e' = eng_db e"
  by (auto simp: next_io_def only_db_def split: list.splits)

lemma only_db_exec: "only_db e (snd (db_exec stmt e))"
  unfolding db_exec_def
  by (auto simp: next_io_def only_db_def split: list.splits option.splits prod.splits)

lemma dbs_ok_exec:
  assumes "\<And>db. db_ok db \<Longrightarrow> db_ok (snd (stmt db))" and "dbs_ok e"
  shows "dbs_ok (snd (db_exec stmt e))"
  using assms(2) unfolding db_exec_def dbs_ok_def
  by (auto simp: next_io_def split: list.splits option.splits prod.splits)
    (metis assms(1) snd_conv)+

lemma retry_from_invariant:
  "I e \<Longrightarrow> (\<And>e. I e \<Longrightarrow> I (snd (op e))) \<Longrightarrow> I (snd (retry_from n op e))"
proof (induction n op e rule: retry_from.induct)
  case (1 n op e)
  have step: "I (snd (op e))" using 1(2,3) by blast
  obtain r e' where r: "op e = (r, e')" by (cases "op e")
  show ?case
  proof (cases r)
    case (Inl err)
    then show ?thesis
      using r step 1(1) 1(3) by (subst retry_from.simps) auto
  qed (use r step in \<open>subst retry_from.simps, simp\<close>)
qed

lemma retry_durable_write_keeps:
  assumes "\<And>db. db_ok db \<Longrightarrow> db_ok (f db)"
  shows "only_db e (snd (retry_durable_write (db_write f) e))"
    and "dbs_ok e \<Longrightarrow> dbs_ok (snd (retry_durable_write (db_write f) e))"
  unfolding retry_durable_write_def db_write_def
   apply (rule retry_from_invariant [where I = "only_db e"])
    apply (rule only_db_refl)
   apply (erule only_db_trans [OF _ only_db_exec])
  apply (erule retry_from_invariant)
  apply (rule dbs_ok_exec; simp add: assms)
  done

lemma db_write_keeps:
  "only_db e (snd (db_write f e))"
  "(\<And>db. db_ok db \<Longrightarrow> db_ok (f db)) \<Longrightarrow> dbs_ok e \<Longrightarrow> dbs_ok (snd (db_write f e))"
  by (simp_all add: db_write_def only_db_exec dbs_ok_exec)

lemma db_read_keeps: "only_db e (snd (db_read q e))" "dbs_ok e \<Longrightarrow> dbs_ok (snd (db_read q e))"
  by (simp_all add: db_read_def only_db_exec dbs_ok_exec)

lemma start_definition_run_ok: "db_ok db \<Longrightarrow> db_ok (snd (start_definition_run i fn t db))"
  unfolding start_definition_run_def by (rule upsert_definition_run_ok)

lemma shadow_persist_state_change_keeps:
  "only_db e (shadow_persist_state_change env i st l t e)"
  "dbs_ok e \<Longrightarrow> dbs_ok (shadow_persist_state_change env i st l t e)"
  unfolding shadow_persist_state_change_def
  by (auto simp: Let_def update_ok db_write_keeps retry_durable_write_keeps split: option.splits prod.splits)

lemma shadow_persist_branch_and_worktree_keeps:
  "only_db e (shadow_persist_branch_and_worktree i b p t e)"
  "dbs_ok e \<Longrightarrow> dbs_ok (shadow_persist_branch_and_worktree i b p t e)"
  unfolding shadow_persist_branch_and_worktree_def
  by (auto simp: update_ok db_write_keeps split: option.splits)

lemma shadow_record_step_start_keeps:
  "only_db e (snd (shadow_record_step_start i n d t e))"
  "dbs_ok e \<Longrightarrow> dbs_ok (snd (shadow_record_step_start i n d t e))"
proof -
  have "only_db e (snd (shadow_record_step_start i n d t e)) \<and>
    (dbs_ok e \<longrightarrow> dbs_ok (snd (shadow_record_step_start i n d t e)))"
  proof (cases "eng_db e = None")
    case False
    obtain ok1 e1 where 1: "next_io e = (ok1, e1)" by (cases "next_io e")
    obtain r e2 where 2: "db_exec (record_step_start i n d t) e1 = (r, e2)"
      by (cases "db_exec (record_step_start i n d t) e1")
    obtain ok3 e3 where 3: "next_io e2 = (ok3, e3)" by (cases "next_io e2")
    have k1: "only_db e e1" "dbs_ok e \<Longrightarrow> dbs_ok e1"
      using only_db_next_io [OF 1] by (auto simp: dbs_ok_def)
    have k2: "only_db e1 e2" "dbs_ok e1 \<Longrightarrow> dbs_ok e2"
      using only_db_exec [of e1 "record_step_start i n d t"]
        dbs_ok_exec [of "record_step_start i n d t", OF record_step_start_ok, of e1] by (simp_all add: 2)
    have k3: "only_db e2 e3" "dbs_ok e2 \<Longrightarrow> dbs_ok e3"
      using only_db_next_io [OF 3] by (auto simp: dbs_ok_def)
    have "snd (shadow_record_step_start i n d t e) \<in> {e1, e2, e3} \<and> (\<not> ok1 \<longrightarrow>
        snd (shadow_record_step_start i n d t e) = e1)"
      unfolding shadow_record_step_start_def
      using False by (cases r) (auto simp: 1 2 3 split: option.splits)
    moreover have "only_db e e2" "only_db e e3" using k1 k2 k3 only_db_trans by blast+
    ultimately show ?thesis using k1 k2 k3 by auto
  qed (simp add: shadow_record_step_start_def)
  then show "only_db e (snd (shadow_record_step_start i n d t e))"
    "dbs_ok e \<Longrightarrow> dbs_ok (snd (shadow_record_step_start i n d t e))" by blast+
qed

lemma shadow_record_step_end_keeps:
  "only_db e (shadow_record_step_end i st c m t e)"
  "dbs_ok e \<Longrightarrow> dbs_ok (shadow_record_step_end i st c m t e)"
  unfolding shadow_record_step_end_def
  by (auto simp: record_step_end_ok db_write_keeps split: option.splits)

lemma shadow_def_run_keeps:
  "only_db e (shadow_start_def_run i d t e)" "dbs_ok e \<Longrightarrow> dbs_ok (shadow_start_def_run i d t e)"
  "only_db e (shadow_finish_def_run i d s m t e)" "dbs_ok e \<Longrightarrow> dbs_ok (shadow_finish_def_run i d s m t e)"
  unfolding shadow_start_def_run_def shadow_finish_def_run_def
  by (auto simp: finish_definition_run_ok start_definition_run_ok db_write_keeps only_db_exec
      dbs_ok_exec split: option.splits)

lemmas shadow_keeps = shadow_persist_state_change_keeps shadow_persist_branch_and_worktree_keeps
  shadow_record_step_start_keeps shadow_record_step_end_keeps shadow_def_run_keeps

lemmas shadow_fields [simp] =
  shadow_persist_state_change_keeps(1) [THEN only_dbD(1)] shadow_persist_state_change_keeps(1) [THEN only_dbD(2)]
  shadow_persist_state_change_keeps(1) [THEN only_dbD(3)] shadow_persist_state_change_keeps(1) [THEN only_dbD(4)]
  shadow_persist_state_change_keeps(1) [THEN only_dbD(5)] shadow_persist_state_change_keeps(1) [THEN only_dbD(10)]
  shadow_def_run_keeps(1) [THEN only_dbD(1)] shadow_def_run_keeps(1) [THEN only_dbD(2)]
  shadow_def_run_keeps(1) [THEN only_dbD(3)] shadow_def_run_keeps(1) [THEN only_dbD(4)]
  shadow_def_run_keeps(1) [THEN only_dbD(5)] shadow_def_run_keeps(1) [THEN only_dbD(10)]
  shadow_def_run_keeps(3) [THEN only_dbD(1)] shadow_def_run_keeps(3) [THEN only_dbD(2)]
  shadow_def_run_keeps(3) [THEN only_dbD(3)] shadow_def_run_keeps(3) [THEN only_dbD(4)]
  shadow_def_run_keeps(3) [THEN only_dbD(5)] shadow_def_run_keeps(3) [THEN only_dbD(10)]

lemma shadow_engine_ok [state_intros]:
  "engine_ok e \<Longrightarrow> engine_ok (shadow_persist_state_change env i st l t e)"
  "engine_ok e \<Longrightarrow> engine_ok (shadow_persist_branch_and_worktree i b p t e)"
  "engine_ok e \<Longrightarrow> engine_ok (snd (shadow_record_step_start i n d t e))"
  "engine_ok e \<Longrightarrow> engine_ok (shadow_record_step_end j st' c m t e)"
  "engine_ok e \<Longrightarrow> engine_ok (shadow_start_def_run i d' t e)"
  "engine_ok e \<Longrightarrow> engine_ok (shadow_finish_def_run i d' s m t e)"
  by (rule engine_ok_only_db; simp add: shadow_keeps engine_ok_dbs)+

subsection \<open>Well-formed work items\<close>

lemma workflow_ok_update [state_intros]:
  "workflow_ok k w \<Longrightarrow> workflow_ok k (set_def_run d st w)"
  "workflow_ok k w \<Longrightarrow> workflow_ok k (fail_def_run d m w)"
  "workflow_ok k w \<Longrightarrow> step_log_ok l \<Longrightarrow> workflow_ok k (w\<lparr>wf_steps_log := wf_steps_log w @ [l]\<rparr>)"
  by (auto simp: workflow_ok_def set_def_run_def fail_def_run_def Let_def)

lemma set_def_run_fields [simp]:
  "wf_cancel_token (set_def_run d st w) = wf_cancel_token w" "wf_state (set_def_run d st w) = wf_state w"
  "wf_ticket_key (set_def_run d st w) = wf_ticket_key w" "wf_id (set_def_run d st w) = wf_id w"
  "wf_steps_log (set_def_run d st w) = wf_steps_log w" "wf_user_id (set_def_run d st w) = wf_user_id w"
  "map_of (wf_def_runs (set_def_run d st w)) = (map_of (wf_def_runs w))(d \<mapsto> st)"
  by (simp_all add: set_def_run_def)

lemma fail_def_run_fields [simp]:
  "wf_cancel_token (fail_def_run d m w) = wf_cancel_token w" "wf_id (fail_def_run d m w) = wf_id w"
  "wf_ticket_key (fail_def_run d m w) = wf_ticket_key w" "wf_user_id (fail_def_run d m w) = wf_user_id w"
  "map_of (wf_def_runs (fail_def_run d m w)) = (map_of (wf_def_runs w))(d \<mapsto> RunError m)"
  "wf_state (fail_def_run d m w) =
     (if is_terminal (wf_state w) then wf_state w else Error (wf_state w) m)"
  by (simp_all add: fail_def_run_def Let_def)

lemma set_def_runs_fields [simp]:
  "wf_cancel_token (fold (\<lambda>d. set_def_run d st) ds w) = wf_cancel_token w"
  "wf_ticket_key (fold (\<lambda>d. set_def_run d st) ds w) = wf_ticket_key w"
  "wf_id (fold (\<lambda>d. set_def_run d st) ds w) = wf_id w"
  "wf_steps_log (fold (\<lambda>d. set_def_run d st) ds w) = wf_steps_log w"
  by (induction ds arbitrary: w) simp_all

lemma tick_eq [simp]: "tick env e = (env_clock env (eng_ticks e), e\<lparr>eng_ticks := Suc (eng_ticks e)\<rparr>)"
  by (simp add: tick_def)

lemma tick_put: "eng_ticks (wf_put k w e) = eng_ticks e"
  by (simp add: wf_put_def)

lemma put_ticks: "wf_put k w (e\<lparr>eng_ticks := n\<rparr>) = (wf_put k w e)\<lparr>eng_ticks := n\<rparr>"
  by (simp add: wf_put_def)

lemma engine_ok_put_same [state_intros]:
  "engine_ok e \<Longrightarrow> wf_get e k = Some w0 \<Longrightarrow> workflow_ok k w \<Longrightarrow>
     wf_cancel_token w = wf_cancel_token w0 \<Longrightarrow> engine_ok (wf_put k w e)"
  by (rule engine_ok_put) (use token_users_wf [of e k w0] in simp_all)

lemma engine_ok_modify [state_intros]:
  "engine_ok e \<Longrightarrow> (\<And>w. workflow_ok k w \<Longrightarrow> workflow_ok k (f w)) \<Longrightarrow>
     (\<And>w. wf_cancel_token (f w) = wf_cancel_token w) \<Longrightarrow> engine_ok (modify_workflow k f e)"
  unfolding modify_workflow_def
  by (auto split: option.splits intro: engine_ok_put_same dest: engine_okD(1))

lemma workflow_ok_touch: "workflow_ok k (w\<lparr>wf_updated_at := n\<rparr>) = workflow_ok k w"
  by (simp add: workflow_ok_def)

lemma engine_ok_update_workflow [state_intros]:
  "engine_ok e \<Longrightarrow> (\<And>w. workflow_ok k w \<Longrightarrow> workflow_ok k (f w)) \<Longrightarrow>
     (\<And>w. wf_cancel_token (f w) = wf_cancel_token w) \<Longrightarrow> engine_ok (update_workflow env k f e)"
  unfolding update_workflow_def
  by (auto split: option.splits simp: put_ticks workflow_ok_touch intro!: engine_ok_put_same dest: engine_okD(1))

lemma engine_ok_put_from:
  assumes "engine_ok e" "wf_get e k = Some w0" "state_ok (wf_state w)"
    "wf_ticket_key w = wf_ticket_key w0" "set (wf_steps_log w) \<subseteq> set (wf_steps_log w0)"
    "wf_cancel_token w = wf_cancel_token w0"
  shows "engine_ok (wf_put k w e)"
  using engine_ok_put_same [OF assms(1,2)] engine_okD(1) [OF assms(1,2)] assms(3-6)
  by (auto simp: workflow_ok_def)

lemma engine_ok_put_fresh_from:
  assumes "engine_ok e" "wf_get e k = Some w0" "state_ok (wf_state w)"
    "wf_ticket_key w = wf_ticket_key w0" "set (wf_steps_log w) \<subseteq> set (wf_steps_log w0)"
    "wf_cancel_token w = eng_next_token e"
  shows "engine_ok (wf_put k w (e\<lparr>eng_next_token := Suc (eng_next_token e)\<rparr>))"
  using engine_ok_put_fresh [OF assms(1)] engine_okD(1) [OF assms(1,2)] assms(3-6)
  by (auto simp: workflow_ok_def)

subsection \<open>The operations keep the invariant\<close>

lemma transition_to_agent_step_ok [state_intros]:
  assumes "engine_ok e" shows "engine_ok (transition_to_agent_step env k pass l e)"
proof (cases "wf_get e k")
  case (Some w)
  show ?thesis
    using Some by (simp add: transition_to_agent_step_def Let_def put_ticks)
      (intro shadow_engine_ok, simp, rule engine_ok_put_from [OF assms Some]; simp)
qed (use assms in \<open>simp add: transition_to_agent_step_def\<close>)

lemma transition_ok [state_intros]:
  assumes "engine_ok e" and "state_ok st" shows "engine_ok (transition env k st e)"
proof (cases "wf_get e k")
  case (Some w)
  show ?thesis
    using Some by (simp add: transition_def Let_def put_ticks)
      (intro shadow_engine_ok, simp, rule engine_ok_put_from [OF assms(1) Some]; simp add: assms)
qed (use assms in \<open>simp add: transition_def\<close>)

lemma durable_write_ok [state_intros]:
  assumes "engine_ok e" and "\<And>db. db_ok db \<Longrightarrow> db_ok (f db)"
  shows "engine_ok (snd (retry_durable_write (db_write f) e))"
  by (rule engine_ok_only_db [OF retry_durable_write_keeps(1) assms(1) retry_durable_write_keeps(2)])
    (simp_all add: assms engine_ok_dbs)

lemma transition_to_done_with_pr_url_ok [state_intros]:
  assumes "engine_ok e" shows "engine_ok (transition_to_done_with_pr_url env k u e)"
proof (cases "wf_get e k")
  case (Some w)
  let ?w = "w\<lparr>wf_pr_url := Some u, wf_current_step_label := None, wf_state := Done,
    wf_updated_at := env_clock env (eng_ticks e)\<rparr>"
  have put: "engine_ok (wf_put k ?w e)" by (rule engine_ok_put_from [OF assms Some]; simp)
  have "engine_ok (snd (retry_durable_write (db_write (update_work_item_pr_url_and_state i p kd py l t))
      ((wf_put k ?w e)\<lparr>eng_ticks := n\<rparr>)))" for i p kd py l t n
    by (rule durable_write_ok) (simp_all add: put update_ok)
  then show ?thesis
    using Some put
    by (simp add: transition_to_done_with_pr_url_def Let_def put_ticks case_prod_beta split: option.split)
qed (use assms in \<open>simp add: transition_to_done_with_pr_url_def\<close>)

lemma add_step_log_ok [state_intros]:
  "engine_ok e \<Longrightarrow> step_log_ok l \<Longrightarrow> engine_ok (add_step_log k l e)"
  unfolding add_step_log_def by (rule engine_ok_modify) (auto intro: state_intros)

lemma drive_start_ok [state_intros]:
  assumes "engine_ok e" shows "engine_ok (snd (drive_start env d e))"
proof -
  let ?e = "modify_workflow (drv_ticket_key d)
    (\<lambda>w. w\<lparr>wf_current_def_total_steps := Some (flow_step_count (drv_steps d))\<rparr>) e"
  have ok: "engine_ok ?e" using assms by (rule engine_ok_modify) (simp_all add: workflow_ok_def)
  let ?q = "\<lambda>db. get_work_item_by_ticket_key db (drv_ticket_key d)"
  have "engine_ok (snd (db_read ?q ?e))"
    by (rule engine_ok_only_db [OF db_read_keeps(1) ok db_read_keeps(2)]) (simp add: ok engine_ok_dbs)
  then show ?thesis
    unfolding drive_start_def Let_def using ok
    by (cases "db_read ?q ?e") (auto split: option.splits sum.splits)
qed

lemma finish_and_tell_ok [state_intros]:
  "engine_ok e \<Longrightarrow> engine_ok (finish_and_tell env k i u d st m e)"
  by (simp add: finish_and_tell_def Let_def shadow_engine_ok)

lemma drive_finish_ok [state_intros]:
  assumes "engine_ok e" shows "engine_ok (drive_finish env d r e)"
proof -
  have "engine_ok (emit (CleanupContainers k) (e\<lparr>eng_drivers := remove1 d (eng_drivers e)\<rparr>))" for k
    using assms by (simp add: engine_ok_fewer_drivers set_remove1_subset)
  then show ?thesis
    unfolding drive_finish_def Let_def
    by (auto intro!: finish_and_tell_ok engine_ok_update_workflow workflow_ok_update split: sum.splits)
qed

text \<open>Operations that leave the work items, drivers, tokens and work-item tables alone.\<close>

definition same_core :: "engine \<Rightarrow> engine \<Rightarrow> bool" where
  "same_core e e' \<longleftrightarrow> eng_workflows e' = eng_workflows e \<and> eng_drivers e' = eng_drivers e \<and>
     eng_cancelled e' = eng_cancelled e \<and> eng_next_token e' = eng_next_token e \<and> eng_db e' = eng_db e"

lemma same_core_refl [simp]: "same_core e e"
  by (simp add: same_core_def)

lemma same_core_wf: "same_core e e' \<Longrightarrow> wf_get e' k = wf_get e k"
  by (simp add: same_core_def wf_get_def)

lemma engine_ok_same_core: "same_core e e' \<Longrightarrow> engine_ok e' = engine_ok e"
  by (auto simp: engine_ok_def same_core_def token_users_def wf_get_def)

lemma next_io_core: "next_io e = (b, e') \<Longrightarrow> same_core e e'"
  by (auto simp: next_io_def same_core_def split: list.splits)

lemma snd_next_io: "snd (next_io e) = e\<lparr>eng_io := tl (eng_io e)\<rparr>"
  by (cases "eng_io e") (simp_all add: next_io_def)

lemma same_core_update [simp]:
  "same_core e (e'\<lparr>eng_io := bs\<rparr>) = same_core e e'" "same_core e (e'\<lparr>eng_ticks := n\<rparr>) = same_core e e'"
  "same_core e (e'\<lparr>eng_flows := f\<rparr>) = same_core e e'"
  by (simp_all add: same_core_def)

lemma resolve_repo_core: "same_core e (snd (resolve_repo_for_ticket env k e))"
  unfolding resolve_repo_for_ticket_def Let_def
  by (auto simp: case_prod_beta snd_next_io split: option.splits)

lemma resolve_definitions_core: "same_core e (snd (resolve_definitions env k u e))"
  unfolding resolve_definitions_def Let_def
  by (auto simp: case_prod_beta snd_next_io split: option.splits)

lemma core_ok [state_intros]:
  "engine_ok e \<Longrightarrow> engine_ok (snd (resolve_repo_for_ticket env k e))"
  "engine_ok e \<Longrightarrow> engine_ok (snd (resolve_definitions env k u e))"
  using engine_ok_same_core [OF resolve_repo_core] engine_ok_same_core [OF resolve_definitions_core] by blast+

lemma put_cancel: "wf_put k w (cancel t e) = cancel t (wf_put k w e)"
  by (simp add: wf_put_def cancel_def)

lemma put_next_token: "wf_put k w (e\<lparr>eng_next_token := n\<rparr>) = (wf_put k w e)\<lparr>eng_next_token := n\<rparr>"
  by (simp add: wf_put_def)

lemma pause_workflow_ok [state_intros]:
  assumes ok: "engine_ok e" shows "engine_ok (snd (pause_workflow env k e))"
proof (cases "wf_get e k")
  case (Some w)
  let ?w = "w\<lparr>wf_state := Paused (wf_state w), wf_updated_at := env_clock env (eng_ticks e),
    wf_cancel_token := eng_next_token e\<rparr>"
  have st: "state_ok (wf_state w)" "wf_cancel_token w < eng_next_token e"
    using engine_okD(1) [OF ok Some] token_below [OF ok token_users_wf [OF Some]]
    by (simp_all add: workflow_ok_def)
  have "engine_ok (cancel (wf_cancel_token w) e)" using ok st(2) by (rule engine_ok_cancel)
  then have "engine_ok (wf_put k ?w ((cancel (wf_cancel_token w) e)\<lparr>eng_next_token :=
      Suc (eng_next_token (cancel (wf_cancel_token w) e))\<rparr>))" if "is_active (wf_state w)"
    by (rule engine_ok_put_fresh_from [where ?w0.0 = w])
      (use Some st that in \<open>auto split: workflow_state.splits\<close>)
  then have "engine_ok ((wf_put k ?w (cancel (wf_cancel_token w) e))\<lparr>eng_ticks := n,
      eng_next_token := Suc (eng_next_token e)\<rparr>)" if "is_active (wf_state w)" for n
    using that by (simp add: wf_put_def cancel_def engine_ok_def token_users_def wf_get_def)
  then show ?thesis
    using Some ok by (simp add: pause_workflow_def Let_def fresh_token_def shadow_engine_ok put_ticks put_next_token)
qed (use assms in \<open>simp add: pause_workflow_def\<close>)

lemma stop_workflow_ok [state_intros]:
  assumes ok: "engine_ok e" shows "engine_ok (snd (stop_workflow env k e))"
proof (cases "wf_get e k")
  case (Some w)
  let ?w = "w\<lparr>wf_current_step_label := None, wf_state := Stopped,
    wf_updated_at := env_clock env (eng_ticks e)\<rparr>"
  have "wf_cancel_token w < eng_next_token e"
    using token_below [OF ok token_users_wf [OF Some]] .
  then have "engine_ok (cancel (wf_cancel_token w) e)" using ok by (simp add: engine_ok_cancel)
  then have "engine_ok (wf_put k ?w (cancel (wf_cancel_token w) e))"
    by (rule engine_ok_put_from [where ?w0.0 = w]) (simp_all add: Some)
  then show ?thesis
    using Some by (simp add: stop_workflow_def Let_def put_ticks shadow_engine_ok case_prod_beta core_ok)
qed (use assms in \<open>simp add: stop_workflow_def\<close>)

lemma respawn_ok [state_intros]:
  assumes "engine_ok e" and "(k, t) \<in> token_users e"
  shows "engine_ok (respawn k ds wt t s d e)" and "(k, t) \<in> token_users (respawn k ds wt t s d e)"
proof -
  show "engine_ok (respawn k ds wt t s d e)" "(k, t) \<in> token_users (respawn k ds wt t s d e)"
    unfolding respawn_def Let_def using assms
    by (auto simp: case_prod_beta intro!: engine_ok_spawn split: option.split)
qed

lemma respawns_ok [state_intros]:
  "engine_ok e \<Longrightarrow> (k, t) \<in> token_users e \<Longrightarrow> engine_ok (fold (respawn k ds wt t s) defs e)"
  by (induction defs arbitrary: e) (simp_all add: respawn_ok)

lemma resume_workflow_ok [state_intros]:
  assumes ok: "engine_ok e" shows "engine_ok (snd (resume_workflow env k e))"
proof (cases "\<exists>w s. wf_get e k = Some w \<and> wf_state w = Paused s")
  case True
  then obtain w s where w: "wf_get e k = Some w" "wf_state w = Paused s" by blast
  let ?w = "w\<lparr>wf_state := s, wf_updated_at := env_clock env (eng_ticks e),
    wf_steps_log := filter (\<lambda>s. sl_status s \<noteq> Running) (wf_steps_log w)\<rparr>"
  have "state_ok s" using engine_okD(1) [OF ok w(1)] w(2) by (simp add: workflow_ok_def)
  then have put: "engine_ok (wf_put k ?w e)"
    by (intro engine_ok_put_from [OF ok w(1)]) auto
  have users: "(k, wf_cancel_token ?w) \<in> token_users e'" if "wf_get e' k = Some ?w" for e'
    using that by (rule token_users_wf)
  show ?thesis
    using w put users
    by (simp add: resume_workflow_def Let_def put_ticks shadow_engine_ok respawns_ok)
next
  case False
  then show ?thesis
    using ok by (auto simp: resume_workflow_def split: option.split workflow_state.split)
qed

lemma start_commit_ok [state_intros]:
  assumes ok: "engine_ok e" shows "engine_ok (snd (start_commit env k n d seen wt e))"
proof (cases "wf_get e k")
  case (Some w)
  let ?w = "(set_def_run n RunRunning w)\<lparr>wf_cancel_token := eng_next_token e,
    wf_driver_started := True, wf_updated_at := env_clock env (eng_ticks e)\<rparr>"
  have "state_ok (wf_state w)" using engine_okD(1) [OF ok Some] by (simp add: workflow_ok_def)
  then have put: "engine_ok (wf_put k ?w (e\<lparr>eng_next_token := Suc (eng_next_token e)\<rparr>))"
    by (intro engine_ok_put_fresh_from [OF ok Some]) auto
  have users: "(k, eng_next_token e) \<in> token_users e'" if "wf_get e' k = Some ?w" for e'
    using token_users_wf [OF that] by simp
  show ?thesis
    using Some put users
    by (simp add: start_commit_def fresh_token_def Let_def put_ticks shadow_engine_ok engine_ok_spawn)
qed (use ok in \<open>simp add: start_commit_def\<close>)

lemma start_workflow_def_ok [state_intros]:
  "engine_ok e \<Longrightarrow> engine_ok (snd (start_workflow_def env k n u e))"
  using core_ok(2) [of e env k u]
  by (auto simp: start_workflow_def_def case_prod_beta start_commit_ok split: option.split sum.split)

lemma retry_workflow_def_ok [state_intros]:
  assumes "engine_ok e" shows "engine_ok (snd (retry_workflow_def env k n u e))"
proof (cases "wf_get e k")
  case (Some w)
  have "engine_ok (wf_put k (set_def_run n RunIdle w) e)"
    using engine_okD(1) [OF assms Some] by (intro engine_ok_put_from [OF assms Some]) (auto simp: workflow_ok_def)
  then show ?thesis
    using Some assms by (auto simp: retry_workflow_def_def start_workflow_def_ok
        split: option.split def_run_state.split)
qed (use assms in \<open>simp add: retry_workflow_def_def\<close>)

lemma start_defs_ok: "engine_ok e \<Longrightarrow> engine_ok (fold (\<lambda>d e'. snd (start_workflow_def env k d u e')) ds e)"
  by (induction ds arbitrary: e) (simp_all add: start_workflow_def_ok)

lemma resume_from_error_ok [state_intros]:
  assumes ok: "engine_ok e" shows "engine_ok (snd (resume_from_error env k e))"
proof (cases "wf_get e k")
  case (Some w)
  let ?w = "(fold (\<lambda>d. set_def_run d RunIdle) (runs_where env is_run_error w) w)\<lparr>wf_state := Pending,
    wf_current_step_label := None, wf_updated_at := env_clock env (eng_ticks e)\<rparr>"
  have "engine_ok (wf_put k ?w e)" by (intro engine_ok_put_from [OF ok Some]) auto
  then show ?thesis
    using Some ok
    by (simp add: resume_from_error_def Let_def put_ticks shadow_engine_ok start_defs_ok)
qed (use ok in \<open>simp add: resume_from_error_def\<close>)

end
