(* ===== verification/Engine_Props.thy ===== *)
theory Engine_Props
  imports Engine_Inv
begin

text \<open>
  What the operations of \<^theory_text>\<open>Engine_Control\<close> do: the durable writes, pause and resume,
  stop, the start of a definition and the end of its driver, the concurrency slots.
\<close>

subsection \<open>Durable writes\<close>

lemma db_write_eq: "eng_db e = Some db \<Longrightarrow> db_write f e =
    (case eng_io e of
       [] \<Rightarrow> (Inr (), e\<lparr>eng_db := Some (f db)\<rparr>)
     | True # bs \<Rightarrow> (Inr (), e\<lparr>eng_io := bs, eng_db := Some (f db)\<rparr>)
     | False # bs \<Rightarrow> (Inl SqlError, e\<lparr>eng_io := bs\<rparr>))"
  by (auto simp: db_write_def db_exec_def next_io_def split: list.splits bool.splits)

definition three_faults :: "engine \<Rightarrow> bool" where
  "three_faults e \<longleftrightarrow> take 3 (eng_io e) = [False, False, False]"

lemma retry_durable_write_eq:
  assumes "eng_db e = Some db"
  shows "retry_durable_write (db_write f) e =
    (if three_faults e then (Inl SqlError, e\<lparr>eng_io := drop 3 (eng_io e)\<rparr>)
     else (Inr (), e\<lparr>eng_db := Some (f db), eng_io := tl (dropWhile Not (eng_io e))\<rparr>))"
proof -
  consider "eng_io e = []" | bs where "eng_io e = True # bs" | "eng_io e = [False]"
    | bs where "eng_io e = False # True # bs" | "eng_io e = [False, False]"
    | bs where "eng_io e = False # False # True # bs" | bs where "eng_io e = False # False # False # bs"
    by (cases "eng_io e" rule: list.exhaust; metis (full_types) list.exhaust)
  then show ?thesis
    by cases (simp_all add: retry_durable_write_def retry_from.simps [of _ "db_write f"] db_write_eq
        assms DURABLE_WRITE_ATTEMPTS_def three_faults_def)
qed

lemma db_exec_calm:
  "eng_io e = [] \<Longrightarrow> eng_db e = Some db \<Longrightarrow>
     db_exec stmt e = (case stmt db of (r, db') \<Rightarrow> (r, e\<lparr>eng_db := Some db'\<rparr>))"
  by (simp add: db_exec_def next_io_def)

subsection \<open>What the disk holds\<close>

text \<open>
  The abstract view of a work item is its state and the label of its step. \<open>disk_view\<close> is the
  view the database holds under an item's id, \<open>disk_state\<close> the view it should hold.
\<close>

type_synonym stored_state = "string \<times> string option \<times> string option"

definition disk_state :: "env \<Rightarrow> workflow_state \<Rightarrow> string option \<Rightarrow> stored_state" where
  "disk_state env st label =
     (case state_to_kind_and_payload (env_json env) st of (kind, payload) \<Rightarrow>
        (kind_as_str kind, payload, label))"

definition row_state :: "stored_work_item \<Rightarrow> stored_state" where
  "row_state r = (wi_state_kind r, wi_state_payload r, wi_current_step_label r)"

definition disk_view :: "engine \<Rightarrow> string \<Rightarrow> stored_state option" where
  "disk_view e i =
     (case eng_db e of
        None \<Rightarrow> None
      | Some db \<Rightarrow> map_of (List.map (\<lambda>r. (wi_id r, row_state r)) (db_items db)) i)"

definition mirrored :: "env \<Rightarrow> engine \<Rightarrow> bool" where
  "mirrored env e \<longleftrightarrow> eng_db e \<noteq> None \<longrightarrow>
     (\<forall>k w. wf_get e k = Some w \<longrightarrow>
        disk_view e (wf_id w) = Some (disk_state env (wf_state w) (wf_current_step_label w)))"

definition ids_distinct :: "engine \<Rightarrow> bool" where
  "ids_distinct e \<longleftrightarrow>
     (\<forall>k k' w w'. wf_get e k = Some w \<longrightarrow> wf_get e k' = Some w' \<longrightarrow> wf_id w = wf_id w' \<longrightarrow> k = k')"

lemma disk_view_frame [simp]:
  "disk_view (e\<lparr>eng_ticks := n\<rparr>) = disk_view e" "disk_view (e\<lparr>eng_io := bs\<rparr>) = disk_view e"
  "disk_view (e\<lparr>eng_next_token := n\<rparr>) = disk_view e" "disk_view (e\<lparr>eng_drivers := ds\<rparr>) = disk_view e"
  "disk_view (wf_put k w e) = disk_view e" "disk_view (send ev e) = disk_view e"
  "disk_view (emit x e) = disk_view e" "disk_view (cancel t e) = disk_view e"
  "disk_view (spawn_driver d e) = disk_view e"
  by (simp_all add: disk_view_def fun_eq_iff)

lemma map_of_updated:
  assumes "\<And>r. wi_id (f r) = wi_id r" and "\<And>r. row_state (f r) = s"
  shows "map_of (List.map (\<lambda>r. (wi_id r, row_state r)) (List.map (\<lambda>r. if wi_id r = i then f r else r) rs)) j =
    (if j = i then map_option (\<lambda>_. s) (map_of (List.map (\<lambda>r. (wi_id r, row_state r)) rs) i)
     else map_of (List.map (\<lambda>r. (wi_id r, row_state r)) rs) j)"
  by (induction rs) (auto simp: assms)

lemma disk_view_update_item:
  assumes "\<And>r. wi_id (f r) = wi_id r" and "\<And>r. row_state (f r) = s" and "eng_db e = Some db"
  shows "disk_view (e\<lparr>eng_db := Some (update_item i f db)\<rparr>) j =
    (if j = i then map_option (\<lambda>_. s) (disk_view e i) else disk_view e j)"
  using map_of_updated [OF assms(1,2)] assms(3) by (simp add: disk_view_def update_item_def)

text \<open>A state change reaches the row unless the writes it may make all fail.\<close>

definition change_lost :: "workflow_state \<Rightarrow> engine \<Rightarrow> bool" where
  "change_lost st e \<longleftrightarrow> (if is_terminal st then three_faults e else take 1 (eng_io e) = [False])"

lemma disk_view_persist:
  "disk_view (shadow_persist_state_change env i st l t e) j =
     (if j = i \<and> \<not> change_lost st e then map_option (\<lambda>_. disk_state env st l) (disk_view e i)
      else disk_view e j)"
proof (cases "eng_db e")
  case None
  then show ?thesis by (simp add: shadow_persist_state_change_def disk_view_def)
next
  case (Some db)
  obtain kind payload where kp: "state_to_kind_and_payload (env_json env) st = (kind, payload)" by fastforce
  define f where "f = (\<lambda>r :: stored_work_item. r\<lparr>wi_state_kind := kind_as_str kind,
    wi_state_payload := payload, wi_current_step_label := l, wi_updated_at := t\<rparr>)"
  have f: "wi_id (f r) = wi_id r" "row_state (f r) = disk_state env st l" for r
    by (simp_all add: f_def row_state_def disk_state_def kp)
  have upd: "update_work_item_state i kind payload l t = update_item i f"
    by (simp add: update_work_item_state_def f_def fun_eq_iff)
  have view: "disk_view (e\<lparr>eng_db := Some (update_item i f db)\<rparr>) j =
    (if j = i then map_option (\<lambda>_. disk_state env st l) (disk_view e i) else disk_view e j)" for j
    by (rule disk_view_update_item [OF f Some])
  have io: "disk_view (e'\<lparr>eng_io := bs, eng_db := d\<rparr>) = disk_view (e'\<lparr>eng_db := d\<rparr>)" for e' bs d
    by (simp add: disk_view_def fun_eq_iff)
  show ?thesis
  proof (cases "is_terminal st")
    case True
    then show ?thesis
      using Some kp view
      by (simp add: shadow_persist_state_change_def upd change_lost_def retry_durable_write_eq)
  next
    case False
    then show ?thesis
      using Some kp view
      by (simp add: shadow_persist_state_change_def upd change_lost_def db_write_eq io
          split: list.split bool.split)
  qed
qed

lemma only_db_attached: "only_db e e' \<Longrightarrow> (eng_db e' = None) = (eng_db e = None)"
  by (simp add: only_db_def)

text \<open>The item at \<open>k\<close> and the row of its id, taken from one state to another.\<close>

lemma mirrored_persist:
  assumes "mirrored env e" and ids: "ids_distinct e" and w0: "wf_get e k = Some w0"
    and same: "\<And>k. wf_get e' k = wf_get e k" "\<And>i. disk_view e' i = disk_view e i" "eng_db e' = eng_db e"
    and "wf_id w = wf_id w0" and "\<not> change_lost (wf_state w) e'"
  shows "mirrored env (shadow_persist_state_change env (wf_id w) (wf_state w) (wf_current_step_label w) t
           (wf_put k w e'))"
proof -
  let ?e = "shadow_persist_state_change env (wf_id w) (wf_state w) (wf_current_step_label w) t (wf_put k w e')"
  have lost: "\<not> change_lost (wf_state w) (wf_put k w e')"
    using assms(8) by (simp add: change_lost_def three_faults_def split: if_splits)
  have "disk_view ?e (wf_id w') = Some (disk_state env (wf_state w') (wf_current_step_label w'))"
    if db: "eng_db e \<noteq> None" and w': "wf_get ?e k' = Some w'" for k' w'
  proof (cases "k' = k")
    case True
    then have "w' = w" using w' by (simp add: same)
    moreover have "disk_view e (wf_id w0) \<noteq> None" using assms(1) db w0 by (auto simp: mirrored_def)
    ultimately show ?thesis using lost assms(7) by (auto simp: disk_view_persist same)
  next
    case False
    then have old: "wf_get e k' = Some w'" using w' by (simp add: same)
    then have "wf_id w' \<noteq> wf_id w" using ids w0 False assms(7) unfolding ids_distinct_def by metis
    moreover have "disk_view e (wf_id w') = Some (disk_state env (wf_state w') (wf_current_step_label w'))"
      using assms(1) db old by (simp add: mirrored_def)
    ultimately show ?thesis by (simp add: disk_view_persist same)
  qed
  moreover have "eng_db ?e \<noteq> None \<Longrightarrow> eng_db e \<noteq> None"
    using shadow_persist_state_change_keeps(1) [of "wf_put k w e'" env "wf_id w" "wf_state w"
      "wf_current_step_label w" t] by (auto dest!: only_db_attached simp: same)
  ultimately show ?thesis unfolding mirrored_def by blast
qed

lemma mirrored_frame [simp]:
  "mirrored env (e\<lparr>eng_ticks := n\<rparr>) = mirrored env e" "mirrored env (send ev e) = mirrored env e"
  "mirrored env (emit x e) = mirrored env e" "mirrored env (spawn_driver d e) = mirrored env e"
  "mirrored env (e\<lparr>eng_drivers := ds\<rparr>) = mirrored env e"
  by (simp_all add: mirrored_def)

lemma change_lost_calm [simp]: "eng_io e = [] \<Longrightarrow> \<not> change_lost st e"
  by (simp add: change_lost_def three_faults_def)

lemma transition_mirrored:
  assumes "mirrored env e" "ids_distinct e" "eng_io e = []"
  shows "mirrored env (transition env k st e)" "mirrored env (transition_to_agent_step env k p l e)"
proof -
  have persist: "mirrored env (shadow_persist_state_change env (wf_id w) (wf_state w)
      (wf_current_step_label w) t (wf_put k w (e\<lparr>eng_ticks := n\<rparr>)))"
    if "wf_get e k = Some w0" "wf_id w = wf_id w0" for w0 w t n
    by (rule mirrored_persist [OF assms(1,2) that(1)]) (simp_all add: that assms(3))
  show "mirrored env (transition env k st e)"
    using assms(1) persist [of _ "_\<lparr>wf_current_step_label := None, wf_state := st, wf_updated_at := _\<rparr>"]
    by (simp add: transition_def Let_def split: option.split)
  show "mirrored env (transition_to_agent_step env k p l e)"
    using assms(1) persist [of _ "_\<lparr>wf_state := AddressingTicket p, wf_current_step_label := Some l,
        wf_updated_at := _\<rparr>"]
    by (simp add: transition_to_agent_step_def Let_def split: option.split)
qed

lemma mirrored_same_core: "same_core e e' \<Longrightarrow> mirrored env e' = mirrored env e"
  by (simp add: mirrored_def disk_view_def same_core_def wf_get_def)

lemma put_send: "wf_put k w (send ev e) = send ev (wf_put k w e)"
  by (simp add: wf_put_def send_def)

lemma pause_mirrored:
  assumes "mirrored env e" "ids_distinct e" "eng_io e = []"
  shows "mirrored env (snd (pause_workflow env k e))"
proof (cases "wf_get e k")
  case (Some w0)
  let ?w = "w0\<lparr>wf_state := Paused (wf_state w0), wf_updated_at := env_clock env (eng_ticks e),
    wf_cancel_token := eng_next_token e\<rparr>"
  have "mirrored env (shadow_persist_state_change env (wf_id ?w) (wf_state ?w)
      (wf_current_step_label ?w) t (wf_put k ?w ((cancel (wf_cancel_token w0) e)\<lparr>eng_ticks := n,
        eng_next_token := m\<rparr>)))" for t n m
    by (rule mirrored_persist [OF assms(1,2) Some]) (simp_all add: assms(3))
  then show ?thesis
    using assms(1) Some by (simp add: pause_workflow_def Let_def fresh_token_def)
qed (use assms in \<open>simp add: pause_workflow_def\<close>)

lemma stop_mirrored:
  assumes "mirrored env e" "ids_distinct e" "eng_io e = []"
  shows "mirrored env (snd (stop_workflow env k e))"
proof (cases "wf_get e k")
  case (Some w0)
  let ?w = "w0\<lparr>wf_current_step_label := None, wf_state := Stopped,
    wf_updated_at := env_clock env (eng_ticks e)\<rparr>"
  have "mirrored env (shadow_persist_state_change env (wf_id ?w) (wf_state ?w)
      (wf_current_step_label ?w) t (wf_put k ?w ((cancel (wf_cancel_token w0) e)\<lparr>eng_ticks := n\<rparr>)))" for t n
    by (rule mirrored_persist [OF assms(1,2) Some]) (simp_all add: assms(3))
  then show ?thesis
    using assms(1) Some mirrored_same_core [OF resolve_repo_core]
    by (simp add: stop_workflow_def Let_def case_prod_beta)
qed (use assms in \<open>simp add: stop_workflow_def\<close>)

lemma mirrored_respawns [simp]:
  "mirrored env (fold (respawn k ds wt t s) defs e) = mirrored env e"
proof (induction defs arbitrary: e)
  case (Cons d defs)
  have "mirrored env (respawn k ds wt t s d e) = mirrored env e"
    by (simp add: respawn_def Let_def case_prod_beta split: option.split)
  then show ?case using Cons by simp
qed simp

lemma resume_mirrored:
  assumes "mirrored env e" "ids_distinct e" "eng_io e = []"
  shows "mirrored env (snd (resume_workflow env k e))"
proof (cases "\<exists>w s. wf_get e k = Some w \<and> wf_state w = Paused s")
  case True
  then obtain w0 s where w0: "wf_get e k = Some w0" "wf_state w0 = Paused s" by blast
  let ?w = "w0\<lparr>wf_state := s, wf_updated_at := env_clock env (eng_ticks e),
    wf_steps_log := filter (\<lambda>s. sl_status s \<noteq> Running) (wf_steps_log w0)\<rparr>"
  have "mirrored env (shadow_persist_state_change env (wf_id ?w) (wf_state ?w)
      (wf_current_step_label ?w) t (wf_put k ?w (send ev (e\<lparr>eng_ticks := n\<rparr>))))" for t n ev
    by (rule mirrored_persist [OF assms(1,2) w0(1)]) (simp_all add: assms(3))
  then show ?thesis
    using w0 by (simp add: resume_workflow_def Let_def put_ticks put_send)
next
  case False
  then show ?thesis
    using assms(1) by (auto simp: resume_workflow_def split: option.split workflow_state.split)
qed

lemma disk_view_def_run [simp]:
  "disk_view (shadow_start_def_run i d t e) = disk_view e"
  "disk_view (shadow_finish_def_run i d s m t e) = disk_view e"
  unfolding disk_view_def shadow_start_def_run_def shadow_finish_def_run_def db_write_def
  by (auto simp: fun_eq_iff db_exec_def next_io_def start_definition_run_def upsert_definition_run_def
      finish_definition_run_def Let_def split: option.splits list.splits prod.splits)

lemma mirrored_put_same:
  assumes "mirrored env e" "wf_get e k = Some w0" "wf_id w = wf_id w0" "wf_state w = wf_state w0"
    "wf_current_step_label w = wf_current_step_label w0"
  shows "mirrored env (wf_put k w e)"
  using assms by (simp add: mirrored_def)

lemma set_def_run_label [simp]: "wf_current_step_label (set_def_run d st w) = wf_current_step_label w"
  by (simp add: set_def_run_def)

lemma mirrored_start_def_run [simp]:
  "mirrored env e \<Longrightarrow> mirrored env (shadow_start_def_run i d t e)"
  using only_db_attached [OF shadow_def_run_keeps(1) [of e i d t]] by (auto simp: mirrored_def)

lemma start_commit_mirrored:
  assumes "mirrored env e" shows "mirrored env (snd (start_commit env k n d seen wt e))"
proof (cases "wf_get e k")
  case (Some w)
  have "mirrored env (wf_put k ((set_def_run n RunRunning w)\<lparr>wf_cancel_token := t,
      wf_driver_started := True, wf_updated_at := u\<rparr>) (e\<lparr>eng_next_token := m\<rparr>))" for t u m
    by (rule mirrored_put_same [where ?w0.0 = w])
      (use assms Some in \<open>simp_all add: mirrored_def\<close>)
  then show ?thesis
    using Some by (simp add: start_commit_def fresh_token_def Let_def put_ticks)
qed (use assms in \<open>simp add: start_commit_def\<close>)

lemma start_workflow_def_mirrored:
  "mirrored env e \<Longrightarrow> mirrored env (snd (start_workflow_def env k n u e))"
  using mirrored_same_core [OF resolve_definitions_core [of e env k u]]
  by (auto simp: start_workflow_def_def case_prod_beta start_commit_mirrored split: option.split sum.split)

lemma start_defs_mirrored:
  "mirrored env e \<Longrightarrow> mirrored env (fold (\<lambda>d e'. snd (start_workflow_def env k d u e')) ds e)"
  by (induction ds arbitrary: e) (simp_all add: start_workflow_def_mirrored)

lemma resume_from_error_mirrored:
  assumes "mirrored env e" "ids_distinct e" "eng_io e = []"
  shows "mirrored env (snd (resume_from_error env k e))"
proof (cases "wf_get e k")
  case (Some w0)
  let ?w = "(fold (\<lambda>d. set_def_run d RunIdle) (runs_where env is_run_error w0) w0)\<lparr>wf_state := Pending,
    wf_current_step_label := None, wf_updated_at := env_clock env (eng_ticks e)\<rparr>"
  have "mirrored env (shadow_persist_state_change env (wf_id ?w) (wf_state ?w)
      (wf_current_step_label ?w) t (wf_put k ?w (e\<lparr>eng_ticks := n\<rparr>)))" for t n
    by (rule mirrored_persist [OF assms(1,2) Some]) (simp_all add: assms(3))
  then show ?thesis
    using assms(1) Some by (simp add: resume_from_error_def Let_def start_defs_mirrored)
qed (use assms in \<open>simp add: resume_from_error_def\<close>)

subsection \<open>Pause and resume\<close>

lemma respawn_frame [simp]:
  "wf_get (respawn k ds wt t s d e) k' = wf_get e k'"
  "eng_cancelled (respawn k ds wt t s d e) = eng_cancelled e"
  by (simp_all add: respawn_def Let_def case_prod_beta split: option.split)

lemma respawns_frame [simp]:
  "wf_get (fold (respawn k ds wt t s) defs e) k' = wf_get e k'"
  "eng_cancelled (fold (respawn k ds wt t s) defs e) = eng_cancelled e"
  by (induction defs arbitrary: e) simp_all

lemma respawns_drivers:
  "set (eng_drivers (fold (respawn k ds wt t s) defs e)) - set (eng_drivers e) \<subseteq>
     {d. drv_ticket_key d = k \<and> drv_cancel_token d = t \<and> drv_def_name d \<in> set defs}"
proof (induction defs arbitrary: e)
  case (Cons x defs)
  have "set (eng_drivers (respawn k ds wt t s x e)) - set (eng_drivers e) \<subseteq>
     {d. drv_ticket_key d = k \<and> drv_cancel_token d = t \<and> drv_def_name d = x}" for e
    by (auto simp: respawn_def Let_def case_prod_beta split: option.splits)
  then show ?case using Cons [of "respawn k ds wt t s x e"] by fastforce
qed simp

lemma pause_workflow_effect:
  assumes "wf_get e k = Some w" and "is_active (wf_state w)"
  shows "fst (pause_workflow env k e) = Inr ()"
    and "wf_get (snd (pause_workflow env k e)) k' =
      (if k' = k then Some (w\<lparr>wf_state := Paused (wf_state w), wf_updated_at := env_clock env (eng_ticks e),
         wf_cancel_token := eng_next_token e\<rparr>) else wf_get e k')"
    and "eng_cancelled (snd (pause_workflow env k e)) = insert (wf_cancel_token w) (eng_cancelled e)"
    and "eng_drivers (snd (pause_workflow env k e)) = eng_drivers e"
  using assms by (simp_all add: pause_workflow_def Let_def fresh_token_def)

lemma resume_workflow_effect:
  assumes "wf_get e k = Some w" and "wf_state w = Paused s"
  shows "fst (resume_workflow env k e) = Inr ()"
    and "wf_get (snd (resume_workflow env k e)) k' =
      (if k' = k then Some (w\<lparr>wf_state := s, wf_updated_at := env_clock env (eng_ticks e),
         wf_steps_log := filter (\<lambda>l. sl_status l \<noteq> Running) (wf_steps_log w)\<rparr>) else wf_get e k')"
    and "eng_cancelled (snd (resume_workflow env k e)) = eng_cancelled e"
    and "d \<in> set (eng_drivers (snd (resume_workflow env k e))) \<Longrightarrow> d \<notin> set (eng_drivers e) \<Longrightarrow>
      drv_ticket_key d = k \<and> drv_cancel_token d = wf_cancel_token w"
  using assms respawns_drivers
  by (auto simp: resume_workflow_def Let_def split: if_splits dest!: respawns_drivers [THEN subsetD, OF DiffI])

subsection \<open>Stop, start and the end of a driver\<close>

lemma same_core_view: "same_core e e' \<Longrightarrow> disk_view e' = disk_view e"
  by (simp add: same_core_def disk_view_def fun_eq_iff)

lemma stop_workflow_effect:
  assumes "wf_get e k = Some w"
  shows "fst (stop_workflow env k e) = Inr ()"
    and "wf_get (snd (stop_workflow env k e)) k' =
      (if k' = k then Some (w\<lparr>wf_current_step_label := None, wf_state := Stopped,
         wf_updated_at := env_clock env (eng_ticks e)\<rparr>) else wf_get e k')"
    and "eng_cancelled (snd (stop_workflow env k e)) = insert (wf_cancel_token w) (eng_cancelled e)"
    and "eng_drivers (snd (stop_workflow env k e)) = eng_drivers e"
    and "disk_view (snd (stop_workflow env k e)) i =
      (if i = wf_id w \<and> \<not> three_faults e then map_option (\<lambda>_. disk_state env Stopped None) (disk_view e i)
       else disk_view e i)"
proof -
  note core = resolve_repo_core [of _ env k]
  note frame = core [THEN same_core_wf] core [THEN same_core_view]
    core [unfolded same_core_def, THEN conjunct2, THEN conjunct1]
    core [unfolded same_core_def, THEN conjunct2, THEN conjunct2, THEN conjunct1]
  show "fst (stop_workflow env k e) = Inr ()"
    "eng_cancelled (snd (stop_workflow env k e)) = insert (wf_cancel_token w) (eng_cancelled e)"
    "eng_drivers (snd (stop_workflow env k e)) = eng_drivers e"
    "wf_get (snd (stop_workflow env k e)) k' =
      (if k' = k then Some (w\<lparr>wf_current_step_label := None, wf_state := Stopped,
         wf_updated_at := env_clock env (eng_ticks e)\<rparr>) else wf_get e k')"
    "disk_view (snd (stop_workflow env k e)) i =
      (if i = wf_id w \<and> \<not> three_faults e then map_option (\<lambda>_. disk_state env Stopped None) (disk_view e i)
       else disk_view e i)"
    using assms
    by (simp_all add: stop_workflow_def Let_def case_prod_beta frame disk_view_persist change_lost_def three_faults_def)
qed

lemma start_commit_effect:
  assumes "wf_get e k = Some w"
  shows "fst (start_commit env k n d seen wt e) = Inr ()"
    and "wf_get (snd (start_commit env k n d seen wt e)) k' =
      (if k' = k then Some ((set_def_run n RunRunning w)\<lparr>wf_cancel_token := eng_next_token e,
         wf_driver_started := True, wf_updated_at := env_clock env (eng_ticks e)\<rparr>) else wf_get e k')"
    and "eng_cancelled (snd (start_commit env k n d seen wt e)) = eng_cancelled e"
    and "eng_drivers (snd (start_commit env k n d seen wt e)) = eng_drivers e @
      [\<lparr>drv_ticket_key = k, drv_def_name = n, drv_steps = dw_steps d, drv_worktree_path = wt,
        drv_ticket_summary = wf_ticket_summary seen, drv_ticket_description = wf_ticket_description seen,
        drv_ticket_type = wf_ticket_type seen, drv_cancel_token = eng_next_token e, drv_resume = None\<rparr>]"
  using assms by (simp_all add: start_commit_def fresh_token_def Let_def)

lemma start_workflow_def_cases:
  assumes "start_workflow_def env k n u e = (r, e')"
  obtains (error) err where "r = Inl err" "same_core e e'"
  | (started) w defs e1 d wt where "r = Inr ()" "wf_get e k = Some w"
      "resolve_definitions env k u e = (defs, e1)" "same_core e e1" "d \<in> set defs" "dw_filename d = n"
      "dw_valid d" "map_of (wf_def_runs w) n \<noteq> Some RunRunning"
      "are_dependencies_met n defs (map_of (wf_def_runs w))" "e' = snd (start_commit env k n d w wt e1)"
proof -
  obtain defs e1 where 1: "resolve_definitions env k u e = (defs, e1)" by fastforce
  have core: "same_core e e1" using resolve_definitions_core [of e env k u] by (simp add: 1)
  show thesis
  proof (cases r)
    case (Inl err)
    have "e' = e1"
      using assms Inl core unfolding start_workflow_def_def 1
      by (auto simp: start_check_def start_commit_def fresh_token_def Let_def
          split: option.splits if_splits sum.splits)
    then show thesis using error Inl core by blast
  next
    case (Inr _)
    then obtain d w wt where d: "List.find (\<lambda>d. dw_filename d = n) defs = Some d" "dw_valid d"
      "start_check env k n e1 = Inr (w, wt)" "are_dependencies_met n defs (map_of (wf_def_runs w))"
      "e' = snd (start_commit env k n d w wt e1)"
      using assms unfolding start_workflow_def_def 1
      by (auto split: option.splits if_splits sum.splits prod.splits)
    have "d \<in> set defs" "dw_filename d = n" using d(1) by (auto simp: find_Some_iff)
    moreover have "wf_get e k = Some w" "map_of (wf_def_runs w) n \<noteq> Some RunRunning"
      using d(3) same_core_wf [OF core] by (auto simp: start_check_def Let_def split: option.splits if_splits)
    ultimately show thesis using started Inr 1 core d(2,4,5) by simp
  qed
qed

lemma drive_finish_frame:
  "k' \<noteq> drv_ticket_key d \<Longrightarrow> wf_get (drive_finish env d r e) k' = wf_get e k'"
  "disk_view (drive_finish env d r e) = disk_view e"
  "eng_cancelled (drive_finish env d r e) = eng_cancelled e"
  by (auto simp: drive_finish_def Let_def finish_and_tell_def update_workflow_def put_ticks
      split: sum.split option.split)

subsection \<open>Slots\<close>

lemma occupying_split:
  "length (filter (\<lambda>w. occupies_concurrency_slot (wf_state w)) ws) =
     length (filter (\<lambda>w. is_active (wf_state w)) ws) + length (filter (\<lambda>w. is_paused (wf_state w)) ws)"
  by (induction ws) (auto simp: occupies_iff is_active_iff is_paused_iff)

lemma count_update:
  "map_of xs k = Some w \<Longrightarrow> length (filter P (List.map snd (AList.update k w' xs))) + (if P w then 1 else 0) =
     length (filter P (List.map snd xs)) + (if P w' then 1 else 0)"
  by (induction xs) auto

lemma slots_put:
  "wf_get e k = Some w \<Longrightarrow> count_occupying_slot (wf_put k w' e) +
     (if occupies_concurrency_slot (wf_state w) then 1 else 0) =
     count_occupying_slot e + (if occupies_concurrency_slot (wf_state w') then 1 else 0)"
  unfolding count_occupying_slot_def workflow_values_def wf_put_def wf_get_def
  using count_update [of "eng_workflows e" k w "\<lambda>w. occupies_concurrency_slot (wf_state w)" w'] by simp

lemma count_frame [simp]:
  "count_occupying_slot (e\<lparr>eng_ticks := n\<rparr>) = count_occupying_slot e"
  "count_occupying_slot (e\<lparr>eng_next_token := n\<rparr>) = count_occupying_slot e"
  "count_occupying_slot (send ev e) = count_occupying_slot e"
  "count_occupying_slot (emit x e) = count_occupying_slot e"
  "count_occupying_slot (shadow_persist_state_change env i st l t e) = count_occupying_slot e"
  by (simp_all add: count_occupying_slot_def workflow_values_def)

lemma put_cancel_slots [simp]:
  "count_occupying_slot (wf_put k w (cancel t e)) = count_occupying_slot (wf_put k w e)"
  by (simp add: count_occupying_slot_def workflow_values_def wf_put_def)

lemma put_slots_frame [simp]:
  "count_occupying_slot (wf_put k w (e\<lparr>eng_ticks := n\<rparr>)) = count_occupying_slot (wf_put k w e)"
  "count_occupying_slot (wf_put k w (e\<lparr>eng_next_token := n\<rparr>)) = count_occupying_slot (wf_put k w e)"
  by (simp_all add: put_ticks put_next_token)

lemma count_core: "same_core e e' \<Longrightarrow> count_occupying_slot e' = count_occupying_slot e"
  by (simp add: count_occupying_slot_def workflow_values_def same_core_def)

lemma count_respawns:
  "count_occupying_slot (fold (respawn k ds wt t s) defs e) = count_occupying_slot e"
proof (induction defs arbitrary: e)
  case (Cons d defs)
  have "count_occupying_slot (respawn k ds wt t s d e) = count_occupying_slot e"
    by (simp add: respawn_def Let_def case_prod_beta count_occupying_slot_def workflow_values_def split: option.split)
  then show ?case using Cons by simp
qed simp

subsection \<open>A sample engine\<close>

definition sample_env :: env where
  "sample_env = \<lparr>env_clock = int,
     env_json = \<lparr>state_to_string = (\<lambda>_. Some ''{}''), state_from_str = (\<lambda>_. None)\<rparr>,
     env_hash_order = (\<lambda>xs. xs), env_path_exists = (\<lambda>_. True), env_has_mise = (\<lambda>_. False),
     env_repo_path = ''/repo'', env_base_branch = ''main'', env_ticketing_system = TicketingNone,
     env_workflows_dir = ''/flows'', env_parsers = sample_parsers, env_case_tables = sample_case_tables,
     env_dir = sample_dir, env_encode_flows = (\<lambda>_. None), env_decode_flows = (\<lambda>_. None),
     env_decode_polling = (\<lambda>_. None), env_commands_json = sample_commands_json,
     env_snapshot_json = sample_snapshot_json \<lparr>sf_version = 1, sf_workflows = []\<rparr>, env_file_io = (\<lambda>_. True),
     env_jira_available = False, env_done_status = ''Done'', env_remote_url = (\<lambda>_. Inr ''o/r''),
     env_db_message = (\<lambda>_. ''database''), env_outcome = (\<lambda>_ _. Inr ''/wt'')\<rparr>"

definition sample_item :: "nat \<Rightarrow> string \<Rightarrow> workflow_state \<Rightarrow> workflow" where
  "sample_item token k st = (workflow_new 0 (''id-'' @ k) token k ''Fix it'' True False TicketingNone None [])
     \<lparr>wf_state := st\<rparr>"

definition sample_driver :: driver where
  "sample_driver = \<lparr>drv_ticket_key = ''T-1'', drv_def_name = ''a'', drv_steps = [], drv_worktree_path = None,
     drv_ticket_summary = ''Fix it'', drv_ticket_description = [], drv_ticket_type = [],
     drv_cancel_token = 0, drv_resume = None\<rparr>"

definition sample_items :: "(string \<times> workflow) list" where
  "sample_items = [(''T-1'', sample_item 0 ''T-1'' (AddressingTicket 1)), (''T-2'', sample_item 1 ''T-2'' Pending)]"

definition sample_store :: database where
  "sample_store = (empty_db {})\<lparr>db_items := List.map (\<lambda>(k, w).
     encode_work_item (to_work_item_row (env_json sample_env) w)) sample_items\<rparr>"

definition sample_engine :: engine where
  "sample_engine = \<lparr>eng_workflows = sample_items, eng_db = Some sample_store, eng_flows = Map.empty,
     eng_repos = \<lparr>rt_repos = [], rt_links = []\<rparr>, eng_polling = [], eng_commands = [],
     eng_files = \<lparr>fs_workspaces = [], fs_global = None, fs_legacy = None\<rparr>, eng_events = [], eng_effects = [],
     eng_drivers = [sample_driver], eng_cancelled = {}, eng_next_token = 2, eng_suppress = False,
     eng_revalidates = False, eng_ticks = 0, eng_io = []\<rparr>"

lemmas sample_defs = sample_engine_def sample_items_def sample_item_def sample_driver_def workflow_new_def

lemma sample_get:
  "wf_get sample_engine k = Some w \<longleftrightarrow>
     k = ''T-1'' \<and> w = sample_item 0 ''T-1'' (AddressingTicket 1) \<or> k = ''T-2'' \<and> w = sample_item 1 ''T-2'' Pending"
  by (auto simp: wf_get_def sample_engine_def sample_items_def split: if_splits)

lemma sample_store_ok: "db_ok sample_store"
  using rangeI [of kind_as_str KAddressingTicket] rangeI [of kind_as_str KPending]
  by (simp add: db_ok_def sample_store_def empty_db_def items_ok_def sample_items_def encode_work_item_def
      to_work_item_row_def sample_item_def workflow_new_def state_to_kind_and_payload_def
      steps_ok_def runs_ok_def logs_ok_def ports_ok_def commands_ok_def)

lemma sample_engine_ok: "engine_ok sample_engine"
proof -
  have "tokens_ok (token_users sample_engine) {} 2"
    unfolding tokens_ok_def token_users_def sample_get
    by (auto simp: sample_defs)
  then show ?thesis
    by (auto simp: engine_ok_def sample_get sample_store_ok)
      (auto simp: sample_engine_def sample_items_def workflow_ok_def sample_item_def workflow_new_def sample_store_ok)
qed

lemma sample_mirrored: "mirrored sample_env sample_engine"
  by (auto simp: mirrored_def sample_get)
    (auto simp: sample_defs disk_view_def sample_store_def empty_db_def encode_work_item_def to_work_item_row_def
      row_state_def disk_state_def state_to_kind_and_payload_def carries_data_def sample_env_def)

lemma sample_ids_distinct: "ids_distinct sample_engine"
  by (auto simp: ids_distinct_def sample_get sample_item_def workflow_new_def)

subsection \<open>Properties\<close>

text \<open>
  A durable write calls its statement until it succeeds, three times at most: the result is that of
  the first call that succeeds, or of the third.
\<close>
lemma durable_write_terminates:
  "\<exists>m \<in> {1..3}. retry_durable_write op e = op (((snd \<circ> op) ^^ (m - 1)) e) \<and>
     (\<forall>j < m - 1. fst (op (((snd \<circ> op) ^^ j) e)) \<noteq> Inr ()) \<and>
     (fst (retry_durable_write op e) = Inr () \<or> m = DURABLE_WRITE_ATTEMPTS)"
proof -
  obtain r1 e1 where 1: "op e = (r1, e1)" by (cases "op e")
  obtain r2 e2 where 2: "op e1 = (r2, e2)" by (cases "op e1")
  note unfold = retry_durable_write_def retry_from.simps [of _ op] DURABLE_WRITE_ATTEMPTS_def
  consider "r1 = Inr ()" | a where "r1 = Inl a" "r2 = Inr ()" | a b where "r1 = Inl a" "r2 = Inl b"
    by (cases r1; cases r2) auto
  then show ?thesis
  proof cases
    case 1
    then show ?thesis using \<open>op e = (r1, e1)\<close> by (intro bexI [of _ 1]) (simp_all add: unfold)
  next
    case 2
    then show ?thesis
      using 1 \<open>op e1 = (r2, e2)\<close> by (intro bexI [of _ 2]) (simp_all add: unfold)
  next
    case 3
    then show ?thesis
      using 1 2
      by (intro bexI [of _ 3]) (auto simp: unfold numeral_2_eq_2 less_Suc_eq split: sum.split prod.split)
  qed
qed




text \<open>
  A terminal state of a work item is on disk unless three consecutive statements fail. Any
  other state needs the first statement to succeed.
\<close>
lemma terminal_state_survives_faults:
  assumes "wf_get e k = Some w" and "disk_view e (wf_id w) = Some old"
  shows "disk_view (transition env k st e) (wf_id w) =
    Some (if (if is_terminal st then take 3 (eng_io e) = [False, False, False] else take 1 (eng_io e) = [False])
          then old else disk_state env st None)"
  using assms
  by (simp add: transition_def Let_def disk_view_persist change_lost_def three_faults_def)


text \<open>
  C26: pausing an active work item and resuming it gives back its state, its runs and its finished
  steps, and touches no other item. The token of the paused driver stays cancelled, the item and
  every driver that the resume spawns hold a token that is not.
\<close>
theorem pause_resume_restores:
  assumes ok: "engine_ok e" and w: "wf_get e k = Some w" and act: "is_active (wf_state w)"
    and e1: "pause_workflow env k e = (r1, e1)" and e2: "resume_workflow env' k e1 = (r2, e2)"
  shows "r1 = Inr () \<and> r2 = Inr () \<and> wf_cancel_token w \<in> eng_cancelled e2 \<and>
    (\<forall>k'. k' \<noteq> k \<longrightarrow> wf_get e2 k' = wf_get e k') \<and>
    (\<exists>w2. wf_get e2 k = Some w2 \<and> wf_state w2 = wf_state w \<and> wf_def_runs w2 = wf_def_runs w \<and>
      wf_steps_log w2 = filter (\<lambda>l. sl_status l \<noteq> Running) (wf_steps_log w) \<and>
      wf_cancel_token w2 \<notin> eng_cancelled e2 \<and>
      (\<forall>d \<in> set (eng_drivers e2) - set (eng_drivers e).
         drv_ticket_key d = k \<and> drv_cancel_token d = wf_cancel_token w2))"
proof -
  note p = pause_workflow_effect [OF w act, of env, unfolded e1]
  let ?w1 = "w\<lparr>wf_state := Paused (wf_state w), wf_updated_at := env_clock env (eng_ticks e),
    wf_cancel_token := eng_next_token e\<rparr>"
  have w1: "wf_get e1 k = Some ?w1" "wf_state ?w1 = Paused (wf_state w)" using p(2) [of k] by simp_all
  note r = resume_workflow_effect [OF w1, where env = env', unfolded e2]
  have "eng_next_token e \<notin> eng_cancelled e" using engine_okD(2) [OF ok] by (auto simp: tokens_ok_def)
  moreover have "wf_cancel_token w \<noteq> eng_next_token e" using token_below [OF ok token_users_wf [OF w]] by simp
  ultimately show ?thesis using p r by auto
qed

theorem pause_resume_restores_witness:
  "\<exists>w2. wf_get (snd (resume_workflow sample_env ''T-1'' (snd (pause_workflow sample_env ''T-1'' sample_engine)))) ''T-1'' =
     Some w2 \<and> wf_state w2 = AddressingTicket 1"
proof -
  let ?w = "sample_item 0 ''T-1'' (AddressingTicket 1)"
  have "wf_get sample_engine ''T-1'' = Some ?w" by (simp add: sample_get)
  moreover have "wf_state ?w = AddressingTicket 1" by (simp add: sample_item_def)
  ultimately show ?thesis
    using pause_resume_restores [OF sample_engine_ok, of "''T-1''" ?w sample_env _ _ sample_env]
    by (metis is_active_iff is_paused_simps(6) is_terminal_simps(6) prod.collapse)
qed

text \<open>
  Stopping a work item stops that item only. Whatever its state, it ends up Stopped; the driver
  that holds its token is cancelled; other items and the drivers of other items are as
  they were; and the row says Stopped unless three consecutive statements fail.
\<close>
lemma stop_workflow_isolated:
  assumes ok: "engine_ok e" and w: "wf_get e k = Some w" and stop: "stop_workflow env k e = (r, e')"
  shows "r = Inr () \<and> map_option wf_state (wf_get e' k) = Some Stopped \<and>
    (\<forall>k'. k' \<noteq> k \<longrightarrow> wf_get e' k' = wf_get e k') \<and>
    (\<forall>d \<in> set (eng_drivers e). drv_cancel_token d = wf_cancel_token w \<longrightarrow> drv_cancel_token d \<in> eng_cancelled e') \<and>
    (\<forall>d \<in> set (eng_drivers e). drv_ticket_key d \<noteq> k \<longrightarrow>
       (drv_cancel_token d \<in> eng_cancelled e' \<longleftrightarrow> drv_cancel_token d \<in> eng_cancelled e)) \<and>
    (\<not> three_faults e \<longrightarrow> disk_view e (wf_id w) \<noteq> None \<longrightarrow>
       disk_view e' (wf_id w) = Some (disk_state env Stopped None))"
proof -
  have "drv_cancel_token d \<noteq> wf_cancel_token w" if "d \<in> set (eng_drivers e)" "drv_ticket_key d \<noteq> k" for d
    using token_owner [OF ok token_users_wf [OF w]] token_users_driver [OF that(1)] that(2) by fastforce
  then show ?thesis
    using stop_workflow_effect [OF w, of env, unfolded stop] by auto
qed


text \<open>
  Starting a definition either fails and leaves the work items, the drivers, the tokens and the
  work-item tables as they were, or it starts one: then the definition is known and valid, was
  not running, has its dependencies met, is now marked as running under a fresh token, and
  exactly one driver, with that token, was added.
\<close>
lemma start_workflow_def_outcome:
  assumes "start_workflow_def env k n u e = (r, e')"
  shows "(\<exists>err. r = Inl err) \<and> eng_workflows e' = eng_workflows e \<and> eng_drivers e' = eng_drivers e \<and>
       eng_cancelled e' = eng_cancelled e \<and> eng_db e' = eng_db e \<or>
    r = Inr () \<and> (\<exists>w d w' drv. wf_get e k = Some w \<and>
       d \<in> set (fst (resolve_definitions env k u e)) \<and> dw_filename d = n \<and> dw_valid d \<and>
       map_of (wf_def_runs w) n \<noteq> Some RunRunning \<and>
       are_dependencies_met n (fst (resolve_definitions env k u e)) (map_of (wf_def_runs w)) \<and>
       wf_get e' k = Some w' \<and> map_of (wf_def_runs w') = (map_of (wf_def_runs w))(n \<mapsto> RunRunning) \<and>
       wf_state w' = wf_state w \<and> wf_cancel_token w' = eng_next_token e \<and>
       eng_drivers e' = eng_drivers e @ [drv] \<and> drv_ticket_key drv = k \<and> drv_def_name drv = n \<and>
       drv_steps drv = dw_steps d \<and> drv_cancel_token drv = eng_next_token e \<and>
       (\<forall>k'. k' \<noteq> k \<longrightarrow> wf_get e' k' = wf_get e k'))"
  using assms
proof (cases rule: start_workflow_def_cases)
  case (started w defs e1 d wt)
  have w: "wf_get e1 k = Some w" "eng_next_token e1 = eng_next_token e" "eng_drivers e1 = eng_drivers e"
    and get: "wf_get e1 k' = wf_get e k'" for k'
    using started(2,4) same_core_wf by (simp_all add: same_core_def wf_get_def)
  show ?thesis
    using started start_commit_effect [OF w(1), of env n d w wt] w(2,3) get by (auto simp del: set_def_run_fields(3))
qed (simp add: same_core_def)


text \<open>
  What the end of a driver leaves alone: other work items, the terminal state of its own item, and
  the item altogether when the driver was cancelled by a stop, a pause or a removal.
\<close>
lemma drive_finish_respects_item:
  "(\<forall>k'. k' \<noteq> drv_ticket_key d \<longrightarrow> wf_get (drive_finish env d r e) k' = wf_get e k') \<and>
   (\<forall>w. wf_get e (drv_ticket_key d) = Some w \<longrightarrow> is_terminal (wf_state w) \<longrightarrow>
      map_option wf_state (wf_get (drive_finish env d r e) (drv_ticket_key d)) = Some (wf_state w)) \<and>
   (r = Inl Cancelled \<longrightarrow>
    (\<forall>w. wf_get e (drv_ticket_key d) = Some w \<longrightarrow> wf_state w = Stopped \<or> is_paused (wf_state w)) \<longrightarrow>
      eng_workflows (drive_finish env d r e) = eng_workflows e \<and> eng_db (drive_finish env d r e) = eng_db e)"
proof (intro conjI allI impI)
  fix w assume "wf_get e (drv_ticket_key d) = Some w" "is_terminal (wf_state w)"
  then show "map_option wf_state (wf_get (drive_finish env d r e) (drv_ticket_key d)) = Some (wf_state w)"
    by (auto simp: drive_finish_def Let_def finish_and_tell_def update_workflow_def put_ticks split: sum.split)
next
  assume "r = Inl Cancelled"
    "\<forall>w. wf_get e (drv_ticket_key d) = Some w \<longrightarrow> wf_state w = Stopped \<or> is_paused (wf_state w)"
  then show "eng_workflows (drive_finish env d r e) = eng_workflows e" "eng_db (drive_finish env d r e) = eng_db e"
    by (auto simp: drive_finish_def Let_def split: option.splits)
qed (simp add: drive_finish_frame)


text \<open>
  A driver that fails moves its unfinished item to Error in memory, but the item's row keeps the
  state it had: only the definition run is stored as failed.
\<close>
lemma failed_run_not_in_row:
  assumes "wf_get e (drv_ticket_key d) = Some w" and "\<not> is_terminal (wf_state w)" and "err \<noteq> Cancelled"
  shows "map_option wf_state (wf_get (drive_finish env d (Inl err) e) (drv_ticket_key d)) =
      Some (Error (wf_state w) (error_text err)) \<and>
    disk_view (drive_finish env d (Inl err) e) = disk_view e"
  using assms
  by (simp add: drive_finish_frame)
    (simp add: drive_finish_def Let_def finish_and_tell_def update_workflow_def put_ticks)



text \<open>
  The items that occupy a concurrency slot are the active and the paused ones. Pausing and
  resuming an item keep the number of occupied slots; stopping one frees its slot.
\<close>
lemma slots_accounted:
  assumes "wf_get e k = Some w" and "engine_ok e"
  shows "count_occupying_slot e = count_active e + length (filter (\<lambda>w. is_paused (wf_state w)) (workflow_values e)) \<and>
    count_occupying_slot e \<le> count_all e \<and>
    count_occupying_slot (snd (pause_workflow env k e)) = count_occupying_slot e \<and>
    count_occupying_slot (snd (resume_workflow env k e)) = count_occupying_slot e \<and>
    count_occupying_slot (snd (stop_workflow env k e)) +
      (if occupies_concurrency_slot (wf_state w) then 1 else 0) = count_occupying_slot e"
proof (intro conjI)
  show "count_occupying_slot e = count_active e + length (filter (\<lambda>w. is_paused (wf_state w)) (workflow_values e))"
    unfolding count_occupying_slot_def count_active_def by (rule occupying_split)
  show "count_occupying_slot e \<le> count_all e"
    by (simp add: count_occupying_slot_def count_all_def workflow_values_def filter_map comp_def)
  note slots = slots_put [OF assms(1)]
  show "count_occupying_slot (snd (pause_workflow env k e)) = count_occupying_slot e"
    using slots [of "w\<lparr>wf_state := Paused (wf_state w), wf_updated_at := _, wf_cancel_token := _\<rparr>"] assms(1)
    by (auto simp: pause_workflow_def fresh_token_def Let_def occupies_iff is_active_iff)
  show "count_occupying_slot (snd (stop_workflow env k e)) +
      (if occupies_concurrency_slot (wf_state w) then 1 else 0) = count_occupying_slot e"
    using slots [of "w\<lparr>wf_current_step_label := None, wf_state := Stopped, wf_updated_at := _\<rparr>"] assms(1)
    by (auto simp: stop_workflow_def Let_def occupies_iff case_prod_beta count_core [OF resolve_repo_core])
  show "count_occupying_slot (snd (resume_workflow env k e)) = count_occupying_slot e"
  proof (cases "wf_state w")
    case (Paused s)
    have "is_active s" using engine_okD(1) [OF assms(2,1)] Paused by (simp add: workflow_ok_def)
    then show ?thesis
      using slots [of "w\<lparr>wf_state := s, wf_updated_at := _, wf_steps_log := _\<rparr>"] assms(1) Paused
      by (simp add: resume_workflow_def Let_def occupies_iff is_active_iff count_respawns)
  qed (simp_all add: resume_workflow_def assms(1))
qed


end
