(* ===== verification/Engine_Lifecycle.thy ===== *)
theory Engine_Lifecycle
  imports Engine_Props
begin

text \<open>
  The life of a work item on the dashboard: \<open>engine/lifecycle.rs\<close>, \<open>retry_workflow\<close> of
  \<open>engine/transitions.rs\<close>, the creation of the worktree ahead of time in \<open>engine/bootstrap.rs\<close>,
  and the writing of the snapshots in \<open>engine/persistence.rs\<close>.

  The fresh identifier of a work item is an argument. What other tasks do while an operation waits
  for git is the argument \<open>world\<close>, any function on the engine.
\<close>

subsection \<open>Looking up settings\<close>

definition resolve_workspace_name :: "env \<Rightarrow> string option \<Rightarrow> engine \<Rightarrow> string \<times> engine" where
  "resolve_workspace_name env repository_id e =
     (case (repository_id, eng_db e) of
        (Some i, Some _) \<Rightarrow>
          (case next_io e of (ok, e') \<Rightarrow>
             (case (if ok then repositories_get (eng_repos e) i else None) of
                Some row \<Rightarrow> (rp_name row, e')
              | None \<Rightarrow> (workspace_name_from_repo_path (env_repo_path env), e')))
      | _ \<Rightarrow> (workspace_name_from_repo_path (env_repo_path env), e))"

definition resolve_repo_polling_settings ::
  "env \<Rightarrow> string option \<Rightarrow> string \<Rightarrow> engine \<Rightarrow> polling_settings option \<times> engine" where
  "resolve_repo_polling_settings env user_id ws e =
     (case (user_id, eng_db e) of
        (Some u, Some _) \<Rightarrow>
          (case next_io e of (ok, e') \<Rightarrow>
             (case polling_get ok (env_decode_polling env) (eng_polling e) u ws of
                Inr opt \<Rightarrow> (opt, e')
              | Inl _ \<Rightarrow> (None, e')))
      | _ \<Rightarrow> (None, e))"

definition resolve_jira_project_keys :: "env \<Rightarrow> string option \<Rightarrow> string \<Rightarrow> engine \<Rightarrow> string list \<times> engine" where
  "resolve_jira_project_keys env user_id ws e =
     (case resolve_repo_polling_settings env user_id ws e of (s, e') \<Rightarrow>
        (case s of None \<Rightarrow> [] | Some s \<Rightarrow> ps_project_keys s, e'))"

definition resolve_worktree_row ::
  "env \<Rightarrow> string option \<Rightarrow> string \<Rightarrow> engine \<Rightarrow> worktree_commands option \<times> engine" where
  "resolve_worktree_row env user_id ws e =
     (case (user_id, eng_db e) of
        (Some u, Some _) \<Rightarrow>
          (case next_io e of (ok, e') \<Rightarrow>
             (case commands_get ok (env_commands_json env) (eng_commands e) u ws of
                Inr (Some row) \<Rightarrow> (Some (sr_columns row), e')
              | _ \<Rightarrow> (None, e')))
      | _ \<Rightarrow> (None, e))"

definition resolve_worktree_init_commands ::
  "env \<Rightarrow> string option \<Rightarrow> string \<Rightarrow> engine \<Rightarrow> string list \<times> engine" where
  "resolve_worktree_init_commands env user_id ws e =
     (case resolve_worktree_row env user_id ws e of (row, e') \<Rightarrow>
        (case row of None \<Rightarrow> [] | Some c \<Rightarrow> wk_init_commands c, e'))"

definition resolve_worktree_generate_report :: "env \<Rightarrow> string option \<Rightarrow> string \<Rightarrow> engine \<Rightarrow> bool \<times> engine" where
  "resolve_worktree_generate_report env user_id ws e =
     (case resolve_worktree_row env user_id ws e of (row, e') \<Rightarrow>
        (case row of None \<Rightarrow> False | Some c \<Rightarrow> wk_generate_report c, e'))"

subsection \<open>Snapshots of the map\<close>

text \<open>The items in the order the hash map yields them.\<close>

definition hash_keys :: "env \<Rightarrow> engine \<Rightarrow> string list" where
  "hash_keys env e = env_hash_order env (List.map fst (eng_workflows e))"

definition hash_values :: "env \<Rightarrow> engine \<Rightarrow> workflow list" where
  "hash_values env e = List.map_filter (wf_get e) (hash_keys env e)"

definition snapshot_records :: "env \<Rightarrow> engine \<Rightarrow> persisted_workflow_record list" where
  "snapshot_records env e = sort_key pr_started_at (List.map workflow_to_persisted_record (hash_values env e))"

definition write_snapshots ::
  "env \<Rightarrow> persisted_workflow_record list \<Rightarrow> engine \<Rightarrow> (snapshot_error + unit) \<times> engine" where
  "write_snapshots env recs e =
     (case write_all_workspace_snapshots (env_file_io env) (env_snapshot_json env) (env_hash_order env) recs (eng_files e) of
        (r, fs) \<Rightarrow> (r, e\<lparr>eng_files := fs\<rparr>))"

definition sync_from_map :: "env \<Rightarrow> engine \<Rightarrow> (snapshot_error + unit) \<times> engine" where
  "sync_from_map env e = write_snapshots env (snapshot_records env e) e"

text \<open>
  The interrupt of a restart: the drivers' cancellation is not to be taken for an error, the
  snapshots are written, and only then the drivers are cancelled.
\<close>

definition persist_interrupt :: "env \<Rightarrow> engine \<Rightarrow> (snapshot_error + unit) \<times> engine" where
  "persist_interrupt env e =
     (let e1 = e\<lparr>eng_suppress := True\<rparr>; recs = snapshot_records env e1
      in case (if recs = [] then (Inr (), e1) else write_snapshots env recs e1) of
           (Inl err, e2) \<Rightarrow> (Inl err, e2)
         | (Inr _, e2) \<Rightarrow>
             let keys = List.map pr_ticket_key recs;
                 e3 = fold (\<lambda>k. emit (CleanupContainers k)) keys e2
             in (Inr (), fold (\<lambda>k e'. case wf_get e' k of None \<Rightarrow> e' | Some w \<Rightarrow> cancel (wf_cancel_token w) e') keys e3))"

definition git_worktree_prune :: "env \<Rightarrow> engine \<Rightarrow> engine" where
  "git_worktree_prune env e = snd (perform env (GitWorktreePrune (env_repo_path env)) e)"

subsection \<open>New work items\<close>

definition insert_row :: "env \<Rightarrow> workflow \<Rightarrow> engine \<Rightarrow> (db_error + unit) \<times> engine" where
  "insert_row env w = db_exec (insert_work_item (to_work_item_row (env_json env) w))"

definition persist_new_work_item :: "env \<Rightarrow> workflow \<Rightarrow> engine \<Rightarrow> (takuto_error + unit) \<times> engine" where
  "persist_new_work_item env w e =
     (case eng_db e of
        None \<Rightarrow> (Inr (), e)
      | Some _ \<Rightarrow>
          (case retry_durable_write (insert_row env w) e of
             (Inr _, e') \<Rightarrow> (Inr (), e')
           | (Inl err, e') \<Rightarrow> (Inl (OtherError (env_db_message env err)), e')))"

definition shadow_persist_work_item :: "env \<Rightarrow> workflow \<Rightarrow> engine \<Rightarrow> engine" where
  "shadow_persist_work_item env w e =
     (case eng_db e of None \<Rightarrow> e | Some _ \<Rightarrow> snd (insert_row env w e))"

text \<open>What the two ways of adding an item have in common: the record in its first state.\<close>

definition new_item ::
  "env \<Rightarrow> string \<Rightarrow> string \<Rightarrow> string \<Rightarrow> bool \<Rightarrow> string option \<Rightarrow> string option \<Rightarrow> string option \<Rightarrow>
   string option \<Rightarrow> engine \<Rightarrow> workflow \<times> engine" where
  "new_item env uuid ticket_key ticket_summary started_manually ticket_description ticket_url user_id
      repository_id e =
     (case resolve_workspace_name env repository_id e of (ws_name, e1) \<Rightarrow>
      (case tick env e1 of (now, e2) \<Rightarrow>
      (case fresh_token e2 of (token, e3) \<Rightarrow>
         let w = workflow_new now uuid token ticket_key ticket_summary started_manually
                   (env_jira_available env) (env_ticketing_system env) ticket_url ws_name;
             w1 = w\<lparr>wf_user_id := user_id, wf_repository_id := repository_id\<rparr>;
             w2 = (case ticket_description of None \<Rightarrow> w1 | Some desc \<Rightarrow> w1\<lparr>wf_ticket_description := desc\<rparr>)
         in (w2, e3))))"

definition auto_start_defs :: "discovered_workflow list \<Rightarrow> string \<Rightarrow> string list" where
  "auto_start_defs definitions auto_start_flow =
     (let all_dep_free = List.map dw_filename (filter (\<lambda>d. dw_valid d \<and> dw_depends_on d = []) definitions)
      in if auto_start_flow = [] then all_dep_free
         else if auto_start_flow \<in> set all_dep_free then [auto_start_flow]
         else [])"

definition start_workflow ::
  "env \<Rightarrow> string \<Rightarrow> string \<Rightarrow> string \<Rightarrow> bool \<Rightarrow> string option \<Rightarrow> string option \<Rightarrow> string option \<Rightarrow>
   string option \<Rightarrow> engine \<Rightarrow> (takuto_error + string) \<times> engine" where
  "start_workflow env uuid ticket_key ticket_summary started_manually ticket_description ticket_url
      user_id repository_id e =
     (case new_item env uuid ticket_key ticket_summary started_manually ticket_description ticket_url
             user_id repository_id e of (w, e1) \<Rightarrow>
      (case persist_new_work_item env w e1 of
         (Inl err, e2) \<Rightarrow> (Inl err, e2)
       | (Inr _, e2) \<Rightarrow>
           (case resolve_definitions env ticket_key None (wf_put ticket_key w e2) of (definitions, e3) \<Rightarrow>
            (case resolve_repo_polling_settings env user_id (wf_workspace_name w) e3 of (settings, e4) \<Rightarrow>
               let defs_to_start = auto_start_defs definitions
                     (case settings of None \<Rightarrow> [] | Some s \<Rightarrow> ps_auto_start_flow s)
               in (Inr (wf_id w), fold (\<lambda>d e'. snd (start_workflow_def env ticket_key d None e')) defs_to_start e4)))))"

text \<open>
  A run of a ticket that has run before gets a branch of its own; without a count the name is left
  to the creation of the worktree.
\<close>

definition choose_branch :: "env \<Rightarrow> string \<Rightarrow> workflow \<Rightarrow> engine \<Rightarrow> workflow \<times> engine" where
  "choose_branch env ticket_key w e =
     (case eng_db e of
        None \<Rightarrow> (w, e)
      | Some _ \<Rightarrow>
          (case db_read (\<lambda>db. Inr (count_runs_for_ticket db (wf_workspace_name w) ticket_key)) e of
             (Inr prior, e') \<Rightarrow>
               (w\<lparr>wf_branch_name := branch_name_for_ticket_run (env_case_tables env) ticket_key
                     (wf_ticket_type w) (prior + 1)\<rparr>, e')
           | (Inl _, e') \<Rightarrow> (w, e')))"

definition add_to_dashboard ::
  "env \<Rightarrow> string \<Rightarrow> string \<Rightarrow> string \<Rightarrow> bool \<Rightarrow> string option \<Rightarrow> string option \<Rightarrow> string option \<Rightarrow>
   string option \<Rightarrow> engine \<Rightarrow> (takuto_error + string) \<times> engine" where
  "add_to_dashboard env uuid ticket_key ticket_summary started_manually ticket_description ticket_url
      user_id repository_id e =
     (case new_item env uuid ticket_key ticket_summary started_manually ticket_description ticket_url
             user_id repository_id e of (w0, e1) \<Rightarrow>
      (case choose_branch env ticket_key w0 e1 of (w, e2) \<Rightarrow>
      (case persist_new_work_item env w e2 of
         (Inl err, e3) \<Rightarrow> (Inl err, e3)
       | (Inr _, e3) \<Rightarrow>
           let e4 = wf_put ticket_key w e3;
               e5 = (if env_jira_available env
                     then (case resolve_repo_for_ticket env ticket_key e4 of ((repo_path, _), e') \<Rightarrow>
                             emit (StartTicket repo_path ticket_key user_id) e')
                     else e4)
           in (case tick env e5 of (now, e6) \<Rightarrow>
                 let ev = (item_updated now (wf_id w) ticket_key ''Pending'' None None user_id)
                            \<lparr>ev_progress_percent := Some 0\<rparr>;
                     e7 = modify_workflow ticket_key (\<lambda>w. w\<lparr>wf_worktree_preparing := True\<rparr>) (send ev e6)
                 in (Inr (wf_id w), emit (PrepareWorktree ticket_key) e7)))))"

text \<open>The task spawned by \<open>add_to_dashboard\<close>; it may find the item removed, before git or after.\<close>

definition prepare_worktree_for_ticket :: "env \<Rightarrow> (engine \<Rightarrow> engine) \<Rightarrow> string \<Rightarrow> engine \<Rightarrow> engine" where
  "prepare_worktree_for_ticket env world k e =
     (case resolve_repo_for_ticket env k e of ((repo_path, base_branch), e1) \<Rightarrow>
        let e2 = snd (perform env (ConfigureGitAuthor repo_path) e1) in
        (case wf_get e2 k of
           None \<Rightarrow> e2
         | Some w0 \<Rightarrow>
             let branch_name = (if wf_branch_name w0 = []
                   then branch_name_for_ticket (env_case_tables env) k (wf_ticket_type w0)
                   else wf_branch_name w0)
             in (case perform env (CreateWorktree repo_path branch_name base_branch) (world e2) of
                   (Inl _, e3) \<Rightarrow> modify_workflow k (\<lambda>w. w\<lparr>wf_worktree_preparing := False\<rparr>) e3
                 | (Inr worktree_path, e3) \<Rightarrow>
                     let e4 = snd (perform env (ConfigureGitAuthor worktree_path) e3) in
                     (case wf_get e4 k of
                        None \<Rightarrow> e4
                      | Some w1 \<Rightarrow>
                          (case tick env e4 of (now, e5) \<Rightarrow>
                             let w = w1\<lparr>wf_worktree_path := Some worktree_path, wf_branch_name := branch_name,
                                       wf_worktree_preparing := False, wf_updated_at := now\<rparr>;
                                 e6 = shadow_persist_branch_and_worktree (wf_id w) branch_name
                                        (Some worktree_path) (timestamp now) (wf_put k w e5)
                             in (case tick env e6 of (now', e7) \<Rightarrow>
                                   send ((item_updated now' (wf_id w) k ''Pending'' None None (wf_user_id w))
                                     \<lparr>ev_progress_percent := Some 0\<rparr>) e7))))))"

subsection \<open>Removal\<close>

definition item_removed :: "time \<Rightarrow> string \<Rightarrow> string option \<Rightarrow> workflow_event" where
  "item_removed now k user_id =
     (default_event now)\<lparr>ev_type := ''work_item_removed'', ev_ticket_key := k, ev_user_id := user_id\<rparr>"

text \<open>The in-memory item goes first; a row that cannot be stamped stays live.\<close>

definition drop_item :: "env \<Rightarrow> string \<Rightarrow> string \<Rightarrow> engine \<Rightarrow> engine" where
  "drop_item env k workflow_id e =
     (let e1 = wf_remove k e in
      case eng_db e1 of
        None \<Rightarrow> e1
      | Some _ \<Rightarrow>
          (case tick env e1 of (now, e2) \<Rightarrow>
             snd (db_write (soft_delete_work_item workflow_id (timestamp now)) e2)))"

definition remove_worktree_if_there ::
  "env \<Rightarrow> string \<Rightarrow> string option \<Rightarrow> engine \<Rightarrow> takuto_error option \<times> engine" where
  "remove_worktree_if_there env repo_path worktree_path e =
     (case worktree_path of
        None \<Rightarrow> (None, e)
      | Some p \<Rightarrow>
          if \<not> env_path_exists env p then (None, e)
          else (case perform env (RemoveWorktree repo_path p) e of
                  (Inl err, e') \<Rightarrow> (Some err, e')
                | (Inr _, e') \<Rightarrow> (None, e')))"

definition delete_branch_if_named :: "env \<Rightarrow> string \<Rightarrow> string \<Rightarrow> engine \<Rightarrow> engine" where
  "delete_branch_if_named env repo_path branch_name e =
     (if trim branch_name = [] then e else snd (perform env (DeleteLocalBranch repo_path branch_name) e))"

definition delete_workflow :: "env \<Rightarrow> string \<Rightarrow> engine \<Rightarrow> (takuto_error + unit) \<times> engine" where
  "delete_workflow env k e =
     (case wf_get e k of
        None \<Rightarrow> (Inl (WorkflowNotFound k), e)
      | Some w \<Rightarrow>
          if is_active (wf_state w) \<and> wf_driver_started w then
            (Inl (InvalidWorkflowState ''delete'' (display_name (wf_state w)) k), e)
          else
            let e1 = emit (CleanupContainers k) (cancel (wf_cancel_token w) e) in
            (case resolve_repo_for_ticket env k e1 of ((repo_path, _), e2) \<Rightarrow>
               let e3 = snd (remove_worktree_if_there env repo_path (wf_worktree_path w) e2);
                   e4 = git_worktree_prune env (delete_branch_if_named env repo_path (wf_branch_name w) e3);
                   e5 = (if env_ticketing_system env = Jira \<and> \<not> wf_driver_started w
                         then snd (perform env (TransitionTicket repo_path k ''To Do'' (wf_user_id w))
                                (snd (perform env (UnassignTicket repo_path k (wf_user_id w)) e4)))
                         else e4);
                   e6 = snd (sync_from_map env (drop_item env k (wf_id w) e5))
               in (case tick env e6 of (now, e7) \<Rightarrow>
                     (Inr (), send (item_removed now k (wf_user_id w)) e7))))"

record mark_done_outcome =
  md_jira_ok :: bool
  md_jira_error :: "string option"
  md_worktree_ok :: bool
  md_worktree_error :: "string option"
  md_workflow_removed :: bool
  md_jira_credential_rejected :: bool

definition is_credential_rejected :: "takuto_error \<Rightarrow> bool" where
  "is_credential_rejected err = (case err of JiraCredentialRejected _ \<Rightarrow> True | _ \<Rightarrow> False)"

text \<open>Closing the issue of a \<open>GH-\<close> key; its call goes out only when both names parse.\<close>

definition close_github_issue ::
  "env \<Rightarrow> string \<Rightarrow> string \<Rightarrow> string \<Rightarrow> engine \<Rightarrow> takuto_error option \<times> engine" where
  "close_github_issue env k repo_url cwd e =
     (case parse_gh_issue_number k of
        None \<Rightarrow> (Some (Operational ''close GitHub issue'' (quoted k @ '' is not a GH-{number} key'')), e)
      | Some n \<Rightarrow>
          (case parse_github_repo repo_url of
             None \<Rightarrow> (Some (Operational ''close GitHub issue''
                       (''failed to parse owner/repo from '' @ quoted repo_url)), e)
           | Some owner_repo \<Rightarrow>
               (case perform env (CloseIssue owner_repo n cwd) e of
                  (Inl err, e') \<Rightarrow> (Some err, e')
                | (Inr _, e') \<Rightarrow> (None, e'))))"

text \<open>What the ticketing system is told, with the error it answers and the text that is reported.\<close>

definition finish_ticket ::
  "env \<Rightarrow> string \<Rightarrow> workflow \<Rightarrow> string \<Rightarrow> engine \<Rightarrow> (takuto_error \<times> string) option \<times> engine" where
  "finish_ticket env k w repo_path e =
     (case env_ticketing_system env of
        Jira \<Rightarrow>
          (case perform env (TransitionTicket repo_path k (trim (env_done_status env)) (wf_user_id w)) e of
             (Inl err, e') \<Rightarrow> (Some (err, error_text err), e')
           | (Inr _, e') \<Rightarrow> (None, e'))
      | GitHub \<Rightarrow>
          let cwd = (case wf_worktree_path w of
                       Some p \<Rightarrow> if env_path_exists env p then p else repo_path
                     | None \<Rightarrow> repo_path)
          in (case env_remote_url env repo_path of
                Inl err \<Rightarrow> (Some (err, ''Cannot resolve git remote URL: '' @ error_text err), e)
              | Inr remote_url \<Rightarrow>
                  (case close_github_issue env k remote_url cwd e of
                     (Some err, e') \<Rightarrow> (Some (err, error_text err), e')
                   | (None, e') \<Rightarrow> (None, e')))
      | TicketingNone \<Rightarrow> (None, e))"

definition mark_work_done :: "env \<Rightarrow> string \<Rightarrow> engine \<Rightarrow> (takuto_error + mark_done_outcome) \<times> engine" where
  "mark_work_done env k e =
     (case wf_get e k of
        None \<Rightarrow> (Inl (WorkflowNotFound k), e)
      | Some w \<Rightarrow>
          if wf_state w \<noteq> Done then
            (Inl (InvalidWorkflowState ''mark-as-done'' (display_name (wf_state w)) k), e)
          else
            (case resolve_repo_for_ticket env k e of ((repo_path, _), e1) \<Rightarrow>
            (case finish_ticket env k w repo_path e1 of (ticket_error, e2) \<Rightarrow>
            (case remove_worktree_if_there env repo_path (wf_worktree_path w) (emit (CleanupContainers k) e2) of
               (worktree_error, e3) \<Rightarrow>
               let e4 = (if worktree_error = None
                         then git_worktree_prune env (delete_branch_if_named env repo_path (wf_branch_name w) e3)
                         else e3);
                   removed = (ticket_error = None \<and> worktree_error = None);
                   e5 = (if removed
                         then (case tick env (drop_item env k (wf_id w) e4) of (now, e') \<Rightarrow>
                                 send (item_removed now k (wf_user_id w)) e')
                         else e4)
               in (Inr \<lparr>md_jira_ok = (ticket_error = None), md_jira_error = map_option snd ticket_error,
                        md_worktree_ok = (worktree_error = None),
                        md_worktree_error = map_option error_text worktree_error,
                        md_workflow_removed = removed,
                        md_jira_credential_rejected = (env_ticketing_system env = Jira \<and>
                          (case ticket_error of None \<Rightarrow> False | Some (err, _) \<Rightarrow> is_credential_rejected err))\<rparr>,
                   e5)))))"

definition stop_all_workflows :: "env \<Rightarrow> engine \<Rightarrow> engine" where
  "stop_all_workflows env e =
     fold (\<lambda>k e'. snd (stop_workflow env k e'))
       (filter (\<lambda>k. case wf_get e k of None \<Rightarrow> False | Some w \<Rightarrow> \<not> is_terminal (wf_state w)) (hash_keys env e)) e"

text \<open>A retry is a removal from the map and a new start.\<close>

definition retry_workflow :: "env \<Rightarrow> string \<Rightarrow> string \<Rightarrow> engine \<Rightarrow> (takuto_error + string) \<times> engine" where
  "retry_workflow env uuid k e =
     (case wf_get e k of
        None \<Rightarrow> (Inl (WorkflowNotFound k), e)
      | Some w \<Rightarrow>
          if \<not> is_terminal (wf_state w) then
            (Inl (InvalidWorkflowState ''retry'' (display_name (wf_state w)) k), e)
          else
            start_workflow env uuid k (wf_ticket_summary w) False
              (if wf_ticket_description w = [] then None else Some (wf_ticket_description w))
              (wf_ticket_url w) (wf_user_id w) (wf_repository_id w) (wf_remove k e))"

end
