(* ===== verification/Engine_Lifecycle_Props.thy ===== *)
theory Engine_Lifecycle_Props
  imports Engine_Lifecycle
begin

text \<open>
  The operations of \<^theory_text>\<open>Engine_Lifecycle\<close> keep the invariant of the engine, and what they do
  to the map, the database and the snapshots.
\<close>

subsection \<open>Frames\<close>

lemma snd_perform [simp]: "snd (perform env x e) = emit x e"
  by (simp add: perform_def)

lemma perform_eq: "perform env x e = (env_outcome env (length (eng_effects e)) x, emit x e)"
  by (simp add: perform_def)

lemma same_core_emit [simp]: "same_core e (emit x e') = same_core e e'"
  by (simp add: same_core_def)

lemma same_core_trans: "same_core e e' \<Longrightarrow> same_core e' e'' \<Longrightarrow> same_core e e''"
  by (simp add: same_core_def)

lemma resolve_names_core:
  "same_core e (snd (resolve_workspace_name env r e))"
  "same_core e (snd (resolve_repo_polling_settings env u ws e))"
  "same_core e (snd (resolve_worktree_row env u ws e))"
  by (auto simp: resolve_workspace_name_def resolve_repo_polling_settings_def resolve_worktree_row_def
      case_prod_beta snd_next_io split: option.splits sum.splits)

lemma write_snapshots_core: "same_core e e' \<Longrightarrow> same_core e (snd (write_snapshots env recs e'))"
  by (simp add: write_snapshots_def case_prod_beta same_core_def)

lemma sync_core: "same_core e (snd (sync_from_map env e))"
  by (simp add: sync_from_map_def write_snapshots_def case_prod_beta same_core_def)

lemma remove_worktree_core: "same_core e (snd (remove_worktree_if_there env r p e))"
  by (auto simp: remove_worktree_if_there_def perform_eq split: option.split sum.split)

lemma delete_branch_core: "same_core e (delete_branch_if_named env r b e)"
  by (simp add: delete_branch_if_named_def)

lemma prune_core: "same_core e (git_worktree_prune env e)"
  by (simp add: git_worktree_prune_def)

lemma finish_ticket_core: "same_core e (snd (finish_ticket env k w r e))"
  by (auto simp: finish_ticket_def close_github_issue_def perform_eq Let_def
      split: ticketing_system.split sum.split option.split)

lemmas lifecycle_core = resolve_names_core sync_core remove_worktree_core delete_branch_core prune_core
  finish_ticket_core resolve_repo_core resolve_definitions_core

subsection \<open>The invariant\<close>

lemma workflow_ok_new:
  "workflow_ok k (workflow_new now uuid token k s m j ts url ws)"
  by (simp add: workflow_ok_def workflow_new_def)

lemma new_item_spec:
  assumes "new_item env uuid k s m desc url u r e = (w, e')"
  shows "workflow_ok k w" and "wf_state w = Pending" and "wf_id w = uuid" and "wf_user_id w = u"
    and "wf_cancel_token w = eng_next_token e" and "wf_current_step_label w = None" and "wf_def_runs w = []"
    and "same_core (e\<lparr>eng_next_token := Suc (eng_next_token e)\<rparr>) e'"
proof -
  obtain ws e1 where 1: "resolve_workspace_name env r e = (ws, e1)" by fastforce
  have core: "same_core e e1" using resolve_names_core(1) [of e env r] by (simp add: 1)
  let ?w = "workflow_new (env_clock env (eng_ticks e1)) uuid (eng_next_token e1) k s m (env_jira_available env)
    (env_ticketing_system env) url ws"
  have "w = (case desc of None \<Rightarrow> ?w\<lparr>wf_user_id := u, wf_repository_id := r\<rparr>
      | Some d \<Rightarrow> ?w\<lparr>wf_user_id := u, wf_repository_id := r, wf_ticket_description := d\<rparr>)"
    and e': "e' = e1\<lparr>eng_ticks := Suc (eng_ticks e1), eng_next_token := Suc (eng_next_token e1)\<rparr>"
    using assms by (cases desc; simp add: new_item_def 1 fresh_token_def Let_def)+
  then have w: "wf_ticket_key w = wf_ticket_key ?w" "wf_state w = wf_state ?w" "wf_steps_log w = wf_steps_log ?w"
    "wf_id w = wf_id ?w" "wf_user_id w = u" "wf_cancel_token w = wf_cancel_token ?w"
    "wf_current_step_label w = wf_current_step_label ?w" "wf_def_runs w = wf_def_runs ?w"
    by (simp_all split: option.split)
  have token: "eng_next_token e1 = eng_next_token e" using core by (simp add: same_core_def)
  show "workflow_ok k w" by (simp add: w workflow_ok_def workflow_new_def)
  show "wf_state w = Pending" "wf_id w = uuid" "wf_user_id w = u"
    "wf_cancel_token w = eng_next_token e" "wf_current_step_label w = None" "wf_def_runs w = []"
    by (simp_all add: w workflow_new_def token)
  show "same_core (e\<lparr>eng_next_token := Suc (eng_next_token e)\<rparr>) e'"
    using core by (simp add: e' same_core_def)
qed

lemma insert_row_keeps:
  "only_db e (snd (insert_row env w e))" "dbs_ok e \<Longrightarrow> dbs_ok (snd (insert_row env w e))"
  using insert_work_item_ok by (auto simp: insert_row_def only_db_exec intro!: dbs_ok_exec)

lemma persist_new_keeps:
  "only_db e (snd (persist_new_work_item env w e))" "dbs_ok e \<Longrightarrow> dbs_ok (snd (persist_new_work_item env w e))"
proof -
  have "only_db e (snd (retry_durable_write (insert_row env w) e))"
    unfolding retry_durable_write_def
    by (rule retry_from_invariant [where I = "only_db e"]) (auto intro: only_db_trans insert_row_keeps(1))
  moreover have "dbs_ok e \<Longrightarrow> dbs_ok (snd (retry_durable_write (insert_row env w) e))"
    unfolding retry_durable_write_def
    by (erule retry_from_invariant) (rule insert_row_keeps(2))
  ultimately show "only_db e (snd (persist_new_work_item env w e))"
    "dbs_ok e \<Longrightarrow> dbs_ok (snd (persist_new_work_item env w e))"
    by (auto simp: persist_new_work_item_def case_prod_beta split: option.split sum.split)
qed

lemma engine_ok_next_token [simp]:
  assumes "engine_ok e" shows "engine_ok (e\<lparr>eng_next_token := Suc (eng_next_token e)\<rparr>)"
proof -
  have "tokens_ok (token_users e) (eng_cancelled e) (Suc (eng_next_token e))"
    using engine_okD(2) [OF assms] by (rule tokens_ok_fresh) blast
  then show ?thesis using assms by (simp add: engine_ok_def token_users_def)
qed

text \<open>Putting a new item in, whatever happened to the database since its token was taken.\<close>

lemma engine_ok_put_new:
  assumes ok: "engine_ok e" and frame: "eng_workflows e' = eng_workflows e" "eng_drivers e' = eng_drivers e"
    "eng_cancelled e' = eng_cancelled e" "eng_next_token e' = Suc (eng_next_token e)" "dbs_ok e'"
    and w: "workflow_ok k w" "wf_cancel_token w = eng_next_token e"
  shows "engine_ok (wf_put k w e')"
proof -
  let ?e = "e\<lparr>eng_next_token := Suc (eng_next_token e), eng_db := eng_db e'\<rparr>"
  have "engine_ok (wf_put k w (e\<lparr>eng_next_token := Suc (eng_next_token e)\<rparr>))"
    by (rule engine_ok_put_fresh [OF ok w])
  then have "engine_ok (wf_put k w ?e)"
    using frame(5) by (simp add: engine_ok_def token_users_def wf_put_def wf_get_def dbs_ok_def)
  moreover have "same_core (wf_put k w ?e) (wf_put k w e')"
    using frame by (simp add: same_core_def wf_put_def)
  ultimately show ?thesis by (simp add: engine_ok_same_core)
qed

lemma start_workflow_ok [state_intros]:
  assumes ok: "engine_ok e" shows "engine_ok (snd (start_workflow env uuid k s m desc url u r e))"
proof -
  obtain w e1 where new: "new_item env uuid k s m desc url u r e = (w, e1)" by fastforce
  obtain res e2 where p: "persist_new_work_item env w e1 = (res, e2)" by fastforce
  note spec = new_item_spec [OF new]
  have dbs: "dbs_ok e1" using spec(8) ok by (simp add: engine_ok_def dbs_ok_def same_core_def)
  have only: "only_db e1 e2" "dbs_ok e2" using persist_new_keeps [of e1 env w] dbs by (simp_all add: p)
  have "engine_ok e1" using engine_ok_same_core [OF spec(8)] ok by simp
  then have ok2: "engine_ok e2" by (rule engine_ok_only_db [OF only(1) _ only(2)])
  have "engine_ok (wf_put k w e2)"
    by (rule engine_ok_put_new [OF ok _ _ _ _ only(2) spec(1,5)])
      (use only_dbD [OF only(1)] spec(8) in \<open>simp_all add: same_core_def\<close>)
  then have "engine_ok (snd (resolve_definitions env k None (wf_put k w e2)))" by (rule core_ok(2))
  then have "engine_ok (snd (resolve_repo_polling_settings env u ws (snd (resolve_definitions env k None (wf_put k w e2)))))" for ws
    by (simp add: engine_ok_same_core [OF resolve_names_core(2)])
  then show ?thesis
    using ok2 by (cases res) (simp_all add: start_workflow_def new p case_prod_beta Let_def start_defs_ok)
qed

lemma new_item_mid_ok:
  assumes "new_item env uuid k s m desc url u r e = (w, e1)" and "engine_ok e"
  shows "engine_ok e1" and "dbs_ok e1"
  using new_item_spec(8) [OF assms(1)] assms(2) engine_ok_same_core [of "e\<lparr>eng_next_token := Suc (eng_next_token e)\<rparr>" e1]
  by (simp_all add: engine_ok_dbs)

lemma choose_branch_keeps:
  assumes "choose_branch env k w e = (w', e')" and "dbs_ok e"
  shows "only_db e e' \<and> dbs_ok e' \<and> wf_ticket_key w' = wf_ticket_key w \<and> wf_state w' = wf_state w \<and>
    wf_steps_log w' = wf_steps_log w \<and> wf_cancel_token w' = wf_cancel_token w \<and> wf_id w' = wf_id w \<and>
    wf_user_id w' = wf_user_id w"
  using assms db_read_keeps [of e "\<lambda>db. Inr (count_runs_for_ticket db (wf_workspace_name w) k)"]
  unfolding choose_branch_def by (auto split: option.splits prod.splits sum.splits)

lemma add_to_dashboard_ok [state_intros]:
  assumes ok: "engine_ok e" shows "engine_ok (snd (add_to_dashboard env uuid k s m desc url u r e))"
proof -
  obtain w0 e1 where new: "new_item env uuid k s m desc url u r e = (w0, e1)" by fastforce
  note spec = new_item_spec [OF new] and mid = new_item_mid_ok [OF new ok]
  obtain w e2 where named: "choose_branch env k w0 e1 = (w, e2)" by fastforce
  have 2: "only_db e1 e2 \<and> dbs_ok e2 \<and> workflow_ok k w \<and> wf_cancel_token w = eng_next_token e"
    using choose_branch_keeps [OF named mid(2)] spec(1,5) by (auto simp: workflow_ok_def)
  obtain res e3 where p: "persist_new_work_item env w e2 = (res, e3)" by fastforce
  have 3: "only_db e1 e3" "dbs_ok e3"
    using persist_new_keeps [of e2 env w] 2 only_db_trans by (auto simp: p)
  have ok3: "engine_ok e3" using mid(1) by (rule engine_ok_only_db [OF 3(1) _ 3(2)])
  have "engine_ok (wf_put k w e3)"
    by (rule engine_ok_put_new [OF ok _ _ _ _ 3(2)])
      (use only_dbD [OF 3(1)] spec(8) 2 in \<open>simp_all add: same_core_def\<close>)
  then have "engine_ok (modify_workflow k (\<lambda>w. w\<lparr>wf_worktree_preparing := True\<rparr>)
      (send ev ((wf_put k w e3)\<lparr>eng_ticks := n\<rparr>)))" and
    "engine_ok (modify_workflow k (\<lambda>w. w\<lparr>wf_worktree_preparing := True\<rparr>)
      (send ev ((snd (resolve_repo_for_ticket env k (wf_put k w e3)))\<lparr>eng_ticks := n\<rparr>)))" and
    "engine_ok (modify_workflow k (\<lambda>w. w\<lparr>wf_worktree_preparing := True\<rparr>)
      (send ev ((emit x (snd (resolve_repo_for_ticket env k (wf_put k w e3))))\<lparr>eng_ticks := n\<rparr>)))" for ev n x
    by (auto intro!: engine_ok_modify simp: workflow_ok_def core_ok)
  then show ?thesis
    using ok3 by (cases res) (simp_all add: add_to_dashboard_def new named p case_prod_beta [of _ "resolve_repo_for_ticket _ _ _"] Let_def
        split: prod.split)
qed

lemma prepare_worktree_ok [state_intros]:
  assumes ok: "engine_ok e" and world: "\<And>e. engine_ok e \<Longrightarrow> engine_ok (world e)"
  shows "engine_ok (prepare_worktree_for_ticket env world k e)"
proof -
  let ?e1 = "snd (resolve_repo_for_ticket env k e)"
  have base: "engine_ok (emit y (world (emit x ?e1)))" for x y using ok world by (simp add: core_ok)
  have final: "engine_ok (shadow_persist_branch_and_worktree i b p t (wf_put k
      (w1\<lparr>wf_worktree_path := wt, wf_branch_name := b, wf_worktree_preparing := False, wf_updated_at := now\<rparr>)
      (e4\<lparr>eng_ticks := n\<rparr>)))"
    if "engine_ok e4" "wf_get e4 k = Some w1" for e4 w1 i b p t wt now n
    using that engine_okD(1) [OF that]
    by (intro shadow_engine_ok) (simp add: put_ticks, rule engine_ok_put_from, auto simp: workflow_ok_def)
  show ?thesis
    unfolding prepare_worktree_for_ticket_def Let_def perform_eq
    using ok base final
    by (auto simp: case_prod_beta core_ok put_ticks workflow_ok_def intro!: engine_ok_modify
        split: option.split sum.split)
qed

lemma drop_item_ok [state_intros]:
  assumes "engine_ok e" shows "engine_ok (drop_item env k i e)"
proof -
  have "only_db (wf_remove k e\<lparr>eng_ticks := n\<rparr>) (snd (db_write (soft_delete_work_item i t) (wf_remove k e\<lparr>eng_ticks := n\<rparr>))) \<and>
    dbs_ok (snd (db_write (soft_delete_work_item i t) (wf_remove k e\<lparr>eng_ticks := n\<rparr>)))" for n t
    using engine_ok_remove [OF assms, of k] by (auto simp: db_write_keeps update_ok engine_ok_dbs)
  then show ?thesis
    using engine_ok_remove [OF assms, of k] engine_ok_only_db
    by (fastforce simp: drop_item_def Let_def split: option.split)
qed

lemma lifecycle_core_ok:
  "engine_ok e \<Longrightarrow> engine_ok (snd (sync_from_map env e))"
  "engine_ok e \<Longrightarrow> engine_ok (snd (remove_worktree_if_there env r p e))"
  "engine_ok e \<Longrightarrow> engine_ok (delete_branch_if_named env r b e)"
  "engine_ok e \<Longrightarrow> engine_ok (git_worktree_prune env e)"
  "engine_ok e \<Longrightarrow> engine_ok (snd (finish_ticket env k w r e))"
  by (simp_all add: engine_ok_same_core [OF sync_core] engine_ok_same_core [OF remove_worktree_core]
      engine_ok_same_core [OF delete_branch_core] engine_ok_same_core [OF prune_core]
      engine_ok_same_core [OF finish_ticket_core])

lemma delete_workflow_ok [state_intros]:
  assumes ok: "engine_ok e" shows "engine_ok (snd (delete_workflow env k e))"
proof (cases "wf_get e k")
  case (Some w)
  have "engine_ok (cancel (wf_cancel_token w) e)"
    using ok token_below [OF ok token_users_wf [OF Some]] by (simp add: engine_ok_cancel)
  then show ?thesis
    using Some ok
    by (simp add: delete_workflow_def Let_def case_prod_beta core_ok lifecycle_core_ok drop_item_ok)
qed (use ok in \<open>simp add: delete_workflow_def\<close>)

lemma mark_work_done_ok [state_intros]:
  assumes "engine_ok e" shows "engine_ok (snd (mark_work_done env k e))"
  unfolding mark_work_done_def
  using assms by (simp add: Let_def case_prod_beta core_ok lifecycle_core_ok drop_item_ok split: option.split)

lemma stop_all_ok [state_intros]:
  assumes "engine_ok e" shows "engine_ok (stop_all_workflows env e)"
  unfolding stop_all_workflows_def
  by (rule fold_invariant [where I = engine_ok]) (simp_all add: assms stop_workflow_ok)

lemma retry_workflow_ok [state_intros]:
  "engine_ok e \<Longrightarrow> engine_ok (snd (retry_workflow env uuid k e))"
  unfolding retry_workflow_def by (simp add: start_workflow_ok engine_ok_remove split: option.split)

lemma persist_interrupt_ok [state_intros]:
  assumes ok: "engine_ok e" shows "engine_ok (snd (persist_interrupt env e))"
proof -
  let ?stop = "\<lambda>k e'. case wf_get e' k of None \<Rightarrow> e' | Some w \<Rightarrow> cancel (wf_cancel_token w) e'"
  have stop: "engine_ok (?stop k e')" if "engine_ok e'" for k e'
    using that token_below [OF that token_users_wf] by (simp add: engine_ok_cancel split: option.split)
  have "engine_ok (fold ?stop ks (fold (\<lambda>k. emit (CleanupContainers k)) ks e'))" if "engine_ok e'" for ks e'
    by (rule fold_invariant [where I = engine_ok, OF fold_invariant [where I = engine_ok]])
      (simp_all add: that stop)
  moreover have "engine_ok (snd (write_snapshots env recs (e\<lparr>eng_suppress := True\<rparr>)))" for recs
    using ok engine_ok_same_core [OF write_snapshots_core [of e "e\<lparr>eng_suppress := True\<rparr>"]] by (simp add: same_core_def)
  ultimately show ?thesis
    using ok by (simp add: persist_interrupt_def Let_def case_prod_beta split: sum.split)
qed

subsection \<open>Adding and retrying\<close>

lemma retry_exec_cases:
  assumes "retry_from n (db_exec stmt) e = (r, e')" and "eng_db e = Some db"
    and err: "\<And>db e db'. stmt db = (Inl e, db') \<Longrightarrow> db' = db"
  shows "case r of Inl _ \<Rightarrow> eng_db e' = Some db
    | Inr _ \<Rightarrow> fst (stmt db) = Inr () \<and> eng_db e' = Some (snd (stmt db))"
  using assms(1,2)
proof (induction n "db_exec stmt" e rule: retry_from.induct)
  case (1 n e)
  obtain r1 e1 where 1: "db_exec stmt e = (r1, e1)" by fastforce
  have once: "case r1 of Inl _ \<Rightarrow> eng_db e1 = Some db
      | Inr _ \<Rightarrow> fst (stmt db) = Inr () \<and> eng_db e1 = Some (snd (stmt db))"
    using 1 \<open>eng_db e = Some db\<close> err
    by (auto simp: db_exec_def next_io_def split: list.splits prod.splits if_splits sum.splits)
  show ?case
  proof (cases r1)
    case (Inl a)
    then show ?thesis
      using "1.prems" once "1.hyps" [OF 1 [symmetric] Inl] \<open>db_exec stmt e = (r1, e1)\<close>
      by (auto simp: retry_from.simps [of n _ e] split: if_splits)
  next
    case (Inr u)
    then show ?thesis
      using "1.prems" once \<open>db_exec stmt e = (r1, e1)\<close> by (auto simp: retry_from.simps [of n _ e])
  qed
qed

lemma persist_new_cases:
  assumes "persist_new_work_item env w e = (r, e')"
  shows "case r of Inl _ \<Rightarrow> eng_db e' = eng_db e
    | Inr _ \<Rightarrow> (\<forall>db. eng_db e = Some db \<longrightarrow> \<not> has_item db (wf_id w) \<and>
        eng_db e' = Some (db\<lparr>db_items := db_items db @ [encode_work_item (to_work_item_row (env_json env) w)]\<rparr>))"
proof (cases "eng_db e")
  case (Some db)
  obtain r1 e1 where 1: "retry_durable_write (insert_row env w) e = (r1, e1)" by fastforce
  have i: "wi_id (to_work_item_row (env_json env) w) = wf_id w"
    by (simp add: to_work_item_row_def case_prod_beta)
  let ?row = "to_work_item_row (env_json env) w"
  have err: "db' = db" if "insert_work_item ?row db = (Inl err, db')" for db db' err
    using that by (auto simp: insert_work_item_def split: if_splits)
  have "case r1 of Inl _ \<Rightarrow> eng_db e1 = Some db
    | Inr _ \<Rightarrow> fst (insert_work_item ?row db) = Inr () \<and> eng_db e1 = Some (snd (insert_work_item ?row db))"
    by (rule retry_exec_cases [OF _ Some err])
      (use 1 in \<open>simp_all add: retry_durable_write_def insert_row_def\<close>)
  then show ?thesis
    using assms Some by (cases r1) (auto simp: persist_new_work_item_def 1 insert_work_item_def i split: if_splits)
qed (use assms in \<open>auto simp: persist_new_work_item_def split: sum.split\<close>)

lemma start_defs_keep:
  "wf_get e k = Some w \<Longrightarrow> \<exists>w'. wf_get (fold (\<lambda>d e'. snd (start_workflow_def env k d u e')) ds e) k = Some w' \<and>
     wf_id w' = wf_id w \<and> wf_state w' = wf_state w"
  and start_defs_other: "k' \<noteq> k \<Longrightarrow>
     wf_get (fold (\<lambda>d e'. snd (start_workflow_def env k d u e')) ds e) k' = wf_get e k'"
proof -
  have step: "wf_get (snd (start_workflow_def env k d u e)) k' = wf_get e k' \<or>
      k' = k \<and> (\<exists>w w'. wf_get e k = Some w \<and> wf_get (snd (start_workflow_def env k d u e)) k = Some w' \<and>
        wf_id w' = wf_id w \<and> wf_state w' = wf_state w)" for d e k'
  proof (cases rule: start_workflow_def_cases [OF surjective_pairing [of "start_workflow_def env k d u e"]])
    case (1 err)
    then show ?thesis by (simp add: same_core_wf)
  next
    case (2 w defs e1 dw wt)
    have "wf_get e1 k = Some w" using 2(2,4) by (simp add: same_core_wf)
    then show ?thesis
      using 2 start_commit_effect(2) [of e1 k w env d dw w wt] same_core_wf [OF 2(4)] by (cases "k' = k") auto
  qed
  show "wf_get e k = Some w \<Longrightarrow> \<exists>w'. wf_get (fold (\<lambda>d e'. snd (start_workflow_def env k d u e')) ds e) k = Some w' \<and>
     wf_id w' = wf_id w \<and> wf_state w' = wf_state w"
  proof (induction ds arbitrary: e w)
    case (Cons d ds)
    obtain w1 where "wf_get (snd (start_workflow_def env k d u e)) k = Some w1" "wf_id w1 = wf_id w" "wf_state w1 = wf_state w"
      using step [of d e k] Cons.prems by auto
    then show ?case using Cons.IH [of "snd (start_workflow_def env k d u e)" w1] by auto
  qed simp
  show "k' \<noteq> k \<Longrightarrow> wf_get (fold (\<lambda>d e'. snd (start_workflow_def env k d u e')) ds e) k' = wf_get e k'"
    by (induction ds arbitrary: e) (use step in auto)
qed

lemma persist_new_frame:
  assumes "persist_new_work_item env w e = (r, e')"
  shows "eng_workflows e' = eng_workflows e" "eng_drivers e' = eng_drivers e" "eng_effects e' = eng_effects e"
    "(eng_db e' = None) = (eng_db e = None)"
  using only_dbD [OF persist_new_keeps(1) [of e env w]] only_db_attached [OF persist_new_keeps(1) [of e env w]]
  by (simp_all add: assms)

lemma disk_view_append:
  "\<not> has_item db (wf_id w) \<Longrightarrow> wf_current_step_label w = None \<Longrightarrow>
     disk_view (e\<lparr>eng_db := Some (db\<lparr>db_items := db_items db @ [encode_work_item (to_work_item_row (env_json env) w)]\<rparr>)\<rparr>)
       (wf_id w) = Some (disk_state env (wf_state w) None)"
proof -
  assume new: "\<not> has_item db (wf_id w)" and label: "wf_current_step_label w = None"
  let ?r = "encode_work_item (to_work_item_row (env_json env) w)"
  have "map_of (List.map (\<lambda>r. (wi_id r, row_state r)) (db_items db)) (wf_id w) = None"
    using new by (auto simp: has_item_def list_ex_iff map_of_eq_None_iff)
  moreover have "wi_id ?r = wf_id w" "row_state ?r = disk_state env (wf_state w) None"
    using label by (simp_all add: encode_work_item_def to_work_item_row_def row_state_def disk_state_def case_prod_beta)
  ultimately show ?thesis by (simp add: disk_view_def map_add_def)
qed

lemma start_commit_view: "disk_view (snd (start_commit env k n d seen wt e)) = disk_view e"
proof -
  have "disk_view (wf_put k w (e\<lparr>eng_next_token := t, eng_ticks := n\<rparr>)) = disk_view e" for w t n by simp
  then show ?thesis
    by (simp add: start_commit_def fresh_token_def Let_def put_ticks split: option.split)
qed

lemma start_defs_view:
  "disk_view (fold (\<lambda>d e'. snd (start_workflow_def env k d u e')) ds e) = disk_view e"
proof (induction ds arbitrary: e)
  case (Cons d ds)
  have "disk_view (snd (start_workflow_def env k d u e)) = disk_view e"
  proof (cases rule: start_workflow_def_cases [OF surjective_pairing [of "start_workflow_def env k d u e"]])
    case (1 err)
    then show ?thesis by (simp add: same_core_view)
  next
    case (2 w defs e1 dw wt)
    then show ?thesis by (simp add: start_commit_view same_core_view)
  qed
  then show ?case using Cons by simp
qed simp

definition item_rows :: "engine \<Rightarrow> stored_work_item list" where
  "item_rows e = (case eng_db e of None \<Rightarrow> [] | Some db \<Rightarrow> db_items db)"

lemma item_rows_frame [simp]:
  "item_rows (wf_put k w e) = item_rows e" "item_rows (send ev e) = item_rows e"
  "item_rows (spawn_driver d e) = item_rows e" "item_rows (e\<lparr>eng_ticks := n\<rparr>) = item_rows e"
  "item_rows (e\<lparr>eng_next_token := t\<rparr>) = item_rows e" "item_rows (wf_remove k e) = item_rows e"
  by (simp_all add: item_rows_def wf_put_def send_def spawn_driver_def wf_remove_def)

lemma same_core_rows: "same_core e e' \<Longrightarrow> item_rows e' = item_rows e"
  by (simp add: same_core_def item_rows_def)

lemma start_def_run_rows [simp]: "item_rows (shadow_start_def_run i d t e) = item_rows e"
  by (auto simp: item_rows_def shadow_start_def_run_def db_exec_def next_io_def start_definition_run_def
      upsert_definition_run_def Let_def split: option.split list.split prod.split if_splits)

lemma start_defs_rows:
  "item_rows (fold (\<lambda>d e'. snd (start_workflow_def env k d u e')) ds e) = item_rows e"
proof (induction ds arbitrary: e)
  case (Cons d ds)
  have "item_rows (snd (start_workflow_def env k d u e)) = item_rows e"
  proof (cases rule: start_workflow_def_cases [OF surjective_pairing [of "start_workflow_def env k d u e"]])
    case (1 err)
    then show ?thesis by (simp add: same_core_rows)
  next
    case (2 w defs e1 dw wt)
    then show ?thesis
      by (simp add: start_commit_def fresh_token_def Let_def put_ticks same_core_rows split: option.split)
  qed
  then show ?case using Cons by simp
qed simp

lemma start_workflow_outcome:
  assumes "start_workflow env uuid k s m desc url u r e = (res, e')"
  shows "case res of
      Inl _ \<Rightarrow> eng_workflows e' = eng_workflows e \<and> eng_drivers e' = eng_drivers e \<and> eng_db e' = eng_db e
    | Inr i \<Rightarrow> i = uuid \<and> (\<exists>w. wf_get e' k = Some w \<and> wf_id w = uuid \<and> wf_state w = Pending) \<and>
        (\<forall>k'. k' \<noteq> k \<longrightarrow> wf_get e' k' = wf_get e k') \<and>
        (\<forall>db. eng_db e = Some db \<longrightarrow> \<not> has_item db uuid \<and> disk_view e' uuid = Some (disk_state env Pending None) \<and>
          (\<exists>row. item_rows e' = db_items db @ [row]))"
proof -
  obtain w e1 where new: "new_item env uuid k s m desc url u r e = (w, e1)" by fastforce
  obtain res1 e2 where p: "persist_new_work_item env w e1 = (res1, e2)" by fastforce
  note spec = new_item_spec [OF new] and frame = persist_new_frame [OF p] and cases = persist_new_cases [OF p]
  have 1: "eng_workflows e1 = eng_workflows e" "eng_drivers e1 = eng_drivers e" "eng_db e1 = eng_db e"
    using spec(8) by (simp_all add: same_core_def)
  show ?thesis
  proof (cases res1)
    case (Inl err)
    then show ?thesis using assms cases frame 1 by (auto simp: start_workflow_def new p)
  next
    case (Inr x)
    define e3 where "e3 = snd (resolve_definitions env k None (wf_put k w e2))"
    define e4 where "e4 = snd (resolve_repo_polling_settings env u (wf_workspace_name w) e3)"
    have core: "same_core (wf_put k w e2) e4"
      unfolding e4_def e3_def by (rule same_core_trans [OF resolve_definitions_core resolve_names_core(2)])
    obtain ds where e': "e' = fold (\<lambda>d e'. snd (start_workflow_def env k d None e')) ds e4" and res: "res = Inr uuid"
      using assms Inr spec(3) by (auto simp: start_workflow_def new p case_prod_beta Let_def e3_def e4_def)
    have "wf_get e2 k' = wf_get e k'" for k' using frame(1) 1(1) by (simp add: wf_get_def)
    then have "wf_get e4 k = Some w" "\<And>k'. k' \<noteq> k \<Longrightarrow> wf_get e4 k' = wf_get e k'"
      using same_core_wf [OF core] by simp_all
    moreover have "disk_view e' uuid = Some (disk_state env Pending None) \<and> \<not> has_item db uuid \<and>
        (\<exists>row. item_rows e' = db_items db @ [row])" if "eng_db e = Some db" for db
    proof -
      have db: "\<not> has_item db uuid"
        "eng_db e2 = Some (db\<lparr>db_items := db_items db @ [encode_work_item (to_work_item_row (env_json env) w)]\<rparr>)"
        using cases Inr 1(3) that spec(3) by auto
      have "disk_view e' = disk_view e2"
        using same_core_view [OF core] by (simp add: e' start_defs_view)
      moreover have "disk_view e2 = disk_view (e2\<lparr>eng_db := eng_db e2\<rparr>)" by simp
      moreover have "item_rows e' = item_rows e2"
        using same_core_rows [OF core] by (simp add: e' start_defs_rows)
      ultimately show ?thesis
        using disk_view_append [of db w env e2] db spec(2,3,6) by (simp add: item_rows_def)
    qed
    ultimately show ?thesis
      using res start_defs_keep [of e4 k w env None ds] start_defs_other [of _ k env None ds e4] spec(2,3)
      by (auto simp: e')
  qed
qed

subsection \<open>Properties\<close>

text \<open>
  C8: a start that fails adds nothing: the map, the drivers and the work-item tables are as before. A start
  that succeeds with a database attached has written the row of the new item first: the item is in
  the map with that id, and a live row has it.
\<close>
theorem start_workflow_all_or_nothing:
  assumes "start_workflow env uuid k s m desc url u r e = (res, e')"
  shows "case res of
      Inl _ \<Rightarrow> eng_workflows e' = eng_workflows e \<and> eng_drivers e' = eng_drivers e \<and> eng_db e' = eng_db e
    | Inr i \<Rightarrow> i = uuid \<and> (\<exists>w. wf_get e' k = Some w \<and> wf_id w = uuid \<and> wf_state w = Pending) \<and>
        (\<forall>k'. k' \<noteq> k \<longrightarrow> wf_get e' k' = wf_get e k') \<and>
        (\<forall>db. eng_db e = Some db \<longrightarrow> \<not> has_item db uuid \<and> disk_view e' uuid = Some (disk_state env Pending None))"
  using start_workflow_outcome [OF assms] by (cases res) auto

theorem start_workflow_all_or_nothing_witness:
  "disk_view (snd (start_workflow sample_env ''u'' ''T-9'' ''New'' True None None None None sample_engine)) ''u'' =
     Some (disk_state sample_env Pending None) \<and>
   wf_get (snd (start_workflow sample_env ''u'' ''T-9'' ''New'' True None None None None sample_engine)) ''T-1'' =
     wf_get sample_engine ''T-1''"
proof -
  let ?r = "start_workflow sample_env ''u'' ''T-9'' ''New'' True None None None None sample_engine"
  have "fst ?r = Inr ''u''" by code_simp
  then have "?r = (Inr ''u'', snd ?r)" by (metis prod.collapse)
  then show ?thesis
    using start_workflow_all_or_nothing [of sample_env "''u''" "''T-9''" "''New''" True None None None None sample_engine
        "Inr ''u''" "snd ?r"]
    by (simp add: sample_engine_def)
qed

text \<open>
  A retry takes the terminal item out of the map before the new item is stored. When the store
  fails, the item is gone from the map and its row is as it was; when it succeeds, the new item
  runs under the same key and the old row is still there, unchanged and live if it was.
\<close>
lemma retry_leaves_old_row:
  assumes "wf_get e k = Some w" and "is_terminal (wf_state w)" and "retry_workflow env uuid k e = (res, e')"
  shows "case res of
      Inl _ \<Rightarrow> wf_get e' k = None \<and> item_rows e' = item_rows e
    | Inr i \<Rightarrow> i = uuid \<and> map_option wf_id (wf_get e' k) = Some uuid \<and>
        (eng_db e \<noteq> None \<longrightarrow> (\<exists>row. item_rows e' = item_rows e @ [row]))"
proof -
  have start: "start_workflow env uuid k (wf_ticket_summary w) False
      (if wf_ticket_description w = [] then None else Some (wf_ticket_description w))
      (wf_ticket_url w) (wf_user_id w) (wf_repository_id w) (wf_remove k e) = (res, e')"
    using assms by (simp add: retry_workflow_def)
  have "eng_db (wf_remove k e) = eng_db e" by (simp add: wf_remove_def)
  then show ?thesis
    using start_workflow_outcome [OF start]
    by (cases res) (auto simp: item_rows_def wf_get_def wf_remove_def delete_conv fun_upd_def)
qed


end
