(* ===== verification/Engine_Restore.thy ===== *)
theory Engine_Restore
  imports Engine_Lifecycle_Props
begin

text \<open>
  The start of the server: \<open>restore\<close> of \<open>engine/persistence.rs\<close>. The map is rebuilt from the
  database, completed from the snapshots, and the runs that were under way get new drivers.
\<close>

subsection \<open>Phase A: the database\<close>

definition restore_row :: "env \<Rightarrow> work_item_state_kind work_item_row \<Rightarrow> engine \<Rightarrow> engine" where
  "restore_row env row e =
     (case db_read (\<lambda>db. list_definition_runs db (wi_id row)) e of (runs, e1) \<Rightarrow>
      (case tick env e1 of (now, e2) \<Rightarrow>
      (case fresh_token e2 of (token, e3) \<Rightarrow>
         let def_runs = (case runs of Inr ds \<Rightarrow> ds | Inl _ \<Rightarrow> [])
         in wf_put (wi_ticket_key row) (from_work_item_row (env_json env) now token row def_runs) e3)))"

definition load_rows :: "env \<Rightarrow> engine \<Rightarrow> string list \<times> engine" where
  "load_rows env e =
     (case eng_db e of
        None \<Rightarrow> ([], e)
      | Some _ \<Rightarrow>
          (case db_read list_all_for_restore e of
             (Inr rows, e1) \<Rightarrow> (List.map wi_ticket_key rows, fold (restore_row env) rows e1)
           | (Inl _, e1) \<Rightarrow> ([], e1)))"

subsection \<open>Phase B: the snapshots\<close>

definition read_records :: "env \<Rightarrow> engine \<Rightarrow> (snapshot_error + persisted_workflow_record list) \<times> engine" where
  "read_records env e =
     (case read_all_workspace_snapshots (env_file_io env) (env_snapshot_json env) (eng_files e) of
        Inl err \<Rightarrow> (Inl err, e)
      | Inr records \<Rightarrow>
          if records \<noteq> [] then (Inr records, e)
          else (case read_workflow_snapshot (env_file_io env) (env_snapshot_json env) (env_repo_path env)
                       (eng_files e) of
                  (Inl err, fs) \<Rightarrow> (Inl err, e\<lparr>eng_files := fs\<rparr>)
                | (Inr None, fs) \<Rightarrow> (Inr records, e\<lparr>eng_files := fs\<rparr>)
                | (Inr (Some file), fs) \<Rightarrow>
                    (Inr (if sf_version file = SNAPSHOT_VERSION then sf_workflows file else records),
                     e\<lparr>eng_files := fs\<rparr>)))"

definition name_workspace ::
  "env \<Rightarrow> persisted_workflow_record \<Rightarrow> engine \<Rightarrow> persisted_workflow_record \<times> engine" where
  "name_workspace env rec e =
     (if pr_workspace_name rec \<noteq> [] then (rec, e)
      else
        let fallback = rec\<lparr>pr_workspace_name := workspace_name_from_repo_path (env_repo_path env)\<rparr>
        in case (pr_repository_id rec, eng_db e) of
             (Some repo_id, Some _) \<Rightarrow>
               (case next_io e of (ok, e1) \<Rightarrow>
                  (case (if ok then repositories_get (eng_repos e) repo_id else None) of
                     Some row \<Rightarrow> (rec\<lparr>pr_workspace_name := rp_name row\<rparr>, e1)
                   | None \<Rightarrow> (fallback, e1)))
           | _ \<Rightarrow> (fallback, e))"

fun name_workspaces ::
  "env \<Rightarrow> persisted_workflow_record list \<Rightarrow> engine \<Rightarrow> persisted_workflow_record list \<times> engine" where
  "name_workspaces env [] e = ([], e)"
| "name_workspaces env (rec # recs) e =
     (case name_workspace env rec e of (rec', e1) \<Rightarrow>
      (case name_workspaces env recs e1 of (recs', e2) \<Rightarrow> (rec' # recs', e2)))"

text \<open>What a snapshot adds to an item of the database: only fields without a column, and only unset ones.\<close>

definition supplement :: "persisted_workflow_record \<Rightarrow> workflow \<Rightarrow> workflow" where
  "supplement rec w =
     (let w1 = (if wf_terminal_lines w = [] \<and> pr_terminal_lines rec \<noteq> []
                then w\<lparr>wf_terminal_lines := List.map (\<lambda>l. \<lparr>tl_text = tl_text l, tl_stream = tl_stream l\<rparr>)
                         (pr_terminal_lines rec)\<rparr> else w);
          w2 = (if wf_auth_pin w1 = None then w1\<lparr>wf_auth_pin := pr_auth_pin rec\<rparr> else w1);
          w3 = (if wf_description_session_id w2 = None
                then w2\<lparr>wf_description_session_id := pr_description_session_id rec\<rparr> else w2);
          w4 = (if \<not> wf_worktree_bootstrapped w3
                then w3\<lparr>wf_worktree_bootstrapped := pr_worktree_bootstrapped rec\<rparr> else w3)
      in if wf_ticketing_system w4 = TicketingNone \<and> pr_ticketing_system rec \<noteq> TicketingNone
         then w4\<lparr>wf_ticketing_system := pr_ticketing_system rec, wf_ticketing_available := True\<rparr>
         else w4)"

definition merge_record :: "env \<Rightarrow> string list \<Rightarrow> persisted_workflow_record \<Rightarrow> engine \<Rightarrow> engine" where
  "merge_record env from_db rec e =
     (let k = pr_ticket_key rec in
      if k \<in> set from_db then modify_workflow k (supplement rec) e
      else (case fresh_token e of (token, e1) \<Rightarrow>
              let w = from_persisted_record token rec
              in shadow_persist_work_item env w (wf_put k w e1)))"

subsection \<open>Phase C: the drivers\<close>

definition worktree_missing :: def_run_state where
  "worktree_missing = RunError ''Worktree missing after restart; use retry button''"

definition flow_gone :: "bool \<Rightarrow> def_run_state" where
  "flow_gone from_user_flows =
     RunError (if from_user_flows
       then ''flow_no_longer_exists: this flow was renamed or deleted; trigger it again from the '' @
            ''work-item card to start a fresh run''
       else ''Def file not found after restart'')"

text \<open>One run that was under way; \<open>w\<close> is the item as it was before the first of them.\<close>

definition restore_run ::
  "env \<Rightarrow> string \<Rightarrow> workflow \<Rightarrow> discovered_workflow list \<Rightarrow> bool \<Rightarrow> string \<Rightarrow> bool \<times> engine \<Rightarrow> bool \<times> engine" where
  "restore_run env k w defs from_user_flows def_name x =
     (case x of (spawned, e) \<Rightarrow>
        let wt = (case wf_worktree_path w of
                    Some p \<Rightarrow> if env_path_exists env p then Some p else None
                  | None \<Rightarrow> None)
        in case List.find (\<lambda>d. dw_filename d = def_name) defs of
             None \<Rightarrow> (spawned, modify_workflow k (set_def_run def_name (flow_gone from_user_flows)) e)
           | Some d \<Rightarrow>
               if wt = None then (spawned, modify_workflow k (set_def_run def_name worktree_missing) e)
               else
                 let e1 = (if eng_revalidates e
                       then (case pinned_user e k of None \<Rightarrow> e | Some uid \<Rightarrow> emit (RevalidatePat uid k) e)
                       else e)
                 in (True, spawn_driver \<lparr>drv_ticket_key = k, drv_def_name = def_name, drv_steps = dw_steps d,
                       drv_worktree_path = wt, drv_ticket_summary = wf_ticket_summary w,
                       drv_ticket_description = wf_ticket_description w, drv_ticket_type = wf_ticket_type w,
                       drv_cancel_token = wf_cancel_token w, drv_resume = None\<rparr> e1))"

text \<open>An active item for which no driver was spawned is an error, on disk as well.\<close>

definition reconcile :: "env \<Rightarrow> string \<Rightarrow> workflow_state \<Rightarrow> engine \<Rightarrow> engine" where
  "reconcile env k source e =
     (case tick env e of (now, e1) \<Rightarrow>
        let st = Error source ''Interrupted by a restart and could not resume automatically; use the retry button.''
        in case wf_get e1 k of
             None \<Rightarrow> e1
           | Some w \<Rightarrow>
               shadow_persist_state_change env (wf_id w) st None (timestamp now)
                 (wf_put k (w\<lparr>wf_state := st, wf_current_step_label := None, wf_updated_at := now\<rparr>) e1))"

text \<open>Items that wait for the user: finished, never started, or paused.\<close>

definition needs_no_driver :: "workflow \<Rightarrow> bool" where
  "needs_no_driver w \<longleftrightarrow> is_terminal (wf_state w) \<or> wf_state w = Pending \<and> \<not> wf_driver_started w \<or>
     is_paused (wf_state w)"

definition restore_item :: "env \<Rightarrow> string \<Rightarrow> engine \<Rightarrow> engine" where
  "restore_item env k e =
     (case wf_get e k of
        None \<Rightarrow> e
      | Some w \<Rightarrow>
          if needs_no_driver w then e
          else
            let from_user_flows = (eng_db e \<noteq> None \<and> wf_user_id w \<noteq> None \<and> wf_workspace_name w \<noteq> [])
            in (case resolve_definitions env k None e of (defs, e1) \<Rightarrow>
                 (case fold (restore_run env k w defs from_user_flows)
                         (runs_where env (\<lambda>s. s = RunRunning) w) (False, e1) of (spawned, e2) \<Rightarrow>
                    if spawned then e2 else reconcile env k (wf_state w) e2)))"

definition restore :: "env \<Rightarrow> engine \<Rightarrow> (snapshot_error + nat) \<times> engine" where
  "restore env e =
     (case load_rows env e of (from_db, e1) \<Rightarrow>
      (case read_records env e1 of
         (Inl err, e2) \<Rightarrow> (Inl err, e2)
       | (Inr records, e2) \<Rightarrow>
           (case name_workspaces env records e2 of (named, e3) \<Rightarrow>
              let e4 = e3\<lparr>eng_files := cleanup_legacy_global_snapshot (env_file_io env) (eng_files e3)\<rparr>;
                  e5 = fold (merge_record env from_db) (sort_key pr_started_at named) e4
              in (Inr (count_all e5), fold (restore_item env) (hash_keys env e5) e5))))"

end
