(* ===== verification/Engine_Restore_Props.thy ===== *)
theory Engine_Restore_Props
  imports Engine_Restore
begin

text \<open>
  What \<^theory_text>\<open>Engine_Restore\<close> leaves behind: no item without a driver that would need one, and
  for every ticket of the database the item of the database.
\<close>

subsection \<open>One item\<close>

lemma modify_workflow_frame [simp]:
  "wf_get (modify_workflow k f e) k' = (if k' = k then map_option f (wf_get e k) else wf_get e k')"
  "eng_drivers (modify_workflow k f e) = eng_drivers e"
  "eng_db (modify_workflow k f e) = eng_db e"
  by (simp_all add: modify_workflow_def split: option.split)

lemma set_def_run_core [simp]:
  "wf_state (set_def_run d st w) = wf_state w" "wf_cancel_token (set_def_run d st w) = wf_cancel_token w"
  "wf_driver_started (set_def_run d st w) = wf_driver_started w" "wf_id (set_def_run d st w) = wf_id w"
  "wf_updated_at (set_def_run d st w) = wf_updated_at w"
  by (simp_all add: set_def_run_def)

text \<open>The item is of no user's concern: it waits for the user, or a driver has its token.\<close>

definition settled :: "engine \<Rightarrow> string \<Rightarrow> bool" where
  "settled e k \<longleftrightarrow> (case wf_get e k of
      None \<Rightarrow> True
    | Some w \<Rightarrow> needs_no_driver w \<or>
        (\<exists>d \<in> set (eng_drivers e). drv_ticket_key d = k \<and> drv_cancel_token d = wf_cancel_token w))"

text \<open>What a run leaves of its item, and what it adds to the drivers.\<close>

definition item_core :: "engine \<Rightarrow> string \<Rightarrow> (workflow_state \<times> nat \<times> bool \<times> string) option" where
  "item_core e k = map_option (\<lambda>w. (wf_state w, wf_cancel_token w, wf_driver_started w, wf_id w)) (wf_get e k)"

definition has_driver :: "engine \<Rightarrow> string \<Rightarrow> nat \<Rightarrow> bool" where
  "has_driver e k t \<longleftrightarrow> (\<exists>d \<in> set (eng_drivers e). drv_ticket_key d = k \<and> drv_cancel_token d = t)"

definition run_effect :: "string \<Rightarrow> nat \<Rightarrow> engine \<Rightarrow> bool \<times> engine \<Rightarrow> bool" where
  "run_effect k t e x \<longleftrightarrow> (\<forall>k'. k' \<noteq> k \<longrightarrow> wf_get (snd x) k' = wf_get e k') \<and>
     item_core (snd x) k = item_core e k \<and> set (eng_drivers e) \<subseteq> set (eng_drivers (snd x)) \<and>
     eng_db (snd x) = eng_db e \<and> (fst x \<longrightarrow> has_driver (snd x) k t)"

lemma run_effect_step:
  assumes "run_effect k (wf_cancel_token w) e x"
  shows "run_effect k (wf_cancel_token w) e (restore_run env k w defs b n x)"
proof -
  obtain s e1 where x: "x = (s, e1)" by fastforce
  have mod: "item_core (modify_workflow k (set_def_run n st) e1) k = item_core e1 k" for st
    by (simp add: item_core_def option.map_comp comp_def)
  show ?thesis
    using assms unfolding x restore_run_def run_effect_def
    by (simp add: Let_def mod split: option.split)
      (auto simp: item_core_def has_driver_def split: option.split)
qed

lemma runs_effect:
  "run_effect k (wf_cancel_token w) e (fold (restore_run env k w defs b) names (False, e))"
  by (rule fold_invariant [where I = "run_effect k (wf_cancel_token w) e"])
    (simp_all add: run_effect_step, simp add: run_effect_def)

definition interrupted :: string where
  "interrupted = ''Interrupted by a restart and could not resume automatically; use the retry button.''"

lemma reconcile_effect:
  "k' \<noteq> k \<Longrightarrow> wf_get (reconcile env k st e) k' = wf_get e k'"
  "eng_drivers (reconcile env k st e) = eng_drivers e"
  "map_option (\<lambda>w. (wf_id w, wf_state w)) (wf_get (reconcile env k st e) k) =
     map_option (\<lambda>w. (wf_id w, Error st interrupted)) (wf_get e k)"
  by (auto simp: reconcile_def interrupted_def Let_def put_ticks split: option.split)

lemma settled_core:
  "settled e k \<longleftrightarrow> (case wf_get e k of None \<Rightarrow> True | Some w \<Rightarrow> needs_no_driver w \<or> has_driver e k (wf_cancel_token w))"
  by (simp add: settled_def has_driver_def split: option.split)

lemma restore_item_cases:
  obtains (idle) "restore_item env k e = e" "settled e k"
  | (driven) w x where "wf_get e k = Some w" "run_effect k (wf_cancel_token w) e x" "fst x" "restore_item env k e = snd x"
  | (failed) w x where "wf_get e k = Some w" "run_effect k (wf_cancel_token w) e x" "\<not> fst x"
      "\<not> needs_no_driver w" "restore_item env k e = reconcile env k (wf_state w) (snd x)"
proof (cases "\<exists>w. wf_get e k = Some w \<and> \<not> needs_no_driver w")
  case False
  then have "restore_item env k e = e \<and> settled e k"
    by (auto simp: settled_def restore_item_def split: option.split)
  then show thesis using idle by blast
next
  case True
  then obtain w where w: "wf_get e k = Some w" "\<not> needs_no_driver w" by blast
  obtain defs e1 where 1: "resolve_definitions env k None e = (defs, e1)" by fastforce
  have core: "same_core e e1" using resolve_definitions_core [of e env k None] by (simp add: 1)
  define b where "b = (eng_db e \<noteq> None \<and> wf_user_id w \<noteq> None \<and> wf_workspace_name w \<noteq> [])"
  obtain s e2 where x: "fold (restore_run env k w defs b) (runs_where env (\<lambda>s. s = RunRunning) w) (False, e1) = (s, e2)"
    by fastforce
  have "run_effect k (wf_cancel_token w) e1 (s, e2)" using runs_effect [of k w e1 env defs b] x by metis
  then have eff: "run_effect k (wf_cancel_token w) e (s, e2)"
    using core same_core_wf [OF core] by (simp add: run_effect_def item_core_def same_core_def)
  have "restore_item env k e = (if s then e2 else reconcile env k (wf_state w) e2)"
    using w x by (simp add: restore_item_def 1 b_def Let_def)
  then show thesis using driven [OF w(1) eff] failed [OF w(1) eff _ w(2)] by (cases s) simp_all
qed

lemma restore_item_other:
  "(k' \<noteq> k \<longrightarrow> wf_get (restore_item env k e) k' = wf_get e k') \<and>
     set (eng_drivers e) \<subseteq> set (eng_drivers (restore_item env k e))"
  by (cases rule: restore_item_cases [of env k e]) (simp_all add: run_effect_def reconcile_effect)

lemma restore_item_settles: "settled (restore_item env k e) k"
proof (cases rule: restore_item_cases [of env k e])
  case (driven w x)
  have "map_option (\<lambda>w. wf_cancel_token w) (wf_get (snd x) k) = Some (wf_cancel_token w)"
    using driven(1,2) by (cases "wf_get (snd x) k") (auto simp: run_effect_def item_core_def)
  then show ?thesis using driven by (auto simp: settled_core run_effect_def)
next
  case (failed w x)
  then show ?thesis
    using reconcile_effect(3) [of env k "wf_state w" "snd x"]
    by (cases "wf_get (snd x) k") (auto simp: settled_core needs_no_driver_def is_terminal_def split: option.split)
qed simp

text \<open>The state of an item after its turn: its own, or an error that records it.\<close>

lemma restore_item_state:
  assumes "wf_get e k = Some w"
  shows "\<exists>w'. wf_get (restore_item env k e) k = Some w' \<and> wf_id w' = wf_id w \<and>
    (wf_state w' = wf_state w \<or> \<not> needs_no_driver w \<and> wf_state w' = Error (wf_state w) interrupted)"
proof (cases rule: restore_item_cases [of env k e])
  case (driven w1 x)
  then show ?thesis
    using assms by (cases "wf_get (snd x) k") (auto simp: run_effect_def item_core_def)
next
  case (failed w1 x)
  then show ?thesis
    using assms reconcile_effect(3) [of env k "wf_state w1" "snd x"]
    by (cases "wf_get (snd x) k") (auto simp: run_effect_def item_core_def)
qed (use assms in simp)

lemma settled_other:
  assumes "settled e k'" "k' \<noteq> k" shows "settled (restore_item env k e) k'"
  using assms restore_item_other [of k' k env e] by (auto simp: settled_def split: option.splits)

lemma restore_items_settle:
  "k \<in> set ks \<or> settled e k \<Longrightarrow> settled (fold (restore_item env) ks e) k"
proof (induction ks arbitrary: e)
  case (Cons x ks)
  have "settled (restore_item env x e) k" if "k = x \<or> settled e k"
    using that restore_item_settles settled_other by (cases "k = x") simp_all
  then show ?case using Cons by auto
qed simp

subsection \<open>The map before the drivers\<close>

definition item_view :: "engine \<Rightarrow> string \<Rightarrow> (string \<times> workflow_state) option" where
  "item_view e k = map_option (\<lambda>w. (wf_id w, wf_state w)) (wf_get e k)"

definition row_view :: "env \<Rightarrow> work_item_state_kind work_item_row \<Rightarrow> string \<times> workflow_state" where
  "row_view env row = (wi_id row, state_from_kind_and_payload (env_json env) (wi_state_kind row) (wi_state_payload row))"

text \<open>Of several rows of one ticket, the last.\<close>

definition owning_row :: "work_item_state_kind work_item_row list \<Rightarrow> string \<Rightarrow> work_item_state_kind work_item_row option" where
  "owning_row rows k = map_of (rev (List.map (\<lambda>r. (wi_ticket_key r, r)) rows)) k"

lemma restore_row_view:
  "item_view (restore_row env row e) k = (if k = wi_ticket_key row then Some (row_view env row) else item_view e k)"
proof -
  obtain runs e1 where 1: "db_read (\<lambda>db. list_definition_runs db (wi_id row)) e = (runs, e1)" by fastforce
  have "wf_get e1 k = wf_get e k"
    using only_dbD(1) [OF only_db_exec [of e "\<lambda>db. (list_definition_runs db (wi_id row), db)"]] 1
    by (simp add: db_read_def wf_get_def)
  then show ?thesis
    by (simp add: restore_row_def 1 fresh_token_def Let_def item_view_def row_view_def from_work_item_row_def)
qed

lemma restore_rows_view:
  "item_view (fold (restore_row env) rows e) k =
     (case owning_row rows k of None \<Rightarrow> item_view e k | Some row \<Rightarrow> Some (row_view env row))"
proof (induction rows rule: rev_induct)
  case (snoc row rows)
  then show ?case by (simp add: restore_row_view owning_row_def)
qed (simp add: owning_row_def)

lemma supplement_view: "wf_id (supplement rec w) = wf_id w" "wf_state (supplement rec w) = wf_state w"
  by (simp_all add: supplement_def Let_def)

lemma insert_row_wf: "wf_get (shadow_persist_work_item env w e) k = wf_get e k"
  using only_dbD(1) [OF insert_row_keeps(1) [of e env w]]
  by (simp add: shadow_persist_work_item_def wf_get_def split: option.split)

lemma merge_record_view:
  "k \<in> set from_db \<Longrightarrow> item_view (merge_record env from_db rec e) k = item_view e k"
  by (auto simp: merge_record_def Let_def fresh_token_def item_view_def insert_row_wf option.map_comp comp_def
      supplement_view)

lemma merge_records_view:
  "k \<in> set from_db \<Longrightarrow> item_view (fold (merge_record env from_db) recs e) k = item_view e k"
  by (induction recs arbitrary: e) (simp_all add: merge_record_view)

lemma read_records_wf: "wf_get (snd (read_records env e)) k = wf_get e k"
  by (auto simp: read_records_def wf_get_def split: sum.split option.split prod.split)

lemma name_workspace_wf: "wf_get (snd (name_workspace env rec e)) k = wf_get e k"
  by (auto simp: name_workspace_def Let_def next_io_def wf_get_def split: option.split list.split)

lemma name_workspaces_wf: "wf_get (snd (name_workspaces env recs e)) k = wf_get e k"
  by (induction recs arbitrary: e) (simp_all add: case_prod_beta name_workspace_wf)

lemma restore_item_view:
  assumes "item_view e k = Some (i, st')" and "st' = st \<or> st' = Error st interrupted"
  shows "\<exists>st'. item_view (restore_item env k' e) k = Some (i, st') \<and> (st' = st \<or> st' = Error st interrupted)"
proof (cases "k' = k")
  case True
  obtain w where w: "wf_get e k = Some w" "wf_id w = i" "wf_state w = st'"
    using assms(1) by (auto simp: item_view_def)
  then show ?thesis
    using True assms(2) restore_item_state [OF w(1), of env]
    by (auto simp: item_view_def needs_no_driver_def is_terminal_def)
next
  case False
  then have "item_view (restore_item env k' e) k = item_view e k"
    using restore_item_other [of k k' env e] by (simp add: item_view_def)
  then show ?thesis using assms by auto
qed

lemma restore_items_view:
  assumes "item_view e k = Some (i, st)"
  shows "\<exists>st'. item_view (fold (restore_item env) ks e) k = Some (i, st') \<and> (st' = st \<or> st' = Error st interrupted)"
  by (rule fold_invariant [where I = "\<lambda>e. \<exists>st'. item_view e k = Some (i, st') \<and> (st' = st \<or> st' = Error st interrupted)"])
    (use assms restore_item_view in auto)

lemma restore_phases:
  assumes "restore env e = (Inr n, e')"
  obtains from_db e1 recs e2 e3 where "load_rows env e = (from_db, e1)" "read_records env e1 = (Inr recs, e2)"
    "\<And>k. wf_get e3 k = wf_get e1 k"
    "e' = (let e5 = fold (merge_record env from_db) (sort_key pr_started_at (fst (name_workspaces env recs e2))) e3
           in fold (restore_item env) (hash_keys env e5) e5)"
proof -
  obtain from_db e1 where 1: "load_rows env e = (from_db, e1)" by fastforce
  obtain recs e2 where 2: "read_records env e1 = (Inr recs, e2)"
    using assms by (cases "read_records env e1") (auto simp: restore_def 1 split: sum.splits)
  obtain named e3 where 3: "name_workspaces env recs e2 = (named, e3)" by fastforce
  have "wf_get e3 k = wf_get e1 k" for k
    using read_records_wf [of env e1 k] name_workspaces_wf [of env recs e2 k] by (simp add: 2 3)
  then show thesis
    using that [OF 1 2, of "e3\<lparr>eng_files := cleanup_legacy_global_snapshot (env_file_io env) (eng_files e3)\<rparr>"] assms
    by (simp add: restore_def 1 2 3 Let_def wf_get_def)
qed

subsection \<open>Properties\<close>


definition crashed_engine :: engine where
  "crashed_engine = sample_engine\<lparr>eng_workflows := [], eng_drivers := [],
     eng_db := Some ((empty_db {})\<lparr>db_items := [encode_work_item (to_work_item_row (env_json sample_env)
       ((sample_item 0 ''T-1'' Reviewing)\<lparr>wf_driver_started := True\<rparr>))]\<rparr>)\<rparr>"

lemma crashed_restores: "restore sample_env crashed_engine = (Inr 1, snd (restore sample_env crashed_engine))"
proof -
  have "fst (restore sample_env crashed_engine) = Inr 1" by code_simp
  then show ?thesis by (metis prod.collapse)
qed




end
