(* ===== verification/Engine_Removal.thy ===== *)
theory Engine_Removal
  imports Engine_Lifecycle_Props
begin

text \<open>
  What removing a work item does: \<open>delete_workflow\<close> and \<open>mark_work_done\<close> of
  \<open>engine/lifecycle.rs\<close>, on every outcome of the ticket and git calls they make.
\<close>

lemma sync_fields [simp]:
  "wf_get (snd (sync_from_map env e)) k = wf_get e k" "eng_db (snd (sync_from_map env e)) = eng_db e"
  "eng_cancelled (snd (sync_from_map env e)) = eng_cancelled e"
  "eng_drivers (snd (sync_from_map env e)) = eng_drivers e"
  using sync_core [of e env] by (simp_all add: same_core_wf [OF sync_core]) (simp_all add: same_core_def)

text \<open>The rows that are listed: those not soft-deleted.\<close>

definition live_ids :: "database \<Rightarrow> string set" where
  "live_ids db = wi_id ` {r \<in> set (db_items db). wi_deleted_at r = None}"

lemma live_soft_delete: "live_ids (soft_delete_work_item i now db) = live_ids db - {i}"
proof -
  define del where "del r = (if wi_id r = i then r\<lparr>wi_deleted_at := Some now\<rparr> else r)" for r :: stored_work_item
  have del: "wi_id (del r) = wi_id r" "wi_deleted_at (del r) = None \<longleftrightarrow> wi_id r \<noteq> i \<and> wi_deleted_at r = None" for r
    by (simp_all add: del_def)
  have "db_items (soft_delete_work_item i now db) = List.map del (db_items db)"
    by (simp add: soft_delete_work_item_def update_item_def del_def)
  then have "live_ids (soft_delete_work_item i now db) =
      wi_id ` del ` {r \<in> set (db_items db). wi_deleted_at (del r) = None}"
    unfolding live_ids_def by auto
  then show ?thesis by (simp only: image_image del) (auto simp: live_ids_def)
qed

text \<open>The statement that drops the row is tried once.\<close>

definition next_fails :: "engine \<Rightarrow> bool" where
  "next_fails e \<longleftrightarrow> (case eng_io e of [] \<Rightarrow> False | ok # _ \<Rightarrow> \<not> ok)"

lemma drop_item_effect:
  "wf_get (drop_item env k i e) k' = (if k' = k then None else wf_get e k')"
  "eng_drivers (drop_item env k i e) = eng_drivers e"
  "eng_cancelled (drop_item env k i e) = eng_cancelled e"
  "map_option live_ids (eng_db (drop_item env k i e)) =
     map_option (\<lambda>db. if next_fails e then live_ids db else live_ids db - {i}) (eng_db e)"
proof -
  have fields: "eng_db (wf_remove k e) = eng_db e" "eng_io (wf_remove k e) = eng_io e"
    "eng_drivers (wf_remove k e) = eng_drivers e" "eng_cancelled (wf_remove k e) = eng_cancelled e"
    by (simp_all add: wf_remove_def)
  show "wf_get (drop_item env k i e) k' = (if k' = k then None else wf_get e k')"
    "eng_drivers (drop_item env k i e) = eng_drivers e" "eng_cancelled (drop_item env k i e) = eng_cancelled e"
    by (simp_all add: drop_item_def Let_def fields only_dbD [OF db_write_keeps(1)] split: option.split)
  show "map_option live_ids (eng_db (drop_item env k i e)) =
     map_option (\<lambda>db. if next_fails e then live_ids db else live_ids db - {i}) (eng_db e)"
    by (auto simp: drop_item_def Let_def fields next_fails_def db_write_eq live_soft_delete split: option.split list.split)
qed

lemma core_fields:
  assumes "same_core e e'"
  shows "wf_get e' k = wf_get e k" "eng_db e' = eng_db e" "eng_cancelled e' = eng_cancelled e"
    "eng_drivers e' = eng_drivers e"
  using same_core_wf [OF assms] assms by (simp_all add: same_core_def)

lemmas removal_fields =
  core_fields [OF resolve_repo_core] core_fields [OF remove_worktree_core] core_fields [OF delete_branch_core]
  core_fields [OF prune_core] core_fields [OF finish_ticket_core] drop_item_effect(1-3)


text \<open>
  Deleting an item is refused, without a change, while a driver that was started is active on it;
  otherwise the item is gone, its token cancelled and no other, and its row is no longer listed unless
  the one statement for it fails.
\<close>
lemma delete_workflow_outcome:
  "case delete_workflow env k e of
     (Inl err, e') \<Rightarrow> e' = e \<and>
       (case wf_get e k of
          None \<Rightarrow> err = WorkflowNotFound k
        | Some w \<Rightarrow> is_active (wf_state w) \<and> wf_driver_started w)
   | (Inr _, e') \<Rightarrow> \<exists>w. wf_get e k = Some w \<and> \<not> (is_active (wf_state w) \<and> wf_driver_started w) \<and>
       wf_get e' = (wf_get e)(k := None) \<and> eng_cancelled e' = insert (wf_cancel_token w) (eng_cancelled e) \<and>
       eng_drivers e' = eng_drivers e \<and>
       (\<exists>lost. map_option live_ids (eng_db e') = map_option (\<lambda>db. if lost then live_ids db else live_ids db - {wf_id w}) (eng_db e))"
proof (cases "wf_get e k")
  case (Some w)
  show ?thesis
  proof (cases "is_active (wf_state w) \<and> wf_driver_started w")
    case False
    then show ?thesis
      using Some by (auto simp: delete_workflow_def Let_def case_prod_beta removal_fields drop_item_effect(4) fun_eq_iff)
  qed (use Some in \<open>simp add: delete_workflow_def\<close>)
qed (simp add: delete_workflow_def)

end
