(* ===== verification/Stream_Humanize.thy ===== *)
theory Stream_Humanize
  imports Prompts
begin

text \<open>
  \<open>workflow/stream_humanize.rs\<close>: the lines an agent prints, made readable for the dashboard. The
  parser and the printer of \<open>serde_json\<close> are parameters. Slicing a string inside a character
  panics; a panic is \<open>Inl ()\<close>.
\<close>

subsection \<open>Characters\<close>

text \<open>The characters of a text: each is its first byte and the continuation bytes that follow.\<close>

function utf8_chars :: "string \<Rightarrow> string list" where
  "utf8_chars [] = []"
| "utf8_chars (c # s) =
     (c # takeWhile (\<lambda>b. \<not> char_start b) s) # utf8_chars (dropWhile (\<lambda>b. \<not> char_start b) s)"
  by pat_completeness auto

termination utf8_chars
  by (relation "measure length") (auto simp: le_imp_less_Suc length_dropWhile_le)

definition char_count :: "string \<Rightarrow> nat" where
  "char_count s = length (utf8_chars s)"

definition take_chars :: "nat \<Rightarrow> string \<Rightarrow> string" where
  "take_chars n s = concat (take n (utf8_chars s))"

definition drop_chars :: "nat \<Rightarrow> string \<Rightarrow> string" where
  "drop_chars n s = concat (drop n (utf8_chars s))"

definition char_is_whitespace :: "string \<Rightarrow> bool" where
  "char_is_whitespace ch =
     (case ch of [c] \<Rightarrow> ascii_ws c | [c, d] \<Rightarrow> ws2 c d | [c, d, e] \<Rightarrow> ws3 c d e | _ \<Rightarrow> False)"

text \<open>\<open>char::is_control\<close>: U+0000 to U+001F and U+007F to U+009F.\<close>

definition char_is_control :: "string \<Rightarrow> bool" where
  "char_is_control ch =
     (case ch of
        [c] \<Rightarrow> (let n = (of_char c :: nat) in n < 32 \<or> n = 127)
      | [c, d] \<Rightarrow> (of_char c :: nat) = 194 \<and> (of_char d :: nat) < 160
      | _ \<Rightarrow> False)"

function words_of :: "string list \<Rightarrow> string list" where
  "words_of chars =
     (case dropWhile char_is_whitespace chars of
        [] \<Rightarrow> []
      | ch # r \<Rightarrow>
          (ch @ concat (takeWhile (\<lambda>c. \<not> char_is_whitespace c) r)) #
          words_of (dropWhile (\<lambda>c. \<not> char_is_whitespace c) r))"
  by pat_completeness auto

termination words_of
proof (relation "measure length")
  fix chars ch and r :: "string list"
  assume "dropWhile char_is_whitespace chars = ch # r"
  then have "length (ch # r) \<le> length chars" by (metis length_dropWhile_le)
  moreover have "length (dropWhile (\<lambda>c. \<not> char_is_whitespace c) r) \<le> length r" by (rule length_dropWhile_le)
  ultimately show "(dropWhile (\<lambda>c. \<not> char_is_whitespace c) r, chars) \<in> measure length" by simp
qed simp

declare words_of.simps [simp del]

definition split_whitespace :: "string \<Rightarrow> string list" where
  "split_whitespace s = words_of (utf8_chars s)"

text \<open>\<open>&s[..n]\<close>\<close>

definition slice_to :: "nat \<Rightarrow> string \<Rightarrow> unit + string" where
  "slice_to n s =
     (if n = length s \<or> n < length s \<and> (n = 0 \<or> char_start (s ! n)) then Inr (take n s) else Inl ())"

subsection \<open>JSON\<close>

datatype json =
    JNull
  | JBool bool
  | JInt int
  | JFloat string
  | JString string
  | JArray "json list"
  | JObject "(string \<times> json) list"

record json_lib =
  parse_json :: "string \<Rightarrow> json option"
  print_json :: "json \<Rightarrow> string option"

fun json_get :: "string \<Rightarrow> json \<Rightarrow> json option" where
  "json_get key (JObject entries) = map_of entries key"
| "json_get key _ = None"

fun as_str :: "json \<Rightarrow> string option" where
  "as_str (JString s) = Some s"
| "as_str _ = None"

fun as_array :: "json \<Rightarrow> json list option" where
  "as_array (JArray xs) = Some xs"
| "as_array _ = None"

fun as_u64 :: "json \<Rightarrow> nat option" where
  "as_u64 (JInt i) = (if 0 \<le> i \<and> i < 2 ^ 64 then Some (nat i) else None)"
| "as_u64 _ = None"

fun as_i64 :: "json \<Rightarrow> int option" where
  "as_i64 (JInt i) = (if - (2 ^ 63) \<le> i \<and> i < 2 ^ 63 then Some i else None)"
| "as_i64 _ = None"

text \<open>\<open>value.get(k1).and_then(|v| v.get(k2))\<close> and so on.\<close>

fun json_at :: "string list \<Rightarrow> json \<Rightarrow> json option" where
  "json_at [] v = Some v"
| "json_at (key # keys) v = (case json_get key v of None \<Rightarrow> None | Some v' \<Rightarrow> json_at keys v')"

definition str_at :: "string list \<Rightarrow> json \<Rightarrow> string option" where
  "str_at keys v = (case json_at keys v of None \<Rightarrow> None | Some v' \<Rightarrow> as_str v')"

subsection \<open>Session identifiers and lines without progress\<close>

fun session_id_in :: "json_lib \<Rightarrow> string list \<Rightarrow> string option" where
  "session_id_in lib [] = None"
| "session_id_in lib (line # ls) =
     (case parse_json lib (trim line) of
        Some v \<Rightarrow>
          if str_at [''type''] v = Some ''system'' \<and> str_at [''subtype''] v = Some ''init''
          then str_at [''session_id''] v
          else session_id_in lib ls
      | None \<Rightarrow> session_id_in lib ls)"

definition extract_session_id_from_ndjson :: "json_lib \<Rightarrow> string \<Rightarrow> string option" where
  "extract_session_id_from_ndjson lib raw = session_id_in lib (lines raw)"

definition trim_dots :: "string \<Rightarrow> string" where
  "trim_dots s = rev (dropWhile (\<lambda>c. c = CHR ''.'') (rev s))"

definition is_session_lifecycle_line :: "string \<Rightarrow> bool" where
  "is_session_lifecycle_line line =
     (let l = to_ascii_lowercase (trim_dots (trim line))
      in suffix ''session initialized'' l \<or> suffix ''session completed'' l)"

definition is_no_progress_exempt :: "string \<Rightarrow> bool" where
  "is_no_progress_exempt line \<longleftrightarrow> is_session_lifecycle_line line \<or> trim line = ''Tool call started''"

subsection \<open>Shortening\<close>

definition short_shell_command :: "string \<Rightarrow> nat \<Rightarrow> string" where
  "short_shell_command cmd max_chars =
     (let c = trim cmd in if char_count c \<le> max_chars then c else take_chars max_chars c @ ellipsis)"

definition truncate_label :: "string \<Rightarrow> nat \<Rightarrow> string" where
  "truncate_label s n = (if char_count s > n then take_chars n s @ ellipsis else s)"

definition cursor_shell_output_pick :: "json \<Rightarrow> string option" where
  "cursor_shell_output_pick r =
     find_map (\<lambda>key. case str_at [key] r of
         Some s \<Rightarrow> if trim s = [] then None else Some s
       | None \<Rightarrow> None) [''stderr'', ''stdout'', ''output'', ''message'']"

definition cursor_tail_for_dashboard :: "string \<Rightarrow> nat \<Rightarrow> string" where
  "cursor_tail_for_dashboard s max_chars =
     (let one_line = concat (List.map (\<lambda>ch. if char_is_control ch \<and> ch \<noteq> [CHR 0x09] then '' '' else ch) (utf8_chars s));
          collapsed = join '' '' (split_whitespace one_line);
          n = char_count collapsed
      in if n \<le> max_chars then collapsed else ellipsis @ drop_chars (n - max_chars) collapsed)"

definition cursor_shell_completed_dashboard_line :: "string \<Rightarrow> string \<Rightarrow> int \<Rightarrow> json \<Rightarrow> string" where
  "cursor_shell_completed_dashboard_line outcome cmd exit_code detail =
     (let short = short_shell_command cmd 120;
          line = (if outcome = ''success'' then ''Done (exit '' else ''Failed (exit '') @ show_int exit_code @ ''): '' @ short
      in case cursor_shell_output_pick detail of
           None \<Rightarrow> line
         | Some out \<Rightarrow>
             let tail = cursor_tail_for_dashboard out 300
             in if tail = [] then line else line @ '' '' @ em_dash @ '' '' @ tail)"

definition cursor_function_args_snippet :: "json_lib \<Rightarrow> json \<Rightarrow> string option" where
  "cursor_function_args_snippet lib f =
     (case (case json_get ''arguments'' f of Some v \<Rightarrow> Some v | None \<Rightarrow> json_get ''args'' f) of
        None \<Rightarrow> None
      | Some raw \<Rightarrow>
          (case (case as_str raw of Some t \<Rightarrow> Some (trim t) | None \<Rightarrow> map_option trim (print_json lib raw)) of
             None \<Rightarrow> None
           | Some s \<Rightarrow> if s = [] then None else Some (truncate_label s 100)))"

subsection \<open>Providers\<close>

text \<open>The part the four have in common: what is no JSON object passes as it is.\<close>

definition humanize_event :: "json_lib \<Rightarrow> (string \<Rightarrow> json \<Rightarrow> unit + string option) \<Rightarrow> string \<Rightarrow> unit + string option" where
  "humanize_event lib handle raw =
     (let trimmed = trim raw in
      if trimmed = [] then Inr None
      else if \<not> starts_with ''{'' trimmed then Inr (Some raw)
      else (case parse_json lib trimmed of
              None \<Rightarrow> Inr (Some raw)
            | Some v \<Rightarrow> handle (unwrap_or [] (str_at [''type''] v)) v))"

text \<open>The text items of a message's content, joined.\<close>

definition text_items :: "json list \<Rightarrow> string list" where
  "text_items arr = List.map_filter (\<lambda>item. if str_at [''type''] item = Some ''text'' then str_at [''text''] item else None) arr"

definition content_text :: "json \<Rightarrow> string option" where
  "content_text content =
     (case as_str content of
        Some text \<Rightarrow> Some text
      | None \<Rightarrow>
          (case as_array content of
             None \<Rightarrow> None
           | Some arr \<Rightarrow> if text_items arr = [] then None else Some (join [] (text_items arr))))"

definition message_text :: "json \<Rightarrow> string option" where
  "message_text v = (case json_at [''message'', ''content''] v of None \<Rightarrow> None | Some c \<Rightarrow> content_text c)"

definition claude_event :: "string \<Rightarrow> json \<Rightarrow> unit + string option" where
  "claude_event event_type v =
     (if event_type = ''system'' then
        Inr (case unwrap_or [] (str_at [''subtype''] v) of subtype \<Rightarrow>
          if subtype = ''init'' then Some ''Claude Code session initialized''
          else if subtype = ''api_retry'' then
            Some (''Retrying API connection (attempt '' @
              show_nat (unwrap_or 0 (case json_at [''attempt''] v of None \<Rightarrow> None | Some a \<Rightarrow> as_u64 a)) @ ''): '' @
              unwrap_or ''unknown'' (str_at [''error''] v))
          else None)
      else if event_type = ''result'' then
        Inr (Some (case str_at [''result''] v of
            Some r \<Rightarrow> if r \<noteq> [] then r else ''Session completed.''
          | None \<Rightarrow> ''Session completed.''))
      else if event_type = ''assistant'' then Inr (message_text v)
      else if event_type = ''tool_use'' \<or> event_type = ''tool_call'' then
        (let tool_name = unwrap_or [] (str_at [''name''] v);
             other = Inr (Some (if tool_name \<noteq> [] then ''Tool: '' @ tool_name else ''Tool call started''))
         in if tool_name = ''Bash'' \<or> tool_name = ''bash'' then
              (case str_at [''input'', ''command''] v of
                 None \<Rightarrow> other
               | Some cmd \<Rightarrow>
                   (case (if length cmd > 120 then slice_to 120 cmd else Inr cmd) of
                      Inl u \<Rightarrow> Inl u
                    | Inr short \<Rightarrow> Inr (Some (''$ '' @ short))))
            else other)
      else if event_type = ''content_block_delta'' then Inr (str_at [''delta'', ''text''] v)
      else Inr None)"

definition lints_line :: "nat \<Rightarrow> string" where
  "lints_line n =
     (if n = 0 then ''Reading lints''
      else if n = 1 then ''Reading lints (1 file)''
      else ''Reading lints ('' @ show_nat n @ '' files)'')"

definition array_len_at :: "string list \<Rightarrow> json \<Rightarrow> nat" where
  "array_len_at keys v =
     (case json_at keys v of None \<Rightarrow> 0 | Some a \<Rightarrow> (case as_array a of None \<Rightarrow> 0 | Some xs \<Rightarrow> length xs))"

definition tool_started :: "json_lib \<Rightarrow> json \<Rightarrow> string option" where
  "tool_started lib tc =
     (case json_get ''shellToolCall'' tc of
        Some s \<Rightarrow> map_option (\<lambda>cmd. ''$ '' @ short_shell_command cmd 120) (str_at [''args'', ''command''] s)
      | None \<Rightarrow>
     (case json_get ''readToolCall'' tc of
        Some r \<Rightarrow> map_option (\<lambda>p. ''Reading '' @ p) (str_at [''args'', ''path''] r)
      | None \<Rightarrow>
     (case json_get ''writeToolCall'' tc of
        Some w \<Rightarrow> map_option (\<lambda>p. ''Writing '' @ p) (str_at [''args'', ''path''] w)
      | None \<Rightarrow>
     (case json_get ''editToolCall'' tc of
        Some e \<Rightarrow> map_option (\<lambda>p. ''Editing '' @ p) (str_at [''args'', ''file_path''] e)
      | None \<Rightarrow>
     (case json_get ''globToolCall'' tc of
        Some g \<Rightarrow> map_option (\<lambda>p. ''Glob '' @ truncate_label p 80) (str_at [''args'', ''globPattern''] g)
      | None \<Rightarrow>
     (case json_get ''grepToolCall'' tc of
        Some g \<Rightarrow> map_option (\<lambda>p. ''Searching '' @ [CHR 0x22] @ truncate_label p 80 @ [CHR 0x22])
          (str_at [''args'', ''pattern''] g)
      | None \<Rightarrow>
     (case json_get ''readLintsToolCall'' tc of
        Some l \<Rightarrow> Some (lints_line (array_len_at [''args'', ''paths''] l))
      | None \<Rightarrow>
     (case json_get ''webSearchToolCall'' tc of
        Some s \<Rightarrow> map_option (\<lambda>term. ''Web search '' @ [CHR 0x22] @ truncate_label term 80 @ [CHR 0x22])
          (str_at [''args'', ''searchTerm''] s)
      | None \<Rightarrow>
     (case json_get ''updateTodosToolCall'' tc of
        Some t \<Rightarrow> Some (''Updating todos ('' @ show_nat (array_len_at [''args'', ''todos''] t) @ '')'')
      | None \<Rightarrow>
     (case json_get ''awaitToolCall'' tc of
        Some a \<Rightarrow> Some (case str_at [''args'', ''taskId''] a of
            Some task \<Rightarrow> ''Awaiting task '' @ task
          | None \<Rightarrow> ''Awaiting task'')
      | None \<Rightarrow>
     (case json_get ''function'' tc of
        Some f \<Rightarrow>
          (case cursor_function_args_snippet lib f of
             Some snippet \<Rightarrow> Some (''Tool: '' @ unwrap_or ''unknown'' (str_at [''name''] f) @ '' ('' @ snippet @ '')'')
           | None \<Rightarrow> Some (''Tool: '' @ unwrap_or ''unknown'' (str_at [''name''] f)))
      | None \<Rightarrow> Some ''Tool call started'')))))))))))"

definition tool_completed :: "json \<Rightarrow> string option" where
  "tool_completed tc =
     (case json_at [''shellToolCall'', ''result''] tc of
        None \<Rightarrow> None
      | Some result \<Rightarrow>
          (case (case json_get ''success'' result of
                   Some r \<Rightarrow> Some (''success'', r)
                 | None \<Rightarrow> map_option (Pair ''failure'') (json_get ''failure'' result)) of
             None \<Rightarrow> None
           | Some (key, r) \<Rightarrow>
               Some (cursor_shell_completed_dashboard_line key (unwrap_or [] (str_at [''command''] r))
                 (unwrap_or (- 1) (case json_at [''exitCode''] r of None \<Rightarrow> None | Some c \<Rightarrow> as_i64 c)) r)))"

definition summarize_cursor_tool_event :: "json_lib \<Rightarrow> json \<Rightarrow> string option" where
  "summarize_cursor_tool_event lib v =
     (let subtype = unwrap_or [] (str_at [''subtype''] v) in
      case json_get ''tool_call'' v of
        None \<Rightarrow> None
      | Some tc \<Rightarrow>
          if subtype = ''started'' then tool_started lib tc
          else if subtype = ''completed'' then tool_completed tc
          else None)"

definition nonempty_trimmed :: "string \<Rightarrow> string option" where
  "nonempty_trimmed s = (if trim s = [] then None else Some (trim s))"

definition cursor_event :: "json_lib \<Rightarrow> string \<Rightarrow> json \<Rightarrow> string option" where
  "cursor_event lib event_type v =
     (if event_type = ''system'' then
        (if unwrap_or [] (str_at [''subtype''] v) = ''init''
         then Some (''Cursor Agent initialized ('' @ unwrap_or ''default'' (str_at [''model''] v) @ '')'')
         else None)
      else if event_type = ''assistant'' then
        (case message_text v of None \<Rightarrow> None | Some s \<Rightarrow> nonempty_trimmed s)
      else if event_type = ''tool_call'' then summarize_cursor_tool_event lib v
      else if event_type = ''result'' then
        Some (case str_at [''result''] v of
            Some r \<Rightarrow> unwrap_or ''Cursor Agent session completed.'' (nonempty_trimmed r)
          | None \<Rightarrow> ''Cursor Agent session completed.'')
      else None)"

definition codex_event :: "string \<Rightarrow> json \<Rightarrow> string option" where
  "codex_event event_type v =
     (if event_type = ''thread.started'' then Some ''Codex session initialized''
      else if event_type = ''turn.started'' then None
      else if event_type = ''turn.completed'' then Some ''Codex session completed''
      else if event_type = ''turn.failed'' then
        Some (''Codex error: '' @ unwrap_or ''unknown error'' (str_at [''error'', ''message''] v))
      else if event_type = ''error'' then
        Some (''Codex error: '' @ unwrap_or ''unknown error'' (str_at [''message''] v))
      else if event_type = ''item.completed'' then
        (case json_get ''item'' v of
           None \<Rightarrow> None
         | Some item \<Rightarrow>
             (let item_type = unwrap_or [] (str_at [''type''] item) in
              if item_type = ''agent_message'' then
                (case str_at [''text''] item of None \<Rightarrow> None | Some text \<Rightarrow> nonempty_trimmed text)
              else if item_type = ''command_execution'' then
                Some (''$ '' @ short_shell_command (unwrap_or ''(command)'' (str_at [''command''] item)) 120)
              else None))
      else None)"

definition trim_quotes :: "string \<Rightarrow> string" where
  "trim_quotes s = rev (dropWhile (\<lambda>c. c = CHR 0x22) (rev (dropWhile (\<lambda>c. c = CHR 0x22) s)))"

definition opencode_event :: "string \<Rightarrow> json \<Rightarrow> string option" where
  "opencode_event event_type v =
     (if event_type = ''step_start'' then Some ''OpenCode session initialized''
      else if event_type = ''step_finish'' then
        (if unwrap_or [] (str_at [''reason''] v) = ''stop'' then Some ''OpenCode session completed'' else None)
      else if event_type = ''text'' then
        (case find_map (\<lambda>keys. str_at keys v) [[''part'', ''text''], [''text'']] of
           None \<Rightarrow> None
         | Some text \<Rightarrow> nonempty_trimmed text)
      else if event_type = ''error'' then
        (let msg = unwrap_or ''unknown error'' (find_map (\<lambda>keys. str_at keys v)
               [[''message''], [''error'', ''message''], [''error'', ''data'', ''message''],
                [''error'', ''data'', ''error''], [''error'', ''cause'', ''message''], [''error'']])
         in Some (''OpenCode error: '' @ trim_quotes (trim msg)))
      else None)"

definition humanize_claude_output :: "json_lib \<Rightarrow> string \<Rightarrow> unit + string option" where
  "humanize_claude_output lib raw = humanize_event lib claude_event raw"

definition humanize_cursor_output :: "json_lib \<Rightarrow> string \<Rightarrow> unit + string option" where
  "humanize_cursor_output lib raw = humanize_event lib (\<lambda>t v. Inr (cursor_event lib t v)) raw"

definition humanize_codex_output :: "json_lib \<Rightarrow> string \<Rightarrow> unit + string option" where
  "humanize_codex_output lib raw = humanize_event lib (\<lambda>t v. Inr (codex_event t v)) raw"

definition humanize_opencode_output :: "json_lib \<Rightarrow> string \<Rightarrow> unit + string option" where
  "humanize_opencode_output lib raw = humanize_event lib (\<lambda>t v. Inr (opencode_event t v)) raw"

definition humanize_agent_stream_line :: "json_lib \<Rightarrow> ai_agent_provider \<Rightarrow> string \<Rightarrow> unit + string option" where
  "humanize_agent_stream_line lib provider raw =
     (case provider of
        Claude \<Rightarrow> humanize_claude_output lib raw
      | Cursor \<Rightarrow> humanize_cursor_output lib raw
      | Codex \<Rightarrow> humanize_codex_output lib raw
      | OpenCode \<Rightarrow> humanize_opencode_output lib raw)"

subsection \<open>Properties\<close>

lemma slice_to_Inl: "slice_to n s = Inl () \<longleftrightarrow> length s < n \<or> n < length s \<and> n \<noteq> 0 \<and> \<not> char_start (s ! n)"
  by (auto simp: slice_to_def)

lemma claude_event_Inl:
  "claude_event t v = Inl () \<longleftrightarrow> (t = ''tool_use'' \<or> t = ''tool_call'') \<and>
     unwrap_or [] (str_at [''name''] v) \<in> {''Bash'', ''bash''} \<and>
     (\<exists>cmd. str_at [''input'', ''command''] v = Some cmd \<and> 120 < length cmd \<and> \<not> char_start (cmd ! 120))"
proof -
  have "(case slice_to 120 cmd of Inl u \<Rightarrow> Inl u | Inr short \<Rightarrow> Inr (Some (''$ '' @ short))) = Inl () \<longleftrightarrow>
      slice_to 120 cmd = Inl ()" for cmd
    by (cases "slice_to 120 cmd") simp_all
  then have "(case (if length cmd > 120 then slice_to 120 cmd else Inr cmd) of Inl u \<Rightarrow> Inl u
        | Inr short \<Rightarrow> Inr (Some (''$ '' @ short))) = Inl () \<longleftrightarrow> 120 < length cmd \<and> \<not> char_start (cmd ! 120)" for cmd
    by (simp add: slice_to_Inl)
  then show ?thesis by (simp add: claude_event_def Let_def split: option.split)
qed

text \<open>
  Making a line readable panics in one case only: a Claude event that starts a shell command
  longer than 120 bytes with a character across byte 120. The task that relays the output then
  ends, and with it the guard against repetition.
\<close>
lemma humanize_panics_iff:
  "humanize_agent_stream_line lib provider raw = Inl () \<longleftrightarrow>
     provider = Claude \<and> starts_with ''{'' (trim raw) \<and>
     (\<exists>v cmd. parse_json lib (trim raw) = Some v \<and> str_at [''input'', ''command''] v = Some cmd \<and>
        unwrap_or [] (str_at [''type''] v) \<in> {''tool_use'', ''tool_call''} \<and>
        unwrap_or [] (str_at [''name''] v) \<in> {''Bash'', ''bash''} \<and>
        120 < length cmd \<and> \<not> char_start (cmd ! 120))"
proof -
  have no: "humanize_event lib (\<lambda>t v. Inr (f t v)) raw \<noteq> Inl ()" for f
    by (simp add: humanize_event_def Let_def split: option.split)
  have "humanize_event lib claude_event raw = Inl () \<longleftrightarrow> starts_with ''{'' (trim raw) \<and>
      (\<exists>v. parse_json lib (trim raw) = Some v \<and> claude_event (unwrap_or [] (str_at [''type''] v)) v = Inl ())"
    by (auto simp: humanize_event_def Let_def starts_with_def split: option.split)
  then show ?thesis
    using no by (cases provider)
      (auto simp: humanize_agent_stream_line_def humanize_claude_output_def humanize_cursor_output_def
        humanize_codex_output_def humanize_opencode_output_def claude_event_Inl)
qed

text \<open>
  The line Cursor begins every session with is not among those the guard leaves out.
\<close>

lemma cursor_init_line_counts:
  "cursor_event lib ''system'' (JObject [(''subtype'', JString ''init'')]) = Some ''Cursor Agent initialized (default)'' \<and>
     \<not> is_no_progress_exempt ''Cursor Agent initialized (default)''"
proof -
  have "\<not> is_no_progress_exempt ''Cursor Agent initialized (default)''" by code_simp
  then show ?thesis by (simp add: cursor_event_def str_at_def)
qed

end
