(* ===== verification/Output_Relay.thy ===== *)
theory Output_Relay
  imports Engine_Lifecycle_Props Stream_Humanize
begin

text \<open>
  \<open>spawn_output_relay\<close> of \<open>engine/step_runner.rs\<close>: the task that takes the lines an agent or a
  command prints to the dashboard, keeps the last of them with the work item, and stops an agent that
  repeats itself. The log files it also writes to are not modelled.
\<close>

definition TERMINAL_LINES_MAX :: nat where
  "TERMINAL_LINES_MAX = 100"

record output_line =
  ol_stream :: string
  ol_content :: string

record relay_config =
  rl_ticket_key :: string
  rl_step_name :: string
  rl_provider :: ai_agent_provider
  rl_max_repeated :: u32
  rl_owner :: "string option"

text \<open>
  The task's own state. \<open>rl_loop\<close> is the signal to the step runner; the task has ended, by the
  signal or by a panic, when \<open>rl_open\<close> is off.
\<close>

record relay =
  rl_last_signal :: "string option"
  rl_repeat_count :: u32
  rl_loop :: "(u32 \<times> string) option"
  rl_open :: bool

definition relay_start :: relay where
  "relay_start = \<lparr>rl_last_signal = None, rl_repeat_count = 0, rl_loop = None, rl_open = True\<rparr>"

definition normalize_signal_line :: "string \<Rightarrow> string" where
  "normalize_signal_line line = to_ascii_lowercase (join '' '' (split_whitespace line))"

definition note_signal :: "u32 \<Rightarrow> string \<Rightarrow> relay \<Rightarrow> relay" where
  "note_signal max_repeated display_text r =
     (if max_repeated > 0 \<and> \<not> is_no_progress_exempt display_text then
        let norm = normalize_signal_line display_text in
        if norm = [] then r
        else
          let r1 = (if rl_last_signal r = Some norm then r\<lparr>rl_repeat_count := rl_repeat_count r + 1\<rparr>
                    else r\<lparr>rl_last_signal := Some norm, rl_repeat_count := 1\<rparr>)
          in if rl_repeat_count r1 \<ge> max_repeated
             then r1\<lparr>rl_loop := Some (rl_repeat_count r1, display_text), rl_open := False\<rparr>
             else r1
      else r)"

definition push_terminal_line :: "terminal_line \<Rightarrow> workflow \<Rightarrow> workflow" where
  "push_terminal_line l w =
     (let ls = wf_terminal_lines w @ [l]
      in w\<lparr>wf_terminal_lines := (if length ls > TERMINAL_LINES_MAX
             then drop (length ls - TERMINAL_LINES_MAX) ls else ls)\<rparr>)"

definition relay_line :: "env \<Rightarrow> json_lib \<Rightarrow> relay_config \<Rightarrow> output_line \<Rightarrow> relay \<times> engine \<Rightarrow> relay \<times> engine" where
  "relay_line env lib rc line x =
     (case x of (r, e) \<Rightarrow>
        if \<not> rl_open r then (r, e)
        else
          (case humanize_agent_stream_line lib (rl_provider rc) (ol_content line) of
             Inl _ \<Rightarrow> (r\<lparr>rl_open := False\<rparr>, e)
           | Inr None \<Rightarrow> (r, e)
           | Inr (Some display_text) \<Rightarrow>
               let e1 = modify_workflow (rl_ticket_key rc)
                     (push_terminal_line \<lparr>tl_text = display_text, tl_stream = ol_stream line\<rparr>) e
               in (case tick env e1 of (now, e2) \<Rightarrow>
                    (note_signal (rl_max_repeated rc) display_text r,
                     send ((default_event now)\<lparr>ev_type := ''step_output'', ev_ticket_key := rl_ticket_key rc,
                       ev_step_name := Some (rl_step_name rc), ev_output_line := Some display_text,
                       ev_stream := Some (ol_stream line), ev_user_id := rl_owner rc\<rparr>) e2))))"

text \<open>
  What goes on while a command or a session runs: lines arrive, and other tasks act on the engine, in
  any order.
\<close>

datatype happening = Line output_line | Others "engine \<Rightarrow> engine"

fun relay_all :: "env \<Rightarrow> json_lib \<Rightarrow> relay_config \<Rightarrow> happening list \<Rightarrow> relay \<times> engine \<Rightarrow> relay \<times> engine" where
  "relay_all env lib rc [] x = x"
| "relay_all env lib rc (Line l # hs) x = relay_all env lib rc hs (relay_line env lib rc l x)"
| "relay_all env lib rc (Others f # hs) x = relay_all env lib rc hs (fst x, f (snd x))"

subsection \<open>The guard against repetition\<close>

text \<open>
  Its specification: of the lines shown, those that count, normalised; the guard fires when one of
  them comes as often in a row as allowed.
\<close>

definition shown :: "json_lib \<Rightarrow> relay_config \<Rightarrow> happening \<Rightarrow> string option" where
  "shown lib rc h =
     (case h of
        Line l \<Rightarrow> (case humanize_agent_stream_line lib (rl_provider rc) (ol_content l) of Inr t \<Rightarrow> t | Inl _ \<Rightarrow> None)
      | Others _ \<Rightarrow> None)"

definition signal_of :: "string \<Rightarrow> string option" where
  "signal_of text =
     (if is_no_progress_exempt text \<or> normalize_signal_line text = [] then None
      else Some (normalize_signal_line text))"

definition signals :: "json_lib \<Rightarrow> relay_config \<Rightarrow> happening list \<Rightarrow> string list" where
  "signals lib rc hs = List.map_filter signal_of (List.map_filter (shown lib rc) hs)"

definition panics :: "json_lib \<Rightarrow> relay_config \<Rightarrow> happening \<Rightarrow> bool" where
  "panics lib rc h =
     (case h of Line l \<Rightarrow> humanize_agent_stream_line lib (rl_provider rc) (ol_content l) = Inl () | Others _ \<Rightarrow> False)"

text \<open>The run of equal signals that ends a list, in reverse.\<close>

fun last_run :: "string list \<Rightarrow> nat" where
  "last_run [] = 0"
| "last_run (x # xs) = Suc (length (takeWhile (\<lambda>y. y = x) xs))"

lemma prefix_replicate: "prefix (replicate n x) xs \<longleftrightarrow> n \<le> length (takeWhile (\<lambda>y. y = x) xs)"
proof (induction xs arbitrary: n)
  case (Cons y ys)
  then show ?case by (cases n) auto
qed simp

lemma last_run_eq: "xs \<noteq> [] \<Longrightarrow> last_run xs = length (takeWhile (\<lambda>y. y = hd xs) xs)"
  by (cases xs) simp_all

definition repeats :: "nat \<Rightarrow> string list \<Rightarrow> bool" where
  "repeats n xs \<longleftrightarrow> (\<exists>x. sublist (replicate n x) xs)"

lemma repeats_Nil: "0 < n \<Longrightarrow> \<not> repeats n []"
  by (simp add: repeats_def)

lemma repeats_Cons:
  assumes "0 < n" shows "repeats n (x # xs) \<longleftrightarrow> n \<le> last_run (x # xs) \<or> repeats n xs"
proof -
  have "prefix (replicate n y) (x # xs) \<longleftrightarrow> y = x \<and> n \<le> last_run (x # xs)" for y
    using assms unfolding prefix_replicate by auto
  then show ?thesis unfolding repeats_def by (auto simp: sublist_Cons_right)
qed

lemma repeats_rev: "repeats n (rev xs) = repeats n xs"
proof -
  have "sublist (replicate n x) (rev xs) = sublist (replicate n x) xs" for x
    using sublist_rev [of "replicate n x" xs] by simp
  then show ?thesis by (simp add: repeats_def)
qed

text \<open>The state of the task after signals, the last one first.\<close>

definition counted :: "u32 \<Rightarrow> string list \<Rightarrow> relay \<Rightarrow> bool" where
  "counted m xs r \<longleftrightarrow>
     (if repeats (unat m) xs then \<not> rl_open r \<and> rl_loop r \<noteq> None
      else rl_open r \<and> rl_loop r = None \<and> rl_last_signal r = (if xs = [] then None else Some (hd xs)) \<and>
        unat (rl_repeat_count r) = last_run xs)"

lemma note_signal_counted:
  assumes m: "0 < m" and c: "counted m xs r" and "rl_open r"
  shows "counted m ((case signal_of t of None \<Rightarrow> [] | Some x \<Rightarrow> [x]) @ xs) (note_signal m t r)"
proof (cases "signal_of t")
  case None
  then show ?thesis using c by (auto simp: note_signal_def signal_of_def Let_def split: if_splits)
next
  case (Some x)
  have m0: "0 < unat m" using m by (simp add: word_less_nat_alt)
  have no: "\<not> repeats (unat m) xs" and state: "rl_loop r = None" "rl_last_signal r = (if xs = [] then None else Some (hd xs))"
    "unat (rl_repeat_count r) = last_run xs"
    using c \<open>rl_open r\<close> by (simp_all add: counted_def split: if_splits)
  have less: "last_run xs < unat m"
    using no repeats_Cons [OF m0] m0 by (cases xs) (auto simp: not_le)
  define n where "n = (if rl_last_signal r = Some x then rl_repeat_count r + 1 else 1)"
  have n: "unat n = last_run (x # xs)"
  proof (cases "xs \<noteq> [] \<and> hd xs = x")
    case True
    have "unat (rl_repeat_count r + 1) = Suc (last_run xs)"
      using less state(3) unsigned_less [of m, where ?'a = nat] by (simp add: unat_word_ariths(1))
    then show ?thesis using True state(2) last_run_eq [of xs] by (cases xs) (simp_all add: n_def)
  next
    case False
    then show ?thesis using state(2) by (cases xs) (auto simp: n_def)
  qed
  have eq: "note_signal m t r =
      (let r1 = r\<lparr>rl_last_signal := Some x, rl_repeat_count := n\<rparr>
       in if n \<ge> m then r1\<lparr>rl_loop := Some (n, t), rl_open := False\<rparr> else r1)"
    using Some m by (cases r) (auto simp: note_signal_def signal_of_def n_def Let_def split: if_splits)
  have "repeats (unat m) (x # xs) \<longleftrightarrow> n \<ge> m"
    using repeats_Cons [OF m0, of x xs] no n by (simp add: word_le_nat_alt)
  then show ?thesis
    using Some n state(1) \<open>rl_open r\<close> by (simp add: eq counted_def Let_def)
qed

lemma counted_closed:
  assumes "counted m xs r" and "\<not> rl_open r" shows "counted m (ys @ xs) r"
proof -
  have "repeats (unat m) xs" and loop: "rl_loop r \<noteq> None"
    using assms by (auto simp: counted_def split: if_splits)
  then obtain x where "sublist (replicate (unat m) x) xs" by (auto simp: repeats_def)
  then have "sublist (replicate (unat m) x) (ys @ xs)" unfolding sublist_def by (metis append.assoc)
  then have "repeats (unat m) (ys @ xs)" by (auto simp: repeats_def)
  then show ?thesis using assms(2) loop by (simp add: counted_def)
qed

lemma signals_simps [simp]:
  "signals lib rc [] = []"
  "signals lib rc (h # hs) =
     (case shown lib rc h of None \<Rightarrow> [] | Some t \<Rightarrow> (case signal_of t of None \<Rightarrow> [] | Some x \<Rightarrow> [x])) @ signals lib rc hs"
  by (simp_all add: signals_def List.map_filter_simps split: option.split)

lemma relay_line_counted:
  assumes "0 < rl_max_repeated rc" and "counted (rl_max_repeated rc) xs (fst x)" and "\<not> panics lib rc (Line l)"
  shows "counted (rl_max_repeated rc)
    (rev (signals lib rc [Line l]) @ xs) (fst (relay_line env lib rc l x))"
proof (cases "rl_open (fst x)")
  case True
  then show ?thesis
    using assms note_signal_counted [OF assms(1,2) True, of "the (shown lib rc (Line l))"]
    by (cases "humanize_agent_stream_line lib (rl_provider rc) (ol_content l)")
      (auto simp: relay_line_def shown_def panics_def case_prod_beta Let_def split: option.splits)
next
  case False
  then show ?thesis using counted_closed [OF assms(2) False] by (simp add: relay_line_def case_prod_beta)
qed

lemma relay_all_counted:
  assumes "0 < rl_max_repeated rc"
  shows "counted (rl_max_repeated rc) xs (fst x) \<Longrightarrow> \<forall>h \<in> set hs. \<not> panics lib rc h \<Longrightarrow>
    counted (rl_max_repeated rc) (rev (signals lib rc hs) @ xs) (fst (relay_all env lib rc hs x))"
proof (induction hs arbitrary: x xs)
  case (Cons h hs)
  show ?case
  proof (cases h)
    case (Line l)
    have "counted (rl_max_repeated rc) (rev (signals lib rc [Line l]) @ xs) (fst (relay_line env lib rc l x))"
      using Cons.prems assms Line by (intro relay_line_counted) simp_all
    then have "counted (rl_max_repeated rc) (rev (signals lib rc hs) @ rev (signals lib rc [Line l]) @ xs)
        (fst (relay_all env lib rc hs (relay_line env lib rc l x)))"
      using Cons.prems by (intro Cons.IH) simp_all
    then show ?thesis by (simp add: Line)
  next
    case (Others f)
    then show ?thesis using Cons by (simp add: shown_def)
  qed
qed simp

text \<open>The last lines of the item, at most \<open>TERMINAL_LINES_MAX\<close> of them.\<close>

definition keep_last :: "nat \<Rightarrow> 'a list \<Rightarrow> 'a list" where
  "keep_last n xs = drop (length xs - n) xs"

lemma push_terminal_line_eq:
  "wf_terminal_lines (push_terminal_line l w) = keep_last TERMINAL_LINES_MAX (wf_terminal_lines w @ [l])"
  by (simp add: push_terminal_line_def keep_last_def Let_def)

lemma keep_last_snoc: "0 < n \<Longrightarrow> keep_last n (keep_last n xs @ [x]) = keep_last n (xs @ [x])"
  by (cases "n \<le> length xs") (simp_all add: keep_last_def Suc_diff_le)

subsection \<open>Properties\<close>


definition plain_lines :: "string list \<Rightarrow> happening list" where
  "plain_lines = List.map (\<lambda>l. Line \<lparr>ol_stream = ''stdout'', ol_content = l\<rparr>)"

definition codex_relay :: relay_config where
  "codex_relay = \<lparr>rl_ticket_key = ''T-1'', rl_step_name = ''fix'', rl_provider = Codex, rl_max_repeated = 2,
     rl_owner = None\<rparr>"

definition no_json :: json_lib where
  "no_json = \<lparr>parse_json = (\<lambda>_. None), print_json = (\<lambda>_. None)\<rparr>"


end
