(* ===== verification/Step_Runner.thy ===== *)
theory Step_Runner
  imports Output_Relay
begin

text \<open>
  \<open>engine/step_runner.rs\<close> and \<open>engine/auth_pin.rs\<close>: how the steps of a flow are run.

  What a step waits for is the record \<open>world\<close>: the pause poll, the slot, commands and agent
  sessions, each with what other tasks do to the engine meanwhile. A wait need not end: the result of an
  operation is \<open>None\<close> when it waits for ever. Every line a session prints is relayed before its
  result is looked at.
\<close>

subsection \<open>Runs\<close>

type_synonym 'a run = "((takuto_error + 'a) \<times> engine) option"

definition then_run :: "'a run \<Rightarrow> ('a \<Rightarrow> engine \<Rightarrow> 'b run) \<Rightarrow> 'b run" where
  "then_run m f =
     (case m of
        None \<Rightarrow> None
      | Some (Inl err, e) \<Rightarrow> Some (Inl err, e)
      | Some (Inr x, e) \<Rightarrow> f x e)"

fun run_all :: "('x \<Rightarrow> 's \<Rightarrow> engine \<Rightarrow> 's run) \<Rightarrow> 'x list \<Rightarrow> 's \<Rightarrow> engine \<Rightarrow> 's run" where
  "run_all f [] s e = Some (Inr s, e)"
| "run_all f (x # xs) s e = then_run (f x s e) (\<lambda>s' e'. run_all f xs s' e')"

subsection \<open>The world\<close>

record command_output =
  co_exit_code :: int
  co_stdout :: string
  co_stderr :: string

text \<open>The worker container of a step: its image, and whether it carries the secrets bundle.\<close>

record runner =
  rn_image :: string
  rn_bundle :: bool

record command_request =
  cq_command :: string
  cq_worktree :: string
  cq_runner :: runner
  cq_timeout :: "nat option"

record session_request =
  sq_provider :: ai_agent_provider
  sq_cli :: "string option"
  sq_worktree :: string
  sq_prompt :: string
  sq_timeout :: nat
  sq_model :: "string option"
  sq_resume_id :: "string option"
  sq_system_prompt :: "string option"
  sq_idle_nudge :: "nat option"
  sq_runner :: runner

datatype slot_event = TokenCancelled | Permit | SemaphoreClosed

record world =
  wd_others :: "engine \<Rightarrow> engine"
  wd_slot :: "engine \<Rightarrow> slot_event \<times> engine"
  wd_command :: "command_request \<Rightarrow> engine \<Rightarrow> happening list \<times> (takuto_error + command_output)"
  wd_session :: "session_request \<Rightarrow> engine \<Rightarrow> happening list \<times> (takuto_error + string \<times> string)"
  wd_docker :: "engine \<Rightarrow> bool"
  wd_worker_image :: "engine \<Rightarrow> string option"
  wd_has_resolver :: bool
  wd_pin :: "string \<Rightarrow> engine \<Rightarrow> string + auth_pin"
  wd_bundle :: "engine \<Rightarrow> bool"
  wd_ticket :: "string \<Rightarrow> string list \<Rightarrow> engine \<Rightarrow> takuto_error + jira_ticket"
  wd_read_file :: "string \<Rightarrow> engine \<Rightarrow> string option"
  wd_parse_outcome :: "string \<Rightarrow> string option option"

record run_config =
  rc_provider :: ai_agent_provider
  rc_cursor_cli :: string
  rc_cursor_model :: string
  rc_claude_model :: "string option"
  rc_codex_model :: string
  rc_opencode_model :: string
  rc_timeout :: nat
  rc_share_conversation :: bool
  rc_max_repeated :: u32
  rc_idle_nudge :: nat
  rc_worker_image :: string
  rc_home :: string
  rc_jira :: jira_limits
  rc_json :: json_lib

subsection \<open>Waiting\<close>

partial_function (option) wait_while_paused :: "world \<Rightarrow> string \<Rightarrow> nat \<Rightarrow> engine \<Rightarrow> unit run" where
  "wait_while_paused wd k token e =
     (case wait_if_paused k token e of
        Some r \<Rightarrow> Some (r, e)
      | None \<Rightarrow> wait_while_paused wd k token (wd_others wd e))"

definition check_token :: "nat \<Rightarrow> engine \<Rightarrow> unit run" where
  "check_token token e = Some (check_cancelled token e, e)"

definition acquire_agent_slot :: "world \<Rightarrow> engine \<Rightarrow> unit run" where
  "acquire_agent_slot wd e =
     (case wd_slot wd e of
        (TokenCancelled, e') \<Rightarrow> Some (Inl Cancelled, e')
      | (Permit, e') \<Rightarrow> Some (Inr (), e')
      | (SemaphoreClosed, e') \<Rightarrow> Some (Inl (Operational ''agent concurrency semaphore'' ''closed''), e'))"

subsection \<open>Events and rows of a step\<close>

definition broadcast_step_started :: "env \<Rightarrow> string \<Rightarrow> string \<Rightarrow> engine \<Rightarrow> engine" where
  "broadcast_step_started env k step_name e =
     (case tick env e of (now, e1) \<Rightarrow>
        send ((default_event now)\<lparr>ev_type := ''step_started'', ev_ticket_key := k,
          ev_step_name := Some step_name, ev_user_id := user_id_for_ticket e k\<rparr>) e1)"

definition broadcast_step_completed :: "env \<Rightarrow> string \<Rightarrow> string \<Rightarrow> engine \<Rightarrow> engine" where
  "broadcast_step_completed env k step_name e =
     (let dash = progress_dashboard_fields_for_ticket env e k in
      case tick env e of (now, e1) \<Rightarrow>
        send ((default_event now)\<lparr>ev_type := ''step_completed'', ev_ticket_key := k,
          ev_step_name := Some step_name, ev_progress_percent := map_option fst dash,
          ev_progress_steps_total := map_option snd dash, ev_user_id := user_id_for_ticket e k\<rparr>) e1)"

definition record_start :: "env \<Rightarrow> string \<Rightarrow> string \<Rightarrow> string option \<Rightarrow> engine \<Rightarrow> int option \<times> engine" where
  "record_start env k step_label def_filename e =
     (case wf_get e k of
        None \<Rightarrow> (None, e)
      | Some w \<Rightarrow>
          (case tick env e of (now, e1) \<Rightarrow>
             shadow_record_step_start (wf_id w) step_label def_filename (timestamp now) e1))"

fun db_status_of :: "step_status \<Rightarrow> db_step_status" where
  "db_status_of Success = SSuccess"
| "db_status_of Failed = SFailed"
| "db_status_of Skipped = SSkipped"
| "db_status_of Running = SRunning"

text \<open>The end of a step: its row, and its entry in the log of the item.\<close>

definition record_end :: "env \<Rightarrow> string \<Rightarrow> int option \<Rightarrow> db_step_status \<Rightarrow> step_log \<Rightarrow> engine \<Rightarrow> engine" where
  "record_end env k step_db_id status l e =
     (case tick env e of (now, e1) \<Rightarrow>
        add_step_log k l (shadow_record_step_end step_db_id status None (sl_error l) (timestamp now) e1))"

definition complete_step :: "env \<Rightarrow> step_log \<Rightarrow> engine \<Rightarrow> step_log \<times> engine" where
  "complete_step env l e = (case tick env e of (now, e1) \<Rightarrow> (step_log_complete now Success l, e1))"

definition fail_step :: "env \<Rightarrow> string \<Rightarrow> step_log \<Rightarrow> engine \<Rightarrow> step_log \<times> engine" where
  "fail_step env msg l e = (case tick env e of (now, e1) \<Rightarrow> (step_log_fail now msg l, e1))"

definition tail_lines :: "nat \<Rightarrow> string \<Rightarrow> string" where
  "tail_lines n s = join nl (rev (take n (rev (lines s))))"

subsection \<open>Steps\<close>

text \<open>What stays the same over a run of the steps of a flow.\<close>

record job =
  jb_ticket_key :: string
  jb_worktree :: string
  jb_vars :: "string \<rightharpoonup> string"
  jb_steps :: "agent_step_config list"
  jb_outer_loops :: nat
  jb_token :: nat
  jb_runner :: runner
  jb_prior_steps :: "step_log list"
  jb_skip_prior :: bool
  jb_skill_paths :: "string list"
  jb_inject_report :: bool
  jb_def :: "string option"

record progress =
  pg_session :: "string option"
  pg_last_output :: "string option"
  pg_resume_pending :: bool

definition step_label_of :: "nat \<Rightarrow> nat \<Rightarrow> agent_step_config \<Rightarrow> nat \<Rightarrow> string" where
  "step_label_of outer_loops outer step r =
     (if outer_loops > 1
      then as_name step @ '' (cycle '' @ show_nat outer @ ''/'' @ show_nat outer_loops @ '', run '' @
        show_nat r @ ''/'' @ show_nat (unat (as_repeat step)) @ '')''
      else as_name step @ '' (run '' @ show_nat r @ ''/'' @ show_nat (unat (as_repeat step)) @ '')'')"

definition relay_label :: "job \<Rightarrow> nat \<Rightarrow> agent_step_config \<Rightarrow> nat \<Rightarrow> string" where
  "relay_label jb step_idx step r =
     as_name step @ '' '' @ middle_dot @ '' step '' @ show_nat (step_idx + 1) @ ''/'' @
     show_nat (length (jb_steps jb)) @ '' '' @ middle_dot @ '' run '' @ show_nat r @ ''/'' @
     show_nat (unat (as_repeat step))"

definition relay_for :: "run_config \<Rightarrow> string \<Rightarrow> string \<Rightarrow> u32 \<Rightarrow> engine \<Rightarrow> relay_config" where
  "relay_for rc k label max_repeated e =
     \<lparr>rl_ticket_key = k, rl_step_name = label, rl_provider = rc_provider rc,
      rl_max_repeated = max_repeated, rl_owner = user_id_for_ticket e k\<rparr>"

text \<open>The commands of a command step; the flag says that one of them failed.\<close>

fun run_commands ::
  "env \<Rightarrow> world \<Rightarrow> run_config \<Rightarrow> job \<Rightarrow> relay_config \<Rightarrow> nat \<Rightarrow> nat \<Rightarrow> string list \<Rightarrow> relay \<Rightarrow> step_log \<Rightarrow> engine \<Rightarrow>
   (step_log \<times> bool) run" where
  "run_commands env wd rc jb rl cmd_total i [] r l e = Some (Inr (l, False), e)"
| "run_commands env wd rc jb rl cmd_total i (cmd # cmds) r l e =
     then_run (check_token (jb_token jb) e) (\<lambda>_ e1.
     then_run (wait_while_paused wd (jb_ticket_key jb) (jb_token jb) e1) (\<lambda>_ e2.
       let request = \<lparr>cq_command = interpolate_command_template cmd (jb_vars jb), cq_worktree = jb_worktree jb,
             cq_runner = jb_runner jb, cq_timeout = Some (rc_timeout rc)\<rparr>;
           place = ''Command '' @ show_nat (i + 1) @ ''/'' @ show_nat cmd_total
       in case wd_command wd request e2 of (hs, result) \<Rightarrow>
          (case relay_all env (rc_json rc) rl hs (r, e2) of (r', e3) \<Rightarrow>
             (case result of
                Inr out \<Rightarrow>
                  if co_exit_code out = 0 then
                    run_commands env wd rc jb rl cmd_total (i + 1) cmds r' (step_log_push (place @ '' completed'') l) e3
                  else
                    (case fail_step env (place @ '' failed (exit code '' @ show_int (co_exit_code out) @ ''):'' @ nl @
                          tail_lines 20 (co_stderr out)) l e3 of (l', e4) \<Rightarrow> Some (Inr (l', True), e4))
              | Inl Cancelled \<Rightarrow> Some (Inl Cancelled, e3)
              | Inl err \<Rightarrow>
                  (case fail_step env (place @ '' error: '' @ error_text err) l e3 of (l', e4) \<Rightarrow>
                     Some (Inr (l', True), e4))))))"

definition finish_step ::
  "env \<Rightarrow> job \<Rightarrow> string \<Rightarrow> int option \<Rightarrow> step_log \<Rightarrow> progress \<Rightarrow> engine \<Rightarrow> progress run" where
  "finish_step env jb step_label step_db_id l pg e =
     Some (Inr pg, broadcast_step_completed env (jb_ticket_key jb) step_label
       (record_end env (jb_ticket_key jb) step_db_id (db_status_of (sl_status l)) l e))"

text \<open>A step that aborts the run leaves its failed entry behind.\<close>

definition abort_step ::
  "env \<Rightarrow> job \<Rightarrow> int option \<Rightarrow> step_log \<Rightarrow> takuto_error \<Rightarrow> engine \<Rightarrow> progress run" where
  "abort_step env jb step_db_id l err e =
     Some (Inl err, record_end env (jb_ticket_key jb) step_db_id SFailed l e)"

definition begin_step ::
  "env \<Rightarrow> job \<Rightarrow> string \<Rightarrow> engine \<Rightarrow> (step_log \<times> int option) \<times> engine" where
  "begin_step env jb step_label e =
     (case tick env e of (now, e1) \<Rightarrow>
        (case record_start env (jb_ticket_key jb) step_label (jb_def jb)
                (broadcast_step_started env (jb_ticket_key jb) step_label e1) of
           (step_db_id, e2) \<Rightarrow> ((step_log_new now step_label, step_db_id), e2)))"

definition run_command_step ::
  "env \<Rightarrow> world \<Rightarrow> run_config \<Rightarrow> job \<Rightarrow> nat \<Rightarrow> agent_step_config \<Rightarrow> nat \<Rightarrow> string \<Rightarrow> bool \<Rightarrow> progress \<Rightarrow> engine \<Rightarrow>
   progress run" where
  "run_command_step env wd rc jb step_idx step r step_label last_run_of_cycle pg0 e =
     (let pg = pg0\<lparr>pg_resume_pending := False\<rparr>; cmd_total = length (as_commands step)
      in case begin_step env jb step_label e of ((l, step_db_id), e1) \<Rightarrow>
         let rl = relay_for rc (jb_ticket_key jb) (relay_label jb step_idx step r) 0 e1 in
         then_run (run_commands env wd rc jb rl cmd_total 0 (as_commands step) relay_start l e1)
           (\<lambda>(l1, cmd_failed) e2.
              if \<not> cmd_failed then
                (case complete_step env (step_log_push (''All '' @ show_nat cmd_total @ '' command(s) completed'') l1) e2 of
                   (l2, e3) \<Rightarrow> finish_step env jb step_label step_db_id l2 pg e3)
              else if \<not> last_run_of_cycle then abort_step env jb step_db_id l1 CommandStepFailed e2
              else finish_step env jb step_label step_db_id l1 pg e2))"

text \<open>The prompt of an agent step, before interpolation.\<close>

definition step_system_prompt :: "world \<Rightarrow> run_config \<Rightarrow> job \<Rightarrow> agent_step_config \<Rightarrow> engine \<Rightarrow> string option" where
  "step_system_prompt wd rc jb step e =
     (if rc_provider rc = Claude \<and> as_skills step \<noteq> []
      then build_system_prompt (\<lambda>p. wd_read_file wd p e) (as_skills step) (jb_skill_paths jb)
      else None)"

definition step_prompt :: "run_config \<Rightarrow> agent_step_config \<Rightarrow> string option \<Rightarrow> string" where
  "step_prompt rc step system_prompt =
     (let p = (if rc_provider rc = Cursor \<and> as_skills step \<noteq> []
            then build_cursor_skill_invocations (as_skills step) @
              (if as_prompt step = [] then [] else nl @ nl @ as_prompt step)
            else as_prompt step)
      in if rc_provider rc = Claude \<and> trim p = [] \<and> system_prompt \<noteq> None
         then ''Follow the instructions in the system prompt.'' else p)"

text \<open>Which session a step goes on with, and what it is told.\<close>

definition resume_choice ::
  "run_config \<Rightarrow> agent_step_config \<Rightarrow> nat \<Rightarrow> progress \<Rightarrow> string \<Rightarrow> (string \<times> string option) \<times> progress" where
  "resume_choice rc step r pg prompt =
     (if r > 1 then ((prompt, pg_session pg), pg)
      else if as_resume_previous step \<or> rc_share_conversation rc \<and> pg_session pg \<noteq> None
      then ((prompt, pg_session pg), pg)
      else if pg_resume_pending pg
      then ((''Resume what you were doing before the session was closed.'', pg_session pg),
            pg\<lparr>pg_resume_pending := False\<rparr>)
      else ((prompt, None), pg))"

definition full_prompt :: "run_config \<Rightarrow> job \<Rightarrow> string \<Rightarrow> string" where
  "full_prompt rc jb p =
     (let interpolated = interpolate_agent_prompt p (jb_vars jb);
          headless = headless_instructions_suffix (rc_provider rc)
      in if jb_inject_report jb
         then interpolated @ nl @ nl @ report_injection_suffix (jb_ticket_key jb) @ nl @ nl @ headless
         else interpolated @ nl @ nl @ headless)"

definition nonempty_model :: "string \<Rightarrow> string option" where
  "nonempty_model m = (if trim m = [] then None else Some (trim m))"

definition session_request_for ::
  "run_config \<Rightarrow> job \<Rightarrow> string \<Rightarrow> string option \<Rightarrow> string option \<Rightarrow> session_request" where
  "session_request_for rc jb prompt resume_id system_prompt =
     \<lparr>sq_provider = rc_provider rc,
      sq_cli = (if rc_provider rc = Cursor then Some (rc_cursor_cli rc) else None),
      sq_worktree = jb_worktree jb, sq_prompt = prompt, sq_timeout = rc_timeout rc,
      sq_model = (case rc_provider rc of
          Claude \<Rightarrow> rc_claude_model rc
        | Cursor \<Rightarrow> Some (rc_cursor_model rc)
        | Codex \<Rightarrow> nonempty_model (rc_codex_model rc)
        | OpenCode \<Rightarrow> nonempty_model (rc_opencode_model rc)),
      sq_resume_id = resume_id,
      sq_system_prompt = (if rc_provider rc = Claude then system_prompt else None),
      sq_idle_nudge = (if rc_provider rc = Cursor then Some (rc_idle_nudge rc) else None),
      sq_runner = jb_runner jb\<rparr>"

definition auth_hint :: "ai_agent_provider \<Rightarrow> string" where
  "auth_hint provider = (case provider of
     Claude \<Rightarrow> ''check that Claude Code is authenticated in the container''
   | Cursor \<Rightarrow> ''check Cursor Agent (`agent login` or CURSOR_API_KEY) and agent.providers.cursor.cli''
   | Codex \<Rightarrow> ''check Codex (`codex login --with-api-key` or OPENAI_API_KEY) and agent.providers.codex.model''
   | OpenCode \<Rightarrow> ''check OpenCode (`opencode auth login` or a project opencode.json) and agent.providers.opencode.model'')"

definition session_error :: "ai_agent_provider \<Rightarrow> takuto_error \<Rightarrow> takuto_error" where
  "session_error provider err =
     (case err of AgentAuthShaped _ \<Rightarrow> AgentStepAborted (auth_hint provider) | _ \<Rightarrow> AgentStepFailed (error_text err))"

definition run_agent_step ::
  "env \<Rightarrow> world \<Rightarrow> run_config \<Rightarrow> job \<Rightarrow> nat \<Rightarrow> agent_step_config \<Rightarrow> nat \<Rightarrow> string \<Rightarrow> bool \<Rightarrow> progress \<Rightarrow> engine \<Rightarrow>
   progress run" where
  "run_agent_step env wd rc jb step_idx step r step_label last_run_of_cycle pg0 e =
     (case begin_step env jb step_label e of ((l, step_db_id), e1) \<Rightarrow>
        let system_prompt = step_system_prompt wd rc jb step e1 in
        (case resume_choice rc step r pg0 (step_prompt rc step system_prompt) of ((prompt, resume_id), pg) \<Rightarrow>
           let rl = relay_for rc (jb_ticket_key jb) (relay_label jb step_idx step r) (rc_max_repeated rc) e1 in
           (case wd_session wd (session_request_for rc jb (full_prompt rc jb prompt) resume_id system_prompt) e1 of
              (hs, result) \<Rightarrow>
           (case relay_all env (rc_json rc) rl hs (relay_start, e1) of (relay, e2) \<Rightarrow>
              (case rl_loop relay of
                 Some (n, line) \<Rightarrow>
                   (case fail_step env (''No-progress loop: repeated the same output '' @ show_nat (unat n) @ '' times ('' @
                         [CHR 0x22] @ line @ [CHR 0x22] @ '')'') l e2 of (l1, e3) \<Rightarrow>
                      abort_step env jb step_db_id l1 (NoProgressLoop n line) e3)
               | None \<Rightarrow>
                   (case result of
                      Inr (session_id, output) \<Rightarrow>
                        let e3 = modify_workflow (jb_ticket_key jb) (\<lambda>w. w\<lparr>wf_last_session_id := Some session_id\<rparr>) e2 in
                        (case complete_step env (step_log_push (''Session '' @ session_id @ '' completed'') l) e3 of
                           (l1, e4) \<Rightarrow>
                             finish_step env jb step_label step_db_id l1
                               (pg\<lparr>pg_session := Some session_id, pg_last_output := Some output\<rparr>) e4)
                    | Inl Cancelled \<Rightarrow> Some (Inl Cancelled, e2)
                    | Inl err \<Rightarrow>
                        (case fail_step env (error_text err) l e2 of (l1, e3) \<Rightarrow>
                           if \<not> last_run_of_cycle
                           then abort_step env jb step_db_id l1 (session_error (rc_provider rc) err) e3
                           else finish_step env jb step_label step_db_id l1 pg e3)))))))"

definition run_step ::
  "env \<Rightarrow> world \<Rightarrow> run_config \<Rightarrow> job \<Rightarrow> nat \<Rightarrow> nat \<times> agent_step_config \<Rightarrow> nat \<Rightarrow> progress \<Rightarrow> engine \<Rightarrow> progress run" where
  "run_step env wd rc jb outer indexed r pg e =
     (case indexed of (step_idx, step) \<Rightarrow>
      then_run (check_token (jb_token jb) e) (\<lambda>_ e1.
      then_run (wait_while_paused wd (jb_ticket_key jb) (jb_token jb) e1) (\<lambda>_ e2.
        let step_label = step_label_of (jb_outer_loops jb) outer step r in
        if jb_skip_prior jb \<and> step_already_succeeded (jb_prior_steps jb) step_label then Some (Inr pg, e2)
        else
          then_run (acquire_agent_slot wd e2) (\<lambda>_ e3.
            let e4 = transition_to_agent_step env (jb_ticket_key jb) (of_nat outer) step_label e3;
                last_run_of_cycle = (step_idx + 1 = length (jb_steps jb) \<and> r = unat (as_repeat step))
            in if is_command_step step
               then run_command_step env wd rc jb step_idx step r step_label last_run_of_cycle pg e4
               else run_agent_step env wd rc jb step_idx step r step_label last_run_of_cycle pg e4))))"

definition run_cycle :: "env \<Rightarrow> world \<Rightarrow> run_config \<Rightarrow> job \<Rightarrow> nat \<Rightarrow> progress \<Rightarrow> engine \<Rightarrow> progress run" where
  "run_cycle env wd rc jb outer pg e =
     then_run (check_token (jb_token jb) e) (\<lambda>_ e1.
     then_run (wait_while_paused wd (jb_ticket_key jb) (jb_token jb) e1) (\<lambda>_ e2.
       run_all (\<lambda>indexed pg' e'. run_all (run_step env wd rc jb outer indexed) [1..<Suc (unat (as_repeat (snd indexed)))] pg' e')
         (enumerate 0 (jb_steps jb)) pg e2))"

definition run_agent_step_sequence ::
  "env \<Rightarrow> world \<Rightarrow> run_config \<Rightarrow> job \<Rightarrow> string option \<Rightarrow> bool \<Rightarrow> engine \<Rightarrow> string option run" where
  "run_agent_step_sequence env wd rc jb initial_session_id is_snapshot_resume e =
     then_run (run_all (run_cycle env wd rc jb) [1..<Suc (jb_outer_loops jb)]
         \<lparr>pg_session = initial_session_id, pg_last_output = None, pg_resume_pending = is_snapshot_resume\<rparr> e)
       (\<lambda>pg e'. Some (Inr (pg_last_output pg), e'))"

subsection \<open>Credentials\<close>

definition ensure_workflow_auth_pin :: "world \<Rightarrow> string \<Rightarrow> string \<Rightarrow> engine \<Rightarrow> (takuto_error + unit) \<times> engine" where
  "ensure_workflow_auth_pin wd k user_id e =
     (if (case wf_get e k of None \<Rightarrow> False | Some w \<Rightarrow> wf_auth_pin w \<noteq> None) then (Inr (), e)
      else (case wd_pin wd user_id e of
              Inl detail \<Rightarrow> (Inl (Operational ''pin_for_workflow'' detail), e)
            | Inr pin \<Rightarrow>
                (Inr (), modify_workflow k (\<lambda>w. if wf_auth_pin w = None then w\<lparr>wf_auth_pin := Some pin\<rparr> else w) e)))"

definition try_attach_secrets_bundle :: "world \<Rightarrow> string \<Rightarrow> engine \<Rightarrow> bool \<times> engine" where
  "try_attach_secrets_bundle wd k e =
     (case (user_id_for_ticket e k, eng_db e) of
        (Some uid, Some _) \<Rightarrow>
          if \<not> wd_has_resolver wd then (False, e)
          else (case ensure_workflow_auth_pin wd k uid e of
                  (Inl _, e1) \<Rightarrow> (False, e1)
                | (Inr _, e1) \<Rightarrow>
                    ((case wf_get e1 k of None \<Rightarrow> False | Some w \<Rightarrow> wf_auth_pin w \<noteq> None) \<and> wd_bundle wd e1, e1))
      | _ \<Rightarrow> (False, e))"

definition worker_image :: "world \<Rightarrow> run_config \<Rightarrow> engine \<Rightarrow> string" where
  "worker_image wd rc e =
     (if rc_worker_image rc = [] then unwrap_or ''takuto:latest'' (wd_worker_image wd e) else rc_worker_image rc)"

definition build_runner :: "world \<Rightarrow> run_config \<Rightarrow> string \<Rightarrow> engine \<Rightarrow> runner run" where
  "build_runner wd rc k e =
     (if \<not> wd_docker wd e then Some (Inl DockerUnavailable, e)
      else (case try_attach_secrets_bundle wd k e of (bundle, e1) \<Rightarrow>
              Some (Inr \<lparr>rn_image = worker_image wd rc e, rn_bundle = bundle\<rparr>, e1)))"

subsection \<open>A whole flow\<close>

definition reset_flow_report_section :: "world \<Rightarrow> string \<Rightarrow> string \<Rightarrow> string \<Rightarrow> engine \<Rightarrow> engine" where
  "reset_flow_report_section wd worktree_path k def_name e =
     (let report_path = path_join (path_join (path_join worktree_path ''lore'') ''reports'') (k @ ''_report.md'');
          flow = flow_slug def_name;
          content = strip_flow_section (unwrap_or [] (wd_read_file wd report_path e)) flow
      in emit (WriteFile report_path ((if content = [] then [] else content @ nl @ nl) @
           flow_section_header flow def_name)) e)"

definition interpolation_vars ::
  "env \<Rightarrow> run_config \<Rightarrow> string \<Rightarrow> string \<Rightarrow> string \<Rightarrow> string \<Rightarrow> engine \<Rightarrow> (string \<rightharpoonup> string)" where
  "interpolation_vars env rc k ts td tt e =
     (let ticket = \<lparr>jt_key = k, jt_summary = ts, jt_description = td, jt_item_type = tt, jt_status = [],
            jt_linked_items = []\<rparr>
      in [''ticket_key'' \<mapsto> k, ''ticket_summary'' \<mapsto> ts, ''ticket_description'' \<mapsto> td, ''description'' \<mapsto> td,
          ''ticket_type'' \<mapsto> tt,
          ''acceptance_criteria'' \<mapsto> format_acceptance_criteria_block (extract_acceptance_criteria (env_case_tables env) td),
          ''ticket_context'' \<mapsto> build_ticket_context (env_case_tables env) ticket (rc_jira rc),
          ''pr_url'' \<mapsto> (case wf_get e k of None \<Rightarrow> [] | Some w \<Rightarrow> unwrap_or [] (wf_pr_url w)),
          ''base_branch'' \<mapsto> env_base_branch env])"

definition run_workflow_def_steps ::
  "env \<Rightarrow> world \<Rightarrow> run_config \<Rightarrow> driver \<Rightarrow> string \<Rightarrow> string \<Rightarrow> string \<Rightarrow> string \<Rightarrow> engine \<Rightarrow> unit run" where
  "run_workflow_def_steps env wd rc d worktree_path ts td tt e =
     (let k = drv_ticket_key d; vars = interpolation_vars env rc k ts td tt e in
      then_run (build_runner wd rc k e) (\<lambda>runner e1.
        let ticketing_avail = (case wf_get e1 k of None \<Rightarrow> False | Some w \<Rightarrow> wf_ticketing_available w);
            steps = filter (available_for ticketing_avail) (drv_steps d)
        in then_run (wait_while_paused wd k (drv_cancel_token d) e1) (\<lambda>_ e2.
           then_run (check_token (drv_cancel_token d) e2) (\<lambda>_ e3.
             let prior_steps = (case wf_get e3 k of None \<Rightarrow> [] | Some w \<Rightarrow> wf_steps_log w);
                 workspace = (case wf_get e3 k of None \<Rightarrow> [] | Some w \<Rightarrow> wf_workspace_name w)
             in case resolve_worktree_generate_report env (user_id_for_ticket e3 k) workspace e3 of
                  (generate_report, e4) \<Rightarrow>
                    let e5 = (if generate_report
                          then reset_flow_report_section wd worktree_path k (drv_def_name d) e4 else e4);
                        jb = \<lparr>jb_ticket_key = k, jb_worktree = worktree_path, jb_vars = vars, jb_steps = steps,
                              jb_outer_loops = 1, jb_token = drv_cancel_token d, jb_runner = runner,
                              jb_prior_steps = prior_steps, jb_skip_prior = False,
                              jb_skill_paths = build_skill_search_paths (rc_home rc) worktree_path (rc_provider rc),
                              jb_inject_report = generate_report, jb_def = Some (drv_def_name d)\<rparr>
                    in then_run (run_agent_step_sequence env wd rc jb
                           (case drv_resume d of None \<Rightarrow> None | Some session \<Rightarrow> session) (drv_resume d \<noteq> None) e5)
                         (\<lambda>last_agent_output e6.
                            case resolve_pr_url (wd_parse_outcome wd)
                                   (wd_read_file wd (path_join (path_join worktree_path ''.takuto'') ''outcome.toml'') e6)
                                   last_agent_output of
                              Some url \<Rightarrow> Some (Inr (), transition_to_done_with_pr_url env k url e6)
                            | None \<Rightarrow> Some (Inr (), transition env k Done e6))))))"

end
