(* ===== verification/Bootstrap.thy ===== *)
theory Bootstrap
  imports Step_Runner
begin

text \<open>
  \<open>bootstrap_new_workflow\<close> of \<open>engine/bootstrap.rs\<close> and \<open>drive_workflow_def\<close> of
  \<open>engine/driver.rs\<close>: the preparation of a work item's first run, and the driver of a run from its
  start to its end. Credentials for git are not modelled; a token or an author that cannot be
  resolved only falls back to the ambient one.
\<close>

subsection \<open>The ticket\<close>

text \<open>A call whose failure is noted in the step's entry, and nothing else.\<close>

definition noted_call :: "env \<Rightarrow> effect \<Rightarrow> string \<Rightarrow> step_log \<Rightarrow> engine \<Rightarrow> step_log \<times> engine" where
  "noted_call env x done_line l e =
     (case perform env x e of
        (Inr _, e1) \<Rightarrow> (step_log_push done_line l, e1)
      | (Inl err, e1) \<Rightarrow> (step_log_push (''[DRY/SKIP] '' @ error_text err) l, e1))"

definition begin_bootstrap_step :: "env \<Rightarrow> string \<Rightarrow> engine \<Rightarrow> step_log \<times> engine" where
  "begin_bootstrap_step env name e = (case tick env e of (now, e1) \<Rightarrow> (step_log_bootstrap now name, e1))"

definition assign_step :: "env \<Rightarrow> driver \<Rightarrow> string \<Rightarrow> string option \<Rightarrow> engine \<Rightarrow> unit run" where
  "assign_step env d repo_path owner e =
     (let k = drv_ticket_key d in
      case begin_bootstrap_step env ''Assign Ticket'' (transition env k Assigning e) of (l, e1) \<Rightarrow>
        then_run (check_token (drv_cancel_token d) e1) (\<lambda>_ e2.
          case noted_call env (AssignTicket repo_path k owner) ''Ticket assigned to current Jira user'' l e2 of
            (l1, e3) \<Rightarrow>
          (case noted_call env (TransitionTicket repo_path k ''In Progress'' owner) ''Ticket moved to In Progress'' l1 e3 of
            (l2, e4) \<Rightarrow>
          (case complete_step env l2 e4 of (l3, e5) \<Rightarrow> Some (Inr (), add_step_log k l3 e5)))))"

definition minimal_ticket :: "string \<Rightarrow> string \<Rightarrow> string \<Rightarrow> string \<Rightarrow> jira_ticket" where
  "minimal_ticket k summary description item_type =
     \<lparr>jt_key = k, jt_summary = summary, jt_description = description, jt_item_type = item_type,
      jt_status = ''In Progress'', jt_linked_items = []\<rparr>"

definition retrieve_step :: "env \<Rightarrow> world \<Rightarrow> driver \<Rightarrow> string list \<Rightarrow> engine \<Rightarrow> jira_ticket run" where
  "retrieve_step env wd d project_keys e =
     (let k = drv_ticket_key d in
      case begin_bootstrap_step env ''Retrieve Details'' (transition env k RetrievingDetails e) of (l, e1) \<Rightarrow>
        then_run (check_token (drv_cancel_token d) e1) (\<lambda>_ e2.
          case wd_ticket wd k project_keys e2 of
            Inr detail \<Rightarrow>
              (case complete_step env (step_log_push (''Retrieved: '' @ jt_summary detail) l)
                   (modify_workflow k (\<lambda>w. w\<lparr>wf_ticket_description := jt_description detail,
                      wf_ticket_type := jt_item_type detail, wf_ticket_summary := jt_summary detail\<rparr>) e2) of
                 (l1, e3) \<Rightarrow> Some (Inr detail, add_step_log k l1 e3))
          | Inl err \<Rightarrow>
              (case fail_step env (error_text err) l e2 of (l1, e3) \<Rightarrow>
                 let summary = (case wf_get e3 k of None \<Rightarrow> [] | Some w \<Rightarrow> wf_ticket_summary w)
                 in Some (Inr (minimal_ticket k summary [] ''Task''), add_step_log k l1 e3))))"

definition ticket_from_memory :: "string \<Rightarrow> engine \<Rightarrow> jira_ticket" where
  "ticket_from_memory k e =
     (case wf_get e k of
        None \<Rightarrow> minimal_ticket k [] [] ''Task''
      | Some w \<Rightarrow> minimal_ticket k (wf_ticket_summary w) (wf_ticket_description w)
          (if wf_ticket_type w = [] then ''Task'' else wf_ticket_type w))"

subsection \<open>The worktree\<close>

definition use_worktree :: "env \<Rightarrow> string \<Rightarrow> string \<Rightarrow> string \<Rightarrow> engine \<Rightarrow> string run" where
  "use_worktree env k path branch e =
     (case begin_bootstrap_step env ''Create Worktree'' e of (l, e1) \<Rightarrow>
        (case complete_step env (step_log_push ''(pre-created at ticket-add time)''
               (step_log_push (''Worktree: '' @ path) (step_log_push (''Branch: '' @ branch) l))) e1 of
           (l1, e2) \<Rightarrow> Some (Inr path, add_step_log k l1 e2)))"

definition make_worktree :: "env \<Rightarrow> string \<Rightarrow> string \<Rightarrow> string \<Rightarrow> string \<Rightarrow> engine \<Rightarrow> string run" where
  "make_worktree env k item_type repo_path base_branch e =
     (case begin_bootstrap_step env ''Create Worktree'' e of (l, e1) \<Rightarrow>
        let e2 = snd (perform env (ConfigureGitAuthor repo_path) e1);
            existing = (case wf_get e2 k of None \<Rightarrow> [] | Some w \<Rightarrow> wf_branch_name w);
            branch = (if existing = [] then branch_name_for_ticket (env_case_tables env) k item_type else existing)
        in case perform env (CreateWorktree repo_path branch base_branch) e2 of
             (Inl err, e3) \<Rightarrow> Some (Inl err, e3)
           | (Inr path, e3) \<Rightarrow>
               let e4 = (case wf_get e3 k of
                      None \<Rightarrow> e3
                    | Some w \<Rightarrow>
                        (case tick env e3 of (now, e') \<Rightarrow>
                           shadow_persist_branch_and_worktree (wf_id w) branch (Some path) (timestamp now)
                             (wf_put k (w\<lparr>wf_branch_name := branch, wf_worktree_path := Some path,
                                wf_updated_at := now\<rparr>) e')))
               in (case complete_step env (step_log_push (''Worktree: '' @ path) (step_log_push (''Branch: '' @ branch) l)) e4 of
                     (l1, e5) \<Rightarrow> Some (Inr path, add_step_log k l1 e5)))"

definition pre_created :: "env \<Rightarrow> string \<Rightarrow> engine \<Rightarrow> (string \<times> string) option" where
  "pre_created env k e =
     (case wf_get e k of
        None \<Rightarrow> None
      | Some w \<Rightarrow>
          (case wf_worktree_path w of
             None \<Rightarrow> None
           | Some p \<Rightarrow> if env_path_exists env p then Some (p, wf_branch_name w) else None))"

subsection \<open>Setup commands\<close>

text \<open>
  One command of the preparation: its slot, its entry, its events. \<open>failed\<close> makes the error of an
  exit code other than zero.
\<close>

definition setup_command ::
  "env \<Rightarrow> world \<Rightarrow> run_config \<Rightarrow> driver \<Rightarrow> command_request \<Rightarrow> string \<Rightarrow> string \<Rightarrow>
   (command_output \<Rightarrow> string) \<Rightarrow> engine \<Rightarrow> unit run" where
  "setup_command env wd rc d request step_name subject failed e =
     then_run (acquire_agent_slot wd e) (\<lambda>_ e1.
       let k = drv_ticket_key d in
       case begin_bootstrap_step env step_name e1 of (l, e2) \<Rightarrow>
         let e3 = broadcast_step_started env k step_name e2
         in (case wd_command wd request e3 of (hs, result) \<Rightarrow>
             (case relay_all env (rc_json rc) (relay_for rc k step_name 0 e3) hs (relay_start, e3) of (_, e4) \<Rightarrow>
               (case result of
                  Inr out \<Rightarrow>
                    if co_exit_code out = 0 then
                      (case complete_step env (step_log_push (subject @ '' completed'') l) e4 of (l1, e5) \<Rightarrow>
                         Some (Inr (), broadcast_step_completed env k step_name (add_step_log k l1 e5)))
                    else
                      (case fail_step env (failed out) l e4 of (l1, e5) \<Rightarrow>
                         Some (Inl (OtherError (failed out)), add_step_log k l1 e5))
                | Inl err \<Rightarrow>
                    (case fail_step env (subject @ '' error: '' @ error_text err) l e4 of (l1, e5) \<Rightarrow>
                       Some (Inl err, add_step_log k l1 e5))))))"

definition setup_request :: "string \<Rightarrow> runner \<Rightarrow> string \<Rightarrow> command_request" where
  "setup_request worktree_path runner cmd =
     \<lparr>cq_command = cmd, cq_worktree = worktree_path, cq_runner = runner, cq_timeout = None\<rparr>"

definition mise_failed :: "command_output \<Rightarrow> string" where
  "mise_failed out = ''mise install failed (exit code '' @ show_int (co_exit_code out) @ ''):'' @ nl @
     tail_lines 20 (co_stderr out)"

definition mise_install :: "env \<Rightarrow> world \<Rightarrow> run_config \<Rightarrow> driver \<Rightarrow> runner \<Rightarrow> string \<Rightarrow> engine \<Rightarrow> unit run" where
  "mise_install env wd rc d runner worktree_path e =
     (if env_has_mise env worktree_path
      then setup_command env wd rc d (setup_request worktree_path runner ''mise install'') ''Mise install''
             ''mise install'' mise_failed e
      else Some (Inr (), e))"

definition init_step_name :: "nat \<Rightarrow> nat \<Rightarrow> string \<Rightarrow> string" where
  "init_step_name i n cmd =
     ''Worktree init ('' @ show_nat (i + 1) @ ''/'' @ show_nat n @ ''): '' @ truncate_label cmd 40"

definition init_failed :: "string \<Rightarrow> command_output \<Rightarrow> string" where
  "init_failed step_name out =
     step_name @ '' failed (exit code '' @ show_int (co_exit_code out) @ ''):'' @ nl @ ''STDERR:'' @ nl @
     tail_lines 20 (co_stderr out) @ nl @ ''STDOUT:'' @ nl @ tail_lines 10 (co_stdout out)"

definition init_command ::
  "env \<Rightarrow> world \<Rightarrow> run_config \<Rightarrow> driver \<Rightarrow> runner \<Rightarrow> string \<Rightarrow> nat \<Rightarrow> nat \<times> string \<Rightarrow> unit \<Rightarrow> engine \<Rightarrow> unit run" where
  "init_command env wd rc d runner worktree_path n indexed u e =
     (case indexed of (i, cmd) \<Rightarrow>
        setup_command env wd rc d (setup_request worktree_path runner cmd) (init_step_name i n cmd)
          (init_step_name i n cmd) (init_failed (init_step_name i n cmd)) e)"

subsection \<open>Bootstrap\<close>

definition bootstrap_ticket :: "env \<Rightarrow> world \<Rightarrow> driver \<Rightarrow> string \<Rightarrow> string list \<Rightarrow> engine \<Rightarrow> jira_ticket run" where
  "bootstrap_ticket env wd d repo_path project_keys e =
     (if env_ticketing_system env = Jira
      then then_run (assign_step env d repo_path (user_id_for_ticket e (drv_ticket_key d)) e)
             (\<lambda>_ e1. retrieve_step env wd d project_keys e1)
      else Some (Inr (ticket_from_memory (drv_ticket_key d) e), e))"

definition bootstrap_worktree ::
  "env \<Rightarrow> world \<Rightarrow> driver \<Rightarrow> string \<Rightarrow> string \<Rightarrow> string \<Rightarrow> engine \<Rightarrow> string run" where
  "bootstrap_worktree env wd d item_type repo_path base_branch e =
     then_run (check_token (drv_cancel_token d) (transition env (drv_ticket_key d) CreatingWorktree e)) (\<lambda>_ e1.
       let e2 = wd_others wd e1 in
       case pre_created env (drv_ticket_key d) e2 of
         Some (path, branch) \<Rightarrow> use_worktree env (drv_ticket_key d) path branch e2
       | None \<Rightarrow> make_worktree env (drv_ticket_key d) item_type repo_path base_branch e2)"

definition bootstrap_setup :: "env \<Rightarrow> world \<Rightarrow> run_config \<Rightarrow> driver \<Rightarrow> string \<Rightarrow> engine \<Rightarrow> unit run" where
  "bootstrap_setup env wd rc d worktree_path e =
     (let k = drv_ticket_key d in
      then_run (build_runner wd rc k (snd (perform env (ConfigureGitAuthor worktree_path) e))) (\<lambda>runner e1.
        let workspace = (case wf_get e1 k of None \<Rightarrow> [] | Some w \<Rightarrow> wf_workspace_name w)
        in case resolve_worktree_init_commands env (user_id_for_ticket e1 k) workspace e1 of (init_commands, e2) \<Rightarrow>
             then_run (mise_install env wd rc d runner worktree_path e2) (\<lambda>_ e3.
             then_run (run_all (init_command env wd rc d runner worktree_path (length init_commands))
                         (enumerate 0 init_commands) () e3) (\<lambda>_ e4.
               Some (Inr (), modify_workflow k (\<lambda>w. w\<lparr>wf_worktree_bootstrapped := True\<rparr>) e4)))))"

definition bootstrap_new_workflow ::
  "env \<Rightarrow> world \<Rightarrow> run_config \<Rightarrow> driver \<Rightarrow> engine \<Rightarrow> (string \<times> jira_ticket) run" where
  "bootstrap_new_workflow env wd rc d e =
     (let k = drv_ticket_key d in
      then_run (wait_while_paused wd k (drv_cancel_token d) e) (\<lambda>_ e1.
      then_run (check_token (drv_cancel_token d) e1) (\<lambda>_ e2.
        case resolve_repo_for_ticket env k e2 of ((repo_path, base_branch), e3) \<Rightarrow>
          let workspace = (case wf_get e3 k of None \<Rightarrow> [] | Some w \<Rightarrow> wf_workspace_name w)
          in case resolve_jira_project_keys env (user_id_for_ticket e2 k) workspace e3 of (project_keys, e4) \<Rightarrow>
               then_run (bootstrap_ticket env wd d repo_path project_keys e4) (\<lambda>ticket e5.
               then_run (bootstrap_worktree env wd d (jt_item_type ticket) repo_path base_branch e5) (\<lambda>path e6.
               then_run (bootstrap_setup env wd rc d path e6) (\<lambda>_ e7. Some (Inr (path, ticket), e7)))))))"

subsection \<open>The driver\<close>

definition drive_body :: "env \<Rightarrow> world \<Rightarrow> run_config \<Rightarrow> driver \<Rightarrow> engine \<Rightarrow> unit run" where
  "drive_body env wd rc d e =
     (case drv_worktree_path d of
        Some p \<Rightarrow>
          run_workflow_def_steps env wd rc d p (drv_ticket_summary d) (drv_ticket_description d) (drv_ticket_type d) e
      | None \<Rightarrow>
          then_run (bootstrap_new_workflow env wd rc d e) (\<lambda>(path, ticket) e1.
            run_workflow_def_steps env wd rc d path (jt_summary ticket) (jt_description ticket)
              (jt_item_type ticket) e1))"

definition drive_workflow_def :: "env \<Rightarrow> world \<Rightarrow> run_config \<Rightarrow> driver \<Rightarrow> engine \<Rightarrow> engine option" where
  "drive_workflow_def env wd rc d e =
     (case drive_start env d e of (_, e1) \<Rightarrow>
        map_option (\<lambda>(result, e2). drive_finish env d result e2) (drive_body env wd rc d e1))"

end
