(* ===== verification/Run_Props.thy ===== *)
theory Run_Props
  imports Bootstrap Engine_Restore_Props
begin

text \<open>
  The runs of \<^theory_text>\<open>Step_Runner\<close> and \<^theory_text>\<open>Bootstrap\<close>: what they keep, as a contract proved once
  for every invariant of the engine that the elementary changes of a run and the other tasks keep,
  that they end, and what the result of a run says.
\<close>

subsection \<open>What holds after a run\<close>

definition run_post :: "(engine \<Rightarrow> bool) \<Rightarrow> ('a \<Rightarrow> bool) \<Rightarrow> 'a run \<Rightarrow> bool" where
  "run_post I Q m =
     (case m of None \<Rightarrow> True | Some (Inl _, e) \<Rightarrow> I e | Some (Inr x, e) \<Rightarrow> I e \<and> Q x)"

abbreviation run_keeps :: "(engine \<Rightarrow> bool) \<Rightarrow> 'a run \<Rightarrow> bool" where
  "run_keeps I \<equiv> run_post I (\<lambda>_. True)"

named_theorems run_intros

lemma run_post_simps [simp]:
  "run_post I Q None" "run_post I Q (Some (Inl err, e)) = I e"
  "run_post I Q (Some (Inr x, e)) = (I e \<and> Q x)"
  by (simp_all add: run_post_def)

lemma run_keeps_Some [simp]: "run_keeps I (Some (r, e)) = I e"
  by (cases r) simp_all

lemma run_post_then [run_intros]:
  assumes "run_post I P m" and "\<And>x e. I e \<Longrightarrow> P x \<Longrightarrow> run_post I Q (f x e)"
  shows "run_post I Q (then_run m f)"
proof (cases m)
  case (Some p)
  obtain r e where m: "m = Some (r, e)" using Some by (cases p) simp
  show ?thesis using assms m by (cases r) (simp_all add: then_run_def)
qed (simp add: then_run_def)

lemma run_post_all:
  assumes "\<And>x s e. I e \<Longrightarrow> x \<in> set xs \<Longrightarrow> run_keeps I (f x s e)" and "I e"
  shows "run_keeps I (run_all f xs s e)"
  using assms
proof (induction xs arbitrary: s e)
  case (Cons x xs)
  show ?case
    unfolding run_all.simps
    by (rule run_post_then [where P = "\<lambda>_. True"]) (use Cons in simp_all)
qed simp

lemma run_postD: "run_post I Q m \<Longrightarrow> m = Some (r, e) \<Longrightarrow> I e"
  by (cases r) (simp_all add: run_post_def)

subsection \<open>The contract of a run\<close>

text \<open>A change a run makes to its own item: never its id, its ticket or its token.\<close>

definition item_change :: "string \<Rightarrow> workflow \<Rightarrow> workflow \<Rightarrow> bool" where
  "item_change k w w' \<longleftrightarrow> wf_id w' = wf_id w \<and> wf_cancel_token w' = wf_cancel_token w \<and>
     wf_ticket_key w' = wf_ticket_key w \<and> (workflow_ok k w \<longrightarrow> workflow_ok k w')"

definition world_keeps :: "(engine \<Rightarrow> bool) \<Rightarrow> world \<Rightarrow> bool" where
  "world_keeps I wd \<longleftrightarrow>
     (\<forall>e. I e \<longrightarrow> I (wd_others wd e) \<and> I (snd (wd_slot wd e))) \<and>
     (\<forall>q e0 f e. I e \<longrightarrow> Others f \<in> set (fst (wd_command wd q e0)) \<longrightarrow> I (f e)) \<and>
     (\<forall>q e0 f e. I e \<longrightarrow> Others f \<in> set (fst (wd_session wd q e0)) \<longrightarrow> I (f e))"

locale run_invariant =
  fixes k :: string and I :: "engine \<Rightarrow> bool"
  assumes same: "I e \<Longrightarrow> same_core e e' \<Longrightarrow> I e'"
    and item: "I e \<Longrightarrow> wf_get e k = Some w \<Longrightarrow> item_change k w w' \<Longrightarrow> I (wf_put k w' e)"
    and shadow: "I e \<Longrightarrow> only_db e e' \<Longrightarrow> (dbs_ok e \<Longrightarrow> dbs_ok e') \<Longrightarrow> I e'"
begin

lemma ticks: "I (e\<lparr>eng_ticks := n\<rparr>) = I e"
  by (rule iffI; erule same) (simp_all add: same_core_def)

lemma send: "I (send ev e) = I e"
  by (rule iffI; erule same) (simp_all add: same_core_def)

lemma emit: "I (emit x e) = I e"
  by (rule iffI; erule same) (simp_all add: same_core_def)

lemmas core_frame = ticks send emit

lemma put_item:
  assumes "I e" and "wf_get e k = Some w0" and "state_ok (wf_state w)"
    and "wf_id w = wf_id w0" "wf_ticket_key w = wf_ticket_key w0"
    and "set (wf_steps_log w) \<subseteq> set (wf_steps_log w0)" "wf_cancel_token w = wf_cancel_token w0"
  shows "I (wf_put k w e)"
  using assms by (intro item) (auto simp: item_change_def workflow_ok_def)

lemma modify:
  assumes "I e" and "\<And>w. item_change k w (f w)" shows "I (modify_workflow k f e)"
  using assms item unfolding modify_workflow_def by (auto split: option.split)

lemma persist:
  "I e \<Longrightarrow> I (shadow_persist_state_change env i st l t e)"
  "I e \<Longrightarrow> I (shadow_persist_branch_and_worktree i b p t e)"
  "I e \<Longrightarrow> I (snd (shadow_record_step_start i n d t e))"
  "I e \<Longrightarrow> I (shadow_record_step_end j st' c m t e)"
  "I e \<Longrightarrow> I (shadow_finish_def_run i d' s m t e)"
  by (erule shadow; simp add: shadow_keeps)+

lemma durable:
  assumes "I e" and "\<And>db. db_ok db \<Longrightarrow> db_ok (f db)"
  shows "I (snd (retry_durable_write (db_write f) e))"
  by (rule shadow [OF assms(1) retry_durable_write_keeps(1) retry_durable_write_keeps(2)])
    (simp_all add: assms)

lemma transition:
  assumes "I e" and "state_ok st" shows "I (transition env k st e)"
proof (cases "wf_get e k")
  case (Some w)
  show ?thesis
    using Some by (simp add: transition_def Let_def put_ticks core_frame)
      (intro persist, simp add: core_frame, rule put_item [OF assms(1) Some]; simp add: assms)
qed (use assms in \<open>simp add: transition_def\<close>)

lemma transition_to_agent_step:
  assumes "I e" shows "I (transition_to_agent_step env k pass l e)"
proof (cases "wf_get e k")
  case (Some w)
  show ?thesis
    using Some by (simp add: transition_to_agent_step_def Let_def put_ticks core_frame)
      (intro persist, simp add: core_frame, rule put_item [OF assms Some]; simp)
qed (use assms in \<open>simp add: transition_to_agent_step_def\<close>)

lemma transition_to_done_with_pr_url:
  assumes "I e" shows "I (transition_to_done_with_pr_url env k u e)"
proof (cases "wf_get e k")
  case (Some w)
  let ?w = "w\<lparr>wf_pr_url := Some u, wf_current_step_label := None, wf_state := Done,
    wf_updated_at := env_clock env (eng_ticks e)\<rparr>"
  have put: "I (wf_put k ?w e)" by (rule put_item [OF assms Some]; simp)
  have "I (snd (retry_durable_write (db_write (update_work_item_pr_url_and_state i p kd py l t))
      ((wf_put k ?w e)\<lparr>eng_ticks := n\<rparr>)))" for i p kd py l t n
    by (rule durable) (simp_all add: put update_ok core_frame)
  then show ?thesis
    using Some put
    by (simp add: transition_to_done_with_pr_url_def Let_def put_ticks case_prod_beta core_frame split: option.split)
qed (use assms in \<open>simp add: transition_to_done_with_pr_url_def\<close>)

lemma add_step_log: "I e \<Longrightarrow> step_log_ok l \<Longrightarrow> I (add_step_log k l e)"
  unfolding add_step_log_def by (rule modify) (auto simp: item_change_def workflow_ok_def)

end

text \<open>The same, with the other tasks.\<close>

locale run_in_world = run_invariant +
  fixes wd :: world
  assumes world: "world_keeps I wd"
begin

lemma others: "I e \<Longrightarrow> I (wd_others wd e)"
  using world by (simp add: world_keeps_def)

lemma paused_once:
  assumes "wait_while_paused wd k' t e = Some y" and "I e" shows "I (snd y)"
proof -
  have "wd = wd \<longrightarrow> I e \<longrightarrow> I (snd y)"
  proof (rule wait_while_paused.raw_induct
      [where P = "\<lambda>wd' k' t e y. wd' = wd \<longrightarrow> I e \<longrightarrow> I (snd y)", OF _ assms(1)])
    fix wait wd' k' t e y
    assume IH: "\<And>wd' k' t e y. wait wd' k' t e = Some y \<Longrightarrow> wd' = wd \<longrightarrow> I e \<longrightarrow> I (snd y)"
      and y: "(case wait_if_paused k' t e of None \<Rightarrow> wait wd' k' t (wd_others wd' e) | Some r \<Rightarrow> Some (r, e)) = Some y"
    show "wd' = wd \<longrightarrow> I e \<longrightarrow> I (snd y)"
      using y IH [of wd' k' t "wd_others wd' e" y] by (cases "wait_if_paused k' t e") (auto simp: others)
  qed
  then show ?thesis using assms(2) by simp
qed

lemma paused: "I e \<Longrightarrow> run_keeps I (wait_while_paused wd k' t e)"
  using paused_once by (cases "wait_while_paused wd k' t e") auto

lemma token: "I e \<Longrightarrow> run_keeps I (check_token t e)"
  by (simp add: check_token_def check_cancelled_def)

lemma slot: "I e \<Longrightarrow> run_keeps I (acquire_agent_slot wd e)"
  using world unfolding acquire_agent_slot_def world_keeps_def
  by (cases "wd_slot wd e") (force split: slot_event.split)

lemma relay_line:
  assumes "I (snd x)" and "rl_ticket_key rl = k" shows "I (snd (relay_line env lib rl l x))"
proof -
  have "item_change k w (push_terminal_line l' w)" for l' w
    by (simp add: push_terminal_line_def item_change_def workflow_ok_def Let_def)
  then have "I (modify_workflow k (push_terminal_line l') (snd x))" for l'
    by (rule modify [OF assms(1)])
  then show ?thesis
    using assms by (cases x) (simp add: relay_line_def Let_def core_frame split: option.split sum.split)
qed

lemma relay_all:
  assumes "I (snd x)" and "rl_ticket_key rl = k" and "\<And>f e. Others f \<in> set hs \<Longrightarrow> I e \<Longrightarrow> I (f e)"
  shows "I (snd (relay_all env lib rl hs x))"
  using assms
proof (induction hs arbitrary: x)
  case (Cons h hs)
  show ?case
  proof (cases h)
    case (Line l)
    then show ?thesis using Cons.IH [of "relay_line env lib rl l x"] Cons.prems by (simp add: relay_line)
  next
    case (Others f)
    then show ?thesis using Cons.IH [of "(fst x, f (snd x))"] Cons.prems by simp
  qed
qed simp

lemma relay_command:
  assumes "I e" "rl_ticket_key rl = k" "wd_command wd q e0 = (hs, r)" "relay_all env lib rl hs (rs, e) = (rs', e')"
  shows "I e'"
  using relay_all [of "(rs, e)" rl hs env lib] world assms unfolding world_keeps_def
  by simp (metis fst_conv)

lemma relay_session:
  assumes "I e" "rl_ticket_key rl = k" "wd_session wd q e0 = (hs, r)" "relay_all env lib rl hs (rs, e) = (rs', e')"
  shows "I e'"
  using relay_all [of "(rs, e)" rl hs env lib] world assms unfolding world_keeps_def
  by simp (metis fst_conv)

end

subsection \<open>Steps\<close>

text \<open>The entry of a step that goes on, and of one that is over.\<close>

definition log_open :: "step_log \<Rightarrow> bool" where
  "log_open l \<longleftrightarrow> step_log_ok l \<and> sl_status l = Running"

lemma log_open_ok [simp]: "log_open l \<Longrightarrow> step_log_ok l"
  by (simp add: log_open_def)

lemma log_open_new [simp]: "log_open (step_log_new now n)" "log_open (step_log_bootstrap now n)"
  by (simp_all add: log_open_def step_log_ok_new) (simp_all add: step_log_new_def step_log_bootstrap_def)

lemma log_open_push [simp]: "log_open l \<Longrightarrow> log_open (step_log_push x l)"
  by (simp add: log_open_def step_log_ok_push) (simp add: step_log_push_def)

lemma log_complete [simp]: "log_open l \<Longrightarrow> step_log_ok (step_log_complete now Success l)"
  by (simp add: log_open_def step_log_ok_complete)

lemma push_name [simp]: "sl_step_name (step_log_push x l) = sl_step_name l"
  by (simp add: step_log_push_def)

text \<open>The entry the commands of a step leave, with the flag that one of them failed.\<close>

definition command_log :: "string \<Rightarrow> step_log \<times> bool \<Rightarrow> bool" where
  "command_log n x \<longleftrightarrow> sl_step_name (fst x) = n \<and>
     (if snd x then step_log_ok (fst x) \<and> sl_status (fst x) = Failed else log_open (fst x))"

lemma command_log_ok: "command_log n (l, failed) \<Longrightarrow> step_log_ok l"
  by (auto simp: command_log_def split: if_splits)

context run_in_world
begin

lemma complete_step: "complete_step env l e = (l', e') \<Longrightarrow> I e \<Longrightarrow> log_open l \<Longrightarrow> I e' \<and> step_log_ok l'"
  by (auto simp: complete_step_def core_frame)

lemma fail_step: "fail_step env m l e = (l', e') \<Longrightarrow> I e \<Longrightarrow> I e' \<and> step_log_ok l'"
  by (auto simp: fail_step_def core_frame step_log_ok_fail)

lemma broadcast:
  "I e \<Longrightarrow> I (broadcast_step_started env k' n e)" "I e \<Longrightarrow> I (broadcast_step_completed env k' n e)"
  by (simp_all add: broadcast_step_started_def broadcast_step_completed_def Let_def core_frame)

lemma record_end: "I e \<Longrightarrow> step_log_ok l \<Longrightarrow> I (record_end env k i st l e)"
  by (simp add: record_end_def add_step_log persist core_frame)

lemma begin_step:
  assumes "begin_step env jb n e = ((l, i), e')" and "I e" shows "I e' \<and> log_open l"
  using assms persist(3) [of _ _ _ _ _] broadcast(1) [of "e\<lparr>eng_ticks := Suc (eng_ticks e)\<rparr>"]
  by (auto simp: begin_step_def record_start_def core_frame split: option.splits prod.splits)
    (metis core_frame(1) persist(3) snd_conv)

lemma commands:
  assumes "jb_ticket_key jb = k" and "rl_ticket_key rl = k"
  shows "I e \<Longrightarrow> log_open l \<Longrightarrow> run_post I (command_log (sl_step_name l)) (run_commands env wd rc jb rl n i cmds r l e)"
proof (induction cmds arbitrary: i r l e)
  case (Cons cmd cmds)
  show ?case
    unfolding run_commands.simps Let_def
  proof (intro run_post_then [where P = "\<lambda>_. True"], goal_cases)
    case (3 _ e1 _ e2)
    obtain hs result where c: "wd_command wd
        \<lparr>cq_command = interpolate_command_template cmd (jb_vars jb), cq_worktree = jb_worktree jb,
         cq_runner = jb_runner jb, cq_timeout = Some (rc_timeout rc)\<rparr> e2 = (hs, result)"
      by (cases "wd_command wd
        \<lparr>cq_command = interpolate_command_template cmd (jb_vars jb), cq_worktree = jb_worktree jb,
         cq_runner = jb_runner jb, cq_timeout = Some (rc_timeout rc)\<rparr> e2")
    obtain r' e3 where rel: "relay_all env (rc_json rc) rl hs (r, e2) = (r', e3)"
      by (cases "relay_all env (rc_json rc) rl hs (r, e2)")
    have e3: "I e3" by (rule relay_command [OF _ assms(2) c rel]) (use 3 in simp)
    have ih: "run_post I (command_log (sl_step_name l))
        (run_commands env wd rc jb rl n (i + 1) cmds r' (step_log_push m l) e3)" for m
      using Cons.IH [OF e3, of "step_log_push m l"] Cons.prems by simp
    have failed: "I e4 \<and> command_log (sl_step_name l) (l', True)" if "fail_step env m l e3 = (l', e4)" for m l' e4
      using fail_step [OF that e3] that by (auto simp: command_log_def fail_step_def step_log_fail_def)
    show ?case
      using ih e3 by (auto simp: c rel split: sum.split takuto_error.split prod.split dest: failed)
  qed (simp_all add: token paused Cons.prems)
qed (simp add: command_log_def)

lemma finish_step:
  "I e \<Longrightarrow> step_log_ok l \<Longrightarrow> jb_ticket_key jb = k \<Longrightarrow> run_keeps I (finish_step env jb n i l pg e)"
  by (simp add: finish_step_def broadcast record_end)

lemma abort_step:
  "I e \<Longrightarrow> step_log_ok l \<Longrightarrow> jb_ticket_key jb = k \<Longrightarrow> run_keeps I (abort_step env jb i l err e)"
  by (simp add: abort_step_def record_end)

lemma command_step:
  assumes jb: "jb_ticket_key jb = k" and e: "I e"
  shows "run_keeps I (run_command_step env wd rc jb idx step r n lr pg e)"
proof -
  obtain l i e1 where b: "begin_step env jb n e = ((l, i), e1)" by (metis prod.exhaust)
  have e1: "I e1" "log_open l" using begin_step [OF b e] by blast+
  show ?thesis
    unfolding run_command_step_def Let_def b prod.case
  proof (rule run_post_then [OF commands [OF jb _ e1]], goal_cases)
    case (2 x e2)
    obtain l1 failed where x: "x = (l1, failed)" by (cases x)
    show ?case
      using 2 command_log_ok [of "sl_step_name l" l1 failed] unfolding x prod.case
      by (auto simp: command_log_def intro!: finish_step abort_step jb dest: complete_step split: prod.split)
  qed (simp add: relay_for_def jb)
qed

lemma agent_step:
  assumes jb: "jb_ticket_key jb = k" and e: "I e"
  shows "run_keeps I (run_agent_step env wd rc jb idx step r n lr pg0 e)"
proof -
  obtain l i e1 where b: "begin_step env jb n e = ((l, i), e1)" by (metis prod.exhaust)
  have e1: "I e1" "log_open l" using begin_step [OF b e] by blast+
  obtain prompt resume pg where c:
    "resume_choice rc step r pg0 (step_prompt rc step (step_system_prompt wd rc jb step e1)) = ((prompt, resume), pg)"
    by (metis prod.exhaust)
  let ?q = "session_request_for rc jb (full_prompt rc jb prompt) resume (step_system_prompt wd rc jb step e1)"
  let ?rl = "relay_for rc (jb_ticket_key jb) (relay_label jb idx step r) (rc_max_repeated rc) e1"
  obtain hs result where s: "wd_session wd ?q e1 = (hs, result)" by (metis prod.exhaust)
  obtain relay e2 where rel: "relay_all env (rc_json rc) ?rl hs (relay_start, e1) = (relay, e2)" by (metis prod.exhaust)
  have e2: "I e2" by (rule relay_session [OF e1(1) _ s rel]) (simp add: relay_for_def jb)
  have named: "I (modify_workflow k (\<lambda>w. w\<lparr>wf_last_session_id := x\<rparr>) e2)" for x
    by (rule modify [OF e2]) (simp add: item_change_def workflow_ok_def)
  have failed: "run_keeps I (case fail_step env m l e2 of (l1, e3) \<Rightarrow> abort_step env jb i l1 err e3)"
      "run_keeps I (case fail_step env m l e2 of (l1, e3) \<Rightarrow> if b then abort_step env jb i l1 err e3
         else finish_step env jb n i l1 pg e3)" for m err b
    using fail_step [OF _ e2] by (auto intro!: abort_step finish_step jb split: prod.split)
  have completed: "run_keeps I (case complete_step env (step_log_push m l) (modify_workflow k (f x) e2) of
      (l1, e4) \<Rightarrow> finish_step env jb n i l1 (g x) e4)"
    if "\<And>x. I (modify_workflow k (f x) e2)" for m f g and x :: "string \<times> string"
  proof -
    obtain l1 e4 where d: "complete_step env (step_log_push m l) (modify_workflow k (f x) e2) = (l1, e4)"
      by (metis prod.exhaust)
    show ?thesis
      using complete_step [OF d that log_open_push [OF e1(2)]] by (simp add: d finish_step jb)
  qed
  show ?thesis
  proof (cases "rl_loop relay")
    case (Some x)
    then show ?thesis
      by (cases x) (simp add: run_agent_step_def b c s rel [unfolded jb] jb Let_def failed)
  next
    case None
    note body = run_agent_step_def b c s rel [unfolded jb] None Let_def jb
    show ?thesis
    proof (cases result)
      case (Inl err)
      then show ?thesis
        by (cases "err = Cancelled") (simp add: body e2, cases err, simp_all add: body failed(2))
    next
      case (Inr out)
      then show ?thesis
        using completed [where f = "\<lambda>x w. w\<lparr>wf_last_session_id := Some (fst x)\<rparr>" and x = out
            and g = "\<lambda>x. pg\<lparr>pg_session := Some (fst x), pg_last_output := Some (snd x)\<rparr>"] named
        by (cases out) (simp add: body)
    qed
  qed
qed

lemma step:
  assumes jb: "jb_ticket_key jb = k" and e: "I e"
  shows "run_keeps I (run_step env wd rc jb outer indexed r pg e)"
proof -
  obtain idx step where i: "indexed = (idx, step)" by (cases indexed)
  show ?thesis
    unfolding run_step_def i prod.case Let_def
  proof (intro run_post_then [where P = "\<lambda>_. True"], goal_cases)
    case (3 _ e1 _ e2)
    show ?case
    proof (cases "jb_skip_prior jb \<and> step_already_succeeded (jb_prior_steps jb)
        (step_label_of (jb_outer_loops jb) outer step r)")
      case False
      show ?thesis
        unfolding if_not_P [OF False]
        by (rule run_post_then [OF slot [OF 3(3)]]) (simp add: command_step agent_step jb transition_to_agent_step)
    qed (use 3 in simp)
  qed (simp_all add: token paused e)
qed

lemma cycle:
  assumes jb: "jb_ticket_key jb = k" and e: "I e"
  shows "run_keeps I (run_cycle env wd rc jb outer pg e)"
  unfolding run_cycle_def
  by (intro run_post_then [where P = "\<lambda>_. True"] token paused e run_post_all step jb)

lemma sequence:
  assumes jb: "jb_ticket_key jb = k" and e: "I e"
  shows "run_keeps I (run_agent_step_sequence env wd rc jb session snap e)"
  unfolding run_agent_step_sequence_def
  by (rule run_post_then [where P = "\<lambda>_. True"], rule run_post_all) (simp_all add: cycle jb e)

lemma attach: "try_attach_secrets_bundle wd k e = (b, e') \<Longrightarrow> I e \<Longrightarrow> I e'"
proof -
  assume a: "try_attach_secrets_bundle wd k e = (b, e')" and e: "I e"
  have "I (modify_workflow k (\<lambda>w. if wf_auth_pin w = None then w\<lparr>wf_auth_pin := Some pin\<rparr> else w) e)" for pin
    by (rule modify [OF e]) (simp add: item_change_def workflow_ok_def)
  then have "ensure_workflow_auth_pin wd k u e = (r, e1) \<Longrightarrow> I e1" for u r e1
    using e by (auto simp: ensure_workflow_auth_pin_def split: if_splits sum.splits)
  then show "I e'"
    using a e by (auto simp: try_attach_secrets_bundle_def split: option.splits if_splits prod.splits sum.splits)
qed

lemma runner: "I e \<Longrightarrow> run_keeps I (build_runner wd rc k e)"
  by (auto simp: build_runner_def dest: attach split: prod.split)

lemma resolve:
  "I e \<Longrightarrow> I (snd (resolve_repo_for_ticket env k' e))"
  "I e \<Longrightarrow> I (snd (resolve_jira_project_keys env u ws e))"
  "I e \<Longrightarrow> I (snd (resolve_worktree_init_commands env u ws e))"
  "I e \<Longrightarrow> I (snd (resolve_worktree_generate_report env u ws e))"
  by (erule same; simp add: resolve_repo_core resolve_names_core resolve_jira_project_keys_def
      resolve_worktree_init_commands_def resolve_worktree_generate_report_def case_prod_beta)+

lemma flow_steps:
  assumes d: "drv_ticket_key d = k" and e: "I e"
  shows "run_keeps I (run_workflow_def_steps env wd rc d p ts td tt e)"
  unfolding run_workflow_def_steps_def Let_def d
proof (intro run_post_then [where P = "\<lambda>_. True"], goal_cases)
  case (4 x e1 x' e2 x'' e3)
  let ?ws = "case wf_get e3 k of None \<Rightarrow> [] | Some w \<Rightarrow> wf_workspace_name w"
  obtain report e4 where r: "resolve_worktree_generate_report env (user_id_for_ticket e3 k) ?ws e3 = (report, e4)"
    by (metis prod.exhaust)
  have e4: "I e4" using resolve(4) [OF 4(5), of env "user_id_for_ticket e3 k" ?ws] by (simp add: r)
  show ?case
    unfolding r prod.case
    by (rule run_post_then [where P = "\<lambda>_. True", OF sequence])
      (auto simp: e4 reset_flow_report_section_def Let_def core_frame transition_to_done_with_pr_url
        intro: transition split: option.split)
qed (simp_all add: runner paused token e)

lemma begin_bootstrap: "begin_bootstrap_step env n e = (l, e') \<Longrightarrow> I e \<Longrightarrow> I e' \<and> log_open l"
  by (auto simp: begin_bootstrap_step_def core_frame)

lemma noted: "noted_call env x m l e = (l', e') \<Longrightarrow> I e \<Longrightarrow> log_open l \<Longrightarrow> I e' \<and> log_open l'"
  by (auto simp: noted_call_def perform_eq core_frame split: sum.splits)

lemma assign:
  assumes d: "drv_ticket_key d = k" and e: "I e" shows "run_keeps I (assign_step env d repo owner e)"
proof -
  obtain l e1 where b: "begin_bootstrap_step env ''Assign Ticket'' (transition env k Assigning e) = (l, e1)"
    by (metis prod.exhaust)
  have e1: "I e1" "log_open l" using begin_bootstrap [OF b transition [OF e]] by simp_all
  have keep: "I e5 \<and> step_log_ok l3"
    if "noted_call env x m l e2 = (l1, e3)" "noted_call env x' m' l1 e3 = (l2, e4)"
      "complete_step env l2 e4 = (l3, e5)" "I e2" for x m x' m' e2 l1 e3 l2 e4 l3 e5
    using noted [OF that(1) that(4) e1(2)] noted [OF that(2)] complete_step [OF that(3)] by blast
  show ?thesis
    unfolding assign_step_def Let_def d b prod.case
    by (rule run_post_then [OF token [OF e1(1)]])
      (auto split: prod.split intro!: add_step_log dest: keep)
qed

lemma retrieve:
  assumes d: "drv_ticket_key d = k" and e: "I e" shows "run_keeps I (retrieve_step env wd d keys e)"
proof -
  obtain l e1 where b: "begin_bootstrap_step env ''Retrieve Details'' (transition env k RetrievingDetails e) = (l, e1)"
    by (metis prod.exhaust)
  have e1: "I e1" "log_open l" using begin_bootstrap [OF b transition [OF e]] by simp_all
  have "I (modify_workflow k (\<lambda>w. w\<lparr>wf_ticket_description := x, wf_ticket_type := y, wf_ticket_summary := z\<rparr>) e2)"
    if "I e2" for x y z e2
    by (rule modify [OF that]) (simp add: item_change_def workflow_ok_def)
  note kept = complete_step [OF _ this log_open_push [OF e1(2)]]
  show ?thesis
    unfolding retrieve_step_def Let_def d b prod.case
    by (rule run_post_then [OF token [OF e1(1)]])
      (auto split: prod.split sum.split intro!: add_step_log dest: kept fail_step)
qed

lemma use_tree: "I e \<Longrightarrow> run_keeps I (use_worktree env k p br e)"
  unfolding use_worktree_def
  by (auto split: prod.split intro!: add_step_log dest!: begin_bootstrap complete_step)

lemma make_tree: assumes e: "I e" shows "run_keeps I (make_worktree env k ty repo base e)"
proof -
  obtain l e1 where b: "begin_bootstrap_step env ''Create Worktree'' e = (l, e1)" by (metis prod.exhaust)
  have e1: "I e1" "log_open l" using begin_bootstrap [OF b e] by simp_all
  have stored: "I (case wf_get e3 k of
        None \<Rightarrow> e3
      | Some w \<Rightarrow> (case tick env e3 of (now, e') \<Rightarrow>
          shadow_persist_branch_and_worktree (wf_id w) br (Some p) (timestamp now)
            (wf_put k (w\<lparr>wf_branch_name := br, wf_worktree_path := Some p, wf_updated_at := now\<rparr>) e')))"
    if "I e3" for br p e3
  proof (cases "wf_get e3 k")
    case (Some w)
    have "I (wf_put k (w\<lparr>wf_branch_name := br, wf_worktree_path := Some p, wf_updated_at := n\<rparr>) e3)" for n
      by (rule item [OF that Some]) (simp add: item_change_def workflow_ok_def)
    then show ?thesis by (simp add: Some put_ticks core_frame persist)
  qed (use that in simp)
  have finish: "run_keeps I (case complete_step env l' e4 of (l1, e5) \<Rightarrow> Some (Inr p, add_step_log k l1 e5))"
    if "I e4" "log_open l'" for p e4 l'
    using that by (auto split: prod.split intro!: add_step_log dest!: complete_step)
  have made: "run_keeps I (case r of
        Inl err \<Rightarrow> Some (Inl err, e3)
      | Inr p \<Rightarrow>
          (case complete_step env (step_log_push (''Worktree: '' @ p) (step_log_push (''Branch: '' @ br) l))
              (case wf_get e3 k of
                None \<Rightarrow> e3
              | Some w \<Rightarrow> (case tick env e3 of (now, e') \<Rightarrow>
                  shadow_persist_branch_and_worktree (wf_id w) br (Some p) (timestamp now)
                    (wf_put k (w\<lparr>wf_branch_name := br, wf_worktree_path := Some p, wf_updated_at := now\<rparr>) e'))) of
            (l1, e5) \<Rightarrow> Some (Inr p, add_step_log k l1 e5)))"
    if "I e3" for r e3 br
    by (cases r) (simp only: sum.case run_post_simps that, simp only: sum.case,
        rule finish [OF stored [OF that]], simp add: e1)
  show ?thesis
    unfolding make_worktree_def Let_def b prod.case perform_eq snd_conv
    by (rule made) (simp add: core_frame e1)
qed

lemma setup_run:
  assumes d: "drv_ticket_key d = k" and e: "I e"
  shows "run_keeps I (setup_command env wd rc d q n subj failed e)"
  unfolding setup_command_def Let_def d
proof (rule run_post_then [OF slot [OF e]])
  fix x e1 assume e1: "I e1"
  obtain l e2 where b: "begin_bootstrap_step env n e1 = (l, e2)" by (metis prod.exhaust)
  have e2: "I (broadcast_step_started env k n e2)" "log_open l"
    using begin_bootstrap [OF b e1] by (simp_all add: broadcast)
  obtain hs result where c: "wd_command wd q (broadcast_step_started env k n e2) = (hs, result)" by (metis prod.exhaust)
  let ?rl = "relay_for rc k n 0 (broadcast_step_started env k n e2)"
  obtain r e4 where rel: "relay_all env (rc_json rc) ?rl hs (relay_start, broadcast_step_started env k n e2) = (r, e4)"
    by (metis prod.exhaust)
  have e4: "I e4" by (rule relay_command [OF e2(1) _ c rel]) (simp add: relay_for_def)
  show "run_keeps I (case begin_bootstrap_step env n e1 of (l, e2) \<Rightarrow>
      case wd_command wd q (broadcast_step_started env k n e2) of (hs, result) \<Rightarrow>
      case relay_all env (rc_json rc) (relay_for rc k n 0 (broadcast_step_started env k n e2)) hs
          (relay_start, broadcast_step_started env k n e2) of (x, e4) \<Rightarrow>
      case result of
        Inr out \<Rightarrow>
          if co_exit_code out = 0 then
            case complete_step env (step_log_push (subj @ '' completed'') l) e4 of
              (l1, e5) \<Rightarrow> Some (Inr (), broadcast_step_completed env k n (add_step_log k l1 e5))
          else case fail_step env (failed out) l e4 of
              (l1, e5) \<Rightarrow> Some (Inl (OtherError (failed out)), add_step_log k l1 e5)
      | Inl err \<Rightarrow> case fail_step env (subj @ '' error: '' @ error_text err) l e4 of
              (l1, e5) \<Rightarrow> Some (Inl err, add_step_log k l1 e5))"
    using e4 e2(2)
    by (auto simp: b c rel split: sum.split prod.split intro!: broadcast add_step_log dest!: complete_step fail_step)
qed

lemma bootstrap:
  assumes d: "drv_ticket_key d = k" and e: "I e"
  shows "run_keeps I (bootstrap_ticket env wd d repo keys e)"
    and "run_keeps I (bootstrap_worktree env wd d ty repo base e)"
    and "run_keeps I (bootstrap_setup env wd rc d p e)"
proof -
  show "run_keeps I (bootstrap_ticket env wd d repo keys e)"
    unfolding bootstrap_ticket_def
    by (auto intro!: run_post_then [where P = "\<lambda>_. True"] assign retrieve d simp: e)
  show "run_keeps I (bootstrap_worktree env wd d ty repo base e)"
    unfolding bootstrap_worktree_def Let_def d
    by (rule run_post_then [OF token [OF transition [OF e]]])
      (auto simp: others intro!: use_tree make_tree split: option.split)
  show "run_keeps I (bootstrap_setup env wd rc d p e)"
    unfolding bootstrap_setup_def Let_def d perform_eq snd_conv
  proof (rule run_post_then [where P = "\<lambda>_. True"], goal_cases)
    case (2 rn e1)
    let ?ws = "case wf_get e1 k of None \<Rightarrow> [] | Some w \<Rightarrow> wf_workspace_name w"
    obtain cmds e2 where r: "resolve_worktree_init_commands env (user_id_for_ticket e1 k) ?ws e1 = (cmds, e2)"
      by (metis prod.exhaust)
    have e2: "I e2" using resolve(3) [OF 2(1), of env "user_id_for_ticket e1 k" ?ws] by (simp add: r)
    have "I (modify_workflow k (\<lambda>w. w\<lparr>wf_worktree_bootstrapped := True\<rparr>) e')" if "I e'" for e'
      by (rule modify [OF that]) (simp add: item_change_def workflow_ok_def)
    then show ?case
      unfolding r prod.case
      by (intro run_post_then [where P = "\<lambda>_. True"] run_post_all)
        (auto simp: mise_install_def init_command_def e2 intro!: setup_run d)
  qed (simp add: runner core_frame e)
qed

lemma bootstrapped:
  assumes d: "drv_ticket_key d = k" and e: "I e"
  shows "run_keeps I (bootstrap_new_workflow env wd rc d e)"
  unfolding bootstrap_new_workflow_def Let_def d
proof (intro run_post_then [where P = "\<lambda>_. True"], goal_cases)
  case (3 x e1 x' e2)
  obtain repo base e3 where r: "resolve_repo_for_ticket env k e2 = ((repo, base), e3)" by (metis prod.exhaust)
  have e3: "I e3" using resolve(1) [OF 3(3), of env k] by (simp add: r)
  let ?ws = "case wf_get e3 k of None \<Rightarrow> [] | Some w \<Rightarrow> wf_workspace_name w"
  obtain keys e4 where ks: "resolve_jira_project_keys env (user_id_for_ticket e2 k) ?ws e3 = (keys, e4)"
    by (metis prod.exhaust)
  have e4: "I e4" using resolve(2) [OF e3, of env "user_id_for_ticket e2 k" ?ws] by (simp add: ks)
  show ?case
    unfolding r prod.case ks
    by (intro run_post_then [where P = "\<lambda>_. True"] bootstrap d e4) simp_all
qed (simp_all add: paused token e)

lemma body:
  assumes d: "drv_ticket_key d = k" and e: "I e" shows "run_keeps I (drive_body env wd rc d e)"
  unfolding drive_body_def
  by (auto split: option.split prod.split intro!: run_post_then [where P = "\<lambda>_. True"] bootstrapped flow_steps d e)

lemma start: "drv_ticket_key d = k \<Longrightarrow> I e \<Longrightarrow> I (snd (drive_start env d e))"
proof -
  assume d: "drv_ticket_key d = k" and e: "I e"
  let ?e = "modify_workflow k (\<lambda>w. w\<lparr>wf_current_def_total_steps := Some (flow_step_count (drv_steps d))\<rparr>) e"
  have ok: "I ?e" by (rule modify [OF e]) (simp add: item_change_def workflow_ok_def)
  have "I (snd (db_read q ?e))" for q :: "database \<Rightarrow> db_error + 'b"
    by (rule shadow [OF ok]) (simp_all add: db_read_keeps)
  from this [of "\<lambda>db. get_work_item_by_ticket_key db k"] show ?thesis
    unfolding drive_start_def Let_def d using ok
    by (auto split: option.splits sum.splits prod.splits)
qed

end

end
