(* ===== verification/Run_Outcome.thy ===== *)
theory Run_Outcome
  imports Run_Props
begin

text \<open>
  The contract of \<^theory_text>\<open>Run_Props\<close> at the invariants that matter, and what follows for a driver:
  it keeps the engine consistent, touches its own item only, ends, and reports its steps truly.
\<close>

subsection \<open>The invariant of the engine\<close>

interpretation consistent: run_invariant k engine_ok for k :: string
proof
  fix e k w w' assume "engine_ok e" "wf_get e k = Some w" "item_change k w w'"
  then show "engine_ok (wf_put k w' e)"
    by (auto simp: item_change_def intro: engine_ok_put_same dest: engine_okD(1))
next
  fix e e' assume "engine_ok e" "only_db e e'" "dbs_ok e \<Longrightarrow> dbs_ok e'"
  then show "engine_ok e'" by (blast intro: engine_ok_only_db engine_ok_dbs)
qed (simp add: engine_ok_same_core)

lemma consistent_world: "world_keeps engine_ok wd \<Longrightarrow> run_in_world k engine_ok wd"
  by unfold_locales

lemma drive_workflow_def_keeps:
  assumes "run_in_world (drv_ticket_key d) I wd" and "I e" and "drive_workflow_def env wd rc d e = Some e'"
  obtains r e2 where "I e2" "e' = drive_finish env d r e2"
proof -
  obtain x e1 where s: "drive_start env d e = (x, e1)" by (metis prod.exhaust)
  have "I e1" using run_in_world.start [OF assms(1) refl assms(2), of env] by (simp add: s)
  then have b: "run_keeps I (drive_body env wd rc d e1)" by (rule run_in_world.body [OF assms(1) refl])
  obtain r e2 where "drive_body env wd rc d e1 = Some (r, e2)" "e' = drive_finish env d r e2"
    using assms(3) by (auto simp: drive_workflow_def_def s)
  then show thesis using b that by simp
qed

subsection \<open>A run alone\<close>

text \<open>A world in which no other task does anything.\<close>

definition is_line :: "happening \<Rightarrow> bool" where
  "is_line h = (case h of Line _ \<Rightarrow> True | Others _ \<Rightarrow> False)"

definition quiet :: "world \<Rightarrow> world" where
  "quiet wd = wd\<lparr>wd_others := (\<lambda>e. e), wd_slot := (\<lambda>e. (fst (wd_slot wd e), e)),
     wd_command := (\<lambda>q e. apfst (filter is_line) (wd_command wd q e)),
     wd_session := (\<lambda>q e. apfst (filter is_line) (wd_session wd q e))\<rparr>"

lemma quiet_keeps [simp]: "world_keeps I (quiet wd)"
  by (simp add: world_keeps_def quiet_def is_line_def)

text \<open>What a run leaves as in \<open>e0\<close>: the other items, the drivers, the tokens, and who its item is.\<close>

definition own_item_only :: "engine \<Rightarrow> string \<Rightarrow> engine \<Rightarrow> bool" where
  "own_item_only e0 k e \<longleftrightarrow>
     (\<forall>k'. k' \<noteq> k \<longrightarrow> wf_get e k' = wf_get e0 k') \<and>
     map_option (\<lambda>w. (wf_id w, wf_ticket_key w, wf_cancel_token w)) (wf_get e k) =
       map_option (\<lambda>w. (wf_id w, wf_ticket_key w, wf_cancel_token w)) (wf_get e0 k) \<and>
     eng_drivers e = eng_drivers e0 \<and> eng_cancelled e = eng_cancelled e0 \<and> eng_next_token e = eng_next_token e0"

interpretation frame: run_in_world k "own_item_only e0 k" "quiet wd" for k e0 wd
proof
  fix e e' assume "own_item_only e0 k e" "same_core e e'"
  then show "own_item_only e0 k e'" by (simp add: own_item_only_def same_core_wf) (simp add: same_core_def)
next
  fix e e' assume "own_item_only e0 k e" "only_db e e'"
  then show "own_item_only e0 k e'" by (simp add: own_item_only_def only_dbD)
next
  fix e w w' assume "own_item_only e0 k e" "wf_get e k = Some w" "item_change k w w'"
  then show "own_item_only e0 k (wf_put k w' e)" by (simp add: own_item_only_def item_change_def)
qed simp

subsection \<open>Runs end\<close>

definition returns :: "'a option \<Rightarrow> bool" where
  "returns m \<longleftrightarrow> m \<noteq> None"

lemma returns_Some [simp]: "returns (Some x)"
  by (simp add: returns_def)

lemma returns_then [run_intros]:
  "returns m \<Longrightarrow> (\<And>x e. returns (f x e)) \<Longrightarrow> returns (then_run m f)"
  by (cases m) (auto simp: returns_def then_run_def split: sum.split)

lemma returns_all [run_intros]: "(\<And>x s e. returns (f x s e)) \<Longrightarrow> returns (run_all f xs s e)"
proof (induction xs arbitrary: s e)
  case (Cons x xs)
  show ?case unfolding run_all.simps by (intro returns_then Cons)
qed simp

definition pauses_end :: "world \<Rightarrow> string \<Rightarrow> nat \<Rightarrow> bool" where
  "pauses_end wd k t \<longleftrightarrow> (\<forall>e. \<exists>n. wait_if_paused k t ((wd_others wd ^^ n) e) \<noteq> None)"

lemma returns_wait:
  assumes "pauses_end wd k t" shows "returns (wait_while_paused wd k t e)"
proof -
  have "wait_if_paused k t ((wd_others wd ^^ n) e) \<noteq> None \<Longrightarrow> returns (wait_while_paused wd k t e)" for n
  proof (induction n arbitrary: e)
    case (Suc n)
    then have "returns (wait_while_paused wd k t (wd_others wd e))" by (simp add: funpow_swap1)
    then show ?case by (subst wait_while_paused.simps) (simp split: option.split)
  qed (subst wait_while_paused.simps, auto)
  then show ?thesis using assms unfolding pauses_end_def by blast
qed

lemma returns_basic [run_intros, simp]:
  "returns (check_token t e)" "returns (acquire_agent_slot wd e)" "returns (build_runner wd rc k e)"
  "returns (finish_step env jb n i l pg e)" "returns (abort_step env jb i l err e)"
  by (simp_all add: check_token_def acquire_agent_slot_def build_runner_def finish_step_def abort_step_def
      split: prod.split slot_event.split)

lemma returns_case [run_intros]:
  "(\<And>x y. returns (f x y)) \<Longrightarrow> returns (case p of (x, y) \<Rightarrow> f x y)"
  "(\<And>x y. returns (g' x y e)) \<Longrightarrow> returns ((case p of (x, y) \<Rightarrow> g' x y) e)"
  "returns a \<Longrightarrow> returns b \<Longrightarrow> returns (if c then a else b)"
  "returns g \<Longrightarrow> (\<And>x. returns (h x)) \<Longrightarrow> returns (case q of None \<Rightarrow> g | Some x \<Rightarrow> h x)"
  "(\<And>x. returns (u x)) \<Longrightarrow> (\<And>y. returns (v y)) \<Longrightarrow> returns (case z of Inl x \<Rightarrow> u x | Inr y \<Rightarrow> v y)"
  by (simp_all split: prod.split option.split sum.split)

lemma returns_commands:
  "pauses_end wd (jb_ticket_key jb) (jb_token jb) \<Longrightarrow> returns (run_commands env wd rc jb rl n i cmds r l e)"
proof (induction cmds arbitrary: i r l e)
  case (Cons c cs)
  note ih = Cons.IH [OF Cons.prems]
  show ?case
    unfolding run_commands.simps Let_def
    by (intro run_intros returns_wait Cons.prems)
      (simp_all add: ih split: takuto_error.split prod.split)
qed simp

lemma returns_agent_step: "returns (run_agent_step env wd rc jb idx step r n lr pg e)"
  unfolding run_agent_step_def Let_def
  by (intro run_intros) (simp_all split: takuto_error.split prod.split)

lemma returns_step:
  assumes "pauses_end wd (jb_ticket_key jb) (jb_token jb)"
  shows "returns (run_step env wd rc jb outer indexed r pg e)"
  unfolding run_step_def run_command_step_def Let_def
  by (intro run_intros returns_wait returns_commands returns_agent_step assms) (simp_all)

lemma returns_flow:
  assumes "pauses_end wd (drv_ticket_key d) (drv_cancel_token d)"
  shows "returns (run_workflow_def_steps env wd rc d p ts td tt e)"
  unfolding run_workflow_def_steps_def run_agent_step_sequence_def run_cycle_def Let_def
  by (intro run_intros returns_wait returns_step) (simp_all add: assms split: option.split)

lemma returns_setup: "returns (setup_command env wd rc d q n subj failed e)"
  unfolding setup_command_def Let_def by (intro run_intros) simp_all

lemma returns_bootstrap:
  assumes "pauses_end wd (drv_ticket_key d) (drv_cancel_token d)"
  shows "returns (bootstrap_new_workflow env wd rc d e)"
  unfolding bootstrap_new_workflow_def bootstrap_ticket_def assign_step_def retrieve_step_def
    bootstrap_worktree_def use_worktree_def make_worktree_def bootstrap_setup_def mise_install_def
    init_command_def Let_def
  by (intro run_intros returns_wait returns_setup assms) simp_all

lemma returns_drive:
  assumes "pauses_end wd (drv_ticket_key d) (drv_cancel_token d)"
  shows "returns (drive_workflow_def env wd rc d e)"
proof -
  have "returns (drive_body env wd rc d e1)" for e1
    unfolding drive_body_def by (intro run_intros returns_flow returns_bootstrap assms)
  then show ?thesis by (auto simp: drive_workflow_def_def returns_def split: prod.split)
qed

subsection \<open>What a step reports\<close>

text \<open>The log of an item ends with the entry of a step, in a status.\<close>

definition logged :: "string \<Rightarrow> string \<Rightarrow> (step_status \<Rightarrow> bool) \<Rightarrow> engine \<Rightarrow> bool" where
  "logged k n P e \<longleftrightarrow> (\<forall>w. wf_get e k = Some w \<longrightarrow>
     (\<exists>l ls. wf_steps_log w = ls @ [l] \<and> sl_step_name l = n \<and> P (sl_status l)))"

lemma logged_record:
  "sl_step_name l = n \<Longrightarrow> P (sl_status l) \<Longrightarrow> logged k n P (record_end env k i st l e)"
  "sl_step_name l = n \<Longrightarrow> P (sl_status l) \<Longrightarrow>
    logged k n P (broadcast_step_completed env k n' (record_end env k i st l e))"
  by (auto simp: logged_def record_end_def add_step_log_def broadcast_step_completed_def Let_def
      modify_workflow_def split: option.splits)

lemma finish_logged:
  "finish_step env jb n' i l pg e = Some (res, e') \<Longrightarrow> sl_step_name l = n \<Longrightarrow> P (sl_status l) \<Longrightarrow>
     res = Inr pg \<and> logged (jb_ticket_key jb) n P e'"
  by (auto simp: finish_step_def logged_record)

lemma abort_logged:
  "abort_step env jb i l err e = Some (res, e') \<Longrightarrow> sl_step_name l = n \<Longrightarrow> P (sl_status l) \<Longrightarrow>
     res = Inl err \<and> logged (jb_ticket_key jb) n P e'"
  by (auto simp: abort_step_def logged_record)

lemma fail_step_log: "fail_step env m l e = (l', e') \<Longrightarrow> sl_step_name l' = sl_step_name l \<and> sl_status l' = Failed"
  by (auto simp: fail_step_def step_log_fail_def)

lemma complete_step_log:
  "complete_step env l e = (l', e') \<Longrightarrow> sl_step_name l' = sl_step_name l \<and> sl_status l' = Success"
  by (auto simp: complete_step_def step_log_complete_def)

lemma begin_step_name: "begin_step env jb n e = ((l, i), e') \<Longrightarrow> sl_step_name l = n"
  by (auto simp: begin_step_def step_log_new_def split: prod.splits)

interpretation unguarded: run_in_world k "\<lambda>_. True" wd for k wd
  by unfold_locales (simp_all add: world_keeps_def)

lemma wait_error: "wait_while_paused wd k t e = Some (Inl err, e') \<Longrightarrow> err = Cancelled"
proof -
  assume w: "wait_while_paused wd k t e = Some (Inl err, e')"
  have "\<forall>err e'. (Inl err, e') = (Inl err, e') \<and> y = (Inl err, e') \<longrightarrow> err = Cancelled"
    if "wait_while_paused wd k t e = Some y" for y
  proof (rule wait_while_paused.raw_induct [where P = "\<lambda>wd k t e y.
        \<forall>err e'. (Inl err, e') = (Inl err, e') \<and> y = (Inl err, e') \<longrightarrow> err = Cancelled", OF _ that])
    fix wait wd k t e y
    assume IH: "\<And>wd k t e y. wait wd k t e = Some y \<Longrightarrow>
        \<forall>err e'. (Inl err, e') = (Inl err, e') \<and> y = (Inl err, e') \<longrightarrow> err = Cancelled"
      and y: "(case wait_if_paused k t e of None \<Rightarrow> wait wd k t (wd_others wd e) | Some r \<Rightarrow> Some (r, e)) = Some y"
    show "\<forall>err e'. (Inl err, e') = (Inl err, e') \<and> y = (Inl err, e') \<longrightarrow> err = Cancelled"
      using y IH [of wd k t "wd_others wd e" y]
      by (cases "wait_if_paused k t e") (auto simp: wait_if_paused_def split: if_splits)
  qed
  from this [OF w] show ?thesis by simp
qed

lemma then_run_error:
  assumes "then_run m f = Some (Inl err, e')"
  shows "m = Some (Inl err, e') \<or> (\<exists>x e. m = Some (Inr x, e) \<and> f x e = Some (Inl err, e'))"
  using assms by (auto simp: then_run_def split: option.splits sum.splits)

lemma commands_error:
  "run_commands env wd rc jb rl n i cmds r l e = Some (Inl err, e') \<Longrightarrow> err = Cancelled"
proof (induction cmds arbitrary: i r l e)
  case (Cons c cs)
  from Cons.prems show ?case
    unfolding run_commands.simps Let_def
    by (auto dest!: then_run_error wait_error Cons.IH
        simp: check_token_def check_cancelled_def split: prod.splits sum.splits takuto_error.splits if_splits)
qed simp

definition step_reported :: "string \<Rightarrow> string \<Rightarrow> bool \<Rightarrow> takuto_error + 'a \<Rightarrow> engine \<Rightarrow> bool" where
  "step_reported k n final res e =
     (case res of
        Inr _ \<Rightarrow> logged k n (\<lambda>st. st = Success \<or> final \<and> st = Failed) e
      | Inl err \<Rightarrow> err = Cancelled \<or>
          logged k n (\<lambda>st. st = Failed) e \<and> (final \<longrightarrow> (\<exists>m line. err = NoProgressLoop m line)))"

lemma command_step_reported:
  assumes "run_command_step env wd rc jb idx step r n final pg e = Some (res, e')"
  shows "step_reported (jb_ticket_key jb) n final res e'"
proof -
  obtain l i e1 where b: "begin_step env jb n e = ((l, i), e1)" by (metis prod.exhaust)
  let ?rl = "relay_for rc (jb_ticket_key jb) (relay_label jb idx step r) 0 e1"
  let ?m = "run_commands env wd rc jb ?rl (length (as_commands step)) 0 (as_commands step) relay_start l e1"
  have "log_open l" using unguarded.begin_step [OF b] by simp
  then have post: "run_post (\<lambda>_. True) (command_log n) ?m"
    using unguarded.commands [where jb = jb and rl = ?rl and l = l] begin_step_name [OF b] by (simp add: relay_for_def)
  show ?thesis
  proof (cases res)
    case (Inl err)
    then show ?thesis
      using assms post unfolding run_command_step_def Let_def b prod.case
      by (auto dest!: then_run_error commands_error abort_logged [where n = n and P = "\<lambda>st. st = Failed"]
          simp: step_reported_def command_log_def finish_step_def split: if_splits prod.splits)
  next
    case (Inr pg')
    then obtain l1 failed e2 where m: "?m = Some (Inr (l1, failed), e2)"
      using assms unfolding run_command_step_def Let_def b prod.case
      by (cases ?m) (auto simp: then_run_def split: sum.splits)
    show ?thesis
      using assms post unfolding run_command_step_def Let_def b prod.case m Inr
      by (auto simp: then_run_def command_log_def step_reported_def abort_step_def
          split: if_splits prod.splits dest!: complete_step_log
          dest: finish_logged [where n = n and P = "\<lambda>st. st = Success \<or> final \<and> st = Failed"])
  qed
qed

lemma agent_step_reported:
  assumes "run_agent_step env wd rc jb idx step r n final pg e = Some (res, e')"
  shows "step_reported (jb_ticket_key jb) n final res e'"
proof -
  obtain l i e1 where b: "begin_step env jb n e = ((l, i), e1)" by (metis prod.exhaust)
  note name = begin_step_name [OF b]
  let ?k = "jb_ticket_key jb"
  have failed: "step_reported ?k n final res e'"
    if "(case fail_step env m l e2 of (l1, e3) \<Rightarrow> if \<not> final then abort_step env jb i l1 err e3
        else finish_step env jb n i l1 pg e3) = Some (res, e')" for m e2 err pg
    using that name
    by (auto simp: step_reported_def split: prod.splits if_splits sum.split dest!: fail_step_log
        dest: finish_logged [where n = n and P = "\<lambda>st. st = Success \<or> final \<and> st = Failed"]
          abort_logged [where n = n and P = "\<lambda>st. st = Failed"])
  have looped: "step_reported ?k n final res e'"
    if "(case fail_step env m l e2 of (l1, e3) \<Rightarrow> abort_step env jb i l1 (NoProgressLoop x y) e3) = Some (res, e')"
    for m e2 x y
    using that name
    by (auto simp: step_reported_def split: prod.splits sum.split dest!: fail_step_log
        dest: abort_logged [where n = n and P = "\<lambda>st. st = Failed"])
  have completed: "step_reported ?k n final res e'"
    if "(case complete_step env (step_log_push m l) e2 of (l1, e3) \<Rightarrow> finish_step env jb n i l1 pg e3) = Some (res, e')"
    for m e2 pg
    using that name
    by (auto simp: step_reported_def split: prod.splits sum.split dest!: complete_step_log
        dest: finish_logged [where n = n and P = "\<lambda>st. st = Success \<or> final \<and> st = Failed"])
  obtain prompt resume pg1 where c:
    "resume_choice rc step r pg (step_prompt rc step (step_system_prompt wd rc jb step e1)) = ((prompt, resume), pg1)"
    by (metis prod.exhaust)
  let ?q = "session_request_for rc jb (full_prompt rc jb prompt) resume (step_system_prompt wd rc jb step e1)"
  let ?rl = "relay_for rc (jb_ticket_key jb) (relay_label jb idx step r) (rc_max_repeated rc) e1"
  obtain hs result where s: "wd_session wd ?q e1 = (hs, result)" by (metis prod.exhaust)
  obtain relay e2 where rel: "relay_all env (rc_json rc) ?rl hs (relay_start, e1) = (relay, e2)" by (metis prod.exhaust)
  note run = assms [unfolded run_agent_step_def Let_def b c s rel prod.case]
  show ?thesis
  proof (cases "rl_loop relay")
    case (Some x)
    obtain m line where x: "x = (m, line)" by (cases x)
    show ?thesis by (rule looped) (use run in \<open>simp add: Some x\<close>)
  next
    case None
    show ?thesis
    proof (cases result)
      case (Inr out)
      obtain sid said where "out = (sid, said)" by (cases out)
      then show ?thesis using run unfolding None Inr by simp (rule completed)
    next
      case (Inl err)
      show ?thesis
      proof (cases "err = Cancelled")
        case True
        then show ?thesis using run by (auto simp: None Inl step_reported_def)
      next
        case False
        then show ?thesis
          using run unfolding None Inl by (cases err) (simp_all del: error_text.simps, (erule failed)+)
      qed
    qed
  qed
qed

lemma finish_frame: "wf_get (finish_and_tell env k i u d st m e) k' = wf_get e k'"
  "eng_suppress (finish_and_tell env k i u d st m e) = eng_suppress e"
  "eng_drivers (finish_and_tell env k i u d st m e) = eng_drivers e"
  "eng_next_token (finish_and_tell env k i u d st m e) = eng_next_token e"
  by (simp_all add: finish_and_tell_def Let_def)

text \<open>
  A first step that resumes leaves the flag of a restarted run set: a later step that does not resume is
  told to go on instead of being given its prompt.
\<close>

lemma resume_flag_survives:
  assumes "as_resume_previous s" "\<not> as_resume_previous s'" "\<not> rc_share_conversation rc" "pg_resume_pending pg"
  shows "fst (fst (resume_choice rc s' 1 (snd (resume_choice rc s 1 pg p))  p')) =
    ''Resume what you were doing before the session was closed.''"
  using assms by (simp add: resume_choice_def)

subsection \<open>Properties\<close>

text \<open>
  Whatever other tasks do meanwhile, as long as they keep the engine consistent, a driver keeps it
  consistent from its start to its end: items under their own key, well-formed states and logs, tokens
  handed out once, valid tables.
\<close>
lemma drive_keeps_engine_consistent:
  assumes "engine_ok e" and "world_keeps engine_ok wd" and "drive_workflow_def env wd rc d e = Some e'"
  shows "engine_ok e'"
  using drive_workflow_def_keeps [OF consistent_world [OF assms(2)] assms(1,3)] drive_finish_ok by metis

text \<open>
  A run in which nothing else happens leaves every other item as it was, keeps the id and the token
  of its own, hands out and cancels no token, and takes one driver away: its own.
\<close>
lemma run_alone_touches_own_item:
  assumes "drive_workflow_def env (quiet wd) rc d e = Some e'"
  shows "(\<forall>k'. k' \<noteq> drv_ticket_key d \<longrightarrow> wf_get e' k' = wf_get e k') \<and>
    map_option (\<lambda>w. (wf_id w, wf_cancel_token w)) (wf_get e' (drv_ticket_key d)) =
      map_option (\<lambda>w. (wf_id w, wf_cancel_token w)) (wf_get e (drv_ticket_key d)) \<and>
    eng_drivers e' = remove1 d (eng_drivers e) \<and> eng_cancelled e' = eng_cancelled e \<and>
    eng_next_token e' = eng_next_token e"
proof -
  have "own_item_only e (drv_ticket_key d) e" by (simp add: own_item_only_def)
  then obtain r e2 where e2: "own_item_only e (drv_ticket_key d) e2" and e': "e' = drive_finish env d r e2"
    using drive_workflow_def_keeps [OF frame.run_in_world_axioms _ assms] by metis
  have "map_option (\<lambda>w. (wf_id w, wf_cancel_token w)) (wf_get e' (drv_ticket_key d)) =
      map_option (\<lambda>w. (wf_id w, wf_cancel_token w)) (wf_get e2 (drv_ticket_key d))"
    "eng_drivers e' = remove1 d (eng_drivers e2)" "eng_next_token e' = eng_next_token e2"
    unfolding e' drive_finish_def Let_def
    by (auto simp: finish_frame update_workflow_def put_ticks split: sum.split option.split)
  moreover have "map_option (\<lambda>w. (wf_id w, wf_cancel_token w)) (wf_get e2 (drv_ticket_key d)) =
      map_option (\<lambda>w. (wf_id w, wf_cancel_token w)) (wf_get e (drv_ticket_key d))"
    using e2 by (cases "wf_get e2 (drv_ticket_key d)"; cases "wf_get e (drv_ticket_key d)")
      (simp_all add: own_item_only_def)
  ultimately show ?thesis
    using e2 unfolding e' by (simp add: own_item_only_def drive_finish_frame)
qed


text \<open>
  C28: what a step returns is what the log of the item says. A step that lets the run go on has logged
  its success, or is the last of the flow: the failure of the last step is logged and passed over, so the
  run still ends as done. A step that stops the run was cancelled or has logged its failure, and the last
  one stops it only for repeating itself.
\<close>
theorem step_result_matches_log:
  assumes "(if is_command_step step then run_command_step env wd rc jb idx step r n final pg e
      else run_agent_step env wd rc jb idx step r n final pg e) = Some (res, e')"
    and "wf_get e' (jb_ticket_key jb) = Some w"
  shows "\<exists>ls l. case res of
      Inr _ \<Rightarrow> wf_steps_log w = ls @ [l] \<and> sl_step_name l = n \<and>
        (sl_status l = Success \<or> final \<and> sl_status l = Failed)
    | Inl err \<Rightarrow> err = Cancelled \<or> wf_steps_log w = ls @ [l] \<and> sl_step_name l = n \<and> sl_status l = Failed \<and>
        (final \<longrightarrow> (\<exists>m line. err = NoProgressLoop m line))"
proof -
  have "step_reported (jb_ticket_key jb) n final res e'"
    using assms(1) command_step_reported agent_step_reported by (auto split: if_splits)
  then show ?thesis
    using assms(2) by (cases res) (auto simp: step_reported_def logged_def)
qed

subsection \<open>The properties at work\<close>

definition sample_world :: world where
  "sample_world = \<lparr>wd_others = (\<lambda>e. snd (stop_workflow sample_env ''T-1'' e)), wd_slot = (\<lambda>e. (Permit, e)),
     wd_command = (\<lambda>_ _. ([], Inr \<lparr>co_exit_code = 1, co_stdout = [], co_stderr = ''no rule''\<rparr>)),
     wd_session = (\<lambda>_ _. ([], Inr (''s-1'', ''done''))), wd_docker = (\<lambda>_. True), wd_worker_image = (\<lambda>_. None),
     wd_has_resolver = False, wd_pin = (\<lambda>_ _. Inl ''none''), wd_bundle = (\<lambda>_. False),
     wd_ticket = (\<lambda>k _ _. Inl DockerUnavailable), wd_read_file = (\<lambda>_ _. None), wd_parse_outcome = (\<lambda>_. None)\<rparr>"

definition sample_run_config :: run_config where
  "sample_run_config = \<lparr>rc_provider = Codex, rc_cursor_cli = ''agent'', rc_cursor_model = [], rc_claude_model = None,
     rc_codex_model = [], rc_opencode_model = [], rc_timeout = 60, rc_share_conversation = False,
     rc_max_repeated = 3, rc_idle_nudge = 0, rc_worker_image = [], rc_home = ''/home'',
     rc_jira = \<lparr>jl_max_description_bytes = 1000, jl_linked_items_in_prompt = Full, jl_linked_max_bytes = 100\<rparr>, rc_json = no_json\<rparr>"

definition make_step :: agent_step_config where
  "make_step = \<lparr>as_name = ''build'', as_prompt = [], as_repeat = 1, as_skills = [],
     as_resume_previous = False, as_when = Always, as_commands = [''make'']\<rparr>"

definition sample_job :: job where
  "sample_job = \<lparr>jb_ticket_key = ''T-1'', jb_worktree = ''/wt'', jb_vars = Map.empty, jb_steps = [make_step],
     jb_outer_loops = 1, jb_token = 0, jb_runner = \<lparr>rn_image = ''i'', rn_bundle = False\<rparr>, jb_prior_steps = [],
     jb_skip_prior = False, jb_skill_paths = [], jb_inject_report = False, jb_def = None\<rparr>"

definition start_of_run :: progress where
  "start_of_run = \<lparr>pg_session = None, pg_last_output = None, pg_resume_pending = False\<rparr>"

lemma wait_passes: "wait_if_paused k t e = Some r \<Longrightarrow> wait_while_paused wd k t e = Some (r, e)"
  by (subst wait_while_paused.simps) simp

lemma sample_world_keeps: "world_keeps engine_ok sample_world"
  by (auto simp: world_keeps_def sample_world_def stop_workflow_ok)

lemma sample_pauses_end: "pauses_end sample_world ''T-1'' 0"
  unfolding pauses_end_def
proof
  fix e
  have "wait_if_paused ''T-1'' 0 (snd (stop_workflow sample_env ''T-1'' e)) = Some (Inr ())"
  proof (cases "wf_get e ''T-1''")
    case None
    then show ?thesis by (simp add: wait_if_paused_def stop_workflow_def)
  next
    case (Some w)
    then show ?thesis by (simp add: wait_if_paused_def stop_workflow_effect is_paused_def)
  qed
  then show "\<exists>n. wait_if_paused ''T-1'' 0 ((wd_others sample_world ^^ n) e) \<noteq> None"
    by (intro exI [of _ 1]) (simp add: sample_world_def)
qed

lemma sample_drive: "\<exists>e'. drive_workflow_def sample_env sample_world sample_run_config sample_driver sample_engine = Some e'"
  using returns_drive [of sample_world sample_driver sample_env sample_run_config sample_engine] sample_pauses_end
  by (simp add: sample_driver_def returns_def)




theorem step_result_matches_log_witness:
  "\<exists>e' w ls l. run_command_step sample_env sample_world sample_run_config sample_job 0 make_step 1 ''build'' True
       start_of_run (sample_engine\<lparr>eng_db := None\<rparr>) = Some (Inr start_of_run, e') \<and>
     wf_get e' ''T-1'' = Some w \<and> wf_steps_log w = ls @ [l] \<and> sl_step_name l = ''build'' \<and> sl_status l = Failed"
proof -
  let ?m = "run_command_step sample_env sample_world sample_run_config sample_job 0 make_step 1 ''build'' True
       start_of_run (sample_engine\<lparr>eng_db := None\<rparr>)"
  let ?w = "sample_item 0 ''T-1'' (AddressingTicket 1)"
  have get: "wf_get sample_engine ''T-1'' = Some ?w" "eng_cancelled sample_engine = {}"
    by (simp_all add: sample_get) (simp add: sample_engine_def)
  have log: "wf_steps_log ?w = []" "wf_state ?w = AddressingTicket 1" by (simp_all add: sample_item_def workflow_new_def)
  obtain e' w where m: "?m = Some (Inr start_of_run, e')" "wf_get e' ''T-1'' = Some w"
      "map sl_status (wf_steps_log w) = [Failed]"
    using get log
    by (simp add: run_command_step_def begin_step_def record_start_def broadcast_step_started_def Let_def
        shadow_record_step_start_def make_step_def sample_job_def then_run_def check_token_def check_cancelled_def
        wait_passes wait_if_paused_def is_paused_def sample_world_def fail_step_def step_log_fail_def
        finish_step_def record_end_def broadcast_step_completed_def add_step_log_def modify_workflow_def
        start_of_run_def shadow_record_step_end_def)
  have "is_command_step make_step" by code_simp
  then show ?thesis
    using step_result_matches_log [of make_step sample_env sample_world sample_run_config sample_job 0 1 "''build''" True
        start_of_run "sample_engine\<lparr>eng_db := None\<rparr>" "Inr start_of_run" e' w] m
    by (auto simp: sample_job_def)
qed

end
