(* ===== verification/Engine_Steps.thy ===== *)
theory Engine_Steps
  imports Run_Outcome Engine_Removal
begin

text \<open>
  The engine as a whole: the calls of its interface and the drivers it has spawned, in any order, as a
  step relation. While a driver waits, the other tasks take steps of the same relation.
\<close>

subsection \<open>Calls\<close>

record new_ticket =
  nt_uuid :: string
  nt_key :: string
  nt_summary :: string
  nt_manual :: bool
  nt_description :: "string option"
  nt_url :: "string option"
  nt_user :: "string option"
  nt_repo :: "string option"

datatype request =
  StartWorkflow new_ticket
| AddToDashboard new_ticket
| StartDefinition string string "string option"
| RetryDefinition string string "string option"
| Pause string
| Stop string
| StopAll
| Resume string
| ResumeFromError string
| RetryWorkflow string string
| Delete string
| MarkDone string
| Interrupt

fun serve :: "env \<Rightarrow> request \<Rightarrow> engine \<Rightarrow> engine" where
  "serve env (StartWorkflow t) e = snd (start_workflow env (nt_uuid t) (nt_key t) (nt_summary t) (nt_manual t)
     (nt_description t) (nt_url t) (nt_user t) (nt_repo t) e)"
| "serve env (AddToDashboard t) e = snd (add_to_dashboard env (nt_uuid t) (nt_key t) (nt_summary t) (nt_manual t)
     (nt_description t) (nt_url t) (nt_user t) (nt_repo t) e)"
| "serve env (StartDefinition k d u) e = snd (start_workflow_def env k d u e)"
| "serve env (RetryDefinition k d u) e = snd (retry_workflow_def env k d u e)"
| "serve env (Pause k) e = snd (pause_workflow env k e)"
| "serve env (Stop k) e = snd (stop_workflow env k e)"
| "serve env StopAll e = stop_all_workflows env e"
| "serve env (Resume k) e = snd (resume_workflow env k e)"
| "serve env (ResumeFromError k) e = snd (resume_from_error env k e)"
| "serve env (RetryWorkflow uuid k) e = snd (retry_workflow env uuid k e)"
| "serve env (Delete k) e = snd (delete_workflow env k e)"
| "serve env (MarkDone k) e = snd (mark_work_done env k e)"
| "serve env Interrupt e = snd (persist_interrupt env e)"

subsection \<open>Steps\<close>

inductive engine_step :: "env \<Rightarrow> engine \<Rightarrow> engine \<Rightarrow> bool" for env where
  call: "engine_step env e (serve env r e)"
| drive: "d \<in> set (eng_drivers e) \<Longrightarrow>
    (\<forall>e1. (engine_step env)\<^sup>*\<^sup>* e1 (wd_others wd e1) \<and> (engine_step env)\<^sup>*\<^sup>* e1 (snd (wd_slot wd e1))) \<Longrightarrow>
    (\<forall>q e0 f e1. Others f \<in> set (fst (wd_command wd q e0)) \<longrightarrow> (engine_step env)\<^sup>*\<^sup>* e1 (f e1)) \<Longrightarrow>
    (\<forall>q e0 f e1. Others f \<in> set (fst (wd_session wd q e0)) \<longrightarrow> (engine_step env)\<^sup>*\<^sup>* e1 (f e1)) \<Longrightarrow>
    drive_workflow_def env wd rc d e = Some e' \<Longrightarrow> engine_step env e e'"
| prepare: "(\<forall>e1. (engine_step env)\<^sup>*\<^sup>* e1 (world e1)) \<Longrightarrow>
    engine_step env e (prepare_worktree_for_ticket env world k e)"

inductive_cases engine_stepE [elim]: "engine_step env e e'"

lemma serve_ok [state_intros]: "engine_ok e \<Longrightarrow> engine_ok (serve env r e)"
  by (cases r) (simp_all add: start_workflow_ok add_to_dashboard_ok start_workflow_def_ok retry_workflow_def_ok
      pause_workflow_ok stop_workflow_ok stop_all_ok resume_workflow_ok resume_from_error_ok retry_workflow_ok
      delete_workflow_ok mark_work_done_ok persist_interrupt_ok)

lemma steps_keep:
  assumes "(\<lambda>a b. R a b \<and> (P a \<longrightarrow> P b))\<^sup>*\<^sup>* e e'" and "P e" shows "P e'"
  using assms by (induction rule: rtranclp_induct) blast+

lemma engine_step_ok: "engine_step env e e' \<Longrightarrow> engine_ok e \<longrightarrow> engine_ok e'"
proof (induction rule: engine_step.induct)
  case (call e r)
  then show ?case by (simp add: serve_ok)
next
  case (drive d e wd rc e')
  have "world_keeps engine_ok wd"
    unfolding world_keeps_def
    using steps_keep [OF conjunct1 [OF spec [OF drive.IH(1)]]] steps_keep [OF conjunct2 [OF spec [OF drive.IH(1)]]]
      steps_keep [OF drive.IH(2) [rule_format]] steps_keep [OF drive.IH(3) [rule_format]] by simp
  then show ?case
    using drive_workflow_def_keeps [OF consistent_world _ drive.hyps(2)] drive_finish_ok by metis
next
  case (prepare world e k)
  have "engine_ok e1 \<Longrightarrow> engine_ok (world e1)" for e1
    by (rule steps_keep [OF spec [OF prepare.IH]])
  then show ?case using prepare_worktree_ok by blast
qed



end
