(* ===== verification/Pollers.thy ===== *)
theory Pollers
  imports Engine_Steps
begin

text \<open>
  The background tasks that start work items from tickets: \<open>jira/poller.rs\<close> and
  \<open>github/poller.rs\<close> with the issue list of \<open>github/mod.rs\<close>, and the one that looks for
  merged pull requests, \<open>github/pr_merge_poller.rs\<close>. The answers of Jira and of \<open>gh\<close> are
  parameters, with what other tasks do to the engine while they are awaited. Tokens are not modelled.
\<close>

subsection \<open>Settings and filters\<close>

record poll_config =
  pl_owner :: "string option"
  pl_max_active_workflows :: u32
  pl_max_concurrent_workflows :: u32
  pl_max_parallel_per_user :: bool
  pl_uuid :: "engine \<Rightarrow> string"

definition effective_max_active_workflows :: "poll_config \<Rightarrow> u32" where
  "effective_max_active_workflows pc =
     (if pl_max_active_workflows pc = 0 then pl_max_concurrent_workflows pc else pl_max_active_workflows pc)"

definition matches_any_keyword :: "case_tables \<Rightarrow> string \<Rightarrow> string list \<Rightarrow> bool" where
  "matches_any_keyword ct haystack keywords \<longleftrightarrow>
     keywords = [] \<or>
     (\<exists>kw \<in> set keywords. trim kw \<noteq> [] \<and> str_contains (to_lowercase ct (trim kw)) (to_lowercase ct haystack))"

text \<open>The owner's settings by workspace: collected into a hash map, the last one of a name counts.\<close>

definition settings_by_repo :: "polling_settings settings_row list \<Rightarrow> string \<Rightarrow> polling_settings option" where
  "settings_by_repo rows = map_of (rev (List.map (\<lambda>r. (sr_workspace_name r, sr_columns r)) rows))"

definition USIZE_MAX :: nat where
  "USIZE_MAX = 2 ^ 64 - 1"

definition repo_item_slots :: "poll_config \<Rightarrow> string \<Rightarrow> polling_settings \<Rightarrow> engine \<Rightarrow> nat" where
  "repo_item_slots pc owner s e =
     (if ps_max_parallel_items s > 0
      then unat (ps_max_parallel_items s) -
        count_occupying_slot_for_user e (if pl_max_parallel_per_user pc then Some owner else None)
      else USIZE_MAX)"

subsection \<open>Starting work items\<close>

record candidate =
  cd_key :: string
  cd_summary :: string
  cd_description :: "string option"
  cd_url :: "string option"

record poll_tally =
  pt_seen :: "string set"
  pt_started :: nat

definition start_candidate ::
  "env \<Rightarrow> poll_config \<Rightarrow> string \<Rightarrow> repository_row \<Rightarrow> candidate \<Rightarrow> engine \<Rightarrow> (takuto_error + string) \<times> engine" where
  "start_candidate env pc owner repo c e =
     start_workflow env (pl_uuid pc e) (cd_key c) (cd_summary c) False (cd_description c) (cd_url c)
       (Some owner) (Some (rp_id repo)) e"

fun start_candidates ::
  "env \<Rightarrow> poll_config \<Rightarrow> string \<Rightarrow> repository_row \<Rightarrow> nat \<Rightarrow> nat \<Rightarrow> nat \<Rightarrow> candidate list \<Rightarrow>
   poll_tally \<times> engine \<Rightarrow> poll_tally \<times> engine" where
  "start_candidates env pc owner repo legacy_slots repo_budget repo_started [] x = x"
| "start_candidates env pc owner repo legacy_slots repo_budget repo_started (c # cs) (t, e) =
     (if pt_started t \<ge> legacy_slots \<or> repo_started \<ge> repo_budget then (t, e)
      else if cd_key c \<in> pt_seen t then
        start_candidates env pc owner repo legacy_slots repo_budget repo_started cs (t, e)
      else
        (case start_candidate env pc owner repo c e of
           (Inr _, e') \<Rightarrow>
             start_candidates env pc owner repo legacy_slots repo_budget (repo_started + 1) cs
               (\<lparr>pt_seen = insert (cd_key c) (pt_seen t), pt_started = pt_started t + 1\<rparr>, e')
         | (Inl _, e') \<Rightarrow> start_candidates env pc owner repo legacy_slots repo_budget repo_started cs (t, e')))"

subsection \<open>Jira\<close>

type_synonym jira_lister =
  "string \<Rightarrow> string list \<Rightarrow> string list \<Rightarrow> engine \<Rightarrow> (takuto_error + jira_ticket list) \<times> engine"

definition jira_candidate :: "jira_ticket \<Rightarrow> candidate" where
  "jira_candidate t = \<lparr>cd_key = jt_key t, cd_summary = jt_summary t, cd_description = None, cd_url = None\<rparr>"

definition poll_jira_repo ::
  "env \<Rightarrow> poll_config \<Rightarrow> jira_lister \<Rightarrow> string \<Rightarrow> (string \<Rightarrow> polling_settings option) \<Rightarrow> nat \<Rightarrow> repository_row \<Rightarrow>
   poll_tally \<times> engine \<Rightarrow> poll_tally \<times> engine" where
  "poll_jira_repo env pc list owner settings legacy_slots repo x =
     (case x of (t, e) \<Rightarrow>
        if pt_started t \<ge> legacy_slots then (t, e)
        else (case settings (rp_name repo) of
           None \<Rightarrow> (t, e)
         | Some s \<Rightarrow>
             if \<not> ps_auto_polling s \<or> ps_project_keys s = [] then (t, e)
             else let slots = repo_item_slots pc owner s e in
               if slots = 0 then (t, e)
               else (case list (rp_local_path repo) (ps_project_keys s) (ps_item_types s) e of
                  (Inl _, e') \<Rightarrow> (t, e')
                | (Inr tickets, e') \<Rightarrow>
                    start_candidates env pc owner repo legacy_slots (min (legacy_slots - pt_started t) slots) 0
                      (List.map jira_candidate (filter (\<lambda>k. matches_any_keyword (env_case_tables env) (jt_summary k)
                         (ps_jira_summary_keywords s)) tickets)) (t, e'))))"

text \<open>
  One poll: the owner's repositories and settings, the free places on the dashboard, and the
  repositories in turn. \<open>step\<close> is what is done with one of them.
\<close>

definition poll_owner ::
  "env \<Rightarrow> string \<Rightarrow> engine \<Rightarrow> (takuto_error + repository_row list \<times> (string \<Rightarrow> polling_settings option)) \<times> engine" where
  "poll_owner env owner e =
     (case next_io e of (ok, e1) \<Rightarrow>
        if \<not> ok then (Inl (OtherError (env_db_message env SqlError)), e1)
        else let repos = list_for_user (eng_repos e1) owner in
          if repos = [] then (Inr ([], Map.empty), e1)
          else (case next_io e1 of (ok', e2) \<Rightarrow>
             (case polling_list_for_user ok' (env_decode_polling env) (eng_polling e2) owner of
                Inl err \<Rightarrow> (Inl (OtherError (env_db_message env err)), e2)
              | Inr rows \<Rightarrow> (Inr (repos, settings_by_repo rows), e2))))"

definition free_places :: "poll_config \<Rightarrow> engine \<Rightarrow> nat" where
  "free_places pc e = unat (effective_max_active_workflows pc) - count_all e"

definition tally_start :: "engine \<Rightarrow> poll_tally" where
  "tally_start e = \<lparr>pt_seen = fst ` set (eng_workflows e), pt_started = 0\<rparr>"

definition poll_with ::
  "env \<Rightarrow> poll_config \<Rightarrow>
   (string \<Rightarrow> (string \<Rightarrow> polling_settings option) \<Rightarrow> nat \<Rightarrow> repository_row \<Rightarrow> poll_tally \<times> engine \<Rightarrow> poll_tally \<times> engine) \<Rightarrow>
   engine \<Rightarrow> (takuto_error + unit) \<times> engine" where
  "poll_with env pc step e =
     (case (pl_owner pc, eng_db e) of
        (Some owner, Some _) \<Rightarrow>
          (case poll_owner env owner e of
             (Inl err, e1) \<Rightarrow> (Inl err, e1)
           | (Inr (repos, settings), e1) \<Rightarrow>
               if repos = [] \<or> free_places pc e1 = 0 then (Inr (), e1)
               else (Inr (), snd (fold (step owner settings (free_places pc e1)) repos (tally_start e1, e1))))
      | _ \<Rightarrow> (Inr (), e))"

definition poll_jira :: "env \<Rightarrow> poll_config \<Rightarrow> jira_lister \<Rightarrow> engine \<Rightarrow> (takuto_error + unit) \<times> engine" where
  "poll_jira env pc list = poll_with env pc (poll_jira_repo env pc list)"

subsection \<open>GitHub issues\<close>

record github_issue =
  gi_key :: string
  gi_summary :: string
  gi_body :: string
  gi_html_url :: string
  gi_labels :: "string list"

definition string_or_empty :: "string option \<Rightarrow> string" where
  "string_or_empty = unwrap_or []"

definition label_names :: "json \<Rightarrow> string list" where
  "label_names v =
     (case json_at [''labels''] v of
        None \<Rightarrow> []
      | Some l \<Rightarrow> (case as_array l of None \<Rightarrow> [] | Some ls \<Rightarrow> List.map_filter (str_at [''name'']) ls))"

definition issue_of :: "json \<Rightarrow> github_issue option" where
  "issue_of v =
     (if json_get ''pull_request'' v \<noteq> None then None
      else (case json_get ''number'' v of
         None \<Rightarrow> None
       | Some nv \<Rightarrow> (case as_u64 nv of
           None \<Rightarrow> None
         | Some n \<Rightarrow> (case json_get ''title'' v of
             None \<Rightarrow> None
           | Some tv \<Rightarrow>
               Some \<lparr>gi_key = ''GH-'' @ show_nat n, gi_summary = string_or_empty (as_str tv),
                 gi_body = string_or_empty (str_at [''body''] v),
                 gi_html_url = string_or_empty (str_at [''html_url''] v), gi_labels = label_names v\<rparr>))))"

type_synonym gh_call = "string \<Rightarrow> string \<Rightarrow> engine \<Rightarrow> (takuto_error + command_output) \<times> engine"

text \<open>\<open>json_error\<close> is what serde says of text that is no JSON.\<close>

definition fetch_open_issues ::
  "json_lib \<Rightarrow> (string \<Rightarrow> string) \<Rightarrow> gh_call \<Rightarrow> string \<Rightarrow> string \<Rightarrow> engine \<Rightarrow> (takuto_error + github_issue list) \<times> engine" where
  "fetch_open_issues lib json_error gh owner_repo cwd e =
     (case gh (''repos/'' @ owner_repo @ ''/issues'') cwd e of
        (Inl err, e') \<Rightarrow> (Inl err, e')
      | (Inr out, e') \<Rightarrow>
          if co_exit_code out \<noteq> 0 then
            (Inl (Operational ''gh api repos/<owner_repo>/issues''
               (gh_api_error_message (trim (co_stderr out)) ''Issues: Read'')), e')
          else (case parse_json lib (trim (co_stdout out)) of
             None \<Rightarrow> (Inl (Operational ''github issues json parse'' (json_error (trim (co_stdout out)))), e')
           | Some v \<Rightarrow> (Inr (case as_array v of None \<Rightarrow> [] | Some vs \<Rightarrow> List.map_filter issue_of vs), e')))"

definition wanted_issue :: "case_tables \<Rightarrow> polling_settings \<Rightarrow> github_issue \<Rightarrow> bool" where
  "wanted_issue ct s i \<longleftrightarrow>
     (ps_github_labels s = [] \<or> (\<exists>l \<in> set (gi_labels i). l \<in> set (ps_github_labels s))) \<and>
     matches_any_keyword ct (gi_summary i) (ps_github_title_keywords s)"

definition github_candidate :: "github_issue \<Rightarrow> candidate" where
  "github_candidate i = \<lparr>cd_key = gi_key i, cd_summary = gi_summary i, cd_description = Some (gi_body i),
     cd_url = (if gi_html_url i = [] then None else Some (gi_html_url i))\<rparr>"

definition poll_github_repo ::
  "env \<Rightarrow> poll_config \<Rightarrow> json_lib \<Rightarrow> (string \<Rightarrow> string) \<Rightarrow> gh_call \<Rightarrow> string \<Rightarrow> (string \<Rightarrow> polling_settings option) \<Rightarrow> nat \<Rightarrow>
   repository_row \<Rightarrow> poll_tally \<times> engine \<Rightarrow> poll_tally \<times> engine" where
  "poll_github_repo env pc lib json_error gh owner settings legacy_slots repo x =
     (case x of (t, e) \<Rightarrow>
        if pt_started t \<ge> legacy_slots then (t, e)
        else (case settings (rp_name repo) of
           None \<Rightarrow> (t, e)
         | Some s \<Rightarrow>
             if \<not> ps_auto_polling s then (t, e)
             else (case env_remote_url env (rp_local_path repo) of
                Inl _ \<Rightarrow> (t, e)
              | Inr remote_url \<Rightarrow>
                  (case parse_github_repo remote_url of
                     None \<Rightarrow> (t, e)
                   | Some owner_repo \<Rightarrow>
                       let slots = repo_item_slots pc owner s e in
                       if slots = 0 then (t, e)
                       else (case fetch_open_issues lib json_error gh owner_repo (rp_local_path repo) e of
                          (Inl _, e') \<Rightarrow> (t, e')
                        | (Inr issues, e') \<Rightarrow>
                            start_candidates env pc owner repo legacy_slots (min (legacy_slots - pt_started t) slots) 0
                              (List.map github_candidate (filter (wanted_issue (env_case_tables env) s) issues))
                              (t, e'))))))"

definition poll_github ::
  "env \<Rightarrow> poll_config \<Rightarrow> json_lib \<Rightarrow> (string \<Rightarrow> string) \<Rightarrow> gh_call \<Rightarrow> engine \<Rightarrow> (takuto_error + unit) \<times> engine" where
  "poll_github env pc lib json_error gh = poll_with env pc (poll_github_repo env pc lib json_error gh)"

subsection \<open>Merged pull requests\<close>

definition eligible_for_merge_check :: "workflow \<Rightarrow> (string \<times> string \<times> nat) option" where
  "eligible_for_merge_check w =
     (if wf_pr_merged w then None
      else (case wf_pr_url w of
         None \<Rightarrow> None
       | Some url \<Rightarrow>
           if trim url = [] then None
           else (case parse_pr_url (trim url) of
              None \<Rightarrow> None
            | Some (owner_repo, n) \<Rightarrow> Some (wf_ticket_key w, owner_repo, n))))"

definition check_pr_merged :: "gh_call \<Rightarrow> string \<Rightarrow> nat \<Rightarrow> string \<Rightarrow> engine \<Rightarrow> (string + bool) \<times> engine" where
  "check_pr_merged gh owner_repo pr_number cwd e =
     (case gh (''repos/'' @ owner_repo @ ''/pulls/'' @ show_nat pr_number) cwd e of
        (Inl err, e') \<Rightarrow> (Inl (''gh api failed: '' @ error_text err), e')
      | (Inr out, e') \<Rightarrow>
          if co_exit_code out \<noteq> 0 then
            (Inl (''gh api failed: '' @ gh_api_error_message (trim (co_stderr out)) ''Pull requests: Read''), e')
          else if trim (co_stdout out) = ''true'' then (Inr True, e')
          else if trim (co_stdout out) = ''false'' then (Inr False, e')
          else (Inl (''unexpected gh output: '' @ quoted (trim (co_stdout out))), e'))"

definition note_merged :: "env \<Rightarrow> string \<Rightarrow> engine \<Rightarrow> engine" where
  "note_merged env k e =
     (let e1 = (case wf_get e k of
            None \<Rightarrow> e
          | Some w0 \<Rightarrow>
              (case tick env e of (now, e') \<Rightarrow>
                 let w = w0\<lparr>wf_pr_merged := True, wf_updated_at := now\<rparr>; e2 = wf_put k w e' in
                 (case eng_db e2 of
                    None \<Rightarrow> e2
                  | Some _ \<Rightarrow> snd (db_write (update_pr_merged (wf_id w) True (timestamp now)) e2))))
      in case tick env e1 of (now, e3) \<Rightarrow>
           send ((item_updated now [] k (state_line e3 k) None None (user_id_for_ticket e3 k))
             \<lparr>ev_pr_merged := Some True\<rparr>) e3)"

fun check_merges ::
  "env \<Rightarrow> (engine \<Rightarrow> bool) \<Rightarrow> gh_call \<Rightarrow> (string \<times> string \<times> nat) list \<Rightarrow> engine \<Rightarrow> engine" where
  "check_merges env cancelled gh [] e = e"
| "check_merges env cancelled gh ((k, owner_repo, n) # rest) e =
     (if cancelled e then e
      else (case check_pr_merged gh owner_repo n (env_repo_path env) e of
         (Inr True, e') \<Rightarrow> check_merges env cancelled gh rest (note_merged env k e')
       | (_, e') \<Rightarrow> check_merges env cancelled gh rest e'))"

definition poll_merges :: "env \<Rightarrow> (engine \<Rightarrow> bool) \<Rightarrow> gh_call \<Rightarrow> engine \<Rightarrow> engine" where
  "poll_merges env cancelled gh e =
     check_merges env cancelled gh (List.map_filter eligible_for_merge_check (hash_values env e)) e"

subsection \<open>A poll alone\<close>

text \<open>Answers that come while no other task acts.\<close>

definition lister_alone :: "jira_lister \<Rightarrow> jira_lister" where
  "lister_alone list = (\<lambda>p ks ts e. (fst (list p ks ts e), e))"

definition gh_alone :: "gh_call \<Rightarrow> gh_call" where
  "gh_alone gh = (\<lambda>endpoint cwd e. (fst (gh endpoint cwd e), e))"

lemma wf_keys: "fst ` set (eng_workflows e) = {k. wf_get e k \<noteq> None}"
  by (auto simp: wf_get_def dom_map_of_conv_image_fst [symmetric] dom_def)

lemma count_all_card: "distinct (List.map fst (eng_workflows e)) \<Longrightarrow> count_all e = card {k. wf_get e k \<noteq> None}"
  using distinct_card [of "List.map fst (eng_workflows e)"] by (simp add: count_all_def wf_keys [symmetric] del: not_None_eq)

lemma finite_keys [simp]: "finite {k. wf_get e k \<noteq> None}"
  unfolding wf_keys [symmetric] by simp

definition occupying :: "engine \<Rightarrow> string set" where
  "occupying e = {k. \<exists>w. wf_get e k = Some w \<and> occupies_concurrency_slot (wf_state w)}"

lemma count_occupying_card:
  assumes "distinct (List.map fst (eng_workflows e))"
  shows "count_occupying_slot e = card (occupying e)"
proof -
  let ?on = "filter (\<lambda>x. occupies_concurrency_slot (wf_state (snd x))) (eng_workflows e)"
  have "occupying e = fst ` set ?on"
    using assms by (force simp: occupying_def wf_get_def)
  moreover have "distinct (List.map fst ?on)" using assms by (rule distinct_map_filter)
  moreover have "count_occupying_slot e = length ?on"
    by (simp add: count_occupying_slot_def workflow_values_def filter_map comp_def)
  ultimately show ?thesis by (metis distinct_card length_map set_map)
qed

lemma occupying_subset: "occupying e \<subseteq> {k. wf_get e k \<noteq> None}"
  by (auto simp: occupying_def)

text \<open>
  What a poll has done so far, from \<open>e0\<close>: the items that were there are as they were, and as many
  new ones as the tally says.
\<close>

definition grown :: "engine \<Rightarrow> nat \<Rightarrow> poll_tally \<times> engine \<Rightarrow> bool" where
  "grown e0 slots x \<longleftrightarrow> engine_ok (snd x) \<and> {k. wf_get (snd x) k \<noteq> None} \<subseteq> pt_seen (fst x) \<and>
     pt_started (fst x) \<le> slots \<and> count_all (snd x) = count_all e0 + pt_started (fst x) \<and>
     (\<forall>k w. wf_get e0 k = Some w \<longrightarrow> wf_get (snd x) k = Some w)"

lemma engine_ok_distinct: "engine_ok e \<Longrightarrow> distinct (List.map fst (eng_workflows e))"
  by (simp add: engine_ok_def)

lemma start_candidate_adds:
  assumes "start_candidate env pc owner repo c e = (r, e')" and "engine_ok e" and "wf_get e (cd_key c) = None"
  shows "engine_ok e'"
    and "\<And>k. k \<noteq> cd_key c \<Longrightarrow> wf_get e' k = wf_get e k"
    and "r = Inr i \<Longrightarrow> count_all e' = count_all e + 1"
    and "r = Inr i \<Longrightarrow> wf_get e' (cd_key c) \<noteq> None"
    and "r = Inl err \<Longrightarrow> eng_workflows e' = eng_workflows e"
proof -
  note out = start_workflow_outcome [OF assms(1) [unfolded start_candidate_def]]
  show ok: "engine_ok e'"
    using start_workflow_ok [OF assms(2)] assms(1) unfolding start_candidate_def by (metis snd_conv)
  show "wf_get e' k = wf_get e k" if "k \<noteq> cd_key c" for k
    using out that by (cases r) (auto simp: wf_get_def)
  show "wf_get e' (cd_key c) \<noteq> None" if "r = Inr i" using out that by auto
  show "eng_workflows e' = eng_workflows e" if "r = Inl err" using out that by simp
  show "count_all e' = count_all e + 1" if r: "r = Inr i"
  proof -
    have "{k. wf_get e' k \<noteq> None} = insert (cd_key c) {k. wf_get e k \<noteq> None}"
      using out r by (auto split: if_splits) (metis option.distinct(1))+
    then show ?thesis
      using assms(3) card_insert_disjoint [OF finite_keys, of "cd_key c" e]
      by (simp add: count_all_card engine_ok_distinct ok assms(2) del: not_None_eq)
  qed
qed

lemma start_candidates_grow:
  "grown e0 slots (t, e) \<Longrightarrow> grown e0 slots (start_candidates env pc owner repo slots budget n cs (t, e))"
proof (induction cs arbitrary: t e n)
  case (Cons c cs)
  obtain r e' where s: "start_candidate env pc owner repo c e = (r, e')" by (metis prod.exhaust)
  have ok: "engine_ok e" "{k. wf_get e k \<noteq> None} \<subseteq> pt_seen t" using Cons.prems by (simp_all add: grown_def)
  show ?case
  proof (cases "cd_key c \<in> pt_seen t \<or> pt_started t \<ge> slots")
    case True
    then show ?thesis using Cons by (auto simp: s split: sum.split)
  next
    case False
    then have new: "wf_get e (cd_key c) = None" using ok(2) by auto
    note adds = start_candidate_adds [OF s ok(1) new]
    have old: "wf_get e' k = Some w" if "wf_get e0 k = Some w" for k w
      using that Cons.prems new adds(2) [of k] by (cases "k = cd_key c") (auto simp: grown_def)
    show ?thesis
    proof (cases r)
      case (Inl err)
      then have "grown e0 slots (t, e')"
        using adds(1) adds(5) [OF Inl] Cons.prems by (simp add: grown_def wf_get_def count_all_def)
      then show ?thesis using Cons.IH Cons.prems False by (simp add: s Inl)
    next
      case (Inr i)
      have "wf_get e' k \<noteq> None \<Longrightarrow> k \<in> insert (cd_key c) (pt_seen t)" for k
        using adds(2) [of k] ok(2) by (cases "k = cd_key c") auto
      then have "grown e0 slots (\<lparr>pt_seen = insert (cd_key c) (pt_seen t), pt_started = pt_started t + 1\<rparr>, e')"
        using adds(1) adds(3) [OF Inr] Cons.prems False old by (auto simp: grown_def)
      then show ?thesis using Cons.IH Cons.prems False by (simp add: s Inr)
    qed
  qed
qed simp

locale poll_source =
  fixes env :: env and pc :: poll_config
    and step :: "string \<Rightarrow> (string \<Rightarrow> polling_settings option) \<Rightarrow> nat \<Rightarrow> repository_row \<Rightarrow> poll_tally \<times> engine \<Rightarrow>
      poll_tally \<times> engine"
  assumes step_grows: "grown e0 slots x \<Longrightarrow> grown e0 slots (step owner settings slots repo x)"
begin

lemma fold_grows: "grown e0 slots x \<Longrightarrow> grown e0 slots (fold (step owner settings slots) repos x)"
  by (induction repos arbitrary: x) (simp_all add: step_grows)

lemma poll_grows:
  assumes "poll_with env pc step e = (r, e')" and "engine_ok e"
  shows "engine_ok e' \<and> count_all e' \<le> max (count_all e) (unat (effective_max_active_workflows pc)) \<and>
    (\<forall>k w. wf_get e k = Some w \<longrightarrow> wf_get e' k = Some w)"
proof -
  have unchanged: "engine_ok e1 \<and> count_all e1 \<le> max (count_all e) m \<and>
      (\<forall>k w. wf_get e k = Some w \<longrightarrow> wf_get e1 k = Some w)" if "same_core e e1" for e1 m
    using that assms(2) engine_ok_same_core [OF that] same_core_wf [OF that]
    by (simp add: same_core_def count_all_def)
  have owner: "same_core e (snd (poll_owner env owner e))" for owner
    by (auto simp: poll_owner_def next_io_def Let_def same_core_def split: list.splits sum.splits)
  show ?thesis
  proof (cases "pl_owner pc = None \<or> eng_db e = None")
    case True
    then show ?thesis using assms(1) unchanged [of e] by (auto simp: poll_with_def split: option.splits)
  next
    case False
    then obtain owner db where o: "pl_owner pc = Some owner" "eng_db e = Some db" by auto
    obtain q e1 where q: "poll_owner env owner e = (q, e1)" by (metis prod.exhaust)
    have core: "same_core e e1" using owner [of owner] by (simp add: q)
    show ?thesis
    proof (cases q)
      case (Inl err)
      then show ?thesis using assms(1) unchanged [OF core] by (simp add: poll_with_def o q)
    next
      case (Inr x)
      obtain repos settings where x: "x = (repos, settings)" by (cases x)
      show ?thesis
      proof (cases "repos = [] \<or> free_places pc e1 = 0")
        case True
        then show ?thesis using assms(1) unchanged [OF core] by (auto simp: poll_with_def o q Inr x)
      next
        case False
        have "grown e (free_places pc e1) (tally_start e1, e1)"
          using unchanged [OF core] core
          by (simp add: grown_def tally_start_def wf_keys) (simp add: same_core_def count_all_def)
        from fold_grows [OF this] have
          "grown e (free_places pc e1) (fold (step owner settings (free_places pc e1)) repos (tally_start e1, e1))" .
        moreover have "e' = snd (fold (step owner settings (free_places pc e1)) repos (tally_start e1, e1))"
          using assms(1) False by (auto simp: poll_with_def o q Inr x)
        moreover have "count_all e1 = count_all e" using core by (simp add: same_core_def count_all_def)
        ultimately show ?thesis by (auto simp: grown_def free_places_def)
      qed
    qed
  qed
qed

end

interpretation jira: poll_source env pc "poll_jira_repo env pc (lister_alone list)" for env pc list
proof
  fix e0 slots x owner settings repo
  show "grown e0 slots x \<Longrightarrow> grown e0 slots (poll_jira_repo env pc (lister_alone list) owner settings slots repo x)"
    by (cases x) (auto simp: poll_jira_repo_def lister_alone_def Let_def start_candidates_grow
      split: option.split sum.split)
qed

lemma fetch_alone: "fetch_open_issues lib je (gh_alone gh) r cwd e = (res, e') \<Longrightarrow> e' = e"
  by (auto simp: fetch_open_issues_def gh_alone_def split: sum.splits if_splits option.splits)

interpretation github: poll_source env pc "poll_github_repo env pc lib je (gh_alone gh)" for env pc lib je gh
proof
  fix e0 slots x owner settings repo
  show "grown e0 slots x \<Longrightarrow> grown e0 slots (poll_github_repo env pc lib je (gh_alone gh) owner settings slots repo x)"
    by (cases x) (auto simp: poll_github_repo_def Let_def start_candidates_grow
      split: option.split sum.split prod.split dest!: fetch_alone)
qed

subsection \<open>What is done twice, and what is never undone\<close>

text \<open>
  The key of an issue is made of its number alone: of two repositories' issues with one number the
  second is taken to be there already.
\<close>

lemma issue_key_ignores_repository:
  "issue_of v = Some i \<Longrightarrow> issue_of v' = Some i' \<Longrightarrow> json_get ''number'' v = json_get ''number'' v' \<Longrightarrow>
   gi_key i = gi_key i'"
  by (auto simp: issue_of_def split: if_splits option.splits)

lemma seen_issue_skipped:
  "gi_key i \<in> pt_seen t \<Longrightarrow>
   start_candidates env pc owner repo slots budget n (github_candidate i # cs) (t, e) =
   (if pt_started t \<ge> slots \<or> n \<ge> budget then (t, e) else start_candidates env pc owner repo slots budget n cs (t, e))"
  by (simp add: github_candidate_def)

text \<open>
  When nothing else happens while \<open>gh\<close> answers, the merge poller changes of an item its
  merged flag and its time only, and the flag is only set.
\<close>

definition merge_fields :: "workflow option \<Rightarrow> workflow option" where
  "merge_fields = map_option (\<lambda>w. w\<lparr>wf_pr_merged := False, wf_updated_at := 0\<rparr>)"

lemma note_merged_item:
  "merge_fields (wf_get (note_merged env k e) j) = merge_fields (wf_get e j) \<and>
   (\<forall>w w'. wf_get e j = Some w \<longrightarrow> wf_get (note_merged env k e) j = Some w' \<longrightarrow> wf_pr_merged w \<longrightarrow> wf_pr_merged w')"
proof (cases "wf_get e k")
  case None
  then show ?thesis
    by (simp add: note_merged_def Let_def tick_def send_def merge_fields_def wf_get_def)
next
  case (Some w)
  have db: "wf_get (snd (db_write f e)) j = wf_get e j" for f e
    by (simp add: db_write_def db_exec_def wf_get_def next_io_def split: list.split option.split prod.split)
  show ?thesis
    using Some db
    by (auto simp: note_merged_def Let_def tick_def send_def merge_fields_def wf_get_def wf_put_def split: option.split)
qed

lemma check_merges_only_merged:
  "merge_fields (wf_get (check_merges env cancelled (gh_alone gh) ps e) j) = merge_fields (wf_get e j)"
proof (induction ps arbitrary: e)
  case (Cons p ps)
  obtain k r n where p: "p = (k, r, n)" by (metis prod.exhaust)
  have alone: "snd (check_pr_merged (gh_alone gh) r n (env_repo_path env) e) = e"
    by (simp add: check_pr_merged_def gh_alone_def split: sum.split)
  then show ?case
    using Cons note_merged_item
    by (auto simp: p prod_eq_iff split: prod.split sum.split bool.split)
qed simp

subsection \<open>Property\<close>

lemma engine_ok_db_users:
  assumes "engine_ok e" and "eng_db e = Some db"
  shows "engine_ok (e\<lparr>eng_db := Some (db\<lparr>db_users := U\<rparr>)\<rparr>)"
proof -
  have "item_ids (db\<lparr>db_users := U\<rparr>) = item_ids db" by (simp add: item_ids_def)
  moreover have "wf_get (e\<lparr>eng_db := x\<rparr>) = wf_get e" "token_users (e\<lparr>eng_db := x\<rparr>) = token_users e" for x
    by (auto simp: wf_get_def token_users_def fun_eq_iff)
  ultimately show ?thesis using assms by (simp add: engine_ok_def db_ok_def)
qed

definition sample_poll_settings :: polling_settings where
  "sample_poll_settings = default_polling_settings\<lparr>ps_auto_polling := True, ps_max_parallel_items := 9,
     ps_project_keys := [''T''], ps_item_types := [''Task'']\<rparr>"

definition sample_poll_env :: env where
  "sample_poll_env = sample_env\<lparr>env_decode_polling := (\<lambda>_. Some sample_poll_settings)\<rparr>"

definition sample_poll_engine :: engine where
  "sample_poll_engine = sample_engine\<lparr>
     eng_db := Some (sample_store\<lparr>db_users := {''ann''}\<rparr>),
     eng_repos := \<lparr>rt_repos = [\<lparr>rp_id = ''r'', rp_name = ''app'', rp_repo_url = None, rp_local_path = ''/app'',
         rp_default_branch = ''main'', rp_created_at = 0, rp_created_by = None\<rparr>],
       rt_links = [\<lparr>ur_user_id = ''ann'', ur_repository_id = ''r'', ur_added_at = 0\<rparr>]\<rparr>,
     eng_polling := [\<lparr>sr_user_id = ''ann'', sr_workspace_name = ''app'', sr_columns = [], sr_updated_at = 0\<rparr>]\<rparr>"

definition sample_poll_config :: poll_config where
  "sample_poll_config = \<lparr>pl_owner = Some ''ann'', pl_max_active_workflows = 3, pl_max_concurrent_workflows = 0,
     pl_max_parallel_per_user = False, pl_uuid = (\<lambda>e. ''u'')\<rparr>"

definition sample_tickets :: "jira_ticket list" where
  "sample_tickets = List.map (\<lambda>k. \<lparr>jt_key = k, jt_summary = ''Do'', jt_description = [],
     jt_item_type = ''Task'', jt_status = ''To Do'', jt_linked_items = []\<rparr>) [''T-1'', ''T-9'', ''T-10'']"

text \<open>
  C39: a poll of Jira or GitHub during which nothing else happens keeps the engine consistent, leaves
  every item that is there as it is, and never raises the number of items above the global limit.
\<close>
theorem polls_within_capacity:
  assumes "engine_ok e"
    and "poll = poll_jira env pc (lister_alone list) \<or> poll = poll_github env pc lib json_error (gh_alone gh)"
    and "poll e = (res, e')"
  shows "engine_ok e' \<and> count_all e' \<le> max (count_all e) (unat (effective_max_active_workflows pc)) \<and>
    (\<forall>k w. wf_get e k = Some w \<longrightarrow> wf_get e' k = Some w)"
  using assms jira.poll_grows github.poll_grows unfolding poll_jira_def poll_github_def by metis

theorem polls_within_capacity_witness:
  "let e' = snd (poll_jira sample_poll_env sample_poll_config (lister_alone (\<lambda>_ _ _ _. (Inr sample_tickets, sample_engine)))
     sample_poll_engine)
   in List.map fst (eng_workflows e') = [''T-1'', ''T-2'', ''T-9''] \<and> count_all e' \<le> 3 \<and>
      wf_get e' ''T-1'' = wf_get sample_poll_engine ''T-1''"
proof -
  let ?poll = "poll_jira sample_poll_env sample_poll_config (lister_alone (\<lambda>_ _ _ _. (Inr sample_tickets, sample_engine)))"
  have ok: "engine_ok sample_poll_engine"
  proof -
    have "eng_db sample_engine = Some sample_store" by (simp add: sample_engine_def)
    from engine_ok_db_users [OF sample_engine_ok this, of "{''ann''}"] show ?thesis
      using engine_ok_same_core [of "sample_engine\<lparr>eng_db := Some (sample_store\<lparr>db_users := {''ann''}\<rparr>)\<rparr>" sample_poll_engine]
      by (simp add: same_core_def sample_poll_engine_def)
  qed
  have keys: "List.map fst (eng_workflows (snd (?poll sample_poll_engine))) = [''T-1'', ''T-2'', ''T-9'']"
    by code_simp
  have item: "wf_get sample_poll_engine ''T-1'' = Some (sample_item 0 ''T-1'' (AddressingTicket 1))"
    by (simp add: sample_poll_engine_def sample_engine_def sample_items_def wf_get_def)
  have "count_all sample_poll_engine = 2"
    by (simp add: sample_poll_engine_def sample_engine_def sample_items_def count_all_def)
  moreover have "unat (effective_max_active_workflows sample_poll_config) = 3"
    by (simp add: effective_max_active_workflows_def sample_poll_config_def)
  moreover note polls_within_capacity [OF ok disjI1 [OF refl] prod.collapse [symmetric],
      of sample_poll_env sample_poll_config "\<lambda>_ _ _ _. (Inr sample_tickets, sample_engine)"]
  ultimately have "count_all (snd (?poll sample_poll_engine)) \<le> 3"
    and "wf_get (snd (?poll sample_poll_engine)) ''T-1'' = wf_get sample_poll_engine ''T-1''"
    using item by simp_all
  then show ?thesis using keys by (simp add: Let_def)
qed

end
