(* ===== verification/Accounts.thy ===== *)
theory Accounts
  imports Prelude
begin

text \<open>
  The tables of the accounts and the statements on them: \<open>db/models.rs\<close>, \<open>db/users.rs\<close>,
  \<open>db/credentials.rs\<close> and \<open>db/login_attempts.rs\<close>. A statement may fail (the stream
  \<open>sv_io\<close> says which do); a transaction that fails leaves the tables as they were. Argon2, the
  generators of random bytes and UUIDs, the clock and chrono's formatting are parameters.
\<close>

subsection \<open>Roles, users, errors\<close>

datatype user_role = Admin | User

fun role_as_str :: "user_role \<Rightarrow> string" where
  "role_as_str Admin = ''admin''"
| "role_as_str User = ''user''"

definition role_from_str :: "string \<Rightarrow> string + user_role" where
  "role_from_str s = (if s = ''admin'' then Inr Admin else if s = ''user'' then Inr User
     else Inl (''unknown user role: '' @ s))"

lemma role_round_trip [simp]: "role_from_str (role_as_str r) = Inr r"
  by (cases r) (simp_all add: role_from_str_def)

record 'r user_row =
  us_id :: string
  us_username :: string
  us_role :: 'r
  us_suspended :: bool
  us_created_at :: string
  us_updated_at :: string

type_synonym stored_user = "string user_row"
type_synonym user = "user_role user_row"

datatype credential_kind = Password | Passkey

fun credential_kind_as_str :: "credential_kind \<Rightarrow> string" where
  "credential_kind_as_str Password = ''password''"
| "credential_kind_as_str Passkey = ''passkey''"

record credential =
  cr_id :: string
  cr_user_id :: string
  cr_kind :: string
  cr_data :: string
  cr_label :: "string option"
  cr_last_used_at :: "string option"

record recovery_code =
  rc_id :: string
  rc_user_id :: string
  rc_code_hash :: string
  rc_used :: bool

record session_row =
  se_id :: string
  se_user_id :: string
  se_expires_at :: string
  se_last_seen_at :: int
  se_created_at_unix :: int

datatype attempt_kind = PasswordAttempt | RecoveryAttempt

fun attempt_kind_as_str :: "attempt_kind \<Rightarrow> string" where
  "attempt_kind_as_str PasswordAttempt = ''password''"
| "attempt_kind_as_str RecoveryAttempt = ''recovery''"

record login_attempt =
  la_user_id :: string
  la_kind :: string
  la_attempted_at :: int
  la_success :: bool

text \<open>
  \<open>SqlUnique\<close>, \<open>SqlForeignKey\<close> and \<open>SqlFailure\<close> are the errors of a statement, \<open>HashError\<close> and
  \<open>StoredHashError\<close> those of Argon2 when it hashes and when it reads a stored hash.
\<close>

datatype account_error =
    EmptyUsername
  | UsernameAlreadyExists string
  | UserNotFound string
  | LastAdminLockout string
  | UserDisappearedAfterUpdate
  | HashError string
  | StoredHashError string
  | CurrentPasswordIncorrect
  | InvalidRecoveryCode
  | RegistrationClosed
  | PasswordTooShort
  | SqlUnique
  | SqlForeignKey
  | SqlFailure string

definition account_error_text :: "account_error \<Rightarrow> string" where
  "account_error_text e =
     (case e of
        EmptyUsername \<Rightarrow> ''Username cannot be empty''
      | UsernameAlreadyExists u \<Rightarrow> ''Username '' @ [CHR 0x27] @ u @ [CHR 0x27] @ '' already exists''
      | UserNotFound i \<Rightarrow> ''User not found: '' @ i
      | LastAdminLockout op \<Rightarrow> ''Cannot '' @ op @ '': this is the last non-suspended admin''
      | UserDisappearedAfterUpdate \<Rightarrow> ''User disappeared after update''
      | HashError m \<Rightarrow> m
      | StoredHashError m \<Rightarrow> m
      | CurrentPasswordIncorrect \<Rightarrow> ''Current password is incorrect''
      | InvalidRecoveryCode \<Rightarrow> ''Invalid recovery code''
      | RegistrationClosed \<Rightarrow> ''Registration is closed: users already exist. Use admin API to create new users.''
      | PasswordTooShort \<Rightarrow> ''Password must be at least 12 characters''
      | SqlUnique \<Rightarrow> ''UNIQUE constraint failed''
      | SqlForeignKey \<Rightarrow> ''FOREIGN KEY constraint failed''
      | SqlFailure m \<Rightarrow> m)"

subsection \<open>Tables, statements, transactions\<close>

record tables =
  tb_users :: "stored_user list"
  tb_credentials :: "credential list"
  tb_codes :: "recovery_code list"
  tb_sessions :: "session_row list"
  tb_attempts :: "login_attempt list"

record server =
  sv_tables :: tables
  sv_io :: "bool list"
  sv_ticks :: nat

record account_env =
  ae_clock :: "nat \<Rightarrow> int"
  ae_text :: "int \<Rightarrow> string"
  ae_uuid :: "nat \<Rightarrow> string"
  ae_hash :: "nat \<Rightarrow> string \<Rightarrow> account_error + string"
  ae_hash_code :: "nat \<Rightarrow> string \<Rightarrow> account_error + string"
  ae_verify :: "string \<Rightarrow> string \<Rightarrow> account_error + bool"
  ae_weaker :: "string \<Rightarrow> account_error + bool"
  ae_random :: "nat \<Rightarrow> nat"
  ae_sql_message :: string

type_synonym 'a action = "server \<Rightarrow> (account_error + 'a) \<times> server"

definition return_ok :: "'a \<Rightarrow> 'a action" where
  "return_ok x s = (Inr x, s)"

definition fail :: "account_error \<Rightarrow> 'a action" where
  "fail err s = (Inl err, s)"

definition and_then :: "'a action \<Rightarrow> ('a \<Rightarrow> 'b action) \<Rightarrow> 'b action" where
  "and_then m f s = (case m s of (Inl err, s') \<Rightarrow> (Inl err, s') | (Inr x, s') \<Rightarrow> f x s')"

definition tick_of :: "server \<Rightarrow> nat \<times> server" where
  "tick_of s = (sv_ticks s, s\<lparr>sv_ticks := Suc (sv_ticks s)\<rparr>)"

definition with_tick :: "(nat \<Rightarrow> 'a action) \<Rightarrow> 'a action" where
  "with_tick f s = (case tick_of s of (n, s') \<Rightarrow> f n s')"

definition io_step :: "server \<Rightarrow> bool \<times> server" where
  "io_step s = (case sv_io s of [] \<Rightarrow> (True, s) | b # bs \<Rightarrow> (b, s\<lparr>sv_io := bs\<rparr>))"

definition exec :: "account_env \<Rightarrow> (tables \<Rightarrow> (account_error + 'a) \<times> tables) \<Rightarrow> 'a action" where
  "exec env stmt s =
     (case io_step s of (ok, s') \<Rightarrow>
        if \<not> ok then (Inl (SqlFailure (ae_sql_message env)), s')
        else (case stmt (sv_tables s') of (r, t) \<Rightarrow> (r, s'\<lparr>sv_tables := t\<rparr>)))"

definition query :: "account_env \<Rightarrow> (tables \<Rightarrow> 'a) \<Rightarrow> 'a action" where
  "query env q = exec env (\<lambda>t. (Inr (q t), t))"

definition modify :: "account_env \<Rightarrow> (tables \<Rightarrow> tables) \<Rightarrow> unit action" where
  "modify env f = exec env (\<lambda>t. (Inr (), f t))"

text \<open>\<open>begin\<close>, the body, \<open>commit\<close>; dropped without a commit, it is rolled back.\<close>

definition in_tx :: "account_env \<Rightarrow> 'a action \<Rightarrow> 'a action" where
  "in_tx env body s =
     (case io_step s of (ok, s0) \<Rightarrow>
        if \<not> ok then (Inl (SqlFailure (ae_sql_message env)), s0)
        else (case body s0 of
           (Inl err, s1) \<Rightarrow> (Inl err, s1\<lparr>sv_tables := sv_tables s\<rparr>)
         | (Inr x, s1) \<Rightarrow>
             (case io_step s1 of (ok', s2) \<Rightarrow>
                if ok' then (Inr x, s2)
                else (Inl (SqlFailure (ae_sql_message env)), s2\<lparr>sv_tables := sv_tables s\<rparr>))))"

subsection \<open>Users\<close>

definition decode_user :: "stored_user \<Rightarrow> user" where
  "decode_user r = \<lparr>us_id = us_id r, us_username = us_username r,
     us_role = (case role_from_str (us_role r) of Inl _ \<Rightarrow> User | Inr x \<Rightarrow> x),
     us_suspended = us_suspended r, us_created_at = us_created_at r, us_updated_at = us_updated_at r\<rparr>"

definition user_with :: "string \<Rightarrow> tables \<Rightarrow> stored_user option" where
  "user_with i t = List.find (\<lambda>r. us_id r = i) (tb_users t)"

definition user_named :: "string \<Rightarrow> tables \<Rightarrow> stored_user option" where
  "user_named u t = List.find (\<lambda>r. us_username r = u) (tb_users t)"

definition insert_user :: "stored_user \<Rightarrow> tables \<Rightarrow> (account_error + unit) \<times> tables" where
  "insert_user r t =
     (if user_with (us_id r) t \<noteq> None \<or> user_named (us_username r) t \<noteq> None then (Inl SqlUnique, t)
      else (Inr (), t\<lparr>tb_users := tb_users t @ [r]\<rparr>))"

definition create_user :: "account_env \<Rightarrow> string \<Rightarrow> user_role \<Rightarrow> user action" where
  "create_user env username0 role =
     (let username = trim username0 in
      if username = [] then fail EmptyUsername
      else in_tx env (and_then (query env (\<lambda>t. length (tb_users t))) (\<lambda>n.
        let effective_role = (if n = 0 then Admin else role) in
        with_tick (\<lambda>i. with_tick (\<lambda>c.
          let now = ae_text env (ae_clock env c);
              row = \<lparr>us_id = ae_uuid env i, us_username = username, us_role = role_as_str effective_role,
                us_suspended = False, us_created_at = now, us_updated_at = now\<rparr>
          in (\<lambda>s. case exec env (insert_user row) s of
                (Inl SqlUnique, s') \<Rightarrow> (Inl (UsernameAlreadyExists username), s')
              | (Inl err, s') \<Rightarrow> (Inl err, s')
              | (Inr _, s') \<Rightarrow> (Inr (decode_user row), s')))))))"

definition get_user_by_id :: "account_env \<Rightarrow> string \<Rightarrow> user option action" where
  "get_user_by_id env i = query env (\<lambda>t. map_option decode_user (user_with i t))"

definition get_user_by_username :: "account_env \<Rightarrow> string \<Rightarrow> user option action" where
  "get_user_by_username env u = query env (\<lambda>t. map_option decode_user (user_named (trim u) t))"

definition list_users :: "account_env \<Rightarrow> user list action" where
  "list_users env = query env (\<lambda>t. List.map decode_user (sort_key us_created_at (tb_users t)))"

definition active_admin :: "stored_user \<Rightarrow> bool" where
  "active_admin r \<longleftrightarrow> us_role r = ''admin'' \<and> \<not> us_suspended r"

definition list_admins :: "account_env \<Rightarrow> user list action" where
  "list_admins env =
     query env (\<lambda>t. List.map decode_user (sort_key us_username (filter active_admin (tb_users t))))"

definition other_admins :: "string \<Rightarrow> tables \<Rightarrow> nat" where
  "other_admins i t = length (filter (\<lambda>r. active_admin r \<and> us_id r \<noteq> i) (tb_users t))"

text \<open>The last-admin guard, in a transaction with what it guards.\<close>

definition guard_last_admin :: "account_env \<Rightarrow> string \<Rightarrow> string \<Rightarrow> bool \<Rightarrow> unit action" where
  "guard_last_admin env op i applies =
     (if applies then and_then (query env (other_admins i)) (\<lambda>n. if n = 0 then fail (LastAdminLockout op) else return_ok ())
      else return_ok ())"

definition existing_user :: "account_env \<Rightarrow> string \<Rightarrow> user action" where
  "existing_user env i =
     and_then (query env (\<lambda>t. map_option decode_user (user_with i t)))
       (\<lambda>u. case u of None \<Rightarrow> fail (UserNotFound i) | Some u \<Rightarrow> return_ok u)"

definition set_user :: "string \<Rightarrow> (stored_user \<Rightarrow> stored_user) \<Rightarrow> tables \<Rightarrow> tables" where
  "set_user i f t = t\<lparr>tb_users := List.map (\<lambda>r. if us_id r = i then f r else r) (tb_users t)\<rparr>"

definition rename_user ::
  "string \<Rightarrow> string \<Rightarrow> user_role \<Rightarrow> string \<Rightarrow> tables \<Rightarrow> (account_error + unit) \<times> tables" where
  "rename_user i username role now t =
     (case user_named username t of
        Some r \<Rightarrow> if us_id r \<noteq> i then (Inl SqlUnique, t)
          else (Inr (), set_user i (\<lambda>r. r\<lparr>us_role := role_as_str role, us_updated_at := now\<rparr>) t)
      | None \<Rightarrow> (Inr (), set_user i
          (\<lambda>r. r\<lparr>us_username := username, us_role := role_as_str role, us_updated_at := now\<rparr>) t))"

definition update_user :: "account_env \<Rightarrow> string \<Rightarrow> string option \<Rightarrow> user_role option \<Rightarrow> user action" where
  "update_user env i new_username new_role =
     in_tx env (and_then (existing_user env i) (\<lambda>existing.
       and_then (guard_last_admin env ''demote'' i (new_role = Some User \<and> us_role existing = Admin)) (\<lambda>_.
         let username = (case new_username of None \<Rightarrow> us_username existing | Some u \<Rightarrow> trim u);
             role = (case new_role of None \<Rightarrow> us_role existing | Some r \<Rightarrow> r)
         in with_tick (\<lambda>c.
           and_then (exec env (rename_user i username role (ae_text env (ae_clock env c)))) (\<lambda>_.
             and_then (query env (\<lambda>t. map_option decode_user (user_with i t)))
               (\<lambda>u. case u of None \<Rightarrow> fail UserDisappearedAfterUpdate | Some u \<Rightarrow> return_ok u))))))"

definition suspend_user :: "account_env \<Rightarrow> string \<Rightarrow> unit action" where
  "suspend_user env i =
     in_tx env (and_then (existing_user env i) (\<lambda>u.
       and_then (guard_last_admin env ''suspend'' i (us_role u = Admin)) (\<lambda>_.
         with_tick (\<lambda>c. modify env (set_user i
           (\<lambda>r. r\<lparr>us_suspended := True, us_updated_at := ae_text env (ae_clock env c)\<rparr>))))))"

definition unsuspend_user :: "account_env \<Rightarrow> string \<Rightarrow> unit action" where
  "unsuspend_user env i =
     and_then (query env (user_with i)) (\<lambda>u.
       case u of None \<Rightarrow> fail (UserNotFound i)
       | Some _ \<Rightarrow> with_tick (\<lambda>c. modify env (set_user i
           (\<lambda>r. r\<lparr>us_suspended := False, us_updated_at := ae_text env (ae_clock env c)\<rparr>))))"

text \<open>\<open>DELETE FROM users\<close>, with the rows the foreign keys take along.\<close>

definition delete_user_row :: "string \<Rightarrow> tables \<Rightarrow> tables" where
  "delete_user_row i t =
     t\<lparr>tb_users := filter (\<lambda>r. us_id r \<noteq> i) (tb_users t),
       tb_credentials := filter (\<lambda>r. cr_user_id r \<noteq> i) (tb_credentials t),
       tb_codes := filter (\<lambda>r. rc_user_id r \<noteq> i) (tb_codes t),
       tb_sessions := filter (\<lambda>r. se_user_id r \<noteq> i) (tb_sessions t),
       tb_attempts := filter (\<lambda>r. la_user_id r \<noteq> i) (tb_attempts t)\<rparr>"

definition delete_user :: "account_env \<Rightarrow> string \<Rightarrow> unit action" where
  "delete_user env i =
     in_tx env (and_then (existing_user env i) (\<lambda>u.
       and_then (guard_last_admin env ''delete'' i (us_role u = Admin)) (\<lambda>_.
         modify env (delete_user_row i))))"

definition count_users :: "account_env \<Rightarrow> nat action" where
  "count_users env = query env (\<lambda>t. length (tb_users t))"

subsection \<open>Passwords and recovery codes\<close>

definition hash_with :: "(nat \<Rightarrow> string \<Rightarrow> account_error + string) \<Rightarrow> string \<Rightarrow> string action" where
  "hash_with h p = with_tick (\<lambda>salt s. (h salt p, s))"

definition insert_credential :: "credential \<Rightarrow> tables \<Rightarrow> (account_error + unit) \<times> tables" where
  "insert_credential c t =
     (if cr_id c \<in> cr_id ` set (tb_credentials t) then (Inl SqlUnique, t)
      else if user_with (cr_user_id c) t = None then (Inl SqlForeignKey, t)
      else (Inr (), t\<lparr>tb_credentials := tb_credentials t @ [c]\<rparr>))"

definition store_password :: "account_env \<Rightarrow> string \<Rightarrow> string \<Rightarrow> string action" where
  "store_password env user_id password =
     and_then (hash_with (ae_hash env) password) (\<lambda>h. with_tick (\<lambda>n.
       let cred_id = ae_uuid env n in
       and_then (exec env (insert_credential \<lparr>cr_id = cred_id, cr_user_id = user_id,
           cr_kind = credential_kind_as_str Password, cr_data = h, cr_label = None, cr_last_used_at = None\<rparr>))
         (\<lambda>_. return_ok cred_id)))"

definition password_rows :: "string \<Rightarrow> tables \<Rightarrow> credential list" where
  "password_rows i t = filter (\<lambda>c. cr_user_id c = i \<and> cr_kind c = ''password'') (tb_credentials t)"

definition set_credential :: "string \<Rightarrow> (credential \<Rightarrow> credential) \<Rightarrow> tables \<Rightarrow> tables" where
  "set_credential i f t = t\<lparr>tb_credentials := List.map (\<lambda>c. if cr_id c = i then f c else c) (tb_credentials t)\<rparr>"

text \<open>A password that verified against a weak hash is hashed anew; nothing that fails there matters.\<close>

definition rehash :: "account_env \<Rightarrow> credential \<Rightarrow> string \<Rightarrow> server \<Rightarrow> server" where
  "rehash env c password s =
     (if ae_weaker env (cr_data c) = Inr True then
        (case hash_with (ae_hash env) password s of
           (Inl _, s') \<Rightarrow> s'
         | (Inr h, s') \<Rightarrow> snd (modify env (set_credential (cr_id c) (\<lambda>r. r\<lparr>cr_data := h\<rparr>)) s'))
      else s)"

fun verify_rows :: "account_env \<Rightarrow> string \<Rightarrow> credential list \<Rightarrow> bool action" where
  "verify_rows env password [] = return_ok False"
| "verify_rows env password (c # cs) =
     (case ae_verify env password (cr_data c) of
        Inl err \<Rightarrow> fail err
      | Inr False \<Rightarrow> verify_rows env password cs
      | Inr True \<Rightarrow> with_tick (\<lambda>n.
          and_then (modify env (set_credential (cr_id c) (\<lambda>r. r\<lparr>cr_last_used_at := Some (ae_text env (ae_clock env n))\<rparr>)))
            (\<lambda>_ s. (Inr True, rehash env c password s))))"

definition verify_user_password :: "account_env \<Rightarrow> string \<Rightarrow> string \<Rightarrow> bool action" where
  "verify_user_password env user_id password =
     and_then (query env (password_rows user_id)) (verify_rows env password)"

definition drop_passwords :: "string \<Rightarrow> tables \<Rightarrow> tables" where
  "drop_passwords i t =
     t\<lparr>tb_credentials := filter (\<lambda>c. \<not> (cr_user_id c = i \<and> cr_kind c = ''password'')) (tb_credentials t)\<rparr>"

definition change_password :: "account_env \<Rightarrow> string \<Rightarrow> string \<Rightarrow> unit action" where
  "change_password env user_id new_password =
     and_then (modify env (drop_passwords user_id)) (\<lambda>_.
       and_then (store_password env user_id new_password) (\<lambda>_. return_ok ()))"

definition code_charset :: string where
  "code_charset = ''ABCDEFGHJKLMNPQRSTUVWXYZ23456789''"

definition code_char :: "account_env \<Rightarrow> nat \<Rightarrow> char" where
  "code_char env n = code_charset ! (ae_random env n mod length code_charset)"

definition generate_code :: "account_env \<Rightarrow> nat \<Rightarrow> string" where
  "generate_code env n =
     List.map (\<lambda>i. code_char env (8 * n + i)) [0..<4] @ ''-'' @ List.map (\<lambda>i. code_char env (8 * n + i)) [4..<8]"

definition insert_code :: "recovery_code \<Rightarrow> tables \<Rightarrow> (account_error + unit) \<times> tables" where
  "insert_code c t =
     (if rc_id c \<in> rc_id ` set (tb_codes t) then (Inl SqlUnique, t)
      else if user_with (rc_user_id c) t = None then (Inl SqlForeignKey, t)
      else (Inr (), t\<lparr>tb_codes := tb_codes t @ [c]\<rparr>))"

fun add_codes :: "account_env \<Rightarrow> string \<Rightarrow> nat \<Rightarrow> string list action" where
  "add_codes env user_id 0 = return_ok []"
| "add_codes env user_id (Suc k) = with_tick (\<lambda>n.
     let code = generate_code env n in
     and_then (hash_with (ae_hash_code env) code) (\<lambda>h. with_tick (\<lambda>m.
       and_then (exec env (insert_code \<lparr>rc_id = ae_uuid env m, rc_user_id = user_id, rc_code_hash = h, rc_used = False\<rparr>))
         (\<lambda>_. and_then (add_codes env user_id k) (\<lambda>codes. return_ok (code # codes))))))"

definition drop_codes :: "string \<Rightarrow> tables \<Rightarrow> tables" where
  "drop_codes i t = t\<lparr>tb_codes := filter (\<lambda>c. rc_user_id c \<noteq> i) (tb_codes t)\<rparr>"

definition generate_recovery_codes :: "account_env \<Rightarrow> string \<Rightarrow> nat \<Rightarrow> string list action" where
  "generate_recovery_codes env user_id k =
     and_then (modify env (drop_codes user_id)) (\<lambda>_. add_codes env user_id k)"

definition unused_codes :: "string \<Rightarrow> tables \<Rightarrow> recovery_code list" where
  "unused_codes i t = filter (\<lambda>c. rc_user_id c = i \<and> \<not> rc_used c) (tb_codes t)"

definition use_code :: "string \<Rightarrow> tables \<Rightarrow> tables" where
  "use_code i t = t\<lparr>tb_codes := List.map (\<lambda>c. if rc_id c = i then c\<lparr>rc_used := True\<rparr> else c) (tb_codes t)\<rparr>"

fun consume_rows :: "account_env \<Rightarrow> string \<Rightarrow> recovery_code list \<Rightarrow> bool action" where
  "consume_rows env code [] = return_ok False"
| "consume_rows env code (c # cs) =
     (case ae_verify env code (rc_code_hash c) of
        Inl err \<Rightarrow> fail err
      | Inr False \<Rightarrow> consume_rows env code cs
      | Inr True \<Rightarrow> and_then (modify env (use_code (rc_id c))) (\<lambda>_. return_ok True))"

definition verify_and_consume_recovery_code :: "account_env \<Rightarrow> string \<Rightarrow> string \<Rightarrow> bool action" where
  "verify_and_consume_recovery_code env user_id code =
     and_then (query env (unused_codes user_id)) (consume_rows env code)"

definition drop_sessions :: "string \<Rightarrow> tables \<Rightarrow> tables" where
  "drop_sessions i t = t\<lparr>tb_sessions := filter (\<lambda>r. se_user_id r \<noteq> i) (tb_sessions t)\<rparr>"

definition delete_user_sessions :: "account_env \<Rightarrow> string \<Rightarrow> unit action" where
  "delete_user_sessions env i = modify env (drop_sessions i)"

subsection \<open>Login attempts\<close>

definition record_attempt :: "account_env \<Rightarrow> string \<Rightarrow> attempt_kind \<Rightarrow> bool \<Rightarrow> unit action" where
  "record_attempt env user_id kind success = with_tick (\<lambda>n.
     exec env (\<lambda>t. if user_with user_id t = None then (Inl SqlForeignKey, t)
       else (Inr (), t\<lparr>tb_attempts := tb_attempts t @ [\<lparr>la_user_id = user_id, la_kind = attempt_kind_as_str kind,
         la_attempted_at = ae_clock env n, la_success = success\<rparr>]\<rparr>)))"

definition failures_since :: "string \<Rightarrow> attempt_kind \<Rightarrow> int \<Rightarrow> tables \<Rightarrow> login_attempt list" where
  "failures_since user_id kind cutoff t =
     filter (\<lambda>a. la_user_id a = user_id \<and> la_kind a = attempt_kind_as_str kind \<and> \<not> la_success a \<and>
       la_attempted_at a > cutoff) (tb_attempts t)"

definition failed_count_in_window :: "account_env \<Rightarrow> string \<Rightarrow> attempt_kind \<Rightarrow> int \<Rightarrow> nat action" where
  "failed_count_in_window env user_id kind window = with_tick (\<lambda>n.
     query env (\<lambda>t. length (failures_since user_id kind (ae_clock env n - window) t)))"

definition oldest_of :: "login_attempt list \<Rightarrow> int option" where
  "oldest_of as = (case as of [] \<Rightarrow> None | _ \<Rightarrow> Some (Min (la_attempted_at ` set as)))"

definition oldest_failure_ts_in_window :: "account_env \<Rightarrow> string \<Rightarrow> attempt_kind \<Rightarrow> int \<Rightarrow> int option action" where
  "oldest_failure_ts_in_window env user_id kind window = with_tick (\<lambda>n.
     query env (\<lambda>t. oldest_of (failures_since user_id kind (ae_clock env n - window) t)))"

definition clear_attempts :: "account_env \<Rightarrow> string \<Rightarrow> unit action" where
  "clear_attempts env user_id =
     modify env (\<lambda>t. t\<lparr>tb_attempts := filter (\<lambda>a. la_user_id a \<noteq> user_id) (tb_attempts t)\<rparr>)"

definition clear_failed_attempts :: "account_env \<Rightarrow> string \<Rightarrow> attempt_kind \<Rightarrow> unit action" where
  "clear_failed_attempts env user_id kind =
     modify env (\<lambda>t. t\<lparr>tb_attempts := filter (\<lambda>a. \<not> (la_user_id a = user_id \<and>
       la_kind a = attempt_kind_as_str kind \<and> \<not> la_success a)) (tb_attempts t)\<rparr>)"

end
