(* ===== verification/Sessions.thy ===== *)
theory Sessions
  imports Accounts
begin

text \<open>
  Dashboard sessions, \<open>takuto-web/src/auth.rs\<close>: the cookie, the rows of the table
  \<open>sessions\<close> with their idle and absolute lifetimes, the check of a password, and the middleware
  in front of the protected routes; and the check of the origin, \<open>middleware/csrf.rs\<close> with
  \<open>resolved_cors_origins\<close> of \<open>config/web.rs\<close>. A header map is the list of its entries, with
  lower-case names.
\<close>

subsection \<open>Headers and cookies\<close>

type_synonym headers = "(string \<times> string) list"

definition visible_ascii :: "char \<Rightarrow> bool" where
  "visible_ascii c \<longleftrightarrow> (let n = (of_char c :: nat) in 32 \<le> n \<and> n < 127 \<or> n = 9)"

definition header_str :: "string \<Rightarrow> headers \<Rightarrow> string option" where
  "header_str name hs =
     (case map_of hs name of Some v \<Rightarrow> if list_all visible_ascii v then Some v else None | None \<Rightarrow> None)"

fun split_once :: "char \<Rightarrow> string \<Rightarrow> (string \<times> string) option" where
  "split_once d [] = None"
| "split_once d (c # cs) =
     (if c = d then Some ([], cs) else map_option (\<lambda>(a, b). (c # a, b)) (split_once d cs))"

definition trim_matches :: "char \<Rightarrow> string \<Rightarrow> string" where
  "trim_matches d s = rev (dropWhile (\<lambda>c. c = d) (rev (dropWhile (\<lambda>c. c = d) s)))"

definition SESSION_COOKIE_NAME :: string where
  "SESSION_COOKIE_NAME = ''takuto_session''"

definition cookie_of_part :: "string \<Rightarrow> string option" where
  "cookie_of_part part =
     (case split_once (CHR ''='') (trim part) of
        None \<Rightarrow> None
      | Some (name, v) \<Rightarrow>
          if trim name = SESSION_COOKIE_NAME then Some (trim_matches (CHR 0x22) (trim v)) else None)"

definition session_cookie_from_headers :: "headers \<Rightarrow> string option" where
  "session_cookie_from_headers hs =
     (case header_str ''cookie'' hs of
        None \<Rightarrow> None
      | Some raw \<Rightarrow> (case List.map_filter cookie_of_part (split_on (CHR '';'') raw) of [] \<Rightarrow> None | c # _ \<Rightarrow> Some c))"

record web_config =
  wc_host :: string
  wc_port :: "16 word"
  wc_cors_origins :: "string list"
  wc_cookie_secure :: "bool option"
  wc_kick_other_sessions_on_login :: bool

definition eq_ignore_ascii_case :: "string \<Rightarrow> string \<Rightarrow> bool" where
  "eq_ignore_ascii_case a b \<longleftrightarrow> to_ascii_lowercase a = to_ascii_lowercase b"

definition resolve_cookie_secure :: "web_config \<Rightarrow> headers \<Rightarrow> bool" where
  "resolve_cookie_secure web hs =
     (case wc_cookie_secure web of
        Some v \<Rightarrow> v
      | None \<Rightarrow> list_ex (\<lambda>p. starts_with ''https://'' p) (wc_cors_origins web) \<or>
          (case header_str ''x-forwarded-proto'' hs of
             Some proto \<Rightarrow> eq_ignore_ascii_case proto ''https''
           | None \<Rightarrow> False))"

subsection \<open>Session rows\<close>

definition DB_SESSION_PREFIX :: string where "DB_SESSION_PREFIX = ''db-''"
definition SESSION_IDLE_TTL_SECS :: int where "SESSION_IDLE_TTL_SECS = 60 * 60 * 24"
definition SESSION_ABSOLUTE_TTL_SECS :: int where "SESSION_ABSOLUTE_TTL_SECS = 60 * 60 * 24 * 30"
definition SESSION_EXTEND_THRESHOLD_SECS :: int where "SESSION_EXTEND_THRESHOLD_SECS = 5 * 60"

definition sat64 :: "int \<Rightarrow> int" where
  "sat64 x = max (- (2 ^ 63)) (min (2 ^ 63 - 1) x)"

definition insert_session :: "session_row \<Rightarrow> tables \<Rightarrow> (account_error + unit) \<times> tables" where
  "insert_session r t =
     (if se_id r \<in> se_id ` set (tb_sessions t) then (Inl SqlUnique, t)
      else if user_with (se_user_id r) t = None then (Inl SqlForeignKey, t)
      else (Inr (), t\<lparr>tb_sessions := tb_sessions t @ [r]\<rparr>))"

definition new_session :: "account_env \<Rightarrow> string \<Rightarrow> string \<Rightarrow> int \<Rightarrow> session_row" where
  "new_session env i user_id now = \<lparr>se_id = i, se_user_id = user_id,
     se_expires_at = ae_text env (sat64 (now + SESSION_IDLE_TTL_SECS)), se_last_seen_at = now, se_created_at_unix = now\<rparr>"

definition create_db_session :: "account_env \<Rightarrow> string \<Rightarrow> string action" where
  "create_db_session env user_id = with_tick (\<lambda>n. with_tick (\<lambda>c.
     let session_id = ae_uuid env n; now = ae_clock env c in
     and_then (exec env (insert_session (new_session env session_id user_id now)))
       (\<lambda>_. return_ok (DB_SESSION_PREFIX @ session_id))))"

definition session_with :: "string \<Rightarrow> tables \<Rightarrow> session_row option" where
  "session_with i t = List.find (\<lambda>r. se_id r = i) (tb_sessions t)"

definition past_absolute_ttl :: "int \<Rightarrow> session_row \<Rightarrow> bool" where
  "past_absolute_ttl now r \<longleftrightarrow>
     se_created_at_unix r > 0 \<and> sat64 (now - se_created_at_unix r) > SESSION_ABSOLUTE_TTL_SECS"

definition drop_session :: "string \<Rightarrow> tables \<Rightarrow> tables" where
  "drop_session i t = t\<lparr>tb_sessions := filter (\<lambda>r. se_id r \<noteq> i) (tb_sessions t)\<rparr>"

definition extend_session :: "account_env \<Rightarrow> string \<Rightarrow> int \<Rightarrow> tables \<Rightarrow> tables" where
  "extend_session env i now t =
     t\<lparr>tb_sessions := List.map (\<lambda>r. if se_id r = i
         then r\<lparr>se_last_seen_at := now, se_expires_at := ae_text env (sat64 (now + SESSION_IDLE_TTL_SECS))\<rparr>
         else r) (tb_sessions t)\<rparr>"

definition validate_db_session :: "account_env \<Rightarrow> string \<Rightarrow> server \<Rightarrow> string option \<times> server" where
  "validate_db_session env cookie s =
     (case strip_prefix DB_SESSION_PREFIX cookie of
        None \<Rightarrow> (None, s)
      | Some i \<Rightarrow>
          (case tick_of s of (c, s1) \<Rightarrow>
             let now = ae_clock env c in
             (case query env (session_with i) s1 of
                (Inr (Some r), s2) \<Rightarrow>
                  if past_absolute_ttl now r then (None, snd (modify env (drop_session i) s2))
                  else if se_expires_at r \<le> ae_text env now then (None, s2)
                  else (Some (se_user_id r),
                    if sat64 (now - se_last_seen_at r) > SESSION_EXTEND_THRESHOLD_SECS
                    then snd (modify env (extend_session env i now) s2) else s2)
              | (_, s2) \<Rightarrow> (None, s2))))"

definition validate_db_session_no_extend :: "account_env \<Rightarrow> string \<Rightarrow> server \<Rightarrow> string option \<times> server" where
  "validate_db_session_no_extend env cookie s =
     (case strip_prefix DB_SESSION_PREFIX cookie of
        None \<Rightarrow> (None, s)
      | Some i \<Rightarrow>
          (case tick_of s of (c, s1) \<Rightarrow>
             let now = ae_clock env c in
             (case query env (session_with i) s1 of
                (Inr (Some r), s2) \<Rightarrow>
                  if past_absolute_ttl now r then (None, s2)
                  else if se_expires_at r \<le> ae_text env now then (None, s2)
                  else (Some (se_user_id r), s2)
              | (_, s2) \<Rightarrow> (None, s2))))"

definition delete_db_session :: "account_env \<Rightarrow> string \<Rightarrow> server \<Rightarrow> bool \<times> server" where
  "delete_db_session env cookie s =
     (case strip_prefix DB_SESSION_PREFIX cookie of
        None \<Rightarrow> (False, s)
      | Some i \<Rightarrow>
          (case exec env (\<lambda>t. (Inr (session_with i t \<noteq> None), drop_session i t)) s of
             (Inr deleted, s') \<Rightarrow> (deleted, s')
           | (Inl _, s') \<Rightarrow> (False, s')))"

definition authenticate_db_user :: "account_env \<Rightarrow> string \<Rightarrow> string \<Rightarrow> server \<Rightarrow> user option \<times> server" where
  "authenticate_db_user env username password s =
     (case get_user_by_username env username s of
        (Inr (Some u), s1) \<Rightarrow>
          if us_suspended u then (None, s1)
          else (case verify_user_password env (us_id u) password s1 of
             (Inr True, s2) \<Rightarrow> (Some u, s2)
           | (_, s2) \<Rightarrow> (None, s2))
      | (_, s1) \<Rightarrow> (None, s1))"

record authenticated_user =
  au_user_id :: string
  au_role :: user_role

text \<open>Whom the middleware lets through, and as whom; \<open>None\<close> is a 401.\<close>

definition dashboard_auth :: "account_env \<Rightarrow> bool \<Rightarrow> headers \<Rightarrow> server \<Rightarrow> authenticated_user option \<times> server" where
  "dashboard_auth env has_db hs s =
     (if \<not> has_db then (None, s)
      else (case session_cookie_from_headers hs of
         None \<Rightarrow> (None, s)
       | Some cookie \<Rightarrow>
           if \<not> starts_with DB_SESSION_PREFIX cookie then (None, s)
           else (case validate_db_session env cookie s of
              (None, s1) \<Rightarrow> (None, s1)
            | (Some uid, s1) \<Rightarrow>
                (case get_user_by_id env uid s1 of
                   (Inr (Some u), s2) \<Rightarrow> (Some \<lparr>au_user_id = us_id u, au_role = us_role u\<rparr>, s2)
                 | (_, s2) \<Rightarrow> (None, s2)))))"

subsection \<open>The origin of a request\<close>

datatype http_method = GET | HEAD | OPTIONS | POST | PUT | PATCH | DELETE | CONNECT | TRACE

definition resolved_cors_origins :: "web_config \<Rightarrow> string list" where
  "resolved_cors_origins web =
     (if wc_cors_origins web \<noteq> [] then wc_cors_origins web
      else let host = trim (wc_host web); port = show_nat (unat (wc_port web));
               host_part = (if CHR '':'' \<in> set host then ''['' @ host @ '']'' else host)
        in if host = ''0.0.0.0'' \<or> host = ''[::]''
           then [''http://localhost:'' @ port, ''http://127.0.0.1:'' @ port, ''http://0.0.0.0:'' @ port]
           else if host = ''127.0.0.1'' \<or> host = ''::1''
           then [''http://localhost:'' @ port, ''http://'' @ host_part @ '':'' @ port]
           else [''http://'' @ host_part @ '':'' @ port])"

definition trim_end_char :: "char \<Rightarrow> string \<Rightarrow> string" where
  "trim_end_char d s = rev (dropWhile (\<lambda>c. c = d) (rev s))"

definition origin_in_allowlist :: "string \<Rightarrow> string list \<Rightarrow> bool" where
  "origin_in_allowlist origin allowed =
     list_ex (\<lambda>a. eq_ignore_ascii_case (trim_end_char (CHR ''/'') a) (trim_end_char (CHR ''/'') origin)) allowed"

definition origin_from_referer :: "string \<Rightarrow> string option" where
  "origin_from_referer referer0 =
     (let referer = trim referer0;
          found = (case strip_prefix ''https://'' referer of
             Some r \<Rightarrow> Some (''https'', r)
           | None \<Rightarrow> map_option (\<lambda>r. (''http'', r)) (strip_prefix ''http://'' referer))
      in case found of
           None \<Rightarrow> None
         | Some (scheme, rest) \<Rightarrow>
             let authority = takeWhile (\<lambda>c. c \<notin> {CHR ''/'', CHR ''?'', CHR ''#''}) rest in
             if authority = [] then None else Some (scheme @ ''://'' @ authority))"

definition request_origin :: "headers \<Rightarrow> string option" where
  "request_origin hs =
     (case header_str ''origin'' hs of
        Some a \<Rightarrow> Some a
      | None \<Rightarrow> (case header_str ''referer'' hs of Some r \<Rightarrow> origin_from_referer r | None \<Rightarrow> None))"

text \<open>Whether the request goes on to its handler; otherwise the answer is a 403.\<close>

definition csrf_passes :: "web_config \<Rightarrow> http_method \<Rightarrow> string \<Rightarrow> headers \<Rightarrow> bool" where
  "csrf_passes web m path hs =
     (if m \<in> {GET, HEAD, OPTIONS} then True
      else if starts_with ''/s/'' path then True
      else (case request_origin hs of
         None \<Rightarrow> False
       | Some a \<Rightarrow> origin_in_allowlist a (resolved_cors_origins web)))"

end
