(* ===== verification/Auth_Routes.thy ===== *)
theory Auth_Routes
  imports Sessions
begin

text \<open>
  The handlers of \<open>takuto-web/src/routes/auth/\<close> (login, logout, registration, change of
  password, recovery) and of \<open>routes/admin.rs\<close> (users). A login is three steps, the lockout
  check, the check of the password and the record of its outcome, so that several can be under way
  at a time. Seeding the default flows of a new user and the log are left out.
\<close>

subsection \<open>Requests and responses\<close>

record cookie =
  ck_value :: string
  ck_http_only :: bool
  ck_secure :: bool
  ck_lax :: bool
  ck_max_age :: int

datatype status = OK_200 | CREATED_201 | ACCEPTED_202 | NO_CONTENT_204 | BAD_REQUEST_400 | UNAUTHORIZED_401 | FORBIDDEN_403 |
  NOT_FOUND_404 | CONFLICT_409 | TOO_MANY_REQUESTS_429 | INTERNAL_SERVER_ERROR_500 | SERVICE_UNAVAILABLE_503

record response =
  rs_status :: status
  rs_error :: "string option"
  rs_retry_after :: "int option"
  rs_cookie :: "cookie option"
  rs_codes :: "string list"
  rs_users :: "user list"

definition status_only :: "status \<Rightarrow> response" where
  "status_only st = \<lparr>rs_status = st, rs_error = None, rs_retry_after = None, rs_cookie = None, rs_codes = [],
     rs_users = []\<rparr>"

definition error_response :: "status \<Rightarrow> string \<Rightarrow> response" where
  "error_response st m = (status_only st)\<lparr>rs_error := Some m\<rparr>"

definition session_cookie :: "web_config \<Rightarrow> headers \<Rightarrow> string \<Rightarrow> cookie" where
  "session_cookie web hs token = \<lparr>ck_value = token, ck_http_only = True, ck_secure = resolve_cookie_secure web hs,
     ck_lax = True, ck_max_age = SESSION_IDLE_TTL_SECS\<rparr>"

definition with_cookie :: "web_config \<Rightarrow> headers \<Rightarrow> string \<Rightarrow> response" where
  "with_cookie web hs token = (status_only NO_CONTENT_204)\<lparr>rs_cookie := Some (session_cookie web hs token)\<rparr>"

definition LOCKOUT_THRESHOLD :: nat where "LOCKOUT_THRESHOLD = 5"
definition LOCKOUT_WINDOW_SECS :: int where "LOCKOUT_WINDOW_SECS = 600"

text \<open>The value of a result, or a default when it is an error.\<close>

definition value_or :: "'a \<Rightarrow> (account_error + 'a) \<times> server \<Rightarrow> 'a \<times> server" where
  "value_or d x = ((case fst x of Inl _ \<Rightarrow> d | Inr v \<Rightarrow> v), snd x)"

subsection \<open>The lockout\<close>

definition minutes_of :: "int \<Rightarrow> int" where
  "minutes_of secs = (secs + 59) div 60"

definition locked_response :: "int \<Rightarrow> response" where
  "locked_response secs = (error_response TOO_MANY_REQUESTS_429
     (''account temporarily locked, try again in '' @ show_int (minutes_of secs) @ '' minutes''))
       \<lparr>rs_retry_after := Some secs\<rparr>"

definition lockout_check :: "account_env \<Rightarrow> attempt_kind \<Rightarrow> string \<Rightarrow> server \<Rightarrow> response option \<times> server" where
  "lockout_check env kind user_id s =
     (case value_or 0 (failed_count_in_window env user_id kind LOCKOUT_WINDOW_SECS s) of (k, s1) \<Rightarrow>
        if k \<ge> LOCKOUT_THRESHOLD then
          (case value_or None (oldest_failure_ts_in_window env user_id kind LOCKOUT_WINDOW_SECS s1) of (oldest, s2) \<Rightarrow>
             (case tick_of s2 of (c, s3) \<Rightarrow>
                (Some (locked_response (case oldest of
                    Some t \<Rightarrow> max (t + LOCKOUT_WINDOW_SECS - ae_clock env c) 60
                  | None \<Rightarrow> 60)), s3)))
        else (None, s1))"

subsection \<open>Login and logout\<close>

definition login_check :: "account_env \<Rightarrow> string \<Rightarrow> server \<Rightarrow> (response + user) \<times> server" where
  "login_check env username s =
     (case value_or 0 (count_users env s) of (n, s1) \<Rightarrow>
        if n = 0 then
          (Inl (error_response CONFLICT_409 ''No users exist yet. Complete first-user setup via /api/auth/register.''), s1)
        else (case value_or None (get_user_by_username env username s1) of
           (None, s2) \<Rightarrow> (Inl (status_only UNAUTHORIZED_401), s2)
         | (Some u, s2) \<Rightarrow>
             if us_suspended u then (Inl (status_only UNAUTHORIZED_401), s2)
             else (case lockout_check env PasswordAttempt (us_id u) s2 of
                (Some r, s3) \<Rightarrow> (Inl r, s3)
              | (None, s3) \<Rightarrow> (Inr u, s3))))"

definition note_attempt :: "account_env \<Rightarrow> string \<Rightarrow> attempt_kind \<Rightarrow> bool \<Rightarrow> server \<Rightarrow> server" where
  "note_attempt env user_id kind success s =
     (let s1 = snd (record_attempt env user_id kind success s) in
      if success then snd (clear_failed_attempts env user_id kind s1) else s1)"

text \<open>
  The deletion of a user's sessions in a transaction of its own; that the statement fails is ignored.
  The result says whether the transaction was begun, and whether it was committed.
\<close>

definition kick_sessions :: "account_env \<Rightarrow> string \<Rightarrow> server \<Rightarrow> (bool \<times> bool) \<times> server" where
  "kick_sessions env user_id s =
     (case io_step s of (ok, s0) \<Rightarrow>
        if \<not> ok then ((False, False), s0)
        else (case delete_user_sessions env user_id s0 of (_, s1) \<Rightarrow>
          (case io_step s1 of (committed, s2) \<Rightarrow>
             ((True, committed), if committed then s2 else s2\<lparr>sv_tables := sv_tables s\<rparr>))))"

definition login_finish ::
  "account_env \<Rightarrow> web_config \<Rightarrow> headers \<Rightarrow> string \<Rightarrow> bool \<Rightarrow> server \<Rightarrow> response \<times> server" where
  "login_finish env web hs user_id success s =
     (let s1 = note_attempt env user_id PasswordAttempt success s in
      if \<not> success then (status_only UNAUTHORIZED_401, s1)
      else (case (if wc_kick_other_sessions_on_login web then kick_sessions env user_id s1 else ((True, True), s1)) of ((begun, _), s2) \<Rightarrow>
        if \<not> begun then (status_only INTERNAL_SERVER_ERROR_500, s2)
        else (case create_db_session env user_id s2 of
           (Inl _, s3) \<Rightarrow> (status_only INTERNAL_SERVER_ERROR_500, s3)
         | (Inr token, s3) \<Rightarrow> (with_cookie web hs token, s3))))"

definition login :: "account_env \<Rightarrow> web_config \<Rightarrow> headers \<Rightarrow> string \<Rightarrow> string \<Rightarrow> server \<Rightarrow> response \<times> server" where
  "login env web hs username password s =
     (case login_check env username s of
        (Inl r, s1) \<Rightarrow> (r, s1)
      | (Inr u, s1) \<Rightarrow>
          (case authenticate_db_user env username password s1 of (verified, s2) \<Rightarrow>
             login_finish env web hs (us_id u) (verified \<noteq> None) s2))"

text \<open>\<open>jar\<close> is the session cookie of the request as the cookie jar has it.\<close>

definition logout :: "account_env \<Rightarrow> web_config \<Rightarrow> headers \<Rightarrow> string option \<Rightarrow> server \<Rightarrow> response \<times> server" where
  "logout env web hs jar s =
     (let s1 = (case jar of Some c \<Rightarrow> snd (delete_db_session env c s) | None \<Rightarrow> s) in
      ((status_only NO_CONTENT_204)\<lparr>rs_cookie := Some \<lparr>ck_value = [], ck_http_only = False,
         ck_secure = resolve_cookie_secure web hs, ck_lax = False, ck_max_age = 0\<rparr>\<rparr>, s1))"

subsection \<open>Registration of the first user\<close>

definition set_credentials :: "account_env \<Rightarrow> string \<Rightarrow> string \<Rightarrow> string list action" where
  "set_credentials env user_id password =
     in_tx env (and_then (store_password env user_id password) (\<lambda>_. generate_recovery_codes env user_id 8))"

definition register_user :: "account_env \<Rightarrow> string \<Rightarrow> string \<Rightarrow> (user \<times> string list) action" where
  "register_user env username password =
     and_then (count_users env) (\<lambda>n.
       if n > 0 then fail RegistrationClosed
       else if trim username = [] then fail EmptyUsername
       else if length password < 12 then fail PasswordTooShort
       else and_then (create_user env username Admin) (\<lambda>u.
         and_then (set_credentials env (us_id u) password) (\<lambda>codes. return_ok (u, codes))))"

definition register :: "account_env \<Rightarrow> string \<Rightarrow> string \<Rightarrow> server \<Rightarrow> response \<times> server" where
  "register env username password s =
     (case register_user env username password s of
        (Inr (u, codes), s1) \<Rightarrow> ((status_only CREATED_201)\<lparr>rs_codes := codes, rs_users := [u]\<rparr>, s1)
      | (Inl err, s1) \<Rightarrow>
          let m = account_error_text err in
          (error_response (if str_contains ''already exist'' m \<or> str_contains ''Registration is closed'' m
             then CONFLICT_409 else BAD_REQUEST_400) m, s1))"

subsection \<open>Change of password and recovery codes\<close>

definition replace_password :: "account_env \<Rightarrow> string \<Rightarrow> string \<Rightarrow> unit action" where
  "replace_password env user_id new_password =
     and_then (change_password env user_id new_password) (\<lambda>_. delete_user_sessions env user_id)"

definition change_own_password :: "account_env \<Rightarrow> string \<Rightarrow> string \<Rightarrow> string \<Rightarrow> string action" where
  "change_own_password env user_id current new_password =
     and_then (verify_user_password env user_id current) (\<lambda>ok.
       if \<not> ok then fail CurrentPasswordIncorrect
       else and_then (in_tx env (replace_password env user_id new_password))
         (\<lambda>_. create_db_session env user_id))"

definition cookie_or_empty :: "headers \<Rightarrow> string" where
  "cookie_or_empty hs = (case session_cookie_from_headers hs of None \<Rightarrow> [] | Some c \<Rightarrow> c)"

definition change_password_route ::
  "account_env \<Rightarrow> web_config \<Rightarrow> headers \<Rightarrow> string \<Rightarrow> string \<Rightarrow> server \<Rightarrow> response \<times> server" where
  "change_password_route env web hs current new_password s =
     (case validate_db_session env (cookie_or_empty hs) s of
        (None, s1) \<Rightarrow> (status_only UNAUTHORIZED_401, s1)
      | (Some user_id, s1) \<Rightarrow>
          if length new_password < 12 then
            (error_response BAD_REQUEST_400 ''New password must be at least 12 characters'', s1)
          else (case change_own_password env user_id current new_password s1 of
             (Inr token, s2) \<Rightarrow> (with_cookie web hs token, s2)
           | (Inl err, s2) \<Rightarrow>
               let m = account_error_text err in
               (error_response (if str_contains ''incorrect'' m then UNAUTHORIZED_401 else BAD_REQUEST_400) m, s2)))"

definition regenerate_recovery_codes :: "account_env \<Rightarrow> headers \<Rightarrow> server \<Rightarrow> response \<times> server" where
  "regenerate_recovery_codes env hs s =
     (case validate_db_session env (cookie_or_empty hs) s of
        (None, s1) \<Rightarrow> (error_response UNAUTHORIZED_401 ''Invalid session'', s1)
      | (Some user_id, s1) \<Rightarrow>
          (case in_tx env (generate_recovery_codes env user_id 8) s1 of
             (Inr codes, s2) \<Rightarrow> ((status_only OK_200)\<lparr>rs_codes := codes\<rparr>, s2)
           | (Inl err, s2) \<Rightarrow> (error_response BAD_REQUEST_400 (account_error_text err), s2)))"

text \<open>A wrong code rolls back by hand, which fails as a statement may.\<close>

definition use_recovery_code :: "account_env \<Rightarrow> string \<Rightarrow> string \<Rightarrow> string \<Rightarrow> bool action" where
  "use_recovery_code env user_id code new_password s =
     (case io_step s of (ok, s0) \<Rightarrow>
        if \<not> ok then (Inl (SqlFailure (ae_sql_message env)), s0)
        else (case verify_and_consume_recovery_code env user_id code s0 of
           (Inl err, s1) \<Rightarrow> (Inl err, s1\<lparr>sv_tables := sv_tables s\<rparr>)
         | (Inr False, s1) \<Rightarrow>
             (case io_step s1 of (ok', s2) \<Rightarrow>
                ((if ok' then Inr False else Inl (SqlFailure (ae_sql_message env))), s2\<lparr>sv_tables := sv_tables s\<rparr>))
         | (Inr True, s1) \<Rightarrow>
             (case replace_password env user_id new_password s1 of
                (Inl err, s2) \<Rightarrow> (Inl err, s2\<lparr>sv_tables := sv_tables s\<rparr>)
              | (Inr _, s2) \<Rightarrow>
                  (case io_step s2 of (ok', s3) \<Rightarrow>
                     if ok' then (Inr True, s3)
                     else (Inl (SqlFailure (ae_sql_message env)), s3\<lparr>sv_tables := sv_tables s\<rparr>)))))"

definition recover :: "account_env \<Rightarrow> string \<Rightarrow> string \<Rightarrow> string \<Rightarrow> server \<Rightarrow> response \<times> server" where
  "recover env username code new_password s =
     (if length new_password < 12 then
        (error_response BAD_REQUEST_400 ''New password must be at least 12 characters'', s)
      else (case value_or None (get_user_by_username env username s) of
         (None, s1) \<Rightarrow> (error_response UNAUTHORIZED_401 ''Invalid recovery code'', s1)
       | (Some u, s1) \<Rightarrow>
           if us_suspended u then (error_response UNAUTHORIZED_401 ''Account is suspended'', s1)
           else (case lockout_check env RecoveryAttempt (us_id u) s1 of
              (Some r, s2) \<Rightarrow> (r, s2)
            | (None, s2) \<Rightarrow>
                (case use_recovery_code env (us_id u) code new_password s2 of
                   (Inr True, s3) \<Rightarrow> (status_only NO_CONTENT_204, note_attempt env (us_id u) RecoveryAttempt True s3)
                 | (Inr False, s3) \<Rightarrow> (error_response UNAUTHORIZED_401 (account_error_text InvalidRecoveryCode),
                     note_attempt env (us_id u) RecoveryAttempt False s3)
                 | (Inl err, s3) \<Rightarrow> (error_response UNAUTHORIZED_401 (account_error_text err), s3)))))"

subsection \<open>Administration of users\<close>

definition require_admin_for :: "authenticated_user \<Rightarrow> status + unit" where
  "require_admin_for a = (if au_role a = Admin then Inr () else Inl FORBIDDEN_403)"

definition require_admin :: "account_env \<Rightarrow> headers \<Rightarrow> server \<Rightarrow> (status + user) \<times> server" where
  "require_admin env hs s =
     (case session_cookie_from_headers hs of
        None \<Rightarrow> (Inl UNAUTHORIZED_401, s)
      | Some cookie \<Rightarrow>
          (case validate_db_session env cookie s of
             (None, s1) \<Rightarrow> (Inl UNAUTHORIZED_401, s1)
           | (Some uid, s1) \<Rightarrow>
               (case value_or None (get_user_by_id env uid s1) of
                  (None, s2) \<Rightarrow> (Inl UNAUTHORIZED_401, s2)
                | (Some u, s2) \<Rightarrow>
                    ((if us_role u \<noteq> Admin then Inl FORBIDDEN_403
                      else if us_suspended u then Inl FORBIDDEN_403
                      else Inr u), s2))))"

definition as_admin :: "account_env \<Rightarrow> headers \<Rightarrow> (user \<Rightarrow> server \<Rightarrow> response \<times> server) \<Rightarrow> server \<Rightarrow> response \<times> server" where
  "as_admin env hs f s =
     (case require_admin env hs s of (Inl st, s1) \<Rightarrow> (status_only st, s1) | (Inr admin, s1) \<Rightarrow> f admin s1)"

definition not_found_or_bad :: "account_error \<Rightarrow> response" where
  "not_found_or_bad err =
     (let m = account_error_text err in
      error_response (if str_contains ''not found'' m \<or> str_contains ''Not found'' m then NOT_FOUND_404 else BAD_REQUEST_400) m)"

definition no_content_or_error :: "(account_error + unit) \<times> server \<Rightarrow> response \<times> server" where
  "no_content_or_error x =
     ((case fst x of Inr _ \<Rightarrow> status_only NO_CONTENT_204 | Inl err \<Rightarrow> not_found_or_bad err), snd x)"

definition list_users_route :: "account_env \<Rightarrow> headers \<Rightarrow> server \<Rightarrow> response \<times> server" where
  "list_users_route env hs = as_admin env hs (\<lambda>_ s.
     (case list_users env s of
        (Inr us, s1) \<Rightarrow> ((status_only OK_200)\<lparr>rs_users := us\<rparr>, s1)
      | (Inl err, s1) \<Rightarrow> (error_response INTERNAL_SERVER_ERROR_500 (account_error_text err), s1)))"

definition add_user :: "account_env \<Rightarrow> string \<Rightarrow> string option \<Rightarrow> user_role option \<Rightarrow> (user \<times> string list) action" where
  "add_user env username password role =
     and_then (create_user env username (case role of None \<Rightarrow> User | Some r \<Rightarrow> r)) (\<lambda>u.
       case password of
         None \<Rightarrow> return_ok (u, [])
       | Some p \<Rightarrow>
           if p = [] then return_ok (u, [])
           else if length p < 12 then fail PasswordTooShort
           else and_then (set_credentials env (us_id u) p) (\<lambda>codes. return_ok (u, codes)))"

definition create_user_route ::
  "account_env \<Rightarrow> headers \<Rightarrow> string \<Rightarrow> string option \<Rightarrow> user_role option \<Rightarrow> server \<Rightarrow> response \<times> server" where
  "create_user_route env hs username password role = as_admin env hs (\<lambda>_ s.
     (case add_user env username password role s of
        (Inr (u, codes), s1) \<Rightarrow> ((status_only CREATED_201)\<lparr>rs_codes := codes, rs_users := [u]\<rparr>, s1)
      | (Inl err, s1) \<Rightarrow>
          let m = account_error_text err in
          (error_response (if str_contains ''already exists'' m then CONFLICT_409 else BAD_REQUEST_400) m, s1)))"

definition get_user_route :: "account_env \<Rightarrow> headers \<Rightarrow> string \<Rightarrow> server \<Rightarrow> response \<times> server" where
  "get_user_route env hs i = as_admin env hs (\<lambda>_ s.
     (case get_user_by_id env i s of
        (Inr (Some u), s1) \<Rightarrow> ((status_only OK_200)\<lparr>rs_users := [u]\<rparr>, s1)
      | (Inr None, s1) \<Rightarrow> (status_only NOT_FOUND_404, s1)
      | (Inl err, s1) \<Rightarrow> (error_response INTERNAL_SERVER_ERROR_500 (account_error_text err), s1)))"

text \<open>After a change of role the user's sessions go; that the statement fails is ignored.\<close>

definition update_and_revoke :: "account_env \<Rightarrow> string \<Rightarrow> string option \<Rightarrow> user_role option \<Rightarrow> user action" where
  "update_and_revoke env i new_username new_role s =
     (case value_or None (get_user_by_id env i s) of (previous, s1) \<Rightarrow>
        (case update_user env i new_username new_role s1 of
           (Inl err, s2) \<Rightarrow> (Inl err, s2)
         | (Inr u, s2) \<Rightarrow>
             if (case (previous, new_role) of (Some p, Some r) \<Rightarrow> us_role p \<noteq> r | _ \<Rightarrow> False) then
               (case kick_sessions env i s2 of ((_, committed), s3) \<Rightarrow>
                  ((if committed then Inr u else Inl (SqlFailure (ae_sql_message env))), s3))
             else (Inr u, s2)))"

definition update_user_route ::
  "account_env \<Rightarrow> headers \<Rightarrow> string \<Rightarrow> string option \<Rightarrow> user_role option \<Rightarrow> server \<Rightarrow> response \<times> server" where
  "update_user_route env hs i new_username new_role = as_admin env hs (\<lambda>admin s.
     if us_id admin = i \<and> (case new_role of Some r \<Rightarrow> r \<noteq> us_role admin | None \<Rightarrow> False) then
       (error_response BAD_REQUEST_400 ''Admins cannot change their own role'', s)
     else (case update_and_revoke env i new_username new_role s of
        (Inr u, s1) \<Rightarrow> ((status_only OK_200)\<lparr>rs_users := [u]\<rparr>, s1)
      | (Inl err, s1) \<Rightarrow> (not_found_or_bad err, s1)))"

definition suspend_and_revoke :: "account_env \<Rightarrow> string \<Rightarrow> unit action" where
  "suspend_and_revoke env i =
     and_then (suspend_user env i) (\<lambda>_. in_tx env (delete_user_sessions env i))"

definition suspend_user_route :: "account_env \<Rightarrow> headers \<Rightarrow> string \<Rightarrow> server \<Rightarrow> response \<times> server" where
  "suspend_user_route env hs i = as_admin env hs (\<lambda>admin s.
     if us_id admin = i then (error_response BAD_REQUEST_400 ''Admins cannot suspend their own account'', s)
     else no_content_or_error (suspend_and_revoke env i s))"

definition unsuspend_user_route :: "account_env \<Rightarrow> headers \<Rightarrow> string \<Rightarrow> server \<Rightarrow> response \<times> server" where
  "unsuspend_user_route env hs i = as_admin env hs (\<lambda>_ s. no_content_or_error (unsuspend_user env i s))"

definition unlock_user_route :: "account_env \<Rightarrow> headers \<Rightarrow> string \<Rightarrow> server \<Rightarrow> response \<times> server" where
  "unlock_user_route env hs i = as_admin env hs (\<lambda>_ s.
     (case value_or None (get_user_by_id env i s) of (u, s1) \<Rightarrow>
        no_content_or_error (if u \<noteq> None then clear_attempts env i s1 else (Inl (UserNotFound i), s1))))"

definition delete_user_route :: "account_env \<Rightarrow> headers \<Rightarrow> string \<Rightarrow> server \<Rightarrow> response \<times> server" where
  "delete_user_route env hs i = as_admin env hs (\<lambda>admin s.
     if us_id admin = i then (error_response BAD_REQUEST_400 ''Admins cannot delete their own account'', s)
     else no_content_or_error (delete_user env i s))"

record user_export =
  ue_username :: string
  ue_role :: user_role
  ue_suspended :: bool

fun sort_imports :: "account_env \<Rightarrow> user_export list \<Rightarrow> (user_export list \<times> (string \<times> string) list) action" where
  "sort_imports env [] = return_ok ([], [])"
| "sort_imports env (x # xs) =
     (let u = trim (ue_username x) in
      if u = [] then and_then (sort_imports env xs) (\<lambda>(new, skipped).
        return_ok (new, (ue_username x, ''Username cannot be empty'') # skipped))
      else and_then (get_user_by_username env u) (\<lambda>found. and_then (sort_imports env xs) (\<lambda>(new, skipped).
        (if found = None then return_ok (x # new, skipped)
         else return_ok (new, (ue_username x, ''Username '' @ [CHR 0x27] @ u @ [CHR 0x27] @ '' already exists'') # skipped)))))"

fun insert_imports :: "account_env \<Rightarrow> user_export list \<Rightarrow> string list action" where
  "insert_imports env [] = return_ok []"
| "insert_imports env (x # xs) = with_tick (\<lambda>n. with_tick (\<lambda>c.
     let now = ae_text env (ae_clock env c) in
     and_then (exec env (insert_user \<lparr>us_id = ae_uuid env n, us_username = trim (ue_username x),
         us_role = role_as_str (ue_role x), us_suspended = ue_suspended x, us_created_at = now, us_updated_at = now\<rparr>))
       (\<lambda>_. and_then (insert_imports env xs) (\<lambda>created. return_ok (ue_username x # created)))))"

definition import_list :: "account_env \<Rightarrow> user_export list \<Rightarrow> (string list \<times> (string \<times> string) list) action" where
  "import_list env body =
     and_then (sort_imports env body) (\<lambda>(new, skipped).
       and_then (in_tx env (insert_imports env new)) (\<lambda>created. return_ok (created, skipped)))"

definition import_users :: "account_env \<Rightarrow> headers \<Rightarrow> user_export list \<Rightarrow> server \<Rightarrow> response \<times> server" where
  "import_users env hs body = as_admin env hs (\<lambda>_ s.
     (case import_list env body s of
        (Inr _, s1) \<Rightarrow> (status_only CREATED_201, s1)
      | (Inl err, s1) \<Rightarrow> (error_response BAD_REQUEST_400 (account_error_text err), s1)))"

definition export_users :: "account_env \<Rightarrow> headers \<Rightarrow> server \<Rightarrow> (response \<times> user_export list) \<times> server" where
  "export_users env hs s =
     (case require_admin env hs s of
        (Inl st, s1) \<Rightarrow> ((status_only st, []), s1)
      | (Inr _, s1) \<Rightarrow>
          (case list_users env s1 of
             (Inr us, s2) \<Rightarrow> ((status_only OK_200,
                List.map (\<lambda>u. \<lparr>ue_username = us_username u, ue_role = us_role u, ue_suspended = us_suspended u\<rparr>) us), s2)
           | (Inl err, s2) \<Rightarrow> ((error_response INTERNAL_SERVER_ERROR_500 (account_error_text err), []), s2)))"

end
