(* ===== verification/Accounts_Inv.thy ===== *)
theory Accounts_Inv
  imports Auth_Routes
begin

text \<open>
  What is always true of the accounts: rules for the actions in the style of Hoare, with one
  postcondition for a result and one for an error, the well-formedness of the tables, which includes
  that somebody can administer them, and that every call keeps it.
\<close>

subsection \<open>Rules for actions\<close>

definition valid :: "(tables \<Rightarrow> bool) \<Rightarrow> 'a action \<Rightarrow> ('a \<Rightarrow> tables \<Rightarrow> bool) \<Rightarrow> (tables \<Rightarrow> bool) \<Rightarrow> bool" where
  "valid P m Q E \<longleftrightarrow>
     (\<forall>s. P (sv_tables s) \<longrightarrow> (case m s of (Inr x, s') \<Rightarrow> Q x (sv_tables s') | (Inl _, s') \<Rightarrow> E (sv_tables s')))"

lemma valid_return: "(\<And>t. P t \<Longrightarrow> Q x t) \<Longrightarrow> valid P (return_ok x) Q E"
  by (simp add: valid_def return_ok_def)

lemma valid_fail: "(\<And>t. P t \<Longrightarrow> E t) \<Longrightarrow> valid P (fail err) Q E"
  by (simp add: valid_def fail_def)

lemma valid_and_then:
  assumes "valid P m R E" and "\<And>x. valid (R x) (f x) Q E"
  shows "valid P (and_then m f) Q E"
  using assms unfolding valid_def and_then_def by (fastforce split: prod.splits sum.splits)

lemma valid_with_tick: "(\<And>n. valid P (f n) Q E) \<Longrightarrow> valid P (with_tick f) Q E"
  by (simp add: valid_def with_tick_def tick_of_def)

lemma io_step_tables: "io_step s = (ok, s') \<Longrightarrow> sv_tables s' = sv_tables s"
  by (auto simp: io_step_def split: list.splits)

lemma tick_of_tables: "tick_of s = (n, s') \<Longrightarrow> sv_tables s' = sv_tables s"
  by (auto simp: tick_of_def)

lemma valid_exec:
  assumes "\<And>t. P t \<Longrightarrow> E t"
    and "\<And>t x t'. P t \<Longrightarrow> stmt t = (Inr x, t') \<Longrightarrow> Q x t'"
    and "\<And>t err t'. P t \<Longrightarrow> stmt t = (Inl err, t') \<Longrightarrow> E t'"
  shows "valid P (exec env stmt) Q E"
  unfolding valid_def exec_def using assms by (auto split: prod.splits sum.splits dest: io_step_tables)

lemma valid_query: "(\<And>t. P t \<Longrightarrow> E t) \<Longrightarrow> (\<And>t. P t \<Longrightarrow> Q (q t) t) \<Longrightarrow> valid P (query env q) Q E"
  unfolding query_def by (rule valid_exec) auto

lemma valid_modify: "(\<And>t. P t \<Longrightarrow> E t) \<Longrightarrow> (\<And>t. P t \<Longrightarrow> Q () (f t)) \<Longrightarrow> valid P (modify env f) Q E"
  unfolding modify_def by (rule valid_exec) auto

lemma valid_in_tx: "valid P m Q (\<lambda>_. True) \<Longrightarrow> valid P (in_tx env m) Q P"
  unfolding valid_def in_tx_def
  by (auto split: prod.split sum.split dest!: io_step_tables) (metis (no_types, lifting) case_prod_conv old.sum.simps(6))

lemma valid_consequence: "valid P m Q E \<Longrightarrow> (\<And>x t. Q x t \<Longrightarrow> Q' x t) \<Longrightarrow> (\<And>t. E t \<Longrightarrow> E' t) \<Longrightarrow> valid P m Q' E'"
  unfolding valid_def by (fastforce split: prod.splits sum.splits)

lemma valid_keeps: "valid P m (\<lambda>_. P) P \<Longrightarrow> P (sv_tables s) \<Longrightarrow> P (sv_tables (snd (m s)))"
  unfolding valid_def by (cases "m s") (fastforce split: sum.splits)

text \<open>Facts on single statements, where a definition does not go through \<^const>\<open>and_then\<close>.\<close>

lemma query_tables: "query env q s = (r, s') \<Longrightarrow> sv_tables s' = sv_tables s"
  by (auto simp: query_def exec_def split: prod.splits if_splits dest: io_step_tables)

lemma query_result: "query env q s = (Inr x, s') \<Longrightarrow> x = q (sv_tables s)"
  by (auto simp: query_def exec_def split: prod.splits if_splits dest: io_step_tables)

lemma hash_with_tables: "hash_with h p s = (r, s') \<Longrightarrow> sv_tables s' = sv_tables s"
  by (auto simp: hash_with_def with_tick_def tick_of_def)

lemma modify_tables: "modify env f s = (r, s') \<Longrightarrow> sv_tables s' = (case r of Inr _ \<Rightarrow> f (sv_tables s) | Inl _ \<Rightarrow> sv_tables s)"
  by (auto simp: modify_def exec_def split: prod.splits if_splits dest: io_step_tables)

lemma modify_cases: "sv_tables (snd (modify env f s)) = sv_tables s \<or> sv_tables (snd (modify env f s)) = f (sv_tables s)"
  using modify_tables [of env f s] by (cases "modify env f s") (auto split: sum.splits)

lemma valid_existing_user:
  "(\<And>t. P t \<Longrightarrow> E t) \<Longrightarrow>
   valid P (existing_user env i) (\<lambda>u t. P t \<and> (\<exists>r. user_with i t = Some r \<and> u = decode_user r)) E"
  unfolding existing_user_def
  by (rule valid_and_then [OF valid_query [where Q = "\<lambda>u t. P t \<and> u = map_option decode_user (user_with i t)"]])
    (auto intro!: valid_fail valid_return dest: sym [of "Some _"] split: option.split)

lemma valid_guard_last_admin:
  "(\<And>t. P t \<Longrightarrow> E t) \<Longrightarrow>
   valid P (guard_last_admin env name i applies) (\<lambda>_ t. P t \<and> (applies \<longrightarrow> 0 < other_admins i t)) E"
  unfolding guard_last_admin_def
  by (auto intro!: valid_return valid_fail valid_and_then [OF valid_query [where Q = "\<lambda>n t. P t \<and> n = other_admins i t"]])

text \<open>In a transaction the tables of an error do not matter.\<close>

lemmas in_tx_rules =
  valid_and_then [OF valid_existing_user [where E = "\<lambda>_. True", OF TrueI]]
  valid_and_then [OF valid_guard_last_admin [where E = "\<lambda>_. True", OF TrueI]]
  valid_modify [where E = "\<lambda>_. True", OF TrueI]

subsection \<open>Well-formed accounts\<close>

definition user_ids :: "tables \<Rightarrow> string set" where
  "user_ids t = us_id ` set (tb_users t)"

definition rows_ok :: "tables \<Rightarrow> bool" where
  "rows_ok t \<longleftrightarrow>
     distinct (List.map cr_id (tb_credentials t)) \<and> cr_user_id ` set (tb_credentials t) \<subseteq> user_ids t \<and>
     distinct (List.map rc_id (tb_codes t)) \<and> rc_user_id ` set (tb_codes t) \<subseteq> user_ids t \<and>
     distinct (List.map se_id (tb_sessions t)) \<and> se_user_id ` set (tb_sessions t) \<subseteq> user_ids t \<and>
     la_user_id ` set (tb_attempts t) \<subseteq> user_ids t"

definition users_ok :: "stored_user list \<Rightarrow> bool" where
  "users_ok us \<longleftrightarrow> distinct (List.map us_id us) \<and> distinct (List.map us_username us) \<and>
     us_role ` set us \<subseteq> range role_as_str \<and> (us \<noteq> [] \<longrightarrow> (\<exists>r \<in> set us. active_admin r))"

definition accounts_ok :: "tables \<Rightarrow> bool" where
  "accounts_ok t \<longleftrightarrow> users_ok (tb_users t) \<and> rows_ok t"

lemma user_with_iff: "user_with i t \<noteq> None \<longleftrightarrow> i \<in> user_ids t"
  by (auto simp: user_with_def user_ids_def find_None_iff2 find_None_iff)

lemma user_with_Some: "user_with i t = Some r \<Longrightarrow> r \<in> set (tb_users t) \<and> us_id r = i"
  unfolding user_with_def by (rule find_SomeD)

lemma user_with_ids: "user_with i t = Some r \<Longrightarrow> i \<in> user_ids t"
  using user_with_iff [of i t] by simp

lemma user_ids_update [simp]:
  "user_ids (t\<lparr>tb_credentials := a\<rparr>) = user_ids t" "user_ids (t\<lparr>tb_codes := b\<rparr>) = user_ids t"
  "user_ids (t\<lparr>tb_sessions := c\<rparr>) = user_ids t" "user_ids (t\<lparr>tb_attempts := d\<rparr>) = user_ids t"
  by (simp_all add: user_ids_def)

lemma user_named_None: "user_named u t = None \<longleftrightarrow> u \<notin> us_username ` set (tb_users t)"
  by (auto simp: user_named_def find_None_iff)

lemma other_admins_pos: "0 < other_admins i t \<longleftrightarrow> (\<exists>r \<in> set (tb_users t). active_admin r \<and> us_id r \<noteq> i)"
  by (auto simp: other_admins_def filter_empty_conv)

lemma insert_user_ok:
  assumes "accounts_ok t" and "insert_user r t = (Inr x, t')" and "us_role r \<in> range role_as_str"
    and "tb_users t = [] \<Longrightarrow> active_admin r"
  shows "accounts_ok t'"
proof -
  have new: "us_id r \<notin> user_ids t" "us_username r \<notin> us_username ` set (tb_users t)"
    and t': "t' = t\<lparr>tb_users := tb_users t @ [r]\<rparr>"
    using assms(2) by (auto simp: insert_user_def user_with_iff [symmetric] user_named_None split: if_splits)
  have "users_ok (tb_users t')"
    using assms new unfolding t' accounts_ok_def users_ok_def
    by (cases "tb_users t = []") (auto simp: user_ids_def)
  moreover have "rows_ok t'" using assms(1) by (auto simp: t' accounts_ok_def rows_ok_def user_ids_def)
  ultimately show ?thesis by (simp add: accounts_ok_def)
qed

text \<open>A change of one user that keeps the id, and an active admin.\<close>

lemma set_user_ok:
  assumes ok: "accounts_ok t"
    and f: "\<And>r. us_id (f r) = us_id r" "\<And>r. us_role r \<in> range role_as_str \<Longrightarrow> us_role (f r) \<in> range role_as_str"
    and name: "\<And>r. us_username (f r) = us_username r \<or> us_username (f r) = u"
      "\<And>r. r \<in> set (tb_users t) \<Longrightarrow> us_username r = u \<Longrightarrow> us_id r = i"
    and admin: "(\<exists>r \<in> set (tb_users t). active_admin r \<and> us_id r \<noteq> i) \<or>
      (\<forall>r \<in> set (tb_users t). us_id r = i \<longrightarrow> active_admin r \<longrightarrow> active_admin (f r))"
  shows "accounts_ok (set_user i f t)"
proof -
  let ?g = "\<lambda>r. if us_id r = i then f r else r"
  have ids: "List.map us_id (tb_users (set_user i f t)) = List.map us_id (tb_users t)"
    using f(1) by (simp add: set_user_def comp_def if_distrib [of us_id] cong: if_cong)
  have "inj_on us_id (set (tb_users t))" "inj_on us_username (set (tb_users t))" "distinct (tb_users t)"
    using ok by (auto simp: accounts_ok_def users_ok_def distinct_map)
  moreover have "inj_on (us_username \<circ> ?g) (set (tb_users t))"
  proof (rule inj_onI)
    fix a b assume ab: "a \<in> set (tb_users t)" "b \<in> set (tb_users t)" "(us_username \<circ> ?g) a = (us_username \<circ> ?g) b"
    have diff: "x = y" if "x \<in> set (tb_users t)" "y \<in> set (tb_users t)" "us_id x = i" "us_id y \<noteq> i"
      "us_username (f x) = us_username y" for x y
      using that name(1) [of x] name(2) [of y] calculation(2) by (metis inj_onD)
    show "a = b"
    proof (cases "us_id a = us_id b")
      case True
      then show ?thesis using inj_onD [OF calculation(1)] ab by blast
    next
      case False
      then consider "us_id a = i" "us_id b \<noteq> i" | "us_id a \<noteq> i" "us_id b = i" | "us_id a \<noteq> i" "us_id b \<noteq> i"
        by metis
      then show ?thesis
      proof cases
        case 1
        have "us_username (f a) = us_username b" using ab(3) 1 by simp
        then show ?thesis by (rule diff [OF ab(1,2) 1])
      next
        case 2
        have "us_username (f b) = us_username a" using ab(3) 2 by simp
        then show ?thesis by (rule diff [OF ab(2,1) 2(2,1), symmetric])
      next
        case 3
        have "us_username a = us_username b" using ab(3) 3 by simp
        then show ?thesis using ab(1,2) by (rule inj_onD [OF calculation(2)])
      qed
    qed
  qed
  ultimately have "distinct (List.map us_username (tb_users (set_user i f t)))"
    by (simp add: set_user_def distinct_map comp_def)
  moreover have "us_role ` set (tb_users (set_user i f t)) \<subseteq> range role_as_str"
    using ok f(2) by (auto simp: set_user_def accounts_ok_def users_ok_def)
  moreover have "\<exists>r \<in> set (tb_users (set_user i f t)). active_admin r" if nonempty: "tb_users t \<noteq> []"
  proof -
    obtain a where a: "a \<in> set (tb_users t)" "active_admin a" "us_id a \<noteq> i \<or> active_admin (f a)"
    proof -
      obtain b where b: "b \<in> set (tb_users t)" "active_admin b" using ok nonempty by (auto simp: accounts_ok_def users_ok_def)
      show ?thesis using admin
      proof
        assume "\<exists>r \<in> set (tb_users t). active_admin r \<and> us_id r \<noteq> i"
        then show ?thesis using that by auto
      next
        assume "\<forall>r \<in> set (tb_users t). us_id r = i \<longrightarrow> active_admin r \<longrightarrow> active_admin (f r)"
        then show ?thesis using that [of b] b by auto
      qed
    qed
    then show ?thesis by (intro bexI [of _ "?g a"]) (auto simp: set_user_def)
  qed
  moreover have "user_ids (set_user i f t) = user_ids t"
    using arg_cong [OF ids, of set] by (simp add: user_ids_def)
  ultimately show ?thesis
    using ok ids by (simp add: accounts_ok_def users_ok_def rows_ok_def) (simp add: set_user_def)
qed

lemma delete_user_row_ok:
  assumes "accounts_ok t" and "\<exists>r \<in> set (tb_users t). active_admin r \<and> us_id r \<noteq> i"
  shows "accounts_ok (delete_user_row i t)"
  using assms unfolding accounts_ok_def users_ok_def rows_ok_def delete_user_row_def user_ids_def
  by (auto intro: distinct_map_filter)

text \<open>Changes of the other tables.\<close>

lemma accounts_ok_rows:
  "accounts_ok t \<Longrightarrow> tb_users t' = tb_users t \<Longrightarrow> rows_ok t' \<Longrightarrow> accounts_ok t'"
  by (simp add: accounts_ok_def)

lemma insert_credential_ok: "accounts_ok t \<Longrightarrow> insert_credential c t = (x, t') \<Longrightarrow> accounts_ok t'"
  by (auto simp: insert_credential_def accounts_ok_def rows_ok_def image_subset_iff split: if_splits intro: user_with_ids)

lemma insert_code_ok: "accounts_ok t \<Longrightarrow> insert_code c t = (x, t') \<Longrightarrow> accounts_ok t'"
  by (auto simp: insert_code_def accounts_ok_def rows_ok_def image_subset_iff split: if_splits intro: user_with_ids)

lemma insert_session_ok: "accounts_ok t \<Longrightarrow> insert_session c t = (x, t') \<Longrightarrow> accounts_ok t'"
  by (auto simp: insert_session_def accounts_ok_def rows_ok_def image_subset_iff split: if_splits intro: user_with_ids)

lemma drops_ok:
  assumes "accounts_ok t"
  shows "accounts_ok (drop_passwords i t)" "accounts_ok (drop_codes i t)" "accounts_ok (drop_sessions i t)"
    "accounts_ok (drop_session i t)" "accounts_ok (t\<lparr>tb_attempts := filter p (tb_attempts t)\<rparr>)"
  using assms
  by (auto simp: drop_passwords_def drop_codes_def drop_sessions_def drop_session_def accounts_ok_def rows_ok_def image_subset_iff
      intro: distinct_map_filter)

lemma map_if_same: "(\<And>x. g (f x) = g x) \<Longrightarrow> List.map g (List.map (\<lambda>x. if p x then f x else x) xs) = List.map g xs"
  by (simp add: comp_def if_distrib [of g] cong: if_cong)

lemma updates_ok:
  assumes "accounts_ok t"
  shows "(\<And>c. cr_id (f c) = cr_id c) \<Longrightarrow> (\<And>c. cr_user_id (f c) = cr_user_id c) \<Longrightarrow> accounts_ok (set_credential i f t)"
    and "accounts_ok (use_code i t)" and "accounts_ok (extend_session env i now t)"
proof -
  show "accounts_ok (set_credential i f t)" if "\<And>c. cr_id (f c) = cr_id c" "\<And>c. cr_user_id (f c) = cr_user_id c"
    using assms that map_if_same [of cr_id f "\<lambda>c. cr_id c = i" "tb_credentials t"]
    by (auto simp: set_credential_def accounts_ok_def rows_ok_def image_subset_iff simp del: map_map)
  show "accounts_ok (use_code i t)"
    using assms map_if_same [of rc_id "\<lambda>c. c\<lparr>rc_used := True\<rparr>" "\<lambda>c. rc_id c = i" "tb_codes t"]
    by (auto simp: use_code_def accounts_ok_def rows_ok_def image_subset_iff simp del: map_map)
  let ?f = "\<lambda>r :: session_row. r\<lparr>se_last_seen_at := now, se_expires_at := ae_text env (sat64 (now + SESSION_IDLE_TTL_SECS))\<rparr>"
  show "accounts_ok (extend_session env i now t)"
    using assms map_if_same [of se_id ?f "\<lambda>c. se_id c = i" "tb_sessions t"]
    by (auto simp: extend_session_def accounts_ok_def rows_ok_def image_subset_iff simp del: map_map)
qed

lemma decoded_admin: "us_role (decode_user r) = Admin \<longleftrightarrow> us_role r = ''admin''"
  by (simp add: decode_user_def role_from_str_def)

lemma other_or_not_admin:
  assumes "user_with i t = Some r" and "us_role (decode_user r) = Admin \<longrightarrow> 0 < other_admins i t" and "accounts_ok t"
  shows "(\<exists>r \<in> set (tb_users t). active_admin r \<and> us_id r \<noteq> i) \<or>
    (\<forall>r \<in> set (tb_users t). us_id r = i \<longrightarrow> \<not> active_admin r)"
proof (cases "us_role r = ''admin''")
  case True
  then show ?thesis using assms by (simp add: decoded_admin other_admins_pos)
next
  case False
  have "r' = r" if "r' \<in> set (tb_users t)" "us_id r' = i" for r'
    using that user_with_Some [OF assms(1)] assms(3)
    by (auto simp: accounts_ok_def users_ok_def distinct_map dest: inj_onD)
  then show ?thesis using False by (auto simp: active_admin_def)
qed

lemma suspended_user_ok:
  assumes "accounts_ok t" and "user_with i t = Some r" and "us_role (decode_user r) = Admin \<Longrightarrow> 0 < other_admins i t"
  shows "accounts_ok (set_user i (\<lambda>r. r\<lparr>us_suspended := True, us_updated_at := now\<rparr>) t)"
  using other_or_not_admin [OF assms(2) _ assms(1)] assms(1,3) user_with_Some [OF assms(2)]
  by (intro set_user_ok [where u = "us_username r"])
    (auto simp: accounts_ok_def users_ok_def distinct_map dest: inj_onD)

lemma unsuspended_user_ok:
  assumes "accounts_ok t" and "user_with i t = Some r"
  shows "accounts_ok (set_user i (\<lambda>r. r\<lparr>us_suspended := False, us_updated_at := now\<rparr>) t)"
  using assms(1) user_with_Some [OF assms(2)]
  by (intro set_user_ok [where u = "us_username r"])
    (auto simp: accounts_ok_def users_ok_def distinct_map active_admin_def dest: inj_onD)

lemma deleted_user_ok:
  assumes "accounts_ok t" and "user_with i t = Some r" and "us_role (decode_user r) = Admin \<Longrightarrow> 0 < other_admins i t"
  shows "accounts_ok (delete_user_row i t)"
proof -
  have "tb_users t \<noteq> []" using user_with_Some [OF assms(2)] by auto
  then obtain a where "a \<in> set (tb_users t)" "active_admin a"
    using assms(1) by (auto simp: accounts_ok_def users_ok_def)
  then have "\<exists>r \<in> set (tb_users t). active_admin r \<and> us_id r \<noteq> i"
    using other_or_not_admin [OF assms(2) _ assms(1)] assms(3) by blast
  with assms(1) show ?thesis by (rule delete_user_row_ok)
qed

lemma rename_user_ok:
  assumes "rename_user i username role now t = (Inr x, t')" and "accounts_ok t" and "user_with i t = Some r"
    and "role = User \<Longrightarrow> us_role (decode_user r) = Admin \<Longrightarrow> 0 < other_admins i t"
  shows "accounts_ok t'"
proof -
  have admin: "(\<exists>r \<in> set (tb_users t). active_admin r \<and> us_id r \<noteq> i) \<or>
      (\<forall>r \<in> set (tb_users t). us_id r = i \<longrightarrow> active_admin r \<longrightarrow> role = Admin)"
    using other_or_not_admin [OF assms(3) _ assms(2)] assms(4) by (cases role) auto
  have named: "us_id a = i" if "a \<in> set (tb_users t)" "us_username a = username" "user_named username t = None \<or>
      (\<exists>r. user_named username t = Some r \<and> us_id r = i)" for a
    using that assms(2) unfolding user_named_None
    by (auto simp: user_named_def accounts_ok_def users_ok_def distinct_map dest!: find_SomeD dest: inj_onD)
  show ?thesis
    using assms(1) admin named
    by (auto simp: rename_user_def active_admin_def split: option.splits if_splits intro!: set_user_ok [where u = username] assms(2))
qed

lemma attempt_ok: "accounts_ok t \<Longrightarrow> user_with (la_user_id a) t \<noteq> None \<Longrightarrow> accounts_ok (t\<lparr>tb_attempts := tb_attempts t @ [a]\<rparr>)"
  by (auto simp: accounts_ok_def rows_ok_def intro: user_with_ids)

end
