(* ===== verification/Account_Calls.thy ===== *)
theory Account_Calls
  imports Accounts_Inv
begin

text \<open>
  The calls of the handlers as steps. A property of the tables that every statement keeps is kept by
  every call (the locale \<open>account_invariant\<close>), and so by any number of requests however their
  calls are interleaved.
\<close>

lemma role_in_range [simp]: "role_as_str r \<in> range role_as_str"
  by blast

lemma use_recovery_code_outcome:
  assumes "use_recovery_code env user_id code new_password s = (r, s')"
  shows "(\<exists>s0 s1 s2. sv_tables s0 = sv_tables s \<and>
      verify_and_consume_recovery_code env user_id code s0 = (Inr True, s1) \<and>
      replace_password env user_id new_password s1 = (Inr (), s2) \<and> r = Inr True \<and> sv_tables s' = sv_tables s2) \<or>
    r \<noteq> Inr True \<and> sv_tables s' = sv_tables s"
proof -
  obtain ok s0 where s0: "io_step s = (ok, s0)" by (cases "io_step s")
  obtain r1 s1 where s1: "verify_and_consume_recovery_code env user_id code s0 = (r1, s1)"
    by (cases "verify_and_consume_recovery_code env user_id code s0")
  obtain r2 s2 where s2: "replace_password env user_id new_password s1 = (r2, s2)"
    by (cases "replace_password env user_id new_password s1")
  obtain ok1 s3 where s3: "io_step s1 = (ok1, s3)" by (cases "io_step s1")
  obtain ok2 s4 where s4: "io_step s2 = (ok2, s4)" by (cases "io_step s2")
  note run = assms [unfolded use_recovery_code_def s0 prod.case s1]
  note t = io_step_tables [OF s0] io_step_tables [OF s3] io_step_tables [OF s4]
  consider "\<not> ok" | err where "ok" "r1 = Inl err" | "ok" "r1 = Inr False" | "ok" "r1 = Inr True"
    by (cases r1) auto
  then show ?thesis
  proof cases
    case 4
    then show ?thesis
      using run t s1 s2 by (cases r2) (auto simp: s2 s4 split: if_splits)
  qed (use run t in \<open>auto simp: s3 split: if_splits\<close>)
qed

lemma kick_sessions_tables:
  "sv_tables (snd (kick_sessions env i s)) = sv_tables s \<or> sv_tables (snd (kick_sessions env i s)) = drop_sessions i (sv_tables s)"
  by (auto simp: kick_sessions_def delete_user_sessions_def split: prod.split sum.splits
      dest!: io_step_tables modify_tables)

lemma validate_tables:
  "sv_tables (snd (validate_db_session env cookie s)) \<in>
     {sv_tables s} \<union> range (\<lambda>i. drop_session i (sv_tables s)) \<union>
     {extend_session env i (ae_clock env n) (sv_tables s) | i n. True}"
proof (cases "strip_prefix DB_SESSION_PREFIX cookie")
  case None
  then show ?thesis by (simp add: validate_db_session_def)
next
  case (Some i)
  obtain c s1 where s1: "tick_of s = (c, s1)" by (cases "tick_of s")
  obtain r s2 where s2: "query env (session_with i) s1 = (r, s2)" by (cases "query env (session_with i) s1")
  have t: "sv_tables s2 = sv_tables s" using query_tables [OF s2] tick_of_tables [OF s1] by simp
  show ?thesis
    using modify_cases [of env "drop_session i" s2] modify_cases [of env "extend_session env i (ae_clock env c)" s2]
    by (auto simp: validate_db_session_def Some s1 s2 Let_def t split: sum.split option.split)
qed

lemma delete_db_session_tables:
  "sv_tables (snd (delete_db_session env cookie s)) \<in> {sv_tables s} \<union> range (\<lambda>i. drop_session i (sv_tables s))"
  by (auto simp: delete_db_session_def exec_def split: option.split prod.splits sum.split if_splits dest!: io_step_tables)

subsection \<open>What every call keeps\<close>

text \<open>
  A property of the tables that every statement keeps, where the statement is under a guard in the
  guarded case, is kept by every call.
\<close>

locale account_invariant =
  fixes env :: account_env and inv :: "tables \<Rightarrow> bool"
  assumes user_added: "inv t \<Longrightarrow> insert_user r t = (Inr x, t') \<Longrightarrow> us_role r \<in> range role_as_str \<Longrightarrow>
      (tb_users t = [] \<Longrightarrow> active_admin r) \<Longrightarrow> inv t'"
    and user_suspended: "inv t \<Longrightarrow> user_with i t = Some r \<Longrightarrow> (us_role (decode_user r) = Admin \<Longrightarrow> 0 < other_admins i t) \<Longrightarrow>
      inv (set_user i (\<lambda>r. r\<lparr>us_suspended := True, us_updated_at := now\<rparr>) t)"
    and user_unsuspended: "inv t \<Longrightarrow> user_with i t = Some r \<Longrightarrow>
      inv (set_user i (\<lambda>r. r\<lparr>us_suspended := False, us_updated_at := now\<rparr>) t)"
    and user_renamed: "rename_user i u role now t = (Inr x, t') \<Longrightarrow> inv t \<Longrightarrow> user_with i t = Some r \<Longrightarrow>
      (role = User \<Longrightarrow> us_role (decode_user r) = Admin \<Longrightarrow> 0 < other_admins i t) \<Longrightarrow> inv t'"
    and user_deleted: "inv t \<Longrightarrow> user_with i t = Some r \<Longrightarrow> (us_role (decode_user r) = Admin \<Longrightarrow> 0 < other_admins i t) \<Longrightarrow>
      inv (delete_user_row i t)"
    and credential_added: "inv t \<Longrightarrow> insert_credential c t = (y, t') \<Longrightarrow> inv t'"
    and code_added: "inv t \<Longrightarrow> insert_code d t = (y, t') \<Longrightarrow> inv t'"
    and session_added: "inv t \<Longrightarrow> insert_session (new_session env i u' (ae_clock env n)) t = (y, t') \<Longrightarrow> inv t'"
    and attempt_added: "inv t \<Longrightarrow> user_with (la_user_id a) t \<noteq> None \<Longrightarrow> inv (t\<lparr>tb_attempts := tb_attempts t @ [a]\<rparr>)"
    and dropped: "inv t \<Longrightarrow> inv (drop_passwords i t)" "inv t \<Longrightarrow> inv (drop_codes i t)" "inv t \<Longrightarrow> inv (drop_sessions i t)"
      "inv t \<Longrightarrow> inv (drop_session i t)" "inv t \<Longrightarrow> inv (t\<lparr>tb_attempts := filter p (tb_attempts t)\<rparr>)"
    and updated: "inv t \<Longrightarrow> inv (set_credential i (\<lambda>r. r\<lparr>cr_data := h\<rparr>) t)"
      "inv t \<Longrightarrow> inv (set_credential i (\<lambda>r. r\<lparr>cr_last_used_at := l\<rparr>) t)"
      "inv t \<Longrightarrow> inv (use_code i t)" "inv t \<Longrightarrow> inv (extend_session env i (ae_clock env n) t)"
begin

abbreviation kept :: "'a action \<Rightarrow> bool" where
  "kept m \<equiv> valid inv m (\<lambda>_. inv) inv"

lemma keeps_in_tx: "kept m \<Longrightarrow> kept (in_tx env m)"
  by (rule valid_in_tx) (rule valid_consequence, auto)

lemma keeps_modify: "(\<And>t. inv t \<Longrightarrow> inv (f t)) \<Longrightarrow> kept (modify env f)"
  by (rule valid_modify) auto

lemma keeps_query: "kept (query env q)"
  by (rule valid_query) auto

lemma keeps_exec: "(\<And>t x t'. inv t \<Longrightarrow> stmt t = (x, t') \<Longrightarrow> inv t') \<Longrightarrow> kept (exec env stmt)"
  by (rule valid_exec) blast+

lemma keeps_hash: "kept (hash_with h p)"
  unfolding hash_with_def by (rule valid_with_tick) (simp add: valid_def split: sum.split)

lemma create_user_keeps: "kept (create_user env username role)"
proof -
  have ins: "valid (\<lambda>t. inv t \<and> n = length (tb_users t))
      (\<lambda>s. case exec env (insert_user \<lparr>us_id = i, us_username = u,
             us_role = role_as_str (if n = 0 then Admin else role), us_suspended = False, us_created_at = now, us_updated_at = now\<rparr>) s of
          (Inl SqlUnique, s') \<Rightarrow> (Inl (UsernameAlreadyExists u), s')
        | (Inl err, s') \<Rightarrow> (Inl err, s')
        | (Inr _, s') \<Rightarrow> (Inr x, s')) (\<lambda>_. inv) (\<lambda>_. True)" for n i u now x
    unfolding valid_def exec_def
    by (auto split: prod.split sum.split account_error.split dest!: io_step_tables user_added [rotated]
        simp: active_admin_def role_in_range [of Admin, simplified])
  show ?thesis
    unfolding create_user_def Let_def
    by (auto intro!: valid_fail valid_in_tx valid_with_tick ins
        valid_and_then [OF valid_query [where Q = "\<lambda>n t. inv t \<and> n = length (tb_users t)"]])
qed

lemma suspend_user_keeps: "kept (suspend_user env i)"
  unfolding suspend_user_def
  by (rule valid_in_tx in_tx_rules valid_with_tick)+ (use user_suspended in auto)

lemma delete_user_keeps: "kept (delete_user env i)"
  unfolding delete_user_def by (rule valid_in_tx in_tx_rules)+ (use user_deleted in auto)

lemma unsuspend_user_keeps: "kept (unsuspend_user env i)"
  unfolding unsuspend_user_def
  by (rule valid_and_then [OF valid_query [where Q = "\<lambda>u t. inv t \<and> u = user_with i t"]])
    (auto intro!: valid_fail valid_with_tick valid_modify intro: user_unsuspended [OF _ sym] split: option.split)

lemma update_user_keeps: "kept (update_user env i new_username new_role)"
proof -
  have rename: "valid (\<lambda>t. (inv t \<and> (\<exists>r. user_with i t = Some r \<and> u = decode_user r)) \<and>
        (new_role = Some User \<and> us_role u = Admin \<longrightarrow> 0 < other_admins i t))
      (exec env (rename_user i username (case new_role of None \<Rightarrow> us_role u | Some r \<Rightarrow> r) now))
      (\<lambda>_. inv) (\<lambda>_. True)" for u username now
  proof (rule valid_exec)
    fix t x t'
    assume pre: "(inv t \<and> (\<exists>r. user_with i t = Some r \<and> u = decode_user r)) \<and>
        (new_role = Some User \<and> us_role u = Admin \<longrightarrow> 0 < other_admins i t)"
      and run: "rename_user i username (case new_role of None \<Rightarrow> us_role u | Some r \<Rightarrow> r) now t = (Inr x, t')"
    then obtain r where r: "inv t" "user_with i t = Some r" "u = decode_user r" by blast
    show "inv t'"
      by (rule user_renamed [OF run r(1,2)]) (use pre r in \<open>auto split: option.splits\<close>)
  qed simp_all
  show ?thesis
    unfolding update_user_def Let_def
    by (rule valid_in_tx in_tx_rules valid_with_tick valid_and_then [OF rename])+
      (auto intro!: valid_fail valid_return valid_and_then [OF keeps_query [THEN valid_consequence]] split: option.split)
qed

lemma store_password_keeps: "kept (store_password env user_id password)"
  unfolding store_password_def Let_def
  by (intro valid_and_then [OF keeps_hash] valid_with_tick valid_and_then [OF keeps_exec] valid_return)
    (auto intro: credential_added)

lemma add_codes_keeps: "kept (add_codes env user_id k)"
proof (induction k)
  case (Suc k)
  show ?case
    unfolding add_codes.simps Let_def
    by (intro valid_and_then [OF keeps_hash] valid_with_tick valid_and_then [OF keeps_exec] valid_and_then [OF Suc] valid_return)
      (auto intro: code_added)
qed (simp add: valid_return)

lemma generate_recovery_codes_keeps: "kept (generate_recovery_codes env user_id k)"
  unfolding generate_recovery_codes_def
  by (intro valid_and_then [OF keeps_modify] dropped add_codes_keeps)

lemma set_credentials_keeps: "kept (set_credentials env user_id password)"
  unfolding set_credentials_def
  by (intro keeps_in_tx valid_and_then [OF store_password_keeps] generate_recovery_codes_keeps)

lemma replace_password_keeps: "kept (replace_password env user_id password)"
proof -
  have "kept (change_password env user_id password)"
    unfolding change_password_def
    by (intro valid_and_then [OF keeps_modify] dropped valid_and_then [OF store_password_keeps] valid_return)
  then show ?thesis
    unfolding replace_password_def delete_user_sessions_def
    by (rule valid_and_then) (intro keeps_modify dropped)
qed

lemma rehash_keeps: "inv (sv_tables s) \<Longrightarrow> inv (sv_tables (rehash env c password s))"
proof -
  have "inv (sv_tables s') \<Longrightarrow> inv (sv_tables (snd (modify env (set_credential i (\<lambda>r. r\<lparr>cr_data := h\<rparr>)) s')))" for i h s'
    by (rule valid_keeps [OF keeps_modify]) (rule updated)
  then show "inv (sv_tables s) \<Longrightarrow> ?thesis"
    by (auto simp: rehash_def split: prod.split sum.split dest!: hash_with_tables)
qed

lemma verify_rows_keeps: "kept (verify_rows env password cs)"
proof (induction cs)
  case (Cons c cs)
  have last: "kept (modify env (set_credential (cr_id c) (\<lambda>r. r\<lparr>cr_last_used_at := x\<rparr>)))" for x
    by (rule keeps_modify) (rule updated)
  have "kept (\<lambda>s. (Inr True, rehash env c password s))"
    by (simp add: valid_def rehash_keeps)
  then show ?case
    using Cons by (auto intro!: valid_fail valid_with_tick valid_and_then [OF last] split: sum.split bool.split)
qed (simp add: valid_return)

lemma verify_user_password_keeps: "kept (verify_user_password env user_id password)"
  unfolding verify_user_password_def by (rule valid_and_then [OF keeps_query verify_rows_keeps])

lemma consume_rows_keeps: "kept (consume_rows env code cs)"
  by (induction cs)
    (auto intro!: valid_return valid_fail valid_and_then [OF keeps_modify] updated split: sum.split bool.split)

lemma verify_and_consume_keeps: "kept (verify_and_consume_recovery_code env user_id code)"
  unfolding verify_and_consume_recovery_code_def by (rule valid_and_then [OF keeps_query consume_rows_keeps])

lemma keepsD: "kept m \<Longrightarrow> m s = (r, s') \<Longrightarrow> inv (sv_tables s) \<Longrightarrow> inv (sv_tables s')"
  using valid_keeps [of inv m s] by simp

lemma use_recovery_code_keeps: "kept (use_recovery_code env user_id code new_password)"
proof -
  have "inv (sv_tables s')"
    if run: "use_recovery_code env user_id code new_password s = (r, s')" and ok: "inv (sv_tables s)" for s r s'
    using use_recovery_code_outcome [OF run]
  proof (elim disjE exE conjE)
    fix s0 s1 s2
    assume "sv_tables s0 = sv_tables s" "verify_and_consume_recovery_code env user_id code s0 = (Inr True, s1)"
      and "replace_password env user_id new_password s1 = (Inr (), s2)" "sv_tables s' = sv_tables s2"
    then show ?thesis
      using keepsD [OF replace_password_keeps] keepsD [OF verify_and_consume_keeps] ok by metis
  qed (use ok in simp)
  then show ?thesis by (auto simp: valid_def split: prod.split sum.split)
qed

lemma kick_sessions_keeps: "inv (sv_tables s) \<Longrightarrow> inv (sv_tables (snd (kick_sessions env i s)))"
  using kick_sessions_tables [of env i s] dropped(3) by auto

lemma create_db_session_keeps: "kept (create_db_session env user_id)"
  unfolding create_db_session_def Let_def
  by (intro valid_with_tick valid_and_then [OF keeps_exec] valid_return) (auto intro: session_added)

lemma validate_keeps: "inv (sv_tables s) \<Longrightarrow> inv (sv_tables (snd (validate_db_session env cookie s)))"
  using validate_tables [of env cookie s] dropped(4) updated(4) by auto

lemma delete_db_session_keeps: "inv (sv_tables s) \<Longrightarrow> inv (sv_tables (snd (delete_db_session env cookie s)))"
  using delete_db_session_tables [of env cookie s] dropped(4) by auto

lemma record_attempt_keeps: "kept (record_attempt env user_id kind success)"
  unfolding record_attempt_def
  by (intro valid_with_tick keeps_exec)
    (auto split: if_splits intro: attempt_added)

lemma clears_keep: "kept (clear_attempts env user_id)" "kept (clear_failed_attempts env user_id kind)"
  unfolding clear_attempts_def clear_failed_attempts_def by (rule keeps_modify, simp add: dropped)+

text \<open>Imports, once there is a user.\<close>

lemma insert_imports_keeps:
  "valid (\<lambda>t. inv t \<and> tb_users t \<noteq> []) (insert_imports env xs) (\<lambda>_ t. inv t) (\<lambda>_. True)"
proof (induction xs)
  case (Cons x xs)
  have insert: "valid (\<lambda>t. inv t \<and> tb_users t \<noteq> []) (exec env (insert_user r)) (\<lambda>_ t. inv t \<and> tb_users t \<noteq> []) (\<lambda>_. True)"
    if "us_role r \<in> range role_as_str" for r
    by (rule valid_exec) (use that in \<open>auto dest: user_added simp: insert_user_def split: if_splits\<close>)
  show ?case
    unfolding insert_imports.simps Let_def
    by (intro valid_with_tick valid_and_then [OF insert] valid_and_then [OF Cons] valid_return) simp_all
qed (simp add: valid_def return_ok_def)

end

subsection \<open>Interleaved requests\<close>

text \<open>Each call is one step: what it reads and writes is one statement, or a transaction, or guarded again.\<close>

datatype account_call =
    CreateUser string user_role
  | UpdateUser string "string option" "user_role option"
  | SuspendUser string
  | UnsuspendUser string
  | DeleteUser string
  | SetCredentials string string
  | VerifyPassword string string
  | ReplacePassword string string
  | GenerateCodes string nat
  | UseRecoveryCode string string string
  | KickSessions string
  | DeleteSessions string
  | CreateSession string
  | ValidateSession string
  | DeleteSession string
  | RecordAttempt string attempt_kind bool
  | ClearAttempts string
  | ClearFailedAttempts string attempt_kind

fun perform_call :: "account_env \<Rightarrow> account_call \<Rightarrow> server \<Rightarrow> server" where
  "perform_call env (CreateUser u r) s = snd (create_user env u r s)"
| "perform_call env (UpdateUser i u r) s = snd (update_user env i u r s)"
| "perform_call env (SuspendUser i) s = snd (suspend_user env i s)"
| "perform_call env (UnsuspendUser i) s = snd (unsuspend_user env i s)"
| "perform_call env (DeleteUser i) s = snd (delete_user env i s)"
| "perform_call env (SetCredentials i p) s = snd (set_credentials env i p s)"
| "perform_call env (VerifyPassword i p) s = snd (verify_user_password env i p s)"
| "perform_call env (ReplacePassword i p) s = snd (in_tx env (replace_password env i p) s)"
| "perform_call env (GenerateCodes i n) s = snd (in_tx env (generate_recovery_codes env i n) s)"
| "perform_call env (UseRecoveryCode i c p) s = snd (use_recovery_code env i c p s)"
| "perform_call env (KickSessions i) s = snd (kick_sessions env i s)"
| "perform_call env (DeleteSessions i) s = snd (in_tx env (delete_user_sessions env i) s)"
| "perform_call env (CreateSession i) s = snd (create_db_session env i s)"
| "perform_call env (ValidateSession c) s = snd (validate_db_session env c s)"
| "perform_call env (DeleteSession c) s = snd (delete_db_session env c s)"
| "perform_call env (RecordAttempt i k b) s = snd (record_attempt env i k b s)"
| "perform_call env (ClearAttempts i) s = snd (clear_attempts env i s)"
| "perform_call env (ClearFailedAttempts i k) s = snd (clear_failed_attempts env i k s)"

context account_invariant
begin

lemma perform_keeps: "inv (sv_tables s) \<Longrightarrow> inv (sv_tables (perform_call env c s))"
proof (cases c)
  case (DeleteSessions i)
  have "kept (in_tx env (delete_user_sessions env i))"
    unfolding delete_user_sessions_def by (intro keeps_in_tx keeps_modify dropped)
  then show "inv (sv_tables s) \<Longrightarrow> ?thesis" by (simp add: DeleteSessions valid_keeps)
qed (simp_all add: valid_keeps create_user_keeps update_user_keeps suspend_user_keeps unsuspend_user_keeps
    delete_user_keeps set_credentials_keeps verify_user_password_keeps keeps_in_tx replace_password_keeps
    generate_recovery_codes_keeps use_recovery_code_keeps kick_sessions_keeps create_db_session_keeps validate_keeps
    delete_db_session_keeps record_attempt_keeps clears_keep)

end

text \<open>
  The tables change by a call, at any time and whichever statements fail. An import is behind the check
  that the caller is a user.
\<close>

inductive account_step :: "account_env \<Rightarrow> tables \<Rightarrow> tables \<Rightarrow> bool" for env where
  call: "account_step env (sv_tables s) (sv_tables (perform_call env c s))"
| import_list: "tb_users (sv_tables s) \<noteq> [] \<Longrightarrow>
    account_step env (sv_tables s) (sv_tables (snd (in_tx env (insert_imports env xs) s)))"

inductive_cases account_stepE: "account_step env t t'"

definition empty_tables :: tables where
  "empty_tables = \<lparr>tb_users = [], tb_credentials = [], tb_codes = [], tb_sessions = [], tb_attempts = []\<rparr>"

context account_invariant
begin

lemma step_keeps: "account_step env t t' \<Longrightarrow> inv t \<Longrightarrow> inv t'"
proof (erule account_stepE)
  fix s xs
  assume s: "t = sv_tables s" "t' = sv_tables (snd (in_tx env (insert_imports env xs) s))" and "inv t" "tb_users (sv_tables s) \<noteq> []"
  then have pre: "inv (sv_tables s) \<and> tb_users (sv_tables s) \<noteq> []" by simp
  have "valid (\<lambda>t. inv t \<and> tb_users t \<noteq> []) (in_tx env (insert_imports env xs)) (\<lambda>_. inv) (\<lambda>t. inv t \<and> tb_users t \<noteq> [])"
    by (rule valid_in_tx [OF insert_imports_keeps])
  then show "inv t'"
    using pre unfolding valid_def s(2)
    by (cases "in_tx env (insert_imports env xs) s") (fastforce split: sum.splits)
qed (simp add: perform_keeps)

lemma call_steps_keep: "(account_step env)\<^sup>*\<^sup>* t t' \<Longrightarrow> inv t \<Longrightarrow> inv t'"
  by (induction rule: rtranclp_induct) (auto intro: step_keeps)

end

interpretation accounts: account_invariant env accounts_ok for env
proof
  fix t r x t'
  show "accounts_ok t \<Longrightarrow> insert_user r t = (Inr x, t') \<Longrightarrow> us_role r \<in> range role_as_str \<Longrightarrow>
      (tb_users t = [] \<Longrightarrow> active_admin r) \<Longrightarrow> accounts_ok t'"
    by (rule insert_user_ok)
qed (auto intro: suspended_user_ok unsuspended_user_ok deleted_user_ok rename_user_ok insert_credential_ok insert_code_ok
    insert_session_ok attempt_ok drops_ok updates_ok)

text \<open>The times of a session come from the clock, and it expires a day after it was last seen.\<close>

definition sessions_ok :: "account_env \<Rightarrow> tables \<Rightarrow> bool" where
  "sessions_ok env t \<longleftrightarrow>
     (\<forall>r \<in> set (tb_sessions t). se_expires_at r = ae_text env (sat64 (se_last_seen_at r + SESSION_IDLE_TTL_SECS)) \<and>
       se_last_seen_at r \<in> range (ae_clock env) \<and> se_created_at_unix r \<in> range (ae_clock env))"

lemmas statement_defs = insert_user_def set_user_def rename_user_def delete_user_row_def insert_credential_def
  insert_code_def insert_session_def drop_passwords_def drop_codes_def drop_sessions_def drop_session_def
  set_credential_def use_code_def extend_session_def

interpretation expiry: account_invariant env "sessions_ok env" for env
  by unfold_locales
    (auto simp: sessions_ok_def statement_defs new_session_def split: if_splits option.splits)

end
