(* ===== verification/Account_Requests.thy ===== *)
theory Account_Requests
  imports Account_Calls
begin

text \<open>
  Whole requests: each is a sequence of calls, so what the calls keep is kept however requests are
  interleaved. And what single requests do: the lockout, password recovery, suspension.
\<close>

subsection \<open>Requests are sequences of calls\<close>

datatype account_request =
    Login string string
  | Logout "string option"
  | Register string string
  | ChangePassword string string
  | RegenerateCodes
  | Recover string string string
  | ListUsers
  | NewUser string "string option" "user_role option"
  | GetUser string
  | PatchUser string "string option" "user_role option"
  | Suspend string
  | Unsuspend string
  | Unlock string
  | RemoveUser string
  | ImportUsers "user_export list"

fun respond :: "account_env \<Rightarrow> web_config \<Rightarrow> headers \<Rightarrow> account_request \<Rightarrow> server \<Rightarrow> response \<times> server" where
  "respond env web hs (Login u p) s = login env web hs u p s"
| "respond env web hs (Logout jar) s = logout env web hs jar s"
| "respond env web hs (Register u p) s = register env u p s"
| "respond env web hs (ChangePassword p q) s = change_password_route env web hs p q s"
| "respond env web hs RegenerateCodes s = regenerate_recovery_codes env hs s"
| "respond env web hs (Recover u c p) s = recover env u c p s"
| "respond env web hs ListUsers s = list_users_route env hs s"
| "respond env web hs (NewUser u p r) s = create_user_route env hs u p r s"
| "respond env web hs (GetUser i) s = get_user_route env hs i s"
| "respond env web hs (PatchUser i u r) s = update_user_route env hs i u r s"
| "respond env web hs (Suspend i) s = suspend_user_route env hs i s"
| "respond env web hs (Unsuspend i) s = unsuspend_user_route env hs i s"
| "respond env web hs (Unlock i) s = unlock_user_route env hs i s"
| "respond env web hs (RemoveUser i) s = delete_user_route env hs i s"
| "respond env web hs (ImportUsers xs) s = import_users env hs xs s"

abbreviation reaches :: "account_env \<Rightarrow> server \<Rightarrow> server \<Rightarrow> bool" where
  "reaches env s s' \<equiv> (account_step env)\<^sup>*\<^sup>* (sv_tables s) (sv_tables s')"

lemma reaches_call: "reaches env s (perform_call env c s)"
  by (rule r_into_rtranclp) (rule account_step.call)

lemma reaches_same: "sv_tables s' = sv_tables s \<Longrightarrow> reaches env s s'"
  by simp

lemma reaches_trans: "reaches env s s' \<Longrightarrow> reaches env s' s'' \<Longrightarrow> reaches env s s''"
  by (rule rtranclp_trans)

text \<open>An action that is a sequence of calls, and the rules for the ways they are put together.\<close>

definition stepped :: "account_env \<Rightarrow> (server \<Rightarrow> 'r \<times> server) \<Rightarrow> bool" where
  "stepped env m \<longleftrightarrow> (\<forall>s. reaches env s (snd (m s)))"

lemma steppedD: "stepped env m \<Longrightarrow> m s = (r, s') \<Longrightarrow> reaches env s s'"
  unfolding stepped_def by (metis snd_conv)

lemma stepped_call: "(\<And>s. snd (m s) = perform_call env c s) \<Longrightarrow> stepped env m"
  unfolding stepped_def using reaches_call by metis

lemma stepped_same: "(\<And>s. sv_tables (snd (m s)) = sv_tables s) \<Longrightarrow> stepped env m"
  by (simp add: stepped_def)

lemma stepped_bind: "stepped env m \<Longrightarrow> (\<And>r. stepped env (f r)) \<Longrightarrow> stepped env (\<lambda>s. case m s of (r, s') \<Rightarrow> f r s')"
  unfolding stepped_def by (auto split: prod.split) (metis reaches_trans snd_conv)

lemma stepped_and_then: "stepped env m \<Longrightarrow> (\<And>x. stepped env (f x)) \<Longrightarrow> stepped env (and_then m f)"
  unfolding stepped_def and_then_def
  by (auto split: prod.split sum.split) (metis reaches_trans snd_conv)+

lemma stepped_value_or: "stepped env m \<Longrightarrow> stepped env (\<lambda>s. value_or d (m s))"
  by (simp add: stepped_def value_or_def)

lemma stepped_const: "stepped env (\<lambda>s. (r, s))"
  by (rule stepped_same) simp

lemma stepped_query: "stepped env (query env q)"
  by (rule stepped_same) (metis prod.collapse query_tables)

lemma stepped_tick: "stepped env tick_of"
  by (rule stepped_same) (metis prod.collapse tick_of_tables)

lemma stepped_with_tick: "(\<And>n. stepped env (f n)) \<Longrightarrow> stepped env (with_tick f)"
  unfolding with_tick_def by (rule stepped_bind [OF stepped_tick])

lemma stepped_return: "stepped env (return_ok x)" "stepped env (fail err)"
  by (auto intro: stepped_same simp: return_ok_def fail_def)

lemmas stepped_calls =
  stepped_call [where c = "CreateUser u r" for u r, OF perform_call.simps(1) [symmetric]]
  stepped_call [where c = "UpdateUser i u r" for i u r, OF perform_call.simps(2) [symmetric]]
  stepped_call [where c = "SuspendUser i" for i, OF perform_call.simps(3) [symmetric]]
  stepped_call [where c = "UnsuspendUser i" for i, OF perform_call.simps(4) [symmetric]]
  stepped_call [where c = "DeleteUser i" for i, OF perform_call.simps(5) [symmetric]]
  stepped_call [where c = "SetCredentials i p" for i p, OF perform_call.simps(6) [symmetric]]
  stepped_call [where c = "VerifyPassword i p" for i p, OF perform_call.simps(7) [symmetric]]
  stepped_call [where c = "ReplacePassword i p" for i p, OF perform_call.simps(8) [symmetric]]
  stepped_call [where c = "GenerateCodes i n" for i n, OF perform_call.simps(9) [symmetric]]
  stepped_call [where c = "UseRecoveryCode i d p" for i d p, OF perform_call.simps(10) [symmetric]]
  stepped_call [where c = "KickSessions i" for i, OF perform_call.simps(11) [symmetric]]
  stepped_call [where c = "DeleteSessions i" for i, OF perform_call.simps(12) [symmetric]]
  stepped_call [where c = "CreateSession i" for i, OF perform_call.simps(13) [symmetric]]
  stepped_call [where c = "ValidateSession d" for d, OF perform_call.simps(14) [symmetric]]
  stepped_call [where c = "DeleteSession d" for d, OF perform_call.simps(15) [symmetric]]
  stepped_call [where c = "RecordAttempt i k b" for i k b, OF perform_call.simps(16) [symmetric]]
  stepped_call [where c = "ClearAttempts i" for i, OF perform_call.simps(17) [symmetric]]
  stepped_call [where c = "ClearFailedAttempts i k" for i k, OF perform_call.simps(18) [symmetric]]

lemma stepped_lookups:
  "stepped env (get_user_by_id env i)" "stepped env (get_user_by_username env u)" "stepped env (list_users env)"
  "stepped env (count_users env)"
  by (simp_all add: get_user_by_id_def get_user_by_username_def list_users_def count_users_def stepped_query)

lemma query_keeps_tables [simp]: "sv_tables (snd (query env q s)) = sv_tables s"
  by (metis prod.collapse query_tables)

lemma stepped_option:
  "stepped env f \<Longrightarrow> (\<And>y. stepped env (g y)) \<Longrightarrow> stepped env (\<lambda>s. case x of None \<Rightarrow> f s | Some y \<Rightarrow> g y s)"
  by (cases x) simp_all

lemma stepped_sum:
  "(\<And>y. stepped env (f y)) \<Longrightarrow> (\<And>y. stepped env (g y)) \<Longrightarrow> stepped env (\<lambda>s. case x of Inl y \<Rightarrow> f y s | Inr y \<Rightarrow> g y s)"
  by (cases x) simp_all

lemma stepped_if: "stepped env f \<Longrightarrow> stepped env g \<Longrightarrow> stepped env (\<lambda>s. if b then f s else g s)"
  by (cases b) simp_all

lemma stepped_bool: "stepped env f \<Longrightarrow> stepped env g \<Longrightarrow> stepped env (\<lambda>s. case b of True \<Rightarrow> f s | False \<Rightarrow> g s)"
  by (cases b) simp_all

lemma stepped_pair: "(\<And>x y. stepped env (f x y)) \<Longrightarrow> stepped env (\<lambda>s. case p of (x, y) \<Rightarrow> f x y s)"
  by (cases p) simp

lemma stepped_mono: "stepped env m \<Longrightarrow> (\<And>s. sv_tables (snd (m' s)) = sv_tables (snd (m s))) \<Longrightarrow> stepped env m'"
  by (simp add: stepped_def)

lemma stepped_branches:
  "stepped env m \<Longrightarrow> stepped env m' \<Longrightarrow> stepped env (if b then m else m')"
  "stepped env m \<Longrightarrow> (\<And>y. stepped env (h y)) \<Longrightarrow> stepped env (case x of None \<Rightarrow> m | Some y \<Rightarrow> h y)"
  by (simp, cases x) simp_all

lemmas stepped_control = stepped_branches stepped_const stepped_option stepped_sum stepped_if stepped_bool stepped_pair stepped_bind
  stepped_and_then stepped_value_or stepped_return stepped_query stepped_tick stepped_with_tick stepped_lookups

lemma stepped_lockout_check: "stepped env (lockout_check env kind i)"
  unfolding lockout_check_def [abs_def] failed_count_in_window_def oldest_failure_ts_in_window_def
  by (intro stepped_control)

lemma stepped_note_attempt: "stepped env (\<lambda>s. ((), note_attempt env i kind success s))"
proof -
  have "stepped env (\<lambda>s. case record_attempt env i kind success s of (_, s1) \<Rightarrow>
      if success then (case clear_failed_attempts env i kind s1 of (_, s2) \<Rightarrow> ((), s2)) else ((), s1))"
    by (intro stepped_control stepped_calls)
  then show ?thesis
    by (rule stepped_mono) (simp add: note_attempt_def Let_def split: prod.split)
qed

lemma stepped_authenticate: "stepped env (authenticate_db_user env u p)"
  unfolding authenticate_db_user_def [abs_def] by (intro stepped_control stepped_calls)

lemma stepped_login: "stepped env (login env web hs u p)"
proof -
  have "stepped env (login_finish env web hs i success)" for i success
  proof -
    have "stepped env (\<lambda>s. case ((), note_attempt env i PasswordAttempt success s) of (_, s1) \<Rightarrow>
        if \<not> success then (status_only UNAUTHORIZED_401, s1)
        else (case (if wc_kick_other_sessions_on_login web then kick_sessions env i s1 else ((True, True), s1)) of ((begun, _), s2) \<Rightarrow>
          if \<not> begun then (status_only INTERNAL_SERVER_ERROR_500, s2)
          else (case create_db_session env i s2 of
             (Inl _, s3) \<Rightarrow> (status_only INTERNAL_SERVER_ERROR_500, s3)
           | (Inr token, s3) \<Rightarrow> (with_cookie web hs token, s3))))"
      by (intro stepped_control stepped_calls stepped_note_attempt)
    then show ?thesis by (rule stepped_mono) (simp add: login_finish_def Let_def)
  qed
  then show ?thesis
    unfolding login_def [abs_def] login_check_def [abs_def]
    by (intro stepped_control stepped_authenticate stepped_lockout_check)
qed

lemma stepped_recover: "stepped env (recover env u c p)"
proof -
  have "stepped env (\<lambda>s. (r, note_attempt env i kind success s))" for i kind success and r :: response
    using stepped_note_attempt by (rule stepped_mono) simp
  then show ?thesis
    unfolding recover_def [abs_def] by (intro stepped_control stepped_calls stepped_lockout_check)
qed

lemma stepped_require_admin: "stepped env (require_admin env hs)"
  unfolding require_admin_def [abs_def] by (intro stepped_control stepped_calls)

lemma stepped_as_admin: "(\<And>u. stepped env (f u)) \<Longrightarrow> stepped env (as_admin env hs f)"
  unfolding as_admin_def [abs_def] by (intro stepped_control stepped_require_admin)

lemma stepped_no_content: "stepped env m \<Longrightarrow> stepped env (\<lambda>s. no_content_or_error (m s))"
  by (simp add: stepped_def no_content_or_error_def)

lemma stepped_sort_imports: "stepped env (sort_imports env xs)"
  by (induction xs) (auto simp: Let_def intro!: stepped_control)

text \<open>An import is a step because the caller is a user.\<close>

lemma fst_query: "fst (query env q s) = Inr x \<Longrightarrow> x = q (sv_tables s)"
  by (metis prod.collapse query_result)

lemma user_with_nonempty: "user_with i t = Some r \<Longrightarrow> tb_users t \<noteq> []"
  by (auto simp: user_with_def)

lemma require_admin_nonempty:
  assumes "require_admin env hs s = (Inr u, s')"
  shows "tb_users (sv_tables s') \<noteq> []"
proof -
  obtain i s1 where "fst (query env (\<lambda>t. map_option decode_user (user_with i t)) s1) = Inr (Some u)"
    and s': "sv_tables s' = sv_tables s1"
    using assms
    by (auto simp: require_admin_def value_or_def get_user_by_id_def split: option.splits prod.splits if_splits sum.splits)
  then have "Some u = map_option decode_user (user_with i (sv_tables s1))" by (auto dest: fst_query)
  then show ?thesis by (cases "user_with i (sv_tables s1)") (simp_all add: s' user_with_nonempty)
qed

lemma stepped_import: "stepped env (import_users env hs xs)"
  unfolding stepped_def
proof
  fix s
  obtain r s1 where admin: "require_admin env hs s = (r, s1)" by (cases "require_admin env hs s")
  have to1: "reaches env s s1" using steppedD [OF stepped_require_admin admin] .
  show "reaches env s (snd (import_users env hs xs s))"
  proof (cases r)
    case (Inl st)
    then show ?thesis using to1 by (simp add: import_users_def as_admin_def admin)
  next
    case (Inr u)
    obtain sorted s2 where sort: "sort_imports env xs s1 = (sorted, s2)" by (cases "sort_imports env xs s1")
    have same: "sv_tables s2 = sv_tables s1"
      using sort
    proof (induction xs arbitrary: s1 sorted s2)
      case (Cons x xs)
      then show ?case
        by (force simp: Let_def and_then_def return_ok_def get_user_by_username_def
            split: if_splits prod.splits sum.splits dest: query_tables)
    qed (simp add: return_ok_def)
    then have "tb_users (sv_tables s2) \<noteq> []" using require_admin_nonempty admin Inr by simp
    then have "reaches env s2 (snd (in_tx env (insert_imports env new) s2))" for new
      by (intro r_into_rtranclp account_step.import_list)
    then have "reaches env s1 (snd (in_tx env (insert_imports env new) s2))" for new
      unfolding same .
    then show ?thesis
      using reaches_trans [OF to1] to1 same
      by (auto simp: import_users_def as_admin_def admin Inr import_list_def and_then_def sort return_ok_def
          split: prod.split sum.split) (metis snd_conv)+
  qed
qed

lemma stepped_respond: "stepped env (respond env web hs rq)"
proof -
  have route: "stepped env (respond env web hs rq)" if "\<And>s. respond env web hs rq s = m s" "stepped env m" for m
    using that by (simp add: stepped_def)
  show ?thesis
  proof (cases rq)
    case (Login u p)
    then show ?thesis by (intro route [OF _ stepped_login]) simp
  next
    case (Logout jar)
    have "stepped env (\<lambda>s. case (case jar of None \<Rightarrow> (False, s) | Some c \<Rightarrow> delete_db_session env c s) of (_, s1) \<Rightarrow>
        (fst (logout env web hs jar s1), s1))"
      by (intro stepped_control stepped_calls stepped_mono [OF stepped_const]) simp
    then show ?thesis
      by (rule stepped_mono) (simp add: Logout logout_def Let_def split: option.split prod.split)
  next
    case (Register u p)
    have "stepped env (register env u p)"
      unfolding register_def [abs_def] register_user_def Let_def by (intro stepped_control stepped_calls)
    then show ?thesis by (intro route) (simp_all add: Register)
  next
    case (ChangePassword p q)
    have "stepped env (change_password_route env web hs p q)"
      unfolding change_password_route_def [abs_def] change_own_password_def Let_def
      by (intro stepped_control stepped_calls)
    then show ?thesis by (intro route) (simp_all add: ChangePassword)
  next
    case RegenerateCodes
    have "stepped env (regenerate_recovery_codes env hs)"
      unfolding regenerate_recovery_codes_def [abs_def] by (intro stepped_control stepped_calls)
    then show ?thesis by (intro route) (simp_all add: RegenerateCodes)
  next
    case (Recover u c p)
    then show ?thesis by (intro route [OF _ stepped_recover]) simp
  next
    case ListUsers
    have "stepped env (list_users_route env hs)"
      unfolding list_users_route_def by (intro stepped_as_admin stepped_control)
    then show ?thesis by (intro route) (simp_all add: ListUsers)
  next
    case (NewUser u p r)
    have "stepped env (create_user_route env hs u p r)"
      unfolding create_user_route_def add_user_def Let_def
      by (intro stepped_as_admin stepped_control stepped_calls)
    then show ?thesis by (intro route) (simp_all add: NewUser)
  next
    case (GetUser i)
    have "stepped env (get_user_route env hs i)"
      unfolding get_user_route_def by (intro stepped_as_admin stepped_control)
    then show ?thesis by (intro route) (simp_all add: GetUser)
  next
    case (PatchUser i u r)
    have "stepped env (update_user_route env hs i u r)"
      unfolding update_user_route_def update_and_revoke_def
      by (intro stepped_as_admin stepped_control stepped_calls)
    then show ?thesis by (intro route) (simp_all add: PatchUser)
  next
    case (Suspend i)
    have "stepped env (suspend_user_route env hs i)"
      unfolding suspend_user_route_def suspend_and_revoke_def
      by (intro stepped_as_admin stepped_control stepped_no_content stepped_calls)
    then show ?thesis by (intro route) (simp_all add: Suspend)
  next
    case (Unsuspend i)
    have "stepped env (unsuspend_user_route env hs i)"
      unfolding unsuspend_user_route_def by (intro stepped_as_admin stepped_no_content stepped_calls)
    then show ?thesis by (intro route) (simp_all add: Unsuspend)
  next
    case (Unlock i)
    have "stepped env (\<lambda>s. case value_or None (get_user_by_id env i s) of (u, s1) \<Rightarrow>
        no_content_or_error (if u \<noteq> None then clear_attempts env i s1 else (Inl (UserNotFound i), s1)))"
      by (intro stepped_control stepped_no_content stepped_calls)
    then have "stepped env (unlock_user_route env hs i)"
      unfolding unlock_user_route_def by (intro stepped_as_admin)
    then show ?thesis by (intro route) (simp_all add: Unlock)
  next
    case (RemoveUser i)
    have "stepped env (delete_user_route env hs i)"
      unfolding delete_user_route_def by (intro stepped_as_admin stepped_control stepped_no_content stepped_calls)
    then show ?thesis by (intro route) (simp_all add: RemoveUser)
  next
    case (ImportUsers xs)
    then show ?thesis by (intro route [OF _ stepped_import]) simp
  qed
qed

end
