(* ===== verification/Account_Props.thy ===== *)
theory Account_Props
  imports Account_Requests
begin

text \<open>What the requests on the accounts promise: administration, the lockout, sessions, recovery, suspension, origins.\<close>

subsection \<open>The lockout\<close>

definition failed_rows :: "string \<Rightarrow> tables \<Rightarrow> login_attempt list" where
  "failed_rows i t = filter (\<lambda>a. la_user_id a = i \<and> la_kind a = ''password'' \<and> \<not> la_success a) (tb_attempts t)"

definition failures_in :: "int \<Rightarrow> string \<Rightarrow> tables \<Rightarrow> nat" where
  "failures_in c i t = length (filter (\<lambda>a. c < la_attempted_at a \<and> la_attempted_at a \<le> c + LOCKOUT_WINDOW_SECS) (failed_rows i t))"

definition wrong_password :: "account_env \<Rightarrow> string \<Rightarrow> tables \<Rightarrow> string \<Rightarrow> bool" where
  "wrong_password env i t p \<longleftrightarrow> (\<forall>c \<in> set (password_rows i t). ae_verify env p (cr_data c) \<noteq> Inr True)"

fun try_logins :: "account_env \<Rightarrow> web_config \<Rightarrow> headers \<Rightarrow> string \<Rightarrow> string list \<Rightarrow> server \<Rightarrow> response list \<times> server" where
  "try_logins env web hs u [] s = ([], s)"
| "try_logins env web hs u (p # ps) s =
     (case login env web hs u p s of (r, s1) \<Rightarrow> (case try_logins env web hs u ps s1 of (rs, s2) \<Rightarrow> (r # rs, s2)))"

lemma reliable:
  assumes "sv_io s = []"
  shows "exec env stmt s = (case stmt (sv_tables s) of (r, t) \<Rightarrow> (r, s\<lparr>sv_tables := t\<rparr>))"
    and "query env q s = (Inr (q (sv_tables s)), s)" and "modify env f s = (Inr (), s\<lparr>sv_tables := f (sv_tables s)\<rparr>)"
  using assms by (simp_all add: query_def modify_def exec_def io_step_def)

lemma verify_rows_wrong:
  "\<forall>c \<in> set cs. ae_verify env p (cr_data c) \<noteq> Inr True \<Longrightarrow> \<exists>r. verify_rows env p cs s = (r, s) \<and> r \<noteq> Inr True"
  by (induction cs) (auto simp: return_ok_def fail_def split: sum.split bool.split)

lemma failures_since_rows:
  "failures_since i PasswordAttempt c t = filter (\<lambda>a. c < la_attempted_at a) (failed_rows i t)"
  by (simp add: failures_since_def failed_rows_def conj_ac)

text \<open>A login with a wrong password, with the database at hand.\<close>

lemma wrong_login:
  assumes "sv_io s = []" and u: "user_named (trim u) (sv_tables s) = Some r" "\<not> us_suspended r"
    and "wrong_password env (us_id r) (sv_tables s) p"
  shows "\<exists>resp s'. login env web hs u p s = (resp, s') \<and> sv_io s' = [] \<and> sv_ticks s \<le> sv_ticks s' \<and>
    (if length (filter (\<lambda>a. ae_clock env (sv_ticks s) - LOCKOUT_WINDOW_SECS < la_attempted_at a)
          (failed_rows (us_id r) (sv_tables s))) \<ge> LOCKOUT_THRESHOLD
     then rs_status resp = TOO_MANY_REQUESTS_429 \<and> sv_tables s' = sv_tables s
     else rs_status resp = UNAUTHORIZED_401 \<and> sv_ticks s < sv_ticks s' \<and>
       sv_tables s' = (sv_tables s)\<lparr>tb_attempts := tb_attempts (sv_tables s) @ [\<lparr>la_user_id = us_id r,
         la_kind = ''password'', la_attempted_at = ae_clock env (sv_ticks s' - 1), la_success = False\<rparr>]\<rparr>)"
proof -
  let ?s1 = "s\<lparr>sv_ticks := Suc (sv_ticks s)\<rparr>"
  have r: "r \<in> set (tb_users (sv_tables s))" using u(1) unfolding user_named_def by (blast dest: find_SomeD)
  then have ids: "user_with (us_id r) (sv_tables s) \<noteq> None" and users: "tb_users (sv_tables s) \<noteq> []"
    unfolding user_with_iff by (auto simp: user_ids_def)
  have id: "us_id (decode_user r) = us_id r" "us_suspended (decode_user r) = us_suspended r"
    by (simp_all add: decode_user_def)
  show ?thesis
  proof (cases "length (filter (\<lambda>a. ae_clock env (sv_ticks s) - LOCKOUT_WINDOW_SECS < la_attempted_at a)
      (failed_rows (us_id r) (sv_tables s))) \<ge> LOCKOUT_THRESHOLD")
    case True
    then show ?thesis
      using assms(1) u users id
      by (auto simp: login_def login_check_def count_users_def get_user_by_username_def reliable value_or_def
          lockout_check_def failed_count_in_window_def oldest_failure_ts_in_window_def with_tick_def tick_of_def
          failures_since_rows locked_response_def error_response_def status_only_def)
  next
    case False
    obtain e where e: "verify_rows env p (password_rows (us_id r) (sv_tables s)) ?s1 = (e, ?s1)" "e \<noteq> Inr True"
      using verify_rows_wrong [OF assms(4) [unfolded wrong_password_def]] by blast
    have auth: "authenticate_db_user env u p ?s1 = (None, ?s1)"
      using assms(1) u id e
      by (auto simp: authenticate_db_user_def get_user_by_username_def reliable verify_user_password_def and_then_def
          split: sum.split bool.split)
    show ?thesis
      using False assms(1) u users id ids
      by (simp add: login_def login_check_def count_users_def get_user_by_username_def reliable value_or_def
          lockout_check_def failed_count_in_window_def with_tick_def tick_of_def failures_since_rows auth
          login_finish_def note_attempt_def record_attempt_def status_only_def Let_def)
  qed
qed

subsection \<open>Recovery\<close>

lemma and_then_Inr:
  "and_then m f s = (Inr y, s') \<Longrightarrow> \<exists>x s1. m s = (Inr x, s1) \<and> f x s1 = (Inr y, s')"
  by (auto simp: and_then_def split: prod.splits sum.splits)

lemma modify_Inr: "modify env f s = (Inr x, s') \<Longrightarrow> sv_tables s' = f (sv_tables s)"
  by (auto dest: modify_tables)

lemma replace_password_effect:
  assumes "replace_password env i p s = (Inr x, s')"
  shows "\<exists>n h c. ae_hash env n p = Inr h \<and> cr_user_id c = i \<and> cr_kind c = ''password'' \<and> cr_data c = h \<and>
    sv_tables s' = drop_sessions i (let t = drop_passwords i (sv_tables s) in t\<lparr>tb_credentials := tb_credentials t @ [c]\<rparr>)"
proof -
  obtain s1 where s1: "change_password env i p s = (Inr (), s1)" and s': "delete_user_sessions env i s1 = (Inr x, s')"
    using and_then_Inr [OF assms [unfolded replace_password_def]] by auto
  obtain s2 y where s2: "modify env (drop_passwords i) s = (Inr (), s2)" and y: "store_password env i p s2 = (Inr y, s1)"
    using s1 unfolding change_password_def by (auto simp: return_ok_def dest!: and_then_Inr)
  obtain h s3 where h: "hash_with (ae_hash env) p s2 = (Inr h, s3)"
    and ins: "\<exists>c. cr_user_id c = i \<and> cr_kind c = ''password'' \<and> cr_data c = h \<and>
      (\<exists>s4. sv_tables s4 = sv_tables s3 \<and> exec env (insert_credential c) s4 = (Inr (), s1))"
    using y unfolding store_password_def Let_def with_tick_def tick_of_def
    by (force simp: return_ok_def dest!: and_then_Inr)
  obtain c s4 where c: "cr_user_id c = i" "cr_kind c = ''password''" "cr_data c = h"
    and s4: "sv_tables s4 = sv_tables s3" "exec env (insert_credential c) s4 = (Inr (), s1)"
    using ins by blast
  have "sv_tables s1 = (sv_tables s3)\<lparr>tb_credentials := tb_credentials (sv_tables s3) @ [c]\<rparr>"
    using s4 by (auto simp: exec_def insert_credential_def split: prod.splits if_splits dest!: io_step_tables)
  moreover have "sv_tables s3 = drop_passwords i (sv_tables s)"
    using hash_with_tables [OF h] modify_Inr [OF s2] by simp
  moreover have "sv_tables s' = drop_sessions i (sv_tables s1)"
    using modify_Inr [OF s' [unfolded delete_user_sessions_def]] .
  moreover have "\<exists>n. ae_hash env n p = Inr h"
    using h by (auto simp: hash_with_def with_tick_def tick_of_def)
  ultimately show ?thesis using c by (auto simp: Let_def)
qed

lemma consume_effect:
  "consume_rows env code cs s = (Inr True, s') \<Longrightarrow>
   \<exists>c \<in> set cs. ae_verify env code (rc_code_hash c) = Inr True \<and> sv_tables s' = use_code (rc_id c) (sv_tables s)"
  by (induction cs)
    (auto simp: return_ok_def fail_def split: sum.splits bool.splits dest!: and_then_Inr modify_Inr)

lemma note_attempt_frame:
  "\<exists>as. sv_tables (note_attempt env i k b s) = (sv_tables s)\<lparr>tb_attempts := as\<rparr>"
proof -
  have "\<exists>as. sv_tables (snd (record_attempt env i k b s)) = (sv_tables s)\<lparr>tb_attempts := as\<rparr>" for s
    by (auto simp: record_attempt_def with_tick_def tick_of_def exec_def split: prod.split
        dest!: io_step_tables intro: exI [of _ "tb_attempts (sv_tables s)"])
  moreover have "\<exists>as. sv_tables (snd (clear_failed_attempts env i k s)) = (sv_tables s)\<lparr>tb_attempts := as\<rparr>" for s
    using modify_cases unfolding clear_failed_attempts_def
    by (metis (no_types, lifting) tables.surjective tables.update_convs(5))
  ultimately show ?thesis
    by (auto simp: note_attempt_def Let_def) (metis (no_types, lifting) tables.surjective tables.update_convs(5))
qed

lemma replace_password_frame:
  "replace_password env i p s = (Inr x, s') \<Longrightarrow> tb_users (sv_tables s') = tb_users (sv_tables s) \<and> tb_codes (sv_tables s') = tb_codes (sv_tables s)"
  by (auto dest!: replace_password_effect simp: drop_sessions_def drop_passwords_def Let_def)

subsection \<open>Windows of failures\<close>

lemma length_filter_mono: "(\<And>x. P x \<Longrightarrow> Q x) \<Longrightarrow> length (filter P xs) \<le> length (filter Q xs)"
  by (induction xs) auto

text \<open>No window of ten minutes has more than five failures, and none is in the future.\<close>

definition windows_ok :: "account_env \<Rightarrow> string \<Rightarrow> server \<Rightarrow> bool" where
  "windows_ok env i s \<longleftrightarrow> (\<forall>c. failures_in c i (sv_tables s) \<le> LOCKOUT_THRESHOLD) \<and>
     (\<forall>a \<in> set (failed_rows i (sv_tables s)). la_attempted_at a \<le> ae_clock env (sv_ticks s))"

lemma windows_ok_add:
  assumes ok: "windows_ok env i s" and clock: "mono (ae_clock env)"
    and few: "length (filter (\<lambda>a. ae_clock env (sv_ticks s) - LOCKOUT_WINDOW_SECS < la_attempted_at a)
        (failed_rows i (sv_tables s))) < LOCKOUT_THRESHOLD"
    and s': "sv_ticks s < sv_ticks s'" "failed_rows i (sv_tables s') = failed_rows i (sv_tables s) @ [a]"
      "la_attempted_at a = ae_clock env (sv_ticks s' - 1)"
  shows "windows_ok env i s'"
proof -
  let ?rows = "failed_rows i (sv_tables s)"
  have later: "ae_clock env (sv_ticks s) \<le> la_attempted_at a" "la_attempted_at a \<le> ae_clock env (sv_ticks s')"
    "ae_clock env (sv_ticks s) \<le> ae_clock env (sv_ticks s')"
    using s'(1) unfolding s'(3) by (auto intro: monoD [OF clock])
  have "failures_in c i (sv_tables s') \<le> LOCKOUT_THRESHOLD" for c
  proof (cases "c < la_attempted_at a \<and> la_attempted_at a \<le> c + LOCKOUT_WINDOW_SECS")
    case True
    have "length (filter (\<lambda>b. c < la_attempted_at b \<and> la_attempted_at b \<le> c + LOCKOUT_WINDOW_SECS) ?rows) \<le>
        length (filter (\<lambda>b. la_attempted_at a - LOCKOUT_WINDOW_SECS \<le> c \<and> c < la_attempted_at b) ?rows)"
      using True by (intro length_filter_mono) auto
    also have "\<dots> \<le> length (filter (\<lambda>b. ae_clock env (sv_ticks s) - LOCKOUT_WINDOW_SECS < la_attempted_at b) ?rows)"
      using True later(1) by (intro length_filter_mono) auto
    finally show ?thesis using few True by (simp add: failures_in_def s'(2))
  next
    case False
    then show ?thesis using ok by (auto simp: failures_in_def windows_ok_def s'(2))
  qed
  moreover have "la_attempted_at b \<le> ae_clock env (sv_ticks s')" if "b \<in> set (failed_rows i (sv_tables s'))" for b
    using that ok later(2,3) unfolding windows_ok_def s'(2) by fastforce
  ultimately show ?thesis by (simp add: windows_ok_def)
qed

lemma try_logins_windows:
  assumes "try_logins env web hs u ps s = (rs, s')" and "sv_io s = []" and "mono (ae_clock env)"
    and "user_named (trim u) (sv_tables s) = Some r" and "\<not> us_suspended r"
    and "\<forall>p \<in> set ps. wrong_password env (us_id r) (sv_tables s) p" and "windows_ok env (us_id r) s"
  shows "windows_ok env (us_id r) s' \<and>
    length (failed_rows (us_id r) (sv_tables s')) =
      length (failed_rows (us_id r) (sv_tables s)) + length (filter (\<lambda>x. rs_status x = UNAUTHORIZED_401) rs)"
  using assms
proof (induction ps arbitrary: s rs)
  case (Cons p ps)
  let ?few = "length (filter (\<lambda>a. ae_clock env (sv_ticks s) - LOCKOUT_WINDOW_SECS < la_attempted_at a)
      (failed_rows (us_id r) (sv_tables s))) < LOCKOUT_THRESHOLD"
  obtain resp s1 where run: "login env web hs u p s = (resp, s1)" "sv_io s1 = []" "sv_ticks s \<le> sv_ticks s1"
    and effect: "if \<not> ?few then rs_status resp = TOO_MANY_REQUESTS_429 \<and> sv_tables s1 = sv_tables s
     else rs_status resp = UNAUTHORIZED_401 \<and> sv_ticks s < sv_ticks s1 \<and>
       sv_tables s1 = (sv_tables s)\<lparr>tb_attempts := tb_attempts (sv_tables s) @ [\<lparr>la_user_id = us_id r,
         la_kind = ''password'', la_attempted_at = ae_clock env (sv_ticks s1 - 1), la_success = False\<rparr>]\<rparr>"
    using wrong_login [OF Cons.prems(2,4,5), of env p web hs] Cons.prems(6) by (auto simp: not_less)
  obtain rs1 where rest: "try_logins env web hs u ps s1 = (rs1, s')" "rs = resp # rs1"
    using Cons.prems(1) by (auto simp: run split: prod.splits)
  have same: "user_named (trim u) (sv_tables s1) = Some r"
    using Cons.prems(4) effect by (auto simp: user_named_def split: if_splits)
  have rows: "password_rows (us_id r) (sv_tables s1) = password_rows (us_id r) (sv_tables s)"
    using effect by (auto simp: password_rows_def split: if_splits)
  have step: "windows_ok env (us_id r) s1 \<and> length (failed_rows (us_id r) (sv_tables s1)) =
      length (failed_rows (us_id r) (sv_tables s)) + (if rs_status resp = UNAUTHORIZED_401 then 1 else 0)"
  proof (cases ?few)
    case True
    then have eff: "rs_status resp = UNAUTHORIZED_401" "sv_ticks s < sv_ticks s1"
      and rows: "failed_rows (us_id r) (sv_tables s1) = failed_rows (us_id r) (sv_tables s) @ [\<lparr>la_user_id = us_id r,
         la_kind = ''password'', la_attempted_at = ae_clock env (sv_ticks s1 - 1), la_success = False\<rparr>]"
      using effect by (simp_all add: failed_rows_def)
    show ?thesis
      using windows_ok_add [OF Cons.prems(7,3) True eff(2) rows] by (simp add: rows eff(1))
  next
    case False
    then have "sv_tables s1 = sv_tables s" "rs_status resp = TOO_MANY_REQUESTS_429" using effect by (simp_all del: not_less)
    moreover have "ae_clock env (sv_ticks s) \<le> ae_clock env (sv_ticks s1)" using monoD [OF Cons.prems(3) run(3)] .
    ultimately show ?thesis using Cons.prems(7) by (fastforce simp: windows_ok_def)
  qed
  then show ?case
    using Cons.IH [OF rest(1) run(2) Cons.prems(3) same Cons.prems(5)] Cons.prems(6)
    by (simp add: rest(2) wrong_password_def rows)
qed simp

subsection \<open>Sessions\<close>

lemma validate_Some:
  assumes "validate_db_session env (DB_SESSION_PREFIX @ i) s = (Some u, s')"
  shows "\<exists>r. session_with i (sv_tables s) = Some r \<and> se_user_id r = u \<and>
    \<not> past_absolute_ttl (ae_clock env (sv_ticks s)) r \<and> ae_text env (ae_clock env (sv_ticks s)) < se_expires_at r"
proof -
  have pre: "strip_prefix DB_SESSION_PREFIX (DB_SESSION_PREFIX @ i) = Some i" by (simp add: strip_prefix_Some)
  obtain x s2 where q: "query env (session_with i) (s\<lparr>sv_ticks := Suc (sv_ticks s)\<rparr>) = (x, s2)"
    by (cases "query env (session_with i) (s\<lparr>sv_ticks := Suc (sv_ticks s)\<rparr>)")
  show ?thesis
  proof (cases x)
    case (Inr found)
    then show ?thesis
      using assms query_result [OF q [unfolded Inr]]
      by (auto simp: validate_db_session_def pre tick_of_def Let_def q Inr split: option.splits if_splits)
  qed (use assms in \<open>simp add: validate_db_session_def pre tick_of_def Let_def q\<close>)
qed

text \<open>A row a migration has filled in, with 0 for its creation, is never too old.\<close>

lemma backfilled_session_has_no_absolute_ttl: "se_created_at_unix r = 0 \<Longrightarrow> \<not> past_absolute_ttl now r"
  by (simp add: past_absolute_ttl_def)

text \<open>What chrono documents of its format: within four-digit years, texts compare as times.\<close>

definition text_ordered :: "account_env \<Rightarrow> bool" where
  "text_ordered env \<longleftrightarrow> (\<forall>a b. 0 \<le> a \<longrightarrow> a < 253402300800 \<longrightarrow> 0 \<le> b \<longrightarrow> b < 253402300800 \<longrightarrow>
     (ae_text env a < ae_text env b \<longleftrightarrow> a < b))"

definition clock_in_range :: "account_env \<Rightarrow> bool" where
  "clock_in_range env \<longleftrightarrow> (\<forall>n. 0 \<le> ae_clock env n \<and> ae_clock env n < 253402300800 - SESSION_IDLE_TTL_SECS)"

lemma session_with_in: "session_with i t = Some r \<Longrightarrow> r \<in> set (tb_sessions t)"
  unfolding session_with_def by (blast dest: find_SomeD)

lemma suspended_rows:
  assumes "user_with i t = Some r"
  shows "(\<exists>r \<in> set (tb_users (set_user i (\<lambda>r. r\<lparr>us_suspended := True, us_updated_at := now\<rparr>) t)). us_id r = i) \<and>
    (\<forall>r \<in> set (tb_users (set_user i (\<lambda>r. r\<lparr>us_suspended := True, us_updated_at := now\<rparr>) t)). us_id r = i \<longrightarrow> us_suspended r)"
proof
  show "\<exists>r \<in> set (tb_users (set_user i (\<lambda>r. r\<lparr>us_suspended := True, us_updated_at := now\<rparr>) t)). us_id r = i"
    using user_with_Some [OF assms]
    by (intro bexI [of _ "r\<lparr>us_suspended := True, us_updated_at := now\<rparr>"]) (auto simp: set_user_def)
qed (simp add: set_user_def ball_Un)

lemma suspended_login_refused:
  assumes "user_named (trim u) (sv_tables s) = Some r" and "us_suspended r"
  shows "rs_cookie (fst (login env web hs u p s)) = None"
proof -
  have "sv_tables (snd (value_or 0 (count_users env s))) = sv_tables s" by (simp add: count_users_def value_or_def)
  then have "fst (value_or None (get_user_by_username env u (snd (value_or 0 (count_users env s))))) \<in> {None, Some (decode_user r)}"
    using assms(1) by (auto simp: get_user_by_username_def value_or_def split: sum.split dest: fst_query)
  moreover have "us_suspended (decode_user r)" using assms(2) by (simp add: decode_user_def)
  ultimately show ?thesis
    by (auto simp: login_def login_check_def status_only_def error_response_def split: prod.split option.split)
qed

subsection \<open>A small deployment\<close>

definition sample_env_with :: "(int \<Rightarrow> string) \<Rightarrow> account_env" where
  "sample_env_with fmt = \<lparr>ae_clock = int, ae_text = fmt, ae_uuid = (\<lambda>n. ''id-'' @ show_nat n), ae_hash = (\<lambda>_ p. Inr p),
     ae_hash_code = (\<lambda>_ p. Inr p), ae_verify = (\<lambda>p h. Inr (p = h)), ae_weaker = (\<lambda>_. Inr False),
     ae_random = (\<lambda>n. n), ae_sql_message = ''database''\<rparr>"

abbreviation sample_accounts :: account_env where
  "sample_accounts \<equiv> sample_env_with (\<lambda>t. if t < 1000 then ''a'' else ''b'')"

definition sample_web :: web_config where
  "sample_web = \<lparr>wc_host = ''0.0.0.0'', wc_port = 8080, wc_cors_origins = [], wc_cookie_secure = None,
     wc_kick_other_sessions_on_login = True\<rparr>"

definition sample_tables :: tables where
  "sample_tables = \<lparr>
     tb_users = [\<lparr>us_id = ''1'', us_username = ''ann'', us_role = ''admin'', us_suspended = False, us_created_at = [], us_updated_at = []\<rparr>,
       \<lparr>us_id = ''2'', us_username = ''bob'', us_role = ''user'', us_suspended = False, us_created_at = [], us_updated_at = []\<rparr>],
     tb_credentials = [\<lparr>cr_id = ''c'', cr_user_id = ''2'', cr_kind = ''password'', cr_data = ''correct horse'', cr_label = None,
       cr_last_used_at = None\<rparr>],
     tb_codes = [\<lparr>rc_id = ''r'', rc_user_id = ''2'', rc_code_hash = ''ABCD-EFGH'', rc_used = False\<rparr>],
     tb_sessions = [\<lparr>se_id = ''s1'', se_user_id = ''1'', se_expires_at = ''b'', se_last_seen_at = 0, se_created_at_unix = 0\<rparr>,
       \<lparr>se_id = ''s2'', se_user_id = ''2'', se_expires_at = ''b'', se_last_seen_at = 0, se_created_at_unix = 0\<rparr>],
     tb_attempts = []\<rparr>"

definition sample_server :: server where
  "sample_server = \<lparr>sv_tables = sample_tables, sv_io = [], sv_ticks = 0\<rparr>"

definition cookie_header :: "string \<Rightarrow> headers" where
  "cookie_header v = [(''cookie'', ''takuto_session='' @ v)]"

text \<open>A format that compares as the times do.\<close>

definition ordered_text :: "int \<Rightarrow> string" where
  "ordered_text t = replicate (nat t) (CHR ''a'')"

lemma replicate_less: "replicate n x < replicate m x \<longleftrightarrow> n < m" for x :: char
proof (induction n arbitrary: m)
  case 0
  then show ?case by (cases m) simp_all
next
  case (Suc n)
  then show ?case by (cases m) simp_all
qed

abbreviation sample_ordered :: account_env where
  "sample_ordered \<equiv> (sample_env_with ordered_text)\<lparr>ae_clock := \<lambda>n. int n mod 1000\<rparr>"

lemma sample_ordered_ok: "text_ordered sample_ordered" "clock_in_range sample_ordered"
  by (auto simp: text_ordered_def clock_in_range_def sample_env_with_def ordered_text_def replicate_less
      SESSION_IDLE_TTL_SECS_def intro: less_trans [OF pos_mod_bound])

subsection \<open>Behaviour worth knowing\<close>

text \<open>
  A user whose first password is too short has been created all the same; when the credentials of the first user
  cannot be stored, registration is closed and nobody can log in; a rename to white space leaves an
  empty name; a name twice in an import makes all of it fail; logins under way together all pass
  the lockout check.
\<close>

lemma short_password_leaves_user:
  "let (r, s) = create_user_route sample_accounts (cookie_header ''db-s1'') ''cy'' (Some ''short'') None sample_server
   in rs_status r = BAD_REQUEST_400 \<and> user_named ''cy'' (sv_tables s) \<noteq> None"
  by code_simp

lemma failed_registration_closes:
  "let s0 = \<lparr>sv_tables = empty_tables, sv_io = [True, True, True, True, True, True, False], sv_ticks = 0\<rparr>;
       (a, s1) = register sample_accounts ''ann'' ''a long password'' s0;
       (b, s2) = register sample_accounts ''ann'' ''a long password'' s1;
       (c, s3) = login sample_accounts sample_web [] ''ann'' ''a long password'' s2
   in rs_status a = BAD_REQUEST_400 \<and> rs_status b = CONFLICT_409 \<and> rs_status c = UNAUTHORIZED_401"
  by code_simp

lemma empty_name_accepted:
  "let (r, s) = update_user_route sample_accounts (cookie_header ''db-s1'') ''2'' (Some '' '') None sample_server
   in rs_status r = OK_200 \<and> map_option us_username (user_with ''2'' (sv_tables s)) = Some []"
  by code_simp

lemma duplicate_import_fails:
  "let x = \<lparr>ue_username = ''cy'', ue_role = User, ue_suspended = False\<rparr>;
       (r, s) = import_users sample_accounts (cookie_header ''db-s1'') [x, x] sample_server
   in rs_status r = BAD_REQUEST_400 \<and> user_named ''cy'' (sv_tables s) = None"
  by code_simp

lemma login_check_tables [simp]: "sv_tables (snd (login_check env u s)) = sv_tables s"
  by (auto simp: login_check_def count_users_def get_user_by_username_def lockout_check_def value_or_def
      failed_count_in_window_def oldest_failure_ts_in_window_def with_tick_def tick_of_def
      split: prod.split option.split)

subsection \<open>Properties\<close>

text \<open>
  C2: whatever requests are made, however their calls are interleaved and whichever statements fail, the
  accounts are well formed: ids and names are unique, no row belongs to a user that is not there, and
  once there is a user there is an administrator who is not suspended.
\<close>
theorem accounts_stay_administrable:
  assumes "(account_step env)\<^sup>*\<^sup>* empty_tables t"
  shows "accounts_ok t"
proof -
  have "accounts_ok empty_tables" by (simp add: empty_tables_def accounts_ok_def users_ok_def rows_ok_def)
  with assms show ?thesis by (rule accounts.call_steps_keep)
qed

theorem accounts_stay_administrable_witness:
  "\<exists>t. (account_step sample_accounts)\<^sup>*\<^sup>* empty_tables t \<and> accounts_ok t \<and> List.map us_role (tb_users t) = [''admin'', ''user'']"
proof -
  let ?s = "\<lparr>sv_tables = empty_tables, sv_io = [], sv_ticks = 0\<rparr>"
  let ?s1 = "perform_call sample_accounts (CreateUser ''ann'' User) ?s"
  let ?s2 = "perform_call sample_accounts (CreateUser ''bob'' User) ?s1"
  have "(account_step sample_accounts)\<^sup>*\<^sup>* (sv_tables ?s) (sv_tables ?s2)"
    by (rule rtranclp_trans [OF reaches_call reaches_call])
  then have steps: "(account_step sample_accounts)\<^sup>*\<^sup>* empty_tables (sv_tables ?s2)" by simp
  have "List.map us_role (tb_users (sv_tables ?s2)) = [''admin'', ''user'']" by code_simp
  with steps accounts_stay_administrable [OF steps] show ?thesis by (intro exI conjI)
qed






text \<open>
  C35: a recovery that succeeds has consumed an unused code of the user that the given one verifies
  against, leaves the user the new password only, and ends all the user's sessions; a recovery that
  fails changes nothing but the attempts.
\<close>
theorem recovery_revokes_access:
  assumes "recover env u c p s = (resp, s')"
  shows "if rs_status resp = NO_CONTENT_204 then
      \<exists>r code n h. user_named (trim u) (sv_tables s) = Some r \<and> code \<in> set (unused_codes (us_id r) (sv_tables s)) \<and>
        ae_verify env c (rc_code_hash code) = Inr True \<and> ae_hash env n p = Inr h \<and>
        List.map cr_data (password_rows (us_id r) (sv_tables s')) = [h] \<and>
        tb_codes (sv_tables s') = tb_codes (use_code (rc_id code) (sv_tables s)) \<and>
        us_id r \<notin> se_user_id ` set (tb_sessions (sv_tables s'))
    else \<exists>as. sv_tables s' = (sv_tables s)\<lparr>tb_attempts := as\<rparr>"
proof -
  have triv: "\<exists>as. sv_tables s = (sv_tables s)\<lparr>tb_attempts := as\<rparr>" by (rule exI [of _ "tb_attempts (sv_tables s)"]) simp
  obtain x s1 where x: "value_or None (get_user_by_username env u s) = (x, s1)"
    by (cases "value_or None (get_user_by_username env u s)")
  have s1: "sv_tables s1 = sv_tables s" "x = None \<or> x = map_option decode_user (user_named (trim u) (sv_tables s))"
    using x by (auto simp: value_or_def get_user_by_username_def split: sum.splits dest: fst_query)
  show ?thesis
  proof (cases "length p < 12 \<or> x = None \<or> (\<exists>v. x = Some v \<and> us_suspended v)")
    case True
    then show ?thesis
      using assms triv s1(1) by (auto simp: recover_def x error_response_def status_only_def split: if_splits option.splits)
  next
    case False
    then obtain r where r: "user_named (trim u) (sv_tables s) = Some r" "x = Some (decode_user r)"
      using s1(2) by (cases "user_named (trim u) (sv_tables s)") auto
    have id: "us_id (decode_user r) = us_id r" by (simp add: decode_user_def)
    obtain l s2 where l: "lockout_check env RecoveryAttempt (us_id r) s1 = (l, s2)"
      by (cases "lockout_check env RecoveryAttempt (us_id r) s1")
    have "sv_tables s2 = sv_tables s1"
      using l by (auto simp: lockout_check_def value_or_def failed_count_in_window_def oldest_failure_ts_in_window_def
          with_tick_def tick_of_def split: if_splits)
    then have s2: "sv_tables s2 = sv_tables s" using s1(1) by simp
    obtain y s3 where y: "use_recovery_code env (us_id r) c p s2 = (y, s3)"
      by (cases "use_recovery_code env (us_id r) c p s2")
    note run = assms [unfolded recover_def x prod.case]
    consider resp' where "l = Some resp'" | "l = None" "y = Inr True" | "l = None" "y \<noteq> Inr True"
      by (cases l) auto
    then show ?thesis
    proof cases
      case 1
      have "rs_status resp' = TOO_MANY_REQUESTS_429"
        using l 1 by (auto simp: lockout_check_def locked_response_def error_response_def status_only_def
            split: prod.splits if_splits)
      then show ?thesis using run False 1 triv s2 by (auto simp: r(2) id l)
    next
      case 2
      obtain s4 s5 s6 where s4: "sv_tables s4 = sv_tables s"
        and consume: "verify_and_consume_recovery_code env (us_id r) c s4 = (Inr True, s5)"
        and replace: "replace_password env (us_id r) p s5 = (Inr (), s6)" and s3: "sv_tables s3 = sv_tables s6"
        using use_recovery_code_outcome [OF y] 2 s2 by auto
      obtain cs s7 where q: "query env (unused_codes (us_id r)) s4 = (Inr cs, s7)"
        and rows: "consume_rows env c cs s7 = (Inr True, s5)"
        using and_then_Inr [OF consume [unfolded verify_and_consume_recovery_code_def]] by blast
      obtain code where code: "code \<in> set (unused_codes (us_id r) (sv_tables s))"
          "ae_verify env c (rc_code_hash code) = Inr True" "sv_tables s5 = use_code (rc_id code) (sv_tables s)"
        using consume_effect [OF rows] query_result [OF q] query_tables [OF q] s4 by auto
      obtain n h d where new: "ae_hash env n p = Inr h" "cr_user_id d = us_id r" "cr_kind d = ''password''" "cr_data d = h"
        and s6: "sv_tables s6 = drop_sessions (us_id r)
          (let t = drop_passwords (us_id r) (sv_tables s5) in t\<lparr>tb_credentials := tb_credentials t @ [d]\<rparr>)"
        using replace_password_effect [OF replace] by blast
      obtain as where "sv_tables s' = (sv_tables s6)\<lparr>tb_attempts := as\<rparr>" and ok: "rs_status resp = NO_CONTENT_204"
        using run False 2 note_attempt_frame [of env "us_id r" RecoveryAttempt True s3]
        by (auto simp: r(2) id l y s3 status_only_def)
      then have "List.map cr_data (password_rows (us_id r) (sv_tables s')) = [h]"
        "tb_codes (sv_tables s') = tb_codes (use_code (rc_id code) (sv_tables s))"
        "us_id r \<notin> se_user_id ` set (tb_sessions (sv_tables s'))"
        using new by (auto simp: s6 Let_def drop_sessions_def drop_passwords_def password_rows_def code(3) filter_empty_conv)
      then show ?thesis using r(1) code(1,2) new(1) ok by auto
    next
      case 3
      have "sv_tables s3 = sv_tables s" using use_recovery_code_outcome [OF y] 3(2) s2 by auto
      then show ?thesis
        using run False 3 triv note_attempt_frame [of env "us_id r" RecoveryAttempt False s3]
        by (auto simp: r(2) id l y error_response_def status_only_def split: sum.splits bool.splits)
    qed
  qed
qed

theorem recovery_revokes_access_witness:
  "let s' = snd (recover sample_accounts ''bob'' ''ABCD-EFGH'' ''a new password'' sample_server)
   in List.map cr_data (password_rows ''2'' (sv_tables s')) = [''a new password''] \<and>
      ''2'' \<notin> se_user_id ` set (tb_sessions (sv_tables s')) \<and> ''1'' \<in> se_user_id ` set (tb_sessions (sv_tables s'))"
proof -
  let ?x = "recover sample_accounts ''bob'' ''ABCD-EFGH'' ''a new password'' sample_server"
  have "rs_status (fst ?x) = NO_CONTENT_204" by code_simp
  moreover have "map_option us_id (user_named (trim ''bob'') (sv_tables sample_server)) = Some ''2''" by code_simp
  moreover have "ae_hash sample_accounts n p = Inr p" for n p by (simp add: sample_env_with_def)
  moreover note recovery_revokes_access [OF prod.collapse [symmetric], of sample_accounts "''bob''" "''ABCD-EFGH''"
      "''a new password''" sample_server]
  ultimately have "List.map cr_data (password_rows ''2'' (sv_tables (snd ?x))) = [''a new password''] \<and>
      ''2'' \<notin> se_user_id ` set (tb_sessions (sv_tables (snd ?x)))"
    by auto
  moreover have "''1'' \<in> se_user_id ` set (tb_sessions (sv_tables (snd ?x)))" by code_simp
  ultimately show ?thesis by (simp add: Let_def)
qed

text \<open>
  When the suspension of a user is answered with 204, the user is suspended and no session of the
  user is left; and no login of a suspended user is accepted.
\<close>
lemma suspension_ends_sessions:
  assumes "suspend_user_route env hs i s = (resp, s')" and "rs_status resp = NO_CONTENT_204"
  shows "(\<exists>r \<in> set (tb_users (sv_tables s')). us_id r = i) \<and>
    (\<forall>r \<in> set (tb_users (sv_tables s')). us_id r = i \<longrightarrow> us_suspended r) \<and>
    i \<notin> se_user_id ` set (tb_sessions (sv_tables s')) \<and>
    (\<forall>u p r. user_named (trim u) (sv_tables s') = Some r \<and> us_id r = i \<longrightarrow>
       rs_cookie (fst (login env web hs' u p s')) = None)"
proof -
  let ?susp = "\<lambda>t. (\<exists>r \<in> set (tb_users t). us_id r = i) \<and> (\<forall>r \<in> set (tb_users t). us_id r = i \<longrightarrow> us_suspended r)"
  obtain x s1 where x: "require_admin env hs s = (x, s1)" by (cases "require_admin env hs s")
  have status: "rs_status (status_only st) = st" "rs_status (error_response st m) = st" for st m
    by (simp_all add: status_only_def error_response_def)
  have no_204: "require_admin env hs s = (Inl st, s1) \<Longrightarrow> st \<noteq> NO_CONTENT_204" for st
    by (auto simp: require_admin_def split: option.splits prod.splits if_splits)
  obtain admin where admin: "x = Inr admin" "us_id admin \<noteq> i"
    using assms x no_204
    by (cases x) (auto simp: suspend_user_route_def as_admin_def status split: if_splits)
  obtain y s2 where y: "suspend_and_revoke env i s1 = (y, s2)" by (cases "suspend_and_revoke env i s1")
  have "y = Inr ()" and s': "s' = s2"
    using assms x y admin
    by (auto simp: suspend_user_route_def as_admin_def no_content_or_error_def not_found_or_bad_def Let_def status
        split: sum.splits if_splits)
  then obtain z s3 where z: "suspend_user env i s1 = (Inr z, s3)"
    and revoke: "in_tx env (delete_user_sessions env i) s3 = (Inr (), s2)"
    using and_then_Inr y unfolding suspend_and_revoke_def by metis
  have "valid (\<lambda>_. True) (suspend_user env i) (\<lambda>_. ?susp) (\<lambda>_. True)"
    unfolding suspend_user_def
    by (rule valid_in_tx in_tx_rules valid_with_tick)+ (use suspended_rows in blast)
  then have "?susp (sv_tables s3)" using z by (auto simp: valid_def dest: spec [of _ s1])
  moreover have "valid ?susp (in_tx env (delete_user_sessions env i))
      (\<lambda>_ t. ?susp t \<and> i \<notin> se_user_id ` set (tb_sessions t)) ?susp"
    unfolding delete_user_sessions_def by (rule valid_in_tx valid_modify)+ (auto simp: drop_sessions_def)
  ultimately have susp: "?susp (sv_tables s')" "i \<notin> se_user_id ` set (tb_sessions (sv_tables s'))"
    using revoke unfolding valid_def s' by (force dest: spec [of _ s3])+
  have "rs_cookie (fst (login env web hs' u p s')) = None"
    if "user_named (trim u) (sv_tables s') = Some r" "us_id r = i" for u p r
  proof (rule suspended_login_refused [OF that(1)])
    show "us_suspended r" using that susp(1) unfolding user_named_def by (blast dest: find_SomeD)
  qed
  then show ?thesis using susp by blast
qed


text \<open>
  An origin taken from a Referer is allowed only when the Referer begins with an allowed origin (up to
  case and trailing slashes) that ends where the Referer's authority ends: no longer host name and no
  user part in front of another host can pass for it.
\<close>
lemma referer_origin_not_forged:
  assumes "origin_from_referer referer = Some origin" and "origin_in_allowlist origin allowed"
  shows "\<exists>a \<in> set allowed. \<exists>rest. trim referer = origin @ rest \<and>
    (rest = [] \<or> hd rest \<in> {CHR ''/'', CHR ''?'', CHR ''#''}) \<and>
    eq_ignore_ascii_case (trim_end_char (CHR ''/'') a) origin"
proof -
  let ?stop = "\<lambda>c. c \<notin> {CHR ''/'', CHR ''?'', CHR ''#''}"
  obtain scheme r where found: "scheme = ''https'' \<and> strip_prefix ''https://'' (trim referer) = Some r \<or>
      scheme = ''http'' \<and> strip_prefix ''http://'' (trim referer) = Some r"
    and or: "origin = scheme @ ''://'' @ takeWhile ?stop r" and ne: "takeWhile ?stop r \<noteq> []"
  proof (cases "strip_prefix ''https://'' (trim referer)")
    case None
    then show ?thesis
      using assms(1) that [of "''http''"] by (auto simp: origin_from_referer_def Let_def split: option.splits if_splits)
  next
    case (Some r)
    then show ?thesis
      using assms(1) that [of "''https''" r] by (auto simp: origin_from_referer_def Let_def split: if_splits)
  qed
  then have sr: "trim referer = scheme @ ''://'' @ r" by (auto simp: strip_prefix_Some)
  define tw where "tw = takeWhile ?stop r"
  have last: "last tw \<noteq> CHR ''/''" using last_in_set [OF ne] unfolding tw_def by (auto dest: set_takeWhileD)
  have "tw = butlast tw @ [last tw]" using ne by (simp add: tw_def)
  then have "rev tw = last tw # rev (butlast tw)" by (metis rev.simps(2) rev_rev_ident rev_append append_Cons append_Nil rev_singleton_conv)
  then have "rev origin = last tw # rev (butlast tw) @ rev (scheme @ ''://'')" unfolding or tw_def [symmetric] by simp
  with last have "trim_end_char (CHR ''/'') origin = rev (rev origin)" by (simp add: trim_end_char_def)
  then have "trim_end_char (CHR ''/'') origin = origin" by simp
  moreover have "trim referer = origin @ dropWhile ?stop r" by (simp add: sr or)
  moreover have "dropWhile ?stop r = [] \<or> hd (dropWhile ?stop r) \<in> {CHR ''/'', CHR ''?'', CHR ''#''}"
    using hd_dropWhile [of ?stop r] by blast
  ultimately show ?thesis
    using assms(2) unfolding origin_in_allowlist_def list_ex_iff by metis
qed


text \<open>
  A login that has verified the password before a suspension is answered with a session after it, and
  the middleware lets the suspended user in with that session.
\<close>
lemma suspension_misses_running_login:
  "let (u, s1) = login_check sample_accounts ''bob'' sample_server;
       (v, s2) = authenticate_db_user sample_accounts ''bob'' ''correct horse'' s1;
       (a, s3) = suspend_user_route sample_accounts (cookie_header ''db-s1'') ''2'' s2;
       (b, s4) = login_finish sample_accounts sample_web [] ''2'' (v \<noteq> None) s3;
       (who, s5) = dashboard_auth sample_accounts True (cookie_header (case rs_cookie b of Some c \<Rightarrow> ck_value c | None \<Rightarrow> [])) s4
   in rs_status a = NO_CONTENT_204 \<and> rs_status b = NO_CONTENT_204 \<and>
      map_option us_suspended (user_with ''2'' (sv_tables s4)) = Some True \<and> map_option au_user_id who = Some ''2''"
  by code_simp

end
