(* ===== verification/Session_Proxy.thy ===== *)
theory Session_Proxy
  imports Account_Props
begin

text \<open>
  The reverse proxy in front of the editors, terminals and forwarded ports of the work items:
  the registry of path tokens (\<open>takuto-web/src/session_registry.rs\<close>), the paths and headers of the
  requests (\<open>routes/sessions/token_validator.rs\<close>, \<open>proxy_forward.rs\<close>, \<open>websocket.rs\<close>) and the two handlers
  \<open>proxy_session\<close> and \<open>proxy_or_static_fallback\<close> (\<open>routes/sessions/mod.rs\<close>, \<open>serve_static\<close> of
  \<open>server.rs\<close>). The answer of a backend, the embedded assets, the random tokens and the order in which a hash
  map is walked are parameters.
\<close>

subsection \<open>The registry\<close>

datatype session_route_kind = EditorRoute | TerminalRoute | DynamicPortRoute

record session_route =
  sr_kind :: session_route_kind
  sr_host_port :: "16 word"
  sr_ticket_key :: string
  sr_user_id :: string

record registry =
  rg_routes :: "(string \<times> session_route) list"
  rg_draws :: nat

definition lookup_route :: "registry \<Rightarrow> string \<Rightarrow> session_route option" where
  "lookup_route g token = map_of (rg_routes g) token"

definition register_with_token :: "string \<Rightarrow> session_route \<Rightarrow> registry \<Rightarrow> bool \<times> registry" where
  "register_with_token token r g =
     (if lookup_route g token = None then (True, g\<lparr>rg_routes := (token, r) # rg_routes g\<rparr>) else (False, g))"

text \<open>Up to \<open>n\<close> random tokens, the first that is free; \<open>draw\<close> is the generator.\<close>

fun register_tries :: "nat \<Rightarrow> (nat \<Rightarrow> string) \<Rightarrow> session_route \<Rightarrow> registry \<Rightarrow> string option \<times> registry" where
  "register_tries 0 draw r g = (None, g)"
| "register_tries (Suc n) draw r g =
     (let token = draw (rg_draws g) in
      case register_with_token token r (g\<lparr>rg_draws := Suc (rg_draws g)\<rparr>) of
        (True, g') \<Rightarrow> (Some token, g')
      | (False, g') \<Rightarrow> register_tries n draw r g')"

definition register_route :: "(nat \<Rightarrow> string) \<Rightarrow> session_route \<Rightarrow> registry \<Rightarrow> string option \<times> registry" where
  "register_route = register_tries 8"

definition keep_routes :: "(string \<times> session_route \<Rightarrow> bool) \<Rightarrow> registry \<Rightarrow> registry" where
  "keep_routes P g = g\<lparr>rg_routes := filter P (rg_routes g)\<rparr>"

definition remove_route :: "string \<Rightarrow> registry \<Rightarrow> session_route option \<times> registry" where
  "remove_route token g = (lookup_route g token, keep_routes (\<lambda>(t, _). t \<noteq> token) g)"

text \<open>The dropped tokens in the order of the map's entries.\<close>

definition remove_for_ticket :: "string \<Rightarrow> registry \<Rightarrow> string list \<times> registry" where
  "remove_for_ticket k g =
     (List.map fst (filter (\<lambda>(_, r). sr_ticket_key r = k) (rg_routes g)), keep_routes (\<lambda>(_, r). sr_ticket_key r \<noteq> k) g)"

definition remove_for_ticket_kind :: "string \<Rightarrow> session_route_kind \<Rightarrow> registry \<Rightarrow> string list \<times> registry" where
  "remove_for_ticket_kind k kind g =
     (let match = (\<lambda>(_, r). sr_ticket_key r = k \<and> sr_kind r = kind)
      in (List.map fst (filter match (rg_routes g)), keep_routes (\<lambda>x. \<not> match x) g))"

definition find_token_for ::
  "((string \<times> session_route) list \<Rightarrow> (string \<times> session_route) list) \<Rightarrow> registry \<Rightarrow> string \<Rightarrow> session_route_kind \<Rightarrow> string option" where
  "find_token_for order g k kind =
     map_option fst (List.find (\<lambda>(_, r). sr_ticket_key r = k \<and> sr_kind r = kind) (order (rg_routes g)))"

subsection \<open>Paths\<close>

definition parse_session_path :: "string \<Rightarrow> (string \<times> string option) option" where
  "parse_session_path path =
     (case strip_prefix ''/s/'' path of
        None \<Rightarrow> None
      | Some after_prefix \<Rightarrow>
          let token = takeWhile (\<lambda>c. c \<noteq> CHR ''/'') after_prefix; rest = dropWhile (\<lambda>c. c \<noteq> CHR ''/'') after_prefix
          in if token = [] then None else Some (token, if rest = [] then None else Some rest))"

definition upstream_path_for_kind :: "session_route_kind \<Rightarrow> string \<Rightarrow> string \<Rightarrow> string" where
  "upstream_path_for_kind kind token rest = (if kind = EditorRoute then ''/s/'' @ token @ rest else rest)"

subsection \<open>Requests and responses\<close>

record http_request =
  rq_method :: http_method
  rq_path :: string
  rq_query :: "string option"
  rq_headers :: headers

record upstream_request =
  up_uri :: string
  up_method :: http_method
  up_headers :: headers

record proxy_response =
  pr_status :: nat
  pr_headers :: headers
  pr_body :: string

record proxy_env =
  px_docker_host :: "string option"
  px_uri_ok :: "string \<Rightarrow> bool"
  px_backend :: "upstream_request \<Rightarrow> proxy_response option"
  px_assets :: "string \<Rightarrow> string option"
  px_mime :: "string \<Rightarrow> string"

definition empty_response :: "nat \<Rightarrow> proxy_response" where
  "empty_response status = \<lparr>pr_status = status, pr_headers = [], pr_body = []\<rparr>"

definition not_found :: proxy_response where
  "not_found = empty_response 404"

definition redirect_to_trailing_slash :: "string \<Rightarrow> string option \<Rightarrow> proxy_response" where
  "redirect_to_trailing_slash token qs =
     (empty_response 308)\<lparr>pr_headers := [(''location'', ''/s/'' @ token @ ''/'' @
        (case qs of Some q \<Rightarrow> if q = [] then [] else ''?'' @ q | None \<Rightarrow> []))]\<rparr>"

definition is_websocket_upgrade :: "headers \<Rightarrow> bool" where
  "is_websocket_upgrade hs \<longleftrightarrow>
     (case header_str ''upgrade'' hs of Some v \<Rightarrow> eq_ignore_ascii_case v ''websocket'' | None \<Rightarrow> False) \<and>
     (case header_str ''connection'' hs of
        Some v \<Rightarrow> list_ex (\<lambda>part. eq_ignore_ascii_case (trim part) ''upgrade'') (split_on (CHR '','') v)
      | None \<Rightarrow> False)"

definition drop_header :: "string \<Rightarrow> headers \<Rightarrow> headers" where
  "drop_header name hs = filter (\<lambda>(n, _). n \<noteq> name) hs"

definition set_header :: "string \<Rightarrow> string \<Rightarrow> headers \<Rightarrow> headers" where
  "set_header name v hs = drop_header name hs @ [(name, v)]"

text \<open>What \<open>HeaderValue::from_str\<close> accepts.\<close>

definition header_value_ok :: "string \<Rightarrow> bool" where
  "header_value_ok v = list_all (\<lambda>c. let n = (of_char c :: nat) in 32 \<le> n \<and> n \<noteq> 127 \<or> n = 9) v"

definition HOP_BY_HOP_HEADERS :: "string list" where
  "HOP_BY_HOP_HEADERS = [''connection'', ''keep-alive'', ''proxy-authenticate'', ''proxy-authorization'', ''te'',
     ''trailer'', ''transfer-encoding'', ''upgrade'']"

fun rsplit_once :: "char \<Rightarrow> string \<Rightarrow> (string \<times> string) option" where
  "rsplit_once d s = map_option (\<lambda>(a, b). (rev b, rev a)) (split_once d (rev s))"

definition upstream_host :: "proxy_env \<Rightarrow> string" where
  "upstream_host px =
     (case Option.bind (Option.bind (px_docker_host px) (strip_prefix ''tcp://'')) (rsplit_once (CHR '':'')) of
        Some (host, _) \<Rightarrow> host
      | None \<Rightarrow> ''127.0.0.1'')"

definition authority_of :: "proxy_env \<Rightarrow> 16 word \<Rightarrow> string" where
  "authority_of px port = upstream_host px @ '':'' @ show_nat (unat port)"

definition build_upstream_uri :: "proxy_env \<Rightarrow> 16 word \<Rightarrow> string \<Rightarrow> string option \<Rightarrow> string option" where
  "build_upstream_uri px port rest qs =
     (let raw = ''http://'' @ authority_of px port @ (if rest = [] then ''/'' else rest) @
            (case qs of Some q \<Rightarrow> if q = [] then [] else ''?'' @ q | None \<Rightarrow> [])
      in if px_uri_ok px raw then Some raw else None)"

definition sanitise_request_headers :: "proxy_env \<Rightarrow> headers \<Rightarrow> 16 word \<Rightarrow> bool \<Rightarrow> headers" where
  "sanitise_request_headers px hs port is_upgrade =
     set_header ''host'' (authority_of px port)
       (if is_upgrade then hs else fold drop_header HOP_BY_HOP_HEADERS hs)"

definition rewrite_redirect_location :: "proxy_response \<Rightarrow> string \<Rightarrow> proxy_response" where
  "rewrite_redirect_location resp token =
     (if \<not> (300 \<le> pr_status resp \<and> pr_status resp < 400) then resp
      else (case header_str ''location'' (pr_headers resp) of
         None \<Rightarrow> resp
       | Some location \<Rightarrow>
           (case strip_prefix ''/'' location of
              None \<Rightarrow> resp
            | Some path \<Rightarrow>
                if starts_with (''s/'' @ token) path then resp
                else let rewritten = ''/s/'' @ token @ ''/'' @ path in
                  if header_value_ok rewritten
                  then resp\<lparr>pr_headers := set_header ''location'' rewritten (pr_headers resp)\<rparr> else resp)))"

definition upstream_of :: "proxy_env \<Rightarrow> http_request \<Rightarrow> session_route \<Rightarrow> string \<Rightarrow> string \<Rightarrow> bool \<Rightarrow> upstream_request option" where
  "upstream_of px rq r rest token is_upgrade =
     map_option (\<lambda>uri. \<lparr>up_uri = uri, up_method = rq_method rq,
         up_headers = sanitise_request_headers px (rq_headers rq) (sr_host_port r) is_upgrade\<rparr>)
       (build_upstream_uri px (sr_host_port r) (upstream_path_for_kind (sr_kind r) token rest) (rq_query rq))"

definition plain_text :: "nat \<Rightarrow> string \<Rightarrow> proxy_response" where
  "plain_text status body = \<lparr>pr_status = status, pr_headers = [(''content-type'', ''text/plain; charset=utf-8'')],
     pr_body = body\<rparr>"

text \<open>The request that goes to the backend, if one does, and the answer to the client.\<close>

definition forward_http ::
  "proxy_env \<Rightarrow> http_request \<Rightarrow> session_route \<Rightarrow> string \<Rightarrow> string \<Rightarrow> upstream_request option \<times> proxy_response" where
  "forward_http px rq r rest token =
     (case upstream_of px rq r rest token False of
        None \<Rightarrow> (None, not_found)
      | Some up \<Rightarrow> (Some up,
          (case px_backend px up of
             None \<Rightarrow> plain_text 502 ''upstream unavailable''
           | Some resp0 \<Rightarrow>
               let resp = (if sr_kind r = TerminalRoute then rewrite_redirect_location resp0 token else resp0);
                   cookie = ''takuto_dynamic_port='' @ token @ ''; Path=/; SameSite=Lax''
               in if sr_kind r = DynamicPortRoute \<and>
                     (case header_str ''content-type'' (pr_headers resp) of
                        Some ct \<Rightarrow> starts_with ''text/html'' ct | None \<Rightarrow> False) \<and> header_value_ok cookie
                  then resp\<lparr>pr_headers := pr_headers resp @ [(''set-cookie'', cookie)]\<rparr> else resp)))"

text \<open>An accepted upgrade is answered with the head of the backend's answer; the tunnel that follows is not modelled.\<close>

definition forward_websocket ::
  "proxy_env \<Rightarrow> http_request \<Rightarrow> session_route \<Rightarrow> string \<Rightarrow> string \<Rightarrow> upstream_request option \<times> proxy_response" where
  "forward_websocket px rq r rest token =
     (case upstream_of px rq r rest token True of
        None \<Rightarrow> (None, not_found)
      | Some up \<Rightarrow> (Some up,
          (case px_backend px up of
             None \<Rightarrow> plain_text 502 ''upstream unavailable''
           | Some resp \<Rightarrow>
               if pr_status resp \<noteq> 101 then resp
               else (empty_response 101)\<lparr>pr_headers := fold (\<lambda>(n, v). set_header n v) (pr_headers resp) []\<rparr>)))"

subsection \<open>The handlers\<close>

text \<open>\<open>Inl\<close> is a missing or invalid session, \<open>Inr None\<close> a deployment without a database.\<close>

definition authenticate_request :: "account_env \<Rightarrow> bool \<Rightarrow> headers \<Rightarrow> server \<Rightarrow> (unit + string option) \<times> server" where
  "authenticate_request env has_db hs s =
     (if \<not> has_db then (Inr None, s)
      else (case session_cookie_from_headers hs of
         None \<Rightarrow> (Inl (), s)
       | Some raw \<Rightarrow>
           if starts_with ''db-'' raw then
             (case validate_db_session env raw s of
                (Some uid, s') \<Rightarrow> (Inr (Some uid), s')
              | (None, s') \<Rightarrow> (Inl (), s'))
           else (Inl (), s)))"

definition user_owns_route :: "string option \<Rightarrow> session_route \<Rightarrow> bool" where
  "user_owns_route auth_user_id r = (case auth_user_id of Some uid \<Rightarrow> sr_user_id r = uid | None \<Rightarrow> True)"

definition proxy_session ::
  "account_env \<Rightarrow> proxy_env \<Rightarrow> bool \<Rightarrow> registry \<Rightarrow> http_request \<Rightarrow> server \<Rightarrow>
   (upstream_request option \<times> proxy_response) \<times> server" where
  "proxy_session env px has_db g rq s =
     (case authenticate_request env has_db (rq_headers rq) s of
        (Inl _, s1) \<Rightarrow> ((None, empty_response 401), s1)
      | (Inr uid, s1) \<Rightarrow>
          ((case parse_session_path (rq_path rq) of
              None \<Rightarrow> (None, not_found)
            | Some (token, None) \<Rightarrow> (None, redirect_to_trailing_slash token (rq_query rq))
            | Some (token, Some rest) \<Rightarrow>
                (case lookup_route g token of
                   None \<Rightarrow> (None, not_found)
                 | Some r \<Rightarrow>
                     if \<not> user_owns_route uid r then (None, not_found)
                     else if is_websocket_upgrade (rq_headers rq) then forward_websocket px rq r rest token
                     else forward_http px rq r rest token)), s1))"

fun after_first :: "string \<Rightarrow> string \<Rightarrow> string option" where
  "after_first p [] = (if p = [] then Some [] else None)"
| "after_first p (c # s) = (case strip_prefix p (c # s) of Some r \<Rightarrow> Some r | None \<Rightarrow> after_first p s)"

definition extract_token_from_referer :: "string \<Rightarrow> string option" where
  "extract_token_from_referer referer =
     (case after_first ''/s/'' referer of
        None \<Rightarrow> None
      | Some after_s \<Rightarrow> let token = hd (split_on (CHR ''/'') after_s) in if token = [] then None else Some token)"

definition port_cookie_of_part :: "string \<Rightarrow> string option" where
  "port_cookie_of_part part =
     (case split_once (CHR ''='') (trim part) of
        None \<Rightarrow> None
      | Some (name, v) \<Rightarrow> if trim name = ''takuto_dynamic_port'' \<and> trim v \<noteq> [] then Some (trim v) else None)"

definition extract_dynamic_port_cookie :: "headers \<Rightarrow> string option" where
  "extract_dynamic_port_cookie hs =
     (case header_str ''cookie'' hs of
        None \<Rightarrow> None
      | Some raw \<Rightarrow> (case List.map_filter port_cookie_of_part (split_on (CHR '';'') raw) of [] \<Rightarrow> None | c # _ \<Rightarrow> Some c))"

definition dynamic_port :: "registry \<Rightarrow> string \<Rightarrow> (string \<times> session_route) option" where
  "dynamic_port g token =
     (case lookup_route g token of
        None \<Rightarrow> None
      | Some r \<Rightarrow> if sr_kind r = DynamicPortRoute then Some (token, r) else None)"

definition find_dynamic_port_route :: "registry \<Rightarrow> headers \<Rightarrow> (string \<times> session_route) option" where
  "find_dynamic_port_route g hs =
     (case Option.bind (Option.bind (header_str ''referer'' hs) extract_token_from_referer) (dynamic_port g) of
        Some x \<Rightarrow> Some x
      | None \<Rightarrow> Option.bind (extract_dynamic_port_cookie hs) (dynamic_port g))"

definition ends_with :: "string \<Rightarrow> string \<Rightarrow> bool" where
  "ends_with suf v = suffix suf v"

definition served :: "string \<Rightarrow> bool \<Rightarrow> string \<Rightarrow> proxy_response" where
  "served mime no_store body = \<lparr>pr_status = 200,
     pr_headers = (''content-type'', mime) # (if no_store then [(''cache-control'', ''no-store, max-age=0'')] else []),
     pr_body = body\<rparr>"

definition serve_static :: "proxy_env \<Rightarrow> string \<Rightarrow> proxy_response" where
  "serve_static px uri_path =
     (let path0 = dropWhile (\<lambda>c. c = CHR ''/'') uri_path; path = (if path0 = [] then ''index.html'' else path0) in
      case px_assets px path of
        Some content \<Rightarrow> served (px_mime px path) (ends_with ''.html'' path \<or> ends_with ''.js'' path \<or> ends_with ''.css'' path) content
      | None \<Rightarrow>
          (case px_assets px ''index.html'' of
             Some index \<Rightarrow>
               if CHR ''.'' \<notin> set path \<or> ends_with ''.html'' path then served ''text/html'' True index
               else (empty_response 404)\<lparr>pr_body := ''Not Found''\<rparr>
           | None \<Rightarrow> (empty_response 404)\<lparr>pr_body := ''Not Found''\<rparr>))"

definition proxy_or_static_fallback ::
  "account_env \<Rightarrow> proxy_env \<Rightarrow> bool \<Rightarrow> registry \<Rightarrow> http_request \<Rightarrow> server \<Rightarrow>
   (upstream_request option \<times> proxy_response) \<times> server" where
  "proxy_or_static_fallback env px has_db g rq s =
     (if starts_with ''/api/'' (rq_path rq) then ((None, plain_text 404 []), s)
      else (case find_dynamic_port_route g (rq_headers rq) of
         None \<Rightarrow> ((None, serve_static px (rq_path rq)), s)
       | Some (token, r) \<Rightarrow>
           (case authenticate_request env has_db (rq_headers rq) s of (x, s1) \<Rightarrow>
              (if user_owns_route (case x of Inl _ \<Rightarrow> None | Inr uid \<Rightarrow> uid) r
               then forward_http px rq r (rq_path rq) token
               else (None, serve_static px (rq_path rq)), s1))))"


subsection \<open>The registry keeps its promises\<close>

text \<open>
  What the handlers rely on: a token that stands for a route keeps standing for it until it is removed, and
  only removals take tokens away. The contract of an operation on the registry.
\<close>

definition registry_ok :: "registry \<Rightarrow> bool" where
  "registry_ok g \<longleftrightarrow> distinct (List.map fst (rg_routes g))"

locale registry_operation =
  fixes run :: "registry \<Rightarrow> 'b \<times> registry"
    and takes :: "string \<Rightarrow> session_route \<Rightarrow> bool"
  assumes run_ok: "registry_ok g \<Longrightarrow> registry_ok (snd (run g))"
    and keeps: "registry_ok g \<Longrightarrow> lookup_route g t = Some r \<Longrightarrow> \<not> takes t r \<Longrightarrow> lookup_route (snd (run g)) t = Some r"
    and drops: "registry_ok g \<Longrightarrow> lookup_route g t = Some r \<Longrightarrow> takes t r \<Longrightarrow> lookup_route (snd (run g)) t = None"
begin

lemma served_before_and_after:
  assumes "registry_ok g" and "parse_session_path (rq_path rq) = Some (token, Some rest)"
    and "lookup_route g token = Some r" and "\<not> takes token r"
  shows "proxy_session env px has_db (snd (run g)) rq s = proxy_session env px has_db g rq s"
  using keeps [OF assms(1,3,4)] assms(2,3) unfolding proxy_session_def
  by (cases "authenticate_request env has_db (rq_headers rq) s") (simp split: sum.split)

lemma cut_off:
  assumes "registry_ok g" and "parse_session_path (rq_path rq) = Some (token, Some rest)"
    and "lookup_route g token = Some r" and "takes token r"
  shows "fst (fst (proxy_session env px has_db (snd (run g)) rq s)) = None"
  using drops [OF assms(1,3,4)] assms(2) unfolding proxy_session_def
  by (cases "authenticate_request env has_db (rq_headers rq) s") (simp split: sum.split)

end

lemma lookup_keep:
  "registry_ok g \<Longrightarrow> lookup_route (keep_routes P g) t = Some r \<longleftrightarrow> lookup_route g t = Some r \<and> P (t, r)"
  unfolding registry_ok_def lookup_route_def keep_routes_def
  by (auto simp: map_of_eq_Some_iff distinct_map_filter)

lemma register_with_token_lookup:
  "lookup_route (snd (register_with_token token r g)) t =
     (if t = token \<and> lookup_route g token = None then Some r else lookup_route g t)"
  by (simp add: register_with_token_def lookup_route_def)

lemma registry_ok_operations:
  assumes "registry_ok g"
  shows "registry_ok (snd (register_with_token token r g))" and "registry_ok (keep_routes P g)"
  using assms
  by (auto simp: registry_ok_def register_with_token_def lookup_route_def keep_routes_def map_of_eq_None_iff distinct_map_filter)

lemma register_tries_result:
  assumes "register_tries n draw r g = (x, g')"
  shows "case x of
      None \<Rightarrow> rg_routes g' = rg_routes g \<and> (\<forall>i < n. lookup_route g (draw (rg_draws g + i)) \<noteq> None)
    | Some token \<Rightarrow> lookup_route g token = None \<and> lookup_route g' = (lookup_route g)(token \<mapsto> r) \<and>
        (\<exists>i < n. token = draw (rg_draws g + i))"
  using assms
proof (induction n arbitrary: g)
  case 0
  then show ?case by simp
next
  case (Suc n)
  let ?token = "draw (rg_draws g)" and ?g = "g\<lparr>rg_draws := Suc (rg_draws g)\<rparr>"
  have same: "lookup_route ?g = lookup_route g" by (simp add: lookup_route_def fun_eq_iff)
  show ?case
  proof (cases "lookup_route g ?token")
    case None
    with Suc.prems have "x = Some ?token" "g' = ?g\<lparr>rg_routes := (?token, r) # rg_routes g\<rparr>"
      by (auto simp: register_with_token_def same Let_def)
    with None show ?thesis by (auto simp: lookup_route_def fun_eq_iff intro: exI [of _ 0])
  next
    case (Some r')
    with Suc.prems have "register_tries n draw r ?g = (x, g')" by (simp add: register_with_token_def same Let_def)
    from Suc.IH [OF this] Some show ?thesis
      unfolding same
      by (cases x) (simp_all add: All_less_Suc2 Ex_less_Suc2)
  qed
qed


lemma register_route_result:
  "register_route draw r g = (x, g') \<Longrightarrow>
   (case x of
      None \<Rightarrow> rg_routes g' = rg_routes g \<and> (\<forall>i < 8. lookup_route g (draw (rg_draws g + i)) \<noteq> None)
    | Some token \<Rightarrow> lookup_route g token = None \<and> lookup_route g' = (lookup_route g)(token \<mapsto> r) \<and>
        (\<exists>i < 8. token = draw (rg_draws g + i)))"
  unfolding register_route_def by (rule register_tries_result)

lemma register_tries_ok: "registry_ok g \<Longrightarrow> registry_ok (snd (register_tries n draw r g))"
proof (induction n arbitrary: g)
  case (Suc n)
  let ?g = "g\<lparr>rg_draws := Suc (rg_draws g)\<rparr>"
  have "registry_ok ?g" using Suc.prems by (simp add: registry_ok_def)
  with Suc.IH [of ?g] registry_ok_operations(1) [of ?g "draw (rg_draws g)" r] show ?case
    by (auto simp: Let_def register_with_token_def split: if_splits)
qed simp

interpretation put_token: registry_operation "register_with_token token r" "\<lambda>_ _. False" for token r
  by unfold_locales (auto simp: registry_ok_operations register_with_token_lookup)

interpretation new_token: registry_operation "register_route draw r" "\<lambda>_ _. False" for draw r
proof unfold_locales
  fix g t r'
  assume found: "lookup_route g t = Some r'"
  obtain x g' where x: "register_route draw r g = (x, g')" by (cases "register_route draw r g")
  show "lookup_route (snd (register_route draw r g)) t = Some r'"
    using register_route_result [OF x] found x by (cases x) (auto simp: lookup_route_def)
qed (simp_all add: register_route_def register_tries_ok)

interpretation one_token: registry_operation "remove_route token" "\<lambda>t _. t = token" for token
  by unfold_locales (auto simp: remove_route_def registry_ok_operations lookup_keep simp flip: not_Some_eq)

interpretation ticket_tokens: registry_operation "remove_for_ticket k" "\<lambda>_ r. sr_ticket_key r = k" for k
  by unfold_locales (auto simp: remove_for_ticket_def registry_ok_operations lookup_keep simp flip: not_Some_eq)

interpretation kind_tokens: registry_operation "remove_for_ticket_kind k kind"
  "\<lambda>_ r. sr_ticket_key r = k \<and> sr_kind r = kind" for k kind
  by unfold_locales
    (auto simp: remove_for_ticket_kind_def Let_def registry_ok_operations lookup_keep simp flip: not_Some_eq)


subsection \<open>Paths and headers\<close>

lemma split_at_char:
  "t = takeWhile (\<lambda>x. x \<noteq> c) a \<and> r = dropWhile (\<lambda>x. x \<noteq> c) a \<longleftrightarrow>
   a = t @ r \<and> (r = [] \<or> hd r = c) \<and> c \<notin> set t"
proof
  assume l: "t = takeWhile (\<lambda>x. x \<noteq> c) a \<and> r = dropWhile (\<lambda>x. x \<noteq> c) a"
  then show "a = t @ r \<and> (r = [] \<or> hd r = c) \<and> c \<notin> set t"
    using hd_dropWhile [of "\<lambda>x. x \<noteq> c" a] by (auto dest: set_takeWhileD)
next
  assume r: "a = t @ r \<and> (r = [] \<or> hd r = c) \<and> c \<notin> set t"
  then have "\<forall>x \<in> set t. x \<noteq> c" by auto
  with r have "takeWhile (\<lambda>x. x \<noteq> c) a = t \<and> dropWhile (\<lambda>x. x \<noteq> c) a = r"
    by (cases r) (auto simp: takeWhile_append2 dropWhile_append2 takeWhile_eq_all_conv)
  then show "t = takeWhile (\<lambda>x. x \<noteq> c) a \<and> r = dropWhile (\<lambda>x. x \<noteq> c) a" by simp
qed

lemma parse_session_path_Some:
  "parse_session_path path = Some (token, rest) \<longleftrightarrow>
     (\<exists>r. path = ''/s/'' @ token @ r \<and> token \<noteq> [] \<and> CHR ''/'' \<notin> set token \<and> (r = [] \<or> hd r = CHR ''/'') \<and>
       rest = (if r = [] then None else Some r))" (is "?l \<longleftrightarrow> ?r")
proof (cases "strip_prefix ''/s/'' path")
  case None
  then have "path \<noteq> ''/s/'' @ a" for a using strip_prefix_Some [of "''/s/''" path a] by auto
  with None show ?thesis unfolding parse_session_path_def by (simp only: option.case) blast
next
  case (Some a)
  then have path: "path = ''/s/'' @ a" by (simp only: strip_prefix_Some)
  have "?l \<longleftrightarrow> (\<exists>r. token = takeWhile (\<lambda>x. x \<noteq> CHR ''/'') a \<and> r = dropWhile (\<lambda>x. x \<noteq> CHR ''/'') a \<and>
      token \<noteq> [] \<and> rest = (if r = [] then None else Some r))"
    unfolding parse_session_path_def Some by (auto simp: Let_def)
  also have "\<dots> \<longleftrightarrow> (\<exists>r. a = token @ r \<and> (r = [] \<or> hd r = CHR ''/'') \<and> CHR ''/'' \<notin> set token \<and>
      token \<noteq> [] \<and> rest = (if r = [] then None else Some r))"
    using split_at_char [of token "CHR ''/''" a] by blast
  also have "\<dots> \<longleftrightarrow> ?r" unfolding path same_append_eq by blast
  finally show ?thesis .
qed

text \<open>
  The path of a proxied request is read as it is written: a token without slashes and the rest of the
  path, which is what goes to a terminal or a port; an editor gets the whole path again. A path that lacks the
  slash after its token is sent back to one that is read with the same token.
\<close>
lemma session_paths_round_trip:
  "(parse_session_path path = Some (token, Some rest) \<longleftrightarrow>
      token \<noteq> [] \<and> CHR ''/'' \<notin> set token \<and> rest \<noteq> [] \<and> hd rest = CHR ''/'' \<and>
      path = upstream_path_for_kind EditorRoute token rest) \<and>
   (parse_session_path path = Some (token, None) \<longleftrightarrow>
      path = ''/s/'' @ token \<and> parse_session_path (''/s/'' @ token @ ''/'') = Some (token, Some ''/''))"
  by (auto simp: parse_session_path_Some upstream_path_for_kind_def)


subsection \<open>Who reaches a backend\<close>

lemma authenticate_request_user:
  assumes "authenticate_request env True hs s = (Inr uid, s1)"
  shows "\<exists>i u. session_cookie_from_headers hs = Some (DB_SESSION_PREFIX @ i) \<and> uid = Some u \<and>
    validate_db_session env (DB_SESSION_PREFIX @ i) s = (Some u, s1)"
proof -
  obtain raw where raw: "session_cookie_from_headers hs = Some raw" "starts_with ''db-'' raw"
    using assms by (auto simp: authenticate_request_def split: option.splits if_splits)
  then obtain i where i: "raw = DB_SESSION_PREFIX @ i" by (auto simp: starts_with_def prefix_def DB_SESSION_PREFIX_def)
  obtain x s' where v: "validate_db_session env raw s = (x, s')" by (cases "validate_db_session env raw s")
  with raw assms have "x \<noteq> None \<and> uid = x \<and> s1 = s'" by (auto simp: authenticate_request_def split: option.splits)
  with raw i v show ?thesis by auto
qed

lemma map_of_set_header: "map_of (set_header n v hs) m = (if m = n then Some v else map_of hs m)"
  by (induction hs) (auto simp: set_header_def drop_header_def)

lemma upstream_of_uri:
  assumes "upstream_of px rq r rest token b = Some up"
  shows "up_uri up = ''http://'' @ authority_of px (sr_host_port r) @
      (let p = upstream_path_for_kind (sr_kind r) token rest in if p = [] then ''/'' else p) @
      (case rq_query rq of Some q \<Rightarrow> if q = [] then [] else ''?'' @ q | None \<Rightarrow> [])"
    and "map_of (up_headers up) ''host'' = Some (authority_of px (sr_host_port r))"
  using assms
  by (auto simp del: append_Cons simp: upstream_of_def build_upstream_uri_def sanitise_request_headers_def map_of_set_header Let_def
      split: if_splits)

lemma forwarded_uri:
  assumes "fst (forward_http px rq r rest token) = Some up \<or> fst (forward_websocket px rq r rest token) = Some up"
  obtains b where "upstream_of px rq r rest token b = Some up"
  using assms by (auto simp: forward_http_def forward_websocket_def split: option.splits)

text \<open>
  C10: with a database attached, a request under \<open>/s/\<close> reaches a backend only with a session that is in the
  table, has not expired and belongs to the user of the route its token stands for; and the backend it reaches
  is the port of that route, at the path after the token.
\<close>
theorem proxy_serves_owner_only:
  assumes "proxy_session env px True g rq s = ((Some up, resp), s')"
  shows "\<exists>i u row token rest r.
    session_cookie_from_headers (rq_headers rq) = Some (DB_SESSION_PREFIX @ i) \<and>
    session_with i (sv_tables s) = Some row \<and> se_user_id row = u \<and>
    \<not> past_absolute_ttl (ae_clock env (sv_ticks s)) row \<and> ae_text env (ae_clock env (sv_ticks s)) < se_expires_at row \<and>
    rq_path rq = ''/s/'' @ token @ rest \<and> CHR ''/'' \<notin> set token \<and>
    lookup_route g token = Some r \<and> sr_user_id r = u \<and>
    prefix (''http://'' @ authority_of px (sr_host_port r) @ upstream_path_for_kind (sr_kind r) token rest) (up_uri up)"
proof -
  obtain x s1 where auth: "authenticate_request env True (rq_headers rq) s = (x, s1)"
    by (cases "authenticate_request env True (rq_headers rq) s")
  with assms obtain uid where x: "x = Inr uid" by (cases x) (auto simp: proxy_session_def)
  obtain i u where session: "session_cookie_from_headers (rq_headers rq) = Some (DB_SESSION_PREFIX @ i)" "uid = Some u"
    "validate_db_session env (DB_SESSION_PREFIX @ i) s = (Some u, s1)"
    using authenticate_request_user [OF auth [unfolded x]] by blast
  obtain row where row: "session_with i (sv_tables s) = Some row" "se_user_id row = u"
    "\<not> past_absolute_ttl (ae_clock env (sv_ticks s)) row" "ae_text env (ae_clock env (sv_ticks s)) < se_expires_at row"
    using validate_Some [OF session(3)] by blast
  obtain token rest r where route: "parse_session_path (rq_path rq) = Some (token, Some rest)" "lookup_route g token = Some r"
    "user_owns_route uid r" and
    up: "fst (forward_http px rq r rest token) = Some up \<or> fst (forward_websocket px rq r rest token) = Some up"
    using assms by (auto simp: proxy_session_def auth x not_found_def split: option.splits if_splits)
  have path: "rq_path rq = ''/s/'' @ token @ rest" "CHR ''/'' \<notin> set token" "rest \<noteq> []"
    using route(1) by (auto simp: parse_session_path_Some split: if_splits)
  have "prefix (''http://'' @ authority_of px (sr_host_port r) @ upstream_path_for_kind (sr_kind r) token rest) (up_uri up)"
  proof -
    obtain b where "upstream_of px rq r rest token b = Some up" using up by (rule forwarded_uri)
    from upstream_of_uri(1) [OF this] show ?thesis using path(3) by (simp add: upstream_path_for_kind_def Let_def)
  qed
  moreover have "sr_user_id r = u" using route(3) session(2) by (simp add: user_owns_route_def)
  ultimately show ?thesis using session(1) row path route(2) by blast
qed


subsection \<open>A proxied port\<close>

definition sample_proxy :: proxy_env where
  "sample_proxy = \<lparr>px_docker_host = Some ''tcp://10.0.0.1:2375'', px_uri_ok = (\<lambda>_. True),
     px_backend = (\<lambda>_. Some \<lparr>pr_status = 200, pr_headers = [(''content-type'', ''text/html'')], pr_body = ''hello''\<rparr>),
     px_assets = (\<lambda>_. None), px_mime = (\<lambda>_. [])\<rparr>"

definition sample_registry :: registry where
  "sample_registry = \<lparr>rg_routes = [(''t0'', \<lparr>sr_kind = DynamicPortRoute, sr_host_port = 80, sr_ticket_key = ''T-1'', sr_user_id = ''1''\<rparr>),
     (''e0'', \<lparr>sr_kind = EditorRoute, sr_host_port = 81, sr_ticket_key = ''T-1'', sr_user_id = ''1''\<rparr>)], rg_draws = 0\<rparr>"

definition get_request :: "string \<Rightarrow> headers \<Rightarrow> http_request" where
  "get_request path hs = \<lparr>rq_method = GET, rq_path = path, rq_query = None, rq_headers = hs\<rparr>"

theorem proxy_serves_owner_only_witness:
  "let rq = get_request ''/s/e0/app'' (cookie_header ''db-s1'');
       x = proxy_session sample_accounts sample_proxy True sample_registry rq sample_server
   in map_option up_uri (fst (fst x)) = Some ''http://10.0.0.1:81/s/e0/app'' \<and>
      (\<exists>i u row token rest r. session_cookie_from_headers (rq_headers rq) = Some (DB_SESSION_PREFIX @ i) \<and>
        session_with i (sv_tables sample_server) = Some row \<and> se_user_id row = u \<and>
        rq_path rq = ''/s/'' @ token @ rest \<and> lookup_route sample_registry token = Some r \<and> sr_user_id r = u) \<and>
      fst (proxy_session sample_accounts sample_proxy True sample_registry
        (get_request ''/s/e0/app'' (cookie_header ''db-s2'')) sample_server) = (None, not_found)"
proof -
  let ?rq = "get_request ''/s/e0/app'' (cookie_header ''db-s1'')"
  let ?x = "proxy_session sample_accounts sample_proxy True sample_registry ?rq sample_server"
  have uri: "map_option up_uri (fst (fst ?x)) = Some ''http://10.0.0.1:81/s/e0/app''" by code_simp
  then obtain up where up: "fst (fst ?x) = Some up" by auto
  then have "?x = ((Some up, snd (fst ?x)), snd ?x)" by (metis prod.collapse)
  from proxy_serves_owner_only [OF this]
  have "\<exists>i u row token rest r. session_cookie_from_headers (rq_headers ?rq) = Some (DB_SESSION_PREFIX @ i) \<and>
        session_with i (sv_tables sample_server) = Some row \<and> se_user_id row = u \<and>
        rq_path ?rq = ''/s/'' @ token @ rest \<and> lookup_route sample_registry token = Some r \<and> sr_user_id r = u"
    by blast
  moreover have "fst (proxy_session sample_accounts sample_proxy True sample_registry
        (get_request ''/s/e0/app'' (cookie_header ''db-s2'')) sample_server) = (None, not_found)" by code_simp
  ultimately show ?thesis using uri by (simp add: Let_def)
qed


lemma fallback_without_session:
  "let rq = get_request ''/index.js'' [(''referer'', ''https://takuto.dev/s/t0/'')] in
   session_cookie_from_headers (rq_headers rq) = None \<and>
   fst (proxy_session sample_accounts sample_proxy True sample_registry (rq\<lparr>rq_path := ''/s/t0/index.js''\<rparr>) sample_server) =
     (None, empty_response 401) \<and>
   map_option up_uri (fst (fst (proxy_or_static_fallback sample_accounts sample_proxy True sample_registry rq sample_server))) =
     Some ''http://10.0.0.1:80/index.js''"
  by code_simp

text \<open>Of a header that occurs twice in the answer to an upgrade only the last is passed on.\<close>

lemma upgrade_answer_loses_headers:
  "pr_headers (snd (forward_websocket (sample_proxy\<lparr>px_backend := \<lambda>_. Some \<lparr>pr_status = 101,
       pr_headers = [(''set-cookie'', ''a=1''), (''set-cookie'', ''b=2'')], pr_body = []\<rparr>\<rparr>)
     (get_request ''/s/e0/'' []) \<lparr>sr_kind = EditorRoute, sr_host_port = 81, sr_ticket_key = ''T-1'', sr_user_id = ''1''\<rparr> ''/'' ''e0'')) =
   [(''set-cookie'', ''b=2'')]"
  by code_simp

end
