(* ===== verification/Item_Access.thy ===== *)
theory Item_Access
  imports Engine_Steps Auth_Routes
begin

text \<open>
  The routes of the dashboard that act on work items without touching containers
  (\<open>takuto-web/src/routes/workflows/\<close>): the access check of \<open>mod.rs\<close>, the routes of
  \<open>lifecycle.rs\<close> and \<open>definitions.rs\<close> that only call the engine, the readers of \<open>steps.rs\<close>,
  \<open>log.rs\<close> and \<open>picker.rs\<close>, the counts and the visible items of \<open>list.rs\<close>, the flags of \<open>dto.rs\<close>, and
  the manual start of \<open>manual.rs\<close>. The database handle of the routes is the engine's. A route is a state
  transition of the engine; \<open>Inl\<close> is an error response with its text.
\<close>

subsection \<open>Access\<close>

type_synonym refusal = "status \<times> string"

definition has_repo :: "repository_row list \<Rightarrow> string option \<Rightarrow> string \<Rightarrow> bool" where
  "has_repo repos repo_id workspace \<longleftrightarrow>
     (case repo_id of
        Some i \<Rightarrow> list_ex (\<lambda>r. rp_id r = i) repos
      | None \<Rightarrow> workspace \<noteq> [] \<and> list_ex (\<lambda>r. rp_name r = workspace) repos)"

definition repo_access ::
  "authenticated_user \<Rightarrow> string option \<Rightarrow> string \<Rightarrow> engine \<Rightarrow> (status + unit) \<times> engine" where
  "repo_access auth repo_id workspace e =
     (case next_io e of (ok, e1) \<Rightarrow>
        if \<not> ok then (Inl INTERNAL_SERVER_ERROR_500, e1)
        else (if has_repo (list_for_user (eng_repos e1) (au_user_id auth)) repo_id workspace
              then Inr () else Inl NOT_FOUND_404, e1))"

definition cached_access :: "authenticated_user \<Rightarrow> string \<Rightarrow> engine \<Rightarrow> (status + unit) \<times> engine" where
  "cached_access auth k e =
     (case wf_get e k of
        None \<Rightarrow> (Inl NOT_FOUND_404, e)
      | Some w \<Rightarrow>
          if wf_user_id w \<noteq> Some (au_user_id auth) then (Inl NOT_FOUND_404, e)
          else if eng_db e = None then (Inr (), e)
          else repo_access auth (wf_repository_id w) (wf_workspace_name w) e)"

definition require_workflow_access :: "authenticated_user \<Rightarrow> string \<Rightarrow> engine \<Rightarrow> (status + unit) \<times> engine" where
  "require_workflow_access auth k e =
     (if eng_db e = None then cached_access auth k e
      else (case db_read (\<lambda>db. Inr (get_access_fields_by_ticket_key db k)) e of
         (Inl _, e1) \<Rightarrow> (Inl INTERNAL_SERVER_ERROR_500, e1)
       | (Inr (Some (owner, repo_id, workspace)), e1) \<Rightarrow>
           if owner \<noteq> Some (au_user_id auth) then (Inl NOT_FOUND_404, e1)
           else repo_access auth repo_id workspace e1
       | (Inr None, e1) \<Rightarrow> cached_access auth k e1))"

definition act_on ::
  "authenticated_user \<Rightarrow> string \<Rightarrow> (engine \<Rightarrow> (refusal + 'a) \<times> engine) \<Rightarrow> engine \<Rightarrow> (refusal + 'a) \<times> engine" where
  "act_on auth k f e =
     (case require_workflow_access auth k e of
        (Inl st, e1) \<Rightarrow> (Inl (st, ''Workflow not found''), e1)
      | (Inr _, e1) \<Rightarrow> f e1)"

definition answer :: "status \<Rightarrow> (takuto_error + 'a) \<times> engine \<Rightarrow> (refusal + status) \<times> engine" where
  "answer st x = (case x of (Inl err, e) \<Rightarrow> (Inl (CONFLICT_409, error_text err), e) | (Inr _, e) \<Rightarrow> (Inr st, e))"

subsection \<open>Routes to the engine\<close>

definition pause_route :: "env \<Rightarrow> authenticated_user \<Rightarrow> string \<Rightarrow> engine \<Rightarrow> (refusal + status) \<times> engine" where
  "pause_route env auth k = act_on auth k (\<lambda>e. answer OK_200 (pause_workflow env k e))"

definition resume_route :: "env \<Rightarrow> authenticated_user \<Rightarrow> string \<Rightarrow> engine \<Rightarrow> (refusal + status) \<times> engine" where
  "resume_route env auth k = act_on auth k (\<lambda>e. answer OK_200 (resume_workflow env k e))"

definition run_workflow_def_route ::
  "env \<Rightarrow> authenticated_user \<Rightarrow> string \<Rightarrow> string \<Rightarrow> engine \<Rightarrow> (refusal + status) \<times> engine" where
  "run_workflow_def_route env auth k def_name =
     act_on auth k (\<lambda>e. answer ACCEPTED_202 (start_workflow_def env k def_name (Some (au_user_id auth)) e))"

definition retry_workflow_def_route ::
  "env \<Rightarrow> authenticated_user \<Rightarrow> string \<Rightarrow> string \<Rightarrow> engine \<Rightarrow> (refusal + status) \<times> engine" where
  "retry_workflow_def_route env auth k def_name =
     act_on auth k (\<lambda>e. answer ACCEPTED_202 (retry_workflow_def env k def_name (Some (au_user_id auth)) e))"

subsection \<open>Steps and log lines\<close>

text \<open>The rows are asked for by the key of the path.\<close>

definition read_rows :: "(database \<Rightarrow> db_error + 'r list) \<Rightarrow> engine \<Rightarrow> (status + 'r list) \<times> engine" where
  "read_rows q e =
     (if eng_db e = None then (Inr [], e)
      else (case db_read q e of (Inl _, e1) \<Rightarrow> (Inl INTERNAL_SERVER_ERROR_500, e1) | (Inr rows, e1) \<Rightarrow> (Inr rows, e1)))"

definition get_steps ::
  "authenticated_user \<Rightarrow> string \<Rightarrow> engine \<Rightarrow> (status + db_step_status step_row list) \<times> engine" where
  "get_steps auth k e =
     (case require_workflow_access auth k e of
        (Inl st, e1) \<Rightarrow> (Inl st, e1)
      | (Inr _, e1) \<Rightarrow> read_rows (\<lambda>db. list_steps db k) e1)"

definition MAX_LIMIT :: u32 where "MAX_LIMIT = 5000"
definition DEFAULT_LIMIT :: u32 where "DEFAULT_LIMIT = 500"

record log_query =
  lq_step_id :: "int option"
  lq_limit :: "u32 option"
  lq_offset :: "u32 option"

definition log_paging_of :: "log_query \<Rightarrow> log_paging" where
  "log_paging_of q = \<lparr>lp_step_id = lq_step_id q,
     lp_limit = min (case lq_limit q of Some n \<Rightarrow> n | None \<Rightarrow> DEFAULT_LIMIT) MAX_LIMIT,
     lp_offset = (case lq_offset q of Some n \<Rightarrow> n | None \<Rightarrow> 0)\<rparr>"

definition get_log ::
  "authenticated_user \<Rightarrow> string \<Rightarrow> log_query \<Rightarrow> engine \<Rightarrow> (status + log_stream log_line list) \<times> engine" where
  "get_log auth k q e =
     (case require_workflow_access auth k e of
        (Inl st, e1) \<Rightarrow> (Inl st, e1)
      | (Inr _, e1) \<Rightarrow> read_rows (\<lambda>db. fetch_log_lines db k (log_paging_of q)) e1)"

subsection \<open>What the dashboard shows\<close>

definition grants_visibility :: "repository_row list \<Rightarrow> workflow \<Rightarrow> bool" where
  "grants_visibility repos w \<longleftrightarrow>
     (case wf_repository_id w of Some i \<Rightarrow> list_ex (\<lambda>r. rp_id r = i) repos | None \<Rightarrow> False) \<or>
     wf_workspace_name w \<noteq> [] \<and> list_ex (\<lambda>r. rp_name r = wf_workspace_name w) repos"

text \<open>When the repositories cannot be read, no item is shown.\<close>

definition allowed_repos :: "authenticated_user \<Rightarrow> engine \<Rightarrow> repository_row list \<times> engine" where
  "allowed_repos auth e =
     (if eng_db e = None then ([], e)
      else (case next_io e of (ok, e1) \<Rightarrow> (if ok then list_for_user (eng_repos e1) (au_user_id auth) else [], e1)))"

definition visible_workflows :: "env \<Rightarrow> authenticated_user \<Rightarrow> repository_row list \<Rightarrow> engine \<Rightarrow> workflow list" where
  "visible_workflows env auth repos e =
     filter (\<lambda>w. eng_db e = None \<or> grants_visibility repos w)
       (filter (\<lambda>w. wf_user_id w = Some (au_user_id auth)) (hash_values env e))"

record workflow_counts_response =
  ct_running :: u32
  ct_completed :: u32
  ct_errors :: u32
  ct_paused :: u32
  ct_pending :: u32

definition tally :: "workflow \<Rightarrow> workflow_counts_response \<Rightarrow> workflow_counts_response" where
  "tally w c =
     (case wf_state w of
        Done \<Rightarrow> c\<lparr>ct_completed := ct_completed c + 1\<rparr>
      | Error _ _ \<Rightarrow> c\<lparr>ct_errors := ct_errors c + 1\<rparr>
      | Stopped \<Rightarrow> c\<lparr>ct_errors := ct_errors c + 1\<rparr>
      | Paused _ \<Rightarrow> c\<lparr>ct_paused := ct_paused c + 1\<rparr>
      | Pending \<Rightarrow> c\<lparr>ct_pending := ct_pending c + 1\<rparr>
      | _ \<Rightarrow> c\<lparr>ct_running := ct_running c + 1\<rparr>)"

definition workflow_counts :: "env \<Rightarrow> authenticated_user \<Rightarrow> engine \<Rightarrow> workflow_counts_response \<times> engine" where
  "workflow_counts env auth e =
     (case allowed_repos auth e of (repos, e1) \<Rightarrow>
        (fold tally (visible_workflows env auth repos e1)
           \<lparr>ct_running = 0, ct_completed = 0, ct_errors = 0, ct_paused = 0, ct_pending = 0\<rparr>, e1))"

text \<open>The flags of a card.\<close>

definition has_worktree_dir :: "env \<Rightarrow> workflow \<Rightarrow> bool" where
  "has_worktree_dir env w = (case wf_worktree_path w of Some p \<Rightarrow> env_path_exists env p | None \<Rightarrow> False)"

definition workflow_action_flags :: "env \<Rightarrow> workflow \<Rightarrow> bool \<times> bool \<times> bool" where
  "workflow_action_flags env w =
     (let fin = (wf_state w = Done); has_pr = (case wf_pr_url w of Some u \<Rightarrow> trim u \<noteq> [] | None \<Rightarrow> False)
      in (fin \<and> has_pr, fin \<and> has_pr \<and> has_worktree_dir env w, fin))"

definition manual_cap_fields :: "workflow \<Rightarrow> bool \<times> bool" where
  "manual_cap_fields w = (wf_started_manually w, wf_started_manually w \<and> occupies_concurrency_slot (wf_state w))"

definition editor_worktree_available :: "env \<Rightarrow> workflow \<Rightarrow> bool" where
  "editor_worktree_available env w \<longleftrightarrow>
     has_worktree_dir env w \<or> is_terminal (wf_state w) \<and> wf_branch_name w \<noteq> []"

definition can_start_workflow :: "workflow \<Rightarrow> bool" where
  "can_start_workflow w \<longleftrightarrow> wf_state w = Pending \<and> \<not> wf_driver_started w"

definition can_delete :: "workflow \<Rightarrow> bool" where
  "can_delete w \<longleftrightarrow> \<not> is_active (wf_state w) \<or> can_start_workflow w"

definition can_resume_from_error :: "env \<Rightarrow> workflow \<Rightarrow> bool" where
  "can_resume_from_error env w \<longleftrightarrow> (is_error (wf_state w) \<or> wf_state w = Stopped) \<and> has_worktree_dir env w"

definition prep_state :: "workflow \<Rightarrow> bool \<Rightarrow> string option" where
  "prep_state w repo_available =
     (if wf_state w \<in> {Assigning, RetrievingDetails, CreatingWorktree} then Some ''preparing''
      else if \<not> can_start_workflow w then None
      else Some (if wf_worktree_preparing w then ''preparing''
        else if \<not> repo_available then ''repo_not_ready'' else ''ready''))"

definition extract_error :: "workflow_state \<Rightarrow> string option" where
  "extract_error st = (case st of Error _ m \<Rightarrow> Some m | _ \<Rightarrow> None)"

subsection \<open>The picker\<close>

record candidate_annotation =
  an_already_added :: bool
  an_existing_pr_url :: "string option"

text \<open>The live cards of the user, then the history in the table for those without a pull request.\<close>

definition live_annotation :: "env \<Rightarrow> string \<Rightarrow> string option \<Rightarrow> engine \<Rightarrow> string \<Rightarrow> candidate_annotation" where
  "live_annotation env user workspace e key =
     (let ws = filter (\<lambda>w. wf_user_id w = Some user \<and>
            (case workspace of Some n \<Rightarrow> wf_workspace_name w = n | None \<Rightarrow> True) \<and> wf_ticket_key w = key) (hash_values env e)
      in \<lparr>an_already_added = (ws \<noteq> []),
          an_existing_pr_url = (case List.map_filter wf_pr_url ws of [] \<Rightarrow> None | u # _ \<Rightarrow> Some u)\<rparr>)"

fun annotate_history ::
  "string \<Rightarrow> (string \<times> candidate_annotation) list \<Rightarrow> engine \<Rightarrow> (string \<times> candidate_annotation) list \<times> engine" where
  "annotate_history ws [] e = ([], e)"
| "annotate_history ws ((key, a) # rest) e =
     (case (if an_existing_pr_url a \<noteq> None then (a, e)
            else (case db_read (\<lambda>db. Inr (latest_pr_url_for_ticket db ws key)) e of
               (Inr (Some u), e1) \<Rightarrow> (a\<lparr>an_existing_pr_url := Some u\<rparr>, e1)
             | (_, e1) \<Rightarrow> (a, e1))) of (a', e1) \<Rightarrow>
        (case annotate_history ws rest e1 of (as, e2) \<Rightarrow> ((key, a') # as, e2)))"

definition annotate_candidates ::
  "env \<Rightarrow> string \<Rightarrow> string option \<Rightarrow> string list \<Rightarrow> engine \<Rightarrow> (string \<times> candidate_annotation) list \<times> engine" where
  "annotate_candidates env user workspace keys e =
     (let live = List.map (\<lambda>k. (k, live_annotation env user workspace e k)) (env_hash_order env (remdups keys))
      in case (eng_db e, workspace) of
           (Some _, Some ws) \<Rightarrow> annotate_history ws live e
         | _ \<Rightarrow> (live, e))"

subsection \<open>The manual start\<close>

record manual_config =
  mc_jira_available :: bool
  mc_max_manual :: u32
  mc_max_parallel_per_user :: bool

record manual_body =
  mb_ticket_key :: string
  mb_ticket_summary :: string
  mb_ticket_description :: "string option"
  mb_issue_url :: "string option"
  mb_repository_id :: "string option"

definition trimmed :: "string option \<Rightarrow> string option" where
  "trimmed s = (case s of None \<Rightarrow> None | Some v \<Rightarrow> if trim v = [] then None else Some (trim v))"

definition manual_key :: "env \<Rightarrow> manual_config \<Rightarrow> manual_body \<Rightarrow> engine \<Rightarrow> (refusal + string) \<times> engine" where
  "manual_key env mc body e =
     (if trim (mb_ticket_key body) \<noteq> [] then (Inr (trim (mb_ticket_key body)), e)
      else if mc_jira_available mc then (Inl (BAD_REQUEST_400, ''ticket_key is required''), e)
      else (case tick env e of (now, e1) \<Rightarrow> (Inr (''MANUAL-'' @ show_int (now div 1000000)), e1)))"

definition manual_summary :: "manual_config \<Rightarrow> manual_body \<Rightarrow> string \<Rightarrow> string" where
  "manual_summary mc body key =
     (if trim (mb_ticket_summary body) \<noteq> [] then trim (mb_ticket_summary body)
      else if mc_jira_available mc then key else ''Manual item'')"

definition replaceable :: "workflow \<Rightarrow> bool" where
  "replaceable w \<longleftrightarrow> wf_state w = Done \<or> wf_user_id w = None"

definition manual_in_use :: "string \<Rightarrow> engine \<Rightarrow> nat" where
  "manual_in_use user e =
     length (filter (\<lambda>w. wf_started_manually w \<and> occupies_concurrency_slot (wf_state w))
       (filter (\<lambda>w. wf_user_id w = Some user) (workflow_values e)))"

definition not_on_board :: "string \<Rightarrow> engine \<Rightarrow> refusal + unit" where
  "not_on_board key e =
     (case wf_get e key of
        Some w \<Rightarrow> if replaceable w then Inr () else Inl (CONFLICT_409, key @ '' is already on your board'')
      | None \<Rightarrow> Inr ())"

definition manual_cap :: "manual_config \<Rightarrow> string \<Rightarrow> engine \<Rightarrow> refusal + unit" where
  "manual_cap mc user e =
     (if mc_max_manual mc > 0 \<and> manual_in_use user e \<ge> unat (mc_max_manual mc)
      then Inl (CONFLICT_409, ''Maximum concurrent manual items ('' @ show_nat (unat (mc_max_manual mc)) @
        '') reached; complete, stop, or delete a manual item first'')
      else Inr ())"

text \<open>\<open>max_by_key\<close>: of several, the last.\<close>

definition newest_repo :: "repository_row list \<Rightarrow> repository_row option" where
  "newest_repo rs = foldl (\<lambda>best r. case best of
       Some b \<Rightarrow> if rp_created_at b \<le> rp_created_at r then Some r else Some b
     | None \<Rightarrow> Some r) None rs"

definition choose_repo :: "string option \<Rightarrow> repository_row list \<Rightarrow> refusal + repository_row" where
  "choose_repo requested repos =
     (if repos = [] then Inl (BAD_REQUEST_400, ''Add a repository before starting an item.'')
      else (case trimmed requested of
         Some i \<Rightarrow> (case List.find (\<lambda>r. rp_id r = i) repos of
             Some r \<Rightarrow> Inr r
           | None \<Rightarrow> Inl (FORBIDDEN_403, ''You do not have access to that repository''))
       | None \<Rightarrow> (case newest_repo repos of
             Some r \<Rightarrow> Inr r
           | None \<Rightarrow> Inl (INTERNAL_SERVER_ERROR_500, ''no repository available after non-empty check''))))"

definition repo_guards ::
  "env \<Rightarrow> manual_config \<Rightarrow> string \<Rightarrow> polling_settings \<Rightarrow> engine \<Rightarrow> refusal + unit" where
  "repo_guards env mc user st e =
     (if env_ticketing_system env = Jira \<and> ps_project_keys st = []
      then Inl (BAD_REQUEST_400, ''No Jira project keys configured for this repository'')
      else if ps_max_parallel_items st > 0 \<and>
        count_occupying_slot_for_user e (if mc_max_parallel_per_user mc then Some user else None)
          \<ge> unat (ps_max_parallel_items st)
      then Inl (CONFLICT_409, ''Maximum parallel items ('' @ show_nat (unat (ps_max_parallel_items st)) @
        '') reached for this repository; complete, stop, or delete an item first'')
      else Inr ())"

definition manual_repository ::
  "env \<Rightarrow> manual_config \<Rightarrow> string \<Rightarrow> string option \<Rightarrow> engine \<Rightarrow> (refusal + string option) \<times> engine" where
  "manual_repository env mc user requested e =
     (if eng_db e = None then (Inr None, e)
      else (case next_io e of (ok, e1) \<Rightarrow>
        if \<not> ok then (Inl (INTERNAL_SERVER_ERROR_500, env_db_message env SqlError), e1)
        else (case choose_repo requested (list_for_user (eng_repos e1) user) of
           Inl x \<Rightarrow> (Inl x, e1)
         | Inr repo \<Rightarrow>
             (case next_io e1 of (ok', e2) \<Rightarrow>
               (case polling_get ok' (env_decode_polling env) (eng_polling e2) user (rp_name repo) of
                  Inl err \<Rightarrow> (Inl (INTERNAL_SERVER_ERROR_500, env_db_message env err), e2)
                | Inr st \<Rightarrow>
                    (case repo_guards env mc user (case st of Some x \<Rightarrow> x | None \<Rightarrow> default_polling_settings) e2 of
                       Inl x \<Rightarrow> (Inl x, e2)
                     | Inr _ \<Rightarrow> (Inr (Some (rp_id repo)), e2)))))))"

text \<open>The answer is the id of the new item and its key.\<close>

definition start_manual_workflow ::
  "env \<Rightarrow> manual_config \<Rightarrow> string \<Rightarrow> authenticated_user \<Rightarrow> manual_body \<Rightarrow> engine \<Rightarrow>
   (refusal + string \<times> string) \<times> engine" where
  "start_manual_workflow env mc uuid auth body e =
     (case manual_key env mc body e of
        (Inl x, e1) \<Rightarrow> (Inl x, e1)
      | (Inr key, e1) \<Rightarrow>
          (case (not_on_board key e1, manual_cap mc (au_user_id auth) e1) of
             (Inl x, _) \<Rightarrow> (Inl x, e1)
           | (Inr _, Inl x) \<Rightarrow> (Inl x, e1)
           | (Inr _, Inr _) \<Rightarrow>
               (case manual_repository env mc (au_user_id auth) (mb_repository_id body) e1 of
                  (Inl x, e2) \<Rightarrow> (Inl x, e2)
                | (Inr repo, e2) \<Rightarrow>
                    (case add_to_dashboard env uuid key (manual_summary mc body key) True
                        (trimmed (mb_ticket_description body)) (trimmed (mb_issue_url body)) (Some (au_user_id auth)) repo e2 of
                       (Inl err, e3) \<Rightarrow> (Inl (INTERNAL_SERVER_ERROR_500, error_text err), e3)
                     | (Inr i, e3) \<Rightarrow> (Inr (i, key), e3)))))"

end
