(* ===== verification/Item_Access_Props.thy ===== *)
theory Item_Access_Props
  imports Item_Access Pollers
begin

text \<open>
  What the access check promises and every route behind it inherits, what a manual start leaves behind,
  and how the flags of a card agree with the engine.
\<close>

subsection \<open>Only reads\<close>

text \<open>A transition that has only asked the database: the outcomes asked for are used up.\<close>

definition only_read :: "engine \<Rightarrow> engine \<Rightarrow> bool" where
  "only_read e e' \<longleftrightarrow> (\<exists>n. e' = e\<lparr>eng_io := drop n (eng_io e)\<rparr>)"

lemma only_read_refl [simp, intro]: "only_read e e"
  unfolding only_read_def by (intro exI [of _ 0]) simp

lemma only_read_trans: "only_read e e' \<Longrightarrow> only_read e' e'' \<Longrightarrow> only_read e e''"
  unfolding only_read_def by (auto simp: drop_drop)

lemma only_readD:
  assumes "only_read e e'"
  shows "wf_get e' k = wf_get e k" "eng_workflows e' = eng_workflows e" "eng_db e' = eng_db e" "eng_repos e' = eng_repos e"
    "eng_polling e' = eng_polling e" "eng_cancelled e' = eng_cancelled e" "eng_drivers e' = eng_drivers e"
    "eng_next_token e' = eng_next_token e" "eng_ticks e' = eng_ticks e"
  using assms unfolding only_read_def by (auto simp: wf_get_def)

lemma next_io_read: "next_io e = (ok, e') \<Longrightarrow> only_read e e'"
  unfolding next_io_def only_read_def
  by (auto split: list.splits intro: exI [of _ 0] exI [of _ 1])

lemma db_read_read:
  assumes "db_read q e = (r, e')"
  shows "only_read e e'" and "r = Inl SqlError \<or> (\<exists>db. eng_db e = Some db \<and> r = q db)"
proof -
  obtain ok e1 where io: "next_io e = (ok, e1)" by (cases "next_io e")
  note read = next_io_read [OF io]
  have "e' = e1 \<and> (r = Inl SqlError \<or> (\<exists>db. eng_db e = Some db \<and> r = q db))"
    using assms only_readD(3) [OF read]
    by (auto simp: db_read_def db_exec_def io split: option.splits if_splits)
  with read show "only_read e e'" and "r = Inl SqlError \<or> (\<exists>db. eng_db e = Some db \<and> r = q db)" by auto
qed

lemma only_read_ok: "only_read e e' \<Longrightarrow> engine_ok e \<Longrightarrow> engine_ok e'"
  by (simp add: engine_ok_same_core [of e e'] same_core_def only_readD)

subsection \<open>Who may act\<close>

text \<open>
  The owner of the newest live row of the ticket, or of its item when there is no row, with the repository
  added.
\<close>

definition entitled :: "authenticated_user \<Rightarrow> string \<Rightarrow> engine \<Rightarrow> bool" where
  "entitled auth k e \<longleftrightarrow>
     (case Option.bind (eng_db e) (\<lambda>db. get_access_fields_by_ticket_key db k) of
        Some (owner, repo, ws) \<Rightarrow>
          owner = Some (au_user_id auth) \<and> has_repo (list_for_user (eng_repos e) (au_user_id auth)) repo ws
      | None \<Rightarrow>
          (\<exists>w. wf_get e k = Some w \<and> wf_user_id w = Some (au_user_id auth) \<and>
            (eng_db e \<noteq> None \<longrightarrow>
              has_repo (list_for_user (eng_repos e) (au_user_id auth)) (wf_repository_id w) (wf_workspace_name w))))"

lemma entitled_read:
  assumes "only_read e e'" shows "entitled auth k e' = entitled auth k e"
  unfolding entitled_def only_readD [OF assms] ..

lemma repo_access_spec:
  assumes "repo_access auth repo ws e = (x, e')"
  shows "only_read e e'" and "x = Inr () \<Longrightarrow> has_repo (list_for_user (eng_repos e) (au_user_id auth)) repo ws"
  using assms next_io_read [of e] only_readD(4) [OF next_io_read [of e]]
  by (auto simp: repo_access_def split: prod.splits if_splits)

lemma cached_access_spec:
  assumes "cached_access auth k e = (x, e')"
  shows "only_read e e'"
    and "x = Inr () \<Longrightarrow> \<exists>w. wf_get e k = Some w \<and> wf_user_id w = Some (au_user_id auth) \<and>
      (eng_db e \<noteq> None \<longrightarrow>
        has_repo (list_for_user (eng_repos e) (au_user_id auth)) (wf_repository_id w) (wf_workspace_name w))"
  using assms repo_access_spec [of auth _ _ e]
  by (auto simp: cached_access_def split: option.splits if_splits)

lemma access_decides:
  assumes "require_workflow_access auth k e = (x, e')"
  shows "only_read e e'" and "x = Inr () \<Longrightarrow> entitled auth k e"
proof -
  have "only_read e e' \<and> (x = Inr () \<longrightarrow> entitled auth k e)"
  proof (cases "eng_db e")
    case None
    then show ?thesis
      using assms cached_access_spec [of auth k e]
      by (auto simp: require_workflow_access_def entitled_def)
  next
    case (Some db)
    obtain r e1 where r: "db_read (\<lambda>db. Inr (get_access_fields_by_ticket_key db k)) e = (r, e1)"
      by (cases "db_read (\<lambda>db. Inr (get_access_fields_by_ticket_key db k)) e")
    note read = db_read_read [OF r]
    show ?thesis
    proof (cases r)
      case (Inl err)
      then show ?thesis using assms read(1) Some r by (auto simp: require_workflow_access_def)
    next
      case (Inr found)
      then have found: "found = get_access_fields_by_ticket_key db k" using read(2) Some by auto
      show ?thesis
      proof (cases found)
        case None
        then have "cached_access auth k e1 = (x, e')" using assms Some r Inr by (simp add: require_workflow_access_def)
        note spec = cached_access_spec [OF this]
        show ?thesis
          using only_read_trans [OF read(1) spec(1)] spec(2) only_readD [OF read(1)] Some found None
          by (auto simp: entitled_def)
      next
        case (Some f)
        obtain owner repo ws where f: "f = (owner, repo, ws)" by (cases f)
        show ?thesis
        proof (cases "owner = Some (au_user_id auth)")
          case False
          then show ?thesis using assms \<open>eng_db e = Some db\<close> r Inr Some f read(1) by (auto simp: require_workflow_access_def)
        next
          case True
          then have "repo_access auth repo ws e1 = (x, e')"
            using assms \<open>eng_db e = Some db\<close> r Inr Some f by (simp add: require_workflow_access_def)
          note spec = repo_access_spec [OF this]
          have "get_access_fields_by_ticket_key db k = Some (Some (au_user_id auth), repo, ws)"
            using found Some f True by simp
          then show ?thesis
            using only_read_trans [OF read(1) spec(1)] spec(2) \<open>eng_db e = Some db\<close>
            by (auto simp: entitled_def only_readD [OF read(1)])
        qed
      qed
    qed
  qed
  then show "only_read e e'" and "x = Inr () \<Longrightarrow> entitled auth k e" by auto
qed

subsection \<open>The contract of a guarded route\<close>

locale guarded_route =
  fixes route :: "authenticated_user \<Rightarrow> string \<Rightarrow> engine \<Rightarrow> (refusal + 'a) \<times> engine"
  assumes guarded: "require_workflow_access auth k e = (Inl st, e1) \<Longrightarrow> \<exists>m. route auth k e = (Inl (st, m), e1)"
begin

lemma stranger:
  assumes "\<not> entitled auth k e"
  shows "\<exists>st m e'. route auth k e = (Inl (st, m), e') \<and> only_read e e'"
proof -
  obtain x e1 where x: "require_workflow_access auth k e = (x, e1)" by (cases "require_workflow_access auth k e")
  with assms access_decides(2) [OF x] obtain st where "x = Inl st" by (cases x) auto
  with guarded x access_decides(1) [OF x] show ?thesis by blast
qed

end

lemma act_on_guarded: "require_workflow_access auth k e = (Inl st, e1) \<Longrightarrow> \<exists>m. act_on auth k f e = (Inl (st, m), e1)"
  by (simp add: act_on_def)

interpretation pause: guarded_route "pause_route env" for env
  by unfold_locales (simp add: pause_route_def act_on_guarded)

interpretation resume: guarded_route "resume_route env" for env
  by unfold_locales (simp add: resume_route_def act_on_guarded)

interpretation run_def: guarded_route "\<lambda>auth k. run_workflow_def_route env auth k d" for env d
  by unfold_locales (simp add: run_workflow_def_route_def act_on_guarded)

interpretation retry_def: guarded_route "\<lambda>auth k. retry_workflow_def_route env auth k d" for env d
  by unfold_locales (simp add: retry_workflow_def_route_def act_on_guarded)


subsection \<open>Steps and log lines are looked for under the key\<close>

lemma read_rows_cases:
  assumes "read_rows q e = (Inr rows, e')"
  shows "rows = [] \<or> (\<exists>db. eng_db e = Some db \<and> q db = Inr rows)"
proof (cases "eng_db e")
  case (Some db)
  obtain r e1 where r: "db_read q e = (r, e1)" by (cases "db_read q e")
  with assms Some have "r = Inr rows" by (auto simp: read_rows_def split: sum.splits)
  with db_read_read(2) [OF r] show ?thesis by auto
qed (use assms in \<open>simp add: read_rows_def\<close>)

lemma rows_of_no_item:
  assumes "db_ok db" and "k \<notin> item_ids db"
  shows "list_steps db k = Inr []" and "fetch_log_lines db k paging = Inr []"
proof -
  have "st_work_item_id ` set (db_steps db) \<subseteq> item_ids db" "ll_work_item_id ` set (db_logs db) \<subseteq> item_ids db"
    using assms(1) by (auto simp: db_ok_def steps_ok_def logs_ok_def)
  then have "filter (\<lambda>s. st_work_item_id s = k) (db_steps db) = []" "filter (\<lambda>l. ll_work_item_id l = k) (db_logs db) = []"
    using assms(2) by (auto simp: filter_empty_conv)
  then have "filter (\<lambda>s. st_work_item_id s = k) (db_steps db) = []"
    "filter (\<lambda>l. ll_work_item_id l = k \<and> P l) (db_logs db) = []" for P
    by (auto simp: filter_empty_conv)
  then show "list_steps db k = Inr []" and "fetch_log_lines db k paging = Inr []"
    by (simp_all add: list_steps_def fetch_log_lines_def page_def)
qed

subsection \<open>The manual start\<close>

lemma new_item_fields:
  assumes "new_item env uuid k s m desc url u r e = (w, e')"
  shows "wf_started_manually w = m" "wf_repository_id w = r" "wf_driver_started w = False"
  using assms by (auto simp: new_item_def workflow_new_def Let_def split: prod.splits option.splits)

lemma choose_branch_fields:
  assumes "choose_branch env k w e = (w', e')"
  shows "wf_started_manually w' = wf_started_manually w" "wf_repository_id w' = wf_repository_id w"
    "wf_driver_started w' = wf_driver_started w" "wf_id w' = wf_id w" "wf_user_id w' = wf_user_id w" "wf_state w' = wf_state w"
    "eng_workflows e' = eng_workflows e"
  using assms only_readD(2) [OF db_read_read(1)]
  by (auto simp: choose_branch_def split: option.splits prod.splits sum.splits)

lemma wf_get_frame:
  "wf_get (wf_put k w e) k' = (if k' = k then Some w else wf_get e k')"
  "wf_get (emit x e) k' = wf_get e k'" "wf_get (send ev e) k' = wf_get e k'" "wf_get (e\<lparr>eng_ticks := n\<rparr>) k' = wf_get e k'"
  "wf_get (modify_workflow k f e) k' = (if k' = k then map_option f (wf_get e k) else wf_get e k')"
  by (auto simp: wf_get_def wf_put_def emit_def send_def modify_workflow_def split: option.splits)

lemma add_to_dashboard_effect:
  assumes "add_to_dashboard env uuid k s m desc url u r e = (res, e')"
  shows "case res of
      Inl _ \<Rightarrow> eng_workflows e' = eng_workflows e
    | Inr i \<Rightarrow> i = uuid \<and> (\<forall>k'. k' \<noteq> k \<longrightarrow> wf_get e' k' = wf_get e k') \<and>
        (\<exists>w. wf_get e' k = Some w \<and> wf_id w = uuid \<and> wf_state w = Pending \<and> wf_user_id w = u \<and>
           wf_started_manually w = m \<and> wf_repository_id w = r \<and> \<not> wf_driver_started w)"
proof -
  obtain w0 e1 where new: "new_item env uuid k s m desc url u r e = (w0, e1)" by fastforce
  note spec = new_item_spec [OF new] and fields = new_item_fields [OF new]
  obtain w e2 where named: "choose_branch env k w0 e1 = (w, e2)" by fastforce
  note branch = choose_branch_fields [OF named]
  obtain x e3 where p: "persist_new_work_item env w e2 = (x, e3)" by fastforce
  have map3: "eng_workflows e3 = eng_workflows e"
    using spec(8) branch(7) persist_new_frame(1) [OF p] by (simp add: same_core_def)
  then have get3: "wf_get e3 k' = wf_get e k'" for k' by (simp add: wf_get_def)
  show ?thesis
  proof (cases x)
    case (Inl err)
    then show ?thesis using assms map3 by (auto simp: add_to_dashboard_def new named p)
  next
    case (Inr y)
    have repo: "wf_get (snd (resolve_repo_for_ticket env k e4)) k' = wf_get e4 k'" for e4 k'
      using same_core_wf [OF resolve_repo_core] .
    show ?thesis
      using assms Inr get3 spec(2-4) fields branch
      by (auto simp: add_to_dashboard_def new named p Let_def wf_get_frame tick_def case_prod_beta repo split: if_splits)
  qed
qed

lemma newest_repo_mem: "rs \<noteq> [] \<Longrightarrow> \<exists>r \<in> set rs. newest_repo rs = Some r"
proof (induction rs rule: rev_induct)
  case (snoc r rs)
  then show ?case by (cases rs rule: rev_cases) (auto simp: newest_repo_def split: option.splits)
qed simp

lemma choose_repo_mem: "choose_repo requested repos = Inr r \<Longrightarrow> r \<in> set repos"
  using newest_repo_mem [of repos] find_SomeD [of "\<lambda>r. rp_id r = _" repos r]
  by (auto simp: choose_repo_def split: option.splits if_splits)

lemma manual_repository_spec:
  assumes "manual_repository env mc user requested e = (x, e')"
  shows "only_read e e'"
    and "x = Inr repo \<Longrightarrow> eng_db e \<noteq> None \<Longrightarrow>
      \<exists>r \<in> set (list_for_user (eng_repos e) user). repo = Some (rp_id r)"
proof -
  obtain ok e1 where io: "next_io e = (ok, e1)" by (cases "next_io e")
  obtain ok' e2 where io': "next_io e1 = (ok', e2)" by (cases "next_io e1")
  note r1 = next_io_read [OF io] and r2 = only_read_trans [OF next_io_read [OF io] next_io_read [OF io']]
  show "only_read e e'"
    using assms r1 r2 by (auto simp: manual_repository_def io io' split: if_splits sum.splits)
  show "\<exists>r \<in> set (list_for_user (eng_repos e) user). repo = Some (rp_id r)" if "x = Inr repo" "eng_db e \<noteq> None"
    using assms that choose_repo_mem only_readD(4) [OF r1]
    by (fastforce simp: manual_repository_def io io' split: if_splits sum.splits)
qed

lemma count_values_card:
  assumes "distinct (List.map fst (eng_workflows e))"
  shows "length (filter P (workflow_values e)) = card {k. \<exists>w. wf_get e k = Some w \<and> P w}"
proof -
  let ?on = "filter (\<lambda>x. P (snd x)) (eng_workflows e)"
  have "{k. \<exists>w. wf_get e k = Some w \<and> P w} = fst ` set ?on"
    using assms by (force simp: wf_get_def)
  moreover have "distinct (List.map fst ?on)" using assms by (rule distinct_map_filter)
  moreover have "length (filter P (workflow_values e)) = length ?on"
    by (simp add: workflow_values_def filter_map comp_def)
  ultimately show ?thesis by (metis distinct_card length_map set_map)
qed

lemma manual_in_use_card:
  assumes "engine_ok e"
  shows "manual_in_use user e = card {k. \<exists>w. wf_get e k = Some w \<and>
    (wf_started_manually w \<and> occupies_concurrency_slot (wf_state w) \<and> wf_user_id w = Some user)}"
  unfolding manual_in_use_def filter_filter count_values_card [OF engine_ok_distinct [OF assms]] by (simp add: conj_ac)

text \<open>An item that is put at one key adds at most one to the count.\<close>

lemma manual_in_use_grows:
  assumes "engine_ok e" and "engine_ok e'" and "\<And>k'. k' \<noteq> k \<Longrightarrow> wf_get e' k' = wf_get e k'"
  shows "manual_in_use user e' \<le> manual_in_use user e + 1"
proof -
  let ?K = "\<lambda>e. {k. \<exists>w. wf_get e k = Some w \<and>
    (wf_started_manually w \<and> occupies_concurrency_slot (wf_state w) \<and> wf_user_id w = Some user)}"
  have fin: "finite (?K e)" by (rule finite_subset [OF _ finite_keys [of e]]) auto
  have "?K e' \<subseteq> insert k (?K e)" using assms(3) by force
  then have "card (?K e') \<le> card (insert k (?K e))" using fin by (intro card_mono) auto
  also have "\<dots> \<le> card (?K e) + 1" using fin by (simp add: card_insert_if)
  finally show ?thesis by (simp only: manual_in_use_card [OF assms(1)] manual_in_use_card [OF assms(2)])
qed

lemma manual_key_keeps:
  assumes "manual_key env mc body e = (x, e')"
  shows "\<exists>n. e' = e\<lparr>eng_ticks := n\<rparr>" and "x = Inr key \<Longrightarrow> key \<noteq> []"
  using assms by (auto simp: manual_key_def tick_def split: if_splits intro: exI [of _ "eng_ticks e"])

lemma not_on_board_iff: "not_on_board key e = Inr u \<longleftrightarrow> (\<forall>w. wf_get e key = Some w \<longrightarrow> replaceable w)"
  by (auto simp: not_on_board_def split: option.splits)

lemma manual_cap_iff:
  "manual_cap mc user e = Inr u \<longleftrightarrow> mc_max_manual mc = 0 \<or> manual_in_use user e < unat (mc_max_manual mc)"
  by (auto simp: manual_cap_def word_gt_0)

lemma engine_ok_ticks: "engine_ok e \<Longrightarrow> engine_ok (e\<lparr>eng_ticks := n\<rparr>)"
  using engine_ok_same_core [of e "e\<lparr>eng_ticks := n\<rparr>"] by (simp add: same_core_def)

lemma manual_start_keeps_ok:
  assumes "engine_ok e" shows "engine_ok (snd (start_manual_workflow env mc uuid auth body e))"
proof -
  obtain x e1 where key: "manual_key env mc body e = (x, e1)" by (cases "manual_key env mc body e")
  have ok1: "engine_ok e1" using manual_key_keeps(1) [OF key] assms engine_ok_ticks by auto
  obtain y e2 where repo: "manual_repository env mc (au_user_id auth) (mb_repository_id body) e1 = (y, e2)"
    by (cases "manual_repository env mc (au_user_id auth) (mb_repository_id body) e1")
  have ok2: "engine_ok e2" using only_read_ok [OF manual_repository_spec(1) [OF repo] ok1] .
  have "engine_ok e3" if "add_to_dashboard env uuid k sm True d url u r e2 = (z, e3)" for k sm d url u r z e3
    using add_to_dashboard_ok [OF ok2] that by (metis snd_conv)
  then show ?thesis using ok1 ok2 by (auto simp: start_manual_workflow_def key repo split: sum.split prod.split)
qed

text \<open>
  C34: a manual start that is refused leaves every item as it was. One that succeeds puts a new pending item of
  the caller under the key, at most over an item that is done or has no owner, touches no other key, and gives
  it a repository of the caller's; the caller's manual items stay within the limit when there is one.
\<close>
theorem manual_start_outcome:
  assumes "engine_ok e" and "start_manual_workflow env mc uuid auth body e = (res, e')"
  shows "engine_ok e' \<and>
    (case res of
       Inl _ \<Rightarrow> eng_workflows e' = eng_workflows e
     | Inr (i, key) \<Rightarrow> i = uuid \<and> key \<noteq> [] \<and>
         (\<forall>w. wf_get e key = Some w \<longrightarrow> replaceable w) \<and>
         (\<forall>k. k \<noteq> key \<longrightarrow> wf_get e' k = wf_get e k) \<and>
         (\<exists>w. wf_get e' key = Some w \<and> wf_id w = uuid \<and> wf_state w = Pending \<and> \<not> wf_driver_started w \<and>
            wf_user_id w = Some (au_user_id auth) \<and> wf_started_manually w \<and>
            (eng_db e \<noteq> None \<longrightarrow>
              (\<exists>r \<in> set (list_for_user (eng_repos e) (au_user_id auth)). wf_repository_id w = Some (rp_id r)))) \<and>
         (mc_max_manual mc > 0 \<longrightarrow> manual_in_use (au_user_id auth) e' \<le> unat (mc_max_manual mc)))"
proof -
  let ?user = "au_user_id auth"
  obtain x e1 where key: "manual_key env mc body e = (x, e1)" by (cases "manual_key env mc body e")
  obtain n where e1: "e1 = e\<lparr>eng_ticks := n\<rparr>" using manual_key_keeps(1) [OF key] by blast
  have ok: "engine_ok e'" using manual_start_keeps_ok [OF assms(1)] assms(2) by (metis snd_conv)
  have same1: "eng_workflows e1 = eng_workflows e" "eng_db e1 = eng_db e" "eng_repos e1 = eng_repos e"
    by (simp_all add: e1)
  have get1: "wf_get e1 k = wf_get e k" for k by (simp add: wf_get_def same1)
  show ?thesis
  proof (cases "\<exists>err. x = Inl err \<or> (\<exists>k. x = Inr k \<and> (not_on_board k e1 = Inl err \<or> manual_cap mc ?user e1 = Inl err))")
    case True
    then have "e' = e1 \<and> (\<exists>err. res = Inl err)"
      using assms(2) key by (auto simp: start_manual_workflow_def split: sum.splits)
    then show ?thesis using ok same1 by auto
  next
    case False
    then obtain k where x: "x = Inr k" and free: "not_on_board k e1 = Inr ()" and cap: "manual_cap mc ?user e1 = Inr ()"
      by (cases x; cases "not_on_board (projr x) e1"; cases "manual_cap mc ?user e1") auto
    obtain y e2 where repo: "manual_repository env mc ?user (mb_repository_id body) e1 = (y, e2)"
      by (cases "manual_repository env mc ?user (mb_repository_id body) e1")
    note read = manual_repository_spec(1) [OF repo]
    show ?thesis
    proof (cases y)
      case (Inl err)
      then show ?thesis
        using assms(2) key x free cap repo ok only_readD(2) [OF read] same1 by (auto simp: start_manual_workflow_def)
    next
      case (Inr r)
      obtain z e3 where add: "add_to_dashboard env uuid k (manual_summary mc body k) True
          (trimmed (mb_ticket_description body)) (trimmed (mb_issue_url body)) (Some ?user) r e2 = (z, e3)" by fastforce
      have e': "e' = e3" and res: "res = (case z of Inl err \<Rightarrow> Inl (INTERNAL_SERVER_ERROR_500, error_text err) | Inr i \<Rightarrow> Inr (i, k))"
        using assms(2) key x free cap repo Inr add by (auto simp: start_manual_workflow_def split: sum.splits)
      note effect = add_to_dashboard_effect [OF add]
      show ?thesis
      proof (cases z)
        case (Inl err)
        then show ?thesis using effect ok e' res only_readD(2) [OF read] same1 by simp
      next
        case z: (Inr i)
        have others: "wf_get e3 k' = wf_get e k'" if "k' \<noteq> k" for k'
          using effect z that only_readD(1) [OF read] get1 by simp
        have "manual_in_use ?user e3 \<le> unat (mc_max_manual mc)" if "mc_max_manual mc > 0"
        proof -
          have "manual_in_use ?user e = manual_in_use ?user e1" by (simp add: manual_in_use_def workflow_values_def same1)
          then show ?thesis
            using manual_in_use_grows [OF assms(1) ok [unfolded e'] others, of k ?user] cap that by (auto simp: manual_cap_iff)
        qed
        then show ?thesis
          using effect z ok e' res others free manual_key_keeps(2) [OF key, of k] x
            manual_repository_spec(2) [OF repo Inr] same1 only_readD(1) [OF read]
          by (auto simp: not_on_board_iff get1)
      qed
    qed
  qed
qed

definition ann :: authenticated_user where
  "ann = \<lparr>au_user_id = ''ann'', au_role = User\<rparr>"

definition sample_manual_config :: manual_config where
  "sample_manual_config = \<lparr>mc_jira_available = True, mc_max_manual = 2, mc_max_parallel_per_user = False\<rparr>"

definition sample_manual_body :: manual_body where
  "sample_manual_body = \<lparr>mb_ticket_key = ''T-9'', mb_ticket_summary = ''Do'', mb_ticket_description = None,
     mb_issue_url = None, mb_repository_id = None\<rparr>"

lemma sample_poll_engine_ok: "engine_ok sample_poll_engine"
proof -
  have "eng_db sample_engine = Some sample_store" by (simp add: sample_engine_def)
  from engine_ok_db_users [OF sample_engine_ok this, of "{''ann''}"] show ?thesis
    using engine_ok_same_core [of "sample_engine\<lparr>eng_db := Some (sample_store\<lparr>db_users := {''ann''}\<rparr>)\<rparr>" sample_poll_engine]
    by (simp add: same_core_def sample_poll_engine_def)
qed

theorem manual_start_outcome_witness:
  "let x = start_manual_workflow sample_poll_env sample_manual_config ''u'' ann sample_manual_body sample_poll_engine
   in fst x = Inr (''u'', ''T-9'') \<and> engine_ok (snd x) \<and> manual_in_use ''ann'' (snd x) \<le> 2 \<and>
     wf_get (snd x) ''T-1'' = wf_get sample_poll_engine ''T-1''"
proof -
  let ?x = "start_manual_workflow sample_poll_env sample_manual_config ''u'' ann sample_manual_body sample_poll_engine"
  have res: "fst ?x = Inr (''u'', ''T-9'')" by code_simp
  have "?x = (Inr (''u'', ''T-9''), snd ?x)" using res by (metis prod.collapse)
  note out = manual_start_outcome [OF sample_poll_engine_ok this]
  have "mc_max_manual sample_manual_config = 2" "au_user_id ann = ''ann''"
    by (simp_all add: sample_manual_config_def ann_def)
  then show ?thesis using out res by (simp add: Let_def)
qed

lemma engine_ok_db:
  assumes "engine_ok e" and "db_ok db" shows "engine_ok (e\<lparr>eng_db := Some db\<rparr>)"
proof -
  have "wf_get (e\<lparr>eng_db := x\<rparr>) = wf_get e" "token_users (e\<lparr>eng_db := x\<rparr>) = token_users e" for x
    by (auto simp: wf_get_def token_users_def fun_eq_iff)
  then show ?thesis using assms by (simp add: engine_ok_def)
qed

text \<open>The engine after a manual start of T-9 and a step recorded for the new item.\<close>

definition sample_started :: engine where
  "sample_started = snd (start_manual_workflow sample_poll_env sample_manual_config ''u'' ann sample_manual_body sample_poll_engine)"

definition sample_history :: database where
  "sample_history = (case eng_db sample_started of None \<Rightarrow> empty_db {}
     | Some db \<Rightarrow> snd (record_step_start ''u'' ''Build'' None 0 db))"

lemma sample_started_ok: "engine_ok sample_started"
  using manual_start_keeps_ok [OF sample_poll_engine_ok] by (simp add: sample_started_def)

lemma sample_history_ok: "db_ok sample_history"
proof (cases "eng_db sample_started")
  case (Some db)
  then have "db_ok db" using sample_started_ok by (simp add: engine_ok_def)
  then show ?thesis by (simp add: sample_history_def Some record_step_start_ok)
qed (simp add: sample_history_def reachable_db_ok [OF rtranclp.rtrancl_refl])



subsection \<open>What a card offers\<close>

text \<open>
  Deleting and marking as done are accepted whenever a card offers them. Resuming after an error is offered
  on a stopped item as well, whose runs a stop leaves running: then nothing is resumed.
\<close>

lemma offered_actions_accepted:
  assumes "wf_get e k = Some w"
  shows "can_delete w \<Longrightarrow> fst (delete_workflow env k e) = Inr ()"
    and "workflow_action_flags env w = (pr, tree, True) \<Longrightarrow> \<exists>out. fst (mark_work_done env k e) = Inr out"
  using assms
  by (auto simp: can_delete_def can_start_workflow_def delete_workflow_def mark_work_done_def workflow_action_flags_def
      Let_def case_prod_beta)

lemma manual_start_replaces_foreign_item:
  "fst (start_manual_workflow sample_poll_env sample_manual_config ''u'' ann (sample_manual_body\<lparr>mb_ticket_key := ''T-1''\<rparr>)
     (modify_workflow ''T-1'' (\<lambda>w. w\<lparr>wf_state := Done, wf_user_id := Some ''bob''\<rparr>) sample_poll_engine)) = Inr (''u'', ''T-1'')"
  "fst (start_manual_workflow sample_poll_env sample_manual_config ''u'' ann (sample_manual_body\<lparr>mb_ticket_key := ''T-1''\<rparr>)
     (modify_workflow ''T-1'' (\<lambda>w. w\<lparr>wf_user_id := Some ''bob''\<rparr>) sample_poll_engine)) =
   Inl (CONFLICT_409, ''T-1 is already on your board'')"
  by code_simp+

lemma nothing_to_resume:
  assumes "wf_get e k = Some w" and "runs_where env is_run_error w = []"
  shows "fst (resume_from_error env k e) \<noteq> Inr ()" and "snd (resume_from_error env k e) = e"
  using assms by (auto simp: resume_from_error_def)

end
