(* ===== verification/Port_Forwarding.thy ===== *)
theory Port_Forwarding
  imports Session_Proxy Stream_Humanize Git_Names
begin

text \<open>
  The ports of a workspace container: the allocator of host ports (\<open>container/editor/port_alloc.rs\<close>), the
  scanner that forwards what listens in the container (\<open>container/port_scanner.rs\<close> and the scanner of
  \<open>container/run_command.rs\<close>), and the trackers that keep the proxy's routes in step with it
  (\<open>routes/workflows/port_tracking.rs\<close> of \<open>takuto-web\<close>), with the address builders of \<open>container/editor/urls.rs\<close>
  and the parsers of what \<open>docker\<close>, \<open>ss\<close> and \<open>/proc\<close> print. What those programs answer is a parameter.
\<close>

type_synonym port = "16 word"

subsection \<open>Names and addresses\<close>

definition sanitize_ticket_key :: "string \<Rightarrow> string" where
  "sanitize_ticket_key key =
     concat (List.map (\<lambda>ch. if list_all is_ascii_alphanumeric ch then to_ascii_lowercase ch else ''-'') (utf8_chars key))"

definition workspace_container_name :: "string \<Rightarrow> string" where
  "workspace_container_name key = ''takuto-ws-'' @ sanitize_ticket_key key"

definition run_command_container_name :: "string \<Rightarrow> nat \<Rightarrow> string" where
  "run_command_container_name key cmd_index = ''takuto-run-'' @ sanitize_ticket_key key @ ''-'' @ show_nat cmd_index"

definition HEX_DIGITS :: string where "HEX_DIGITS = ''0123456789abcdef''"

definition hex_byte :: "nat \<Rightarrow> string" where
  "hex_byte b = [HEX_DIGITS ! (b div 16), HEX_DIGITS ! (b mod 16)]"

text \<open>The sixteen bytes are the generator's.\<close>

definition session_path_token :: "nat list \<Rightarrow> string" where
  "session_path_token bytes = concat (List.map hex_byte bytes)"

text \<open>A byte pushed as a character: from 128 on, the two bytes of its encoding.\<close>

definition push_byte :: "nat \<Rightarrow> string" where
  "push_byte b = (if b < 128 then [char_of b] else [char_of (192 + b div 64), char_of (128 + b mod 64)])"

definition encode_query_byte :: "char \<Rightarrow> string" where
  "encode_query_byte c =
     (if c \<in> set ''&#=+ ?%'' then CHR ''%'' # hex_byte (of_char c) else push_byte (of_char c))"

definition encode_query_value :: "string \<Rightarrow> string" where
  "encode_query_value s = concat (List.map encode_query_byte s)"

definition build_editor_url :: "port \<Rightarrow> string \<Rightarrow> string \<Rightarrow> string" where
  "build_editor_url host_port token folder =
     ''http://localhost:'' @ show_nat (unat host_port) @ ''/?tkn='' @ token @ ''&folder='' @ folder"

definition build_session_editor_url :: "string \<Rightarrow> string \<Rightarrow> string \<Rightarrow> string" where
  "build_session_editor_url path_token token folder =
     ''/s/'' @ path_token @ ''/?tkn='' @ token @ ''&folder='' @ encode_query_value folder"

definition build_terminal_url :: "port \<Rightarrow> string \<Rightarrow> string" where
  "build_terminal_url host_port token = ''http://localhost:'' @ show_nat (unat host_port) @ ''/'' @ token @ ''/''"

definition build_session_terminal_url :: "string \<Rightarrow> string \<Rightarrow> string" where
  "build_session_terminal_url path_token ttyd_token = ''/s/'' @ path_token @ ''/'' @ ttyd_token @ ''/''"

definition build_session_dynamic_port_url :: "string \<Rightarrow> string" where
  "build_session_dynamic_port_url path_token = ''/s/'' @ path_token @ ''/''"

definition session_publish_arg :: "proxy_env \<Rightarrow> port \<Rightarrow> port \<Rightarrow> string" where
  "session_publish_arg px host_port container_port =
     (if px_docker_host px = None then ''127.0.0.1:'' else []) @
     show_nat (unat host_port) @ '':'' @ show_nat (unat container_port)"

definition editor_host_port :: "port \<Rightarrow> port" where
  "editor_host_port p = p"

subsection \<open>What the programs print\<close>

definition parse_port :: "string \<Rightarrow> port option" where
  "parse_port s = (case parse_u64 s of Some n \<Rightarrow> if n < 65536 then Some (of_nat n) else None | None \<Rightarrow> None)"

definition parse_i32 :: "string \<Rightarrow> int option" where
  "parse_i32 s =
     (case s of
        CHR ''-'' # c # r \<Rightarrow>
          (case parse_digits 0 (c # r) of Some n \<Rightarrow> if n \<le> 2 ^ 31 then Some (- int n) else None | None \<Rightarrow> None)
      | _ \<Rightarrow> (case parse_u64 s of Some n \<Rightarrow> if n < 2 ^ 31 then Some (int n) else None | None \<Rightarrow> None))"

definition ports_from :: "port \<Rightarrow> port \<Rightarrow> port list" where
  "ports_from lo hi = List.map of_nat [unat lo ..< Suc (unat hi)]"

text \<open>\<open>\{\{.Ports\}\}\<close>: the host side of \<open>0.0.0.0:9100-9102->9100-9102/tcp\<close>.\<close>

fun after_last :: "char \<Rightarrow> string \<Rightarrow> string option" where
  "after_last d s = map_option snd (rsplit_once d s)"

definition published_ports :: "string \<Rightarrow> port list" where
  "published_ports segment =
     (let s = trim segment in
      case str_find ''->'' s of
        None \<Rightarrow> []
      | Some arrow \<Rightarrow>
          (case after_last (CHR '':'') (take arrow s) of
             None \<Rightarrow> []
           | Some host_part \<Rightarrow>
               (case split_once (CHR ''-'') host_part of
                  Some (lo, hi) \<Rightarrow> (case (parse_port lo, parse_port hi) of (Some a, Some b) \<Rightarrow> ports_from a b | _ \<Rightarrow> [])
                | None \<Rightarrow> (case parse_port host_part of Some p \<Rightarrow> [p] | None \<Rightarrow> []))))"

definition label_ports :: "string \<Rightarrow> port list" where
  "label_ports part = List.map_filter (\<lambda>tok. parse_port (trim tok)) (split_on (CHR '','') part)"

text \<open>Per family of containers: the answers of the two \<open>docker ps\<close> calls, \<open>None\<close> when the call failed.\<close>

definition used_editor_ports :: "(string option \<times> string option) list \<Rightarrow> port list" where
  "used_editor_ports answers =
     sort_key unat (remdups (concat (List.map (\<lambda>(ports, labels).
       (case ports of None \<Rightarrow> []
        | Some out \<Rightarrow> concat (List.map published_ports (concat (List.map (split_on newline) (split_on (CHR '','') out))))) @
       (case labels of None \<Rightarrow> []
        | Some out \<Rightarrow> concat (List.map (\<lambda>l. concat (List.map label_ports (split_whitespace l))) (lines out)))) answers)))"

definition read_ws_spare_ports :: "string option \<Rightarrow> port list option" where
  "read_ws_spare_ports answer =
     (case answer of
        None \<Rightarrow> None
      | Some out \<Rightarrow> let s = trim out in
          if s = [] \<or> s = ''<no value>'' \<or> label_ports s = [] then None else Some (label_ports s))"

datatype listen_family = Ipv4 | Ipv6

text \<open>One line of \<open>ss -tlnH\<close>, with \<open>-p\<close> when only the container's own listeners count.\<close>

definition listening_of_line :: "bool \<Rightarrow> string \<Rightarrow> (port \<times> listen_family) option" where
  "listening_of_line owned_only line =
     (let fields = split_whitespace line in
      if length fields < 4 \<or> owned_only \<and> \<not> str_contains ''users:('' line then None
      else let loc = fields ! 3; family = (if starts_with ''['' loc then Ipv6 else Ipv4)
        in case parse_port (last (split_on (CHR '':'') loc)) of
             Some p \<Rightarrow> if p > 0 then Some (p, family) else None
           | None \<Rightarrow> None)"

fun note_listener :: "port \<times> listen_family \<Rightarrow> (port \<times> listen_family) list \<Rightarrow> (port \<times> listen_family) list" where
  "note_listener (p, family) seen =
     (case map_of seen p of
        None \<Rightarrow> seen @ [(p, family)]
      | Some _ \<Rightarrow> if family = Ipv4 then AList.update p Ipv4 seen else seen)"

definition scan_listening_ports :: "bool \<Rightarrow> string option \<Rightarrow> (port \<times> listen_family) list option" where
  "scan_listening_ports owned_only answer =
     map_option (\<lambda>out. fold note_listener (List.map_filter (listening_of_line owned_only) (lines out)) []) answer"

definition spare_of_token :: "string \<Rightarrow> string option" where
  "spare_of_token tok = strip_prefix ''TCP4-LISTEN:'' tok"

definition forward_of_line :: "string \<Rightarrow> (port \<times> port) option" where
  "forward_of_line line =
     (let toks = split_whitespace line;
          spare = Option.bind (find_map spare_of_token toks) (\<lambda>rest. parse_port (hd (split_on (CHR '','') rest)));
          target = Option.bind (List.find (\<lambda>tok. starts_with ''TCP4:'' tok \<or> starts_with ''TCP6:'' tok) toks)
            (\<lambda>tok. parse_port (last (split_on (CHR '':'') tok)))
      in case (spare, target) of (Some a, Some b) \<Rightarrow> Some (a, b) | _ \<Rightarrow> None)"

definition parse_socat_forwards :: "string \<Rightarrow> (port \<times> port) list" where
  "parse_socat_forwards out = List.map_filter forward_of_line (lines out)"

definition socat_command :: "port \<Rightarrow> port \<Rightarrow> listen_family \<Rightarrow> string" where
  "socat_command spare target family =
     ''socat TCP4-LISTEN:'' @ show_nat (unat spare) @ '',fork,reuseaddr,bind=0.0.0.0 '' @
     (case family of Ipv4 \<Rightarrow> ''TCP4:127.0.0.1:'' | Ipv6 \<Rightarrow> ''TCP6:[::1]:'') @ show_nat (unat target)"

definition retain_live_forwards :: "(port \<times> port) list \<Rightarrow> port list \<Rightarrow> (port \<times> port) list" where
  "retain_live_forwards raw listening = filter (\<lambda>(_, target). target \<in> set listening) raw"

text \<open>The value that follows a flag.\<close>

fun flag_value :: "string \<Rightarrow> string list \<Rightarrow> string option" where
  "flag_value flag (a # b # rest) = (if a = flag then Some b else flag_value flag (b # rest))"
| "flag_value flag _ = None"

definition terminal_of_line :: "string \<Rightarrow> (port \<times> string) option" where
  "terminal_of_line line =
     (let parts = split_whitespace line in
      Option.bind (Option.bind (flag_value ''-p'' parts) parse_port) (\<lambda>p.
      Option.bind (Option.bind (flag_value ''-b'' parts) (strip_prefix ''/'')) (\<lambda>token.
        if token = [] then None else Some (p, token))))"

definition parse_terminal_auth_from_pgrep :: "string \<Rightarrow> (port \<times> string) option" where
  "parse_terminal_auth_from_pgrep out = find_map terminal_of_line (lines out)"

definition editor_of_line :: "string \<Rightarrow> (port \<times> string \<times> string) option" where
  "editor_of_line line =
     (let parts = split_whitespace line in
      Option.bind (Option.bind (flag_value ''--port'' parts) parse_port) (\<lambda>p.
      Option.bind (flag_value ''--connection-token'' parts) (\<lambda>token.
      Option.bind (Option.bind (flag_value ''--server-base-path'' parts) (strip_prefix ''/s/'')) (\<lambda>path_token.
        if token = [] \<or> path_token = [] then None else Some (p, token, path_token)))))"

definition parse_editor_from_pgrep :: "string \<Rightarrow> (port \<times> string \<times> string) option" where
  "parse_editor_from_pgrep out = find_map editor_of_line (lines out)"

subsection \<open>The allocator\<close>

definition EDITOR_PORT_MIN :: port where "EDITOR_PORT_MIN = 9100"
definition EDITOR_PORT_MAX :: port where "EDITOR_PORT_MAX = 19100"

text \<open>The loop over the range: \<open>n\<close> ports are left, the next is \<open>p\<close>; the ports set aside so far are \<open>free\<close>.\<close>

fun collect_free :: "port set \<Rightarrow> nat \<Rightarrow> nat \<Rightarrow> port \<Rightarrow> port list \<Rightarrow> port list option" where
  "collect_free taken wanted 0 p free = None"
| "collect_free taken wanted (Suc n) p free =
     (if p \<in> taken then collect_free taken wanted n (p + 1) free
      else if length free + 1 = wanted then Some (free @ [p])
      else collect_free taken wanted n (p + 1) (free @ [p]))"

definition allocate_editor_ports :: "port list \<Rightarrow> nat \<Rightarrow> port set \<Rightarrow> port list option \<times> port set" where
  "allocate_editor_ports docker_used wanted allocated =
     (case collect_free (allocated \<union> set docker_used) wanted (unat (EDITOR_PORT_MAX - EDITOR_PORT_MIN) + 1) EDITOR_PORT_MIN [] of
        Some free \<Rightarrow> (Some free, allocated \<union> set free)
      | None \<Rightarrow> (None, allocated))"

definition release_editor_ports :: "port list \<Rightarrow> port set \<Rightarrow> port set" where
  "release_editor_ports ports allocated = allocated - set ports"

definition allocate_single_port :: "port list \<Rightarrow> port set \<Rightarrow> port option \<times> port set" where
  "allocate_single_port docker_used allocated =
     (case allocate_editor_ports docker_used 1 allocated of (free, allocated') \<Rightarrow> (map_option hd free, allocated'))"

definition release_container_ports :: "string option \<Rightarrow> port set \<Rightarrow> port set" where
  "release_container_ports answer allocated =
     (case answer of
        None \<Rightarrow> allocated
      | Some out \<Rightarrow> release_editor_ports (concat (List.map label_ports (split_whitespace out))) allocated)"

definition pick_terminal_port :: "port list option \<Rightarrow> port list \<Rightarrow> port option" where
  "pick_terminal_port pool listening =
     (case pool of
        None \<Rightarrow> None
      | Some ps \<Rightarrow>
          if length ps < 2 then None
          else (case List.find (\<lambda>p. p \<notin> set listening) (rev (tl ps)) of Some p \<Rightarrow> Some p | None \<Rightarrow> Some (last ps)))"

subsection \<open>The scanner\<close>

record scanner =
  sc_ignore :: "port list"
  sc_baseline :: "port list"
  sc_active :: "(port \<times> port) list"
  sc_spares :: "port list"

datatype port_event = Forwarded port port | Unforwarded port port

definition ports_of_scan :: "(port \<times> listen_family) list option \<Rightarrow> port list" where
  "ports_of_scan found = (case found of Some ports \<Rightarrow> List.map fst ports | None \<Rightarrow> [])"

definition editor_scanner :: "port \<Rightarrow> port list \<Rightarrow> (port \<times> listen_family) list option \<Rightarrow> scanner" where
  "editor_scanner vscode_port spares baseline =
     \<lparr>sc_ignore = vscode_port # spares, sc_baseline = ports_of_scan baseline, sc_active = [], sc_spares = spares\<rparr>"

definition run_command_scanner :: "port list \<Rightarrow> (port \<times> listen_family) list option \<Rightarrow> scanner" where
  "run_command_scanner spares baseline =
     \<lparr>sc_ignore = spares, sc_baseline = ports_of_scan baseline, sc_active = [], sc_spares = spares\<rparr>"

definition skipped :: "scanner \<Rightarrow> port \<Rightarrow> bool" where
  "skipped sc p \<longleftrightarrow> p \<in> set (sc_ignore sc) \<or> p \<in> set (sc_baseline sc) \<or>
     EDITOR_PORT_MIN \<le> p \<and> p \<le> EDITOR_PORT_MAX \<or> map_of (sc_active sc) p \<noteq> None"

text \<open>\<open>socat\<close> says whether a forward could be started; the spare ports are a stack, its top at the end.\<close>

definition detect_port ::
  "(port \<Rightarrow> port \<Rightarrow> listen_family \<Rightarrow> bool) \<Rightarrow> port \<times> listen_family \<Rightarrow> scanner \<times> port_event list \<Rightarrow> scanner \<times> port_event list" where
  "detect_port socat = (\<lambda>(p, family) (sc, evs).
     if skipped sc p \<or> sc_spares sc = [] then (sc, evs)
     else let spare = last (sc_spares sc) in
       if socat spare p family
       then (sc\<lparr>sc_active := (p, spare) # sc_active sc, sc_spares := butlast (sc_spares sc)\<rparr>,
             evs @ [Forwarded p (editor_host_port spare)])
       else (sc, evs))"

definition forget_port :: "port \<Rightarrow> scanner \<times> port_event list \<Rightarrow> scanner \<times> port_event list" where
  "forget_port p = (\<lambda>(sc, evs).
     case map_of (sc_active sc) p of
       None \<Rightarrow> (sc, evs)
     | Some spare \<Rightarrow>
         (sc\<lparr>sc_active := AList.delete p (sc_active sc), sc_spares := sc_spares sc @ [spare]\<rparr>,
          evs @ [Unforwarded p (editor_host_port spare)]))"

text \<open>One pass; \<open>order\<close> is the order in which the map of active forwards is walked.\<close>

definition scan_pass ::
  "((port \<times> port) list \<Rightarrow> (port \<times> port) list) \<Rightarrow> (port \<Rightarrow> port \<Rightarrow> listen_family \<Rightarrow> bool) \<Rightarrow>
   (port \<times> listen_family) list option \<Rightarrow> scanner \<Rightarrow> scanner \<times> port_event list" where
  "scan_pass order socat found sc =
     (case found of
        None \<Rightarrow> (sc, [])
      | Some listening \<Rightarrow>
          (case fold (detect_port socat) listening (sc, []) of (sc1, evs) \<Rightarrow>
             let gone = filter (\<lambda>p. p \<notin> fst ` set listening) (List.map fst (order (sc_active sc1)))
             in fold forget_port gone (sc1, evs)))"

text \<open>
  A pass of a run command's scanner: when the command has ended, the event that says so; otherwise the pass,
  and the forwards it publishes when they have changed.
\<close>

datatype run_command_pass = Ended "string option" | Passed "port_event list" "(port \<times> port) list option"

definition run_command_scan_pass ::
  "((port \<times> port) list \<Rightarrow> (port \<times> port) list) \<Rightarrow> (port \<Rightarrow> port \<Rightarrow> listen_family \<Rightarrow> bool) \<Rightarrow> bool \<Rightarrow> string option \<Rightarrow>
   (port \<times> listen_family) list option \<Rightarrow> scanner \<Rightarrow> scanner \<times> run_command_pass" where
  "run_command_scan_pass order socat running exit_error found sc =
     (if \<not> running then (sc, Ended exit_error)
      else (case scan_pass order socat found sc of (sc', evs) \<Rightarrow>
        (sc', Passed evs (if evs = [] then None
           else Some (sort_key (\<lambda>(a, b). (unat a, unat b)) (List.map (\<lambda>(p, spare). (p, editor_host_port spare)) (sc_active sc')))))))"

definition run_command_exit_error :: "string option \<Rightarrow> string option \<Rightarrow> string option" where
  "run_command_exit_error code_out log_out =
     (case code_out of
        None \<Rightarrow> None
      | Some out \<Rightarrow>
          let code = (case parse_i32 (trim out) of Some c \<Rightarrow> c | None \<Rightarrow> 0);
              tail_text = (case log_out of Some l \<Rightarrow> trim l | None \<Rightarrow> [])
          in if code = 0 then None
             else Some (''Command exited with code '' @ show_int code @
               (if tail_text = [] then [] else '':'' @ [newline] @ tail_text)))"

subsection \<open>The trackers\<close>

record dynamic_forward =
  df_container_port :: port
  df_host_port :: port
  df_proxy_url :: string
  df_path_token :: string

definition dynamic_route :: "string \<Rightarrow> string \<Rightarrow> port \<Rightarrow> session_route" where
  "dynamic_route ticket user host_port =
     \<lparr>sr_kind = DynamicPortRoute, sr_host_port = host_port, sr_ticket_key = ticket, sr_user_id = user\<rparr>"

text \<open>
  What a tracker keeps: the forwards of its item, the registry, and the rows it asked the table of port mappings
  to hold.
\<close>

record port_upsert =
  pu_container_port :: port
  pu_host_port :: port
  pu_proxy_url :: string
  pu_path_token :: string
  pu_command :: "nat option"

definition upsert_of :: "dynamic_forward \<Rightarrow> nat option \<Rightarrow> port_upsert" where
  "upsert_of f i = \<lparr>pu_container_port = df_container_port f, pu_host_port = df_host_port f,
     pu_proxy_url = df_proxy_url f, pu_path_token = df_path_token f, pu_command = i\<rparr>"

type_synonym tracked = "dynamic_forward list \<times> registry \<times> port_upsert list"

definition register_forward :: "(nat \<Rightarrow> string) \<Rightarrow> string \<Rightarrow> string \<Rightarrow> port \<Rightarrow> port \<Rightarrow> tracked \<Rightarrow> tracked" where
  "register_forward draw ticket user cp hp = (\<lambda>(fwds, g, rows).
     case register_route draw (dynamic_route ticket user hp) g of
       (None, g') \<Rightarrow> (fwds, g', rows)
     | (Some token, g') \<Rightarrow>
         let f = \<lparr>df_container_port = cp, df_host_port = hp,
               df_proxy_url = build_session_dynamic_port_url token, df_path_token = token\<rparr>
         in (fwds @ [f], g', rows @ [upsert_of f None]))"

definition track_event :: "(nat \<Rightarrow> string) \<Rightarrow> string \<Rightarrow> string \<Rightarrow> port_event \<Rightarrow> tracked \<Rightarrow> tracked" where
  "track_event draw ticket user ev = (\<lambda>(fwds, g, rows).
     case ev of
       Forwarded cp hp \<Rightarrow>
         if list_ex (\<lambda>f. df_container_port f = cp) fwds then (fwds, g, rows)
         else register_forward draw ticket user cp hp (fwds, g, rows)
     | Unforwarded cp _ \<Rightarrow>
         (case position (\<lambda>f. df_container_port f = cp) fwds of
            None \<Rightarrow> (fwds, g, rows)
          | Some i \<Rightarrow> (remove_at i fwds, snd (remove_route (df_path_token (fwds ! i)) g), rows)))"

definition track_port_forwards :: "(nat \<Rightarrow> string) \<Rightarrow> string \<Rightarrow> string \<Rightarrow> port_event list \<Rightarrow> tracked \<Rightarrow> tracked" where
  "track_port_forwards draw ticket user = fold (track_event draw ticket user)"

record active_run_command =
  rc_index :: nat
  rc_name :: string
  rc_cancel :: nat
  rc_port :: "dynamic_forward option"

text \<open>
  The tracker of one run command: the commands of its item (\<open>None\<close>: no entry), the registry and the rows.
  The command's token was reserved when it was started.
\<close>

type_synonym commands_tracked = "active_run_command list option \<times> registry \<times> port_upsert list"

definition set_command_port :: "nat \<Rightarrow> dynamic_forward option \<Rightarrow> active_run_command list \<Rightarrow> active_run_command list" where
  "set_command_port i f cs =
     (case position (\<lambda>c. rc_index c = i) cs of None \<Rightarrow> cs | Some j \<Rightarrow> cs[j := (cs ! j)\<lparr>rc_port := f\<rparr>])"

definition find_command :: "nat \<Rightarrow> active_run_command list option \<Rightarrow> active_run_command option" where
  "find_command i cs = (case cs of None \<Rightarrow> None | Some l \<Rightarrow> List.find (\<lambda>c. rc_index c = i) l)"

definition track_command_event ::
  "string \<Rightarrow> string \<Rightarrow> string \<Rightarrow> string \<Rightarrow> nat \<Rightarrow> port_event \<Rightarrow> commands_tracked \<Rightarrow> commands_tracked" where
  "track_command_event ticket user reserved proxy_base i ev = (\<lambda>(cs, g, rows).
     case ev of
       Forwarded cp hp \<Rightarrow>
         let f = \<lparr>df_container_port = cp, df_host_port = hp, df_proxy_url = proxy_base, df_path_token = reserved\<rparr>
         in (map_option (set_command_port i (Some f)) cs,
             snd (register_with_token reserved (dynamic_route ticket user hp) g), rows @ [upsert_of f (Some i)])
     | Unforwarded cp _ \<Rightarrow>
         (case Option.bind (find_command i cs) rc_port of
            Some f \<Rightarrow>
              if df_container_port f = cp
              then (map_option (set_command_port i None) cs, snd (remove_route (df_path_token f) g), rows)
              else (cs, g, rows)
          | None \<Rightarrow> (cs, g, rows)))"

definition track_command_stopped :: "nat \<Rightarrow> commands_tracked \<Rightarrow> commands_tracked" where
  "track_command_stopped i = (\<lambda>(cs, g, rows).
     case cs of
       None \<Rightarrow> (None, g, rows)
     | Some l \<Rightarrow>
         let g' = (case Option.bind (find_command i cs) rc_port of Some f \<Rightarrow> snd (remove_route (df_path_token f) g) | None \<Rightarrow> g);
             l' = filter (\<lambda>c. rc_index c \<noteq> i) l
         in (if l' = [] then None else Some l', g', rows))"

end
