(* ===== verification/Port_Forwarding_Props.thy ===== *)
theory Port_Forwarding_Props
  imports Port_Forwarding
begin

text \<open>
  The allocator hands out each port once, the scanner keeps its spare ports together, and the trackers keep the
  proxy in step with it.
\<close>

subsection \<open>Allocation\<close>

lemma collect_free_spec:
  assumes "collect_free taken wanted n p free = res" and "length free < wanted"
  shows "case res of
      None \<Rightarrow> length free + card {i. i < n \<and> p + of_nat i \<notin> taken} < wanted
    | Some ps \<Rightarrow> length ps = wanted \<and>
        (\<exists>m \<le> n. ps = free @ filter (\<lambda>q. q \<notin> taken) (List.map (\<lambda>i. p + of_nat i) [0..<m]))"
  using assms
proof (induction n arbitrary: p free res)
  case 0
  then show ?case by auto
next
  case (Suc n)
  have shift: "{i. i < Suc n \<and> p + of_nat i \<notin> taken} =
      (if p \<in> taken then {} else {0}) \<union> Suc ` {i. i < n \<and> p + 1 + of_nat i \<notin> taken}"
    by (force simp: image_iff less_Suc_eq_0_disj algebra_simps)
  have card: "card {i. i < Suc n \<and> p + of_nat i \<notin> taken} =
      (if p \<in> taken then 0 else 1) + card {i. i < n \<and> p + 1 + of_nat i \<notin> taken}"
    unfolding shift by (subst card_Un_disjoint) (auto simp: card_image)
  have upt: "List.map (\<lambda>i. p + of_nat i) [0..<Suc m] = p # List.map (\<lambda>i. p + 1 + of_nat i) [0..<m]" for m
    by (simp only: upt_conv_Cons [OF zero_less_Suc] map_Suc_upt [symmetric] list.map map_map comp_def of_nat_Suc) (simp add: algebra_simps)
  have ex: "\<exists>m \<le> Suc n. ps = free @ filter (\<lambda>q. q \<notin> taken) (List.map (\<lambda>i. p + of_nat i) [0..<m])"
    if some: "\<exists>m \<le> n. ps = free' @ filter (\<lambda>q. q \<notin> taken) (List.map (\<lambda>i. p + 1 + of_nat i) [0..<m])"
      and here: "free' = free @ (if p \<in> taken then [] else [p])" for ps free'
  proof -
    obtain m where "m \<le> n" "ps = free' @ filter (\<lambda>q. q \<notin> taken) (List.map (\<lambda>i. p + 1 + of_nat i) [0..<m])"
      using some by blast
    moreover have "filter (\<lambda>q. q \<notin> taken) (List.map (\<lambda>i. p + of_nat i) [0..<Suc m]) =
        (if p \<in> taken then [] else [p]) @ filter (\<lambda>q. q \<notin> taken) (List.map (\<lambda>i. p + 1 + of_nat i) [0..<m])"
      by (simp only: upt filter.simps if_not_P if_P split: if_split) simp
    ultimately have "ps = free @ filter (\<lambda>q. q \<notin> taken) (List.map (\<lambda>i. p + of_nat i) [0..<Suc m])"
      using here by (simp only: append_assoc)
    then show ?thesis using \<open>m \<le> n\<close> Suc_le_mono by blast
  qed
  have step: ?case
    if ih: "case res of
        None \<Rightarrow> length free' + card {i. i < n \<and> p + 1 + of_nat i \<notin> taken} < wanted
      | Some ps \<Rightarrow> length ps = wanted \<and>
          (\<exists>m \<le> n. ps = free' @ filter (\<lambda>q. q \<notin> taken) (List.map (\<lambda>i. p + 1 + of_nat i) [0..<m]))"
      and here: "free' = free @ (if p \<in> taken then [] else [p])" for free'
  proof (cases res)
    case None
    then show ?thesis using ih here card by (simp split: if_splits)
  next
    case (Some ps)
    then show ?thesis using ih ex [OF _ here, of ps] by simp
  qed
  show ?case
  proof (cases "p \<in> taken")
    case True
    then have "collect_free taken wanted n (p + 1) free = res" using Suc.prems(1) by simp
    from step [OF Suc.IH [OF this Suc.prems(2)]] show ?thesis using True by simp
  next
    case False
    show ?thesis
    proof (cases "length free + 1 = wanted")
      case True
      then have res: "res = Some (free @ [p])" using False Suc.prems by auto
      have "1 \<le> Suc n \<and> free @ [p] = free @ filter (\<lambda>q. q \<notin> taken) (List.map (\<lambda>i. p + of_nat i) [0..<1])"
        using False by simp
      moreover have "length (free @ [p]) = wanted" using True by simp
      ultimately show ?thesis unfolding res option.case by blast
    next
      case neq: False
      then have "collect_free taken wanted n (p + 1) (free @ [p]) = res" using False Suc.prems(1) by simp
      moreover have "length (free @ [p]) < wanted" using neq Suc.prems(2) by simp
      ultimately show ?thesis using step [OF Suc.IH] False by simp
    qed
  qed
qed

text \<open>The range, and how many of its ports are free.\<close>

definition editor_ports :: "port set" where
  "editor_ports = {EDITOR_PORT_MIN..EDITOR_PORT_MAX}"

lemma editor_ports_image: "editor_ports = (\<lambda>i. EDITOR_PORT_MIN + of_nat i) ` {..<10001}"
proof (rule set_eqI, rule iffI)
  fix p assume p: "p \<in> editor_ports"
  then have "unat p \<ge> 9100" "unat p \<le> 19100"
    by (auto simp: editor_ports_def EDITOR_PORT_MIN_def EDITOR_PORT_MAX_def word_le_nat_alt)
  then have "p = EDITOR_PORT_MIN + of_nat (unat p - 9100)" "unat p - 9100 < 10001"
    by (auto simp: EDITOR_PORT_MIN_def of_nat_diff)
  then show "p \<in> (\<lambda>i. EDITOR_PORT_MIN + of_nat i) ` {..<10001}" by blast
next
  fix p assume "p \<in> (\<lambda>i. EDITOR_PORT_MIN + of_nat i) ` {..<10001}"
  then obtain i where "i < 10001" "p = 9100 + of_nat i" by (auto simp: EDITOR_PORT_MIN_def)
  then have "unat p = 9100 + i" by (simp add: unat_word_ariths unat_of_nat)
  then show "p \<in> editor_ports"
    using \<open>i < 10001\<close> by (simp add: editor_ports_def EDITOR_PORT_MIN_def EDITOR_PORT_MAX_def word_le_nat_alt)
qed

lemma editor_ports_inj: "inj_on (\<lambda>i. EDITOR_PORT_MIN + of_nat i) {..<10001}"
  by (rule inj_onI) (auto simp: EDITOR_PORT_MIN_def unat_word_ariths word_unat_eq_iff unat_of_nat)

lemma allocate_eq:
  "allocate_editor_ports docker_used wanted allocated =
     (case collect_free (allocated \<union> set docker_used) wanted 10001 EDITOR_PORT_MIN [] of
        Some free \<Rightarrow> (Some free, allocated \<union> set free)
      | None \<Rightarrow> (None, allocated))"
proof -
  have "unat (EDITOR_PORT_MAX - EDITOR_PORT_MIN) + 1 = 10001" by (simp add: EDITOR_PORT_MAX_def EDITOR_PORT_MIN_def)
  then show ?thesis by (simp only: allocate_editor_ports_def)
qed

lemma collect_none: "collect_free T 0 m p f = None"
  by (induction m arbitrary: p f) auto

lemma allocate_spec:
  "case allocate_editor_ports docker_used wanted allocated of
     (Some ps, allocated') \<Rightarrow> length ps = wanted \<and> distinct ps \<and> wanted > 0 \<and>
       set ps \<subseteq> editor_ports - allocated - set docker_used \<and> allocated' = allocated \<union> set ps
   | (None, allocated') \<Rightarrow> allocated' = allocated \<and>
       (wanted = 0 \<or> card (editor_ports - allocated - set docker_used) < wanted)"
proof (cases "wanted = 0")
  case True
  then show ?thesis by (simp add: allocate_eq collect_none)
next
  case False
  let ?taken = "allocated \<union> set docker_used"
  let ?at = "\<lambda>i. EDITOR_PORT_MIN + of_nat i"
  obtain res where c: "collect_free ?taken wanted 10001 EDITOR_PORT_MIN [] = res" by simp
  note spec = collect_free_spec [OF c]
  show ?thesis
  proof (cases res)
    case None
    have "editor_ports - allocated - set docker_used = ?at ` {i. i < 10001 \<and> ?at i \<notin> ?taken}"
      unfolding editor_ports_image by auto
    then have "card (editor_ports - allocated - set docker_used) = card {i. i < 10001 \<and> ?at i \<notin> ?taken}"
      using inj_on_subset [OF editor_ports_inj] by (simp add: card_image subset_iff)
    then show ?thesis using spec None False by (simp add: allocate_eq c)
  next
    case (Some ps)
    then obtain m where m: "m \<le> 10001" "ps = filter (\<lambda>q. q \<notin> ?taken) (List.map ?at [0..<m])" "length ps = wanted"
      using spec False by auto
    have "inj_on ?at (set [0..<m])" by (rule inj_on_subset [OF editor_ports_inj]) (use m(1) in auto)
    then have "distinct (List.map ?at [0..<m])" by (subst distinct_map) simp
    then have "distinct ps" using m(2) by simp
    moreover have "set ps \<subseteq> editor_ports - ?taken" using m(1,2) by (auto simp: editor_ports_image)
    ultimately show ?thesis using m(3) Some False by (auto simp: allocate_eq c)
  qed
qed

text \<open>
  C13: an allocation gives exactly as many ports as were asked for, different, from the range, and none of them
  recorded as allocated or seen in use by Docker; it records them. It fails only when nothing was asked for or
  when fewer ports are free, and then changes nothing.
\<close>
theorem allocated_ports_are_free:
  "case allocate_editor_ports docker_used wanted allocated of
     (Some ps, allocated') \<Rightarrow> length ps = wanted \<and> distinct ps \<and> wanted > 0 \<and>
       set ps \<subseteq> editor_ports - allocated - set docker_used \<and> allocated' = allocated \<union> set ps
   | (None, allocated') \<Rightarrow> allocated' = allocated \<and>
       (wanted = 0 \<or> card (editor_ports - allocated - set docker_used) < wanted)"
  by (rule allocate_spec)

text \<open>The contract its clients use: two callers never hold the same port.\<close>

locale port_pool =
  fixes take_ports :: "nat \<Rightarrow> port set \<Rightarrow> port list option \<times> port set"
    and give_back :: "port list \<Rightarrow> port set \<Rightarrow> port set"
  assumes fresh: "take_ports k held = (Some ps, held') \<Longrightarrow> distinct ps \<and> set ps \<inter> held = {} \<and> held' = held \<union> set ps"
    and refused: "take_ports k held = (None, held') \<Longrightarrow> held' = held"
    and returned: "give_back ps held = held - set ps"
begin

lemma take_twice:
  assumes "take_ports k held = (Some ps, held1)" and "take_ports l held1 = (Some qs, held2)"
  shows "set ps \<inter> set qs = {}" and "set ps \<union> set qs \<subseteq> held2"
  using fresh [OF assms(1)] fresh [OF assms(2)] by auto

lemma take_then_return: "take_ports k held = (Some ps, held') \<Longrightarrow> give_back ps held' = held"
  using fresh returned by fastforce

end

lemma allocate_fresh:
  assumes "allocate_editor_ports docker_used k held = (r, held')"
  shows "case r of Some ps \<Rightarrow> distinct ps \<and> set ps \<inter> held = {} \<and> held' = held \<union> set ps | None \<Rightarrow> held' = held"
  using allocate_spec [where docker_used = docker_used and wanted = k and allocated = held] assms by (cases r) auto

interpretation editor_pool: port_pool "allocate_editor_ports docker_used" release_editor_ports for docker_used
  by unfold_locales (use allocate_fresh in \<open>fastforce simp: release_editor_ports_def\<close>)+

subsection \<open>The scanner keeps its ports\<close>

text \<open>
  Every spare port is either in use for one forwarded port or in the pool, and no port is forwarded that was there
  before the scanner, belongs to it or lies in the range it forwards to.
\<close>

definition scanner_ok :: "port list \<Rightarrow> scanner \<Rightarrow> bool" where
  "scanner_ok pool sc \<longleftrightarrow> distinct (List.map fst (sc_active sc)) \<and>
     mset (List.map snd (sc_active sc)) + mset (sc_spares sc) = mset pool \<and>
     (\<forall>p \<in> set (List.map fst (sc_active sc)). p \<notin> set (sc_ignore sc) \<and> p \<notin> set (sc_baseline sc) \<and> p \<notin> editor_ports)"

lemma detect_port_cases:
  assumes "detect_port socat (p, family) (sc, evs) = (sc', evs')"
  shows "(sc', evs') = (sc, evs) \<or>
    (\<not> skipped sc p \<and> sc_spares sc \<noteq> [] \<and>
     sc' = sc\<lparr>sc_active := (p, last (sc_spares sc)) # sc_active sc, sc_spares := butlast (sc_spares sc)\<rparr> \<and>
     evs' = evs @ [Forwarded p (last (sc_spares sc))])"
  using assms by (auto simp: detect_port_def Let_def editor_host_port_def split: if_splits)

lemma forget_port_cases:
  assumes "forget_port p (sc, evs) = (sc', evs')"
  shows "(sc', evs') = (sc, evs) \<and> map_of (sc_active sc) p = None \<or>
    (\<exists>spare. map_of (sc_active sc) p = Some spare \<and>
     sc' = sc\<lparr>sc_active := AList.delete p (sc_active sc), sc_spares := sc_spares sc @ [spare]\<rparr> \<and>
     evs' = evs @ [Unforwarded p spare])"
  using assms by (auto simp: forget_port_def editor_host_port_def split: option.splits)

lemma mset_last: "xs \<noteq> [] \<Longrightarrow> add_mset (last xs) (mset (butlast xs)) = mset xs"
  by (metis append_butlast_last_id mset.simps(1,2) mset_append add_mset_add_single)

lemma mset_delete:
  "distinct (List.map fst kvs) \<Longrightarrow> map_of kvs k = Some v \<Longrightarrow>
   add_mset v (mset (List.map snd (AList.delete k kvs))) = mset (List.map snd kvs)"
proof (induction kvs)
  case (Cons kv kvs)
  obtain k' v' where kv: "kv = (k', v')" by (cases kv)
  show ?case
  proof (cases "k' = k")
    case True
    then have "AList.delete k (kv # kvs) = kvs" using Cons.prems(1) by (simp add: kv delete_idem)
    then show ?thesis using Cons.prems(2) True by (simp add: kv)
  next
    case False
    then have "AList.delete k (kv # kvs) = kv # AList.delete k kvs" by (simp add: kv)
    then show ?thesis using Cons.IH Cons.prems False by (simp add: kv)
  qed
qed simp

lemma detect_port_ok:
  assumes "scanner_ok pool sc" and "detect_port socat x (sc, evs) = (sc', evs')"
  shows "scanner_ok pool sc'"
proof -
  obtain p family where x: "x = (p, family)" by (cases x)
  from detect_port_cases [OF assms(2) [unfolded x]] show ?thesis
  proof
    assume new: "\<not> skipped sc p \<and> sc_spares sc \<noteq> [] \<and>
      sc' = sc\<lparr>sc_active := (p, last (sc_spares sc)) # sc_active sc, sc_spares := butlast (sc_spares sc)\<rparr> \<and>
      evs' = evs @ [Forwarded p (last (sc_spares sc))]"
    then have "p \<notin> set (List.map fst (sc_active sc))"
      by (auto simp: skipped_def map_of_eq_None_iff image_iff)
    moreover have "mset (List.map snd (sc_active sc')) + mset (sc_spares sc') = mset (List.map snd (sc_active sc)) + mset (sc_spares sc)"
      using new by (simp flip: mset_last [of "sc_spares sc"])
    then have "mset (List.map snd (sc_active sc')) + mset (sc_spares sc') = mset pool"
      using assms(1) by (simp only: scanner_ok_def)
    ultimately show ?thesis using new assms(1) by (auto simp: scanner_ok_def skipped_def editor_ports_def)
  qed (use assms(1) in simp)
qed

lemma forget_port_ok:
  assumes "scanner_ok pool sc" and "forget_port p (sc, evs) = (sc', evs')"
  shows "scanner_ok pool sc'"
proof -
  have d: "distinct (List.map fst (sc_active sc))" using assms(1) by (simp add: scanner_ok_def)
  from forget_port_cases [OF assms(2)] show ?thesis
  proof
    assume "\<exists>spare. map_of (sc_active sc) p = Some spare \<and>
      sc' = sc\<lparr>sc_active := AList.delete p (sc_active sc), sc_spares := sc_spares sc @ [spare]\<rparr> \<and> evs' = evs @ [Unforwarded p spare]"
    then obtain spare where spare: "map_of (sc_active sc) p = Some spare"
      and sc': "sc' = sc\<lparr>sc_active := AList.delete p (sc_active sc), sc_spares := sc_spares sc @ [spare]\<rparr>" by blast
    have "mset (List.map snd (sc_active sc')) + mset (sc_spares sc') = mset (List.map snd (sc_active sc)) + mset (sc_spares sc)"
      unfolding mset_delete [OF d spare, symmetric] by (simp add: sc')
    then have "mset (List.map snd (sc_active sc')) + mset (sc_spares sc') = mset pool"
      using assms(1) by (simp only: scanner_ok_def)
    then show ?thesis using assms(1) d by (auto simp: scanner_ok_def sc' delete_keys distinct_removeAll)
  qed (use assms(1) in simp)
qed

subsection \<open>The trackers follow\<close>

text \<open>
  The forwards a tracker keeps are forwards of the scanner, each served under its own token; the tokens of others
  are as they were. With random tokens that are fresh, the tracker keeps all of them.
\<close>

definition forward_pair :: "dynamic_forward \<Rightarrow> port \<times> port" where
  "forward_pair f = (df_container_port f, df_host_port f)"

definition fresh_draws :: "(nat \<Rightarrow> string) \<Rightarrow> registry \<Rightarrow> bool" where
  "fresh_draws draw g \<longleftrightarrow> inj draw \<and> (\<forall>n \<ge> rg_draws g. lookup_route g (draw n) = None)"

definition in_step :: "(nat \<Rightarrow> string) \<Rightarrow> string \<Rightarrow> string \<Rightarrow> registry \<Rightarrow> scanner \<Rightarrow> tracked \<Rightarrow> bool" where
  "in_step draw ticket user g0 sc = (\<lambda>(fwds, g, rows).
     registry_ok g \<and> distinct (List.map df_container_port fwds) \<and> distinct (List.map df_path_token fwds) \<and>
     forward_pair ` set fwds \<subseteq> set (sc_active sc) \<and>
     (\<forall>f \<in> set fwds. lookup_route g0 (df_path_token f) = None \<and>
        lookup_route g (df_path_token f) = Some (dynamic_route ticket user (df_host_port f))) \<and>
     (\<forall>t. t \<notin> df_path_token ` set fwds \<longrightarrow> lookup_route g t = lookup_route g0 t) \<and>
     (fresh_draws draw g0 \<longrightarrow> fresh_draws draw g \<and> forward_pair ` set fwds = set (sc_active sc)))"

lemma register_route_fresh:
  assumes "fresh_draws draw g" and "register_route draw r g = (x, g')"
  shows "x \<noteq> None" and "fresh_draws draw g'"
proof -
  let ?g = "g\<lparr>rg_draws := Suc (rg_draws g)\<rparr>"
  have same: "lookup_route ?g = lookup_route g" by (simp add: lookup_route_def fun_eq_iff)
  have none: "lookup_route g (draw (rg_draws g)) = None" using assms(1) by (simp add: fresh_draws_def)
  have "register_route draw r g =
      (Some (draw (rg_draws g)), ?g\<lparr>rg_routes := (draw (rg_draws g), r) # rg_routes g\<rparr>)"
    using none by (simp add: register_route_def numeral_eq_Suc register_with_token_def same Let_def)
  then have x: "x = Some (draw (rg_draws g))" and g': "g' = ?g\<lparr>rg_routes := (draw (rg_draws g), r) # rg_routes g\<rparr>"
    using assms(2) by auto
  show "x \<noteq> None" by (simp add: x)
  show "fresh_draws draw g'"
    using assms(1) by (auto simp: fresh_draws_def g' lookup_route_def dest: injD)
qed

lemma register_route_ok: "registry_ok g \<Longrightarrow> registry_ok (snd (register_route draw r g))"
  unfolding register_route_def by (rule register_tries_ok)

lemma track_forwarded:
  assumes st: "in_step draw ticket user g0 sc (fwds, g, rows)" and new: "p \<notin> fst ` set (sc_active sc)"
  shows "in_step draw ticket user g0 (sc\<lparr>sc_active := (p, spare) # sc_active sc, sc_spares := sp\<rparr>)
    (track_event draw ticket user (Forwarded p spare) (fwds, g, rows))"
proof -
  have sub: "forward_pair ` set fwds \<subseteq> set (sc_active sc)" using st by (simp add: in_step_def)
  then have "df_container_port f \<noteq> p" if "f \<in> set fwds" for f
    using that new by (force simp: forward_pair_def)
  then have cp: "\<not> list_ex (\<lambda>f. df_container_port f = p) fwds" by (auto simp: list_ex_iff)
  obtain x g' where r: "register_route draw (dynamic_route ticket user spare) g = (x, g')" by fastforce
  note result = register_route_result [OF r]
  have ok: "registry_ok g'" using st register_route_ok [of g draw "dynamic_route ticket user spare"] by (simp add: in_step_def r)
  have fresh: "fresh_draws draw g0 \<Longrightarrow> x \<noteq> None \<and> fresh_draws draw g'"
    using st register_route_fresh [OF _ r] by (auto simp: in_step_def)
  show ?thesis
  proof (cases x)
    case None
    then have "lookup_route g' = lookup_route g" using result by (auto simp: lookup_route_def fun_eq_iff)
    then show ?thesis using st cp ok fresh None by (auto simp: in_step_def track_event_def register_forward_def r)
  next
    case (Some token)
    then have free: "lookup_route g token = None" and g': "lookup_route g' = (lookup_route g)(token \<mapsto> dynamic_route ticket user spare)"
      using result by auto
    have "token \<notin> df_path_token ` set fwds" using st free by (auto simp: in_step_def)
    moreover from this have "lookup_route g0 token = None" using st free by (simp add: in_step_def)
    moreover have "p \<notin> df_container_port ` set fwds" using cp by (auto simp: list_ex_iff)
    ultimately show ?thesis
      using st cp ok fresh Some
      by (auto simp: in_step_def track_event_def register_forward_def r g' Let_def forward_pair_def)
  qed
qed

lemma remove_at_distinct:
  assumes "i < length xs" and "distinct (List.map h xs)"
  shows "set (remove_at i xs) = set xs - {xs ! i}" and "distinct (List.map h (remove_at i xs))"
    and "h ` set (remove_at i xs) = h ` set xs - {h (xs ! i)}"
proof -
  have split: "xs = take i xs @ [xs ! i] @ drop (Suc i) xs" using assms(1) by (rule remove_at_split)
  have "distinct (List.map h (take i xs @ [xs ! i] @ drop (Suc i) xs))" using assms(2) split by metis
  then have d: "h (xs ! i) \<notin> h ` (set (take i xs) \<union> set (drop (Suc i) xs))"
    "distinct (List.map h (take i xs))" "distinct (List.map h (drop (Suc i) xs))"
    "h ` set (take i xs) \<inter> h ` set (drop (Suc i) xs) = {}"
    by auto
  have set: "set xs = insert (xs ! i) (set (remove_at i xs))"
    by (subst split) (auto simp: remove_at_def)
  have notin: "h (xs ! i) \<notin> h ` set (remove_at i xs)" using d(1) by (auto simp: remove_at_def)
  show "set (remove_at i xs) = set xs - {xs ! i}" unfolding set using notin by auto
  show "distinct (List.map h (remove_at i xs))" using d by (simp add: remove_at_def)
  show "h ` set (remove_at i xs) = h ` set xs - {h (xs ! i)}" unfolding set using notin by auto
qed

lemma track_unforwarded:
  assumes st: "in_step draw ticket user g0 sc (fwds, g, rows)" and d: "distinct (List.map fst (sc_active sc))"
    and p: "map_of (sc_active sc) p = Some spare"
  shows "in_step draw ticket user g0 (sc\<lparr>sc_active := AList.delete p (sc_active sc), sc_spares := sp\<rparr>)
    (track_event draw ticket user (Unforwarded p h) (fwds, g, rows))"
proof -
  have active: "set (AList.delete p (sc_active sc)) = {x \<in> set (sc_active sc). fst x \<noteq> p}"
    by (auto simp: AList.delete_eq)
  have sub: "forward_pair ` set fwds \<subseteq> set (sc_active sc)" using st by (simp add: in_step_def)
  show ?thesis
  proof (cases "position (\<lambda>f. df_container_port f = p) fwds")
    case None
    then have none: "df_container_port f \<noteq> p" if "f \<in> set fwds" for f using that by (auto simp: position_None)
    then have "(p, spare) \<notin> forward_pair ` set fwds" by (auto simp: forward_pair_def)
    then have "\<not> fresh_draws draw g0" using st map_of_SomeD [OF p] by (auto simp: in_step_def)
    moreover have "forward_pair ` set fwds \<subseteq> set (AList.delete p (sc_active sc))"
      using sub unfolding active by (auto simp: forward_pair_def dest: none)
    ultimately show ?thesis using st None by (simp add: in_step_def track_event_def)
  next
    case (Some i)
    then have i: "i < length fwds" "df_container_port (fwds ! i) = p" using position_Some by force+
    let ?f = "fwds ! i" and ?rest = "remove_at i fwds"
    have dc: "distinct (List.map df_container_port fwds)" and dt: "distinct (List.map df_path_token fwds)"
      using st by (simp_all add: in_step_def)
    note rc = remove_at_distinct [OF i(1) dc] and rt = remove_at_distinct [OF i(1) dt]
    let ?g = "keep_routes (\<lambda>(t, _). t \<noteq> df_path_token ?f) g"
    have ok: "registry_ok g" using st by (simp add: in_step_def)
    have look: "lookup_route ?g t = (if t = df_path_token ?f then None else lookup_route g t)" for t
    proof (cases "lookup_route ?g t")
      case None
      then show ?thesis using lookup_keep [OF ok, of "\<lambda>(t, _). t \<noteq> df_path_token ?f" t]
        by (cases "lookup_route g t") auto
    next
      case (Some r)
      then show ?thesis using lookup_keep [OF ok, of "\<lambda>(t, _). t \<noteq> df_path_token ?f" t r] by auto
    qed
    have "?f \<in> set fwds" using i(1) by simp
    then have f0: "lookup_route g0 (df_path_token ?f) = None" using st by (auto simp: in_step_def)
    have toks: "df_path_token f \<noteq> df_path_token ?f" if "f \<in> set ?rest" for f
      using rt(3) that by blast
    have pairs: "forward_pair ` set ?rest = {x \<in> forward_pair ` set fwds. fst x \<noteq> p}"
      using rc(3) i(2) unfolding rc(1) by (force simp: forward_pair_def)
    have fresh: "fresh_draws draw g \<Longrightarrow> fresh_draws draw ?g"
      by (auto simp: fresh_draws_def look) (simp add: keep_routes_def)
    have ev: "track_event draw ticket user (Unforwarded p h) (fwds, g, rows) = (?rest, ?g, rows)"
      by (simp add: track_event_def Some remove_route_def)
    have others: "lookup_route ?g t = lookup_route g0 t" if "t \<notin> df_path_token ` set ?rest" for t
      using that st f0 unfolding rt(3) by (cases "t = df_path_token ?f") (auto simp: look in_step_def)
    have mine: "lookup_route g0 (df_path_token f) = None \<and>
        lookup_route ?g (df_path_token f) = Some (dynamic_route ticket user (df_host_port f))" if "f \<in> set ?rest" for f
      using that toks [OF that] st by (auto simp: look in_step_def rc(1))
    show ?thesis
      unfolding ev
      using st rc(2) rt(2) pairs fresh others mine registry_ok_operations(2) [OF ok]
      by (auto simp: in_step_def active)
  qed
qed

subsection \<open>A run of the scanner, tracked\<close>

type_synonym scan_input =
  "((port \<times> port) list \<Rightarrow> (port \<times> port) list) \<times> (port \<Rightarrow> port \<Rightarrow> listen_family \<Rightarrow> bool) \<times> (port \<times> listen_family) list option"

definition run_scanner :: "scan_input list \<Rightarrow> scanner \<Rightarrow> scanner \<times> port_event list" where
  "run_scanner passes sc =
     fold (\<lambda>(order, socat, found) (sc, evs). case scan_pass order socat found sc of (sc', later) \<Rightarrow> (sc', evs @ later))
       passes (sc, [])"

definition followed ::
  "(nat \<Rightarrow> string) \<Rightarrow> string \<Rightarrow> string \<Rightarrow> registry \<Rightarrow> port list \<Rightarrow> tracked \<Rightarrow> scanner \<times> port_event list \<Rightarrow> bool" where
  "followed draw ticket user g0 pool start x \<longleftrightarrow>
     scanner_ok pool (fst x) \<and> in_step draw ticket user g0 (fst x) (track_port_forwards draw ticket user (snd x) start)"

lemma track_snoc:
  "track_port_forwards draw ticket user (evs @ [ev]) start =
     track_event draw ticket user ev (track_port_forwards draw ticket user evs start)"
  by (simp add: track_port_forwards_def)

lemma track_append:
  "track_port_forwards draw ticket user (evs @ later) start =
     track_port_forwards draw ticket user later (track_port_forwards draw ticket user evs start)"
  by (simp add: track_port_forwards_def)

lemma detect_followed:
  assumes "followed draw ticket user g0 pool start x"
  shows "followed draw ticket user g0 pool start (detect_port socat y x)"
proof -
  obtain sc evs where x: "x = (sc, evs)" by (cases x)
  obtain p family where y: "y = (p, family)" by (cases y)
  obtain sc' evs' where s: "detect_port socat y x = (sc', evs')" by (cases "detect_port socat y x")
  obtain fwds g rows where t: "track_port_forwards draw ticket user evs start = (fwds, g, rows)"
    by (cases "track_port_forwards draw ticket user evs start")
  have st: "in_step draw ticket user g0 sc (fwds, g, rows)" and ok: "scanner_ok pool sc"
    using assms by (simp_all add: followed_def x t)
  have ok': "scanner_ok pool sc'" using detect_port_ok [OF ok] s by (simp add: x)
  from detect_port_cases [OF s [unfolded x y]] show ?thesis
  proof
    assume new: "\<not> skipped sc p \<and> sc_spares sc \<noteq> [] \<and>
      sc' = sc\<lparr>sc_active := (p, last (sc_spares sc)) # sc_active sc, sc_spares := butlast (sc_spares sc)\<rparr> \<and>
      evs' = evs @ [Forwarded p (last (sc_spares sc))]"
    then have "p \<notin> fst ` set (sc_active sc)" by (auto simp: skipped_def map_of_eq_None_iff)
    from track_forwarded [OF st this] new ok' show ?thesis by (simp add: followed_def s track_snoc t)
  qed (use assms s x in simp)
qed

lemma forget_followed:
  assumes "followed draw ticket user g0 pool start x"
  shows "followed draw ticket user g0 pool start (forget_port p x)"
proof -
  obtain sc evs where x: "x = (sc, evs)" by (cases x)
  obtain sc' evs' where s: "forget_port p x = (sc', evs')" by (cases "forget_port p x")
  obtain fwds g rows where t: "track_port_forwards draw ticket user evs start = (fwds, g, rows)"
    by (cases "track_port_forwards draw ticket user evs start")
  have st: "in_step draw ticket user g0 sc (fwds, g, rows)" and ok: "scanner_ok pool sc"
    using assms by (simp_all add: followed_def x t)
  have ok': "scanner_ok pool sc'" using forget_port_ok [OF ok] s by (simp add: x)
  have d: "distinct (List.map fst (sc_active sc))" using ok by (simp add: scanner_ok_def)
  from forget_port_cases [OF s [unfolded x]] show ?thesis
  proof
    assume "\<exists>spare. map_of (sc_active sc) p = Some spare \<and>
      sc' = sc\<lparr>sc_active := AList.delete p (sc_active sc), sc_spares := sc_spares sc @ [spare]\<rparr> \<and> evs' = evs @ [Unforwarded p spare]"
    then obtain spare where spare: "map_of (sc_active sc) p = Some spare"
      and new: "sc' = sc\<lparr>sc_active := AList.delete p (sc_active sc), sc_spares := sc_spares sc @ [spare]\<rparr>"
        "evs' = evs @ [Unforwarded p spare]" by blast
    from track_unforwarded [OF st d spare] new ok' show ?thesis by (simp add: followed_def s track_snoc t)
  qed (use assms s x in simp)
qed

lemma fold_keeps: "(\<And>y x. I x \<Longrightarrow> I (f y x)) \<Longrightarrow> I x \<Longrightarrow> I (fold f ys x)"
  by (induction ys arbitrary: x) auto

lemma scan_pass_followed:
  assumes "followed draw ticket user g0 pool start (sc, evs)" and "scan_pass order socat found sc = (sc', later)"
  shows "followed draw ticket user g0 pool start (sc', evs @ later)"
proof -
  let ?start = "track_port_forwards draw ticket user evs start"
  have shift: "followed draw ticket user g0 pool ?start (s, es) \<longleftrightarrow> followed draw ticket user g0 pool start (s, evs @ es)" for s es
    by (simp add: followed_def track_append)
  have "followed draw ticket user g0 pool ?start (sc, [])" using assms(1) shift [of sc "[]"] by simp
  then have pass: "followed draw ticket user g0 pool ?start (fold (detect_port socat) listening (sc, []))" for listening
    by (rule fold_keeps [rotated]) (rule detect_followed)
  have "followed draw ticket user g0 pool ?start (scan_pass order socat found sc)"
  proof (cases found)
    case None
    then show ?thesis using shift [of sc "[]"] assms(1) by (simp add: scan_pass_def)
  next
    case (Some listening)
    obtain sc1 es where f: "fold (detect_port socat) listening (sc, []) = (sc1, es)" by fastforce
    have "followed draw ticket user g0 pool ?start (fold forget_port gone (sc1, es))" for gone
      using pass [of listening] unfolding f by (rule fold_keeps [rotated]) (rule forget_followed)
    then show ?thesis by (simp add: scan_pass_def Some f)
  qed
  then show ?thesis using shift assms(2) by simp
qed

lemma scan_pass_fixed:
  "sc_ignore (fst (scan_pass order socat found sc)) = sc_ignore sc \<and> sc_baseline (fst (scan_pass order socat found sc)) = sc_baseline sc"
proof -
  let ?I = "\<lambda>x. sc_ignore (fst x) = sc_ignore sc \<and> sc_baseline (fst x) = sc_baseline sc"
  have "?I x \<Longrightarrow> ?I (detect_port socat y x)" for y and x :: "scanner \<times> port_event list"
    by (auto simp: detect_port_def Let_def split: prod.splits)
  moreover have "?I x \<Longrightarrow> ?I (forget_port p x)" for p and x :: "scanner \<times> port_event list"
    by (auto simp: forget_port_def split: prod.splits option.splits)
  ultimately have "?I (fold forget_port gone (fold (detect_port socat) listening (sc, [])))" for gone listening
    by (intro fold_keeps [where I = ?I]) auto
  then show ?thesis by (auto simp: scan_pass_def Let_def split: option.split prod.split) (metis fst_conv)+
qed

lemma run_scanner_fixed:
  "sc_ignore (fst (run_scanner passes sc)) = sc_ignore sc \<and> sc_baseline (fst (run_scanner passes sc)) = sc_baseline sc"
  unfolding run_scanner_def
proof (rule fold_keeps [where I = "\<lambda>x. sc_ignore (fst x) = sc_ignore sc \<and> sc_baseline (fst x) = sc_baseline sc"])
  fix y :: scan_input and x :: "scanner \<times> port_event list"
  assume x: "sc_ignore (fst x) = sc_ignore sc \<and> sc_baseline (fst x) = sc_baseline sc"
  obtain order socat found where y: "y = (order, socat, found)" by (cases y)
  obtain sc1 evs where xe: "x = (sc1, evs)" by (cases x)
  obtain sc2 later where p: "scan_pass order socat found sc1 = (sc2, later)" by fastforce
  from scan_pass_fixed [of order socat found sc1] x
  show "sc_ignore (fst ((\<lambda>(order, socat, found) (sc, evs). case scan_pass order socat found sc of (sc', later) \<Rightarrow> (sc', evs @ later)) y x)) = sc_ignore sc \<and>
    sc_baseline (fst ((\<lambda>(order, socat, found) (sc, evs). case scan_pass order socat found sc of (sc', later) \<Rightarrow> (sc', evs @ later)) y x)) = sc_baseline sc"
    by (simp add: y xe p)
qed simp

lemma run_scanner_followed:
  assumes "followed draw ticket user g0 pool start (sc, [])"
  shows "followed draw ticket user g0 pool start (run_scanner passes sc)"
  unfolding run_scanner_def
proof (rule fold_keeps [where f = "\<lambda>(order, socat, found) (sc, evs).
    case scan_pass order socat found sc of (sc', later) \<Rightarrow> (sc', evs @ later)"])
  fix y :: scan_input and x assume x: "followed draw ticket user g0 pool start x"
  obtain order socat found where y: "y = (order, socat, found)" by (cases y)
  obtain sc evs where "x = (sc, evs)" by (cases x)
  with x scan_pass_followed [of draw ticket user g0 pool start sc evs order socat found]
  show "followed draw ticket user g0 pool start ((\<lambda>(order, socat, found) (sc, evs).
      case scan_pass order socat found sc of (sc', later) \<Rightarrow> (sc', evs @ later)) y x)"
    by (simp add: y split: prod.split)
qed (rule assms)

lemma start_followed:
  assumes "registry_ok g" and "sc_active sc = []" and "sc_spares sc = pool"
  shows "followed draw ticket user g pool ([], g, []) (sc, [])"
  using assms by (auto simp: followed_def scanner_ok_def in_step_def track_port_forwards_def)

text \<open>
  C12: however often the editor's scanner runs and whatever it sees, its spare ports are the ports it was given, it
  forwards each port once, and none that was there before it, is its own or lies in the managed range. The tracker
  that gets all its events keeps only forwards of the scanner, serves each to the owner under a token of its own,
  and leaves the other tokens alone; when the random tokens are fresh it keeps all of them.
\<close>
theorem tracker_follows_scanner:
  assumes "registry_ok g0" and "run_scanner passes (editor_scanner vscode_port pool baseline) = (sc, evs)"
    and "track_port_forwards draw ticket user evs ([], g0, []) = (fwds, g, rows)"
  shows "distinct (List.map fst (sc_active sc)) \<and>
    mset (List.map snd (sc_active sc)) + mset (sc_spares sc) = mset pool \<and>
    (\<forall>p \<in> fst ` set (sc_active sc). p \<noteq> vscode_port \<and> p \<notin> set pool \<and> p \<notin> set (ports_of_scan baseline) \<and> p \<notin> editor_ports) \<and>
    registry_ok g \<and> distinct (List.map df_path_token fwds) \<and> distinct (List.map df_container_port fwds) \<and>
    forward_pair ` set fwds \<subseteq> set (sc_active sc) \<and>
    (\<forall>f \<in> set fwds. lookup_route g (df_path_token f) = Some (dynamic_route ticket user (df_host_port f))) \<and>
    (\<forall>t. t \<notin> df_path_token ` set fwds \<longrightarrow> lookup_route g t = lookup_route g0 t) \<and>
    (fresh_draws draw g0 \<longrightarrow> forward_pair ` set fwds = set (sc_active sc))"
proof -
  let ?sc = "editor_scanner vscode_port pool baseline"
  have "followed draw ticket user g0 pool ([], g0, []) (run_scanner passes ?sc)"
    by (rule run_scanner_followed, rule start_followed) (use assms(1) in \<open>simp_all add: editor_scanner_def\<close>)
  then have ok: "scanner_ok pool sc" and st: "in_step draw ticket user g0 sc (fwds, g, rows)"
    by (simp_all add: followed_def assms)
  have "sc_ignore (fst (run_scanner passes ?sc)) = vscode_port # pool \<and>
      sc_baseline (fst (run_scanner passes ?sc)) = ports_of_scan baseline"
    using run_scanner_fixed [of passes ?sc] by (simp add: editor_scanner_def)
  then show ?thesis using ok st by (auto simp: assms(2) scanner_ok_def in_step_def)
qed

text \<open>A web server and a debugger appear, then the server goes.\<close>

definition sample_passes :: "scan_input list" where
  "sample_passes =
     [(\<lambda>kvs. kvs, \<lambda>_ _ _. True, Some [(80, Ipv4), (3, Ipv4), (81, Ipv6)]),
      (\<lambda>kvs. kvs, \<lambda>_ _ _. True, None),
      (\<lambda>kvs. kvs, \<lambda>_ _ _. True, Some [(81, Ipv6)])]"

definition sample_draw :: "nat \<Rightarrow> string" where
  "sample_draw n = replicate (Suc n) (CHR ''x'')"

definition sample_routes :: registry where
  "sample_routes = \<lparr>rg_routes = [], rg_draws = 0\<rparr>"

definition sample_end :: scanner where
  "sample_end = \<lparr>sc_ignore = [9, 90, 91], sc_baseline = [3], sc_active = [(81, 90)], sc_spares = [91]\<rparr>"

definition sample_forward :: dynamic_forward where
  "sample_forward = \<lparr>df_container_port = 81, df_host_port = 90, df_proxy_url = ''/s/xx/'', df_path_token = ''xx''\<rparr>"

lemma sample_run:
  "run_scanner sample_passes (editor_scanner 9 [90, 91] (Some [(3, Ipv4)])) =
     (sample_end, [Forwarded 80 91, Forwarded 81 90, Unforwarded 80 91])"
  by code_simp

lemma sample_track:
  "track_port_forwards sample_draw ''K'' ''u'' [Forwarded 80 91, Forwarded 81 90, Unforwarded 80 91] ([], sample_routes, []) =
     ([sample_forward],
      \<lparr>rg_routes = [(''xx'', dynamic_route ''K'' ''u'' 90)], rg_draws = 2\<rparr>,
      [\<lparr>pu_container_port = 80, pu_host_port = 91, pu_proxy_url = ''/s/x/'', pu_path_token = ''x'', pu_command = None\<rparr>,
       \<lparr>pu_container_port = 81, pu_host_port = 90, pu_proxy_url = ''/s/xx/'', pu_path_token = ''xx'', pu_command = None\<rparr>])"
  by code_simp

lemma sample_fresh: "fresh_draws sample_draw sample_routes"
  by (auto simp: fresh_draws_def sample_draw_def sample_routes_def lookup_route_def inj_def)

lemma tracker_follows_scanner_witness:
  "fst (run_scanner sample_passes (editor_scanner 9 [90, 91] (Some [(3, Ipv4)]))) = sample_end \<and>
   mset (List.map snd (sc_active sample_end)) + mset (sc_spares sample_end) = mset [90, 91] \<and>
   forward_pair ` set [sample_forward] = set (sc_active sample_end)"
proof -
  have "registry_ok sample_routes" by (simp add: registry_ok_def sample_routes_def)
  from tracker_follows_scanner [OF this sample_run sample_track] sample_fresh sample_run
  show ?thesis by simp
qed

subsection \<open>Where the trackers and the scanner part\<close>

text \<open>An event the tracker does not get, as when its channel lags: the route outlives the forward.\<close>

lemma lost_event_leaves_route:
  "sc_active sample_end = [(81, 90)] \<and>
   lookup_route (fst (snd (track_port_forwards sample_draw ''K'' ''u'' [Forwarded 80 91, Forwarded 81 90] ([], sample_routes, [])))) ''x'' =
     Some (dynamic_route ''K'' ''u'' 91)"
  by code_simp

text \<open>
  The token of a run command is taken by the first port it forwards. The row shows the second port, the token
  still leads to the first; and when the second goes, the first loses its route.
\<close>

definition sample_command :: active_run_command where
  "sample_command = \<lparr>rc_index = 0, rc_name = ''dev'', rc_cancel = 0, rc_port = None\<rparr>"

lemma second_port_of_command:
  assumes "track_command_event ''K'' ''u'' ''t'' ''/s/t/'' 0 (Forwarded 81 90)
      (track_command_event ''K'' ''u'' ''t'' ''/s/t/'' 0 (Forwarded 80 91) (Some [sample_command], sample_routes, [])) = (cs, g, rows)"
  shows "map_option df_host_port (Option.bind (find_command 0 cs) rc_port) = Some 90"
    and "lookup_route g ''t'' = Some (dynamic_route ''K'' ''u'' 91)"
    and "lookup_route (fst (snd (track_command_event ''K'' ''u'' ''t'' ''/s/t/'' 0 (Unforwarded 81 90) (cs, g, rows)))) ''t'' = None"
  using assms
  by (auto simp: track_command_event_def set_command_port_def find_command_def sample_command_def
      sample_routes_def register_with_token_def lookup_route_def Let_def remove_route_def keep_routes_def)

text \<open>
  The terminal takes the highest free port of the pool's tail, which is the one the scanner would take next; when
  every port of the tail listens, it takes the last one all the same.
\<close>

lemma terminal_takes_top_spare:
  assumes "last ps \<notin> set listening" and "length ps \<ge> 2"
  shows "pick_terminal_port (Some ps) listening = Some (last (sc_spares (editor_scanner v ps b)))"
proof -
  obtain a qs q where "ps = a # qs @ [q]"
    using assms(2) by (metis One_nat_def Suc_1 Suc_le_length_iff append_butlast_last_id list.distinct(1))
  then show ?thesis using assms by (simp add: pick_terminal_port_def editor_scanner_def)
qed

lemma terminal_takes_listening_port:
  assumes "set ps \<subseteq> set listening" and "length ps \<ge> 2"
  shows "pick_terminal_port (Some ps) listening = Some (last ps)"
proof -
  have "List.find (\<lambda>p. p \<notin> set listening) (rev (tl ps)) = None"
    using assms(1) by (auto simp: find_None_iff dest: list.set_sel(2) [rotated])
      (metis list.sel(2) list.set_sel(2) subsetD)
  then show ?thesis using assms(2) by (simp add: pick_terminal_port_def)
qed

text \<open>Two tickets may share the names of their containers.\<close>

lemma container_names_collide:
  "workspace_container_name ''A.1'' = workspace_container_name ''a-1''"
  by code_simp

end
