(* ===== verification/Db_Calls.thy ===== *)
theory Db_Calls
  imports Prelude
begin

text \<open>
  Calls of the database over any tables (\<open>db/adapter.rs\<close> as its callers see it): a statement may fail, with the
  message the stream \<open>st_io\<close> gives, and a transaction that fails leaves the tables as they were. \<open>st_ticks\<close> counts
  the readings of the clock and of the generator of random bytes.
\<close>

record 't store =
  st_tables :: 't
  st_io :: "string option list"
  st_ticks :: nat

type_synonym ('t, 'a) db_call = "'t store \<Rightarrow> (string + 'a) \<times> 't store"

definition db_return :: "'a \<Rightarrow> ('t, 'a) db_call" where
  "db_return x s = (Inr x, s)"

definition db_fail :: "string \<Rightarrow> ('t, 'a) db_call" where
  "db_fail m s = (Inl m, s)"

definition db_then :: "('t, 'a) db_call \<Rightarrow> ('a \<Rightarrow> ('t, 'b) db_call) \<Rightarrow> ('t, 'b) db_call" where
  "db_then c f s = (case c s of (Inl m, s') \<Rightarrow> (Inl m, s') | (Inr x, s') \<Rightarrow> f x s')"

definition take_io :: "'t store \<Rightarrow> string option \<times> 't store" where
  "take_io s = (case st_io s of [] \<Rightarrow> (None, s) | x # xs \<Rightarrow> (x, s\<lparr>st_io := xs\<rparr>))"

definition with_time :: "(nat \<Rightarrow> ('t, 'a) db_call) \<Rightarrow> ('t, 'a) db_call" where
  "with_time f s = f (st_ticks s) (s\<lparr>st_ticks := Suc (st_ticks s)\<rparr>)"

definition statement :: "('t \<Rightarrow> (string + 'a) \<times> 't) \<Rightarrow> ('t, 'a) db_call" where
  "statement f s =
     (case take_io s of
        (Some m, s') \<Rightarrow> (Inl m, s')
      | (None, s') \<Rightarrow> (case f (st_tables s') of (r, t) \<Rightarrow> (r, s'\<lparr>st_tables := t\<rparr>)))"

definition select_rows :: "('t \<Rightarrow> string + 'a) \<Rightarrow> ('t, 'a) db_call" where
  "select_rows f = statement (\<lambda>t. (f t, t))"

definition change_rows :: "('t \<Rightarrow> 't) \<Rightarrow> ('t, unit) db_call" where
  "change_rows f = statement (\<lambda>t. (Inr (), f t))"

text \<open>\<open>begin\<close>, the body, \<open>commit\<close>; dropped without a commit, it is rolled back.\<close>

definition transaction :: "('t, 'a) db_call \<Rightarrow> ('t, 'a) db_call" where
  "transaction body s =
     (case take_io s of
        (Some m, s0) \<Rightarrow> (Inl m, s0)
      | (None, s0) \<Rightarrow>
          (case body s0 of
             (Inl m, s1) \<Rightarrow> (Inl m, s1\<lparr>st_tables := st_tables s\<rparr>)
           | (Inr x, s1) \<Rightarrow>
               (case take_io s1 of
                  (None, s2) \<Rightarrow> (Inr x, s2)
                | (Some m, s2) \<Rightarrow> (Inl m, s2\<lparr>st_tables := st_tables s\<rparr>))))"

text \<open>The result of a call whose error is only value_or_default.\<close>

definition value_or_default :: "'a \<Rightarrow> (string + 'a) \<times> 't store \<Rightarrow> 'a \<times> 't store" where
  "value_or_default d x = ((case fst x of Inl _ \<Rightarrow> d | Inr v \<Rightarrow> v), snd x)"

subsection \<open>Laws\<close>

lemma take_io_tables [simp]: "take_io s = (x, s') \<Longrightarrow> st_tables s' = st_tables s"
  by (auto simp: take_io_def split: list.splits)

lemma transaction_rolls_back:
  assumes "transaction body s = (Inl m, s')"
  shows "st_tables s' = st_tables s"
  using assms by (auto simp: transaction_def split: prod.splits option.splits sum.splits)

lemma transaction_commits:
  assumes "transaction body s = (Inr x, s')"
  obtains s0 s1 where "st_tables s0 = st_tables s" "body s0 = (Inr x, s1)" "st_tables s' = st_tables s1"
  using assms by (auto simp: transaction_def split: prod.splits option.splits sum.splits) (metis take_io_tables)

lemma db_then_Inr:
  assumes "db_then c f s = (Inr y, s')"
  obtains x s1 where "c s = (Inr x, s1)" "f x s1 = (Inr y, s')"
  using assms by (auto simp: db_then_def split: prod.splits sum.splits)

lemma statement_Inr:
  assumes "statement f s = (Inr x, s')"
  shows "f (st_tables s) = (Inr x, st_tables s')"
  using assms by (auto simp: statement_def split: prod.splits option.splits)

lemma select_rows_tables [simp]: "st_tables (snd (select_rows f s)) = st_tables s"
  by (auto simp: select_rows_def statement_def split: prod.split option.split)

lemma select_rows_Inr: "select_rows f s = (Inr x, s') \<Longrightarrow> f (st_tables s) = Inr x \<and> st_tables s' = st_tables s"
  by (auto simp: select_rows_def dest: statement_Inr)

lemma change_rows_Inr: "change_rows f s = (Inr x, s') \<Longrightarrow> st_tables s' = f (st_tables s)"
  by (auto simp: change_rows_def dest: statement_Inr)

text \<open>
  A relation between the tables before and after that every call of a group keeps: it need only be shown of the
  statements.
\<close>

locale kept_relation =
  fixes kept :: "'t \<Rightarrow> 't \<Rightarrow> bool"
  assumes kept_refl [simp]: "kept t t"
    and kept_trans: "kept t u \<Longrightarrow> kept u v \<Longrightarrow> kept t v"
begin

definition keeps :: "('t, 'a) db_call \<Rightarrow> bool" where
  "keeps c \<longleftrightarrow> (\<forall>s. kept (st_tables s) (st_tables (snd (c s))))"

lemma keepsD: "keeps c \<Longrightarrow> c s = (r, s') \<Longrightarrow> kept (st_tables s) (st_tables s')"
  unfolding keeps_def by (metis snd_conv)

lemma keeps_return: "keeps (db_return x)" "keeps (db_fail m)"
  by (simp_all add: keeps_def db_return_def db_fail_def)

lemma keeps_then: "keeps c \<Longrightarrow> (\<And>x. keeps (f x)) \<Longrightarrow> keeps (db_then c f)"
  unfolding keeps_def db_then_def by (fastforce split: prod.split sum.split intro: kept_trans)

lemma keeps_with_time: "(\<And>n. keeps (f n)) \<Longrightarrow> keeps (with_time f)"
  unfolding keeps_def with_time_def by (metis (no_types, lifting) store.select_convs(1) store.surjective store.update_convs(3))

lemma keeps_statement: "(\<And>t r t'. f t = (r, t') \<Longrightarrow> kept t t') \<Longrightarrow> keeps (statement f)"
  unfolding keeps_def statement_def by (auto split: prod.split option.split)

lemma keeps_read: "keeps (select_rows f)"
  by (simp add: keeps_def)

lemma keeps_write: "(\<And>t. kept t (f t)) \<Longrightarrow> keeps (change_rows f)"
  unfolding change_rows_def by (rule keeps_statement) auto

lemma keeps_transaction:
  assumes "keeps body"
  shows "keeps (transaction body)"
  unfolding keeps_def
proof
  fix s
  obtain r s' where t: "transaction body s = (r, s')" by (cases "transaction body s")
  show "kept (st_tables s) (st_tables (snd (transaction body s)))"
  proof (cases r)
    case (Inl m)
    then show ?thesis using t transaction_rolls_back by fastforce
  next
    case (Inr x)
    then show ?thesis using t assms by (auto elim!: transaction_commits dest!: keepsD)
  qed
qed

lemmas keeps_rules = keeps_return keeps_then keeps_with_time keeps_read keeps_transaction

end

end
