(* ===== verification/Table_Maps.thy ===== *)
theory Table_Maps
  imports Db_Calls
begin

text \<open>
  A change of the tables that every call of a group passes over: run before or after the call, the result is the
  same. With the map that keeps the rows of one user, it says that a call depends on these rows alone.
\<close>

locale table_map =
  fixes h :: "'t \<Rightarrow> 't"
begin

definition mapped :: "'t store \<Rightarrow> 't store" where
  "mapped s = s\<lparr>st_tables := h (st_tables s)\<rparr>"

definition commutes :: "('t store \<Rightarrow> 'r \<times> 't store) \<Rightarrow> bool" where
  "commutes c \<longleftrightarrow> (\<forall>s. c (mapped s) = apsnd mapped (c s))"

lemma mapped_simps [simp]:
  "st_tables (mapped s) = h (st_tables s)" "st_io (mapped s) = st_io s" "st_ticks (mapped s) = st_ticks s"
  "(mapped s)\<lparr>st_ticks := n\<rparr> = mapped (s\<lparr>st_ticks := n\<rparr>)" "(mapped s)\<lparr>st_io := io\<rparr> = mapped (s\<lparr>st_io := io\<rparr>)"
  by (simp_all add: mapped_def)

lemma commutes_take_io: "take_io (mapped s) = apsnd mapped (take_io s)"
  by (simp add: take_io_def split: list.split)

lemma commutes_pure: "commutes (\<lambda>s. (x, s))"
  by (simp add: commutes_def)

lemma commutes_return: "commutes (db_return x)" "commutes (db_fail m)"
  by (simp_all add: commutes_def db_return_def db_fail_def)

lemma commutes_sum:
  "commutes c \<Longrightarrow> (\<And>e. commutes (f e)) \<Longrightarrow> (\<And>x. commutes (g x)) \<Longrightarrow>
   commutes (\<lambda>s. case c s of (Inl e, s') \<Rightarrow> f e s' | (Inr x, s') \<Rightarrow> g x s')"
  by (simp add: commutes_def split: prod.split sum.split)

lemma commutes_then: "commutes c \<Longrightarrow> (\<And>x. commutes (f x)) \<Longrightarrow> commutes (db_then c f)"
  by (simp add: commutes_def db_then_def split: prod.split sum.split)

lemma commutes_with_time: "(\<And>n. commutes (f n)) \<Longrightarrow> commutes (with_time f)"
  by (simp add: commutes_def with_time_def)

lemma commutes_statement: "(\<And>t. f (h t) = apsnd h (f t)) \<Longrightarrow> commutes (statement f)"
  by (simp add: commutes_def statement_def commutes_take_io split: prod.split option.split)

lemma commutes_select: "(\<And>t. f (h t) = f t) \<Longrightarrow> commutes (select_rows f)"
  unfolding select_rows_def by (rule commutes_statement) simp

lemma commutes_change: "(\<And>t. f (h t) = h (f t)) \<Longrightarrow> commutes (change_rows f)"
  unfolding change_rows_def by (rule commutes_statement) simp

lemma commutesD: "commutes c \<Longrightarrow> c (mapped s) = apsnd mapped (c s)"
  by (simp add: commutes_def)

lemma commutes_fst: "commutes c \<Longrightarrow> fst (c (mapped s)) = fst (c s)"
  by (simp add: commutes_def)

end

end
