(* ===== verification/Vault.thy ===== *)
theory Vault
  imports Db_Calls Auth_Routes Prompts Stream_Humanize Workflow_Types
begin

text \<open>
  The credentials of the users: envelope encryption (\<open>auth/seal.rs\<close>), the tables \<open>user_provider_credentials\<close>,
  \<open>user_github_credentials\<close>, \<open>user_jira_credentials\<close> and \<open>credential_audit\<close> with the statements of
  \<open>db/provider_credentials.rs\<close>, \<open>db/github_credentials.rs\<close>, \<open>db/jira_credentials.rs\<close> and
  \<open>db/credential_audit.rs\<close>. The cipher, the generator of random bytes, the clock and its formatting are parameters.
\<close>

subsection \<open>Sealed secrets\<close>

record sealed_blob =
  sb_ciphertext :: string
  sb_nonce :: string
  sb_wrapped_dek :: string
  sb_wnonce :: string

datatype seal_error = AeadDecrypt string string | SealMalformed string

definition seal_error_text :: "seal_error \<Rightarrow> string" where
  "seal_error_text e =
     (case e of
        AeadDecrypt op detail \<Rightarrow> ''AEAD decrypt('' @ op @ '') failed: '' @ detail
      | SealMalformed detail \<Rightarrow> ''Sealed blob malformed: '' @ detail)"

text \<open>
  \<open>ve_fill\<close> fills 32 bytes, \<open>ve_nonce\<close> the two nonces of a sealing; \<open>ve_encrypt\<close> and \<open>ve_decrypt\<close> are the cipher
  with its key and nonce. \<open>ve_master\<close> is the master key when it could be loaded. \<open>ve_api_user\<close>, \<open>ve_api_org\<close> and
  \<open>ve_jira_get\<close> are the answers of GitHub and Jira, \<open>ve_app\<close> the GitHub App.
\<close>

record gh_response =
  gr_status :: nat
  gr_headers :: "(string \<times> string) list"
  gr_body :: string

record jira_rest_credential =
  jr_site :: string
  jr_email :: string
  jr_token :: string
  jr_account_id :: string

record jira_http_response =
  jh_status :: nat
  jh_body :: string

record github_app =
  ga_app_id :: nat
  ga_installation_token :: "nat \<Rightarrow> string + string"

record vault_env =
  ve_has_db :: bool
  ve_master :: "string option"
  ve_fill :: "nat \<Rightarrow> string + string"
  ve_nonce :: "nat \<Rightarrow> nat \<Rightarrow> string"
  ve_encrypt :: "string \<Rightarrow> string \<Rightarrow> string \<Rightarrow> string + string"
  ve_decrypt :: "string \<Rightarrow> string \<Rightarrow> string \<Rightarrow> string option"
  ve_nanos :: "nat \<Rightarrow> int"
  ve_iso :: "int \<Rightarrow> string"
  ve_rfc3339_text :: "int \<Rightarrow> string"
  ve_rfc3339 :: "string \<Rightarrow> int option"
  ve_json :: json_lib
  ve_utf8_error :: "string \<Rightarrow> string"
  ve_json_error :: "string \<Rightarrow> string"
  ve_json_pretty :: "json \<Rightarrow> string + string"
  ve_api_user :: "string \<Rightarrow> string + gh_response"
  ve_api_org :: "string \<Rightarrow> string \<Rightarrow> string + gh_response"
  ve_jira_get :: "jira_rest_credential \<Rightarrow> string \<Rightarrow> string + jira_http_response"
  ve_app :: "github_app option"

definition now_iso :: "vault_env \<Rightarrow> nat \<Rightarrow> string" where
  "now_iso env n = ve_iso env (ve_nanos env n)"

definition seal :: "vault_env \<Rightarrow> string \<Rightarrow> string \<Rightarrow> ('t, sealed_blob) db_call" where
  "seal env master plaintext = with_time (\<lambda>n.
     case ve_fill env n of
       Inl m \<Rightarrow> db_fail m
     | Inr dek \<Rightarrow>
         (case ve_encrypt env dek (ve_nonce env n 0) plaintext of
            Inl m \<Rightarrow> db_fail m
          | Inr ciphertext \<Rightarrow>
              (case ve_encrypt env master (ve_nonce env n 1) dek of
                 Inl m \<Rightarrow> db_fail m
               | Inr wrapped \<Rightarrow> db_return \<lparr>sb_ciphertext = ciphertext, sb_nonce = ve_nonce env n 0,
                   sb_wrapped_dek = wrapped, sb_wnonce = ve_nonce env n 1\<rparr>)))"

definition open_sealed :: "vault_env \<Rightarrow> string \<Rightarrow> sealed_blob \<Rightarrow> seal_error + string" where
  "open_sealed env master b =
     (case ve_decrypt env master (sb_wnonce b) (sb_wrapped_dek b) of
        None \<Rightarrow> Inl (AeadDecrypt ''DEK'' ''wrapped DEK rejected (tampered ciphertext or wrong master key)'')
      | Some dek \<Rightarrow>
          if length dek \<noteq> 32
          then Inl (SealMalformed (''wrapped DEK decrypted to wrong length: '' @ show_nat (length dek) @ '' (expected 32)''))
          else (case ve_decrypt env dek (sb_nonce b) (sb_ciphertext b) of
                  None \<Rightarrow> Inl (AeadDecrypt ''plaintext'' ''payload rejected (tampered ciphertext or wrong DEK)'')
                | Some plaintext \<Rightarrow> Inr plaintext))"

subsection \<open>Rows\<close>

datatype provider_credential_kind = ApiKey | OauthToken | CliState

fun provider_credential_kind_as_str :: "provider_credential_kind \<Rightarrow> string" where
  "provider_credential_kind_as_str ApiKey = ''api_key''"
| "provider_credential_kind_as_str OauthToken = ''oauth_token''"
| "provider_credential_kind_as_str CliState = ''cli_state''"

definition provider_credential_kind_of :: "string \<Rightarrow> provider_credential_kind option" where
  "provider_credential_kind_of s =
     (if s = ''api_key'' then Some ApiKey else if s = ''oauth_token'' then Some OauthToken
      else if s = ''cli_state'' then Some CliState else None)"

record 'k provider_row =
  pc_id :: int
  pc_user :: string
  pc_provider :: string
  pc_kind :: 'k
  pc_sealed :: sealed_blob
  pc_metadata_json :: string
  pc_inactive :: bool
  pc_last_validated_at :: "string option"
  pc_last_used_at :: "string option"
  pc_created_at :: string
  pc_updated_at :: string
  pc_expires_at :: "string option"

record github_row =
  gc_user :: string
  gc_sealed :: sealed_blob
  gc_login :: string
  gc_scopes_json :: string
  gc_sign_commits :: bool
  gc_last_validated_at :: "string option"
  gc_created_at :: string
  gc_updated_at :: string

record jira_row =
  jc_user :: string
  jc_sealed :: sealed_blob
  jc_site :: string
  jc_email :: string
  jc_account_id :: string
  jc_account_name :: string
  jc_last_validated_at :: "string option"
  jc_created_at :: string
  jc_updated_at :: string

datatype credential_audit_kind = AiProviderAudit | GithubPatAudit | JiraCredentialAudit | CursorSessionAudit

fun credential_audit_kind_as_str :: "credential_audit_kind \<Rightarrow> string" where
  "credential_audit_kind_as_str AiProviderAudit = ''ai_provider''"
| "credential_audit_kind_as_str GithubPatAudit = ''github_pat''"
| "credential_audit_kind_as_str JiraCredentialAudit = ''jira_credential''"
| "credential_audit_kind_as_str CursorSessionAudit = ''cursor_session''"

record audit_row =
  ca_id :: int
  ca_user :: string
  ca_actor :: "string option"
  ca_kind :: string
  ca_provider :: "string option"
  ca_event :: string
  ca_outcome :: string
  ca_error_code :: "string option"
  ca_at :: string

record vault_tables =
  vt_users :: "string list"
  vt_providers :: "string provider_row list"
  vt_github :: "github_row list"
  vt_jira :: "jira_row list"
  vt_audit :: "audit_row list"
  vt_next_provider :: int
  vt_next_audit :: int

type_synonym 'a vault_call = "(vault_tables, 'a) db_call"

definition foreign_key_failed :: string where
  "foreign_key_failed = ''FOREIGN KEY constraint failed''"

subsection \<open>Provider credentials\<close>

datatype upsert_outcome = Created | Rotated

fun audit_event :: "upsert_outcome \<Rightarrow> string" where
  "audit_event Created = ''created''"
| "audit_event Rotated = ''rotated''"

definition provider_key :: "string \<Rightarrow> string \<Rightarrow> string \<Rightarrow> string provider_row \<Rightarrow> bool" where
  "provider_key user provider kind r \<longleftrightarrow> pc_user r = user \<and> pc_provider r = provider \<and> pc_kind r = kind"

definition insert_provider_row ::
  "string \<Rightarrow> string \<Rightarrow> string \<Rightarrow> sealed_blob \<Rightarrow> string \<Rightarrow> string \<Rightarrow> vault_tables \<Rightarrow> (string + unit) \<times> vault_tables" where
  "insert_provider_row user provider kind b metadata now t =
     (if user \<notin> set (vt_users t) then (Inl foreign_key_failed, t)
      else (Inr (), t\<lparr>vt_providers := vt_providers t @ [\<lparr>pc_id = vt_next_provider t, pc_user = user, pc_provider = provider,
              pc_kind = kind, pc_sealed = b, pc_metadata_json = metadata, pc_inactive = False, pc_last_validated_at = None,
              pc_last_used_at = None, pc_created_at = now, pc_updated_at = now, pc_expires_at = None\<rparr>],
            vt_next_provider := vt_next_provider t + 1\<rparr>))"

definition upsert_provider ::
  "vault_env \<Rightarrow> string \<Rightarrow> string \<Rightarrow> provider_credential_kind \<Rightarrow> sealed_blob \<Rightarrow> string \<Rightarrow> upsert_outcome vault_call" where
  "upsert_provider env user provider kind b metadata =
     (let k = provider_credential_kind_as_str kind in
      db_then (select_rows (\<lambda>t. Inr (List.find (provider_key user provider k) (vt_providers t)))) (\<lambda>existing.
        case existing of
          Some row \<Rightarrow> with_time (\<lambda>n.
            db_then (change_rows (\<lambda>t. t\<lparr>vt_providers := List.map (\<lambda>r. if pc_id r = pc_id row
                then r\<lparr>pc_sealed := b, pc_metadata_json := metadata, pc_inactive := False, pc_updated_at := now_iso env n\<rparr>
                else r) (vt_providers t)\<rparr>))
              (\<lambda>_. db_return Rotated))
        | None \<Rightarrow> with_time (\<lambda>n.
            db_then (statement (insert_provider_row user provider k b metadata (now_iso env n))) (\<lambda>_. db_return Created))))"

text \<open>The error of a row that cannot be read takes the form of the database's error for a NUL byte.\<close>

definition column_error :: "string \<Rightarrow> string" where
  "column_error field_name = field_name @ '' contains a NUL byte''"

definition nonces_ok :: "sealed_blob \<Rightarrow> bool" where
  "nonces_ok b \<longleftrightarrow> length (sb_nonce b) = 24 \<and> length (sb_wnonce b) = 24"

definition decode_provider_row :: "string provider_row \<Rightarrow> string + provider_credential_kind provider_row" where
  "decode_provider_row r =
     (if \<not> nonces_ok (pc_sealed r) then Inl (column_error ''provider_credentials.nonce_or_wnonce_wrong_length'')
      else case provider_credential_kind_of (pc_kind r) of
        None \<Rightarrow> Inl (column_error ''provider_credentials.kind_unknown'')
      | Some k \<Rightarrow> Inr \<lparr>pc_id = pc_id r, pc_user = pc_user r, pc_provider = pc_provider r, pc_kind = k,
          pc_sealed = pc_sealed r, pc_metadata_json = pc_metadata_json r, pc_inactive = pc_inactive r,
          pc_last_validated_at = pc_last_validated_at r, pc_last_used_at = pc_last_used_at r,
          pc_created_at = pc_created_at r, pc_updated_at = pc_updated_at r, pc_expires_at = pc_expires_at r\<rparr>)"

definition decode_first :: "('r \<Rightarrow> string + 'd) \<Rightarrow> 'r option \<Rightarrow> string + 'd option" where
  "decode_first decode r =
     (case r of None \<Rightarrow> Inr None | Some x \<Rightarrow> (case decode x of Inl m \<Rightarrow> Inl m | Inr d \<Rightarrow> Inr (Some d)))"

definition kind_rank :: "string \<Rightarrow> nat" where
  "kind_rank k = (if k = ''api_key'' then 0 else if k = ''cli_state'' then 1 else if k = ''oauth_token'' then 2 else 3)"

definition first_of :: "'a list \<Rightarrow> 'a option" where
  "first_of xs = (case xs of [] \<Rightarrow> None | x # _ \<Rightarrow> Some x)"

definition find_active :: "string \<Rightarrow> string \<Rightarrow> provider_credential_kind provider_row option vault_call" where
  "find_active user provider = select_rows (\<lambda>t. decode_first decode_provider_row (first_of (sort_key (kind_rank \<circ> pc_kind)
     (filter (\<lambda>r. pc_user r = user \<and> pc_provider r = provider \<and> \<not> pc_inactive r) (vt_providers t)))))"

definition find_active_with_kind ::
  "string \<Rightarrow> string \<Rightarrow> provider_credential_kind \<Rightarrow> provider_credential_kind provider_row option vault_call" where
  "find_active_with_kind user provider kind = select_rows (\<lambda>t. decode_first decode_provider_row (List.find
     (\<lambda>r. provider_key user provider (provider_credential_kind_as_str kind) r \<and> \<not> pc_inactive r) (vt_providers t)))"

text \<open>Deleting says whether there was a row.\<close>

definition delete_provider :: "string \<Rightarrow> string \<Rightarrow> bool vault_call" where
  "delete_provider user provider = statement (\<lambda>t.
     let gone = (\<lambda>r. pc_user r = user \<and> pc_provider r = provider) in
     (Inr (list_ex gone (vt_providers t)), t\<lparr>vt_providers := filter (\<lambda>r. \<not> gone r) (vt_providers t)\<rparr>))"

definition delete_provider_with_kind :: "string \<Rightarrow> string \<Rightarrow> provider_credential_kind \<Rightarrow> bool vault_call" where
  "delete_provider_with_kind user provider kind = statement (\<lambda>t.
     let gone = provider_key user provider (provider_credential_kind_as_str kind) in
     (Inr (list_ex gone (vt_providers t)), t\<lparr>vt_providers := filter (\<lambda>r. \<not> gone r) (vt_providers t)\<rparr>))"

definition mark_inactive :: "vault_env \<Rightarrow> string \<Rightarrow> string \<Rightarrow> unit vault_call" where
  "mark_inactive env user provider = with_time (\<lambda>n. change_rows (\<lambda>t.
     t\<lparr>vt_providers := List.map (\<lambda>r. if pc_user r = user \<and> pc_provider r = provider
       then r\<lparr>pc_inactive := True, pc_updated_at := now_iso env n\<rparr> else r) (vt_providers t)\<rparr>))"

subsection \<open>GitHub credentials\<close>

definition upsert_github ::
  "vault_env \<Rightarrow> string \<Rightarrow> sealed_blob \<Rightarrow> string \<Rightarrow> string \<Rightarrow> bool \<Rightarrow> unit vault_call" where
  "upsert_github env user b login_name scopes_json sign = with_time (\<lambda>n. statement (\<lambda>t.
     if list_ex (\<lambda>r. gc_user r = user) (vt_github t)
     then (Inr (), t\<lparr>vt_github := List.map (\<lambda>r. if gc_user r = user
       then r\<lparr>gc_sealed := b, gc_login := login_name, gc_scopes_json := scopes_json, gc_sign_commits := sign,
            gc_updated_at := now_iso env n\<rparr> else r) (vt_github t)\<rparr>)
     else if user \<notin> set (vt_users t) then (Inl foreign_key_failed, t)
     else (Inr (), t\<lparr>vt_github := vt_github t @ [\<lparr>gc_user = user, gc_sealed = b, gc_login = login_name,
       gc_scopes_json = scopes_json, gc_sign_commits = sign, gc_last_validated_at = None,
       gc_created_at = now_iso env n, gc_updated_at = now_iso env n\<rparr>]\<rparr>)))"

definition decode_github_row :: "github_row \<Rightarrow> string + github_row" where
  "decode_github_row r =
     (if nonces_ok (gc_sealed r) then Inr r
      else Inl (column_error ''github_credentials.nonce_or_wnonce_wrong_length''))"

definition find_github :: "string \<Rightarrow> github_row option vault_call" where
  "find_github user = select_rows (\<lambda>t. decode_first decode_github_row (List.find (\<lambda>r. gc_user r = user) (vt_github t)))"

definition delete_github :: "string \<Rightarrow> bool vault_call" where
  "delete_github user = statement (\<lambda>t.
     (Inr (list_ex (\<lambda>r. gc_user r = user) (vt_github t)), t\<lparr>vt_github := filter (\<lambda>r. gc_user r \<noteq> user) (vt_github t)\<rparr>))"

definition set_github :: "string \<Rightarrow> (github_row \<Rightarrow> github_row) \<Rightarrow> vault_tables \<Rightarrow> vault_tables" where
  "set_github user f t = t\<lparr>vt_github := List.map (\<lambda>r. if gc_user r = user then f r else r) (vt_github t)\<rparr>"

definition set_sign_commits :: "vault_env \<Rightarrow> string \<Rightarrow> bool \<Rightarrow> bool vault_call" where
  "set_sign_commits env user v = with_time (\<lambda>n. statement (\<lambda>t.
     (Inr (list_ex (\<lambda>r. gc_user r = user) (vt_github t)),
      set_github user (\<lambda>r. r\<lparr>gc_sign_commits := v, gc_updated_at := now_iso env n\<rparr>) t)))"

definition touch_github_validated :: "string \<Rightarrow> string \<Rightarrow> unit vault_call" where
  "touch_github_validated user w = change_rows (set_github user (\<lambda>r. r\<lparr>gc_last_validated_at := Some w\<rparr>))"

subsection \<open>Jira credentials\<close>

definition upsert_jira ::
  "vault_env \<Rightarrow> string \<Rightarrow> sealed_blob \<Rightarrow> string \<Rightarrow> string \<Rightarrow> string \<Rightarrow> string \<Rightarrow> unit vault_call" where
  "upsert_jira env user b site email account_id account_name = with_time (\<lambda>n. statement (\<lambda>t.
     if list_ex (\<lambda>r. jc_user r = user) (vt_jira t)
     then (Inr (), t\<lparr>vt_jira := List.map (\<lambda>r. if jc_user r = user
       then r\<lparr>jc_sealed := b, jc_site := site, jc_email := email, jc_account_id := account_id,
            jc_account_name := account_name, jc_updated_at := now_iso env n\<rparr> else r) (vt_jira t)\<rparr>)
     else if user \<notin> set (vt_users t) then (Inl foreign_key_failed, t)
     else (Inr (), t\<lparr>vt_jira := vt_jira t @ [\<lparr>jc_user = user, jc_sealed = b, jc_site = site, jc_email = email,
       jc_account_id = account_id, jc_account_name = account_name, jc_last_validated_at = None,
       jc_created_at = now_iso env n, jc_updated_at = now_iso env n\<rparr>]\<rparr>)))"

definition decode_jira_row :: "jira_row \<Rightarrow> string + jira_row" where
  "decode_jira_row r =
     (if nonces_ok (jc_sealed r) then Inr r
      else Inl (column_error ''jira_credentials.nonce_or_wnonce_wrong_length''))"

definition find_jira :: "string \<Rightarrow> jira_row option vault_call" where
  "find_jira user = select_rows (\<lambda>t. decode_first decode_jira_row (List.find (\<lambda>r. jc_user r = user) (vt_jira t)))"

definition delete_jira :: "string \<Rightarrow> bool vault_call" where
  "delete_jira user = statement (\<lambda>t.
     (Inr (list_ex (\<lambda>r. jc_user r = user) (vt_jira t)), t\<lparr>vt_jira := filter (\<lambda>r. jc_user r \<noteq> user) (vt_jira t)\<rparr>))"

definition touch_jira_validated :: "string \<Rightarrow> string \<Rightarrow> unit vault_call" where
  "touch_jira_validated user w = change_rows (\<lambda>t.
     t\<lparr>vt_jira := List.map (\<lambda>r. if jc_user r = user then r\<lparr>jc_last_validated_at := Some w\<rparr> else r) (vt_jira t)\<rparr>)"

subsection \<open>The audit\<close>

definition insert_audit_row :: "audit_row \<Rightarrow> vault_tables \<Rightarrow> (string + unit) \<times> vault_tables" where
  "insert_audit_row r t =
     (if ca_user r \<notin> set (vt_users t) \<or> (case ca_actor r of None \<Rightarrow> False | Some a \<Rightarrow> a \<notin> set (vt_users t))
      then (Inl foreign_key_failed, t)
      else (Inr (), t\<lparr>vt_audit := vt_audit t @ [r\<lparr>ca_id := vt_next_audit t\<rparr>], vt_next_audit := vt_next_audit t + 1\<rparr>))"

definition log_credential ::
  "vault_env \<Rightarrow> string \<Rightarrow> string option \<Rightarrow> credential_audit_kind \<Rightarrow> string option \<Rightarrow> string \<Rightarrow> string \<Rightarrow> string option \<Rightarrow>
   unit vault_call" where
  "log_credential env user actor kind provider event outcome error_code = with_time (\<lambda>n.
     statement (insert_audit_row \<lparr>ca_id = 0, ca_user = user, ca_actor = actor, ca_kind = credential_audit_kind_as_str kind,
       ca_provider = provider, ca_event = event, ca_outcome = outcome, ca_error_code = error_code, ca_at = now_iso env n\<rparr>))"

end
