(* ===== verification/Vault_Routes.thy ===== *)
theory Vault_Routes
  imports Vault
begin

text \<open>
  The routes of \<open>takuto-web/src/routes/credentials.rs\<close> with the validation of a GitHub token
  (\<open>auth/pat_validation.rs\<close>) and of a Jira credential (\<open>jira/rest.rs\<close>). Each handler is the whole function; the log
  is left out.
\<close>

subsection \<open>Replies\<close>

record rejection =
  rf_status :: nat
  rf_code :: string
  rf_extra :: "(string \<times> json) list"

text \<open>A handler that panics gives no reply; what it had done stays done.\<close>

datatype 'a reply = Panicked | Refused rejection | Answered nat 'a

definition err :: "nat \<Rightarrow> string \<Rightarrow> rejection" where
  "err st code = \<lparr>rf_status = st, rf_code = code, rf_extra = []\<rparr>"

definition err_with :: "nat \<Rightarrow> string \<Rightarrow> (string \<times> json) list \<Rightarrow> rejection" where
  "err_with st code extra = \<lparr>rf_status = st, rf_code = code, rf_extra = extra\<rparr>"

definition reply_status :: "'a reply \<Rightarrow> nat option" where
  "reply_status r = (case r of Panicked \<Rightarrow> None | Refused f \<Rightarrow> Some (rf_status f) | Answered st _ \<Rightarrow> Some st)"

subsection \<open>Validation of a GitHub token\<close>

definition gh_header :: "string \<Rightarrow> gh_response \<Rightarrow> string option" where
  "gh_header h r = map_option snd (List.find (\<lambda>(k, _). to_ascii_lowercase k = to_ascii_lowercase h) (gr_headers r))"

datatype pat_validation_error =
    InvalidPat
  | InsufficientScopes "string list"
  | SsoAuthorizationRequired string string
  | Transport string

definition pat_error_code :: "pat_validation_error \<Rightarrow> string" where
  "pat_error_code e =
     (case e of
        InvalidPat \<Rightarrow> ''invalid_pat''
      | InsufficientScopes _ \<Rightarrow> ''insufficient_scopes''
      | SsoAuthorizationRequired _ _ \<Rightarrow> ''sso_authorization_required''
      | Transport _ \<Rightarrow> ''gh_transport_error'')"

record validated_pat =
  vp_login :: string
  vp_scopes :: "string list"

definition CLASSIC_REQUIRED :: string where "CLASSIC_REQUIRED = ''repo''"

definition parse_scopes_header :: "string \<Rightarrow> string list" where
  "parse_scopes_header h = filter (\<lambda>x. x \<noteq> []) (List.map trim (split_on (CHR '','') h))"

definition require_classic_repo_scope :: "string list \<Rightarrow> pat_validation_error + unit" where
  "require_classic_repo_scope scopes =
     (if CLASSIC_REQUIRED \<in> set scopes then Inr () else Inl (InsufficientScopes [CLASSIC_REQUIRED]))"

definition check_org_sso :: "gh_response \<Rightarrow> string \<Rightarrow> pat_validation_error + unit" where
  "check_org_sso resp org =
     (if gr_status resp = 200 then Inr ()
      else case (if gr_status resp = 403 then gh_header ''X-GitHub-SSO'' resp else None) of
        Some hdr \<Rightarrow>
          Inl (SsoAuthorizationRequired org
            (case find_map (\<lambda>part. map_option trim (strip_prefix ''url='' (trim part))) (split_on (CHR '';'') hdr) of
               Some url \<Rightarrow> url
             | None \<Rightarrow> ''https://github.com/orgs/'' @ org @ ''/sso''))
      | None \<Rightarrow> if gr_status resp = 404 then Inr () else if gr_status resp = 401 then Inl InvalidPat else Inr ())"

fun check_orgs :: "vault_env \<Rightarrow> string \<Rightarrow> string list \<Rightarrow> pat_validation_error + unit" where
  "check_orgs env pat [] = Inr ()"
| "check_orgs env pat (org # orgs) =
     (if trim org = [] then check_orgs env pat orgs
      else case ve_api_org env pat org of
        Inl m \<Rightarrow> Inl (Transport m)
      | Inr resp \<Rightarrow> (case check_org_sso resp org of Inl e \<Rightarrow> Inl e | Inr _ \<Rightarrow> check_orgs env pat orgs))"

text \<open>\<open>&s[..160]\<close> panics inside a character.\<close>

definition truncate_for_log :: "string \<Rightarrow> unit + string" where
  "truncate_for_log s =
     (if length s \<le> 160 then Inr s else case slice_to 160 s of Inl _ \<Rightarrow> Inl () | Inr t \<Rightarrow> Inr (t @ ellipsis))"

definition scopes_of_response :: "gh_response \<Rightarrow> pat_validation_error + string list" where
  "scopes_of_response resp =
     (case gh_header ''X-OAuth-Scopes'' resp of
        Some hdr \<Rightarrow>
          if trim hdr \<noteq> []
          then let scopes = parse_scopes_header hdr in
            (case require_classic_repo_scope scopes of Inl e \<Rightarrow> Inl e | Inr _ \<Rightarrow> Inr scopes)
          else Inr []
      | None \<Rightarrow> Inr [])"

definition login_of_body :: "vault_env \<Rightarrow> string \<Rightarrow> pat_validation_error + string" where
  "login_of_body env body =
     (case parse_json (ve_json env) body of
        None \<Rightarrow> Inl (Transport (''user JSON parse: '' @ ve_json_error env body))
      | Some v \<Rightarrow>
          (case Option.bind (json_get ''login'' v) as_str of
             None \<Rightarrow> Inl InvalidPat
           | Some l \<Rightarrow> if l = [] then Inl InvalidPat else Inr l))"

text \<open>\<open>Inl ()\<close>: it panics.\<close>

definition validate_pat :: "vault_env \<Rightarrow> string \<Rightarrow> string list \<Rightarrow> unit + (pat_validation_error + validated_pat)" where
  "validate_pat env pat orgs =
     (if trim pat = [] then Inr (Inl InvalidPat)
      else case ve_api_user env pat of
        Inl m \<Rightarrow> Inr (Inl (Transport m))
      | Inr resp \<Rightarrow>
          if gr_status resp \<in> {401, 403, 404} then Inr (Inl InvalidPat)
          else if gr_status resp \<ge> 400 then
            (case truncate_for_log (gr_body resp) of
               Inl _ \<Rightarrow> Inl ()
             | Inr b \<Rightarrow> Inr (Inl (Transport (''gh api user returned '' @ show_nat (gr_status resp) @ '': '' @ b))))
          else Inr (case login_of_body env (gr_body resp) of
            Inl e \<Rightarrow> Inl e
          | Inr login_name \<Rightarrow>
              (case scopes_of_response resp of
                 Inl e \<Rightarrow> Inl e
               | Inr scopes \<Rightarrow>
                   (case check_orgs env pat orgs of
                      Inl e \<Rightarrow> Inl e
                    | Inr _ \<Rightarrow> Inr \<lparr>vp_login = login_name, vp_scopes = scopes\<rparr>))))"

subsection \<open>Validation of a Jira credential\<close>

datatype jira_validation_error = InvalidToken | Unauthorized | JiraTransport string

definition jira_error_code :: "jira_validation_error \<Rightarrow> string" where
  "jira_error_code e =
     (case e of
        InvalidToken \<Rightarrow> ''invalid_token''
      | Unauthorized \<Rightarrow> ''unauthorized''
      | JiraTransport _ \<Rightarrow> ''jira_transport_error'')"

record jira_account =
  ja_account_id :: string
  ja_display_name :: string
  ja_email :: "string option"

definition str_or_empty :: "string \<Rightarrow> json \<Rightarrow> string" where
  "str_or_empty key v = (case Option.bind (json_get key v) as_str of Some x \<Rightarrow> x | None \<Rightarrow> [])"

definition validate_jira :: "vault_env \<Rightarrow> jira_rest_credential \<Rightarrow> jira_validation_error + jira_account" where
  "validate_jira env cred =
     (case ve_jira_get env cred ''rest/api/3/myself'' of
        Inl m \<Rightarrow> Inl (JiraTransport m)
      | Inr resp \<Rightarrow>
          if jh_status resp = 401 then Inl InvalidToken
          else if jh_status resp = 403 then Inl Unauthorized
          else if jh_status resp = 404 then Inl InvalidToken
          else if jh_status resp \<noteq> 200
          then Inl (JiraTransport (''GET /rest/api/3/myself returned '' @ show_nat (jh_status resp)))
          else (case parse_json (ve_json env) (jh_body resp) of
             None \<Rightarrow> Inl (JiraTransport (''myself JSON parse: '' @ ve_json_error env (jh_body resp)))
           | Some v \<Rightarrow>
               if str_or_empty ''accountId'' v = [] then Inl (JiraTransport ''myself response missing accountId'')
               else Inr \<lparr>ja_account_id = str_or_empty ''accountId'' v, ja_display_name = str_or_empty ''displayName'' v,
                 ja_email = Option.bind (json_get ''emailAddress'' v) as_str\<rparr>))"

text \<open>The stored credential with its token, when it can be read and opened.\<close>

definition resolve_rest_credential ::
  "vault_env \<Rightarrow> string \<Rightarrow> vault_tables store \<Rightarrow> jira_rest_credential option \<times> vault_tables store" where
  "resolve_rest_credential env user s =
     (case find_jira user s of
        (Inl _, s') \<Rightarrow> (None, s')
      | (Inr None, s') \<Rightarrow> (None, s')
      | (Inr (Some row), s') \<Rightarrow>
          ((case ve_master env of
              None \<Rightarrow> None
            | Some mk \<Rightarrow>
                (case open_sealed env mk (jc_sealed row) of
                   Inl _ \<Rightarrow> None
                 | Inr token \<Rightarrow>
                     if utf8_valid token
                     then Some \<lparr>jr_site = jc_site row, jr_email = jc_email row, jr_token = token, jr_account_id = jc_account_id row\<rparr>
                     else None)), s'))"

subsection \<open>Shapes\<close>

definition MAX_API_KEY_LEN :: nat where "MAX_API_KEY_LEN = 4096"
definition MAX_CLAUDE_SESSION_JSON_LEN :: nat where "MAX_CLAUDE_SESSION_JSON_LEN = 1024 * 1024"

definition clean_api_key :: "string \<Rightarrow> string" where
  "clean_api_key raw = concat (filter (\<lambda>c. \<not> char_is_whitespace c) (utf8_chars raw))"

definition validate_api_key_shape :: "string \<Rightarrow> rejection + unit" where
  "validate_api_key_shape key =
     (if trim key = [] then Inl (err 400 ''api_key_empty'')
      else if length key > MAX_API_KEY_LEN then Inl (err 400 ''api_key_too_long'')
      else if CHR 0x00 \<in> set key then Inl (err 400 ''api_key_invalid_nul'')
      else Inr ())"

fun provider_as_str :: "ai_agent_provider \<Rightarrow> string" where
  "provider_as_str Claude = ''claude''"
| "provider_as_str Cursor = ''cursor''"
| "provider_as_str Codex = ''codex''"
| "provider_as_str OpenCode = ''opencode''"

definition parse_provider :: "string \<Rightarrow> ai_agent_provider option" where
  "parse_provider s =
     (if s = ''claude'' then Some Claude else if s = ''cursor'' then Some Cursor
      else if s = ''codex'' then Some Codex else if s = ''opencode'' then Some OpenCode else None)"

definition normalise_provider :: "string \<Rightarrow> rejection + string" where
  "normalise_provider p =
     (case parse_provider p of Some x \<Rightarrow> Inr (provider_as_str x) | None \<Rightarrow> Inl (err 400 ''unknown_provider''))"

definition nonblank_at :: "string \<Rightarrow> (string \<times> json) list \<Rightarrow> bool" where
  "nonblank_at key entries = (case map_of entries key of Some (JString s) \<Rightarrow> trim s \<noteq> [] | _ \<Rightarrow> False)"

definition validate_claude_session_blob :: "json_lib \<Rightarrow> string \<Rightarrow> rejection + unit" where
  "validate_claude_session_blob lib blob =
     (if trim blob = [] then Inl (err 400 ''claude_session_json_empty'')
      else if length blob > MAX_CLAUDE_SESSION_JSON_LEN
      then Inl (err_with 400 ''claude_session_json_too_long''
        [(''message'', JString (''Session JSON is larger than 1 MiB. Are you sure you pasted only the '' @
            ''~/.claude.json contents and not a file path or full disk dump?'')),
         (''max_bytes'', JInt (int MAX_CLAUDE_SESSION_JSON_LEN))])
      else case parse_json lib blob of
        None \<Rightarrow> Inl (err 400 ''claude_session_json_invalid'')
      | Some v \<Rightarrow>
          (case json_get ''oauthAccount'' v of
             Some (JObject oauth) \<Rightarrow>
               if list_all (\<lambda>k. nonblank_at k oauth) [''accountUuid'', ''emailAddress'', ''organizationUuid'']
               then Inr () else Inl (err 400 ''claude_session_invalid'')
           | _ \<Rightarrow> Inl (err 400 ''claude_session_invalid'')))"

definition normalise_jira_site :: "string \<Rightarrow> rejection + string" where
  "normalise_jira_site site =
     (let trimmed = trim_end_char (CHR ''/'') (trim site) in
      if trimmed = [] then Inl (err 400 ''site_empty'')
      else if length trimmed > 512 then Inl (err 400 ''site_too_long'')
      else if \<not> (starts_with ''https://'' trimmed \<or> starts_with ''http://'' trimmed) then Inl (err 400 ''site_invalid'')
      else if list_ex char_is_whitespace (utf8_chars trimmed) then Inl (err 400 ''site_invalid'')
      else Inr trimmed)"

subsection \<open>The handlers\<close>

definition database_unavailable :: rejection where
  "database_unavailable = err 503 ''database_unavailable''"

definition require_master_key :: "vault_env \<Rightarrow> rejection + string" where
  "require_master_key env =
     (if \<not> ve_has_db env then Inl database_unavailable
      else case ve_master env of None \<Rightarrow> Inl (err 503 ''master_key_unavailable'') | Some mk \<Rightarrow> Inr mk)"

text \<open>A read or a transaction whose failure is a reply of its own.\<close>

definition answer_or :: "rejection \<Rightarrow> (string + 'a) \<times> 't store \<Rightarrow> ('a \<Rightarrow> 't store \<Rightarrow> 'b reply \<times> 't store) \<Rightarrow> 'b reply \<times> 't store" where
  "answer_or bad x f = (case x of (Inl _, s) \<Rightarrow> (Refused bad, s) | (Inr v, s) \<Rightarrow> f v s)"

definition write_failed :: rejection where "write_failed = err 500 ''write_failed''"
definition read_failed :: rejection where "read_failed = err 500 ''read_failed''"
definition seal_failed :: rejection where "seal_failed = err 500 ''seal_failed''"

record provider_status =
  ps_provider :: string
  ps_kind :: string
  ps_active :: bool
  ps_last_validated_at :: "string option"
  ps_last_used_at :: "string option"

definition provider_status_of :: "provider_credential_kind provider_row \<Rightarrow> provider_status" where
  "provider_status_of r = \<lparr>ps_provider = pc_provider r, ps_kind = provider_credential_kind_as_str (pc_kind r),
     ps_active = (\<not> pc_inactive r), ps_last_validated_at = pc_last_validated_at r, ps_last_used_at = pc_last_used_at r\<rparr>"

record provider_bundle =
  pb_provider :: string
  pb_api_key :: "provider_status option"
  pb_cli_state :: "provider_status option"

record github_status =
  gs_login :: string
  gs_scopes :: "string list"
  gs_attribute_commits :: bool
  gs_last_validated_at :: "string option"

record jira_status =
  js_site :: string
  js_email :: string
  js_account_id :: string
  js_account_name :: string
  js_last_validated_at :: "string option"

record credentials_status =
  cs_provider :: "provider_bundle option"
  cs_github :: "github_status option"
  cs_jira :: "jira_status option"

text \<open>\<open>serde_json::from_str::<Vec<String>>(..).unwrap_or_default()\<close>\<close>

definition scopes_of_json :: "json_lib \<Rightarrow> string \<Rightarrow> string list" where
  "scopes_of_json lib s =
     (case Option.bind (parse_json lib s) as_array of
        Some xs \<Rightarrow> if list_all (\<lambda>x. as_str x \<noteq> None) xs then List.map_filter as_str xs else []
      | None \<Rightarrow> [])"

definition github_status_of :: "json_lib \<Rightarrow> github_row \<Rightarrow> github_status" where
  "github_status_of lib r = \<lparr>gs_login = gc_login r, gs_scopes = scopes_of_json lib (gc_scopes_json r),
     gs_attribute_commits = gc_sign_commits r, gs_last_validated_at = gc_last_validated_at r\<rparr>"

definition jira_status_of :: "jira_row \<Rightarrow> jira_status" where
  "jira_status_of r = \<lparr>js_site = jc_site r, js_email = jc_email r, js_account_id = jc_account_id r,
     js_account_name = jc_account_name r, js_last_validated_at = jc_last_validated_at r\<rparr>"

definition get_my_credentials ::
  "vault_env \<Rightarrow> ai_agent_provider \<Rightarrow> string \<Rightarrow> string option \<Rightarrow> vault_tables store \<Rightarrow>
   credentials_status reply \<times> vault_tables store" where
  "get_my_credentials env configured user asked s =
     (if \<not> ve_has_db env then (Refused database_unavailable, s)
      else case (case asked of Some p \<Rightarrow> normalise_provider p | None \<Rightarrow> Inr (provider_as_str configured)) of
        Inl r \<Rightarrow> (Refused r, s)
      | Inr chosen \<Rightarrow>
          answer_or read_failed (find_active_with_kind user chosen ApiKey s) (\<lambda>key s.
          answer_or read_failed (find_active_with_kind user chosen CliState s) (\<lambda>cli s.
          answer_or read_failed (find_github user s) (\<lambda>gh s.
          answer_or read_failed (find_jira user s) (\<lambda>ji s.
            (Answered 200
              \<lparr>cs_provider = (if key = None \<and> cli = None then None
                  else Some \<lparr>pb_provider = chosen, pb_api_key = map_option provider_status_of key,
                    pb_cli_state = map_option provider_status_of cli\<rparr>),
               cs_github = map_option (github_status_of (ve_json env)) gh,
               cs_jira = map_option jira_status_of ji\<rparr>, s))))))"

record api_key_body =
  bd_api_key :: "string option"
  bd_claude_session_json :: "string option"
  bd_kind :: "string option"

definition credential_plaintext :: "json_lib \<Rightarrow> string \<Rightarrow> api_key_body \<Rightarrow> rejection + (provider_credential_kind \<times> string)" where
  "credential_plaintext lib provider body =
     (let k = (case bd_kind body of Some k \<Rightarrow> k | None \<Rightarrow> ''api_key'') in
      if k = ''api_key'' then
        (if bd_claude_session_json body \<noteq> None then Inl (err 400 ''claude_session_json_not_allowed_for_api_key_kind'')
         else case bd_api_key body of
           None \<Rightarrow> Inl (err 400 ''api_key_required'')
         | Some raw \<Rightarrow>
             (case validate_api_key_shape (clean_api_key raw) of
                Inl r \<Rightarrow> Inl r
              | Inr _ \<Rightarrow> Inr (ApiKey, clean_api_key raw)))
      else if k = ''cli_state'' then
        (if provider \<noteq> ''claude'' then Inl (err 400 ''kind_not_supported_for_provider'')
         else if bd_api_key body \<noteq> None then Inl (err 400 ''api_key_not_allowed_for_cli_state_kind'')
         else case bd_claude_session_json body of
           None \<Rightarrow> Inl (err 400 ''claude_session_json_required'')
         | Some blob \<Rightarrow>
             (case validate_claude_session_blob lib blob of
                Inl r \<Rightarrow> Inl r
              | Inr _ \<Rightarrow> Inr (CliState, blob)))
      else Inl (err 400 ''unknown_kind''))"

definition json_quoted :: "string \<Rightarrow> string" where
  "json_quoted s = [CHR 0x22] @ s @ [CHR 0x22]"

definition kind_metadata :: "provider_credential_kind \<Rightarrow> string" where
  "kind_metadata k = ''{'' @ json_quoted ''kind'' @ '':'' @ json_quoted (provider_credential_kind_as_str k) @ ''}''"

definition store_provider_credential ::
  "vault_env \<Rightarrow> string \<Rightarrow> string \<Rightarrow> provider_credential_kind \<Rightarrow> sealed_blob \<Rightarrow> upsert_outcome vault_call" where
  "store_provider_credential env user provider kind b = transaction
     (db_then (upsert_provider env user provider kind b (kind_metadata kind)) (\<lambda>outcome.
      db_then (log_credential env user (Some user) AiProviderAudit (Some provider) (audit_event outcome) ''ok'' None) (\<lambda>_.
      db_return outcome)))"

definition post_provider_credential ::
  "vault_env \<Rightarrow> string \<Rightarrow> string \<Rightarrow> api_key_body \<Rightarrow> vault_tables store \<Rightarrow> (string \<times> json) list reply \<times> vault_tables store" where
  "post_provider_credential env user provider body s =
     (case normalise_provider provider of
        Inl r \<Rightarrow> (Refused r, s)
      | Inr p \<Rightarrow>
          (case credential_plaintext (ve_json env) p body of
             Inl r \<Rightarrow> (Refused r, s)
           | Inr (kind, plaintext) \<Rightarrow>
               (case require_master_key env of
                  Inl r \<Rightarrow> (Refused r, s)
                | Inr mk \<Rightarrow>
                    answer_or seal_failed (seal env mk plaintext s) (\<lambda>b s.
                    answer_or write_failed (store_provider_credential env user p kind b s) (\<lambda>outcome s.
                      (Answered (case outcome of Created \<Rightarrow> 201 | Rotated \<Rightarrow> 200)
                        [(''provider'', JString p), (''kind'', JString (provider_credential_kind_as_str kind))], s))))))"

text \<open>The deletions: the row and its audit entry, when there was a row.\<close>

definition delete_and_log ::
  "vault_env \<Rightarrow> string \<Rightarrow> credential_audit_kind \<Rightarrow> string option \<Rightarrow> bool vault_call \<Rightarrow> bool vault_call" where
  "delete_and_log env user kind provider del = transaction
     (db_then del (\<lambda>present.
        if present
        then db_then (log_credential env user (Some user) kind provider ''deleted'' ''ok'' None) (\<lambda>_. db_return True)
        else db_return False))"

definition delete_provider_credential ::
  "vault_env \<Rightarrow> string \<Rightarrow> string \<Rightarrow> string option \<Rightarrow> vault_tables store \<Rightarrow> unit reply \<times> vault_tables store" where
  "delete_provider_credential env user provider asked s =
     (case normalise_provider provider of
        Inl r \<Rightarrow> (Refused r, s)
      | Inr p \<Rightarrow>
          (case (case asked of
                   None \<Rightarrow> Some None
                 | Some k \<Rightarrow> if k = ''api_key'' then Some (Some ApiKey)
                     else if k = ''cli_state'' then Some (Some CliState) else None) of
             None \<Rightarrow> (Refused (err 400 ''unknown_kind''), s)
           | Some kind \<Rightarrow>
               if \<not> ve_has_db env then (Refused database_unavailable, s)
               else answer_or write_failed
                 (delete_and_log env user AiProviderAudit (Some p)
                   (case kind of Some k \<Rightarrow> delete_provider_with_kind user p k | None \<Rightarrow> delete_provider user p) s)
                 (\<lambda>_ s. (Answered 204 (), s))))"

text \<open>A failed validation is audited, and the failure of that is passed over.\<close>

definition audit_rejection :: "vault_env \<Rightarrow> string \<Rightarrow> string option \<Rightarrow> credential_audit_kind \<Rightarrow> string \<Rightarrow> vault_tables store \<Rightarrow> vault_tables store" where
  "audit_rejection env user actor kind code s =
     snd (value_or_default () (log_credential env user actor kind None ''validation_failed'' ''error'' (Some code) s))"

definition pat_refusal :: "pat_validation_error \<Rightarrow> rejection" where
  "pat_refusal e = err_with (case e of Transport _ \<Rightarrow> 502 | _ \<Rightarrow> 400) (pat_error_code e)
     (case e of
        SsoAuthorizationRequired org url \<Rightarrow> [(''org'', JString org), (''org_sso_url'', JString url)]
      | InsufficientScopes missing \<Rightarrow> [(''missing_scopes'', JArray (List.map JString missing))]
      | _ \<Rightarrow> [])"

definition created_or_rotated :: "'a option \<Rightarrow> string" where
  "created_or_rotated x = (if x = None then ''created'' else ''rotated'')"

definition store_pat :: "vault_env \<Rightarrow> string \<Rightarrow> sealed_blob \<Rightarrow> string \<Rightarrow> string \<Rightarrow> bool \<Rightarrow> string \<Rightarrow> string \<Rightarrow> unit vault_call" where
  "store_pat env user b login_name scopes_json sign now event = transaction
     (db_then (upsert_github env user b login_name scopes_json sign) (\<lambda>_.
      db_then (touch_github_validated user now) (\<lambda>_.
      log_credential env user (Some user) GithubPatAudit None event ''ok'' None)))"

definition clock_now :: "vault_env \<Rightarrow> 't store \<Rightarrow> string \<times> 't store" where
  "clock_now env s = (now_iso env (st_ticks s), s\<lparr>st_ticks := Suc (st_ticks s)\<rparr>)"

definition post_github_pat ::
  "vault_env \<Rightarrow> string \<Rightarrow> string \<Rightarrow> bool option \<Rightarrow> vault_tables store \<Rightarrow> (string \<times> json) list reply \<times> vault_tables store" where
  "post_github_pat env user pat asked_sign s =
     (if trim pat = [] \<or> length pat > MAX_API_KEY_LEN then (Refused (err 400 ''invalid_pat''), s)
      else case require_master_key env of
        Inl r \<Rightarrow> (Refused r, s)
      | Inr mk \<Rightarrow>
          (case validate_pat env pat [] of
             Inl _ \<Rightarrow> (Panicked, s)
           | Inr (Inl e) \<Rightarrow> (Refused (pat_refusal e), audit_rejection env user (Some user) GithubPatAudit (pat_error_code e) s)
           | Inr (Inr v) \<Rightarrow>
               let sign = (case asked_sign of Some b \<Rightarrow> b | None \<Rightarrow> True);
                   scopes = JArray (List.map JString (vp_scopes v));
                   scopes_json = (case print_json (ve_json env) scopes of Some j \<Rightarrow> j | None \<Rightarrow> ''[]'')
               in answer_or seal_failed (seal env mk pat s) (\<lambda>b s.
                  case clock_now env s of (now, s) \<Rightarrow>
                  answer_or write_failed (find_github user s) (\<lambda>present s.
                  answer_or write_failed
                    (store_pat env user b (vp_login v) scopes_json sign now (created_or_rotated present) s) (\<lambda>_ s.
                    (Answered 200 [(''login'', JString (vp_login v)), (''scopes'', scopes), (''attribute_commits'', JBool sign)], s))))))"

definition delete_github_pat :: "vault_env \<Rightarrow> string \<Rightarrow> vault_tables store \<Rightarrow> unit reply \<times> vault_tables store" where
  "delete_github_pat env user s =
     (if \<not> ve_has_db env then (Refused database_unavailable, s)
      else answer_or write_failed (delete_and_log env user GithubPatAudit None (delete_github user) s)
        (\<lambda>_ s. (Answered 204 (), s)))"

record jira_credential_body =
  jq_site :: string
  jq_email :: string
  jq_token :: "string option"

definition store_jira ::
  "vault_env \<Rightarrow> string \<Rightarrow> sealed_blob \<Rightarrow> string \<Rightarrow> string \<Rightarrow> jira_account \<Rightarrow> string \<Rightarrow> string \<Rightarrow> unit vault_call" where
  "store_jira env user b site email account now event = transaction
     (db_then (upsert_jira env user b site email (ja_account_id account) (ja_display_name account)) (\<lambda>_.
      db_then (touch_jira_validated user now) (\<lambda>_.
      log_credential env user (Some user) JiraCredentialAudit None event ''ok'' None)))"

text \<open>The token of the body, or the stored one.\<close>

definition effective_token ::
  "vault_env \<Rightarrow> string \<Rightarrow> string option \<Rightarrow> vault_tables store \<Rightarrow> (rejection + string) \<times> vault_tables store" where
  "effective_token env user token s =
     (case map_option trim token of
        Some (c # t) \<Rightarrow> (if length (c # t) > MAX_API_KEY_LEN then Inl (err 400 ''invalid_token'') else Inr (c # t), s)
      | _ \<Rightarrow>
          (case resolve_rest_credential env user s of
             (Some cred, s') \<Rightarrow> (Inr (jr_token cred), s')
           | (None, s') \<Rightarrow> (Inl (err 400 ''jira_credential_not_set''), s')))"

definition post_jira_credential ::
  "vault_env \<Rightarrow> string \<Rightarrow> jira_credential_body \<Rightarrow> vault_tables store \<Rightarrow> (string \<times> json) list reply \<times> vault_tables store" where
  "post_jira_credential env user body s =
     (case normalise_jira_site (jq_site body) of
        Inl r \<Rightarrow> (Refused r, s)
      | Inr site \<Rightarrow>
          let email = trim (jq_email body) in
          if email = [] \<or> length email > 320 then (Refused (err 400 ''email_invalid''), s)
          else case require_master_key env of
            Inl r \<Rightarrow> (Refused r, s)
          | Inr mk \<Rightarrow>
              (case effective_token env user (jq_token body) s of
                 (Inl r, s) \<Rightarrow> (Refused r, s)
               | (Inr token, s) \<Rightarrow>
                   (case validate_jira env \<lparr>jr_site = site, jr_email = email, jr_token = token, jr_account_id = []\<rparr> of
                      Inl e \<Rightarrow> (Refused (err (case e of JiraTransport _ \<Rightarrow> 502 | _ \<Rightarrow> 400) (jira_error_code e)),
                        audit_rejection env user (Some user) JiraCredentialAudit (jira_error_code e) s)
                    | Inr account \<Rightarrow>
                        answer_or seal_failed (seal env mk token s) (\<lambda>b s.
                        case clock_now env s of (now, s) \<Rightarrow>
                        answer_or write_failed (find_jira user s) (\<lambda>present s.
                        answer_or write_failed
                          (store_jira env user b site email account now (created_or_rotated present) s) (\<lambda>_ s.
                          (Answered 200 [(''site'', JString site), (''email'', JString email),
                             (''account'', JObject [(''account_id'', JString (ja_account_id account)),
                               (''display_name'', JString (ja_display_name account))])], s)))))))"

definition delete_jira_credential :: "vault_env \<Rightarrow> string \<Rightarrow> vault_tables store \<Rightarrow> unit reply \<times> vault_tables store" where
  "delete_jira_credential env user s =
     (if \<not> ve_has_db env then (Refused database_unavailable, s)
      else answer_or write_failed (delete_and_log env user JiraCredentialAudit None (delete_jira user) s)
        (\<lambda>_ s. (Answered 204 (), s)))"

definition set_attribution :: "vault_env \<Rightarrow> string \<Rightarrow> bool \<Rightarrow> bool vault_call" where
  "set_attribution env user v = transaction
     (db_then (set_sign_commits env user v) (\<lambda>updated.
        if updated
        then db_then (log_credential env user (Some user) GithubPatAudit None ''rotated'' ''ok'' None) (\<lambda>_. db_return True)
        else db_return False))"

definition patch_github_attribution :: "vault_env \<Rightarrow> string \<Rightarrow> bool \<Rightarrow> vault_tables store \<Rightarrow> unit reply \<times> vault_tables store" where
  "patch_github_attribution env user v s =
     (if \<not> ve_has_db env then (Refused database_unavailable, s)
      else answer_or write_failed (set_attribution env user v s) (\<lambda>updated s.
        (if updated then Answered 204 () else Refused (err 404 ''no_github_pat''), s)))"

record admin_github_status =
  ag_has_pat :: bool
  ag_login :: "string option"
  ag_scopes :: "string list"
  ag_attribute_commits :: bool

definition get_admin_github_status ::
  "vault_env \<Rightarrow> authenticated_user \<Rightarrow> string \<Rightarrow> vault_tables store \<Rightarrow> admin_github_status reply \<times> vault_tables store" where
  "get_admin_github_status env a target s =
     (case require_admin_for a of
        Inl _ \<Rightarrow> (Refused (err 403 ''forbidden''), s)
      | Inr _ \<Rightarrow>
          if \<not> ve_has_db env then (Refused database_unavailable, s)
          else (case value_or_default None (find_github target s) of
             (Some r, s) \<Rightarrow> (Answered 200 \<lparr>ag_has_pat = True, ag_login = Some (gc_login r),
                 ag_scopes = scopes_of_json (ve_json env) (gc_scopes_json r), ag_attribute_commits = gc_sign_commits r\<rparr>, s)
           | (None, s) \<Rightarrow> (Answered 200 \<lparr>ag_has_pat = False, ag_login = None, ag_scopes = [], ag_attribute_commits = False\<rparr>, s)))"

subsection \<open>The routes\<close>

datatype credential_request =
    GetCredentials "string option"
  | PostProvider string api_key_body
  | DeleteProvider string "string option"
  | PostPat string "bool option"
  | DeletePat
  | PostJira jira_credential_body
  | DeleteJira
  | PatchAttribution bool
  | AdminGithubStatus string

definition credential_route ::
  "vault_env \<Rightarrow> ai_agent_provider \<Rightarrow> authenticated_user \<Rightarrow> credential_request \<Rightarrow> vault_tables store \<Rightarrow>
   nat option \<times> vault_tables store" where
  "credential_route env configured a req s =
     (let user = au_user_id a in
      case req of
        GetCredentials p \<Rightarrow> apfst reply_status (get_my_credentials env configured user p s)
      | PostProvider p body \<Rightarrow> apfst reply_status (post_provider_credential env user p body s)
      | DeleteProvider p k \<Rightarrow> apfst reply_status (delete_provider_credential env user p k s)
      | PostPat pat sign \<Rightarrow> apfst reply_status (post_github_pat env user pat sign s)
      | DeletePat \<Rightarrow> apfst reply_status (delete_github_pat env user s)
      | PostJira body \<Rightarrow> apfst reply_status (post_jira_credential env user body s)
      | DeleteJira \<Rightarrow> apfst reply_status (delete_jira_credential env user s)
      | PatchAttribution v \<Rightarrow> apfst reply_status (patch_github_attribution env user v s)
      | AdminGithubStatus i \<Rightarrow> apfst reply_status (get_admin_github_status env a i s))"

end
