(* ===== verification/Git_Auth.thy ===== *)
theory Git_Auth
  imports Vault_Routes
begin

text \<open>
  Which token a git operation gets (\<open>github/auth_resolver/\<close>: \<open>decision.rs\<close>, \<open>resolver.rs\<close>, \<open>audit.rs\<close>,
  \<open>validator.rs\<close>, \<open>errors.rs\<close>) and the secrets a worker gets (\<open>auth/bundle/\<close>: \<open>assembler.rs\<close>, \<open>unseal.rs\<close>,
  \<open>opencode_config.rs\<close>, \<open>write_secret.rs\<close>). The directory of a bundle is the list of its files.
\<close>

subsection \<open>The decision\<close>

datatype git_action = GitClone | GitFetch | GitPush | PullRequestCreate | PullRequestComment | PullRequestReview
  | IssueComment | WebhookEventIngest

fun git_action_as_str :: "git_action \<Rightarrow> string" where
  "git_action_as_str GitClone = ''clone''"
| "git_action_as_str GitFetch = ''fetch''"
| "git_action_as_str GitPush = ''push''"
| "git_action_as_str PullRequestCreate = ''pull_request_create''"
| "git_action_as_str PullRequestComment = ''pull_request_comment''"
| "git_action_as_str PullRequestReview = ''pull_request_review''"
| "git_action_as_str IssueComment = ''issue_comment''"
| "git_action_as_str WebhookEventIngest = ''webhook_event_ingest''"

datatype token_source = AppToken | UserPat

fun token_source_as_str :: "token_source \<Rightarrow> string" where
  "token_source_as_str AppToken = ''app''"
| "token_source_as_str UserPat = ''user_pat''"

datatype github_auth_mode = AppPlusPat | AppOnly | PatOnly | MissingAuth

fun github_auth_mode_text :: "github_auth_mode \<Rightarrow> string" where
  "github_auth_mode_text AppPlusPat = ''app''"
| "github_auth_mode_text AppOnly = ''app''"
| "github_auth_mode_text PatOnly = ''pat_required''"
| "github_auth_mode_text MissingAuth = ''missing''"

definition decide_token_source :: "git_action \<Rightarrow> github_auth_mode \<Rightarrow> bool \<Rightarrow> token_source option" where
  "decide_token_source action mode attribute_commits =
     (case mode of
        MissingAuth \<Rightarrow> None
      | AppOnly \<Rightarrow> Some AppToken
      | PatOnly \<Rightarrow> Some UserPat
      | AppPlusPat \<Rightarrow> Some (case action of
            GitClone \<Rightarrow> AppToken
          | GitFetch \<Rightarrow> AppToken
          | WebhookEventIngest \<Rightarrow> AppToken
          | _ \<Rightarrow> UserPat))"

subsection \<open>The resolver\<close>

datatype git_auth_error =
    UnauthenticatedGit string string
  | GitMasterKeyUnavailable string
  | GitSsoAuthorizationRequired string string
  | GitHubAppTokenFetchFailed string
  | GitAuthInternal string

definition git_auth_error_text :: "git_auth_error \<Rightarrow> string" where
  "git_auth_error_text e =
     (case e of
        UnauthenticatedGit user action \<Rightarrow>
          ''UnauthenticatedGit: no GitHub auth source available for action '' @ action @ '' (user '' @ user @ '')''
      | GitMasterKeyUnavailable user \<Rightarrow> ''MasterKeyUnavailable: cannot unseal user PAT for user '' @ user
      | GitSsoAuthorizationRequired org url \<Rightarrow> ''sso_authorization_required: org='' @ org @ '' url='' @ url
      | GitHubAppTokenFetchFailed m \<Rightarrow> ''GitHubAppTokenFetchFailed: '' @ m
      | GitAuthInternal m \<Rightarrow> ''ResolverInternal: '' @ m)"

definition git_auth_error_code :: "git_auth_error \<Rightarrow> string" where
  "git_auth_error_code e =
     (case e of
        UnauthenticatedGit _ _ \<Rightarrow> ''unauthenticated_git''
      | GitMasterKeyUnavailable _ \<Rightarrow> ''master_key_unavailable''
      | GitSsoAuthorizationRequired _ _ \<Rightarrow> ''sso_authorization_required''
      | GitHubAppTokenFetchFailed _ \<Rightarrow> ''github_app_token_fetch_failed''
      | GitAuthInternal _ \<Rightarrow> ''resolver_internal'')"

definition auth_warning_payload :: "git_auth_error \<Rightarrow> string \<times> string" where
  "auth_warning_payload e =
     (case e of
        GitSsoAuthorizationRequired org url \<Rightarrow>
          (''sso_authorization_required'', ''SSO authorization required for org '' @ org @ '': authorize at '' @ url)
      | UnauthenticatedGit _ _ \<Rightarrow> (''unauthenticated_git'', ''GitHub authentication missing for this workflow'' @ [CHR 0x27] @ ''s owner'')
      | GitMasterKeyUnavailable _ \<Rightarrow>
          (''master_key_unavailable'', ''Master key not loaded; per-user credentials cannot be unsealed'')
      | GitHubAppTokenFetchFailed m \<Rightarrow> (''github_app_token_fetch_failed'', m)
      | GitAuthInternal m \<Rightarrow> (''auth_warning'', m))"

record git_token =
  gt_bearer :: string
  gt_source :: token_source
  gt_author_name :: "string option"
  gt_author_email :: "string option"
  gt_credential_row_id :: "int option"

type_synonym 'a git_call = "vault_tables store \<Rightarrow> (git_auth_error + 'a) \<times> vault_tables store"

definition git_then :: "'a git_call \<Rightarrow> ('a \<Rightarrow> 'b git_call) \<Rightarrow> 'b git_call" where
  "git_then c f s = (case c s of (Inl e, s') \<Rightarrow> (Inl e, s') | (Inr x, s') \<Rightarrow> f x s')"

definition find_pat_row :: "string \<Rightarrow> github_row option git_call" where
  "find_pat_row user s =
     (case find_github user s of
        (Inl m, s') \<Rightarrow> (Inl (GitAuthInternal (''github_credentials::find failed: '' @ m)), s')
      | (Inr r, s') \<Rightarrow> (Inr r, s'))"

definition required_row :: "string \<Rightarrow> string \<Rightarrow> github_row git_call" where
  "required_row user step = git_then (find_pat_row user) (\<lambda>r s.
     case r of None \<Rightarrow> (Inl (UnauthenticatedGit user step), s) | Some row \<Rightarrow> (Inr row, s))"

definition user_has_pat :: "string \<Rightarrow> bool git_call" where
  "user_has_pat user = git_then (find_pat_row user) (\<lambda>r s. (Inr (r \<noteq> None), s))"

definition mode_for_user :: "vault_env \<Rightarrow> string \<Rightarrow> github_auth_mode git_call" where
  "mode_for_user env user = git_then (user_has_pat user) (\<lambda>pat s.
     (Inr (if ve_app env \<noteq> None then if pat then AppPlusPat else AppOnly
           else if pat then PatOnly else MissingAuth), s))"

definition unseal_user_pat :: "vault_env \<Rightarrow> string \<Rightarrow> string git_call" where
  "unseal_user_pat env user s =
     (case ve_master env of
        None \<Rightarrow> (Inl (GitMasterKeyUnavailable user), s)
      | Some mk \<Rightarrow> git_then (required_row user ''unseal_user_pat'') (\<lambda>row s.
          (case open_sealed env mk (gc_sealed row) of
             Inl e \<Rightarrow> Inl (GitAuthInternal (''open(user_pat) failed: '' @ seal_error_text e))
           | Inr plaintext \<Rightarrow>
               if utf8_valid plaintext then Inr plaintext
               else Inl (GitAuthInternal ''user PAT plaintext is not UTF-8''), s)) s)"

definition bot_name :: string where "bot_name = ''takuto-bot[bot]''"

definition bot_email :: "github_app \<Rightarrow> string" where
  "bot_email app = show_nat (ga_app_id app) @ ''+takuto-bot[bot]@users.noreply.github.com''"

definition materialise_app_token :: "vault_env \<Rightarrow> git_token git_call" where
  "materialise_app_token env s =
     (case ve_app env of
        None \<Rightarrow> (Inl (GitAuthInternal ''App-path selected but no GitHubAppTokenManager configured''), s)
      | Some app \<Rightarrow>
          ((case ga_installation_token app (st_ticks s) of
              Inl m \<Rightarrow> Inl (GitHubAppTokenFetchFailed m)
            | Inr token \<Rightarrow> Inr \<lparr>gt_bearer = token, gt_source = AppToken, gt_author_name = Some bot_name,
                gt_author_email = Some (bot_email app), gt_credential_row_id = None\<rparr>),
           s\<lparr>st_ticks := Suc (st_ticks s)\<rparr>))"

text \<open>A minute in nanoseconds.\<close>

definition should_audit_first_use :: "vault_env \<Rightarrow> string option \<Rightarrow> nat \<Rightarrow> bool" where
  "should_audit_first_use env last_used n =
     (case Option.bind last_used (ve_rfc3339 env) of
        None \<Rightarrow> True
      | Some prev \<Rightarrow> ve_nanos env n - prev > 60 * 10 ^ 9)"

definition record_first_use :: "vault_env \<Rightarrow> string \<Rightarrow> vault_tables store \<Rightarrow> vault_tables store" where
  "record_first_use env user s =
     (case clock_now env s of (now, s) \<Rightarrow>
      let s = snd (value_or_default () (touch_github_validated user now s))
      in snd (value_or_default () (log_credential env user (Some user) GithubPatAudit None ''used'' ''ok'' None s)))"

definition materialise_user_pat :: "vault_env \<Rightarrow> string \<Rightarrow> git_token git_call" where
  "materialise_user_pat env user = git_then (unseal_user_pat env user) (\<lambda>pat.
     git_then (required_row user ''materialise_user_pat'') (\<lambda>row s.
       let n = st_ticks s; s = s\<lparr>st_ticks := Suc n\<rparr>;
           s = (if should_audit_first_use env (gc_last_validated_at row) n then record_first_use env user s else s)
       in (Inr \<lparr>gt_bearer = pat, gt_source = UserPat, gt_author_name = Some (gc_login row),
             gt_author_email = Some (gc_login row @ ''@users.noreply.github.com''), gt_credential_row_id = None\<rparr>, s)))"

definition token_for :: "vault_env \<Rightarrow> git_action \<Rightarrow> string \<Rightarrow> git_token git_call" where
  "token_for env action user = git_then (mode_for_user env user) (\<lambda>mode s.
     case decide_token_source action mode False of
       None \<Rightarrow> (Inl (UnauthenticatedGit user (git_action_as_str action)), s)
     | Some AppToken \<Rightarrow> materialise_app_token env s
     | Some UserPat \<Rightarrow> materialise_user_pat env user s)"

text \<open>The two checks of a stored token; \<open>Inl ()\<close>: the validation panics. \<open>debug\<close> is the printer of \<open>\{:?\}\<close>.\<close>

definition revalidated :: "(pat_validation_error \<Rightarrow> string) \<Rightarrow> pat_validation_error + validated_pat \<Rightarrow> git_auth_error + unit" where
  "revalidated message r =
     (case r of
        Inr _ \<Rightarrow> Inr ()
      | Inl (SsoAuthorizationRequired org url) \<Rightarrow> Inl (GitSsoAuthorizationRequired org url)
      | Inl e \<Rightarrow> Inl (GitAuthInternal (message e)))"

definition pat_problem :: "pat_validation_error \<Rightarrow> string" where
  "pat_problem e =
     (case e of
        InvalidPat \<Rightarrow> ''PAT no longer valid (revoked or expired)''
      | InsufficientScopes missing \<Rightarrow> ''PAT lost required scopes; missing: '' @ join '', '' missing
      | Transport m \<Rightarrow> ''PAT revalidation transport error: '' @ m
      | SsoAuthorizationRequired _ _ \<Rightarrow> [])"

definition with_stored_pat ::
  "vault_env \<Rightarrow> string \<Rightarrow> string list \<Rightarrow>
   (pat_validation_error + validated_pat \<Rightarrow> vault_tables store \<Rightarrow> (git_auth_error + unit) \<times> vault_tables store) \<Rightarrow>
   vault_tables store \<Rightarrow> (unit + (git_auth_error + unit)) \<times> vault_tables store" where
  "with_stored_pat env user orgs f s =
     (case user_has_pat user s of
        (Inl e, s) \<Rightarrow> (Inr (Inl e), s)
      | (Inr False, s) \<Rightarrow> (Inr (Inr ()), s)
      | (Inr True, s) \<Rightarrow>
          (case unseal_user_pat env user s of
             (Inl e, s) \<Rightarrow> (Inr (Inl e), s)
           | (Inr pat, s) \<Rightarrow>
               (case validate_pat env pat orgs of
                  Inl _ \<Rightarrow> (Inl (), s)
                | Inr r \<Rightarrow> apfst Inr (f r s))))"

definition revalidate_pat_for_workflow ::
  "vault_env \<Rightarrow> string \<Rightarrow> string list \<Rightarrow> vault_tables store \<Rightarrow> (unit + (git_auth_error + unit)) \<times> vault_tables store" where
  "revalidate_pat_for_workflow env user orgs = with_stored_pat env user orgs (\<lambda>r s.
     (revalidated pat_problem r,
      case r of Inl e \<Rightarrow> audit_rejection env user None GithubPatAudit (pat_error_code e) s | Inr _ \<Rightarrow> s))"

definition revalidate_sso ::
  "vault_env \<Rightarrow> (pat_validation_error \<Rightarrow> string) \<Rightarrow> string \<Rightarrow> string list \<Rightarrow> vault_tables store \<Rightarrow>
   (unit + (git_auth_error + unit)) \<times> vault_tables store" where
  "revalidate_sso env debug user orgs = with_stored_pat env user orgs (\<lambda>r s.
     (revalidated (\<lambda>e. ''PAT revalidation failed: '' @ debug e) r, s))"

end
