(* ===== verification/Worker_Secrets.thy ===== *)
theory Worker_Secrets
  imports Git_Auth
begin

text \<open>
  The secrets of a worker container (\<open>auth/bundle/\<close>): which files its directory holds, with what in them, and which
  variables it is started with. A write of a file or of the directory may fail (\<open>bf_\<close> gives the messages); a failed
  build drops the directory.
\<close>

record bundle_config =
  bc_provider :: ai_agent_provider
  bc_base_url :: "ai_agent_provider \<Rightarrow> string"
  bc_extra_args :: "ai_agent_provider \<Rightarrow> string list"
  bc_allow_shared_default :: "ai_agent_provider \<Rightarrow> bool"
  bc_opencode_model :: string
  bc_context_limit :: "nat option"
  bc_output_limit :: "nat option"

record bundle_faults =
  bf_tempdir :: "string option"
  bf_subdir :: "string option"
  bf_write :: "string \<Rightarrow> (string \<times> string) option"

datatype bundle_error =
    BundleProviderInvalid string
  | BundleMasterKeyUnavailable
  | BundleTempdir string
  | BundleSecretFile string string string
  | BundleDbLookup string string
  | BundleClaudeState string string
  | BundleOperational string string

definition SECRET_FILE_CLAUDE :: string where "SECRET_FILE_CLAUDE = ''claude''"
definition SECRET_FILE_CURSOR :: string where "SECRET_FILE_CURSOR = ''cursor''"
definition SECRET_FILE_CODEX :: string where "SECRET_FILE_CODEX = ''codex''"
definition SECRET_FILE_OPENCODE :: string where "SECRET_FILE_OPENCODE = ''opencode''"
definition SECRET_FILE_GH :: string where "SECRET_FILE_GH = ''gh''"
definition SECRET_FILE_CLAUDE_SESSION :: string where "SECRET_FILE_CLAUDE_SESSION = ''claude_session.json''"
definition OPENCODE_CONFIG_SUBDIR :: string where "OPENCODE_CONFIG_SUBDIR = ''opencode-config''"
definition OPENCODE_CONFIG_FILENAME :: string where "OPENCODE_CONFIG_FILENAME = ''opencode.json''"
definition DEFAULT_DUMMY_API_KEY :: string where "DEFAULT_DUMMY_API_KEY = ''lm-studio''"
definition SELF_HOSTED_PROVIDER_ID :: string where "SELF_HOSTED_PROVIDER_ID = ''self_hosted''"
definition NPM_ADAPTER :: string where "NPM_ADAPTER = ''@ai-sdk/openai-compatible''"

type_synonym files = "(string \<times> string) list"

text \<open>A file is created new: a name that is there already is an error of the file system.\<close>

definition write_secret_file :: "bundle_faults \<Rightarrow> string \<Rightarrow> string \<Rightarrow> files \<Rightarrow> bundle_error + files" where
  "write_secret_file fs path bytes dir =
     (if path \<in> fst ` set dir then Inl (BundleSecretFile ''create'' path ''File exists (os error 17)'')
      else case bf_write fs path of
        Some (op, detail) \<Rightarrow> Inl (BundleSecretFile op path detail)
      | None \<Rightarrow> Inr (dir @ [(path, bytes)]))"

definition parse_pin_provider :: "string \<Rightarrow> bundle_error + ai_agent_provider" where
  "parse_pin_provider s =
     (case parse_provider s of
        Some p \<Rightarrow> Inr p
      | None \<Rightarrow> Inl (BundleProviderInvalid (''[agent] provider: unknown provider '' @ json_quoted s @
          '' (expected one of: claude, cursor, codex, opencode)'')))"

subsection \<open>Unsealing\<close>

text \<open>The key of the provider; none, when there is none and the deployment's own may be used.\<close>

definition unseal_provider_plaintext_bytes ::
  "vault_env \<Rightarrow> bundle_config \<Rightarrow> string \<Rightarrow> auth_pin \<Rightarrow> string \<Rightarrow> vault_tables store \<Rightarrow>
   (bundle_error + string option) \<times> vault_tables store" where
  "unseal_provider_plaintext_bytes env cfg mk pin user s =
     (case parse_pin_provider (ap_provider pin) of
        Inl e \<Rightarrow> (Inl e, s)
      | Inr provider \<Rightarrow>
          (case find_active_with_kind user (ap_provider pin) ApiKey s of
             (Inl m, s) \<Rightarrow> (Inl (BundleDbLookup ''find_active_with_kind(provider_credential)'' m), s)
           | (Inr (Some row), s) \<Rightarrow>
               ((case open_sealed env mk (pc_sealed row) of
                   Inl e \<Rightarrow> Inl (BundleOperational ''open(provider_credential)'' (seal_error_text e))
                 | Inr plaintext \<Rightarrow> Inr (Some plaintext)), s)
           | (Inr None, s) \<Rightarrow>
               (if bc_allow_shared_default cfg provider then Inr None
                else Inl (BundleOperational ''provider_credential_missing''
                  (''user '' @ user @ '' has no '' @ provider_as_str provider @ '' credential and allow_shared_default = false'')), s)))"

definition secret_file_of :: "ai_agent_provider \<Rightarrow> string" where
  "secret_file_of p =
     (case p of
        Claude \<Rightarrow> SECRET_FILE_CLAUDE
      | Cursor \<Rightarrow> SECRET_FILE_CURSOR
      | Codex \<Rightarrow> SECRET_FILE_CODEX
      | OpenCode \<Rightarrow> SECRET_FILE_OPENCODE)"

type_synonym 'a file_step = "files \<Rightarrow> vault_tables store \<Rightarrow> (bundle_error + ('a \<times> files)) \<times> vault_tables store"

definition unseal_provider_credential ::
  "vault_env \<Rightarrow> bundle_config \<Rightarrow> bundle_faults \<Rightarrow> string \<Rightarrow> auth_pin \<Rightarrow> string \<Rightarrow> string option file_step" where
  "unseal_provider_credential env cfg fs mk pin user dir s =
     (case unseal_provider_plaintext_bytes env cfg mk pin user s of
        (Inl e, s) \<Rightarrow> (Inl e, s)
      | (Inr None, s) \<Rightarrow> (Inr (None, dir), s)
      | (Inr (Some plaintext), s) \<Rightarrow>
          ((case parse_pin_provider (ap_provider pin) of
              Inl e \<Rightarrow> Inl e
            | Inr provider \<Rightarrow>
                (case write_secret_file fs (secret_file_of provider) plaintext dir of
                   Inl e \<Rightarrow> Inl e
                 | Inr dir' \<Rightarrow> Inr (Some (secret_file_of provider), dir'))), s))"

definition unseal_claude_session ::
  "vault_env \<Rightarrow> bundle_faults \<Rightarrow> string \<Rightarrow> string \<Rightarrow> string option file_step" where
  "unseal_claude_session env fs mk user dir s =
     (case find_active_with_kind user (provider_as_str Claude) CliState s of
        (Inl m, s) \<Rightarrow> (Inl (BundleDbLookup ''find_active_with_kind(cli_state)'' m), s)
      | (Inr None, s) \<Rightarrow> (Inr (None, dir), s)
      | (Inr (Some row), s) \<Rightarrow>
          ((case open_sealed env mk (pc_sealed row) of
              Inl e \<Rightarrow> Inl (BundleClaudeState ''open seal'' (seal_error_text e))
            | Inr plaintext \<Rightarrow>
                if \<not> utf8_valid plaintext \<or> parse_json (ve_json env) plaintext = None
                then Inl (BundleClaudeState ''json validate'' ''cli_state blob is not valid JSON (corrupt seal or schema drift)'')
                else (case write_secret_file fs SECRET_FILE_CLAUDE_SESSION plaintext dir of
                        Inl e \<Rightarrow> Inl e
                      | Inr dir' \<Rightarrow> Inr (Some SECRET_FILE_CLAUDE_SESSION, dir'))), s))"

definition trimmed_non_empty :: "string \<Rightarrow> string option" where
  "trimmed_non_empty s = (if trim s = [] then None else Some (trim s))"

subsection \<open>The configuration of OpenCode\<close>

definition positive_limit :: "string \<Rightarrow> nat option \<Rightarrow> (string \<times> json) list" where
  "positive_limit key l = (case l of Some n \<Rightarrow> if n > 0 then [(key, JInt (int n))] else [] | None \<Rightarrow> [])"

definition opencode_document :: "string \<Rightarrow> string \<Rightarrow> string \<Rightarrow> nat option \<Rightarrow> nat option \<Rightarrow> json" where
  "opencode_document base_url model api_key context_limit output_limit =
     (let limit = positive_limit ''context'' context_limit @ positive_limit ''output'' output_limit;
          model_entry = (if limit = [] then [] else [(''limit'', JObject limit)])
      in JObject
        [([CHR ''$''] @ ''schema'', JString ''https://opencode.ai/config.json''),
         (''provider'', JObject [(SELF_HOSTED_PROVIDER_ID, JObject
           [(''npm'', JString NPM_ADAPTER), (''name'', JString ''Self-hosted (Takuto)''),
            (''options'', JObject [(''baseURL'', JString base_url), (''apiKey'', JString api_key)]),
            (''models'', JObject [(model, JObject model_entry)])])])])"

definition spec_violated :: "string \<Rightarrow> string" where
  "spec_violated what = what @ '' is empty '' @ em_dash @ '' validator should have caught this; spec '' @
     ''lore/audits/2026-05-27-opencode-self-hosted-spec.md '' @ [CHR 0xC2, CHR 0xA7] @ ''2.4 invariant violated''"

definition opencode_api_key :: "vault_env \<Rightarrow> string option \<Rightarrow> bundle_error + string" where
  "opencode_api_key env bearer =
     (case bearer of
        Some (c # bytes) \<Rightarrow>
          if utf8_valid (c # bytes) then Inr (c # bytes)
          else Inl (BundleOperational ''opencode_config_shim'' (''bearer is not valid UTF-8: '' @ ve_utf8_error env (c # bytes)))
      | _ \<Rightarrow> Inr DEFAULT_DUMMY_API_KEY)"

definition write_opencode_config ::
  "vault_env \<Rightarrow> bundle_faults \<Rightarrow> string \<Rightarrow> string \<Rightarrow> string option \<Rightarrow> nat option \<Rightarrow> nat option \<Rightarrow> files \<Rightarrow> bundle_error + files" where
  "write_opencode_config env fs base_url model bearer context_limit output_limit dir =
     (if trim base_url = [] then Inl (BundleOperational ''opencode_config_shim'' (spec_violated ''base_url''))
      else if trim model = [] then Inl (BundleOperational ''opencode_config_shim'' (spec_violated ''model''))
      else let m = (case strip_prefix (SELF_HOSTED_PROVIDER_ID @ ''/'') (trim model) of Some x \<Rightarrow> x | None \<Rightarrow> trim model) in
        case opencode_api_key env bearer of
          Inl e \<Rightarrow> Inl e
        | Inr key \<Rightarrow>
            (case ve_json_pretty env (opencode_document (trim base_url) m key context_limit output_limit) of
               Inl e \<Rightarrow> Inl (BundleOperational ''opencode_config_shim'' (''serialize opencode.json: '' @ e))
             | Inr bytes \<Rightarrow> write_secret_file fs (OPENCODE_CONFIG_SUBDIR @ ''/'' @ OPENCODE_CONFIG_FILENAME) bytes dir))"

subsection \<open>The bundle\<close>

record secrets_bundle =
  sx_provider :: ai_agent_provider
  sx_provider_secret_file :: "string option"
  sx_claude_session_file :: "string option"
  sx_github_token_file :: "string option"
  sx_git_author_name :: "string option"
  sx_git_author_email :: "string option"
  sx_base_url :: "string option"
  sx_extra_args :: "string list"
  sx_extra_env :: "(string \<times> string) list"
  sx_opencode_config_dir :: "string option"
  sx_files :: files

definition then_step :: "'a file_step \<Rightarrow> ('a \<Rightarrow> 'b file_step) \<Rightarrow> 'b file_step" where
  "then_step c f dir s = (case c dir s of (Inl e, s') \<Rightarrow> (Inl e, s') | (Inr (x, dir'), s') \<Rightarrow> f x dir' s')"

definition opencode_step ::
  "vault_env \<Rightarrow> bundle_config \<Rightarrow> bundle_faults \<Rightarrow> string \<Rightarrow> auth_pin \<Rightarrow> string \<Rightarrow> string option file_step" where
  "opencode_step env cfg fs mk pin user dir s =
     (case unseal_provider_plaintext_bytes env cfg mk pin user s of
        (Inl e, s) \<Rightarrow> (Inl e, s)
      | (Inr bearer, s) \<Rightarrow>
          ((case bf_subdir fs of
              Some m \<Rightarrow> Inl (BundleSecretFile ''create'' OPENCODE_CONFIG_SUBDIR m)
            | None \<Rightarrow>
                (case write_opencode_config env fs (bc_base_url cfg OpenCode) (bc_opencode_model cfg) bearer
                   (bc_context_limit cfg) (bc_output_limit cfg) dir of
                   Inl e \<Rightarrow> Inl e
                 | Inr dir' \<Rightarrow> Inr (Some OPENCODE_CONFIG_SUBDIR, dir'))), s))"

text \<open>The file, the name and the address of the git identity; a user without any may still start.\<close>

definition github_step ::
  "vault_env \<Rightarrow> bundle_faults \<Rightarrow> string \<Rightarrow> (string option \<times> string option \<times> string option) file_step" where
  "github_step env fs user dir s =
     (case token_for env GitPush user s of
        (Inr tok, s) \<Rightarrow>
          ((case write_secret_file fs SECRET_FILE_GH (gt_bearer tok) dir of
              Inl e \<Rightarrow> Inl e
            | Inr dir' \<Rightarrow> Inr ((Some SECRET_FILE_GH, gt_author_name tok, gt_author_email tok), dir')), s)
      | (Inl (UnauthenticatedGit _ _), s) \<Rightarrow> (Inr ((None, None, None), dir), s)
      | (Inl e, s) \<Rightarrow> (Inl (BundleOperational ''resolver token_for(Push)'' (git_auth_error_text e)), s))"

definition bundle_base_url :: "bundle_config \<Rightarrow> ai_agent_provider \<Rightarrow> string option" where
  "bundle_base_url cfg p = (case p of Cursor \<Rightarrow> None | _ \<Rightarrow> trimmed_non_empty (bc_base_url cfg p))"

definition bundle_env :: "ai_agent_provider \<Rightarrow> string option \<Rightarrow> string option \<Rightarrow> string option \<Rightarrow> (string \<times> string) list" where
  "bundle_env p base_url author_name author_email =
     [(''TAKUTO_AUTH_BUNDLE'', ''1'')] @
     (case base_url of
        None \<Rightarrow> []
      | Some url \<Rightarrow> (case p of Claude \<Rightarrow> [(''ANTHROPIC_BASE_URL'', url)] | Codex \<Rightarrow> [(''OPENAI_BASE_URL'', url)] | _ \<Rightarrow> [])) @
     (case author_name of None \<Rightarrow> [] | Some n \<Rightarrow> [(''GIT_AUTHOR_NAME'', n), (''GIT_COMMITTER_NAME'', n)]) @
     (case author_email of None \<Rightarrow> [] | Some m \<Rightarrow> [(''GIT_AUTHOR_EMAIL'', m), (''GIT_COMMITTER_EMAIL'', m)])"

definition no_step :: "'a option file_step" where
  "no_step dir s = (Inr (None, dir), s)"

definition build_bundle ::
  "vault_env \<Rightarrow> bundle_config \<Rightarrow> bundle_faults \<Rightarrow> auth_pin \<Rightarrow> string \<Rightarrow> vault_tables store \<Rightarrow>
   (bundle_error + secrets_bundle) \<times> vault_tables store" where
  "build_bundle env cfg fs pin user s =
     (case parse_pin_provider (ap_provider pin) of
        Inl e \<Rightarrow> (Inl e, s)
      | Inr p \<Rightarrow>
          (case ve_master env of
             None \<Rightarrow> (Inl BundleMasterKeyUnavailable, s)
           | Some mk \<Rightarrow>
               (case bf_tempdir fs of
                  Some m \<Rightarrow> (Inl (BundleTempdir m), s)
                | None \<Rightarrow>
                    apfst (map_sum id fst)
                      (then_step (if p = OpenCode then no_step else unseal_provider_credential env cfg fs mk pin user) (\<lambda>secret.
                       then_step (if p = Claude then unseal_claude_session env fs mk user else no_step) (\<lambda>session.
                       then_step (if p = OpenCode then opencode_step env cfg fs mk pin user else no_step) (\<lambda>config_dir.
                       then_step (github_step env fs user) (\<lambda>(gh, author_name, author_email) dir s.
                         (Inr (\<lparr>sx_provider = p, sx_provider_secret_file = secret, sx_claude_session_file = session,
                            sx_github_token_file = gh, sx_git_author_name = author_name, sx_git_author_email = author_email,
                            sx_base_url = bundle_base_url cfg p, sx_extra_args = bc_extra_args cfg p,
                            sx_extra_env = bundle_env p (bundle_base_url cfg p) author_name author_email,
                            sx_opencode_config_dir = config_dir, sx_files = dir\<rparr>, dir), s))))) [] s))))"

definition rfc3339_now :: "vault_env \<Rightarrow> 't store \<Rightarrow> string \<times> 't store" where
  "rfc3339_now env s = (ve_rfc3339_text env (ve_nanos env (st_ticks s)), s\<lparr>st_ticks := Suc (st_ticks s)\<rparr>)"

definition build_for_endpoint ::
  "vault_env \<Rightarrow> bundle_config \<Rightarrow> bundle_faults \<Rightarrow> string \<Rightarrow> vault_tables store \<Rightarrow>
   (bundle_error + secrets_bundle) \<times> vault_tables store" where
  "build_for_endpoint env cfg fs user s =
     (case rfc3339_now env s of (now, s) \<Rightarrow>
        build_bundle env cfg fs
          \<lparr>ap_provider = provider_as_str (bc_provider cfg), ap_provider_credential_row_id = None,
           ap_github_mode = ''unknown'', ap_github_credential_row_id = None, ap_started_at = now\<rparr> user s)"

definition pin_for_workflow ::
  "vault_env \<Rightarrow> bundle_config \<Rightarrow> string \<Rightarrow> vault_tables store \<Rightarrow> (bundle_error + auth_pin) \<times> vault_tables store" where
  "pin_for_workflow env cfg user s =
     (let provider = provider_as_str (bc_provider cfg) in
      case find_active user provider s of
        (Inl m, s) \<Rightarrow> (Inl (BundleDbLookup ''provider_credentials::find_active'' m), s)
      | (Inr p, s) \<Rightarrow>
          (case find_github user s of
             (Inl m, s) \<Rightarrow> (Inl (BundleDbLookup ''github_credentials::find'' m), s)
           | (Inr g, s) \<Rightarrow>
               (case rfc3339_now env s of (now, s) \<Rightarrow>
                  (Inr \<lparr>ap_provider = provider, ap_provider_credential_row_id = map_option pc_id p,
                     ap_github_mode = token_source_as_str (if g = None then AppToken else UserPat),
                     ap_github_credential_row_id = map_option (\<lambda>_. 0) g, ap_started_at = now\<rparr>, s))))"

end
