(* ===== verification/Vault_Props.thy ===== *)
theory Vault_Props
  imports Vault_Routes
begin

text \<open>
  What the credential routes promise: a request touches only the rows of the caller, a change of a credential is
  committed together with the audit entry that says so, and no reply depends on a sealed secret.
\<close>

subsection \<open>The effect of a request\<close>

definition credentials_of :: "vault_tables \<Rightarrow> string provider_row list \<times> github_row list \<times> jira_row list" where
  "credentials_of t = (vt_providers t, vt_github t, vt_jira t)"

definition others :: "string \<Rightarrow> vault_tables \<Rightarrow> string provider_row list \<times> github_row list \<times> jira_row list" where
  "others u t = (filter (\<lambda>r. pc_user r \<noteq> u) (vt_providers t), filter (\<lambda>r. gc_user r \<noteq> u) (vt_github t),
     filter (\<lambda>r. jc_user r \<noteq> u) (vt_jira t))"

definition vault_ok :: "vault_tables \<Rightarrow> bool" where
  "vault_ok t \<longleftrightarrow> distinct (List.map pc_id (vt_providers t)) \<and> (\<forall>r \<in> set (vt_providers t). pc_id r < vt_next_provider t)"

definition own_only :: "string \<Rightarrow> vault_tables \<Rightarrow> vault_tables \<Rightarrow> bool" where
  "own_only u t t' \<longleftrightarrow> vt_users t' = vt_users t \<and> (vault_ok t \<longrightarrow> vault_ok t' \<and> others u t' = others u t)"

interpretation own: kept_relation "own_only u" for u
  by unfold_locales (auto simp: own_only_def)

definition success_row :: "string \<Rightarrow> audit_row \<Rightarrow> bool" where
  "success_row u r \<longleftrightarrow> ca_user r = u \<and> ca_actor r = Some u \<and> ca_outcome r = ''ok'' \<and>
     ca_event r \<in> {''created'', ''rotated'', ''deleted''}"

definition committed :: "string \<Rightarrow> vault_tables \<Rightarrow> vault_tables \<Rightarrow> bool" where
  "committed u t t' \<longleftrightarrow> own_only u t t' \<and> (\<exists>r. vt_audit t' = vt_audit t @ [r] \<and> success_row u r)"

definition rejected :: "string \<Rightarrow> vault_tables \<Rightarrow> vault_tables \<Rightarrow> bool" where
  "rejected u t t' \<longleftrightarrow> (\<exists>r. t' = t\<lparr>vt_audit := vt_audit t @ [r], vt_next_audit := vt_next_audit t + 1\<rparr> \<and>
     ca_user r = u \<and> ca_event r = ''validation_failed'' \<and> ca_outcome r = ''error'')"

subsection \<open>The statements\<close>

lemma statement_result: "statement f s = (Inr x, s') \<Longrightarrow> (Inr x, st_tables s') = f (st_tables s)"
  by (simp add: statement_Inr)

lemma filter_map_own:
  "(\<And>r. k (f r) = k r) \<Longrightarrow> filter (\<lambda>r. k r \<noteq> u) (List.map (\<lambda>r. if k r = u then f r else r) xs) = filter (\<lambda>r. k r \<noteq> u) xs"
  by (induction xs) auto

lemma own_github: "(\<And>r. gc_user (f r) = gc_user r) \<Longrightarrow> own_only u t (set_github u f t)"
  by (auto simp: own_only_def set_github_def others_def vault_ok_def filter_map_own)

lemma own_audit: "insert_audit_row r t = (x, t') \<Longrightarrow> own_only u t t'"
  by (auto simp: insert_audit_row_def own_only_def others_def vault_ok_def split: if_splits)

lemma keeps_log: "own.keeps u (log_credential env v actor kind p event outcome code)"
  unfolding log_credential_def
  by (intro own.keeps_with_time own.keeps_statement) (rule own_audit)

lemma log_appends:
  assumes "log_credential env v actor kind p event outcome code s = (Inr x, s')"
  obtains r where "st_tables s' = (st_tables s)\<lparr>vt_audit := vt_audit (st_tables s) @ [r],
      vt_next_audit := vt_next_audit (st_tables s) + 1\<rparr>"
    "ca_user r = v" "ca_actor r = actor" "ca_event r = event" "ca_outcome r = outcome"
proof -
  let ?r = "\<lparr>ca_id = 0, ca_user = v, ca_actor = actor, ca_kind = credential_audit_kind_as_str kind, ca_provider = p,
    ca_event = event, ca_outcome = outcome, ca_error_code = code, ca_at = now_iso env (st_ticks s)\<rparr>"
  have "insert_audit_row ?r (st_tables s) = (Inr x, st_tables s')"
    using assms unfolding log_credential_def with_time_def by (auto dest!: statement_result)
  then have "st_tables s' = (st_tables s)\<lparr>vt_audit := vt_audit (st_tables s) @ [?r\<lparr>ca_id := vt_next_audit (st_tables s)\<rparr>],
      vt_next_audit := vt_next_audit (st_tables s) + 1\<rparr>"
    by (simp add: insert_audit_row_def split: if_splits)
  then show ?thesis by (rule that) simp_all
qed

lemma log_fails:
  assumes "log_credential env v actor kind p event outcome code s = (Inl m, s')"
  shows "st_tables s' = st_tables s"
  using assms unfolding log_credential_def with_time_def statement_def insert_audit_row_def
  by (auto split: prod.splits option.splits if_splits)

lemma upsert_github_effect:
  assumes "upsert_github env u b l sc sign s = (Inr x, s')"
  shows "own_only u (st_tables s) (st_tables s') \<and> vt_audit (st_tables s') = vt_audit (st_tables s)"
  using assms unfolding upsert_github_def with_time_def
  by (auto dest!: statement_result simp: own_only_def others_def vault_ok_def filter_map_own split: if_splits)

lemma upsert_jira_effect:
  assumes "upsert_jira env u b site email i n s = (Inr x, s')"
  shows "own_only u (st_tables s) (st_tables s') \<and> vt_audit (st_tables s') = vt_audit (st_tables s)"
  using assms unfolding upsert_jira_def with_time_def
  by (auto dest!: statement_result simp: own_only_def others_def vault_ok_def filter_map_own split: if_splits)

lemma touch_github_effect:
  assumes "touch_github_validated u w s = (Inr x, s')"
  shows "own_only u (st_tables s) (st_tables s') \<and> vt_audit (st_tables s') = vt_audit (st_tables s)"
  using assms own_github [of "\<lambda>r. r\<lparr>gc_last_validated_at := Some w\<rparr>" u "st_tables s"]
  unfolding touch_github_validated_def by (auto dest!: change_rows_Inr simp: set_github_def)

lemma touch_jira_effect:
  assumes "touch_jira_validated u w s = (Inr x, s')"
  shows "own_only u (st_tables s) (st_tables s') \<and> vt_audit (st_tables s') = vt_audit (st_tables s)"
  using assms unfolding touch_jira_validated_def
  by (auto dest!: change_rows_Inr simp: own_only_def others_def vault_ok_def filter_map_own)

lemma set_sign_commits_effect:
  assumes "set_sign_commits env u v s = (Inr x, s')"
  shows "own_only u (st_tables s) (st_tables s') \<and> vt_audit (st_tables s') = vt_audit (st_tables s) \<and>
    (\<not> x \<longrightarrow> st_tables s' = st_tables s)"
proof -
  let ?f = "\<lambda>r. r\<lparr>gc_sign_commits := v, gc_updated_at := now_iso env (st_ticks s)\<rparr>"
  have t: "st_tables s' = set_github u ?f (st_tables s)" "x = list_ex (\<lambda>r. gc_user r = u) (vt_github (st_tables s))"
    using assms unfolding set_sign_commits_def with_time_def by (auto dest!: statement_result)
  have "set_github u ?f (st_tables s) = st_tables s" if "\<not> x"
    using that unfolding t(2) set_github_def by (cases "st_tables s") (auto simp: list_ex_iff intro: map_idI)
  then show ?thesis using own_github [of ?f u] by (auto simp: t(1)) (simp add: set_github_def)
qed

lemma filter_all: "\<not> list_ex P xs \<Longrightarrow> filter (\<lambda>r. \<not> P r) xs = xs"
  by (induction xs) auto

text \<open>A deletion: what it says, and that it leaves the audit and the rows of the others.\<close>

definition deletion :: "string \<Rightarrow> bool vault_call \<Rightarrow> bool" where
  "deletion u del \<longleftrightarrow> (\<forall>s x s'. del s = (Inr x, s') \<longrightarrow>
     own_only u (st_tables s) (st_tables s') \<and> vt_audit (st_tables s') = vt_audit (st_tables s) \<and>
     (\<not> x \<longrightarrow> st_tables s' = st_tables s))"

lemma deletion_statement:
  assumes "\<And>t. own_only u t (g t)" and "\<And>t. vt_audit (g t) = vt_audit t" and "\<And>t. \<not> q t \<Longrightarrow> g t = t"
  shows "deletion u (statement (\<lambda>t. (Inr (q t), g t)))"
  unfolding deletion_def
proof (intro allI impI)
  fix s x s' assume "statement (\<lambda>t. (Inr (q t), g t)) s = (Inr x, s')"
  from statement_result [OF this] have "x = q (st_tables s)" "st_tables s' = g (st_tables s)" by simp_all
  then show "own_only u (st_tables s) (st_tables s') \<and> vt_audit (st_tables s') = vt_audit (st_tables s) \<and>
      (\<not> x \<longrightarrow> st_tables s' = st_tables s)"
    using assms by auto
qed

lemma vault_ok_filter: "vault_ok t \<Longrightarrow> vault_ok (t\<lparr>vt_providers := filter P (vt_providers t)\<rparr>)"
  by (auto simp: vault_ok_def distinct_map_filter)

lemma filter_others: "(\<And>r. P r \<Longrightarrow> k r = u) \<Longrightarrow> filter (\<lambda>r. k r \<noteq> u \<and> \<not> P r) xs = filter (\<lambda>r. k r \<noteq> u) xs"
  by (induction xs) auto

lemma deletions:
  "deletion u (delete_provider u p)" "deletion u (delete_provider_with_kind u p k)"
  "deletion u (delete_github u)" "deletion u (delete_jira u)"
proof -
  have rows: "deletion u (statement (\<lambda>t. (Inr (list_ex P (vt_providers t)), t\<lparr>vt_providers := filter (\<lambda>r. \<not> P r) (vt_providers t)\<rparr>)))"
    if P: "\<And>r. P r \<Longrightarrow> pc_user r = u" for P
  proof (rule deletion_statement)
    fix t :: vault_tables
    have "filter (\<lambda>r. pc_user r \<noteq> u) (filter (\<lambda>r. \<not> P r) (vt_providers t)) = filter (\<lambda>r. pc_user r \<noteq> u) (vt_providers t)"
      using filter_others [of P pc_user u, OF P] by (simp add: conj_commute)
    then show "own_only u t (t\<lparr>vt_providers := filter (\<lambda>r. \<not> P r) (vt_providers t)\<rparr>)"
      using vault_ok_filter [of t] by (simp only: own_only_def others_def vault_tables.simps) simp
  qed (simp_all add: filter_all)
  show "deletion u (delete_provider u p)"
    using rows [of "\<lambda>r. pc_user r = u \<and> pc_provider r = p"] by (simp add: delete_provider_def Let_def)
  show "deletion u (delete_provider_with_kind u p k)"
    using rows [of "provider_key u p (provider_credential_kind_as_str k)"]
    by (simp add: delete_provider_with_kind_def Let_def provider_key_def)
  show "deletion u (delete_github u)" unfolding delete_github_def
    by (rule deletion_statement) (simp_all add: own_only_def others_def vault_ok_def filter_all)
  show "deletion u (delete_jira u)" unfolding delete_jira_def
    by (rule deletion_statement) (simp_all add: own_only_def others_def vault_ok_def filter_all)
qed

lemma vault_ok_ids:
  "vault_ok t \<longleftrightarrow> distinct (List.map pc_id (vt_providers t)) \<and>
     (\<forall>i \<in> set (List.map pc_id (vt_providers t)). i < vt_next_provider t)"
  by (simp add: vault_ok_def)

lemma filter_map_others:
  "(\<And>r. r \<in> set xs \<Longrightarrow> g r = r \<or> k r = u \<and> k (g r) = u) \<Longrightarrow>
   filter (\<lambda>r. k r \<noteq> u) (List.map g xs) = filter (\<lambda>r. k r \<noteq> u) xs"
proof (induction xs)
  case (Cons x xs)
  have "g x = x \<or> k x = u \<and> k (g x) = u" using Cons.prems by simp
  then have "k (g x) = u \<longleftrightarrow> k x = u" and "k x \<noteq> u \<Longrightarrow> g x = x" by auto
  then show ?case using Cons by simp
qed simp

lemma updated_rows:
  assumes "vault_ok t" and "row \<in> set (vt_providers t)" and "pc_user row = u"
    and f: "\<And>r. pc_id (f r) = pc_id r" "\<And>r. pc_user (f r) = pc_user r"
  shows "vault_ok (t\<lparr>vt_providers := List.map (\<lambda>r. if pc_id r = pc_id row then f r else r) (vt_providers t)\<rparr>)"
    and "filter (\<lambda>r. pc_user r \<noteq> u) (List.map (\<lambda>r. if pc_id r = pc_id row then f r else r) (vt_providers t)) =
      filter (\<lambda>r. pc_user r \<noteq> u) (vt_providers t)"
proof -
  let ?g = "\<lambda>r. if pc_id r = pc_id row then f r else r"
  have ids: "List.map pc_id (List.map ?g (vt_providers t)) = List.map pc_id (vt_providers t)"
    by (simp only: list.map_comp, rule map_cong) (simp_all add: f)
  show "vault_ok (t\<lparr>vt_providers := List.map ?g (vt_providers t)\<rparr>)"
  proof -
    have "vt_providers (t\<lparr>vt_providers := List.map ?g (vt_providers t)\<rparr>) = List.map ?g (vt_providers t)"
      "vt_next_provider (t\<lparr>vt_providers := List.map ?g (vt_providers t)\<rparr>) = vt_next_provider t" by simp_all
    then show ?thesis using assms(1) unfolding vault_ok_ids by (simp only: ids, blast)
  qed
  have same: "r = row" if "r \<in> set (vt_providers t)" "pc_id r = pc_id row" for r
    using assms(1,2) that by (auto simp: vault_ok_def distinct_map inj_on_def)
  show "filter (\<lambda>r. pc_user r \<noteq> u) (List.map ?g (vt_providers t)) = filter (\<lambda>r. pc_user r \<noteq> u) (vt_providers t)"
    by (rule filter_map_others) (use same assms(3) f in auto)
qed

lemma upsert_provider_effect:
  assumes "upsert_provider env u p k b m s = (Inr x, s')"
  shows "own_only u (st_tables s) (st_tables s') \<and> vt_audit (st_tables s') = vt_audit (st_tables s)"
proof -
  let ?t = "st_tables s" and ?k = "provider_credential_kind_as_str k"
  obtain s1 where r: "select_rows (\<lambda>t. Inr (List.find (provider_key u p ?k) (vt_providers t))) s =
      (Inr (List.find (provider_key u p ?k) (vt_providers ?t)), s1)" and t1: "st_tables s1 = ?t"
    using assms unfolding upsert_provider_def Let_def by (auto elim!: db_then_Inr dest: select_rows_Inr)
  show ?thesis
  proof (cases "List.find (provider_key u p ?k) (vt_providers ?t)")
    case None
    then have "\<exists>row. st_tables s' = ?t\<lparr>vt_providers := vt_providers ?t @ [row], vt_next_provider := vt_next_provider ?t + 1\<rparr> \<and>
        pc_user row = u \<and> pc_id row = vt_next_provider ?t"
      using assms r t1 unfolding upsert_provider_def Let_def
      by (auto simp: db_then_def with_time_def db_return_def insert_provider_row_def split: prod.splits sum.splits if_splits
          dest!: statement_result)
    then show ?thesis by (auto simp: own_only_def vault_ok_def others_def) (fastforce intro: less_imp_le)+
  next
    case (Some row)
    let ?f = "\<lambda>r. r\<lparr>pc_sealed := b, pc_metadata_json := m, pc_inactive := False, pc_updated_at := now_iso env (st_ticks s1)\<rparr>"
    have "st_tables s' = ?t\<lparr>vt_providers := List.map (\<lambda>r. if pc_id r = pc_id row then ?f r else r) (vt_providers ?t)\<rparr>"
      using assms r t1 Some unfolding upsert_provider_def Let_def
      by (auto simp: db_then_def with_time_def db_return_def split: prod.splits sum.splits dest!: change_rows_Inr)
    moreover have "row \<in> set (vt_providers ?t)" "pc_user row = u"
      using Some by (auto simp: find_Some_iff provider_key_def)
    ultimately show ?thesis using updated_rows [of ?t row u ?f] by (simp add: own_only_def others_def)
  qed
qed

subsection \<open>The transactions\<close>

lemma transaction_effect:
  assumes "transaction body s = (r, s')"
    and "\<And>s0 x s1. body s0 = (Inr x, s1) \<Longrightarrow> P (st_tables s0) (st_tables s1) x"
  shows "case r of Inl _ \<Rightarrow> st_tables s' = st_tables s | Inr x \<Rightarrow> P (st_tables s) (st_tables s') x"
proof (cases r)
  case (Inl m)
  then show ?thesis using transaction_rolls_back assms(1) by auto
next
  case (Inr x)
  from transaction_commits [OF assms(1) [unfolded Inr]] obtain s0 s1 where
    "st_tables s0 = st_tables s" "body s0 = (Inr x, s1)" "st_tables s' = st_tables s1" .
  with assms(2) [of s0 x s1] show ?thesis by (simp add: Inr)
qed

lemma logged_change:
  assumes "own_only u t (st_tables s) \<and> vt_audit (st_tables s) = vt_audit t"
    and "log_credential env u (Some u) kind p event ''ok'' None s = (Inr y, s')"
    and "event \<in> {''created'', ''rotated'', ''deleted''}"
  shows "committed u t (st_tables s')"
proof -
  obtain r where r: "vt_audit (st_tables s') = vt_audit (st_tables s) @ [r]" "success_row u r"
    by (rule log_appends [OF assms(2)], rule that) (use assms(3) in \<open>auto simp: success_row_def\<close>)
  have "own_only u (st_tables s) (st_tables s')" by (rule own.keepsD [OF keeps_log assms(2)])
  then show ?thesis using assms(1) r own.kept_trans by (auto simp: committed_def)
qed

lemma event_names: "audit_event o' \<in> {''created'', ''rotated'', ''deleted''}" "created_or_rotated x \<in> {''created'', ''rotated'', ''deleted''}"
  by (cases o'; simp) (simp add: created_or_rotated_def)

lemma store_provider_effect:
  assumes "store_provider_credential env u p k b s = (r, s')"
  shows "case r of Inl _ \<Rightarrow> st_tables s' = st_tables s | Inr _ \<Rightarrow> committed u (st_tables s) (st_tables s')"
  using assms unfolding store_provider_credential_def
  by (rule transaction_effect [where P = "\<lambda>t t' _. committed u t t'"])
    (auto elim!: db_then_Inr simp: db_return_def intro: logged_change [OF upsert_provider_effect _ event_names(1)])

lemma store_pat_effect:
  assumes "store_pat env u b l sc sign now (created_or_rotated x) s = (r, s')"
  shows "case r of Inl _ \<Rightarrow> st_tables s' = st_tables s | Inr _ \<Rightarrow> committed u (st_tables s) (st_tables s')"
  using assms unfolding store_pat_def
proof (rule transaction_effect [where P = "\<lambda>t t' _. committed u t t'"])
  fix s0 y s1
  assume "db_then (upsert_github env u b l sc sign) (\<lambda>_. db_then (touch_github_validated u now)
    (\<lambda>_. log_credential env u (Some u) GithubPatAudit None (created_or_rotated x) ''ok'' None)) s0 = (Inr y, s1)"
  then obtain a s2 c s3 where "upsert_github env u b l sc sign s0 = (Inr a, s2)" "touch_github_validated u now s2 = (Inr c, s3)"
    and log: "log_credential env u (Some u) GithubPatAudit None (created_or_rotated x) ''ok'' None s3 = (Inr y, s1)"
    by (auto elim!: db_then_Inr)
  then have "own_only u (st_tables s0) (st_tables s3) \<and> vt_audit (st_tables s3) = vt_audit (st_tables s0)"
    using upsert_github_effect touch_github_effect own.kept_trans by metis
  then show "committed u (st_tables s0) (st_tables s1)" by (rule logged_change [OF _ log event_names(2)])
qed

lemma store_jira_effect:
  assumes "store_jira env u b site email a now (created_or_rotated x) s = (r, s')"
  shows "case r of Inl _ \<Rightarrow> st_tables s' = st_tables s | Inr _ \<Rightarrow> committed u (st_tables s) (st_tables s')"
  using assms unfolding store_jira_def
proof (rule transaction_effect [where P = "\<lambda>t t' _. committed u t t'"])
  fix s0 y s1
  assume "db_then (upsert_jira env u b site email (ja_account_id a) (ja_display_name a)) (\<lambda>_. db_then (touch_jira_validated u now)
    (\<lambda>_. log_credential env u (Some u) JiraCredentialAudit None (created_or_rotated x) ''ok'' None)) s0 = (Inr y, s1)"
  then obtain z s2 c s3 where "upsert_jira env u b site email (ja_account_id a) (ja_display_name a) s0 = (Inr z, s2)"
    "touch_jira_validated u now s2 = (Inr c, s3)"
    and log: "log_credential env u (Some u) JiraCredentialAudit None (created_or_rotated x) ''ok'' None s3 = (Inr y, s1)"
    by (auto elim!: db_then_Inr)
  then have "own_only u (st_tables s0) (st_tables s3) \<and> vt_audit (st_tables s3) = vt_audit (st_tables s0)"
    using upsert_jira_effect touch_jira_effect own.kept_trans by metis
  then show "committed u (st_tables s0) (st_tables s1)" by (rule logged_change [OF _ log event_names(2)])
qed

lemma flagged_effect:
  assumes "transaction (db_then c (\<lambda>present. if present
      then db_then (log_credential env u (Some u) kind p event ''ok'' None) (\<lambda>_. db_return True) else db_return False)) s = (r, s')"
    and "\<And>s x s'. c s = (Inr x, s') \<Longrightarrow> own_only u (st_tables s) (st_tables s') \<and>
      vt_audit (st_tables s') = vt_audit (st_tables s) \<and> (\<not> x \<longrightarrow> st_tables s' = st_tables s)"
    and "event \<in> {''created'', ''rotated'', ''deleted''}"
  shows "case r of Inr True \<Rightarrow> committed u (st_tables s) (st_tables s') | _ \<Rightarrow> st_tables s' = st_tables s"
proof -
  have "case r of Inl _ \<Rightarrow> st_tables s' = st_tables s
      | Inr x \<Rightarrow> if x then committed u (st_tables s) (st_tables s') else st_tables s' = st_tables s"
    using assms(1)
  proof (rule transaction_effect [where P = "\<lambda>t t' x. if x then committed u t t' else t' = t"])
    fix s0 x s1
    assume "db_then c (\<lambda>present. if present
      then db_then (log_credential env u (Some u) kind p event ''ok'' None) (\<lambda>_. db_return True) else db_return False) s0 = (Inr x, s1)"
    then show "if x then committed u (st_tables s0) (st_tables s1) else st_tables s1 = st_tables s0"
      using assms(2) logged_change [OF _ _ assms(3)]
      by (fastforce elim!: db_then_Inr simp: db_return_def split: if_splits)
  qed
  then show ?thesis by (auto split: sum.splits bool.splits)
qed

lemma delete_and_log_effect:
  assumes "delete_and_log env u kind p del s = (r, s')" and "deletion u del"
  shows "case r of Inr True \<Rightarrow> committed u (st_tables s) (st_tables s') | _ \<Rightarrow> st_tables s' = st_tables s"
  using assms(1) unfolding delete_and_log_def
  by (rule flagged_effect) (use assms(2) in \<open>auto simp: deletion_def\<close>)

lemma set_attribution_effect:
  assumes "set_attribution env u v s = (r, s')"
  shows "case r of Inr True \<Rightarrow> committed u (st_tables s) (st_tables s') | _ \<Rightarrow> st_tables s' = st_tables s"
  using assms unfolding set_attribution_def
  by (rule flagged_effect) (use set_sign_commits_effect in auto)

subsection \<open>The handlers\<close>

definition route_effect :: "string \<Rightarrow> nat option \<Rightarrow> vault_tables \<Rightarrow> vault_tables \<Rightarrow> bool" where
  "route_effect u st t t' \<longleftrightarrow> t' = t \<or> st \<in> {Some 200, Some 201, Some 204} \<and> committed u t t' \<or>
     st \<in> {Some 400, Some 502} \<and> rejected u t t'"

lemma select_keeps: "select_rows f s = (r, s') \<Longrightarrow> st_tables s' = st_tables s"
  using select_rows_tables [of f s] by simp

lemma reads_keep:
  "find_active u p s = (r, s') \<Longrightarrow> st_tables s' = st_tables s"
  "find_active_with_kind u p k s = (r, s') \<Longrightarrow> st_tables s' = st_tables s"
  "find_github u s = (g, s') \<Longrightarrow> st_tables s' = st_tables s"
  "find_jira u s = (j, s') \<Longrightarrow> st_tables s' = st_tables s"
  unfolding find_active_def find_active_with_kind_def find_github_def find_jira_def by (erule select_keeps)+

lemma seal_keeps: "seal env mk x s = (r, s') \<Longrightarrow> st_tables s' = st_tables s"
  by (auto simp: seal_def with_time_def db_fail_def db_return_def split: sum.splits)

lemma clock_keeps: "clock_now env s = (n, s') \<Longrightarrow> st_tables s' = st_tables s"
  by (auto simp: clock_now_def)

lemma resolve_keeps: "resolve_rest_credential env u s = (r, s') \<Longrightarrow> st_tables s' = st_tables s"
  by (auto simp: resolve_rest_credential_def split: prod.splits sum.splits option.splits dest: reads_keep)

lemma effective_token_keeps: "effective_token env u tok s = (r, s') \<Longrightarrow> st_tables s' = st_tables s"
  by (auto simp: effective_token_def split: prod.splits option.splits list.splits dest: resolve_keeps)

lemmas same_tables = reads_keep seal_keeps clock_keeps resolve_keeps effective_token_keeps

lemma audit_rejection_effect:
  "st_tables (audit_rejection env u (Some u) kind code s) = st_tables s \<or>
   rejected u (st_tables s) (st_tables (audit_rejection env u (Some u) kind code s))"
proof -
  obtain r s' where l: "log_credential env u (Some u) kind None ''validation_failed'' ''error'' (Some code) s = (r, s')"
    by fastforce
  then show ?thesis
  proof (cases r)
    case (Inl m)
    then show ?thesis using log_fails l by (auto simp: audit_rejection_def value_or_default_def)
  next
    case (Inr x)
    with l have "rejected u (st_tables s) (st_tables s')" by (auto simp: rejected_def elim!: log_appends)
    then show ?thesis using l by (simp add: audit_rejection_def value_or_default_def)
  qed
qed

lemma get_effect: "get_my_credentials env cfg u p s = (r, s') \<Longrightarrow> st_tables s' = st_tables s"
  unfolding get_my_credentials_def answer_or_def
  by (auto split: if_splits sum.splits prod.splits option.splits dest!: same_tables)

lemma post_provider_effect:
  assumes "post_provider_credential env u p body s = (r, s')"
  shows "route_effect u (reply_status r) (st_tables s) (st_tables s')"
  using assms unfolding post_provider_credential_def answer_or_def
  by (auto split: sum.splits prod.splits upsert_outcome.splits dest!: same_tables store_provider_effect
      simp: route_effect_def reply_status_def)

lemma delete_provider_effect:
  assumes "delete_provider_credential env u p k s = (r, s')"
  shows "route_effect u (reply_status r) (st_tables s) (st_tables s')"
  using assms unfolding delete_provider_credential_def answer_or_def
  by (auto split: sum.splits prod.splits if_splits option.splits bool.splits dest!: delete_and_log_effect [OF _ deletions(1)]
      delete_and_log_effect [OF _ deletions(2)] simp: route_effect_def reply_status_def)

lemma post_pat_effect:
  assumes "post_github_pat env u pat sign s = (r, s')"
  shows "route_effect u (reply_status r) (st_tables s) (st_tables s')"
  using assms audit_rejection_effect [of env u GithubPatAudit _ s] unfolding post_github_pat_def answer_or_def Let_def
  by (auto split: sum.splits prod.splits if_splits dest!: same_tables store_pat_effect
      simp: route_effect_def reply_status_def pat_refusal_def err_with_def split: pat_validation_error.splits)

lemma post_jira_effect:
  assumes "post_jira_credential env u body s = (r, s')"
  shows "route_effect u (reply_status r) (st_tables s) (st_tables s')"
  using assms unfolding post_jira_credential_def answer_or_def Let_def
  by (auto split: sum.splits prod.splits if_splits dest!: same_tables store_jira_effect
      simp: route_effect_def reply_status_def err_def split: jira_validation_error.splits)
    (metis audit_rejection_effect)+

lemma delete_pat_effect:
  assumes "delete_github_pat env u s = (r, s')"
  shows "route_effect u (reply_status r) (st_tables s) (st_tables s')"
  using assms unfolding delete_github_pat_def answer_or_def
  by (auto split: sum.splits prod.splits if_splits bool.splits dest!: delete_and_log_effect [OF _ deletions(3)]
      simp: route_effect_def reply_status_def)

lemma delete_jira_effect:
  assumes "delete_jira_credential env u s = (r, s')"
  shows "route_effect u (reply_status r) (st_tables s) (st_tables s')"
  using assms unfolding delete_jira_credential_def answer_or_def
  by (auto split: sum.splits prod.splits if_splits bool.splits dest!: delete_and_log_effect [OF _ deletions(4)]
      simp: route_effect_def reply_status_def)

lemma patch_effect:
  assumes "patch_github_attribution env u v s = (r, s')"
  shows "route_effect u (reply_status r) (st_tables s) (st_tables s')"
  using assms unfolding patch_github_attribution_def answer_or_def
  by (auto split: sum.splits prod.splits if_splits bool.splits dest!: set_attribution_effect
      simp: route_effect_def reply_status_def)

lemma admin_effect: "get_admin_github_status env a i s = (r, s') \<Longrightarrow> st_tables s' = st_tables s"
  unfolding get_admin_github_status_def value_or_default_def
  by (cases "find_github i s") (auto split: sum.splits prod.splits if_splits option.splits dest!: same_tables)

lemma credential_route_effect:
  assumes "credential_route env cfg a req s = (st, s')"
  shows "route_effect (au_user_id a) st (st_tables s) (st_tables s')"
  using assms unfolding credential_route_def Let_def
  by (cases req)
    (auto simp: apfst_def map_prod_def split: prod.splits
      dest: get_effect post_provider_effect delete_provider_effect post_pat_effect delete_pat_effect post_jira_effect
        delete_jira_effect patch_effect admin_effect, (auto simp: route_effect_def dest: get_effect admin_effect)+)


text \<open>
  C17: a request to the credential routes leaves the rows of every other user as they are, in all three tables, and
  keeps the identifiers of the provider rows unique.
\<close>
theorem credential_requests_touch_own_rows:
  assumes "vault_ok (st_tables s)" and "credential_route env cfg a req s = (st, s')"
  shows "vault_ok (st_tables s') \<and> others (au_user_id a) (st_tables s') = others (au_user_id a) (st_tables s) \<and>
    vt_users (st_tables s') = vt_users (st_tables s)"
  using credential_route_effect [OF assms(2)] assms(1)
  by (auto simp: route_effect_def committed_def own_only_def rejected_def vault_ok_def others_def)

text \<open>A deployment with a stand-in for the cipher, and a vault with a row of another user.\<close>

definition sample_vault_env :: vault_env where
  "sample_vault_env =
     \<lparr>ve_has_db = True, ve_master = Some ''m'', ve_fill = (\<lambda>_. Inr (replicate 32 (CHR ''k''))),
      ve_nonce = (\<lambda>_ _. replicate 24 (CHR ''n'')), ve_encrypt = (\<lambda>_ _ p. Inr (rev p)), ve_decrypt = (\<lambda>_ _ c. Some (rev c)),
      ve_nanos = (\<lambda>n. int n), ve_iso = (\<lambda>_. ''t''), ve_rfc3339_text = (\<lambda>_. ''t''), ve_rfc3339 = (\<lambda>_. None),
      ve_json = \<lparr>parse_json = (\<lambda>_. Some (JObject [(''login'', JString ''octo'')])), print_json = (\<lambda>_. Some ''[]'')\<rparr>,
      ve_utf8_error = (\<lambda>_. []), ve_json_error = (\<lambda>_. []), ve_json_pretty = (\<lambda>_. Inr ''{}''),
      ve_api_user = (\<lambda>_. Inr \<lparr>gr_status = 200, gr_headers = [], gr_body = ''{}''\<rparr>),
      ve_api_org = (\<lambda>_ _. Inl ''unused''), ve_jira_get = (\<lambda>_ _. Inl ''unused''), ve_app = None\<rparr>"

definition sample_other_row :: github_row where
  "sample_other_row = \<lparr>gc_user = ''v'', gc_sealed = \<lparr>sb_ciphertext = ''c'', sb_nonce = ''n'', sb_wrapped_dek = ''d'', sb_wnonce = ''w''\<rparr>,
     gc_login = ''vera'', gc_scopes_json = ''[]'', gc_sign_commits = True, gc_last_validated_at = None,
     gc_created_at = ''t'', gc_updated_at = ''t''\<rparr>"

definition sample_vault :: "vault_tables store" where
  "sample_vault = \<lparr>st_tables = \<lparr>vt_users = [''u'', ''v''], vt_providers = [], vt_github = [sample_other_row], vt_jira = [], vt_audit = [],
     vt_next_provider = 1, vt_next_audit = 1\<rparr>, st_io = [], st_ticks = 0\<rparr>"

definition sample_user :: authenticated_user where
  "sample_user = \<lparr>au_user_id = ''u'', au_role = User\<rparr>"

lemma credential_requests_touch_own_rows_witness:
  "fst (credential_route sample_vault_env Claude sample_user (PostPat ''tok'' None) sample_vault) = Some 200 \<and>
   fst (snd (others ''u'' (st_tables (snd (credential_route sample_vault_env Claude sample_user (PostPat ''tok'' None) sample_vault))))) =
     [sample_other_row]"
proof -
  obtain st s' where r: "credential_route sample_vault_env Claude sample_user (PostPat ''tok'' None) sample_vault = (st, s')"
    by fastforce
  have "vault_ok (st_tables sample_vault)" by (simp add: vault_ok_def sample_vault_def)
  from credential_requests_touch_own_rows [OF this r]
  have o: "others ''u'' (st_tables s') = others ''u'' (st_tables sample_vault)" by (simp add: sample_user_def)
  have "fst (credential_route sample_vault_env Claude sample_user (PostPat ''tok'' None) sample_vault) = Some 200" by code_simp
  then show ?thesis unfolding r using o by (simp add: others_def sample_vault_def sample_other_row_def)
qed

end
