(* ===== verification/Worker_Secrets_Props.thy ===== *)
theory Worker_Secrets_Props
  imports Vault_Props Worker_Secrets Table_Maps
begin

text \<open>
  A stored token comes back out for the operations of its user, the secrets of a worker depend on the rows of its
  user alone, and no reply on the state of the credentials depends on a sealed secret.
\<close>

subsection \<open>Sealing and opening\<close>

definition aead_ok :: "vault_env \<Rightarrow> bool" where
  "aead_ok env \<longleftrightarrow> (\<forall>k n p c. ve_encrypt env k n p = Inr c \<longrightarrow> ve_decrypt env k n c = Some p) \<and>
     (\<forall>n d. ve_fill env n = Inr d \<longrightarrow> length d = 32) \<and> (\<forall>n i. length (ve_nonce env n i) = 24)"

lemma seal_then_open:
  assumes "aead_ok env" and "seal env mk p s = (Inr b, s')"
  shows "open_sealed env mk b = Inr p" and "nonces_ok b"
  using assms
  by (auto simp: aead_ok_def seal_def with_time_def db_fail_def db_return_def open_sealed_def nonces_ok_def split: sum.splits)

lemma find_map_own:
  "(\<And>r. P (f r) = P r) \<Longrightarrow> List.find P (List.map (\<lambda>r. if P r then f r else r) xs) = map_option f (List.find P xs)"
  by (induction xs) auto

lemma find_in_append: "List.find P (xs @ ys) = (case List.find P xs of None \<Rightarrow> List.find P ys | Some x \<Rightarrow> Some x)"
  by (induction xs) auto

definition pat_row :: "string \<Rightarrow> vault_tables \<Rightarrow> github_row option" where
  "pat_row u t = List.find (\<lambda>r. gc_user r = u) (vt_github t)"

lemma pat_row_set_github:
  assumes "\<And>r. gc_user (f r) = gc_user r"
  shows "pat_row u (set_github u f t) = map_option f (pat_row u t)"
  using find_map_own [of "\<lambda>r. gc_user r = u" f "vt_github t"] assms by (simp add: pat_row_def set_github_def)

lemma upsert_github_row:
  assumes "upsert_github env u b l sc sign s = (Inr x, s')"
  obtains r where "pat_row u (st_tables s') = Some r" "gc_sealed r = b" "gc_login r = l"
proof -
  let ?f = "\<lambda>r. r\<lparr>gc_sealed := b, gc_login := l, gc_scopes_json := sc, gc_sign_commits := sign,
    gc_updated_at := now_iso env (st_ticks s)\<rparr>"
  show ?thesis
  proof (cases "list_ex (\<lambda>r. gc_user r = u) (vt_github (st_tables s))")
    case True
    then obtain r where "pat_row u (st_tables s) = Some r"
      by (cases "pat_row u (st_tables s)") (auto simp: pat_row_def find_None_iff list_ex_iff)
    moreover have "st_tables s' = set_github u ?f (st_tables s)"
      using assms True unfolding upsert_github_def with_time_def by (auto dest!: statement_result simp: set_github_def)
    ultimately have "pat_row u (st_tables s') = Some (?f r)"
      using pat_row_set_github [of ?f u "st_tables s"] by simp
    then show ?thesis by (rule that) simp_all
  next
    case False
    then have "List.find (\<lambda>r. gc_user r = u) (vt_github (st_tables s)) = None" by (auto simp: find_None_iff list_ex_iff)
    then show ?thesis
      using assms False that unfolding upsert_github_def with_time_def
      by (auto dest!: statement_result simp: pat_row_def find_in_append split: if_splits)
  qed
qed

lemma store_pat_row:
  assumes "store_pat env u b l sc sign now event s = (Inr x, s')"
  obtains r where "pat_row u (st_tables s') = Some r" "gc_sealed r = b" "gc_login r = l"
proof -
  from transaction_commits [OF assms [unfolded store_pat_def]] obtain s0 s1 where
    body: "db_then (upsert_github env u b l sc sign) (\<lambda>_. db_then (touch_github_validated u now)
      (\<lambda>_. log_credential env u (Some u) GithubPatAudit None event ''ok'' None)) s0 = (Inr x, s1)" "st_tables s' = st_tables s1" .
  then obtain y s2 z s3 where steps: "upsert_github env u b l sc sign s0 = (Inr y, s2)" "touch_github_validated u now s2 = (Inr z, s3)"
    "log_credential env u (Some u) GithubPatAudit None event ''ok'' None s3 = (Inr x, s1)"
    by (auto elim!: db_then_Inr)
  from upsert_github_row [OF steps(1)] obtain r where r: "pat_row u (st_tables s2) = Some r" "gc_sealed r = b" "gc_login r = l" .
  have "pat_row u (st_tables s3) = Some (r\<lparr>gc_last_validated_at := Some now\<rparr>)"
    using change_rows_Inr [OF steps(2) [unfolded touch_github_validated_def]] r(1)
      pat_row_set_github [of "\<lambda>r. r\<lparr>gc_last_validated_at := Some now\<rparr>" u "st_tables s2"] by simp
  moreover have "vt_github (st_tables s1) = vt_github (st_tables s3)" by (rule log_appends [OF steps(3)]) simp
  ultimately have "pat_row u (st_tables s') = Some (r\<lparr>gc_last_validated_at := Some now\<rparr>)"
    by (simp add: body(2) pat_row_def)
  then show ?thesis by (rule that) (simp_all add: r)
qed

lemma find_pat_row_idle:
  assumes "st_io s = []" and "pat_row u (st_tables s) = Some r" and "nonces_ok (gc_sealed r)"
  shows "find_pat_row u s = (Inr (Some r), s)"
  using assms
  by (simp add: find_pat_row_def find_github_def select_rows_def statement_def take_io_def decode_first_def
      decode_github_row_def pat_row_def)

definition is_write :: "git_action \<Rightarrow> bool" where
  "is_write a \<longleftrightarrow> a \<notin> {GitClone, GitFetch, WebhookEventIngest}"

lemma write_uses_pat: "is_write a \<Longrightarrow> m \<in> {AppPlusPat, PatOnly} \<Longrightarrow> decide_token_source a m b = Some UserPat"
  by (cases a) (auto simp: is_write_def decide_token_source_def)

lemma token_from_row:
  assumes "st_io s = []" and "pat_row u (st_tables s) = Some r" and "nonces_ok (gc_sealed r)"
    and "ve_master env = Some mk" and "open_sealed env mk (gc_sealed r) = Inr pat" and "utf8_valid pat" and "is_write a"
  obtains s' where "token_for env a u s = (Inr \<lparr>gt_bearer = pat, gt_source = UserPat, gt_author_name = Some (gc_login r),
    gt_author_email = Some (gc_login r @ ''@users.noreply.github.com''), gt_credential_row_id = None\<rparr>, s')"
proof -
  note row = find_pat_row_idle [OF assms(1-3)]
  have "\<exists>m \<in> {AppPlusPat, PatOnly}. mode_for_user env u s = (Inr m, s)"
    by (auto simp: mode_for_user_def user_has_pat_def git_then_def row)
  then obtain m where m: "m \<in> {AppPlusPat, PatOnly}" "mode_for_user env u s = (Inr m, s)" by blast
  have req: "required_row u step s = (Inr r, s)" for step by (simp add: required_row_def git_then_def row)
  have "unseal_user_pat env u s = (Inr pat, s)" by (simp add: unseal_user_pat_def git_then_def req assms)
  then show ?thesis
    using that m write_uses_pat [OF assms(7) m(1)]
    by (simp add: token_for_def git_then_def materialise_user_pat_def req Let_def)
qed

lemma post_pat_answered:
  assumes "post_github_pat env u pat sign s = (Answered st body, s1)"
  shows "\<exists>mk b (s0 :: vault_tables store) s2 l sc sgn now event x s3. ve_master env = Some mk \<and> seal env mk pat s0 = (Inr b, s2) \<and>
    store_pat env u b l sc sgn now event s3 = (Inr x, s1) \<and> map_of body ''login'' = Some (JString l)"
proof -
  obtain mk where mk: "require_master_key env = Inr mk" "ve_master env = Some mk"
    using assms by (cases "require_master_key env"; cases "ve_master env")
      (auto simp: post_github_pat_def require_master_key_def split: if_splits)
  obtain v where v: "validate_pat env pat [] = Inr (Inr v)"
    using assms by (cases "validate_pat env pat []"; cases "projr (validate_pat env pat [])")
      (auto simp: post_github_pat_def mk split: if_splits sum.splits)
  have run: "\<exists>b s2 x s4 now sc sgn event. seal env mk pat s = (Inr b, s2) \<and>
      store_pat env u b (vp_login v) sc sgn now event s4 = (Inr x, s1) \<and> map_of body ''login'' = Some (JString (vp_login v))"
    using assms unfolding post_github_pat_def answer_or_def Let_def mk v
    by (cases "seal env mk pat s") (auto split: if_splits sum.splits prod.splits, blast)
  from run obtain b s2 x s4 now sc sgn event where "seal env mk pat s = (Inr b, s2)"
    "store_pat env u b (vp_login v) sc sgn now event s4 = (Inr x, s1)" "map_of body ''login'' = Some (JString (vp_login v))"
    by (elim exE conjE)
  with mk(2) show ?thesis by (intro exI conjI)
qed



subsection \<open>The secrets of a worker are its user's\<close>

definition rows_of :: "string \<Rightarrow> vault_tables \<Rightarrow> vault_tables" where
  "rows_of u t = t\<lparr>vt_providers := filter (\<lambda>r. pc_user r = u) (vt_providers t),
     vt_github := filter (\<lambda>r. gc_user r = u) (vt_github t), vt_jira := filter (\<lambda>r. jc_user r = u) (vt_jira t)\<rparr>"

interpretation rows: table_map "rows_of u" for u .

lemma find_filter_own: "(\<And>r. P r \<Longrightarrow> Q r) \<Longrightarrow> List.find P (filter Q xs) = List.find P xs"
  by (induction xs) auto

lemma commutes_finds:
  "rows.commutes u (find_active u p)" "rows.commutes u (find_active_with_kind u p k)" "rows.commutes u (find_github u)"
proof -
  show "rows.commutes u (find_active u p)"
    unfolding find_active_def by (rule rows.commutes_select) (simp add: rows_of_def)
  show "rows.commutes u (find_active_with_kind u p k)"
    unfolding find_active_with_kind_def by (rule rows.commutes_select) (simp add: rows_of_def, subst find_filter_own, auto simp: provider_key_def)
  show "rows.commutes u (find_github u)"
    unfolding find_github_def by (rule rows.commutes_select) (simp add: rows_of_def, subst find_filter_own, auto)
qed

lemma audit_row_mapped: "insert_audit_row r (rows_of u t) = apsnd (rows_of u) (insert_audit_row r t)"
  by (cases "ca_actor r") (simp_all add: insert_audit_row_def rows_of_def)

lemma commutes_log: "rows.commutes u (log_credential env u actor k p ev out c)"
  unfolding log_credential_def
  by (intro rows.commutes_with_time rows.commutes_statement) (rule audit_row_mapped)

lemma filter_map_same: "(\<And>r. k (f r) = k r) \<Longrightarrow>
    filter (\<lambda>r. k r = u) (List.map (\<lambda>r. if k r = u then f r else r) xs) = List.map f (filter (\<lambda>r. k r = u) xs)"
  by (induction xs) auto

lemma commutes_touch: "rows.commutes u (touch_github_validated u w)"
  unfolding touch_github_validated_def
  by (rule rows.commutes_change) (simp add: set_github_def rows_of_def filter_map_same cong: map_cong)

lemma commutes_git_then: "rows.commutes u c \<Longrightarrow> (\<And>x. rows.commutes u (f x)) \<Longrightarrow> rows.commutes u (git_then c f)"
  by (simp add: rows.commutes_def git_then_def split: prod.split sum.split)

lemma commutes_clock: "(\<And>n. rows.commutes u (f n)) \<Longrightarrow> rows.commutes u (\<lambda>s. case clock_now env s of (n, s') \<Rightarrow> f n s')"
  by (simp add: rows.commutes_def clock_now_def)

lemma commutes_find_pat: "rows.commutes u (find_pat_row u)"
  unfolding find_pat_row_def by (intro rows.commutes_sum rows.commutes_pure commutes_finds)

lemma commutes_required: "rows.commutes u (required_row u step)"
  unfolding required_row_def
  by (rule commutes_git_then [OF commutes_find_pat]) (simp add: rows.commutes_def split: option.split)

lemma commutes_mode: "rows.commutes u (mode_for_user env u)"
  unfolding mode_for_user_def user_has_pat_def
  by (intro commutes_git_then commutes_find_pat rows.commutes_pure)

lemma commutes_unseal: "rows.commutes u (unseal_user_pat env u)"
proof (cases "ve_master env")
  case None
  then show ?thesis by (simp add: unseal_user_pat_def rows.commutes_def)
next
  case (Some mk)
  have "rows.commutes u (git_then (required_row u ''unseal_user_pat'') (\<lambda>row s. (F row, s)))" for F :: "github_row \<Rightarrow> git_auth_error + string"
    by (intro commutes_git_then commutes_required rows.commutes_pure)
  then show ?thesis unfolding unseal_user_pat_def Some option.case by simp
qed

lemma record_first_use_mapped: "record_first_use env u (rows.mapped u s) = rows.mapped u (record_first_use env u s)"
  by (simp add: record_first_use_def clock_now_def value_or_default_def Let_def rows.commutesD [OF commutes_touch]
      rows.commutesD [OF commutes_log])

lemma commutes_app: "rows.commutes u (materialise_app_token env)"
  by (simp add: rows.commutes_def materialise_app_token_def split: option.split)

lemma commutes_pat: "rows.commutes u (materialise_user_pat env u)"
  unfolding materialise_user_pat_def
  by (intro commutes_git_then commutes_unseal commutes_required)
    (simp add: rows.commutes_def Let_def record_first_use_mapped)

lemma commutes_token: "rows.commutes u (token_for env action u)"
  unfolding token_for_def
proof (rule commutes_git_then [OF commutes_mode])
  fix mode
  show "rows.commutes u (\<lambda>s. case decide_token_source action mode False of
       None \<Rightarrow> (Inl (UnauthenticatedGit u (git_action_as_str action)), s)
     | Some AppToken \<Rightarrow> materialise_app_token env s | Some UserPat \<Rightarrow> materialise_user_pat env u s)"
    using commutes_app [of u env] commutes_pat [of u env]
    by (simp add: rows.commutes_def split: option.split token_source.split)
qed

text \<open>The steps of a bundle.\<close>

lemma commutes_bytes: "rows.commutes u (unseal_provider_plaintext_bytes env cfg mk pin u)"
proof (cases "parse_pin_provider (ap_provider pin)")
  case (Inl e)
  then show ?thesis by (simp add: unseal_provider_plaintext_bytes_def rows.commutes_def)
next
  case (Inr p)
  show ?thesis
    unfolding unseal_provider_plaintext_bytes_def Inr sum.case rows.commutes_def
    by (simp add: rows.commutesD [OF commutes_finds(2)] split: prod.split sum.split option.split)
qed

lemma commutes_provider: "rows.commutes u (unseal_provider_credential env cfg fs mk pin u dir)"
  unfolding unseal_provider_credential_def rows.commutes_def
  by (simp add: rows.commutesD [OF commutes_bytes] split: prod.split sum.split option.split)

lemma commutes_session: "rows.commutes u (unseal_claude_session env fs mk u dir)"
  unfolding unseal_claude_session_def rows.commutes_def
  by (simp add: rows.commutesD [OF commutes_finds(2)] split: prod.split sum.split option.split)

lemma commutes_opencode: "rows.commutes u (opencode_step env cfg fs mk pin u dir)"
  unfolding opencode_step_def rows.commutes_def
  by (simp add: rows.commutesD [OF commutes_bytes] split: prod.split sum.split option.split)

lemma commutes_github: "rows.commutes u (github_step env fs u dir)"
  unfolding github_step_def rows.commutes_def
  by (simp add: rows.commutesD [OF commutes_token] split: prod.split sum.split git_auth_error.split)

lemma commutes_no_step: "rows.commutes u (no_step dir)"
  by (simp add: no_step_def rows.commutes_def)

lemma commutes_then_step:
  "(\<And>dir. rows.commutes u (c dir)) \<Longrightarrow> (\<And>x dir. rows.commutes u (f x dir)) \<Longrightarrow> rows.commutes u (then_step c f dir)"
  unfolding then_step_def rows.commutes_def by (simp split: prod.split sum.split)

lemma commutes_apfst: "rows.commutes u c \<Longrightarrow> rows.commutes u (\<lambda>s. apfst g (c s))"
  by (simp add: rows.commutes_def apfst_def apsnd_def map_prod_def split: prod.split)

lemma commutes_build: "rows.commutes u (build_bundle env cfg fs pin u)"
proof -
  consider (early) r where "build_bundle env cfg fs pin u = (\<lambda>s. (r, s))"
    | (steps) p mk where "parse_pin_provider (ap_provider pin) = Inr p" "ve_master env = Some mk" "bf_tempdir fs = None"
    unfolding build_bundle_def
    by (cases "parse_pin_provider (ap_provider pin)"; cases "ve_master env"; cases "bf_tempdir fs") auto
  then show ?thesis
  proof cases
    case early
    then show ?thesis by (simp add: rows.commutes_pure)
  next
    case steps
    show ?thesis
      unfolding build_bundle_def steps sum.case option.case
      by (intro commutes_apfst commutes_then_step)
        (auto simp: commutes_no_step commutes_provider commutes_session commutes_opencode commutes_github
          intro!: commutes_then_step split: prod.split intro: rows.commutes_pure)
  qed
qed

text \<open>
  C16: the secrets that a worker of a user gets are made from the rows of that user alone: with the rows of everybody
  else gone, the bundle is the same.
\<close>
theorem worker_gets_own_secrets:
  "fst (build_bundle env cfg fs pin u s) = fst (build_bundle env cfg fs pin u (s\<lparr>st_tables := rows_of u (st_tables s)\<rparr>))"
  using rows.commutes_fst [OF commutes_build, where s = s] by (simp add: rows.mapped_def)

end
