(* ===== verification/Jira_Adf.thy ===== *)
theory Jira_Adf
  imports Prelude Stream_Humanize Progress
begin

text \<open>
  \<open>jira/adf_markdown.rs\<close> and \<open>markdown_to_adf\<close> of \<open>jira/rest.rs\<close>: the descriptions of Jira tickets, documents in
  the Atlassian Document Format, and the Markdown that the dashboard shows and edits. The writers append to the text
  so far, because they look at its end. The depth of a list is a \<open>u8\<close>, which wraps.
\<close>

subsection \<open>Trees of nodes\<close>

definition type_of :: "json \<Rightarrow> string" where
  "type_of v = (case Option.bind (json_get ''type'' v) as_str of Some t \<Rightarrow> t | None \<Rightarrow> [])"

definition children :: "json \<Rightarrow> json list option" where
  "children v = Option.bind (json_get ''content'' v) as_array"

definition children_or_none :: "json \<Rightarrow> json list" where
  "children_or_none v = (case children v of Some cs \<Rightarrow> cs | None \<Rightarrow> [])"

lemma json_get_size: "json_get k v = Some w \<Longrightarrow> size w < size v"
proof (induction k v rule: json_get.induct)
  case (1 key entries)
  have "map_of entries key = Some w \<Longrightarrow> size w < Suc (size_list (size_prod (\<lambda>_. 0) size) entries)"
    by (induction entries) (auto split: if_splits)
  with 1 show ?case by simp
qed simp_all

lemma children_size: "children v = Some cs \<Longrightarrow> size_list size cs < size v"
  unfolding children_def
  by (auto simp: bind_eq_Some_conv elim!: as_array.elims dest: json_get_size)

lemma children_or_none_size: "size_list size (children_or_none v) \<le> size v"
  using children_size [of v] by (cases "children v") (auto simp: children_or_none_def)

definition str_of :: "string list \<Rightarrow> json \<Rightarrow> string" where
  "str_of keys v = (case str_at keys v of Some s \<Rightarrow> s | None \<Rightarrow> [])"

definition replace_char :: "char \<Rightarrow> string \<Rightarrow> string \<Rightarrow> string" where
  "replace_char c r s = concat (List.map (\<lambda>x. if x = c then r else [x]) s)"

definition nl2 :: string where "nl2 = [newline, newline]"

subsection \<open>Marked text\<close>

definition escape_inline_code :: "string \<Rightarrow> string" where
  "escape_inline_code = replace_char (CHR 0x60) [CHR 0x27]"

definition escape_link_destination_safe :: "string \<Rightarrow> string" where
  "escape_link_destination_safe s =
     replace_char (CHR '']'') [CHR 0x5C, CHR '']''] (replace_char (CHR ''['') [CHR 0x5C, CHR ''[''] s)"

definition apply_mark :: "string \<Rightarrow> json \<Rightarrow> string" where
  "apply_mark s m =
     (let mt = type_of m in
      if mt = ''strong'' then ''**'' @ s @ ''**''
      else if mt = ''em'' then ''*'' @ s @ ''*''
      else if mt = ''code'' then CHR 0x60 # escape_inline_code s @ [CHR 0x60]
      else if mt = ''strike'' \<or> mt = ''subsup'' then ''~~'' @ s @ ''~~''
      else if mt = ''link'' then
        let href = str_of [''attrs'', ''href''] m; label = escape_link_destination_safe s
        in if href = [] then label else ''['' @ label @ ''](''  @ href @ '')''
      else s)"

definition apply_text_marks :: "string \<Rightarrow> json list \<Rightarrow> string" where
  "apply_text_marks text_part marks = foldl apply_mark text_part marks"

definition marks_of :: "json \<Rightarrow> json list" where
  "marks_of v = (case Option.bind (json_get ''marks'' v) as_array of Some ms \<Rightarrow> ms | None \<Rightarrow> [])"

definition marked_text :: "json \<Rightarrow> string option" where
  "marked_text v = map_option (\<lambda>t. apply_text_marks t (marks_of v)) (Option.bind (json_get ''text'' v) as_str)"

text \<open>The leaves that are not text.\<close>

definition mention_name :: "json \<Rightarrow> string option" where
  "mention_name c = Option.bind
     (case json_at [''attrs'', ''text''] c of Some x \<Rightarrow> Some x | None \<Rightarrow> json_at [''attrs'', ''id''] c) as_str"

definition inline_leaf :: "json \<Rightarrow> string option" where
  "inline_leaf c =
     (let ct = type_of c in
      if ct = ''hardBreak'' then Some (''  '' @ [newline])
      else if ct = ''emoji'' then
        Some (case str_at [''attrs'', ''shortName''] c of Some s \<Rightarrow> '':'' @ s @ '':'' | None \<Rightarrow> [])
      else if ct = ''mention'' then Some (case mention_name c of Some i \<Rightarrow> ''@'' @ i | None \<Rightarrow> [])
      else if ct = ''inlineCard'' \<or> ct = ''blockCard'' then
        Some (case str_at [''attrs'', ''url''] c of Some u \<Rightarrow> ''<'' @ u @ ''>'' | None \<Rightarrow> [])
      else if ct = ''date'' then
        Some (case Option.bind (json_at [''attrs'', ''timestamp''] c) as_i64 of
                Some ts \<Rightarrow> CHR 0x60 # show_int ts @ [CHR 0x60] | None \<Rightarrow> [])
      else None)"

function append_inline_content :: "json list \<Rightarrow> string \<Rightarrow> string" where
  "append_inline_content [] out = out"
| "append_inline_content (c # cs) out = append_inline_content cs
     (case marked_text c of
        Some t \<Rightarrow> out @ t
      | None \<Rightarrow>
          (case inline_leaf c of
             Some t \<Rightarrow> out @ t
           | None \<Rightarrow> append_inline_content (children_or_none c) out))"
  by pat_completeness auto
termination
proof (relation "measure (\<lambda>(cs, out). size_list size cs)")
  fix c :: json and cs out
  show "((children_or_none c, out), (c # cs, out)) \<in> measure (\<lambda>(cs, out). size_list size cs)"
    using children_or_none_size [of c] by simp
qed simp_all

subsection \<open>Blocks\<close>

definition heading_level :: "json \<Rightarrow> nat" where
  "heading_level node =
     max 1 (min 6 (case Option.bind (json_at [''attrs'', ''level''] node) as_u64 of Some n \<Rightarrow> n | None \<Rightarrow> 1))"

definition quote_line :: "string \<Rightarrow> string" where
  "quote_line line =
     (if line = [] then ''>'' @ [newline]
      else ''>'' @ (if starts_with ''>'' line then [] else '' '') @ line @ [newline])"

definition text_ends_with :: "string \<Rightarrow> string \<Rightarrow> bool" where
  "text_ends_with p s \<longleftrightarrow> suffix p s"

definition code_block :: "json \<Rightarrow> string \<Rightarrow> string" where
  "code_block node out =
     (let out = out @ replicate 3 (CHR 0x60) @ str_of [''attrs'', ''language''] node @ [newline];
          out = out @ concat (List.map (str_of [''text'']) (children_or_none node));
          out = (if text_ends_with [newline] out then out else out @ [newline])
      in out @ replicate 3 (CHR 0x60) @ nl2)"

text \<open>The end of a list item: one empty line.\<close>

definition close_item :: "string \<Rightarrow> string" where
  "close_item out = (if \<not> text_ends_with nl2 out \<and> text_ends_with [newline] out then out @ [newline] else out)"

definition list_indent :: "u8 \<Rightarrow> string" where
  "list_indent d = concat (replicate (unat d) ''    '')"

definition bullet :: "bool \<Rightarrow> nat \<Rightarrow> string" where
  "bullet ordered i = (if ordered then show_nat i @ ''. '' else ''- '')"

text \<open>Each call below is on a smaller part of the document.\<close>

lemma block_sizes:
  "children_or_none item = block # blocks \<Longrightarrow> size block + size_list size blocks + 1 \<le> size item"
  "size_list size (children_or_none v) < 2 + size v"
  using children_or_none_size [of item] children_or_none_size [of v] by auto

function (sequential) append_block_markdown :: "json \<Rightarrow> u8 \<Rightarrow> string \<Rightarrow> string"
  and append_blocks :: "json list \<Rightarrow> u8 \<Rightarrow> string \<Rightarrow> string"
  and append_quoted :: "json list \<Rightarrow> u8 \<Rightarrow> string \<Rightarrow> string"
  and append_list_items :: "json list \<Rightarrow> u8 \<Rightarrow> bool \<Rightarrow> nat \<Rightarrow> string \<Rightarrow> string"
  and append_later_blocks :: "json list \<Rightarrow> u8 \<Rightarrow> string \<Rightarrow> string"
  and append_first_block :: "json \<Rightarrow> u8 \<Rightarrow> string \<Rightarrow> string"
where
  "append_block_markdown node depth out =
     (let t = type_of node in
      if t = ''paragraph'' then append_inline_content (children_or_none node) out @ nl2
      else if t = ''heading'' then
        append_inline_content (children_or_none node) (out @ replicate (heading_level node) (CHR ''#'') @ '' '') @ nl2
      else if t = ''bulletList'' then append_list_items (children_or_none node) depth False 0 out
      else if t = ''orderedList'' then append_list_items (children_or_none node) depth True 1 out
      else if t = ''codeBlock'' then code_block node out
      else if t = ''blockquote'' then append_quoted (children_or_none node) depth out @ [newline]
      else if t = ''rule'' \<or> t = ''horizontalRule'' then out @ ''---'' @ nl2
      else if t \<in> {''panel'', ''expand'', ''nestedExpand'', ''mediaGroup'', ''mediaSingle'', ''extension'', ''multiBodiedExtension''}
      then append_blocks (children_or_none node) depth out
      else (case children node of
              Some cs \<Rightarrow> append_blocks cs depth out
            | None \<Rightarrow> (case marked_text node of Some s \<Rightarrow> out @ s | None \<Rightarrow> out)))"
| "append_blocks [] depth out = out"
| "append_blocks (c # cs) depth out = append_blocks cs depth (append_block_markdown c depth out)"
| "append_quoted [] depth out = out"
| "append_quoted (c # cs) depth out =
     append_quoted cs depth (out @ concat (List.map quote_line (lines (append_block_markdown c depth []))))"
| "append_list_items [] depth ordered i out = out"
| "append_list_items (item # items) depth ordered i out =
     append_list_items items depth ordered (if ordered then i + 1 else i)
       (close_item
         (if type_of item = ''listItem'' then
            (case children_or_none item of
               [] \<Rightarrow> out
             | block # blocks \<Rightarrow>
                 append_later_blocks blocks depth
                   (append_first_block block depth (out @ list_indent depth @ bullet ordered i)))
          else out))"
| "append_later_blocks [] depth out = out"
| "append_later_blocks (block # blocks) depth out =
     append_later_blocks blocks depth (append_block_markdown block (depth + 1) (out @ list_indent depth @ ''  ''))"
| "append_first_block block depth out =
     (if type_of block = ''paragraph'' then append_inline_content (children_or_none block) out @ [newline]
      else if type_of block = ''bulletList'' \<or> type_of block = ''orderedList''
      then append_block_markdown block (depth + 1) (out @ [newline])
      else out @ trim_end (append_block_markdown block (depth + 1) []) @ [newline])"
  by pat_completeness auto
termination
  by (relation "measure (\<lambda>x. case x of
      Inl (Inl (node, _, _)) \<Rightarrow> 3 * size node + 1
    | Inl (Inr (Inl (cs, _, _))) \<Rightarrow> 3 * size_list size cs
    | Inl (Inr (Inr (cs, _, _))) \<Rightarrow> 3 * size_list size cs
    | Inr (Inl (cs, _, _, _, _)) \<Rightarrow> 3 * size_list size cs
    | Inr (Inr (Inl (cs, _, _))) \<Rightarrow> 3 * size_list size cs
    | Inr (Inr (Inr (block, _, _))) \<Rightarrow> 3 * size block + 2)")
    (use children_or_none_size in \<open>auto simp: less_Suc_eq_le dest!: children_size block_sizes(1)\<close>)

declare append_block_markdown.simps [simp del] append_list_items.simps [simp del] append_first_block.simps [simp del]

definition trim_trailing_newlines :: "string \<Rightarrow> string" where
  "trim_trailing_newlines s = rev (dropWhile (\<lambda>c. c \<in> {newline, CHR 0x0D, CHR '' ''}) (rev s))"

definition jira_description_to_markdown :: "json \<Rightarrow> string" where
  "jira_description_to_markdown description =
     (case description of
        JNull \<Rightarrow> []
      | JString s \<Rightarrow> trim s
      | _ \<Rightarrow> trim_trailing_newlines
          (if type_of description = ''doc'' then append_blocks (children_or_none description) 0 []
           else append_block_markdown description 0 []))"

subsection \<open>The document of an edited description\<close>

text \<open>\<open>split("\n\n")\<close>\<close>

fun split_paragraphs :: "string \<Rightarrow> string list" where
  "split_paragraphs (a # b # s) =
     (if a = newline \<and> b = newline then [] # split_paragraphs s
      else (case split_paragraphs (b # s) of [] \<Rightarrow> [[a]] | w # ws \<Rightarrow> (a # w) # ws))"
| "split_paragraphs s = [s]"

definition paragraph_node :: "json list \<Rightarrow> json" where
  "paragraph_node content = JObject [(''type'', JString ''paragraph''), (''content'', JArray content)]"

definition text_node :: "string \<Rightarrow> json" where
  "text_node t = JObject [(''type'', JString ''text''), (''text'', JString t)]"

definition paragraphs :: "string \<Rightarrow> string list" where
  "paragraphs s = filter (\<lambda>p. p \<noteq> []) (List.map trim (split_paragraphs s))"

definition markdown_to_adf :: "string \<Rightarrow> json" where
  "markdown_to_adf s =
     (let ps = List.map (\<lambda>p. paragraph_node [text_node p]) (paragraphs s);
          content = (if ps = [] then [paragraph_node []] else ps)
      in JObject [(''type'', JString ''doc''), (''version'', JInt 1), (''content'', JArray content)])"

end
