(* ===== verification/Jira_Adf_Props.thy ===== *)
theory Jira_Adf_Props
  imports Jira_Adf
begin

text \<open>
  What a user writes as the description of a ticket is what the dashboard shows of it afterwards: the paragraphs,
  without the white space around them.
\<close>

subsection \<open>Trimming\<close>

lemma trim_start_eq_iff: "trim_start s = s \<longleftrightarrow> (case s of [] \<Rightarrow> True | [c] \<Rightarrow> \<not> ascii_ws c
   | [c, d] \<Rightarrow> \<not> ascii_ws c \<and> \<not> ws2 c d | c # d # e # _ \<Rightarrow> \<not> ascii_ws c \<and> \<not> ws2 c d \<and> \<not> ws3 c d e)"
proof (cases s rule: trim_start.cases)
  case (1 c d e r)
  have "length (trim_start (d # e # r)) < length s" "length (trim_start (e # r)) < length s" "length (trim_start r) < length s"
    using 1 length_trim_start [of "d # e # r"] length_trim_start [of "e # r"] length_trim_start [of r] by simp_all
  with 1 show ?thesis by (auto split: if_splits)
next
  case (2 c d)
  have "length (trim_start [d]) < length s" using 2 length_trim_start [of "[d]"] by simp
  with 2 show ?thesis by (auto split: if_splits)
qed auto

lemma trim_rev_eq_iff: "trim_rev s = s \<longleftrightarrow> (case s of [] \<Rightarrow> True | [e] \<Rightarrow> \<not> ascii_ws e
   | [e, d] \<Rightarrow> \<not> ascii_ws e \<and> \<not> ws2 d e | e # d # c # _ \<Rightarrow> \<not> ascii_ws e \<and> \<not> ws2 d e \<and> \<not> ws3 c d e)"
proof (cases s rule: trim_rev.cases)
  case (1 e d c r)
  have "length (trim_rev (d # c # r)) < length s" "length (trim_rev (c # r)) < length s" "length (trim_rev r) < length s"
    using 1 length_trim_rev [of "d # c # r"] length_trim_rev [of "c # r"] length_trim_rev [of r] by simp_all
  with 1 show ?thesis by (auto split: if_splits)
next
  case (2 e d)
  have "length (trim_rev [d]) < length s" using 2 length_trim_rev [of "[d]"] by simp
  with 2 show ?thesis by (auto split: if_splits)
qed auto

lemma trim_start_idem [simp]: "trim_start (trim_start s) = trim_start s"
  by (induction s rule: trim_start.induct) auto

lemma trim_rev_idem [simp]: "trim_rev (trim_rev s) = trim_rev s"
  by (induction s rule: trim_rev.induct) auto

lemma suffix_trim_start: "suffix (trim_start s) s"
  by (induction s rule: trim_start.induct) (auto intro: suffix_ConsI)

lemma suffix_trim_rev: "suffix (trim_rev s) s"
  by (induction s rule: trim_rev.induct) (auto intro: suffix_ConsI)

lemma prefix_trim_end: "prefix (trim_end s) s"
  using suffix_trim_rev [of "rev s"] by (simp add: trim_end_def suffix_to_prefix)

lemma trim_start_of_prefix:
  assumes "prefix p s" and "trim_start s = s" shows "trim_start p = p"
  using assms unfolding trim_start_eq_iff prefix_def
  by (auto split: list.splits)

lemma trim_idem [simp]: "trim (trim s) = trim s"
proof -
  have "trim_start (trim s) = trim s"
    unfolding trim_def by (rule trim_start_of_prefix [OF prefix_trim_end]) simp
  moreover have "trim_end (trim_end x) = trim_end x" for x by (simp add: trim_end_def)
  ultimately show ?thesis by (simp add: trim_def)
qed

lemma sublist_trim: "sublist (trim s) s"
  unfolding trim_def
  by (meson prefix_trim_end suffix_trim_start prefix_imp_sublist suffix_imp_sublist sublist_order.order_trans)

lemma trim_head: "trim s = c # r \<Longrightarrow> \<not> ascii_ws c"
proof -
  assume a: "trim s = c # r"
  have "trim_start (trim s) = trim s"
    unfolding trim_def by (rule trim_start_of_prefix [OF prefix_trim_end]) simp
  then show ?thesis using a unfolding trim_start_eq_iff by (auto split: list.splits)
qed

lemma trim_last: "trim s \<noteq> [] \<Longrightarrow> \<not> ascii_ws (last (trim s))"
proof -
  assume a: "trim s \<noteq> []"
  let ?x = "rev (trim_start s)"
  have "trim_rev (trim_rev ?x) = trim_rev ?x" by simp
  moreover have "trim_rev ?x \<noteq> []" using a by (simp add: trim_def trim_end_def)
  ultimately have "\<not> ascii_ws (hd (trim_rev ?x))" unfolding trim_rev_eq_iff by (auto split: list.splits)
  then show ?thesis by (simp add: trim_def trim_end_def last_rev)
qed

subsection \<open>Paragraphs\<close>

lemma split_paragraphs_ne [simp]: "split_paragraphs s \<noteq> []"
  by (induction s rule: split_paragraphs.induct) (auto split: list.splits)

lemma split_paragraphs_head: "split_paragraphs s = w # ws \<Longrightarrow> prefix w s"
  by (induction s arbitrary: w ws rule: split_paragraphs.induct) (auto split: if_splits list.splits)

lemma split_paragraphs_unbroken: "p \<in> set (split_paragraphs s) \<Longrightarrow> \<not> sublist nl2 p"
proof (induction s arbitrary: p rule: split_paragraphs.induct)
  case (1 a b s)
  show ?case
  proof (cases "a = newline \<and> b = newline")
    case True
    then show ?thesis using 1 by (auto simp: nl2_def)
  next
    case False
    obtain w ws where w: "split_paragraphs (b # s) = w # ws" by (cases "split_paragraphs (b # s)") auto
    have "\<not> sublist nl2 (a # w)"
    proof -
      have "\<not> sublist nl2 w" using 1(2) [of w] False w by auto
      moreover have "\<not> prefix nl2 (a # w)"
        using split_paragraphs_head [OF w] False by (auto simp: nl2_def prefix_def)
      ultimately show ?thesis by (simp add: sublist_Cons_right)
    qed
    then show ?thesis using 1(2) [of p] 1(3) False w by auto
  qed
qed (auto simp: nl2_def dest: sublist_length_le)

lemma unbroken_alone: "\<not> sublist nl2 p \<Longrightarrow> split_paragraphs p = [p]"
proof (induction p rule: split_paragraphs.induct)
  case (1 a b s)
  have "\<not> sublist nl2 (b # s)" "\<not> prefix nl2 (a # b # s)" using 1(3) by (auto simp: sublist_Cons_right)
  then show ?case using 1(2) by (auto simp: nl2_def)
qed simp_all

lemma unbroken_first:
  "\<lbrakk>\<not> sublist nl2 p; p \<noteq> []; last p \<noteq> newline\<rbrakk> \<Longrightarrow> split_paragraphs (p @ nl2 @ r) = p # split_paragraphs r"
proof (induction p)
  case (Cons a p)
  show ?case
  proof (cases p)
    case Nil
    then show ?thesis using Cons.prems(3) by (simp add: nl2_def)
  next
    case (Cons b q)
    have "\<not> sublist nl2 p" "\<not> prefix nl2 (a # p)" using Cons.prems(1) by (auto simp: sublist_Cons_right)
    then show ?thesis using Cons.IH Cons.prems(3) Cons by (auto simp: nl2_def)
  qed
qed simp

definition paragraph_ok :: "string \<Rightarrow> bool" where
  "paragraph_ok p \<longleftrightarrow> p \<noteq> [] \<and> trim p = p \<and> \<not> sublist nl2 p"

lemma ascii_ws_simps [simp]: "ascii_ws newline" "ascii_ws (CHR 0x0D)" "ascii_ws (CHR '' '')"
  by (simp_all add: ascii_ws_def newline_def)

lemma paragraph_last: "paragraph_ok p \<Longrightarrow> \<not> ascii_ws (last p)"
  using trim_last [of p] by (auto simp: paragraph_ok_def)

lemma paragraphs_ok: "p \<in> set (paragraphs s) \<Longrightarrow> paragraph_ok p"
  by (auto simp: paragraphs_def paragraph_ok_def
      dest: split_paragraphs_unbroken sublist_order.order_trans [OF _ sublist_trim])

lemma split_join_paragraphs: "\<lbrakk>ps \<noteq> []; \<forall>p \<in> set ps. paragraph_ok p\<rbrakk> \<Longrightarrow> split_paragraphs (join nl2 ps) = ps"
proof (induction nl2 ps rule: join.induct)
  case (2 w)
  then show ?case by (simp add: paragraph_ok_def unbroken_alone)
next
  case (3 w v ws)
  have "last w \<noteq> newline" using paragraph_last [of w] 3(3) by auto
  then show ?case using 3 by (simp add: paragraph_ok_def unbroken_first)
qed simp

lemma paragraphs_join: "\<forall>p \<in> set ps. paragraph_ok p \<Longrightarrow> paragraphs (join nl2 ps) = ps"
proof (cases "ps = []")
  case True
  then show ?thesis by (simp add: paragraphs_def)
next
  case False
  assume ok: "\<forall>p \<in> set ps. paragraph_ok p"
  have "filter (\<lambda>p. p \<noteq> []) (List.map trim ps) = ps"
    using ok by (induction ps) (auto simp: paragraph_ok_def)
  then show ?thesis by (simp add: paragraphs_def split_join_paragraphs [OF False ok])
qed

subsection \<open>The document and its text\<close>

lemma type_of_paragraph [simp]: "type_of (paragraph_node cs) = ''paragraph''"
  by (simp add: type_of_def paragraph_node_def)

lemma children_of_paragraph [simp]: "children_or_none (paragraph_node cs) = cs"
  by (simp add: children_or_none_def children_def paragraph_node_def)

lemma marked_text_node [simp]: "marked_text (text_node t) = Some t"
  by (simp add: marked_text_def text_node_def marks_of_def apply_text_marks_def)

lemma append_paragraph:
  "append_block_markdown (paragraph_node [text_node p]) d out = out @ p @ nl2"
  "append_block_markdown (paragraph_node []) d out = out @ nl2"
  by (simp_all add: append_block_markdown.simps)

lemma append_paragraphs:
  "append_blocks (List.map (\<lambda>p. paragraph_node [text_node p]) ps) d out = out @ concat (List.map (\<lambda>p. p @ nl2) ps)"
  by (induction ps arbitrary: out) (simp_all add: append_paragraph)

lemma concat_join: "ps \<noteq> [] \<Longrightarrow> concat (List.map (\<lambda>p. p @ sep) ps) = join sep ps @ sep"
  by (induction sep ps rule: join.induct) simp_all

lemma last_join: "ps \<noteq> [] \<Longrightarrow> last ps \<noteq> [] \<Longrightarrow> join sep ps \<noteq> [] \<and> last (join sep ps) = last (last ps)"
  by (induction sep ps rule: join.induct) auto

lemma trim_trailing_text: "s \<noteq> [] \<Longrightarrow> \<not> ascii_ws (last s) \<Longrightarrow> trim_trailing_newlines (s @ nl2) = s"
  by (cases s rule: rev_cases) (auto simp: trim_trailing_newlines_def nl2_def)

lemma markdown_of_document:
  "jira_description_to_markdown (markdown_to_adf s) = join nl2 (paragraphs s)"
proof (cases "paragraphs s = []")
  case True
  then show ?thesis
    by (simp add: jira_description_to_markdown_def markdown_to_adf_def type_of_def children_or_none_def children_def
        append_paragraph trim_trailing_newlines_def nl2_def)
next
  case False
  have ok: "paragraph_ok (last (paragraphs s))" using False by (intro paragraphs_ok [of _ s]) simp
  have j: "join nl2 (paragraphs s) \<noteq> []" "\<not> ascii_ws (last (join nl2 (paragraphs s)))"
    using last_join [OF False] ok paragraph_last [OF ok] by (auto simp: paragraph_ok_def)
  show ?thesis
    using False
    by (simp add: jira_description_to_markdown_def markdown_to_adf_def type_of_def children_or_none_def children_def
        append_paragraphs concat_join trim_trailing_text [OF j])
qed

text \<open>
  C25: the description that a user saves is shown to everybody as its paragraphs, trimmed and with one empty line
  between two of them; and saving what is shown makes the same document again.
\<close>
theorem description_round_trips:
  "jira_description_to_markdown (markdown_to_adf s) = join nl2 (paragraphs s) \<and>
   markdown_to_adf (jira_description_to_markdown (markdown_to_adf s)) = markdown_to_adf s"
proof -
  have "paragraphs (join nl2 (paragraphs s)) = paragraphs s" by (rule paragraphs_join) (blast intro: paragraphs_ok)
  then have "markdown_to_adf (join nl2 (paragraphs s)) = markdown_to_adf s"
    by (simp add: markdown_to_adf_def)
  with markdown_of_document show ?thesis by simp
qed

end
