(* ===== verification/Jira_Rest.thy ===== *)
theory Jira_Rest
  imports Jira_Adf Vault_Routes Port_Forwarding Prompts Step_Runner
begin

text \<open>
  \<open>jira/rest.rs\<close>, \<open>jira/client.rs\<close> and the Jira part of \<open>actions/real.rs\<close>: tickets are read and written with the
  owner's own token over the REST API (by \<open>curl\<close>), and with the host's \<open>acli\<close> when there is none. The state is
  what the processes that are started will answer, in order, and the processes that were started. Parsing and printing
  JSON are parameters (\<^typ>\<open>vault_env\<close>); printing a value cannot fail.
\<close>

subsection \<open>Processes\<close>

record jira_world =
  jw_answers :: "(string + command_output) list"
  jw_started :: "(string \<times> string list) list"
  jw_environments :: "(string \<times> string) list list"

text \<open>
  An answer that is not there is a process that could not be started. A process has the environment of the server,
  and what is added to it.
\<close>

definition start_with_env ::
  "string \<Rightarrow> string list \<Rightarrow> (string \<times> string) list \<Rightarrow> jira_world \<Rightarrow> (string + command_output) \<times> jira_world" where
  "start_with_env program args added w =
     (let w' = w\<lparr>jw_started := jw_started w @ [(program, args)], jw_environments := jw_environments w @ [added]\<rparr> in
      case jw_answers w of
        [] \<Rightarrow> (Inl ''no such program'', w')
      | a # as \<Rightarrow> (a, w'\<lparr>jw_answers := as\<rparr>))"

definition start_process :: "string \<Rightarrow> string list \<Rightarrow> jira_world \<Rightarrow> (string + command_output) \<times> jira_world" where
  "start_process program args = start_with_env program args []"

datatype jira_error =
    TicketNotInConfiguredProjects string
  | CredentialRejected nat
  | ListTodoFailed string
  | GetDescriptionPreviewFailed string string
  | GetDetailsFailed string string
  | AssignFailed string string
  | UnassignFailed string string
  | TransitionFailed string string string
  | UpdateDescriptionFailed string string
  | GetLinkedItemFailed string string
  | ParseTicketJson string string
  | ParseTicketListJson string
  | ParseTicketDetailJson string
  | ParseLinkedItemJson string
  | CommandFailed string

type_synonym 'a jira_call = "jira_world \<Rightarrow> (jira_error + 'a) \<times> jira_world"

definition jira_then :: "'a jira_call \<Rightarrow> ('a \<Rightarrow> 'b jira_call) \<Rightarrow> 'b jira_call" where
  "jira_then c f w = (case c w of (Inl e, w') \<Rightarrow> (Inl e, w') | (Inr x, w') \<Rightarrow> f x w')"

definition jira_result :: "jira_error + 'a \<Rightarrow> 'a jira_call" where
  "jira_result r w = (r, w)"

definition json_of :: "vault_env \<Rightarrow> string \<Rightarrow> (string \<Rightarrow> jira_error) \<Rightarrow> json jira_call" where
  "json_of env body bad = jira_result
     (case parse_json (ve_json env) body of Some v \<Rightarrow> Inr v | None \<Rightarrow> Inl (bad (ve_json_error env body)))"

definition json_text :: "vault_env \<Rightarrow> json \<Rightarrow> string" where
  "json_text env v = (case print_json (ve_json env) v of Some s \<Rightarrow> s | None \<Rightarrow> [])"

subsection \<open>The REST API\<close>

definition STATUS_MARKER :: string where "STATUS_MARKER = ''TAKUTO_HTTP_STATUS:''"

definition trim_start_char :: "char \<Rightarrow> string \<Rightarrow> string" where
  "trim_start_char c = dropWhile (\<lambda>x. x = c)"

definition trim_last_char :: "char \<Rightarrow> string \<Rightarrow> string" where
  "trim_last_char c s = rev (dropWhile (\<lambda>x. x = c) (rev s))"

definition rest_url :: "jira_rest_credential \<Rightarrow> string \<Rightarrow> string" where
  "rest_url cred path = trim_last_char (CHR ''/'') (jr_site cred) @ ''/'' @ trim_start_char (CHR ''/'') path"

definition curl_args :: "jira_rest_credential \<Rightarrow> string \<Rightarrow> string \<Rightarrow> string option \<Rightarrow> string list" where
  "curl_args cred meth path body =
     [''-sS'', ''--max-time'', ''30'', ''--connect-timeout'', ''10'', ''-X'', meth,
      ''-H'', ''Accept: application/json'', ''--user'', jr_email cred @ '':'' @ jr_token cred,
      ''-w'', newline # STATUS_MARKER @ ''%{http_code}''] @
     (case body of Some b \<Rightarrow> [''-H'', ''Content-Type: application/json'', ''--data'', b] | None \<Rightarrow> []) @
     [rest_url cred path]"

text \<open>The last place of a text in another.\<close>

fun str_rfind :: "string \<Rightarrow> string \<Rightarrow> nat option" where
  "str_rfind p [] = (if p = [] then Some 0 else None)"
| "str_rfind p (c # s) =
     (case str_rfind p s of Some n \<Rightarrow> Some (Suc n) | None \<Rightarrow> if prefix p (c # s) then Some 0 else None)"

definition parse_status_marker :: "string \<Rightarrow> jira_http_response option" where
  "parse_status_marker raw =
     (case str_rfind STATUS_MARKER raw of
        None \<Rightarrow> None
      | Some idx \<Rightarrow>
          (case parse_port (trim (drop (idx + length STATUS_MARKER) raw)) of
             None \<Rightarrow> None
           | Some status \<Rightarrow>
               let b = take idx raw in
               Some \<lparr>jh_status = unat status,
                 jh_body = (if b \<noteq> [] \<and> last b = newline then butlast b else b)\<rparr>))"

definition run_curl ::
  "jira_rest_credential \<Rightarrow> string \<Rightarrow> string \<Rightarrow> string option \<Rightarrow> jira_world \<Rightarrow> (string + jira_http_response) \<times> jira_world" where
  "run_curl cred meth path body w =
     (case start_process ''curl'' (curl_args cred meth path body) w of
        (Inl e, w') \<Rightarrow> (Inl (''spawn curl failed: '' @ e), w')
      | (Inr out, w') \<Rightarrow>
          (if co_exit_code out \<noteq> 0
           then Inl (''curl exit '' @ show_int (co_exit_code out) @ '': '' @ trim (co_stderr out))
           else (case parse_status_marker (co_stdout out) of
              Some r \<Rightarrow> Inr r
            | None \<Rightarrow> Inl (''could not parse curl response: '' @ show_nat (length (co_stdout out)) @ '' bytes'')), w'))"

definition check_rest_status :: "string \<Rightarrow> jira_http_response \<Rightarrow> jira_error + jira_http_response" where
  "check_rest_status path r =
     (if 200 \<le> jh_status r \<and> jh_status r \<le> 299 then Inr r
      else if jh_status r = 401 \<or> jh_status r = 403 then Inl (CredentialRejected (jh_status r))
      else Inl (ListTodoFailed (''Jira REST '' @ path @ '' returned '' @ show_nat (jh_status r))))"

definition checked :: "jira_rest_credential \<Rightarrow> string \<Rightarrow> string \<Rightarrow> string option \<Rightarrow> jira_http_response jira_call" where
  "checked cred meth path body w =
     (case run_curl cred meth path body w of
        (Inl m, w') \<Rightarrow> (Inl (ListTodoFailed m), w')
      | (Inr r, w') \<Rightarrow> (check_rest_status path r, w'))"

definition get_json :: "vault_env \<Rightarrow> jira_rest_credential \<Rightarrow> string \<Rightarrow> json jira_call" where
  "get_json env cred path = jira_then (checked cred ''GET'' path None) (\<lambda>r. json_of env (jh_body r) ParseTicketListJson)"

definition post_checked :: "jira_rest_credential \<Rightarrow> string \<Rightarrow> string \<Rightarrow> jira_http_response jira_call" where
  "post_checked cred path body = checked cred ''POST'' path (Some body)"

definition put_checked :: "jira_rest_credential \<Rightarrow> string \<Rightarrow> string \<Rightarrow> jira_http_response jira_call" where
  "put_checked cred path body = checked cred ''PUT'' path (Some body)"

text \<open>A query in an address.\<close>

definition hex_upper :: "nat \<Rightarrow> string" where
  "hex_upper b = (let d = ''0123456789ABCDEF'' in [d ! (b div 16), d ! (b mod 16)])"

definition url_encode_byte :: "char \<Rightarrow> string" where
  "url_encode_byte c =
     (if is_ascii_alphanumeric c \<or> c \<in> set ''-_.~'' then [c] else ''%'' @ hex_upper (of_char c))"

definition url_encode :: "string \<Rightarrow> string" where
  "url_encode s = concat (List.map url_encode_byte s)"

subsection \<open>Tickets\<close>

definition fields_of :: "json \<Rightarrow> json" where
  "fields_of v = (case json_get ''fields'' v of Some f \<Rightarrow> f | None \<Rightarrow> v)"

definition str_or :: "string \<Rightarrow> string list \<Rightarrow> json \<Rightarrow> string" where
  "str_or fallback keys v = (case str_at keys v of Some s \<Rightarrow> s | None \<Rightarrow> fallback)"

definition issue_to_ticket :: "string \<Rightarrow> json \<Rightarrow> jira_ticket" where
  "issue_to_ticket default_type issue =
     (let fields = fields_of issue in
      \<lparr>jt_key = str_or [] [''key''] issue, jt_summary = str_or [] [''summary''] fields,
       jt_description = (case json_get ''description'' fields of
          Some d \<Rightarrow> jira_description_to_markdown d | None \<Rightarrow> []),
       jt_item_type = str_or default_type [''issuetype'', ''name''] fields,
       jt_status = str_or [] [''status'', ''name''] fields, jt_linked_items = []\<rparr>)"

definition issues_of :: "string \<Rightarrow> json \<Rightarrow> json list" where
  "issues_of field v = (case Option.bind (json_get field v) as_array of Some xs \<Rightarrow> xs | None \<Rightarrow> [])"

definition without_quotes :: "string \<Rightarrow> string" where
  "without_quotes = filter (\<lambda>c. c \<noteq> CHR 0x22)"

definition in_quotes :: "string \<Rightarrow> string" where
  "in_quotes s = [CHR 0x22] @ s @ [CHR 0x22]"

definition search_path :: "string \<Rightarrow> string \<Rightarrow> string" where
  "search_path jql limit = ''rest/api/3/search/jql?jql='' @ url_encode jql @ ''&maxResults='' @ limit @
     ''&fields=summary,issuetype,status,description''"

text \<open>The query of the poller, and the one of the picker of the dashboard.\<close>

definition todo_jql :: "string list \<Rightarrow> string list \<Rightarrow> string" where
  "todo_jql project_keys item_types =
     (let quoted = (\<lambda>xs. join '', '' (List.map (\<lambda>k. in_quotes (without_quotes (trim k))) xs)) in
      ''project in ('' @ quoted project_keys @ '') AND status = '' @ in_quotes ''To Do'' @
      (if item_types = [] then [] else '' AND issuetype in ('' @ quoted item_types @ '')'') @ '' ORDER BY key ASC'')"

definition ranked :: "string \<Rightarrow> string \<Rightarrow> string" where
  "ranked core jql_filter =
     (let extra = trim jql_filter in
      if extra = [] then core @ '' ORDER BY rank ASC''
      else ''('' @ core @ '') AND ('' @ extra @ '') ORDER BY rank ASC'')"

definition rank_jql :: "string list \<Rightarrow> string \<Rightarrow> string" where
  "rank_jql project_keys jql_filter =
     ranked (''project in ('' @ join '', '' (List.map (\<lambda>k. in_quotes (without_quotes k))
                 (filter (\<lambda>k. k \<noteq> []) (List.map trim project_keys))) @
               '') AND status = '' @ in_quotes ''To Do'' @ '' AND issuetype != Epic'') jql_filter"

definition not_epic :: "jira_ticket \<Rightarrow> bool" where
  "not_epic t \<longleftrightarrow> \<not> eq_ignore_ascii_case (jt_item_type t) ''Epic''"

definition rest_list_todo :: "vault_env \<Rightarrow> jira_rest_credential \<Rightarrow> string list \<Rightarrow> string list \<Rightarrow> jira_ticket list jira_call" where
  "rest_list_todo env cred project_keys item_types =
     (if project_keys = [] then jira_result (Inr [])
      else jira_then (get_json env cred (search_path (todo_jql project_keys item_types) ''50'')) (\<lambda>v.
        jira_result (Inr (sort_key jt_key (filter (\<lambda>t. jt_key t \<noteq> [])
          (List.map (issue_to_ticket ''Task'') (issues_of ''issues'' v)))))))"

definition rest_list_by_rank :: "vault_env \<Rightarrow> jira_rest_credential \<Rightarrow> string list \<Rightarrow> string \<Rightarrow> jira_ticket list jira_call" where
  "rest_list_by_rank env cred project_keys jql_filter =
     (if project_keys = [] then jira_result (Inr [])
      else jira_then (get_json env cred (search_path (rank_jql project_keys jql_filter) ''200'')) (\<lambda>v.
        jira_result (Inr (filter (\<lambda>t. jt_key t \<noteq> [] \<and> not_epic t)
          (List.map (issue_to_ticket ''Task'') (issues_of ''issues'' v))))))"

record ticket_preview =
  tp_key :: string
  tp_summary :: string
  tp_description_markdown :: string

definition project_of :: "string \<Rightarrow> string" where
  "project_of key = hd (split_on (CHR ''-'') key)"

definition in_projects :: "string list \<Rightarrow> string \<Rightarrow> bool" where
  "in_projects project_keys key \<longleftrightarrow>
     trim (project_of key) \<noteq> [] \<and> trim (project_of key) \<in> trim ` set project_keys"

definition preview_of :: "string \<Rightarrow> json \<Rightarrow> ticket_preview" where
  "preview_of key v =
     (let fields = fields_of v in
      \<lparr>tp_key = str_or key [''key''] v, tp_summary = str_or [] [''summary''] fields,
       tp_description_markdown = jira_description_to_markdown
         (case json_get ''description'' fields of Some d \<Rightarrow> d | None \<Rightarrow> JNull)\<rparr>)"

definition rest_preview :: "vault_env \<Rightarrow> jira_rest_credential \<Rightarrow> string \<Rightarrow> string list \<Rightarrow> ticket_preview jira_call" where
  "rest_preview env cred key project_keys =
     (if \<not> in_projects project_keys key then jira_result (Inl (TicketNotInConfiguredProjects key))
      else jira_then (get_json env cred (''rest/api/3/issue/'' @ key @ ''?fields=summary,description'')) (\<lambda>v.
        jira_result (Inr (preview_of key v))))"

subsection \<open>Linked tickets\<close>

definition link_label :: "json \<Rightarrow> string \<Rightarrow> string" where
  "link_label link direction = str_or (str_or ''Related'' [''type'', ''name''] link) [''type'', direction] link"

definition linked_key :: "json \<Rightarrow> string \<Rightarrow> string \<Rightarrow> (string \<times> string) list" where
  "linked_key link side direction =
     (case str_at [side, ''key''] link of Some key \<Rightarrow> [(key, link_label link direction)] | None \<Rightarrow> [])"

definition extract_linked_keys :: "json \<Rightarrow> (string \<times> string) list" where
  "extract_linked_keys v = concat (List.map
     (\<lambda>link. linked_key link ''outwardIssue'' ''outward'' @ linked_key link ''inwardIssue'' ''inward'')
     (issues_of ''issuelinks'' (fields_of v)))"

text \<open>Those in the configured projects, as far as they can be read.\<close>

fun resolve_linked ::
  "(string \<Rightarrow> string \<Rightarrow> linked_item jira_call) \<Rightarrow> string list \<Rightarrow> (string \<times> string) list \<Rightarrow> jira_world \<Rightarrow>
   linked_item list \<times> jira_world" where
  "resolve_linked fetch project_keys [] w = ([], w)"
| "resolve_linked fetch project_keys ((key, label) # ls) w =
     (if project_of key \<notin> set project_keys then resolve_linked fetch project_keys ls w
      else (case fetch key label w of
         (Inl _, w') \<Rightarrow> resolve_linked fetch project_keys ls w'
       | (Inr item, w') \<Rightarrow> apfst (Cons item) (resolve_linked fetch project_keys ls w')))"

definition with_linked ::
  "(string \<Rightarrow> string \<Rightarrow> linked_item jira_call) \<Rightarrow> string list \<Rightarrow> (string \<times> string) list \<Rightarrow> jira_ticket \<Rightarrow> jira_ticket jira_call" where
  "with_linked fetch project_keys links t w =
     (case resolve_linked fetch project_keys links w of (items, w') \<Rightarrow> (Inr (t\<lparr>jt_linked_items := items\<rparr>), w'))"

definition linked_item_of :: "string \<Rightarrow> jira_ticket \<Rightarrow> linked_item" where
  "linked_item_of label t = \<lparr>li_key = jt_key t, li_summary = jt_summary t, li_description = jt_description t,
     li_status = jt_status t, li_link_type = label\<rparr>"

definition rest_linked_item :: "vault_env \<Rightarrow> jira_rest_credential \<Rightarrow> string \<Rightarrow> string \<Rightarrow> linked_item jira_call" where
  "rest_linked_item env cred key label =
     jira_then (get_json env cred (''rest/api/3/issue/'' @ key @ ''?fields=summary,issuetype,status,description'')) (\<lambda>v.
       jira_result (Inr (linked_item_of label (issue_to_ticket ''Task'' v))))"

definition rest_ticket_details :: "vault_env \<Rightarrow> jira_rest_credential \<Rightarrow> string \<Rightarrow> string list \<Rightarrow> jira_ticket jira_call" where
  "rest_ticket_details env cred key project_keys =
     jira_then (get_json env cred (''rest/api/3/issue/'' @ key @ ''?fields=summary,issuetype,status,description,issuelinks'')) (\<lambda>v.
       let t = issue_to_ticket ''Task'' v; t = (if jt_key t = [] then t\<lparr>jt_key := key\<rparr> else t)
       in with_linked (rest_linked_item env cred) project_keys (extract_linked_keys v) t)"

subsection \<open>Writing tickets\<close>

definition issue_path :: "string \<Rightarrow> string \<Rightarrow> string" where
  "issue_path key rest = ''rest/api/3/issue/'' @ key @ rest"

definition ignore_result :: "'a jira_call \<Rightarrow> unit jira_call" where
  "ignore_result c = jira_then c (\<lambda>_. jira_result (Inr ()))"

definition set_assignee :: "vault_env \<Rightarrow> jira_rest_credential \<Rightarrow> json \<Rightarrow> string \<Rightarrow> unit jira_call" where
  "set_assignee env cred account key = ignore_result
     (put_checked cred (issue_path key ''/assignee'') (json_text env (JObject [(''accountId'', account)])))"

definition rest_assign :: "vault_env \<Rightarrow> jira_rest_credential \<Rightarrow> string \<Rightarrow> unit jira_call" where
  "rest_assign env cred = set_assignee env cred (JString (jr_account_id cred))"

definition rest_unassign :: "vault_env \<Rightarrow> jira_rest_credential \<Rightarrow> string \<Rightarrow> unit jira_call" where
  "rest_unassign env cred = set_assignee env cred JNull"

definition rest_update_description :: "vault_env \<Rightarrow> jira_rest_credential \<Rightarrow> string \<Rightarrow> string \<Rightarrow> unit jira_call" where
  "rest_update_description env cred key description = ignore_result
     (put_checked cred (issue_path key []) (json_text env
        (JObject [(''fields'', JObject [(''description'', markdown_to_adf description)])])))"

text \<open>
  The transition to a status: by the status it leads to, by its own name, or by the category of the status that the
  name stands for.
\<close>

definition named :: "string list \<Rightarrow> string \<Rightarrow> json \<Rightarrow> bool" where
  "named keys wanted t \<longleftrightarrow> (case str_at keys t of Some n \<Rightarrow> eq_ignore_ascii_case n wanted | None \<Rightarrow> False)"

definition transition_id :: "json \<Rightarrow> string option" where
  "transition_id t = str_at [''id''] t"

definition first_id :: "(json \<Rightarrow> bool) \<Rightarrow> json list \<Rightarrow> string option" where
  "first_id P ts = Option.bind (List.find P ts) transition_id"

definition target_category :: "string \<Rightarrow> string option" where
  "target_category target =
     (let t = to_ascii_lowercase target; has = (\<lambda>w. str_contains w t) in
      if has ''done'' \<or> has ''complete'' \<or> has ''resolved'' \<or> has ''closed'' \<or> has ''termin'' then Some ''done''
      else if has ''progress'' \<or> has ''doing'' \<or> has ''cours'' then Some ''indeterminate''
      else if t = ''to do'' \<or> t = ''todo'' \<or> has ''backlog'' \<or> has ''faire'' then Some ''new''
      else None)"

definition or_else :: "'a option \<Rightarrow> 'a option \<Rightarrow> 'a option" where
  "or_else x y = (case x of Some _ \<Rightarrow> x | None \<Rightarrow> y)"

definition pick_transition :: "string \<Rightarrow> json list \<Rightarrow> string option" where
  "pick_transition target ts =
     or_else (first_id (named [''to'', ''name''] target) ts)
       (or_else (first_id (named [''name''] target) ts)
          (case target_category target of
             Some cat \<Rightarrow> first_id (named [''to'', ''statusCategory'', ''key''] cat) ts
           | None \<Rightarrow> None))"

definition no_transition :: "string \<Rightarrow> json list \<Rightarrow> string" where
  "no_transition target ts =
     (let available = join '', '' (List.map_filter (str_at [''to'', ''name'']) ts) in
      if available = [] then ''Jira returned no available transitions for this issue.''
      else ''no transition leads to status '' @ in_quotes target @ ''. Available statuses: '' @ available)"

definition rest_transition :: "vault_env \<Rightarrow> jira_rest_credential \<Rightarrow> string \<Rightarrow> string \<Rightarrow> unit jira_call" where
  "rest_transition env cred key status =
     jira_then (get_json env cred (issue_path key ''/transitions'')) (\<lambda>v.
       let target = trim status; ts = issues_of ''transitions'' v in
       case pick_transition target ts of
         None \<Rightarrow> jira_result (Inl (TransitionFailed key target (no_transition target ts)))
       | Some i \<Rightarrow> ignore_result (post_checked cred (issue_path key ''/transitions'')
           (json_text env (JObject [(''transition'', JObject [(''id'', JString i)])]))))"

subsection \<open>The command-line client\<close>

definition acli :: "string list \<Rightarrow> command_output jira_call" where
  "acli args w =
     (case start_process ''acli'' args w of (Inl e, w') \<Rightarrow> (Inl (CommandFailed e), w') | (Inr out, w') \<Rightarrow> (Inr out, w'))"

text \<open>What a successful run printed.\<close>

definition acli_ok :: "string list \<Rightarrow> (string \<Rightarrow> jira_error) \<Rightarrow> string jira_call" where
  "acli_ok args bad = jira_then (acli args) (\<lambda>out. jira_result
     (if co_exit_code out = 0 then Inr (co_stdout out) else Inl (bad (co_stderr out))))"

definition acli_search :: "string \<Rightarrow> string \<Rightarrow> string list" where
  "acli_search jql limit = [''jira'', ''workitem'', ''search'', ''--jql'', jql, ''--json'', ''--limit'', limit]"

definition acli_view :: "string \<Rightarrow> string \<Rightarrow> string list" where
  "acli_view key wanted = [''jira'', ''workitem'', ''view'', key, ''--json'', ''--fields'', wanted]"

text \<open>The text of a description, without its form.\<close>

function collect_text :: "json list \<Rightarrow> string \<Rightarrow> string" where
  "collect_text [] buf = buf"
| "collect_text (node # nodes) buf = collect_text nodes
     (let buf = buf @ str_of [''text''] node in
      case children node of
        None \<Rightarrow> buf
      | Some cs \<Rightarrow> collect_text cs buf @
          (if type_of node \<in> {''paragraph'', ''heading'', ''bulletList'', ''orderedList''} then [newline] else []))"
  by pat_completeness auto
termination
  by (relation "measure (\<lambda>(cs, buf). size_list size cs)") (auto simp: less_Suc_eq_le dest!: children_size)

definition extract_description_text :: "json \<Rightarrow> string" where
  "extract_description_text issue_fields =
     (case json_get ''description'' issue_fields of
        None \<Rightarrow> []
      | Some d \<Rightarrow> (case as_str d of Some s \<Rightarrow> s | None \<Rightarrow> trim (collect_text [d] [])))"

definition acli_ticket :: "string \<Rightarrow> string \<Rightarrow> json \<Rightarrow> jira_ticket" where
  "acli_ticket default_type default_status issue =
     (let fields = fields_of issue in
      \<lparr>jt_key = str_or [] [''key''] issue, jt_summary = str_or [] [''summary''] fields,
       jt_description = extract_description_text fields,
       jt_item_type = str_or default_type [''issuetype'', ''name''] fields,
       jt_status = str_or default_status [''status'', ''name''] fields, jt_linked_items = []\<rparr>)"

text \<open>An array of work items; anything else is refused.\<close>

definition parse_ticket_list :: "vault_env \<Rightarrow> string \<Rightarrow> string \<Rightarrow> jira_error + jira_ticket list" where
  "parse_ticket_list env printed default_type =
     (case Option.bind (parse_json (ve_json env) printed) as_array of
        None \<Rightarrow> Inl (ParseTicketListJson (ve_json_error env printed))
      | Some issues \<Rightarrow> Inr (filter (\<lambda>t. jt_key t \<noteq> []) (List.map (acli_ticket default_type ''To Do'') issues)))"

text \<open>The tickets of one project and type; none, when the client fails.\<close>

definition acli_pair :: "vault_env \<Rightarrow> string \<Rightarrow> string \<Rightarrow> jira_ticket list jira_call" where
  "acli_pair env project item_type =
     jira_then (acli (acli_search (''project = '' @ project @ '' AND status = '' @ in_quotes ''To Do'' @
         '' AND issuetype = '' @ in_quotes item_type) ''50'')) (\<lambda>out.
       jira_result (if co_exit_code out \<noteq> 0 then Inr [] else parse_ticket_list env (co_stdout out) item_type))"

fun acli_list_pairs ::
  "vault_env \<Rightarrow> (string \<times> string) list \<Rightarrow> jira_ticket list \<Rightarrow> jira_ticket list jira_call" where
  "acli_list_pairs env [] found = jira_result (Inr (sort_key jt_key found))"
| "acli_list_pairs env (p # ps) found =
     jira_then (acli_pair env (fst p) (snd p)) (\<lambda>ts. acli_list_pairs env ps (found @ ts))"

definition acli_list_todo :: "vault_env \<Rightarrow> string list \<Rightarrow> string list \<Rightarrow> jira_ticket list jira_call" where
  "acli_list_todo env project_keys item_types = acli_list_pairs env (List.product project_keys item_types) []"

fun dedupe_tickets_preserve_order :: "string set \<Rightarrow> jira_ticket list \<Rightarrow> jira_ticket list" where
  "dedupe_tickets_preserve_order seen [] = []"
| "dedupe_tickets_preserve_order seen (t # ts) =
     (if jt_key t \<in> seen then dedupe_tickets_preserve_order seen ts
      else t # dedupe_tickets_preserve_order (insert (jt_key t) seen) ts)"

definition acli_rank_jql :: "string list \<Rightarrow> string \<Rightarrow> string" where
  "acli_rank_jql project_keys jql_filter =
     (let rest = '' AND status = '' @ in_quotes ''To Do'' @ '' AND issuetype != Epic'' in
      ranked (case project_keys of
          [k] \<Rightarrow> ''project = '' @ trim k @ rest
        | _ \<Rightarrow> ''project in ('' @ join '', '' (filter (\<lambda>k. k \<noteq> []) (List.map trim project_keys)) @ '')'' @ rest) jql_filter)"

definition acli_list_by_rank :: "vault_env \<Rightarrow> string list \<Rightarrow> string \<Rightarrow> jira_ticket list jira_call" where
  "acli_list_by_rank env project_keys jql_filter =
     (if project_keys = [] then jira_result (Inr [])
      else jira_then (acli_ok (acli_search (acli_rank_jql project_keys jql_filter) ''200'') ListTodoFailed) (\<lambda>printed.
        jira_result (case parse_ticket_list env printed ''Issue'' of
          Inl e \<Rightarrow> Inl e
        | Inr ts \<Rightarrow> Inr (filter not_epic (dedupe_tickets_preserve_order {} ts)))))"

definition acli_preview :: "vault_env \<Rightarrow> string \<Rightarrow> string list \<Rightarrow> ticket_preview jira_call" where
  "acli_preview env key project_keys =
     (if \<not> in_projects project_keys key then jira_result (Inl (TicketNotInConfiguredProjects key))
      else jira_then (acli_ok (acli_view key ''key,summary,description'') (GetDescriptionPreviewFailed key)) (\<lambda>printed.
        jira_then (json_of env printed (ParseTicketJson key)) (\<lambda>v. jira_result (Inr (preview_of key v)))))"

definition acli_linked_item :: "vault_env \<Rightarrow> string \<Rightarrow> string \<Rightarrow> linked_item jira_call" where
  "acli_linked_item env key label =
     jira_then (acli_ok (acli_view key ''key,issuetype,summary,status,description'') (GetLinkedItemFailed key)) (\<lambda>printed.
       jira_then (json_of env printed ParseLinkedItemJson) (\<lambda>v.
         jira_result (Inr (linked_item_of label (acli_ticket [] [] v)))))"

definition linked_keys_in :: "vault_env \<Rightarrow> string \<Rightarrow> (string \<times> string) list" where
  "linked_keys_in env printed =
     (case parse_json (ve_json env) printed of Some v \<Rightarrow> extract_linked_keys v | None \<Rightarrow> [])"

definition acli_details :: "string \<Rightarrow> string jira_call" where
  "acli_details key = acli_ok (acli_view key ''key,issuetype,summary,status,assignee,description'') (GetDetailsFailed key)"

definition acli_ticket_details :: "vault_env \<Rightarrow> string \<Rightarrow> string list \<Rightarrow> jira_ticket jira_call" where
  "acli_ticket_details env key project_keys =
     jira_then (acli_details key) (\<lambda>printed.
       jira_then (json_of env printed ParseTicketDetailJson) (\<lambda>v.
         with_linked (acli_linked_item env) project_keys (linked_keys_in env printed) (acli_ticket ''Task'' [] v)))"

definition acli_assign :: "string \<Rightarrow> unit jira_call" where
  "acli_assign key = ignore_result
     (acli_ok [''jira'', ''workitem'', ''assign'', ''--key'', key, ''--assignee'', ''@me'', ''--yes''] (AssignFailed key))"

definition acli_unassign :: "string \<Rightarrow> unit jira_call" where
  "acli_unassign key = ignore_result
     (acli_ok [''jira'', ''workitem'', ''assign'', ''--key'', key, ''--remove-assignee'', ''--yes''] (UnassignFailed key))"

definition acli_transition :: "string \<Rightarrow> string \<Rightarrow> unit jira_call" where
  "acli_transition key status = ignore_result
     (acli_ok [''jira'', ''workitem'', ''transition'', ''--key'', key, ''--status'', status, ''--yes'']
       (TransitionFailed key status))"

definition acli_update_description :: "string \<Rightarrow> string \<Rightarrow> unit jira_call" where
  "acli_update_description key description = ignore_result
     (acli_ok [''jira'', ''workitem'', ''edit'', ''--key'', key, ''--description'', description, ''--yes'']
       (UpdateDescriptionFailed key))"

subsection \<open>Whose credential is used\<close>

type_synonym 'a owned_call = "vault_tables store \<times> jira_world \<Rightarrow> (jira_error + 'a) \<times> (vault_tables store \<times> jira_world)"

text \<open>The owner's, when there is a database, an owner and a credential that can be opened; otherwise the host's.\<close>

definition by_owner ::
  "vault_env \<Rightarrow> string option \<Rightarrow> (jira_rest_credential \<Rightarrow> 'a jira_call) \<Rightarrow> 'a jira_call \<Rightarrow> 'a owned_call" where
  "by_owner env owner rest host x =
     (case x of (s, w) \<Rightarrow>
        case (case owner of
                Some u \<Rightarrow> if ve_has_db env then resolve_rest_credential env u s else (None, s)
              | None \<Rightarrow> (None, s)) of
          (Some cred, s') \<Rightarrow> apsnd (Pair s') (rest cred w)
        | (None, s') \<Rightarrow> apsnd (Pair s') (host w))"

definition assign_ticket :: "vault_env \<Rightarrow> string \<Rightarrow> string option \<Rightarrow> unit owned_call" where
  "assign_ticket env key owner = by_owner env owner (\<lambda>cred. rest_assign env cred key) (acli_assign key)"

definition unassign_ticket :: "vault_env \<Rightarrow> string \<Rightarrow> string option \<Rightarrow> unit owned_call" where
  "unassign_ticket env key owner = by_owner env owner (\<lambda>cred. rest_unassign env cred key) (acli_unassign key)"

definition transition_ticket :: "vault_env \<Rightarrow> string \<Rightarrow> string \<Rightarrow> string option \<Rightarrow> unit owned_call" where
  "transition_ticket env key status owner =
     by_owner env owner (\<lambda>cred. rest_transition env cred key status) (acli_transition key status)"

definition list_todo_tickets :: "vault_env \<Rightarrow> string option \<Rightarrow> string list \<Rightarrow> string list \<Rightarrow> jira_ticket list owned_call" where
  "list_todo_tickets env owner project_keys item_types =
     by_owner env owner (\<lambda>cred. rest_list_todo env cred project_keys item_types) (acli_list_todo env project_keys item_types)"

end
