(* ===== verification/Jira_Props.thy ===== *)
theory Jira_Props
  imports Jira_Rest Jira_Adf_Props Vault_Props
begin

text \<open>
  Which processes the Jira operations start: with the owner's token only, or only the host's client; for tickets of the
  configured projects; and which transition is asked for.
\<close>

subsection \<open>Processes of a call\<close>

definition starts :: "(string \<times> string list \<Rightarrow> bool) \<Rightarrow> (jira_world \<Rightarrow> 'r \<times> jira_world) \<Rightarrow> bool" where
  "starts P c \<longleftrightarrow> (\<forall>w. \<exists>l. jw_started (snd (c w)) = jw_started w @ l \<and> list_all P l)"

lemma startsI: "(\<And>w. \<exists>l. jw_started (snd (c w)) = jw_started w @ l \<and> list_all P l) \<Longrightarrow> starts P c"
  by (simp add: starts_def)

lemma starts_result: "starts P (jira_result r)"
  by (simp add: starts_def jira_result_def)

lemma starts_json_of: "starts P (json_of env b bad)"
  by (simp add: json_of_def starts_result)

lemma starts_then:
  assumes "starts P c" and "\<And>x. starts P (f x)" shows "starts P (jira_then c f)"
proof (rule startsI)
  fix w
  obtain l where l: "jw_started (snd (c w)) = jw_started w @ l" "list_all P l" using assms(1) by (auto simp: starts_def)
  show "\<exists>l. jw_started (snd (jira_then c f w)) = jw_started w @ l \<and> list_all P l"
  proof (cases "c w")
    case (Pair r w1)
    show ?thesis
    proof (cases r)
      case (Inl e)
      then show ?thesis using l Pair by (auto simp: jira_then_def)
    next
      case (Inr x)
      obtain l' where "jw_started (snd (f x w1)) = jw_started w1 @ l'" "list_all P l'"
        using assms(2) [of x] unfolding starts_def by blast
      then show ?thesis using l Pair Inr by (intro exI [of _ "l @ l'"]) (simp add: jira_then_def)
    qed
  qed
qed

lemma started_process: "jw_started (snd (start_process p args w)) = jw_started w @ [(p, args)]"
  by (simp add: start_process_def start_with_env_def Let_def split: list.split)

lemma starts_checked: "P (''curl'', curl_args cred m path body) \<Longrightarrow> starts P (checked cred m path body)"
proof (rule startsI)
  fix w
  assume "P (''curl'', curl_args cred m path body)"
  then show "\<exists>l. jw_started (snd (checked cred m path body w)) = jw_started w @ l \<and> list_all P l"
    using started_process [of "''curl''" "curl_args cred m path body" w]
    by (cases "start_process ''curl'' (curl_args cred m path body) w") (auto simp: checked_def run_curl_def split: sum.splits)
qed

lemma starts_acli: "P (''acli'', args) \<Longrightarrow> starts P (acli args)"
proof (rule startsI)
  fix w
  assume "P (''acli'', args)"
  then show "\<exists>l. jw_started (snd (acli args w)) = jw_started w @ l \<and> list_all P l"
    using started_process [of "''acli''" args w]
    by (cases "start_process ''acli'' args w") (auto simp: acli_def split: sum.splits)
qed

lemma starts_acli_ok: "P (''acli'', args) \<Longrightarrow> starts P (acli_ok args bad)"
  unfolding acli_ok_def by (intro starts_then starts_acli starts_result)

lemma starts_ignore: "starts P c \<Longrightarrow> starts P (ignore_result c)"
  unfolding ignore_result_def by (intro starts_then starts_result)

lemma starts_get: "P (''curl'', curl_args cred ''GET'' path None) \<Longrightarrow> starts P (get_json env cred path)"
  unfolding get_json_def by (intro starts_then starts_checked starts_json_of)

lemmas starts_intros =
  starts_result starts_json_of starts_then starts_checked starts_acli starts_acli_ok starts_ignore starts_get

subsection \<open>Linked tickets\<close>

text \<open>A client that reads one linked ticket with one process.\<close>

locale linked_reader =
  fixes fetch :: "string \<Rightarrow> string \<Rightarrow> linked_item jira_call"
    and request :: "string \<Rightarrow> string \<times> string list"
  assumes one_request: "starts (\<lambda>x. x = request key) (fetch key label)"
begin

lemma fetch_starts: "P (request key) \<Longrightarrow> starts P (fetch key label)"
  using one_request [of key label] unfolding starts_def by (auto simp: list_all_iff) (metis)

lemma linked_starts:
  assumes "\<And>key. project_of key \<in> set project_keys \<Longrightarrow> P (request key)"
  shows "starts P (resolve_linked fetch project_keys links)"
proof (induction links)
  case Nil
  show ?case by (simp add: starts_def)
next
  case (Cons kl links)
  obtain key label where kl: "kl = (key, label)" by (cases kl)
  show ?case
  proof (cases "project_of key \<in> set project_keys")
    case False
    then show ?thesis using Cons by (simp add: kl starts_def)
  next
    case True
    show ?thesis
    proof (rule startsI)
      fix w
      obtain r w1 where r: "fetch key label w = (r, w1)" by (cases "fetch key label w")
      obtain l1 where l1: "jw_started w1 = jw_started w @ l1" "list_all P l1"
        using fetch_starts [where P = P and key = key and label = label] assms [OF True] r unfolding starts_def by (metis snd_conv)
      obtain l2 where l2: "jw_started (snd (resolve_linked fetch project_keys links w1)) = jw_started w1 @ l2" "list_all P l2"
        using Cons unfolding starts_def by blast
      show "\<exists>l. jw_started (snd (resolve_linked fetch project_keys (kl # links) w)) = jw_started w @ l \<and> list_all P l"
        using True l1 l2 by (intro exI [of _ "l1 @ l2"]) (simp add: kl r split: sum.split)
    qed
  qed
qed

lemma with_linked_starts:
  "(\<And>key. project_of key \<in> set project_keys \<Longrightarrow> P (request key)) \<Longrightarrow> starts P (with_linked fetch project_keys links t)"
  using linked_starts [of project_keys P links] by (simp add: starts_def with_linked_def case_prod_beta)

end

definition linked_get :: "jira_rest_credential \<Rightarrow> string \<Rightarrow> string \<times> string list" where
  "linked_get cred key =
     (''curl'', curl_args cred ''GET'' (''rest/api/3/issue/'' @ key @ ''?fields=summary,issuetype,status,description'') None)"

definition linked_view :: "string \<Rightarrow> string \<times> string list" where
  "linked_view key = (''acli'', acli_view key ''key,issuetype,summary,status,description'')"

interpretation rest_links: linked_reader "rest_linked_item env cred" "linked_get cred" for env cred
  by unfold_locales (unfold rest_linked_item_def, intro starts_intros, simp add: linked_get_def)

interpretation acli_links: linked_reader "acli_linked_item env" linked_view for env
  by unfold_locales (unfold acli_linked_item_def, intro starts_intros, simp add: linked_view_def)

definition processes :: "'r \<times> jira_world \<Rightarrow> jira_world \<Rightarrow> (string \<times> string list) list" where
  "processes x w = drop (length (jw_started w)) (jw_started (snd x))"

lemma starts_processes: "starts P c \<Longrightarrow> list_all P (processes (c w) w)"
  unfolding starts_def processes_def by (metis append_eq_conv_conj)

text \<open>
  Reading a ticket reads it and, of the tickets it is linked with, only those of the configured projects, by one
  request each; over the REST API as with the command-line client.
\<close>
lemma details_within_projects:
  "list_all (\<lambda>x.
      x = (''curl'', curl_args cred ''GET'' (''rest/api/3/issue/'' @ key @ ''?fields=summary,issuetype,status,description,issuelinks'') None) \<or>
      (\<exists>k. project_of k \<in> set project_keys \<and> x = linked_get cred k))
      (processes (rest_ticket_details env cred key project_keys w) w) \<and>
   list_all (\<lambda>x.
      x = (''acli'', acli_view key ''key,issuetype,summary,status,assignee,description'') \<or>
      (\<exists>k. project_of k \<in> set project_keys \<and> x = linked_view k))
      (processes (acli_ticket_details env key project_keys w) w)"
proof (intro conjI; rule starts_processes)
  let ?P = "\<lambda>x. x = (''curl'', curl_args cred ''GET'' (''rest/api/3/issue/'' @ key @
      ''?fields=summary,issuetype,status,description,issuelinks'') None) \<or> (\<exists>k. project_of k \<in> set project_keys \<and> x = linked_get cred k)"
  show "starts ?P (rest_ticket_details env cred key project_keys)"
    unfolding rest_ticket_details_def Let_def
    by (intro starts_then starts_get rest_links.with_linked_starts) auto
  let ?Q = "\<lambda>x. x = (''acli'', acli_view key ''key,issuetype,summary,status,assignee,description'') \<or>
      (\<exists>k. project_of k \<in> set project_keys \<and> x = linked_view k)"
  show "starts ?Q (acli_ticket_details env key project_keys)"
    unfolding acli_ticket_details_def acli_details_def
    by (intro starts_then starts_acli_ok starts_json_of acli_links.with_linked_starts) auto
qed

subsection \<open>Over the wire\<close>

definition hex_value :: "char \<Rightarrow> nat" where
  "hex_value c = (let n = of_char c in if n < 58 then n - 48 else n - 55)"

text \<open>How a server reads the value of a query.\<close>

fun url_decode :: "string \<Rightarrow> string" where
  "url_decode (c # s) =
     (if c = CHR ''%'' then (case s of a # b # r \<Rightarrow> char_of (16 * hex_value a + hex_value b) # url_decode r | _ \<Rightarrow> [])
      else c # url_decode s)"
| "url_decode [] = []"

lemma decode_hex: "b < 256 \<Longrightarrow> url_decode (''%'' @ hex_upper b @ s) = char_of b # url_decode s"
proof -
  assume "b < 256"
  then have "b div 16 < 16" "b mod 16 < 16" by auto
  moreover have "hex_value (''0123456789ABCDEF'' ! d) = d" if "d < 16" for d
  proof -
    have "list_all (\<lambda>d. hex_value (''0123456789ABCDEF'' ! d) = d) [0..<16]" by code_simp
    with that show ?thesis by (simp add: list_all_iff)
  qed
  ultimately show ?thesis by (simp add: hex_upper_def Let_def mult.commute)
qed

lemma decode_encode: "url_decode (url_encode s) = s"
proof (induction s)
  case (Cons c s)
  have "\<not> is_ascii_alphanumeric (CHR ''%'')" by code_simp
  then have "is_ascii_alphanumeric c \<or> c \<in> set ''-_.~'' \<Longrightarrow> c \<noteq> CHR ''%''" by auto
  then show ?case
    using Cons decode_hex [of "of_char c" "url_encode s"]
    by (cases "is_ascii_alphanumeric c \<or> c \<in> set ''-_.~''") (auto simp: url_encode_def url_encode_byte_def)
qed (simp add: url_encode_def)

lemma parse_digits_snoc:
  "parse_digits acc (s @ [d]) = (case parse_digits acc s of None \<Rightarrow> None | Some m \<Rightarrow> parse_digits m [d])"
  by (induction s arbitrary: acc) (auto simp: Let_def)

lemma digit_char: "(d :: nat) < 10 \<Longrightarrow> is_ascii_digit (char_of (48 + d)) \<and> of_char (char_of (48 + d) :: char) = 48 + d"
  by (simp add: is_ascii_digit_def)

lemma parse_show_nat: "n < 2 ^ 64 \<Longrightarrow> parse_digits 0 (show_nat n) = Some n"
proof (induction n rule: less_induct)
  case (less n)
  show ?case
  proof (cases "n < 10")
    case True
    then show ?thesis using less.prems digit_char [of n] by (subst show_nat.simps) (simp add: Let_def)
  next
    case False
    then have "parse_digits 0 (show_nat (n div 10)) = Some (n div 10)" using less by simp
    moreover have "n div 10 * 10 + n mod 10 = n" by simp
    ultimately show ?thesis
      using False less.prems digit_char [of "n mod 10"]
      by (subst show_nat.simps) (simp add: parse_digits_snoc Let_def)
  qed
qed

lemma show_nat_ne: "show_nat n \<noteq> []"
  by (subst show_nat.simps) simp

lemma digits_no_ws: "list_all is_ascii_digit s \<Longrightarrow> trim s = s"
proof -
  assume d: "list_all is_ascii_digit s"
  have w: "\<not> ascii_ws c" "\<not> ws2 c x" "\<not> ws2 x c" "\<not> ws3 c x y" "\<not> ws3 x y c" if "is_ascii_digit c" for c x y
    using that by (auto simp: is_ascii_digit_def ascii_ws_def ws2_def ws3_def Let_def)
  have "trim_start s = s" using d by (auto simp: trim_start_eq_iff w split: list.split)
  moreover have "trim_rev (rev s) = rev s"
    using d by (auto simp: trim_rev_eq_iff w list_all_rev [of _ s, symmetric] simp del: list_all_rev split: list.split)
  ultimately show ?thesis by (simp add: trim_def trim_end_def)
qed

lemma parse_u64_unsigned: "c \<noteq> CHR ''+'' \<Longrightarrow> parse_u64 (c # r) = parse_digits 0 (c # r)"
  by (cases c) (auto simp: parse_u64_def split: bool.splits)

lemma parse_port_show: "n < 65536 \<Longrightarrow> parse_port (show_nat n) = Some (of_nat n)"
proof -
  assume n: "n < 65536"
  obtain c r where s: "show_nat n = c # r" using show_nat_ne by (cases "show_nat n") auto
  have "c \<noteq> CHR ''+''" using show_nat_digits [of c n] s by (auto simp: is_ascii_digit_def)
  then have "parse_u64 (show_nat n) = Some n"
    using parse_show_nat [of n] n s by (simp add: parse_u64_unsigned del: parse_digits.simps)
  then show ?thesis using n by (simp add: parse_port_def)
qed

lemma rfind_digits: "list_all is_ascii_digit s \<Longrightarrow> str_rfind STATUS_MARKER s = None"
  by (induction s) (auto simp: STATUS_MARKER_def is_ascii_digit_def)

lemma rfind_marker:
  "list_all is_ascii_digit s \<Longrightarrow> str_rfind STATUS_MARKER (b @ STATUS_MARKER @ s) = Some (length b)"
proof (induction b)
  case Nil
  then show ?case using rfind_digits [of s] by (simp add: STATUS_MARKER_def)
qed simp

lemma marker_read: "n < 65536 \<Longrightarrow>
    parse_status_marker (b @ [newline] @ STATUS_MARKER @ show_nat n) = Some \<lparr>jh_status = n, jh_body = b\<rparr>"
proof -
  assume n: "n < 65536"
  have d: "list_all is_ascii_digit (show_nat n)" using show_nat_digits by (auto simp: list_all_iff)
  show ?thesis
    using rfind_marker [OF d, of "b @ [newline]"] n
    by (simp add: parse_status_marker_def digits_no_ws [OF d] parse_port_show take_bit_nat_eq_self unsigned_of_nat)
qed

text \<open>
  A query reaches Jira as it was written, in characters that an address may have; and whatever text Jira answers
  with, the marker that curl adds after it is found, so that status and text are read as they were sent.
\<close>
lemma wire_is_transparent:
  "url_decode (url_encode jql) = jql \<and>
   list_all (\<lambda>c. is_ascii_alphanumeric c \<or> c \<in> set ''-_.~%'') (url_encode jql) \<and>
   parse_status_marker (body @ [newline] @ STATUS_MARKER @ show_nat (unat (status :: 16 word))) =
     Some \<lparr>jh_status = unat status, jh_body = body\<rparr>"
proof -
  have h: "is_ascii_alphanumeric (''0123456789ABCDEF'' ! d)" if "d < 16" for d
  proof -
    have "list_all (\<lambda>d. is_ascii_alphanumeric (''0123456789ABCDEF'' ! d)) [0..<16]" by code_simp
    with that show ?thesis by (simp add: list_all_iff)
  qed
  have "list_all (\<lambda>c. is_ascii_alphanumeric c \<or> c \<in> set ''-_.~%'') (url_encode_byte c)" for c
    using h [of "of_char c div 16"] h [of "of_char c mod 16"] nat_of_char_less_256 [of c]
    by (auto simp: url_encode_byte_def hex_upper_def Let_def less_mult_imp_div_less)
  then have "list_all (\<lambda>c. is_ascii_alphanumeric c \<or> c \<in> set ''-_.~%'') (url_encode jql)"
    by (induction jql) (auto simp: url_encode_def)
  moreover have "unat status < 65536" using unsigned_less [of status, where 'a = nat] by simp
  ultimately show ?thesis using marker_read [of "unat status" body] by (simp add: decode_encode)
qed

subsection \<open>Transitions\<close>

text \<open>How well a transition fits a wanted status: by where it leads, by its name, by the category, or not at all.\<close>

definition match_rank :: "string \<Rightarrow> json \<Rightarrow> nat" where
  "match_rank target t =
     (if named [''to'', ''name''] target t then 0
      else if named [''name''] target t then 1
      else if (case target_category target of Some cat \<Rightarrow> named [''to'', ''statusCategory'', ''key''] cat t | None \<Rightarrow> False)
      then 2 else 3)"

lemma first_id_cases:
  assumes "\<forall>t \<in> set ts. transition_id t \<noteq> None"
  shows "(first_id P ts = None \<and> (\<forall>t \<in> set ts. \<not> P t)) \<or>
    (\<exists>t i. t \<in> set ts \<and> P t \<and> transition_id t = Some i \<and> first_id P ts = Some i)"
proof (cases "List.find P ts")
  case None
  then have "\<forall>t \<in> set ts. \<not> P t" by (auto simp: find_None_iff)
  with None show ?thesis by (simp add: first_id_def)
next
  case (Some t)
  then have "t \<in> set ts" "P t" by (auto dest: find_SomeD)
  with Some assms show ?thesis by (fastforce simp: first_id_def)
qed

lemma pick_transition_best:
  assumes "\<forall>t \<in> set ts. transition_id t \<noteq> None"
  shows "(pick_transition target ts = None \<and> (\<forall>t \<in> set ts. match_rank target t = 3)) \<or>
    (\<exists>t i. t \<in> set ts \<and> transition_id t = Some i \<and> pick_transition target ts = Some i \<and> match_rank target t < 3 \<and>
      (\<forall>t' \<in> set ts. match_rank target t \<le> match_rank target t'))"
proof -
  note cases = first_id_cases [OF assms]
  consider (to) t i where "t \<in> set ts" "named [''to'', ''name''] target t" "transition_id t = Some i"
      "first_id (named [''to'', ''name''] target) ts = Some i"
    | (name) t i where "first_id (named [''to'', ''name''] target) ts = None"
      "\<forall>t \<in> set ts. \<not> named [''to'', ''name''] target t" "t \<in> set ts" "named [''name''] target t" "transition_id t = Some i"
      "first_id (named [''name''] target) ts = Some i"
    | (neither) "first_id (named [''to'', ''name''] target) ts = None" "first_id (named [''name''] target) ts = None"
      "\<forall>t \<in> set ts. \<not> named [''to'', ''name''] target t" "\<forall>t \<in> set ts. \<not> named [''name''] target t"
    using cases [of "named [''to'', ''name''] target"] cases [of "named [''name''] target"] by (elim disjE exE conjE) metis+
  then show ?thesis
  proof cases
    case to
    then show ?thesis by (intro disjI2 exI [of _ t]) (simp add: pick_transition_def or_else_def match_rank_def)
  next
    case name
    then show ?thesis by (intro disjI2 exI [of _ t]) (auto simp: pick_transition_def or_else_def match_rank_def)
  next
    case neither
    show ?thesis
    proof (cases "target_category target")
      case None
      with neither show ?thesis by (intro disjI1) (auto simp: pick_transition_def or_else_def match_rank_def)
    next
      case (Some cat)
      from cases [of "named [''to'', ''statusCategory'', ''key''] cat"] show ?thesis
      proof (elim disjE exE conjE)
        assume "first_id (named [''to'', ''statusCategory'', ''key''] cat) ts = None"
          "\<forall>t \<in> set ts. \<not> named [''to'', ''statusCategory'', ''key''] cat t"
        with neither Some show ?thesis by (intro disjI1) (auto simp: pick_transition_def or_else_def match_rank_def)
      next
        fix t i
        assume "t \<in> set ts" "named [''to'', ''statusCategory'', ''key''] cat t" "transition_id t = Some i"
          "first_id (named [''to'', ''statusCategory'', ''key''] cat) ts = Some i"
        with neither Some show ?thesis
          by (intro disjI2 exI [of _ t]) (auto simp: pick_transition_def or_else_def match_rank_def)
      qed
    qed
  qed
qed

text \<open>
  A ticket is moved by one of the transitions that Jira offers, one that fits the wanted status best: it leads
  there, or is named so, or leads to a status of the category meant; when none fits nothing is posted and the error
  says so.
\<close>
lemma transition_fits_best:
  assumes "get_json env cred (issue_path key ''/transitions'') w = (Inr v, w1)"
    and "\<forall>t \<in> set (issues_of ''transitions'' v). transition_id t \<noteq> None"
  shows "((\<forall>t \<in> set (issues_of ''transitions'' v). match_rank (trim status) t = 3) \<and>
      (\<exists>m. rest_transition env cred key status w = (Inl (TransitionFailed key (trim status) m), w1))) \<or>
    (\<exists>t i. t \<in> set (issues_of ''transitions'' v) \<and> transition_id t = Some i \<and> match_rank (trim status) t < 3 \<and>
      (\<forall>t' \<in> set (issues_of ''transitions'' v). match_rank (trim status) t \<le> match_rank (trim status) t') \<and>
      rest_transition env cred key status w = ignore_result (post_checked cred (issue_path key ''/transitions'')
        (json_text env (JObject [(''transition'', JObject [(''id'', JString i)])]))) w1)"
  using pick_transition_best [OF assms(2), of "trim status"] assms(1)
  by (auto simp: rest_transition_def jira_then_def jira_result_def Let_def)

text \<open>A site whose names are in another language.\<close>

definition sample_transitions :: json where
  "sample_transitions = JObject [(''transitions'', JArray
     [JObject [(''id'', JString ''11''), (''name'', JString ''Commencer''), (''to'', JObject [(''name'', JString ''En cours'')])],
      JObject [(''id'', JString ''31''), (''name'', JString ''Finir''), (''to'', JObject [(''name'', JString ''Termine''),
        (''statusCategory'', JObject [(''key'', JString ''done'')])])]])]"

definition sample_jira_env :: vault_env where
  "sample_jira_env = sample_vault_env\<lparr>ve_json := \<lparr>parse_json = (\<lambda>s. if s = ''{}'' then Some sample_transitions else None),
     print_json = (\<lambda>_. Some ''{}'')\<rparr>\<rparr>"

definition sample_jira_token :: jira_rest_credential where
  "sample_jira_token = \<lparr>jr_site = ''https://a.net/'', jr_email = ''u@a.net'', jr_token = ''t'', jr_account_id = ''1''\<rparr>"

definition sample_jira_world :: jira_world where
  "sample_jira_world = \<lparr>jw_answers = List.map (\<lambda>b. Inr \<lparr>co_exit_code = 0,
     co_stdout = b @ [newline] @ STATUS_MARKER @ show_nat 200, co_stderr = []\<rparr>) [''{}'', []], jw_started = [], jw_environments = []\<rparr>"


subsection \<open>Whose token\<close>

definition owner_credential :: "vault_env \<Rightarrow> string option \<Rightarrow> vault_tables store \<Rightarrow> jira_rest_credential option" where
  "owner_credential env owner s =
     (case owner of Some u \<Rightarrow> if ve_has_db env then fst (resolve_rest_credential env u s) else None | None \<Rightarrow> None)"

definition credential_process :: "jira_rest_credential option \<Rightarrow> string \<times> string list \<Rightarrow> bool" where
  "credential_process c x \<longleftrightarrow>
     (case c of
        Some cred \<Rightarrow> fst x = ''curl'' \<and> (\<exists>m path body. snd x = curl_args cred m path body)
      | None \<Rightarrow> fst x = ''acli'')"

lemma by_owner_processes:
  assumes "\<And>cred. starts (credential_process (Some cred)) (rest cred)" and "starts (credential_process None) host"
  shows "list_all (credential_process (owner_credential env owner s))
    (processes (apsnd snd (by_owner env owner rest host (s, w))) w)"
proof -
  have "\<exists>c. (owner_credential env owner s = Some c \<and> snd (snd (by_owner env owner rest host (s, w))) = snd (rest c w)) \<or>
      (owner_credential env owner s = None \<and> snd (snd (by_owner env owner rest host (s, w))) = snd (host w))"
    by (auto simp: by_owner_def owner_credential_def split: option.split prod.split)
  then show ?thesis
    using starts_processes [OF assms(1)] starts_processes [OF assms(2)] by (auto simp: processes_def)
qed

lemma rest_starts:
  "starts (credential_process (Some cred)) (rest_assign env cred key)"
  "starts (credential_process (Some cred)) (rest_unassign env cred key)"
  "starts (credential_process (Some cred)) (rest_transition env cred key status)"
  "starts (credential_process (Some cred)) (rest_list_todo env cred project_keys item_types)"
proof -
  have p: "credential_process (Some cred) (''curl'', curl_args cred m path body)" for m path body
    by (auto simp: credential_process_def)
  show "starts (credential_process (Some cred)) (rest_assign env cred key)"
    "starts (credential_process (Some cred)) (rest_unassign env cred key)"
    unfolding rest_assign_def rest_unassign_def set_assignee_def put_checked_def by (intro starts_intros p)+
  show "starts (credential_process (Some cred)) (rest_transition env cred key status)"
    unfolding rest_transition_def post_checked_def Let_def
    by (intro starts_then starts_get p) (auto split: option.split intro!: starts_intros p)
  show "starts (credential_process (Some cred)) (rest_list_todo env cred project_keys item_types)"
    unfolding rest_list_todo_def by (auto intro!: starts_intros p)
qed

lemma starts_pairs: "starts (credential_process None) (acli_list_pairs env ps found)"
proof (induction ps arbitrary: found)
  case (Cons p ps)
  then show ?case
    by (auto simp: acli_pair_def credential_process_def intro!: starts_then starts_acli starts_result)
qed (simp add: starts_result)

lemma acli_starts:
  "starts (credential_process None) (acli_assign key)" "starts (credential_process None) (acli_unassign key)"
  "starts (credential_process None) (acli_transition key status)"
  "starts (credential_process None) (acli_list_todo env project_keys item_types)"
  unfolding acli_assign_def acli_unassign_def acli_transition_def acli_list_todo_def
  by (auto intro!: starts_ignore starts_acli_ok starts_pairs simp: credential_process_def)


end
