(* ===== verification/Ticket_Routes.thy ===== *)
theory Ticket_Routes
  imports Jira_Rest Item_Access Git_Auth Worker_Secrets
begin

text \<open>
  \<open>routes/jira.rs\<close> and \<open>routes/tickets.rs\<close>: the picker of Jira tickets and their preview, and the routes that edit the
  text of a ticket, with an agent or by hand. A route works on the engine, the credential tables and the processes it
  starts; the sessions of the agents are one parameter.
\<close>

subsection \<open>State and errors\<close>

record description_config =
  dc_provider :: ai_agent_provider
  dc_claude_model :: string
  dc_cursor_cli :: string
  dc_cursor_model :: string
  dc_codex_model :: string
  dc_opencode_model :: string
  dc_improve_timeout :: nat
  dc_git_remote :: string

record agent_request =
  ar_provider :: ai_agent_provider
  ar_cli :: "string option"
  ar_model :: "string option"
  ar_prompt :: string
  ar_system_prompt :: "string option"
  ar_resume :: "string option"
  ar_env :: "(string \<times> string) list"
  ar_timeout :: nat

record ticket_env =
  te_engine :: env
  te_vault :: vault_env
  te_config :: description_config
  te_agent :: "nat \<Rightarrow> agent_request \<Rightarrow> string + (string \<times> string)"
  te_debug :: "string \<Rightarrow> string"

record ticket_site =
  ts_engine :: engine
  ts_vault :: "vault_tables store"
  ts_world :: jira_world
  ts_runs :: "agent_request list"

datatype route_error = CredentialInvalid nat | PlainError nat string

type_synonym 'a ticket_route = "ticket_site \<Rightarrow> (route_error + 'a) \<times> ticket_site"

text \<open>One after the other, until one refuses; over any state.\<close>

definition route_then ::
  "('s \<Rightarrow> (route_error + 'a) \<times> 's) \<Rightarrow> ('a \<Rightarrow> 's \<Rightarrow> (route_error + 'b) \<times> 's) \<Rightarrow> 's \<Rightarrow> (route_error + 'b) \<times> 's" where
  "route_then c f x = (case c x of (Inl e, x') \<Rightarrow> (Inl e, x') | (Inr v, x') \<Rightarrow> f v x')"

definition route_result :: "route_error + 'a \<Rightarrow> 's \<Rightarrow> (route_error + 'a) \<times> 's" where
  "route_result r x = (r, x)"

definition refuse_when :: "bool \<Rightarrow> nat \<Rightarrow> string \<Rightarrow> 's \<Rightarrow> (route_error + unit) \<times> 's" where
  "refuse_when bad st m = route_result (if bad then Inl (PlainError st m) else Inr ())"

definition on_engine :: "(engine \<Rightarrow> 'a \<times> engine) \<Rightarrow> 'a ticket_route" where
  "on_engine f x = (case f (ts_engine x) of (v, e) \<Rightarrow> (Inr v, x\<lparr>ts_engine := e\<rparr>))"

definition on_engine_or :: "(engine \<Rightarrow> (route_error + 'a) \<times> engine) \<Rightarrow> 'a ticket_route" where
  "on_engine_or f x = (case f (ts_engine x) of (v, e) \<Rightarrow> (v, x\<lparr>ts_engine := e\<rparr>))"

definition on_world :: "(jira_world \<Rightarrow> (route_error + 'a) \<times> jira_world) \<Rightarrow> 'a ticket_route" where
  "on_world f x = (case f (ts_world x) of (v, w) \<Rightarrow> (v, x\<lparr>ts_world := w\<rparr>))"

definition on_vault :: "(vault_tables store \<Rightarrow> 'a \<times> vault_tables store) \<Rightarrow> 'a ticket_route" where
  "on_vault f x = (case f (ts_vault x) of (v, s) \<Rightarrow> (Inr v, x\<lparr>ts_vault := s\<rparr>))"

fun http_code :: "status \<Rightarrow> nat" where
  "http_code OK_200 = 200" | "http_code CREATED_201 = 201" | "http_code ACCEPTED_202 = 202"
| "http_code NO_CONTENT_204 = 204" | "http_code BAD_REQUEST_400 = 400" | "http_code UNAUTHORIZED_401 = 401"
| "http_code FORBIDDEN_403 = 403" | "http_code NOT_FOUND_404 = 404" | "http_code CONFLICT_409 = 409"
| "http_code TOO_MANY_REQUESTS_429 = 429" | "http_code INTERNAL_SERVER_ERROR_500 = 500"
| "http_code SERVICE_UNAVAILABLE_503 = 503"

fun jira_error_text :: "jira_error \<Rightarrow> string" where
  "jira_error_text (TicketNotInConfiguredProjects k) = ''ticket '' @ k @ '' is not in configured [jira] project_keys''"
| "jira_error_text (CredentialRejected st) = ''Your saved Jira API token was rejected by Jira (HTTP '' @ show_nat st @
     ''). Update it in Ticketing settings to continue.''"
| "jira_error_text (ListTodoFailed m) = ''acli list To Do tickets failed: '' @ m"
| "jira_error_text (GetDescriptionPreviewFailed k m) = ''acli load ticket '' @ k @ '' failed: '' @ m"
| "jira_error_text (GetDetailsFailed k m) = ''acli get ticket details for '' @ k @ '' failed: '' @ m"
| "jira_error_text (AssignFailed k m) = ''acli assign ticket '' @ k @ '' failed: '' @ m"
| "jira_error_text (UnassignFailed k m) = ''acli unassign ticket '' @ k @ '' failed: '' @ m"
| "jira_error_text (TransitionFailed k st m) = ''transition ticket '' @ k @ '' to '' @ st @ '' failed: '' @ m"
| "jira_error_text (UpdateDescriptionFailed k m) = ''acli update description for '' @ k @ '' failed: '' @ m"
| "jira_error_text (GetLinkedItemFailed k m) = ''acli get linked item '' @ k @ '' failed: '' @ m"
| "jira_error_text (ParseTicketJson k _) = ''failed to parse acli ticket JSON for '' @ k"
| "jira_error_text (ParseTicketListJson _) = ''failed to parse acli ticket list JSON''"
| "jira_error_text (ParseTicketDetailJson _) = ''failed to parse acli ticket detail JSON''"
| "jira_error_text (ParseLinkedItemJson _) = ''failed to parse acli linked item JSON''"
| "jira_error_text (CommandFailed m) = m"

definition map_jira_err :: "nat \<Rightarrow> jira_error \<Rightarrow> route_error" where
  "map_jira_err fallback e =
     (case e of
        CredentialRejected st \<Rightarrow> CredentialInvalid st
      | TicketNotInConfiguredProjects _ \<Rightarrow> PlainError 403 (jira_error_text e)
      | _ \<Rightarrow> PlainError fallback (jira_error_text e))"

text \<open>A call of Jira for the caller.\<close>

definition jira_for ::
  "ticket_env \<Rightarrow> string \<Rightarrow> (jira_rest_credential \<Rightarrow> 'a jira_call) \<Rightarrow> 'a jira_call \<Rightarrow> 'a ticket_route" where
  "jira_for te user rest host x =
     (case by_owner (te_vault te) (Some user) rest host (ts_vault x, ts_world x) of
        (r, (s, w)) \<Rightarrow> (map_sum (map_jira_err 502) id r, x\<lparr>ts_vault := s, ts_world := w\<rparr>))"

subsection \<open>The picker\<close>

definition resolve_repo_settings :: "ticket_env \<Rightarrow> string \<Rightarrow> string \<Rightarrow> polling_settings ticket_route" where
  "resolve_repo_settings te user repository = on_engine_or (\<lambda>e.
     if trim repository = [] then (Inl (PlainError 400 ''repository query parameter is required''), e)
     else if eng_db e = None then (Inl (PlainError 503 ''database unavailable''), e)
     else (case next_io e of (ok, e1) \<Rightarrow>
       (case polling_get ok (env_decode_polling (te_engine te)) (eng_polling e1) user (trim repository) of
          Inl bad \<Rightarrow> (Inl (PlainError 500 (env_db_message (te_engine te) bad)), e1)
        | Inr found \<Rightarrow>
            let s = (case found of Some s \<Rightarrow> s | None \<Rightarrow> default_polling_settings) in
            (if ps_project_keys s = [] then Inl (PlainError 400 ''No Jira project keys configured for this repository'')
             else Inr s, e1))))"

record todo_ticket_row =
  tt_key :: string
  tt_summary :: string
  tt_item_type :: string
  tt_already_added :: bool
  tt_existing_pr_url :: "string option"

definition todo_row :: "(string \<times> candidate_annotation) list \<Rightarrow> jira_ticket \<Rightarrow> todo_ticket_row" where
  "todo_row annotations t =
     (let a = (case map_of annotations (jt_key t) of
         Some a \<Rightarrow> a | None \<Rightarrow> \<lparr>an_already_added = False, an_existing_pr_url = None\<rparr>)
      in \<lparr>tt_key = jt_key t, tt_summary = jt_summary t, tt_item_type = jt_item_type t,
          tt_already_added = an_already_added a, tt_existing_pr_url = an_existing_pr_url a\<rparr>)"

definition list_todo_tickets_manual ::
  "ticket_env \<Rightarrow> authenticated_user \<Rightarrow> string \<Rightarrow> todo_ticket_row list ticket_route" where
  "list_todo_tickets_manual te auth repository =
     route_then (resolve_repo_settings te (au_user_id auth) repository) (\<lambda>s.
     route_then (jira_for te (au_user_id auth)
         (\<lambda>cred. rest_list_by_rank (te_vault te) cred (ps_project_keys s) (ps_jql_filter s))
         (acli_list_by_rank (te_vault te) (ps_project_keys s) (ps_jql_filter s))) (\<lambda>tickets.
     route_then (on_engine (annotate_candidates (te_engine te) (au_user_id auth) None (List.map jt_key tickets))) (\<lambda>anns.
     route_result (Inr (List.map (todo_row anns) tickets)))))"

definition get_ticket_preview ::
  "ticket_env \<Rightarrow> authenticated_user \<Rightarrow> string \<Rightarrow> string \<Rightarrow> ticket_preview ticket_route" where
  "get_ticket_preview te auth key repository =
     route_then (resolve_repo_settings te (au_user_id auth) repository) (\<lambda>s.
       jira_for te (au_user_id auth)
         (\<lambda>cred. rest_preview (te_vault te) cred key (ps_project_keys s))
         (acli_preview (te_vault te) key (ps_project_keys s)))"

subsection \<open>Who may edit the text of a ticket\<close>

text \<open>A row of a live item, or an item in memory; a failed read falls through to memory.\<close>

definition workflow_exists :: "string \<Rightarrow> engine \<Rightarrow> bool \<times> engine" where
  "workflow_exists k e =
     (if eng_db e = None then (wf_get e k \<noteq> None, e)
      else (case db_read (\<lambda>db. Inr (get_access_fields_by_ticket_key db k)) e of
         (Inr (Some _), e1) \<Rightarrow> (True, e1)
       | (_, e1) \<Rightarrow> (wf_get e1 k \<noteq> None, e1)))"

definition authorize_description_session :: "authenticated_user \<Rightarrow> string \<Rightarrow> unit ticket_route" where
  "authorize_description_session auth k = on_engine_or (\<lambda>e.
     case workflow_exists k e of
       (False, e1) \<Rightarrow> (Inr (), e1)
     | (True, e1) \<Rightarrow>
         (case require_workflow_access auth k e1 of
            (Inl st, e2) \<Rightarrow> (Inl (PlainError (http_code st) []), e2)
          | (Inr _, e2) \<Rightarrow> (Inr (), e2)))"

subsection \<open>A session with an agent\<close>

definition provider_api_key_env :: "ai_agent_provider \<Rightarrow> string option" where
  "provider_api_key_env p =
     (case p of
        Claude \<Rightarrow> Some ''CLAUDE_CODE_OAUTH_TOKEN''
      | Cursor \<Rightarrow> Some ''CURSOR_API_KEY''
      | Codex \<Rightarrow> Some ''OPENAI_API_KEY''
      | OpenCode \<Rightarrow> None)"

definition resolve_user_credential_env ::
  "vault_env \<Rightarrow> ai_agent_provider \<Rightarrow> string \<Rightarrow> vault_tables store \<Rightarrow> (string \<times> string) option \<times> vault_tables store" where
  "resolve_user_credential_env env p user s =
     (case (provider_api_key_env p, ve_has_db env, ve_master env) of
        (Some var, True, Some mk) \<Rightarrow>
          (case find_active_with_kind user (provider_as_str p) ApiKey s of
             (Inr (Some row), s1) \<Rightarrow>
               (case open_sealed env mk (pc_sealed row) of
                  Inl _ \<Rightarrow> (None, s1)
                | Inr plaintext \<Rightarrow> (if utf8_valid plaintext then Some (var, plaintext) else None, s1))
           | (_, s1) \<Rightarrow> (None, s1))
      | _ \<Rightarrow> (None, s))"

definition cursor_model_for_cli :: "string \<Rightarrow> string" where
  "cursor_model_for_cli model =
     (let t = trim model in if t = [] \<or> eq_ignore_ascii_case t ''auto'' then ''Auto'' else t)"

definition unless_blank :: "string \<Rightarrow> string option" where
  "unless_blank s = (if trim s = [] then None else Some s)"

definition effective_claude_model :: "description_config \<Rightarrow> string option" where
  "effective_claude_model c = unless_blank (dc_claude_model c)"

definition effective_cursor_cli :: "description_config \<Rightarrow> string" where
  "effective_cursor_cli c = (case unless_blank (dc_cursor_cli c) of Some s \<Rightarrow> s | None \<Rightarrow> ''agent'')"

definition effective_cursor_model :: "description_config \<Rightarrow> string" where
  "effective_cursor_model c = (case unless_blank (dc_cursor_model c) of Some s \<Rightarrow> s | None \<Rightarrow> ''Auto'')"

text \<open>What is asked of the agent of a provider.\<close>

definition agent_request_for ::
  "description_config \<Rightarrow> string \<Rightarrow> string option \<Rightarrow> string option \<Rightarrow> (string \<times> string) list \<Rightarrow> agent_request" where
  "agent_request_for c prompt system_prompt resume added =
     (let r = \<lparr>ar_provider = dc_provider c, ar_cli = None, ar_model = None, ar_prompt = prompt, ar_system_prompt = None,
        ar_resume = resume, ar_env = added, ar_timeout = dc_improve_timeout c\<rparr>
      in case dc_provider c of
           Claude \<Rightarrow> r\<lparr>ar_model := effective_claude_model c,
             ar_system_prompt := (if resume \<noteq> None then None else system_prompt)\<rparr>
         | Cursor \<Rightarrow>
             let m = cursor_model_for_cli (effective_cursor_model c) in
             r\<lparr>ar_cli := Some (effective_cursor_cli c), ar_model := (if m = ''Auto'' then None else Some m)\<rparr>
         | Codex \<Rightarrow> r\<lparr>ar_model := trimmed_non_empty (dc_codex_model c)\<rparr>
         | OpenCode \<Rightarrow> r\<lparr>ar_model := trimmed_non_empty (dc_opencode_model c)\<rparr>)"

definition run_agent :: "ticket_env \<Rightarrow> agent_request \<Rightarrow> (string \<times> string) ticket_route" where
  "run_agent te q x =
     (map_sum (PlainError 500) id (te_agent te (length (ts_runs x)) q), x\<lparr>ts_runs := ts_runs x @ [q]\<rparr>)"

definition set_item :: "string \<Rightarrow> (workflow \<Rightarrow> workflow) \<Rightarrow> engine \<Rightarrow> engine" where
  "set_item k f e = (case wf_get e k of None \<Rightarrow> e | Some w \<Rightarrow> wf_put k (f w) e)"

definition set_and_sync :: "env \<Rightarrow> string \<Rightarrow> (workflow \<Rightarrow> workflow) \<Rightarrow> unit ticket_route" where
  "set_and_sync env k f = on_engine (\<lambda>e. ((), snd (sync_from_map env (set_item k f e))))"

definition run_description_session ::
  "ticket_env \<Rightarrow> string \<Rightarrow> string \<Rightarrow> string \<Rightarrow> string option \<Rightarrow> string ticket_route" where
  "run_description_session te key user prompt system_prompt =
     route_then (on_engine (\<lambda>e. (Option.bind (wf_get e key) wf_description_session_id, e))) (\<lambda>resume.
     route_then (on_vault (resolve_user_credential_env (te_vault te) (dc_provider (te_config te)) user)) (\<lambda>cred.
     route_then (run_agent te (agent_request_for (te_config te) prompt system_prompt resume
         (case cred of Some kv \<Rightarrow> [kv] | None \<Rightarrow> []))) (\<lambda>(session_id, output_text).
     route_then (set_and_sync (te_engine te) key (\<lambda>w. w\<lparr>wf_description_session_id := Some session_id\<rparr>)) (\<lambda>_.
     route_result (Inr output_text)))))"

subsection \<open>Improving and asking\<close>

definition MAX_IMPROVE_DESCRIPTION_LEN :: nat where "MAX_IMPROVE_DESCRIPTION_LEN = 100 * 1024"
definition MAX_PROMPT_LEN :: nat where "MAX_PROMPT_LEN = 10 * 1024"

definition fence :: string where "fence = replicate 3 (CHR 0x60)"

definition IMPROVE_SYSTEM_PROMPT :: string where
  "IMPROVE_SYSTEM_PROMPT =
     ''You are a technical writer who improves software ticket descriptions. '' @
     ''Output the improved title on the FIRST line, then a line containing only '' @ [CHR 0x60] @ ''---'' @ [CHR 0x60] @ '', '' @
     ''then the improved description in Markdown format. Example:'' @ nl @
     ''Improved Title Here'' @ nl @
     ''---'' @ nl @
     ''Improved description in Markdown...'' @ nl2 @
     ''You may use Mermaid diagram blocks ('' @ fence @ ''mermaid) when a visual flowchart, '' @
     ''sequence diagram, or architecture diagram would clarify the description. '' @
     ''Do not add any preamble, commentary, explanation, or closing remarks.''"

definition PROMPT_SYSTEM_PROMPT :: string where
  "PROMPT_SYSTEM_PROMPT =
     ''You are a technical assistant helping a user refine a software ticket. '' @
     ''The user will provide custom instructions; answer them directly. '' @
     ''Use Markdown formatting. You may use Mermaid diagram blocks ('' @ fence @ ''mermaid) when '' @
     ''a visual diagram would clarify your answer. '' @
     ''Do not add any preamble, commentary, or closing remarks '' @ em_dash @ '' output only the requested content.''"

definition length_message :: "string \<Rightarrow> string \<Rightarrow> nat \<Rightarrow> string" where
  "length_message what s limit = what @ '' exceeds maximum allowed length ('' @ show_nat (length s) @ '' bytes, limit '' @
     show_nat limit @ '')''"

definition ticket_line :: "string \<Rightarrow> string \<Rightarrow> string \<Rightarrow> string" where
  "ticket_line key title description =
     nl2 @ ''**Ticket:** '' @ key @ '' '' @ em_dash @ '' '' @ title @ nl2 @ ''**Current description:**'' @ nl @ description"

definition improve_prompt :: "string \<Rightarrow> string \<Rightarrow> string \<Rightarrow> string option \<Rightarrow> string" where
  "improve_prompt key summary description extra =
     ''Improve the following ticket description. Make it clearer, more actionable, and '' @
     ''technically precise. Add acceptance criteria if none are present. Keep the original intent intact.'' @
     ticket_line key summary description @
     (case extra of
        Some x \<Rightarrow> if trim x = [] then [] else nl2 @ ''**Additional instructions:** '' @ x
      | None \<Rightarrow> [])"

text \<open>\<open>split_once\<close> at the line of dashes: the title before it, the description after it.\<close>

definition split_title :: "string \<Rightarrow> string option \<times> string" where
  "split_title answer_text =
     (let mark = nl @ ''---'' @ nl in
      case str_find mark answer_text of
        None \<Rightarrow> (None, answer_text)
      | Some n \<Rightarrow>
          let title = trim (take n answer_text) in
          if title = [] then (None, answer_text) else (Some title, trim (drop (n + length mark) answer_text)))"

definition improve_ticket ::
  "ticket_env \<Rightarrow> authenticated_user \<Rightarrow> string \<Rightarrow> string \<Rightarrow> string \<Rightarrow> string option \<Rightarrow> (string option \<times> string) ticket_route" where
  "improve_ticket te auth key description summary extra =
     route_then (authorize_description_session auth key) (\<lambda>_.
     route_then (refuse_when (length description > MAX_IMPROVE_DESCRIPTION_LEN) 413
         (length_message ''Description'' description MAX_IMPROVE_DESCRIPTION_LEN)) (\<lambda>_.
     route_then (run_description_session te key (au_user_id auth) (improve_prompt key summary description extra)
         (Some IMPROVE_SYSTEM_PROMPT)) (\<lambda>answer_text.
     route_result (Inr (split_title answer_text)))))"

definition prompt_ticket ::
  "ticket_env \<Rightarrow> authenticated_user \<Rightarrow> string \<Rightarrow> string \<Rightarrow> string \<Rightarrow> string \<Rightarrow> string ticket_route" where
  "prompt_ticket te auth key prompt title description =
     route_then (authorize_description_session auth key) (\<lambda>_.
     route_then (refuse_when (trim prompt = []) 400 ''Prompt must not be empty'') (\<lambda>_.
     route_then (refuse_when (length prompt > MAX_PROMPT_LEN) 413 (length_message ''Prompt'' prompt MAX_PROMPT_LEN)) (\<lambda>_.
     route_then (refuse_when (length description > MAX_IMPROVE_DESCRIPTION_LEN) 413
         (length_message ''Ticket description'' description MAX_IMPROVE_DESCRIPTION_LEN)) (\<lambda>_.
     run_description_session te key (au_user_id auth) (prompt @ ticket_line key title description)
       (Some PROMPT_SYSTEM_PROMPT)))))"

subsection \<open>Saving\<close>

definition lookup_repo :: "(repo_tables \<Rightarrow> repository_row option) \<Rightarrow> engine \<Rightarrow> repository_row option \<times> engine" where
  "lookup_repo q e = (case next_io e of (ok, e1) \<Rightarrow> (if ok then q (eng_repos e1) else None, e1))"

fun first_repo :: "(repo_tables \<Rightarrow> repository_row option) list \<Rightarrow> string \<Rightarrow> engine \<Rightarrow> string \<times> engine" where
  "first_repo [] fallback e = (fallback, e)"
| "first_repo (q # qs) fallback e =
     (case lookup_repo q e of (Some r, e1) \<Rightarrow> (rp_local_path r, e1) | (None, e1) \<Rightarrow> first_repo qs fallback e1)"

text \<open>The directory of the item's repository; of the named one, when there is no item.\<close>

definition resolve_workflow_repo_path :: "env \<Rightarrow> string \<Rightarrow> string option \<Rightarrow> engine \<Rightarrow> string \<times> engine" where
  "resolve_workflow_repo_path env key hint e =
     (let (repo_id, ws) = (case wf_get e key of
            Some w \<Rightarrow> (wf_repository_id w, wf_workspace_name w) | None \<Rightarrow> (None, []));
          named_repo = (\<lambda>n. if n = [] then [] else [\<lambda>t. repositories_get_by_name t n])
      in if eng_db e = None then (env_repo_path env, e)
         else first_repo ((case repo_id of Some i \<Rightarrow> [\<lambda>t. repositories_get t i] | None \<Rightarrow> []) @ named_repo ws @
           (case hint of Some n \<Rightarrow> named_repo n | None \<Rightarrow> [])) (env_repo_path env) e)"

definition resolve_remote_url :: "string \<Rightarrow> string \<Rightarrow> jira_world \<Rightarrow> (string + string) \<times> jira_world" where
  "resolve_remote_url repo_path remote w =
     (case start_process ''git'' [''remote'', ''get-url'', remote] w of
        (Inl m, w') \<Rightarrow> (Inl m, w')
      | (Inr out, w') \<Rightarrow>
          let bad = (\<lambda>m. Inl (''git remote get-url: remote '' @ quoted remote @ '' in '' @ repo_path @ m)) in
          (if co_exit_code out \<noteq> 0 then bad ('': '' @ trim (co_stderr out))
           else if trim (co_stdout out) = [] then bad '' returned an empty URL''
           else Inr (trim (co_stdout out)), w'))"

definition github_token_app_then_pat ::
  "vault_env \<Rightarrow> string option \<Rightarrow> string option \<Rightarrow> git_action \<Rightarrow> vault_tables store \<Rightarrow> string option \<times> vault_tables store" where
  "github_token_app_then_pat env app_token user action s =
     (case (app_token, user) of
        (Some t, _) \<Rightarrow> (Some t, s)
      | (None, Some u) \<Rightarrow>
          if ve_has_db env
          then (case token_for env action u s of (Inr t, s1) \<Rightarrow> (Some (gt_bearer t), s1) | (Inl _, s1) \<Rightarrow> (None, s1))
          else (None, s)
      | (None, None) \<Rightarrow> (None, s))"

definition get_gh_installation_token :: "vault_env \<Rightarrow> vault_tables store \<Rightarrow> string option \<times> vault_tables store" where
  "get_gh_installation_token env s =
     (case ve_app env of
        None \<Rightarrow> (None, s)
      | Some app \<Rightarrow>
          (case ga_installation_token app (st_ticks s) of Inr t \<Rightarrow> Some t | Inl _ \<Rightarrow> None, s\<lparr>st_ticks := Suc (st_ticks s)\<rparr>))"

record update_body =
  ub_description :: string
  ub_summary :: "string option"
  ub_repository :: "string option"

definition edited :: "update_body \<Rightarrow> workflow \<Rightarrow> workflow" where
  "edited b w = w\<lparr>wf_ticket_description := ub_description b,
     wf_ticket_summary := (case ub_summary b of Some t \<Rightarrow> t | None \<Rightarrow> wf_ticket_summary w)\<rparr>"

definition gh_edit_args :: "string \<Rightarrow> nat \<Rightarrow> update_body \<Rightarrow> string list" where
  "gh_edit_args owner_repo n b =
     [''api'', ''--method'', ''PATCH'', ''repos/'' @ owner_repo @ ''/issues/'' @ show_nat n,
      ''--raw-field'', ''body='' @ ub_description b] @
     (case ub_summary b of Some t \<Rightarrow> [''--raw-field'', ''title='' @ t] | None \<Rightarrow> [])"

definition run_gh_edit :: "nat \<Rightarrow> string list \<Rightarrow> (string \<times> string) list \<Rightarrow> jira_world \<Rightarrow> (route_error + unit) \<times> jira_world" where
  "run_gh_edit n args added w =
     (case start_with_env ''gh'' args added w of
        (Inl m, w') \<Rightarrow> (Inl (PlainError 500 m), w')
      | (Inr out, w') \<Rightarrow>
          (if co_exit_code out = 0 then Inr ()
           else Inl (PlainError 502 (''gh api PATCH issues/'' @ show_nat n @ '' failed: '' @ trim (co_stderr out))), w'))"

definition update_on_github :: "ticket_env \<Rightarrow> authenticated_user \<Rightarrow> string \<Rightarrow> string \<Rightarrow> update_body \<Rightarrow> unit ticket_route" where
  "update_on_github te auth key repo_path b =
     route_then (on_world (\<lambda>w. apfst (map_sum (\<lambda>m. PlainError 400 (''Cannot resolve git remote URL: '' @ m)) id)
         (resolve_remote_url repo_path (dc_git_remote (te_config te)) w))) (\<lambda>url.
     route_then (route_result (case parse_github_repo url of
         Some r \<Rightarrow> Inr r
       | None \<Rightarrow> Inl (PlainError 400 (''Cannot parse GitHub owner/repo from git remote URL: '' @ te_debug te url)))) (\<lambda>owner_repo.
     route_then (route_result (case Option.bind (strip_prefix ''GH-'' key) parse_u64 of
         Some n \<Rightarrow> Inr n
       | None \<Rightarrow> Inl (PlainError 400 (''Cannot parse GitHub issue number from key: '' @ te_debug te key)))) (\<lambda>n.
     route_then (on_vault (get_gh_installation_token (te_vault te))) (\<lambda>app_token.
     route_then (on_vault (github_token_app_then_pat (te_vault te) app_token (Some (au_user_id auth)) IssueComment)) (\<lambda>token.
     route_then (on_world (run_gh_edit n (gh_edit_args owner_repo n b)
         (case token of Some t \<Rightarrow> [(''GH_TOKEN'', t)] | None \<Rightarrow> []))) (\<lambda>_.
     set_and_sync (te_engine te) key (edited b)))))))"

definition update_on_jira :: "ticket_env \<Rightarrow> authenticated_user \<Rightarrow> string \<Rightarrow> update_body \<Rightarrow> unit ticket_route" where
  "update_on_jira te auth key b =
     route_then (jira_for te (au_user_id auth)
       (\<lambda>cred. rest_update_description (te_vault te) cred key (ub_description b))
       (acli_update_description key (ub_description b))) (\<lambda>_.
     set_and_sync (te_engine te) key (edited b))"

definition update_on_dashboard :: "ticket_env \<Rightarrow> string \<Rightarrow> update_body \<Rightarrow> unit ticket_route" where
  "update_on_dashboard te key b =
     route_then (on_engine (\<lambda>e. (wf_get e key, e))) (\<lambda>item.
     route_then (refuse_when (item = None) 404 []) (\<lambda>_. set_and_sync (te_engine te) key (edited b)))"

definition update_ticket_description ::
  "ticket_env \<Rightarrow> authenticated_user \<Rightarrow> string \<Rightarrow> update_body \<Rightarrow> unit ticket_route" where
  "update_ticket_description te auth key b =
     route_then (authorize_description_session auth key) (\<lambda>_.
     route_then (on_engine (resolve_workflow_repo_path (te_engine te) key (ub_repository b))) (\<lambda>repo_path.
       case env_ticketing_system (te_engine te) of
         TicketingNone \<Rightarrow> update_on_dashboard te key b
       | GitHub \<Rightarrow> update_on_github te auth key repo_path b
       | Jira \<Rightarrow> update_on_jira te auth key b))"

end
