(* ===== verification/Ticket_Routes_Props.thy ===== *)
theory Ticket_Routes_Props
  imports Ticket_Routes Jira_Props Engine_Props
begin

text \<open>
  Who may edit the text of a ticket: of an item on the dashboard its owner only; of a ticket that is on no dashboard,
  anybody, also in a repository that is not theirs.
\<close>

definition belongs_to_other :: "engine \<Rightarrow> string \<Rightarrow> string \<Rightarrow> bool" where
  "belongs_to_other e k user \<longleftrightarrow>
     (case wf_get e k of None \<Rightarrow> False | Some w \<Rightarrow> wf_user_id w \<noteq> Some user) \<and>
     (case eng_db e of
        None \<Rightarrow> True
      | Some db \<Rightarrow> (case get_access_fields_by_ticket_key db k of None \<Rightarrow> True | Some (owner, _, _) \<Rightarrow> owner \<noteq> Some user))"

definition same_texts :: "ticket_site \<Rightarrow> ticket_site \<Rightarrow> bool" where
  "same_texts x x' \<longleftrightarrow> eng_workflows (ts_engine x') = eng_workflows (ts_engine x) \<and> eng_db (ts_engine x') = eng_db (ts_engine x) \<and>
     ts_vault x' = ts_vault x \<and> ts_world x' = ts_world x \<and> ts_runs x' = ts_runs x"

lemma next_io_keeps: "next_io e = (ok, e') \<Longrightarrow> eng_workflows e' = eng_workflows e \<and> eng_db e' = eng_db e"
  by (auto simp: next_io_def split: list.splits)

lemma db_read_same:
  "db_read q e = (r, e') \<Longrightarrow> eng_workflows e' = eng_workflows e \<and> eng_db e' = eng_db e \<and>
     (r = Inl SqlError \<or> (\<exists>db. eng_db e = Some db \<and> r = q db))"
  by (auto simp: db_read_def db_exec_def split: prod.splits option.splits if_splits dest!: next_io_keeps)

lemma other_kept:
  "eng_workflows e' = eng_workflows e \<Longrightarrow> eng_db e' = eng_db e \<Longrightarrow> belongs_to_other e' k u = belongs_to_other e k u"
  by (simp add: belongs_to_other_def wf_get_def)

lemma exists_other:
  assumes "belongs_to_other e k u" and "workflow_exists k e = (b, e')"
  shows "b \<and> eng_workflows e' = eng_workflows e \<and> eng_db e' = eng_db e"
proof (cases "eng_db e")
  case None
  then show ?thesis using assms by (auto simp: workflow_exists_def belongs_to_other_def split: option.splits)
next
  case (Some db)
  obtain r e1 where r: "db_read (\<lambda>db. Inr (get_access_fields_by_ticket_key db k)) e = (r, e1)" by fastforce
  have "wf_get e1 k \<noteq> None" using db_read_same [OF r] assms(1) by (auto simp: belongs_to_other_def wf_get_def split: option.splits)
  then show ?thesis using Some r db_read_same [OF r] assms(2)
    by (auto simp: workflow_exists_def split: sum.splits option.splits)
qed

lemma access_other:
  assumes "belongs_to_other e k (au_user_id auth)" and "require_workflow_access auth k e = (r, e')"
  shows "(r = Inl NOT_FOUND_404 \<or> r = Inl INTERNAL_SERVER_ERROR_500) \<and> eng_workflows e' = eng_workflows e \<and> eng_db e' = eng_db e"
proof (cases "eng_db e")
  case None
  then show ?thesis using assms by (auto simp: require_workflow_access_def cached_access_def belongs_to_other_def split: option.splits)
next
  case (Some db)
  obtain q e1 where q: "db_read (\<lambda>db. Inr (get_access_fields_by_ticket_key db k)) e = (q, e1)" by fastforce
  note k = db_read_same [OF q]
  have o: "belongs_to_other e1 k (au_user_id auth)" using other_kept [of e1 e] k assms(1) by blast
  show ?thesis using Some q k o assms
    by (auto simp: require_workflow_access_def cached_access_def belongs_to_other_def split: sum.splits option.splits if_splits prod.splits)
qed

lemma authorize_other:
  assumes "belongs_to_other (ts_engine x) k (au_user_id auth)"
  obtains st x' where "authorize_description_session auth k x = (Inl (PlainError st []), x')" "st \<in> {404, 500}" "same_texts x x'"
proof -
  obtain b e1 where b: "workflow_exists k (ts_engine x) = (b, e1)" by fastforce
  note kept = exists_other [OF assms b]
  obtain r e2 where r: "require_workflow_access auth k e1 = (r, e2)" by fastforce
  have o: "belongs_to_other e1 k (au_user_id auth)" using other_kept [of e1 "ts_engine x"] kept assms by blast
  note res = access_other [OF o r]
  show ?thesis
    using that [of 404 "x\<lparr>ts_engine := e2\<rparr>"] that [of 500 "x\<lparr>ts_engine := e2\<rparr>"] b kept r res
    by (auto simp: authorize_description_session_def on_engine_or_def same_texts_def)
qed

lemma refused_routes:
  assumes "authorize_description_session auth key x = (Inl bad, x')"
  shows "improve_ticket te auth key description summary extra x = (Inl bad, x')"
    "prompt_ticket te auth key prompt title description x = (Inl bad, x')"
    "update_ticket_description te auth key b x = (Inl bad, x')"
  using assms by (simp_all add: improve_ticket_def prompt_ticket_def update_ticket_description_def route_then_def)


text \<open>A server with a GitHub App and one repository, which is on nobody's dashboard.\<close>

definition sample_ticket_env :: ticket_env where
  "sample_ticket_env = \<lparr>te_engine = sample_env\<lparr>env_ticketing_system := GitHub\<rparr>,
     te_vault = sample_vault_env\<lparr>ve_app := Some \<lparr>ga_app_id = 1, ga_installation_token = (\<lambda>_. Inr ''app'')\<rparr>\<rparr>,
     te_config = \<lparr>dc_provider = Claude, dc_claude_model = [], dc_cursor_cli = [], dc_cursor_model = [], dc_codex_model = [],
       dc_opencode_model = [], dc_improve_timeout = 60, dc_git_remote = ''origin''\<rparr>,
     te_agent = (\<lambda>_ _. Inr (''s'', ''done'')), te_debug = (\<lambda>s. s)\<rparr>"

definition sample_git_output :: "string \<Rightarrow> string + command_output" where
  "sample_git_output s = Inr \<lparr>co_exit_code = 0, co_stdout = s, co_stderr = []\<rparr>"

definition sample_repo :: repository_row where
  "sample_repo = \<lparr>rp_id = ''1'', rp_name = ''r'', rp_repo_url = None, rp_local_path = ''/r'', rp_default_branch = ''main'',
     rp_created_at = 0, rp_created_by = None\<rparr>"

definition sample_site :: ticket_site where
  "sample_site = \<lparr>ts_engine = sample_engine\<lparr>eng_repos := \<lparr>rt_repos = [sample_repo], rt_links = []\<rparr>\<rparr>,
     ts_vault = sample_vault,
     ts_world = \<lparr>jw_answers = [sample_git_output ''https://github.com/o/r'', sample_git_output []], jw_started = [],
       jw_environments = []\<rparr>, ts_runs = []\<rparr>"

definition sample_edit :: update_body where
  "sample_edit = \<lparr>ub_description = ''new'', ub_summary = None, ub_repository = Some ''r''\<rparr>"

lemma sample_rows_unowned: "\<forall>r \<in> set (db_items sample_store). wi_user_id r = None"
  by (simp add: sample_store_def sample_defs empty_db_def encode_work_item_def to_work_item_row_def split: prod.split)

lemma sample_access_unowned:
  assumes "get_access_fields_by_ticket_key sample_store k = Some (user, repo, ws)"
  shows "user = None"
  using assms sample_rows_unowned by (auto simp: get_access_fields_by_ticket_key_def dest: latest_Some)


subsection \<open>A ticket on no dashboard\<close>

lemma free_ticket_allowed:
  assumes "eng_io (ts_engine x) = []" and "wf_get (ts_engine x) key = None"
    and "\<And>db. eng_db (ts_engine x) = Some db \<Longrightarrow> get_access_fields_by_ticket_key db key = None"
  shows "authorize_description_session auth key x = (Inr (), x)"
proof -
  have "workflow_exists key (ts_engine x) = (False, ts_engine x)"
    using assms by (auto simp: workflow_exists_def db_read_def db_exec_def next_io_def split: option.split)
  then show ?thesis by (simp add: authorize_description_session_def on_engine_or_def)
qed

lemma free_ticket_repo:
  assumes "eng_io e = []" and "wf_get e key = None" and "eng_db e \<noteq> None" and "repo \<noteq> []"
    and "repositories_get_by_name (eng_repos e) repo = Some row"
  shows "resolve_workflow_repo_path env key (Some repo) e = (rp_local_path row, e)"
  using assms by (cases "eng_db e") (simp_all add: resolve_workflow_repo_path_def lookup_repo_def next_io_def Let_def)

text \<open>
  C20: with a GitHub App configured, every user can replace title and text of every issue that is on no dashboard in
  every repository the server knows, by naming the repository in the request: the edit is made with the token of the
  App, whoever asks, and whether or not the repository is on that user's dashboard.
\<close>
theorem anybody_edits_unlisted_issues:
  assumes "eng_io (ts_engine x) = []" and "eng_db (ts_engine x) = Some db"
    and "get_access_fields_by_ticket_key db key = None" and "wf_get (ts_engine x) key = None"
    and "env_ticketing_system (te_engine te) = GitHub" and "strip_prefix ''GH-'' key = Some digits" and "parse_u64 digits = Some n"
    and "ub_repository b = Some repo" and "repo \<noteq> []" and "repositories_get_by_name (eng_repos (ts_engine x)) repo = Some row"
    and "jw_answers (ts_world x) = [Inr url, Inr edit]" and "co_exit_code url = 0" and "trim (co_stdout url) \<noteq> []"
    and "parse_github_repo (trim (co_stdout url)) = Some owner_repo" and "co_exit_code edit = 0"
    and "ve_app (te_vault te) = Some app" and "ga_installation_token app (st_ticks (ts_vault x)) = Inr token"
  shows "case update_ticket_description te auth key b x of (r, x') \<Rightarrow>
     r = Inr () \<and>
     jw_started (ts_world x') = jw_started (ts_world x) @ [(''git'', [''remote'', ''get-url'', dc_git_remote (te_config te)]),
       (''gh'', gh_edit_args owner_repo n b)] \<and>
     jw_environments (ts_world x') = jw_environments (ts_world x) @ [[], [(''GH_TOKEN'', token)]]"
proof -
  have "authorize_description_session auth key x = (Inr (), x)" using assms by (intro free_ticket_allowed) auto
  moreover have "resolve_workflow_repo_path (te_engine te) key (Some repo) (ts_engine x) = (rp_local_path row, ts_engine x)"
    using assms by (intro free_ticket_repo) auto
  ultimately show ?thesis
    using assms by (simp add: update_ticket_description_def route_then_def on_engine_def update_on_github_def on_world_def
        resolve_remote_url_def start_process_def start_with_env_def Let_def route_result_def on_vault_def
        get_gh_installation_token_def github_token_app_then_pat_def run_gh_edit_def set_and_sync_def split: prod.split)
qed

lemma anybody_edits_unlisted_issues_witness:
  "jw_environments (ts_world (snd (update_ticket_description sample_ticket_env sample_user ''GH-7'' sample_edit sample_site))) =
     [[], [(''GH_TOKEN'', ''app'')]]"
proof -
  let ?e = "ts_engine sample_site" and ?w = "ts_world sample_site"
  have "eng_io ?e = []" "eng_db ?e = Some sample_store" "wf_get ?e ''GH-7'' = None"
    by (simp_all add: sample_site_def sample_defs wf_get_def)
  moreover have "get_access_fields_by_ticket_key sample_store ''GH-7'' = None"
    by (simp add: sample_store_def sample_defs get_access_fields_by_ticket_key_def empty_db_def encode_work_item_def
        to_work_item_row_def split: prod.split)
  moreover have "env_ticketing_system (te_engine sample_ticket_env) = GitHub"
    "ve_app (te_vault sample_ticket_env) = Some \<lparr>ga_app_id = 1, ga_installation_token = (\<lambda>_. Inr ''app'')\<rparr>"
    by (simp_all add: sample_ticket_env_def)
  moreover have "strip_prefix ''GH-'' ''GH-7'' = Some ''7''" by code_simp
  moreover have "parse_u64 ''7'' = Some 7" by (simp add: parse_u64_def is_ascii_digit_def)
  moreover have "ub_repository sample_edit = Some ''r''" "repositories_get_by_name (eng_repos ?e) ''r'' = Some sample_repo"
    by (simp_all add: sample_edit_def sample_site_def repositories_get_by_name_def sample_repo_def)
  moreover have "jw_answers ?w = [Inr \<lparr>co_exit_code = 0, co_stdout = ''https://github.com/o/r'', co_stderr = []\<rparr>,
      Inr \<lparr>co_exit_code = 0, co_stdout = [], co_stderr = []\<rparr>]"
    by (simp add: sample_site_def sample_git_output_def)
  moreover have "trim ''https://github.com/o/r'' \<noteq> []" "parse_github_repo (trim ''https://github.com/o/r'') = Some ''o/r''"
    by code_simp+
  ultimately show ?thesis
    using anybody_edits_unlisted_issues [where te = sample_ticket_env and x = sample_site and b = sample_edit and key = "''GH-7''"
        and auth = sample_user and db = sample_store and digits = "''7''" and n = 7 and repo = "''r''" and row = sample_repo
        and owner_repo = "''o/r''" and token = "''app''"]
    by (simp add: case_prod_beta sample_site_def)
qed

end
