(* ===== verification/Repository_Routes.thy ===== *)
theory Repository_Routes
  imports Ticket_Routes Repositories_Db Snapshot_Store Git_Names
begin

text \<open>
  \<open>routes/repositories.rs\<close> with the helpers of \<open>routes/repos.rs\<close>, and the start-up pass of \<open>repo_reconcile.rs\<close>: the
  repositories of a user, cloning one, removing one, and what the clones on disk and the snapshots add to the registry.
  The state is that of the ticket routes with the disk under \<open>/workspaces\<close>, the lock of the one clone at a time and the
  directories whose removal was asked for. What git does to the disk is a parameter.
\<close>

subsection \<open>State\<close>

record repo_disk =
  rd_exists :: "string \<Rightarrow> bool"
  rd_config :: "string \<Rightarrow> string option"

record repo_route_env =
  re_ticket :: ticket_env
  re_new_id :: "nat \<Rightarrow> string"
  re_has_data_dir :: bool
  re_git :: "string \<times> string list \<Rightarrow> repo_disk \<Rightarrow> repo_disk"
  re_remove_dir :: "string \<Rightarrow> repo_disk \<Rightarrow> repo_disk"
  re_lossy :: "string \<Rightarrow> string"

record repo_site =
  rs_ticket :: ticket_site
  rs_disk :: repo_disk
  rs_cloning :: bool
  rs_removals :: "string list"

type_synonym 'a repo_route = "repo_site \<Rightarrow> (route_error + 'a) \<times> repo_site"

definition on_ticket :: "'a ticket_route \<Rightarrow> 'a repo_route" where
  "on_ticket c x = (case c (rs_ticket x) of (r, t) \<Rightarrow> (r, x\<lparr>rs_ticket := t\<rparr>))"

definition site_repos :: "repo_site \<Rightarrow> repo_tables" where
  "site_repos x = eng_repos (ts_engine (rs_ticket x))"

abbreviation repo_engine_env :: "repo_route_env \<Rightarrow> env" where
  "repo_engine_env env \<equiv> te_engine (re_ticket env)"

subsection \<open>Statements\<close>

definition known_users :: "engine \<Rightarrow> string set" where
  "known_users e = (case eng_db e of Some db \<Rightarrow> db_users db | None \<Rightarrow> {})"

text \<open>A statement on the registry; its failure, or an error of it, is a 500.\<close>

definition repo_statement ::
  "env \<Rightarrow> (string set \<Rightarrow> repo_tables \<Rightarrow> (db_error + 'a) \<times> repo_tables) \<Rightarrow> engine \<Rightarrow> (route_error + 'a) \<times> engine" where
  "repo_statement env f e =
     (case next_io e of (ok, e1) \<Rightarrow>
        case (if ok then f (known_users e1) (eng_repos e1) else (Inl SqlError, eng_repos e1)) of (r, t) \<Rightarrow>
          (map_sum (\<lambda>bad. PlainError 500 (env_db_message env bad)) id r, e1\<lparr>eng_repos := t\<rparr>))"

definition repo_stmt ::
  "repo_route_env \<Rightarrow> (string set \<Rightarrow> repo_tables \<Rightarrow> (db_error + 'a) \<times> repo_tables) \<Rightarrow> 'a repo_route" where
  "repo_stmt env f = on_ticket (on_engine_or (repo_statement (repo_engine_env env) f))"

definition repo_query :: "repo_route_env \<Rightarrow> (repo_tables \<Rightarrow> 'a) \<Rightarrow> 'a repo_route" where
  "repo_query env q = repo_stmt env (\<lambda>_ t. (Inr (q t), t))"

text \<open>The number of the reading of the clock, and the seconds it gives.\<close>

definition read_clock :: "repo_route_env \<Rightarrow> (nat \<times> int) repo_route" where
  "read_clock env = on_ticket (on_engine (\<lambda>e.
     case tick (repo_engine_env env) e of (t, e1) \<Rightarrow> ((eng_ticks e, timestamp t), e1)))"

definition require_db :: "unit repo_route" where
  "require_db x = refuse_when (eng_db (ts_engine (rs_ticket x)) = None) 503 ''database unavailable'' x"

definition link_repo :: "repo_route_env \<Rightarrow> string \<Rightarrow> string \<Rightarrow> bool repo_route" where
  "link_repo env user i = route_then (read_clock env) (\<lambda>(_, now). repo_stmt env (\<lambda>users. add_for_user users now user i))"

definition find_repo :: "repo_route_env \<Rightarrow> string \<Rightarrow> repository_row option repo_route" where
  "find_repo env i = repo_query env (\<lambda>t. repositories_get t i)"

subsection \<open>Addresses\<close>

definition MAX_URL_LEN :: nat where "MAX_URL_LEN = 2048"
definition GITHUB_PREFIX :: string where "GITHUB_PREFIX = ''https://github.com/''"
definition WORKSPACES_DIR :: string where "WORKSPACES_DIR = ''/workspaces''"

definition is_valid_segment_char :: "char \<Rightarrow> bool" where
  "is_valid_segment_char c \<longleftrightarrow> is_ascii_alphanumeric c \<or> c \<in> set ''._-''"

definition validate_repo_url :: "string \<Rightarrow> string + (string \<times> string)" where
  "validate_repo_url url =
     (if url = [] then Inl ''repo_url cannot be empty''
      else if length url > MAX_URL_LEN then Inl (''repo_url exceeds '' @ show_nat MAX_URL_LEN @ '' characters'')
      else if CHR ''@'' \<in> set url then Inl ''repo_url must not contain credentials''
      else if CHR ''?'' \<in> set url \<or> CHR ''#'' \<in> set url then Inl ''repo_url must not contain query strings or fragments''
      else if str_contains ''..'' url then Inl (''repo_url must not contain '' @ [CHR 0x60] @ ''..'' @ [CHR 0x60] @ '' path segments'')
      else case strip_prefix GITHUB_PREFIX url of
        None \<Rightarrow> Inl ''repo_url must be of the form https://github.com/owner/repo''
      | Some rest \<Rightarrow>
          (case split_on (CHR ''/'') rest of
             [owner, name] \<Rightarrow>
               if owner = [] then Inl ''repo_url path segments must be non-empty''
               else if \<not> list_all is_valid_segment_char owner then Inl ''repo_url path segments may contain only [A-Za-z0-9._-]''
               else if name = [] then Inl ''repo_url path segments must be non-empty''
               else if \<not> list_all is_valid_segment_char name then Inl ''repo_url path segments may contain only [A-Za-z0-9._-]''
               else let repo = trim_end_matches ''.git'' name in
                 if repo = [] then Inl (''repo segment must be non-empty after stripping '' @ [CHR 0x60] @ ''.git'' @ [CHR 0x60])
                 else Inr (owner, repo)
           | _ \<Rightarrow> Inl ''repo_url must have exactly owner/repo after the host''))"

text \<open>The first of the base name and its numbered variants that is not there; the base name when all are.\<close>

definition clone_candidates :: "string \<Rightarrow> string list" where
  "clone_candidates base =
     List.map (path_join WORKSPACES_DIR) (base # List.map (\<lambda>n. base @ ''-'' @ show_nat n) [2..<1000])"

definition pick_clone_target :: "string \<Rightarrow> repo_disk \<Rightarrow> string" where
  "pick_clone_target base disk =
     (case List.find (\<lambda>p. \<not> rd_exists disk p) (clone_candidates base) of
        Some p \<Rightarrow> p | None \<Rightarrow> path_join WORKSPACES_DIR base)"

definition normalize_github_url :: "string \<Rightarrow> string" where
  "normalize_github_url url =
     (case strip_prefix ''git@github.com:'' url of
        Some path \<Rightarrow> GITHUB_PREFIX @ trim_end_matches ''.git'' path
      | None \<Rightarrow>
          (case strip_prefix ''ssh://git@github.com/'' url of
             Some path \<Rightarrow> GITHUB_PREFIX @ trim_end_matches ''.git'' path
           | None \<Rightarrow> trim_end_matches ''.git'' url))"

text \<open>The address of the section \<open>[remote "origin"]\<close> of a configuration of git.\<close>

definition origin_section :: string where
  "origin_section = ''[remote '' @ in_quotes ''origin'' @ '']''"

fun origin_url :: "bool \<Rightarrow> string list \<Rightarrow> string option" where
  "origin_url in_origin [] = None"
| "origin_url in_origin (l # ls) =
     (let t = trim l in
      if t = origin_section then origin_url True ls
      else if \<not> in_origin then origin_url False ls
      else if starts_with ''['' t then None
      else (case strip_prefix ''url ='' t of
              Some rest \<Rightarrow> Some (normalize_github_url (trim rest))
            | None \<Rightarrow> origin_url True ls))"

definition read_git_remote_url :: "repo_disk \<Rightarrow> string \<Rightarrow> string option" where
  "read_git_remote_url disk path = Option.bind (rd_config disk path) (\<lambda>c. origin_url False (lines c))"

definition sanitize_clone_error :: "case_tables \<Rightarrow> string \<Rightarrow> string" where
  "sanitize_clone_error tables msg =
     join [newline] (filter (\<lambda>l. let lower = to_lowercase tables l in
        \<not> str_contains ''password'' lower \<and> \<not> str_contains ''token'' lower \<and> \<not> str_contains ''credential'' lower) (lines msg))"

subsection \<open>Processes\<close>

text \<open>A process may change the disk; an answer that is not there is a failure to start it, or the end of its time.\<close>

definition run_on_disk ::
  "repo_route_env \<Rightarrow> string \<Rightarrow> string list \<Rightarrow> (string \<times> string) list \<Rightarrow> (string + command_output) repo_route" where
  "run_on_disk env program args added x =
     (case start_with_env program args added (ts_world (rs_ticket x)) of (r, w) \<Rightarrow>
        (Inr r, x\<lparr>rs_ticket := (rs_ticket x)\<lparr>ts_world := w\<rparr>, rs_disk := re_git env (program, args) (rs_disk x)\<rparr>))"

definition branch_of :: "string \<Rightarrow> string option" where
  "branch_of printed = strip_prefix ''refs/remotes/origin/'' (trim printed)"

definition read_default_branch :: "repo_route_env \<Rightarrow> string option repo_route" where
  "read_default_branch env = route_then (run_on_disk env ''git'' [''symbolic-ref'', ''refs/remotes/origin/HEAD''] [])
     (\<lambda>r. route_result (Inr (case r of
        Inl _ \<Rightarrow> None
      | Inr out \<Rightarrow> if co_exit_code out \<noteq> 0 then None else branch_of (re_lossy env (co_stdout out)))))"

definition credential_helper :: string where
  "credential_helper = ''!f() { echo protocol=https; echo host=github.com; echo username=x-access-token; echo '' @
     in_quotes ''password=$GH_TOKEN'' @ ''; }; f''"

text \<open>The token of a clone: the resolver's when there is a database, otherwise the App's, if there is one.\<close>

definition clone_token :: "repo_route_env \<Rightarrow> string \<Rightarrow> (string + string option) repo_route" where
  "clone_token env user = on_ticket (on_vault (\<lambda>s.
     let venv = te_vault (re_ticket env) in
     if ve_has_db venv
     then (case token_for venv GitClone user s of
             (Inr t, s1) \<Rightarrow> (Inr (Some (gt_bearer t)), s1)
           | (Inl (UnauthenticatedGit _ _), s1) \<Rightarrow>
               (Inl (''GitHub authentication unavailable for this user '' @ em_dash @
                  '' paste a PAT in My Credentials or configure a GitHub App.''), s1)
           | (Inl bad, s1) \<Rightarrow> (Inl (''token resolution failed: '' @ git_auth_error_text bad), s1))
     else apfst Inr (get_gh_installation_token venv s)))"

definition clone_command :: "string \<Rightarrow> string \<Rightarrow> string option \<Rightarrow> string \<times> string list \<times> (string \<times> string) list" where
  "clone_command full_name target token =
     (case token of
        Some t \<Rightarrow> (''git'', [''-c'', ''credential.helper='' @ credential_helper, ''clone'', GITHUB_PREFIX @ full_name @ ''.git'', target],
          [(''GH_TOKEN'', t)])
      | None \<Rightarrow> (''gh'', [''repo'', ''clone'', full_name, target], []))"

text \<open>\<open>Inl\<close>: what went wrong. The registration as a safe directory is tried once the clone is there.\<close>

definition do_clone :: "repo_route_env \<Rightarrow> string \<Rightarrow> string \<Rightarrow> string \<Rightarrow> (string + unit) repo_route" where
  "do_clone env full_name target user =
     route_then (clone_token env user) (\<lambda>token. case token of
       Inl m \<Rightarrow> route_result (Inr (Inl m))
     | Inr t \<Rightarrow>
         (case clone_command full_name target t of (program, args, added) \<Rightarrow>
          route_then (run_on_disk env program args added) (\<lambda>r. case r of
            Inl m \<Rightarrow> route_result (Inr (Inl m))
          | Inr out \<Rightarrow>
              if co_exit_code out \<noteq> 0
              then route_result (Inr (Inl ((if t = None then ''gh repo clone'' else ''git clone'') @ '' failed: '' @ trim (co_stderr out))))
              else route_then (run_on_disk env ''git'' [''config'', ''--global'', ''--add'', ''safe.directory'', target] [])
                (\<lambda>_. route_result (Inr (Inr ()))))))"

subsection \<open>Listing\<close>

record repository_dto =
  rd_id :: string
  rd_name :: string
  rd_repo_url :: "string option"
  rd_local_path :: string
  rd_default_branch :: string
  rd_added_at :: "int option"
  rd_co_users_count :: "int option"

definition row_to_dto :: "repository_row \<Rightarrow> int option \<Rightarrow> int option \<Rightarrow> repository_dto" where
  "row_to_dto r added_at co_users =
     \<lparr>rd_id = rp_id r, rd_name = rp_name r, rd_repo_url = rp_repo_url r, rd_local_path = rp_local_path r,
      rd_default_branch = rp_default_branch r, rd_added_at = added_at, rd_co_users_count = co_users\<rparr>"

definition added_at_of :: "string \<Rightarrow> string \<Rightarrow> repo_tables \<Rightarrow> int" where
  "added_at_of user i t =
     (case List.find (\<lambda>l. ur_user_id l = user \<and> ur_repository_id l = i) (rt_links t) of
        Some l \<Rightarrow> ur_added_at l | None \<Rightarrow> 0)"

definition users_of :: "string \<Rightarrow> repo_tables \<Rightarrow> string list" where
  "users_of i t = List.map ur_user_id (filter (\<lambda>l. ur_repository_id l = i) (rt_links t))"

definition with_counts :: "repo_route_env \<Rightarrow> string \<Rightarrow> repository_row \<Rightarrow> repository_dto repo_route" where
  "with_counts env user row =
     route_then (repo_query env (added_at_of user (rp_id row))) (\<lambda>added_at.
     route_then (repo_query env (\<lambda>t. int (length (users_of (rp_id row) t)))) (\<lambda>total.
     route_result (Inr (row_to_dto row (Some added_at) (Some (max 0 (total - 1)))))))"

fun for_rows :: "('r \<Rightarrow> 'a repo_route) \<Rightarrow> 'r list \<Rightarrow> 'a list repo_route" where
  "for_rows f [] = route_result (Inr [])"
| "for_rows f (r # rs) = route_then (f r) (\<lambda>y. route_then (for_rows f rs) (\<lambda>ys. route_result (Inr (y # ys))))"

definition list_mine :: "repo_route_env \<Rightarrow> authenticated_user \<Rightarrow> repository_dto list repo_route" where
  "list_mine env auth =
     route_then require_db (\<lambda>_.
     route_then (repo_query env (\<lambda>t. list_for_user t (au_user_id auth))) (for_rows (with_counts env (au_user_id auth))))"

definition list_available :: "repo_route_env \<Rightarrow> authenticated_user \<Rightarrow> repository_dto list repo_route" where
  "list_available env auth =
     route_then require_db (\<lambda>_.
     route_then (repo_query env (\<lambda>t. list_available_for_user t (au_user_id auth))) (\<lambda>rows.
     route_result (Inr (List.map (\<lambda>r. row_to_dto r None None) rows))))"

text \<open>Which of them GitHub still shows: only a clear refusal counts.\<close>

definition classify_repo_access :: "case_tables \<Rightarrow> bool \<Rightarrow> string \<Rightarrow> bool option" where
  "classify_repo_access tables success stderr_text =
     (if success then Some True
      else let s = to_lowercase tables stderr_text in
        if str_contains ''404'' s \<or> str_contains ''not found'' s \<or> str_contains ''403'' s \<or>
           str_contains ''resource not accessible'' s
        then Some False else None)"

definition gh_env :: "string option \<Rightarrow> (string \<times> string) list" where
  "gh_env token = (case token of Some t \<Rightarrow> [(''GH_TOKEN'', t)] | None \<Rightarrow> [])"

definition repo_accessible :: "repo_route_env \<Rightarrow> string \<Rightarrow> string option \<Rightarrow> bool option repo_route" where
  "repo_accessible env owner_repo token =
     route_then (run_on_disk env ''gh'' [''api'', ''--method'', ''GET'', ''repos/'' @ owner_repo, ''--jq'', ''.id''] (gh_env token))
       (\<lambda>r. route_result (Inr (case r of
          Inl _ \<Rightarrow> None
        | Inr out \<Rightarrow> classify_repo_access (env_case_tables (repo_engine_env env)) (co_exit_code out = 0) (trim (co_stderr out)))))"

definition owner_repo_for :: "repo_route_env \<Rightarrow> repository_row \<Rightarrow> string option repo_route" where
  "owner_repo_for env row =
     (case Option.bind (rp_repo_url row) parse_github_repo of
        Some r \<Rightarrow> route_result (Inr (Some r))
      | None \<Rightarrow> on_ticket (on_world (\<lambda>w.
          case resolve_remote_url (rp_local_path row) ''origin'' w of
            (Inl _, w') \<Rightarrow> (Inr None, w')
          | (Inr url, w') \<Rightarrow> (Inr (parse_github_repo url), w'))))"

definition app_or_user_token :: "repo_route_env \<Rightarrow> string \<Rightarrow> (bool \<times> string option) repo_route" where
  "app_or_user_token env user = on_ticket (
     route_then (on_vault (get_gh_installation_token (te_vault (re_ticket env)))) (\<lambda>app_token.
     route_then (on_vault (github_token_app_then_pat (te_vault (re_ticket env)) app_token (Some user) GitClone)) (\<lambda>token.
     route_result (Inr (app_token \<noteq> None, token)))))"

definition repo_is_accessible :: "repo_route_env \<Rightarrow> string \<Rightarrow> repository_row \<Rightarrow> bool repo_route" where
  "repo_is_accessible env user row =
     route_then (owner_repo_for env row) (\<lambda>found. case found of
       None \<Rightarrow> route_result (Inr True)
     | Some owner_repo \<Rightarrow>
         route_then (app_or_user_token env user) (\<lambda>(_, token).
         route_then (repo_accessible env owner_repo token) (\<lambda>a. route_result (Inr (a \<noteq> Some False)))))"

definition list_access :: "repo_route_env \<Rightarrow> authenticated_user \<Rightarrow> (string \<times> bool) list repo_route" where
  "list_access env auth =
     route_then require_db (\<lambda>_.
     route_then (repo_query env (\<lambda>t. list_for_user t (au_user_id auth)))
       (for_rows (\<lambda>row. route_then (repo_is_accessible env (au_user_id auth) row)
          (\<lambda>a. route_result (Inr (rp_name row, a))))))"

text \<open>The repositories that GitHub shows to a token.\<close>

record github_repo_row =
  gr_full_name :: string
  gr_description :: string
  gr_private :: bool
  gr_html_url :: string

definition repo_list_args :: "string \<Rightarrow> bool \<Rightarrow> string list" where
  "repo_list_args q is_app =
     (let get = (\<lambda>path wanted. [''api'', path, ''--method'', ''GET''] @ concat (List.map (\<lambda>f. [''--field'', f]) wanted)) in
      if q \<noteq> [] then get ''search/repositories'' [''q='' @ q @ '' in:name'', ''per_page=50'']
      else if is_app then get ''installation/repositories'' [''per_page=100'']
      else get ''user/repos'' [''per_page=100'', ''sort=updated'', ''type=all''])"

definition listed_items :: "json \<Rightarrow> json list" where
  "listed_items v =
     (case as_array v of
        Some xs \<Rightarrow> xs
      | None \<Rightarrow>
          (case Option.bind (json_get ''items'' v) as_array of
             Some xs \<Rightarrow> xs
           | None \<Rightarrow> (case Option.bind (json_get ''repositories'' v) as_array of Some xs \<Rightarrow> xs | None \<Rightarrow> [])))"

definition github_repo_of :: "json \<Rightarrow> github_repo_row option" where
  "github_repo_of v =
     (case (str_at [''full_name''] v, str_at [''html_url''] v) of
        (Some full_name, Some url) \<Rightarrow> Some
          \<lparr>gr_full_name = full_name, gr_description = str_or [] [''description''] v,
           gr_private = (json_get ''private'' v = Some (JBool True)), gr_html_url = url\<rparr>
      | _ \<Rightarrow> None)"

definition list_github_repos :: "repo_route_env \<Rightarrow> authenticated_user \<Rightarrow> string \<Rightarrow> github_repo_row list repo_route" where
  "list_github_repos env auth q =
     route_then (app_or_user_token env (au_user_id auth)) (\<lambda>(is_app, token).
     case token of
       None \<Rightarrow> route_result (Inl (PlainError 502 (''GitHub authentication unavailable '' @ em_dash @
         '' add a personal access token on the GitHub settings tab, or configure a GitHub App.'')))
     | Some t \<Rightarrow>
         route_then (run_on_disk env ''gh'' (repo_list_args q is_app) [(''GH_TOKEN'', t)]) (\<lambda>r.
         route_result (case r of
           Inl m \<Rightarrow> Inl (PlainError 502 (''Failed to list GitHub repos: '' @ m))
         | Inr out \<Rightarrow>
             if co_exit_code out \<noteq> 0
             then Inl (PlainError 502 (''GitHub API error: '' @ gh_api_error_message (trim (co_stderr out)) ''Metadata: Read''))
             else (case parse_json (ve_json (te_vault (re_ticket env))) (trim (co_stdout out)) of
               None \<Rightarrow> Inl (PlainError 502 (''Failed to parse GitHub response: '' @
                 ve_json_error (te_vault (re_ticket env)) (trim (co_stdout out))))
             | Some v \<Rightarrow> Inr (List.map_filter github_repo_of (listed_items v))))))"

subsection \<open>Adding\<close>

definition add_existing :: "repo_route_env \<Rightarrow> string \<Rightarrow> string \<Rightarrow> (nat \<times> repository_dto) repo_route" where
  "add_existing env user i =
     route_then (find_repo env i) (\<lambda>found. case found of
       None \<Rightarrow> route_result (Inl (PlainError 404 ''repository not found''))
     | Some row \<Rightarrow> route_then (link_repo env user (rp_id row)) (\<lambda>_. route_result (Inr (200, row_to_dto row None None))))"

definition clone_failure :: "repo_route_env \<Rightarrow> string \<Rightarrow> string \<Rightarrow> route_error" where
  "clone_failure env full_name m = PlainError 502
     (if str_contains ''Resource not accessible by integration'' m
      then ''GitHub App installation cannot access '' @ full_name @ ''. Ask an admin to grant the App access to the repo.''
      else sanitize_clone_error (env_case_tables (repo_engine_env env)) m)"

text \<open>A clone that is there becomes a row, or finds the one of its path.\<close>

definition register_clone :: "repo_route_env \<Rightarrow> string \<Rightarrow> string \<Rightarrow> string \<Rightarrow> string \<Rightarrow> (nat \<times> repository_dto) repo_route" where
  "register_clone env user name url target =
     route_then (read_default_branch env) (\<lambda>branch.
     route_then (\<lambda>x. (Inr (unwrap_or url (read_git_remote_url (rs_disk x) target)), x)) (\<lambda>actual_url.
     route_then (read_clock env) (\<lambda>(n, now).
     route_then (repo_stmt env (\<lambda>users. repositories_upsert users (re_new_id env n) now name (Some actual_url) target
         (unwrap_or ''main'' branch) (Some user))) (\<lambda>i.
     route_then (link_repo env user i) (\<lambda>_.
     route_then (find_repo env i) (\<lambda>found.
     route_result (case found of
       None \<Rightarrow> Inl (PlainError 500 ''repository row missing immediately after upsert'')
     | Some row \<Rightarrow> Inr (201, row_to_dto row None None))))))))"

definition clone_and_add :: "repo_route_env \<Rightarrow> string \<Rightarrow> string \<Rightarrow> string \<Rightarrow> (nat \<times> repository_dto) repo_route" where
  "clone_and_add env user owner name =
     (let full_name = owner @ ''/'' @ name; url = GITHUB_PREFIX @ full_name in
      route_then (repo_query env (\<lambda>t. List.find (\<lambda>r. rp_repo_url r = Some url) (rt_repos t))) (\<lambda>known. case known of
        Some row \<Rightarrow> route_then (link_repo env user (rp_id row)) (\<lambda>_. route_result (Inr (200, row_to_dto row None None)))
      | None \<Rightarrow>
          route_then (\<lambda>x. (Inr (pick_clone_target name (rs_disk x)), x)) (\<lambda>target.
          route_then (do_clone env full_name target user) (\<lambda>done. case done of
            Inl m \<Rightarrow> route_result (Inl (clone_failure env full_name m))
          | Inr _ \<Rightarrow> register_clone env user name url target))))"

text \<open>One clone at a time; the guard takes the lock back however the request ends.\<close>

definition add_via_clone :: "repo_route_env \<Rightarrow> string \<Rightarrow> string \<Rightarrow> (nat \<times> repository_dto) repo_route" where
  "add_via_clone env user url x =
     (case validate_repo_url url of
        Inl m \<Rightarrow> (Inl (PlainError 400 m), x)
      | Inr (owner, name) \<Rightarrow>
          if rs_cloning x then (Inl (PlainError 409 ''clone already in progress; retry shortly''), x)
          else (case clone_and_add env user owner name (x\<lparr>rs_cloning := True\<rparr>) of (r, x') \<Rightarrow> (r, x'\<lparr>rs_cloning := False\<rparr>)))"

definition add_repository ::
  "repo_route_env \<Rightarrow> authenticated_user \<Rightarrow> string option \<Rightarrow> string option \<Rightarrow> (nat \<times> repository_dto) repo_route" where
  "add_repository env auth repository_id repo_url =
     route_then require_db (\<lambda>_. case (repository_id, repo_url) of
       (Some _, Some _) \<Rightarrow> route_result (Inl (PlainError 400 ''Provide either repository_id or repo_url, not both''))
     | (None, None) \<Rightarrow> route_result (Inl (PlainError 400 ''Provide either repository_id or repo_url''))
     | (Some i, None) \<Rightarrow> add_existing env (au_user_id auth) i
     | (None, Some url) \<Rightarrow> add_via_clone env (au_user_id auth) url)"

subsection \<open>Removing\<close>

text \<open>
  The items of the snapshots that are in a workspace of the repository's name and not finished, with their owners; none
  when there are no snapshots to read.
\<close>

definition active_in_snapshots :: "env \<Rightarrow> string \<Rightarrow> engine \<Rightarrow> (string \<times> string) list" where
  "active_in_snapshots env name e =
     (case read_all_workspace_snapshots (env_file_io env) (env_snapshot_json env) (eng_files e) of
        Inl _ \<Rightarrow> []
      | Inr records \<Rightarrow> List.map (\<lambda>rec. (pr_ticket_key rec, unwrap_or [] (pr_user_id rec)))
          (filter (\<lambda>rec. pr_workspace_name rec = name \<and> \<not> is_terminal (pr_state rec)) records))"

definition repository_has_active_workflow :: "repo_route_env \<Rightarrow> string \<Rightarrow> (string \<times> string) list repo_route" where
  "repository_has_active_workflow env i =
     route_then (find_repo env i) (\<lambda>found x. (Inr (case found of
        None \<Rightarrow> []
      | Some row \<Rightarrow> if re_has_data_dir env then active_in_snapshots (repo_engine_env env) (rp_name row) (ts_engine (rs_ticket x))
          else []), x))"

text \<open>\<open>RemovalBlocked\<close>: the answer 409 with the message and the items in the way.\<close>

datatype removal_error = RemovalFailed route_error | RemovalBlocked string "(string \<times> string) list"

definition remove_dir :: "repo_route_env \<Rightarrow> string \<Rightarrow> unit repo_route" where
  "remove_dir env p x = (Inr (), x\<lparr>rs_disk := re_remove_dir env p (rs_disk x), rs_removals := rs_removals x @ [p]\<rparr>)"

text \<open>The row and its links, then the directory; when the last user is gone, or by force.\<close>

definition purge_if_unused :: "repo_route_env \<Rightarrow> string \<Rightarrow> bool \<Rightarrow> unit repo_route" where
  "purge_if_unused env i force =
     route_then (find_repo env i) (\<lambda>found. case found of
       None \<Rightarrow> route_result (Inr ())
     | Some row \<Rightarrow>
         route_then (repo_query env (users_of i)) (\<lambda>remaining.
           if \<not> (force \<or> remaining = []) then route_result (Inr ())
           else route_then (repo_stmt env (\<lambda>_ t. apfst Inr (repositories_delete (rp_id row) t))) (\<lambda>deleted.
             if deleted then remove_dir env (rp_local_path row) else route_result (Inr ()))))"

definition drop_own_link :: "repo_route_env \<Rightarrow> string \<Rightarrow> string \<Rightarrow> unit repo_route" where
  "drop_own_link env user i =
     route_then (repo_stmt env (\<lambda>_ t. apfst Inr (remove_for_user user i t))) (\<lambda>removed.
       refuse_when (\<not> removed) 404 ''repository not in your dashboard'')"

definition blocking_items :: "bool \<Rightarrow> string \<Rightarrow> (string \<times> string) list \<Rightarrow> (string \<times> string) list" where
  "blocking_items force user items = (if force then items else filter (\<lambda>(_, owner). owner = user) items)"

definition blocked_message :: "bool \<Rightarrow> string" where
  "blocked_message force =
     (if force then ''active workflows reference this repository '' @ em_dash @ '' stop or finish them first''
      else ''you have active workflows on this repository '' @ em_dash @
        '' stop or finish them before removing it from your dashboard'')"

definition delete_repository ::
  "repo_route_env \<Rightarrow> authenticated_user \<Rightarrow> string \<Rightarrow> bool \<Rightarrow> repo_site \<Rightarrow> (removal_error + unit) \<times> repo_site" where
  "delete_repository env auth i force x =
     (case route_then (refuse_when (force \<and> au_role auth \<noteq> Admin) 403 ''force_purge requires admin'') (\<lambda>_.
           route_then require_db (\<lambda>_. repository_has_active_workflow env i)) x of
        (Inl bad, x1) \<Rightarrow> (Inl (RemovalFailed bad), x1)
      | (Inr items, x1) \<Rightarrow>
          (let blockers = blocking_items force (au_user_id auth) items in
           if blockers \<noteq> [] then (Inl (RemovalBlocked (blocked_message force) blockers), x1)
           else apfst (map_sum RemovalFailed id)
             (route_then (if force then route_result (Inr ()) else drop_own_link env (au_user_id auth) i)
                (\<lambda>_. purge_if_unused env i force) x1)))"

subsection \<open>At the start of the server\<close>

text \<open>
  The clones on disk become rows: \<open>dirs\<close> are the directories under \<open>/workspaces\<close>, or nothing when it cannot be read. A
  failed lookup ends the pass, a failed insertion is passed over. The number of new rows comes back.
\<close>

definition start_up_branch :: "repo_route_env \<Rightarrow> string option repo_route" where
  "start_up_branch env = route_then (run_on_disk env ''git'' [''symbolic-ref'', ''refs/remotes/origin/HEAD''] [])
     (\<lambda>r. route_result (Inr (case r of
        Inl _ \<Rightarrow> None
      | Inr out \<Rightarrow> if co_exit_code out \<noteq> 0 \<or> \<not> utf8_valid (co_stdout out) then None else branch_of (co_stdout out))))"

definition caught :: "'a repo_route \<Rightarrow> 'a option repo_route" where
  "caught c x = (case c x of (Inl _, x') \<Rightarrow> (Inr None, x') | (Inr v, x') \<Rightarrow> (Inr (Some v), x'))"

definition register_directory :: "repo_route_env \<Rightarrow> string \<Rightarrow> nat repo_route" where
  "register_directory env name =
     (let p = path_join WORKSPACES_DIR name in
      route_then (\<lambda>x. (Inr (read_git_remote_url (rs_disk x) p), x)) (\<lambda>url.
      route_then (start_up_branch env) (\<lambda>branch.
      route_then (repo_query env (\<lambda>t. repositories_get_by_path t p)) (\<lambda>before.
      route_then (read_clock env) (\<lambda>(n, now).
      route_then (caught (repo_stmt env (\<lambda>users. repositories_upsert users (re_new_id env n) now name url p
          (unwrap_or ''main'' branch) None))) (\<lambda>i.
      route_result (Inr (if i \<noteq> None \<and> before = None then 1 else 0))))))))"

fun sum_over :: "('r \<Rightarrow> nat repo_route) \<Rightarrow> 'r list \<Rightarrow> nat repo_route" where
  "sum_over f [] = route_result (Inr 0)"
| "sum_over f (r # rs) = route_then (f r) (\<lambda>n. route_then (sum_over f rs) (\<lambda>m. route_result (Inr (n + m))))"

definition reconcile_repositories :: "repo_route_env \<Rightarrow> string list option \<Rightarrow> nat repo_route" where
  "reconcile_repositories env dirs x =
     (case dirs of
        None \<Rightarrow> (Inr 0, x)
      | Some ds \<Rightarrow> sum_over (\<lambda>d x. if rd_exists (rs_disk x) (path_join (path_join WORKSPACES_DIR d) ''.git'')
          then register_directory env d x else (Inr 0, x)) ds x)"

text \<open>The owners of the items in the snapshots get the repositories of these items.\<close>

definition backfill_record :: "repo_route_env \<Rightarrow> persisted_workflow_record \<Rightarrow> nat repo_route" where
  "backfill_record env rec =
     (case pr_user_id rec of
        None \<Rightarrow> route_result (Inr 0)
      | Some user \<Rightarrow>
          if pr_workspace_name rec = [] then route_result (Inr 0)
          else route_then (repo_query env (\<lambda>t. repositories_get_by_name t (pr_workspace_name rec))) (\<lambda>found. case found of
            None \<Rightarrow> route_result (Inr 0)
          | Some row \<Rightarrow> route_then (link_repo env user (rp_id row)) (\<lambda>added. route_result (Inr (if added then 1 else 0)))))"

definition backfill_user_repositories_from_snapshots :: "repo_route_env \<Rightarrow> nat repo_route" where
  "backfill_user_repositories_from_snapshots env x =
     (case read_all_workspace_snapshots (env_file_io (repo_engine_env env)) (env_snapshot_json (repo_engine_env env))
         (eng_files (ts_engine (rs_ticket x))) of
        Inl _ \<Rightarrow> (Inr 0, x)
      | Inr records \<Rightarrow> sum_over (backfill_record env) records x)"

end
