(* ===== verification/Repository_Routes_Props.thy ===== *)
theory Repository_Routes_Props
  imports Repository_Routes Ticket_Routes_Props
begin

text \<open>
  What a request on repositories does to the registry: adding one touches nobody else's repositories and clones into
  \<open>/workspaces\<close> only; removing one takes away only what nobody else has, but does not look at the items that other
  users still have on it.
\<close>

subsection \<open>What the steps of a request keep\<close>

definition same_registry :: "repo_site \<Rightarrow> repo_site \<Rightarrow> bool" where
  "same_registry x x' \<longleftrightarrow> site_repos x' = site_repos x \<and> rs_cloning x' = rs_cloning x \<and> rs_removals x' = rs_removals x \<and>
     eng_workflows (ts_engine (rs_ticket x')) = eng_workflows (ts_engine (rs_ticket x))"

text \<open>Everything but the rows themselves.\<close>

definition same_but_rows :: "repo_site \<Rightarrow> repo_site \<Rightarrow> bool" where
  "same_but_rows x x' \<longleftrightarrow> rs_cloning x' = rs_cloning x \<and> rs_removals x' = rs_removals x \<and>
     eng_workflows (ts_engine (rs_ticket x')) = eng_workflows (ts_engine (rs_ticket x))"

lemma next_io_rest: "next_io e = (b, e') \<Longrightarrow> eng_repos e' = eng_repos e \<and> eng_workflows e' = eng_workflows e \<and> eng_db e' = eng_db e"
  by (auto simp: next_io_def split: list.splits)

lemma repo_stmt_cases:
  assumes "repo_stmt env f x = (r, x')"
  obtains (failed) m where "r = Inl m" "same_registry x x'"
  | (ran) rr t where "f (known_users (ts_engine (rs_ticket x))) (site_repos x) = (rr, t)" "site_repos x' = t"
      "r = map_sum (\<lambda>bad. PlainError 500 (env_db_message (repo_engine_env env) bad)) id rr" "same_but_rows x x'"
proof -
  obtain ok e1 where io: "next_io (ts_engine (rs_ticket x)) = (ok, e1)" by fastforce
  note core = next_io_rest [OF io]
  show ?thesis
  proof (cases ok)
    case True
    obtain rr t where f: "f (known_users e1) (eng_repos e1) = (rr, t)" by fastforce
    have "known_users e1 = known_users (ts_engine (rs_ticket x))" using core by (simp add: known_users_def)
    with f core io True assms show ?thesis
      by (intro ran [of rr t])
        (auto simp: repo_stmt_def on_ticket_def on_engine_or_def repo_statement_def site_repos_def same_but_rows_def)
  next
    case False
    with io core assms show ?thesis
      by (intro failed) (auto simp: repo_stmt_def on_ticket_def on_engine_or_def repo_statement_def site_repos_def same_registry_def)
  qed
qed

text \<open>
  A relation between the registry before and after, which every step of a request is in that changes the registry:
  what holds of every statement holds of the request.
\<close>

definition related :: "(repo_tables \<Rightarrow> repo_tables \<Rightarrow> bool) \<Rightarrow> repo_site \<Rightarrow> repo_site \<Rightarrow> bool" where
  "related Q x x' \<longleftrightarrow> same_but_rows x x' \<and> Q (site_repos x) (site_repos x')"

locale site_relation =
  fixes Q :: "repo_tables \<Rightarrow> repo_tables \<Rightarrow> bool"
  assumes same: "Q t t"
    and chain: "Q t u \<Longrightarrow> Q u v \<Longrightarrow> Q t v"
begin

lemma silent: "same_registry x x' \<Longrightarrow> related Q x x'"
  by (simp add: related_def same_registry_def same_but_rows_def same)

lemma trans: "related Q x y \<Longrightarrow> related Q y z \<Longrightarrow> related Q x z"
  unfolding related_def same_but_rows_def by (auto intro: chain)

definition keeps :: "'a repo_route \<Rightarrow> bool" where
  "keeps c \<longleftrightarrow> (\<forall>x. related Q x (snd (c x)))"

lemma relatedD: "keeps c \<Longrightarrow> c x = (r, x') \<Longrightarrow> related Q x x'"
  by (metis keeps_def snd_conv)

lemma silent_keeps: "(\<And>x. same_registry x (snd (c x))) \<Longrightarrow> keeps c"
  by (simp add: keeps_def silent)

lemma keeps_stmt:
  assumes "\<And>users t. Q t (snd (f users t))"
  shows "keeps (repo_stmt env f)"
proof -
  have "related Q x x'" if "repo_stmt env f x = (r, x')" for x r x'
    using that
  proof (cases rule: repo_stmt_cases)
    case failed
    then show ?thesis by (simp add: silent)
  next
    case (ran rr t)
    then show ?thesis using assms [of "site_repos x" "known_users (ts_engine (rs_ticket x))"] by (simp add: related_def)
  qed
  then show ?thesis by (metis keeps_def prod.collapse)
qed

lemma keeps_seq: "keeps c \<Longrightarrow> (\<And>v. keeps (f v)) \<Longrightarrow> keeps (route_then c f)"
  by (auto simp: keeps_def route_then_def split: prod.splits sum.splits) (metis snd_conv trans)+

lemma keeps_result: "keeps (route_result r)"
  by (rule silent_keeps) (simp add: route_result_def same_registry_def)

lemma keeps_reads: "keeps (\<lambda>x. (q x, x))"
  by (rule silent_keeps) (simp add: same_registry_def)

lemma keeps_read: "keeps (repo_query env q)"
  unfolding repo_query_def by (rule keeps_stmt) (simp add: same)

lemma keeps_clock: "keeps (read_clock env)"
  by (rule silent_keeps)
    (simp add: read_clock_def on_ticket_def on_engine_def tick_def same_registry_def site_repos_def split: prod.split)

lemma keeps_vault: "keeps (on_ticket (on_vault f))"
  by (rule silent_keeps) (simp add: on_ticket_def on_vault_def same_registry_def site_repos_def split: prod.split)

lemma keeps_process: "keeps (run_on_disk env program args added)"
  by (rule silent_keeps) (simp add: run_on_disk_def same_registry_def site_repos_def split: prod.split)

lemma keeps_branch: "keeps (read_default_branch env)"
  unfolding read_default_branch_def by (intro keeps_seq keeps_process keeps_result)

lemma keeps_find: "keeps (find_repo env i)"
  unfolding find_repo_def by (rule keeps_read)

lemma keeps_clone: "keeps (do_clone env full_name target user)"
  unfolding do_clone_def clone_token_def
  by (intro keeps_seq keeps_vault) (auto split: sum.split prod.split intro!: keeps_seq keeps_process keeps_result)

lemma keeps_required: "keeps require_db"
  by (rule silent_keeps) (simp add: require_db_def refuse_when_def route_result_def same_registry_def)

lemmas keeps_intros = keeps_seq keeps_result keeps_reads keeps_read keeps_clock keeps_process keeps_branch keeps_find
  keeps_clone keeps_required

end

lemma route_then_Inr:
  assumes "route_then c f x = (Inr v, x')"
  obtains w y where "c x = (Inr w, y)" "f w y = (Inr v, x')"
  using assms by (auto simp: route_then_def split: prod.splits sum.splits)

subsection \<open>Adding a repository\<close>

definition others_links :: "string \<Rightarrow> repo_tables \<Rightarrow> user_repository_row list" where
  "others_links user t = filter (\<lambda>l. ur_user_id l \<noteq> user) (rt_links t)"

text \<open>Rows and links of the user are new at most; nothing of anybody else, no directory and no item.\<close>

definition gains :: "string \<Rightarrow> repo_tables \<Rightarrow> repo_tables \<Rightarrow> bool" where
  "gains user t t' \<longleftrightarrow> others_links user t' = others_links user t \<and>
     prefix (rt_repos t) (rt_repos t') \<and> prefix (rt_links t) (rt_links t')"

definition has_repository :: "string \<Rightarrow> string \<Rightarrow> repo_tables \<Rightarrow> bool" where
  "has_repository user i t \<longleftrightarrow>
     list_ex (\<lambda>l. ur_user_id l = user \<and> ur_repository_id l = i) (rt_links t) \<and> list_ex (\<lambda>r. rp_id r = i) (rt_repos t)"

interpretation adding: site_relation "gains user" for user
  by unfold_locales (auto simp: gains_def intro: prefix_order.trans)

lemma adds_link: "adding.keeps user (link_repo env user i)"
  unfolding link_repo_def case_prod_beta
  by (intro adding.keeps_seq adding.keeps_clock adding.keeps_stmt) (auto simp: gains_def add_for_user_def others_links_def)

lemma adds_row: "adding.keeps user (repo_stmt env (\<lambda>users. repositories_upsert users i now name url p branch by))"
  by (rule adding.keeps_stmt)
    (auto simp: gains_def repositories_upsert_def others_links_def Let_def split: option.splits)

lemma adds_registered: "adding.keeps user (register_clone env user name url target)"
  unfolding register_clone_def
  by (intro adding.keeps_intros adds_link) (auto split: prod.split option.split intro!: adding.keeps_intros adds_link adds_row)

lemma adds_existing: "adding.keeps user (add_existing env user i)"
  unfolding add_existing_def
  by (intro adding.keeps_intros) (auto split: option.split intro!: adding.keeps_intros adds_link)

lemma adds_cloned: "adding.keeps user (clone_and_add env user owner name)"
  unfolding clone_and_add_def Let_def
  by (intro adding.keeps_intros)
    (auto split: option.split sum.split intro!: adding.keeps_intros adds_link adds_registered)

lemma add_for_user_linked:
  "add_for_user users now user i t = (Inr b, t') \<Longrightarrow> list_ex (\<lambda>l. ur_user_id l = user \<and> ur_repository_id l = i) (rt_links t')"
  by (auto simp: add_for_user_def links_of_def list_ex_iff split: if_splits)

lemma link_made:
  assumes "link_repo env user i x = (Inr b, x')"
  shows "list_ex (\<lambda>l. ur_user_id l = user \<and> ur_repository_id l = i) (rt_links (site_repos x'))"
proof -
  from assms obtain now y where "repo_stmt env (\<lambda>users. add_for_user users now user i) y = (Inr b, x')"
    unfolding link_repo_def by (auto elim!: route_then_Inr)
  then show ?thesis
  proof (cases rule: repo_stmt_cases)
    case (ran rr t)
    then have "add_for_user (known_users (ts_engine (rs_ticket y))) now user i (site_repos y) = (Inr b, site_repos x')"
      by (cases rr) auto
    then show ?thesis by (rule add_for_user_linked)
  qed simp
qed

lemma linked:
  assumes "link_repo env user i x = (Inr b, x')" and "list_ex (\<lambda>r. rp_id r = i) (rt_repos (site_repos x))"
  shows "has_repository user i (site_repos x')"
proof -
  have "related (gains user) x x'" using adds_link assms(1) by (rule adding.relatedD)
  then show ?thesis using assms(2) link_made [OF assms(1)] by (auto simp: has_repository_def related_def gains_def prefix_def)
qed

lemma found_row:
  assumes "repo_query env q x = (Inr v, x')"
  shows "v = q (site_repos x) \<and> site_repos x' = site_repos x"
  using assms unfolding repo_query_def by (cases rule: repo_stmt_cases) auto

lemma find_repoD: "find_repo env i x = (Inr (Some row), x') \<Longrightarrow> rp_id row = i \<and> row \<in> set (rt_repos (site_repos x'))"
  unfolding find_repo_def by (auto dest!: found_row simp: repositories_get_def find_Some_iff2)

definition serves :: "string \<Rightarrow> (nat \<times> repository_dto) repo_route \<Rightarrow> bool" where
  "serves user c \<longleftrightarrow> (\<forall>x st d x'. c x = (Inr (st, d), x') \<longrightarrow> has_repository user (rd_id d) (site_repos x'))"

lemma serves_then: "(\<And>v. serves user (f v)) \<Longrightarrow> serves user (route_then c f)"
  unfolding serves_def by (auto elim!: route_then_Inr)

lemma serves_refused: "serves user (route_result (Inl m))"
  by (simp add: serves_def route_result_def)

text \<open>A row that is there is linked, and answered with.\<close>

lemma known_served:
  assumes "\<And>x r x'. look x = (Inr (Some r), x') \<Longrightarrow> r \<in> set (rt_repos (site_repos x'))" and "serves user other"
  shows "serves user (route_then look (\<lambda>found. case found of
      None \<Rightarrow> other
    | Some row \<Rightarrow> route_then (link_repo env user (rp_id row)) (\<lambda>_. route_result (Inr (200, row_to_dto row None None)))))"
  unfolding serves_def
proof (intro allI impI; erule route_then_Inr)
  fix x st d x' w y
  assume w: "look x = (Inr w, y)" and r: "(case w of
      None \<Rightarrow> other
    | Some row \<Rightarrow> route_then (link_repo env user (rp_id row)) (\<lambda>_. route_result (Inr (200, row_to_dto row None None)))) y =
      (Inr (st, d), x')"
  show "has_repository user (rd_id d) (site_repos x')"
  proof (cases w)
    case None
    then show ?thesis using r assms(2) by (auto simp: serves_def)
  next
    case (Some row)
    then have "row \<in> set (rt_repos (site_repos y))" using assms(1) w by blast
    then have "list_ex (\<lambda>r. rp_id r = rp_id row) (rt_repos (site_repos y))" by (auto simp: list_ex_iff)
    then show ?thesis using r Some
      by (auto simp: route_result_def row_to_dto_def elim!: route_then_Inr intro!: linked)
  qed
qed

lemma linked_and_found_served:
  "serves user (route_then (link_repo env user i) (\<lambda>_. route_then (find_repo env i) (\<lambda>found. route_result (case found of
     None \<Rightarrow> Inl bad | Some row \<Rightarrow> Inr (201, row_to_dto row None None)))))"
  unfolding serves_def
proof (intro allI impI; (erule route_then_Inr)+)
  fix x st d x' b y found y7
  assume link: "link_repo env user i x = (Inr b, y)" and row: "find_repo env i y = (Inr found, y7)"
    and r: "route_result (case found of None \<Rightarrow> Inl bad | Some row \<Rightarrow> Inr (201, row_to_dto row None None)) y7 = (Inr (st, d), x')"
  from r obtain row_found where f: "found = Some row_found" "x' = y7" "d = row_to_dto row_found None None"
    by (cases found) (auto simp: route_result_def)
  have "site_repos y7 = site_repos y" using row unfolding find_repo_def by (auto dest: found_row)
  then show "has_repository user (rd_id d) (site_repos x')"
    using link_made [OF link] find_repoD [of env i y row_found y7] row f
    by (auto simp: has_repository_def row_to_dto_def list_ex_iff)
qed

lemma registered_served: "serves user (register_clone env user name url target)"
  unfolding register_clone_def case_prod_beta by (intro serves_then linked_and_found_served)

lemma existing_served: "serves user (add_existing env user i)"
  unfolding add_existing_def by (intro known_served serves_refused) (simp add: find_repoD)

lemma cloned_served: "serves user (clone_and_add env user owner name)"
proof -
  have known: "r \<in> set (rt_repos (site_repos x'))"
    if "repo_query env (\<lambda>t. List.find (\<lambda>r. rp_repo_url r = Some url) (rt_repos t)) x = (Inr (Some r), x')" for x r x' url
    using found_row [OF that] by (auto simp: find_Some_iff2)
  show ?thesis
    unfolding clone_and_add_def Let_def
    by (intro known_served serves_then) (auto split: sum.split intro: known serves_refused registered_served)
qed

lemma add_via_clone_adds:
  assumes "add_via_clone env user url x = (r, x')"
  shows "related (gains user) x x' \<and> (case r of Inl _ \<Rightarrow> True | Inr (_, d) \<Rightarrow> has_repository user (rd_id d) (site_repos x'))"
proof (cases "validate_repo_url url")
  case (Inl m)
  then show ?thesis using assms by (auto simp: add_via_clone_def adding.silent same_registry_def)
next
  case (Inr on)
  obtain owner name where on: "on = (owner, name)" by (cases on)
  show ?thesis
  proof (cases "rs_cloning x")
    case True
    then show ?thesis using assms Inr on by (auto simp: add_via_clone_def adding.silent same_registry_def)
  next
    case False
    obtain y where y: "clone_and_add env user owner name (x\<lparr>rs_cloning := True\<rparr>) = (r, y)" "x' = y\<lparr>rs_cloning := False\<rparr>"
      using assms Inr on False by (auto simp: add_via_clone_def split: prod.splits)
    have "related (gains user) (x\<lparr>rs_cloning := True\<rparr>) y" using adds_cloned y(1) by (rule adding.relatedD)
    then have "related (gains user) x x'" using False y(2) by (auto simp: related_def gains_def same_but_rows_def site_repos_def)
    moreover have "case r of Inl _ \<Rightarrow> True | Inr (_, d) \<Rightarrow> has_repository user (rd_id d) (site_repos x')"
      using cloned_served y unfolding serves_def by (fastforce simp: site_repos_def split: sum.split)
    ultimately show ?thesis ..
  qed
qed

text \<open>
  C23: whoever adds a repository, by its id or by an address that is cloned, and whatever fails: no row, no link of
  anybody, no item and no directory goes, nobody else gets or loses a repository, the lock is as it was; and when the
  request succeeds, the caller has the repository that is answered.
\<close>
theorem add_serves_caller:
  "case add_repository env auth repository_id url x of (r, x') \<Rightarrow>
     related (gains (au_user_id auth)) x x' \<and>
     (case r of Inl _ \<Rightarrow> True | Inr (_, d) \<Rightarrow> has_repository (au_user_id auth) (rd_id d) (site_repos x'))"
proof -
  let ?u = "au_user_id auth"
  obtain r x' where r: "add_repository env auth repository_id url x = (r, x')" by fastforce
  have "related (gains ?u) x x' \<and>
     (case r of Inl _ \<Rightarrow> True | Inr (_, d) \<Rightarrow> has_repository ?u (rd_id d) (site_repos x'))"
  proof (cases "eng_db (ts_engine (rs_ticket x))")
    case None
    then show ?thesis using r
      by (auto simp: add_repository_def route_then_def require_db_def refuse_when_def route_result_def adding.silent same_registry_def)
  next
    case (Some db)
    then have "require_db x = (Inr (), x)" by (simp add: require_db_def refuse_when_def route_result_def)
    then have "(r = Inl (PlainError 400 m) \<and> x' = x) \<or> add_existing env ?u i x = (r, x') \<or> add_via_clone env ?u a x = (r, x')"
      if "repository_id = None \<or> repository_id = Some i" "url = None \<or> url = Some a"
        "m = (if url = None then ''Provide either repository_id or repo_url'' else ''Provide either repository_id or repo_url, not both'')"
      for i a m
      using r that by (auto simp: add_repository_def route_then_def route_result_def split: option.splits)
    then consider "x' = x" "isl r" | i where "add_existing env ?u i x = (r, x')" | a where "add_via_clone env ?u a x = (r, x')"
      by (cases repository_id; cases url) fastforce+
    then show ?thesis
    proof cases
      case 1
      then show ?thesis by (auto simp: adding.silent same_registry_def isl_def)
    next
      case (2 i)
      then show ?thesis
        using adding.relatedD [OF adds_existing 2] existing_served unfolding serves_def by (fastforce split: sum.split)
    qed (rule add_via_clone_adds)
  qed
  then show ?thesis by (simp add: r)
qed

subsection \<open>Removing a repository\<close>

text \<open>Nobody but the user has the repository of a row.\<close>

definition sole_user :: "string \<Rightarrow> repository_row \<Rightarrow> repo_tables \<Rightarrow> bool" where
  "sole_user user row t \<longleftrightarrow> list_all (\<lambda>l. ur_repository_id l \<noteq> rp_id row) (others_links user t)"

definition shrinks :: "string \<Rightarrow> repo_tables \<Rightarrow> repo_tables \<Rightarrow> bool" where
  "shrinks user t t' \<longleftrightarrow> others_links user t' = others_links user t \<and> set (rt_repos t') \<subseteq> set (rt_repos t) \<and>
     list_all (\<lambda>row. row \<in> set (rt_repos t') \<or> sole_user user row t) (rt_repos t)"

lemma shrinks_refl: "shrinks user t t"
  by (simp add: shrinks_def list_all_iff)

lemma shrinks_trans:
  assumes "shrinks user t u" and "shrinks user u v"
  shows "shrinks user t v"
proof -
  have same: "others_links user u = others_links user t" "others_links user v = others_links user u"
    using assms by (simp_all add: shrinks_def)
  then have "sole_user user row u \<longleftrightarrow> sole_user user row t" for row by (simp add: sole_user_def)
  then have "row \<in> set (rt_repos v) \<or> sole_user user row t" if "row \<in> set (rt_repos t)" for row
    using assms that unfolding shrinks_def list_all_iff by blast
  then show ?thesis using assms same unfolding shrinks_def list_all_iff by auto
qed

interpretation removing: site_relation "shrinks user" for user
  by unfold_locales (rule shrinks_refl, rule shrinks_trans)

definition removes :: "string \<Rightarrow> repo_site \<Rightarrow> repo_site \<Rightarrow> bool" where
  "removes user x x' \<longleftrightarrow> shrinks user (site_repos x) (site_repos x') \<and>
     rs_cloning x' = rs_cloning x \<and>
     eng_workflows (ts_engine (rs_ticket x')) = eng_workflows (ts_engine (rs_ticket x)) \<and>
     (rs_removals x' = rs_removals x \<or>
      (\<exists>row \<in> set (rt_repos (site_repos x)) - set (rt_repos (site_repos x')).
         rs_removals x' = rs_removals x @ [rp_local_path row]))"

lemma removesI: "related (shrinks user) x x' \<Longrightarrow> removes user x x'"
  by (simp add: removes_def related_def same_but_rows_def)

lemma shrinks_then_removes:
  assumes "related (shrinks user) x y" and "removes user y z"
  shows "removes user x z"
proof -
  have "shrinks user (site_repos x) (site_repos z)"
    using assms shrinks_trans unfolding removes_def related_def by blast
  moreover have "set (rt_repos (site_repos y)) \<subseteq> set (rt_repos (site_repos x))"
    using assms(1) by (simp add: related_def shrinks_def)
  ultimately show ?thesis
    using assms unfolding removes_def related_def same_but_rows_def by (elim conjE disjE) (simp, fastforce)
qed

lemma drops_link: "removing.keeps user (drop_own_link env user i)"
  unfolding drop_own_link_def
  by (intro removing.keeps_seq removing.keeps_stmt)
    (auto simp: shrinks_def others_links_def remove_for_user_def refuse_when_def list_all_iff removing.keeps_result
      intro: filter_cong)

lemma deletes_unused:
  assumes "users_of i t = []"
  shows "shrinks user t (snd (repositories_delete i t))"
  using assms
  by (auto simp: shrinks_def repositories_delete_def others_links_def sole_user_def users_of_def list_all_iff filter_empty_conv
      intro!: filter_cong)

lemma route_then_cases:
  assumes "route_then c f x = (r, x')"
  obtains (refused) e where "c x = (Inl e, x')" "r = Inl e" | (went_on) v y where "c x = (Inr v, y)" "f v y = (r, x')"
  using assms by (auto simp: route_then_def split: prod.splits sum.splits)

lemma purge_step:
  assumes "route_then (repo_stmt env (\<lambda>_ t. apfst Inr (repositories_delete (rp_id row) t)))
      (\<lambda>deleted. if deleted then remove_dir env (rp_local_path row) else route_result (Inr ())) z = (r, x')"
    and "row \<in> set (rt_repos (site_repos z))" and "users_of (rp_id row) (site_repos z) = []"
  shows "removes user z x'"
  using assms(1)
proof (cases rule: route_then_cases)
  case (refused e)
  from refused(1) show ?thesis
    by (cases rule: repo_stmt_cases) (auto simp: removesI removing.silent repositories_delete_def)
next
  case (went_on deleted y)
  let ?t = "snd (repositories_delete (rp_id row) (site_repos z))"
  from went_on(1) have y: "site_repos y = ?t \<and> deleted \<and> same_but_rows z y"
  proof (cases rule: repo_stmt_cases)
    case (ran rr t)
    then show ?thesis
      using assms(2) by (auto simp: repositories_delete_def list_ex_iff)
  qed auto
  have x': "site_repos x' = site_repos y" "rs_removals x' = rs_removals z @ [rp_local_path row]" "rs_cloning x' = rs_cloning z"
    "eng_workflows (ts_engine (rs_ticket x')) = eng_workflows (ts_engine (rs_ticket z))"
    using went_on(2) y by (auto simp: remove_dir_def site_repos_def same_but_rows_def)
  have "row \<notin> set (rt_repos ?t)" by (simp add: repositories_delete_def)
  then show ?thesis
    using deletes_unused [OF assms(3), of user] assms(2) x' y unfolding removes_def by auto
qed

lemma purge_removes:
  assumes "purge_if_unused env i False x = (r, x')"
  shows "removes user x x'"
  using assms unfolding purge_if_unused_def
proof (cases rule: route_then_cases)
  case (refused e)
  from removing.relatedD [OF removing.keeps_find refused(1)] show ?thesis by (rule removesI)
next
  case (went_on found y)
  note f = went_on
  have xy: "related (shrinks user) x y" by (rule removing.relatedD [OF removing.keeps_find f(1)])
  show ?thesis
  proof (cases found)
    case None
    then show ?thesis using f(2) xy by (simp add: route_result_def removesI)
  next
    case (Some row)
    note row = find_repoD [OF f(1) [unfolded Some]]
    from f(2) Some have "route_then (repo_query env (users_of i)) (\<lambda>remaining.
           if \<not> (False \<or> remaining = []) then route_result (Inr ())
           else route_then (repo_stmt env (\<lambda>_ t. apfst Inr (repositories_delete (rp_id row) t))) (\<lambda>deleted.
             if deleted then remove_dir env (rp_local_path row) else route_result (Inr ()))) y = (r, x')"
      by simp
    then show ?thesis
    proof (cases rule: route_then_cases)
      case (refused e)
      then show ?thesis using removing.trans [OF xy removing.relatedD [OF removing.keeps_read]] by (blast intro: removesI)
    next
      case (went_on remaining z)
      have yz: "related (shrinks user) y z" by (rule removing.relatedD [OF removing.keeps_read went_on(1)])
      note xz = removing.trans [OF xy yz]
      have rem: "remaining = users_of i (site_repos y)" "site_repos z = site_repos y" using found_row [OF went_on(1)] by auto
      show ?thesis
      proof (cases "remaining = []")
        case False
        then show ?thesis using went_on(2) xz by (simp add: route_result_def removesI)
      next
        case True
        have "removes user z x'" using went_on(2) True row rem purge_step [of env row z r x' user] by simp
        with xz show ?thesis by (rule shrinks_then_removes)
      qed
    qed
  qed
qed

text \<open>
  C21: a removal without force, and one by force of somebody who is not an administrator, takes nobody else's repository
  away: the links of all others stay, the rows and the directory that go are those of a repository that nobody else
  had, and no item changes; whatever fails.
\<close>
theorem removal_spares_others:
  "force \<and> au_role auth = Admin \<or> removes (au_user_id auth) x (snd (delete_repository env auth i force x))"
proof (cases "force \<and> au_role auth = Admin")
  case False
  let ?u = "au_user_id auth"
  define c where "c = route_then (refuse_when (force \<and> au_role auth \<noteq> Admin) 403 ''force_purge requires admin'') (\<lambda>_.
      route_then require_db (\<lambda>_. repository_has_active_workflow env i))"
  have d: "delete_repository env auth i force x = (case c x of
        (Inl bad, x1) \<Rightarrow> (Inl (RemovalFailed bad), x1)
      | (Inr items, x1) \<Rightarrow>
          (if blocking_items force ?u items \<noteq> []
           then (Inl (RemovalBlocked (blocked_message force) (blocking_items force ?u items)), x1)
           else apfst (map_sum RemovalFailed id) (route_then (if force then route_result (Inr ()) else drop_own_link env ?u i)
                (\<lambda>_. purge_if_unused env i force) x1)))"
    by (simp only: delete_repository_def c_def Let_def)
  have c: "removing.keeps ?u c"
    unfolding c_def repository_has_active_workflow_def refuse_when_def by (intro removing.keeps_intros)
  obtain q x1 where q: "c x = (q, x1)" by fastforce
  note x1 = removing.relatedD [OF c q]
  have "removes ?u x (snd (delete_repository env auth i force x))"
  proof (cases "isl q \<or> blocking_items force ?u (projr q) \<noteq> []")
    case True
    then show ?thesis using q x1 by (cases q) (auto simp: d removesI)
  next
    case no_block: False
    then obtain items where items: "q = Inr items" by (cases q) auto
    have "\<not> force" using q False items by (auto simp: c_def route_then_def refuse_when_def route_result_def)
    obtain r x' where r: "route_then (drop_own_link env ?u i) (\<lambda>_. purge_if_unused env i False) x1 = (r, x')" by fastforce
    then have "removes ?u x1 x'"
    proof (cases rule: route_then_cases)
      case (refused e)
      then show ?thesis by (blast intro: removesI removing.relatedD drops_link)
    next
      case (went_on v y)
      then show ?thesis by (blast intro: shrinks_then_removes purge_removes removing.relatedD drops_link)
    qed
    then have "removes ?u x x'" by (rule shrinks_then_removes [OF x1])
    then show ?thesis unfolding d using q items no_block r \<open>\<not> force\<close> by simp
  qed
  then show ?thesis ..
qed simp

lemma repo_stmt_ok:
  assumes "eng_io (ts_engine (rs_ticket x)) = []"
  shows "repo_stmt env f x = (case f (known_users (ts_engine (rs_ticket x))) (site_repos x) of (r, t) \<Rightarrow>
    (map_sum (\<lambda>bad. PlainError 500 (env_db_message (repo_engine_env env) bad)) id r,
     x\<lparr>rs_ticket := (rs_ticket x)\<lparr>ts_engine := (ts_engine (rs_ticket x))\<lparr>eng_repos := t\<rparr>\<rparr>\<rparr>))"
  using assms by (simp add: repo_stmt_def on_ticket_def on_engine_or_def repo_statement_def next_io_def site_repos_def
      split: prod.split)

lemma query_ok: "eng_io (ts_engine (rs_ticket x)) = [] \<Longrightarrow> repo_query env q x = (Inr (q (site_repos x)), x)"
  by (simp add: repo_query_def repo_stmt_ok site_repos_def)

lemma last_link_removed:
  assumes "users_of i t = [user]"
  shows "fst (remove_for_user user i t)" "users_of i (snd (remove_for_user user i t)) = []"
    "rt_repos (snd (remove_for_user user i t)) = rt_repos t"
proof -
  obtain l where l: "filter (\<lambda>l. ur_repository_id l = i) (rt_links t) = [l]" "ur_user_id l = user"
    using assms by (auto simp: users_of_def map_eq_Cons_conv)
  from l(1) have "l \<in> set (filter (\<lambda>l. ur_repository_id l = i) (rt_links t))" by simp
  with l(2) have "l \<in> set (rt_links t)" "ur_repository_id l = i" "ur_user_id l = user" by auto
  then show "fst (remove_for_user user i t)" by (auto simp: remove_for_user_def links_of_def list_ex_iff)
  have "ur_user_id m = user" if "m \<in> set (rt_links t)" "ur_repository_id m = i" for m
  proof -
    have "ur_user_id m \<in> set (users_of i t)" using that by (auto simp: users_of_def)
    then show ?thesis by (simp add: assms)
  qed
  then show "users_of i (snd (remove_for_user user i t)) = []"
    by (auto simp: users_of_def remove_for_user_def filter_empty_conv)
  show "rt_repos (snd (remove_for_user user i t)) = rt_repos t" by (simp add: remove_for_user_def)
qed

text \<open>
  C22: the last user who has a repository on the dashboard can remove it while an item of somebody else, or of nobody, is
  running on it: only the caller's own items stand in the way, and the directory the other item works in goes.
\<close>
theorem purge_ignores_other_items:
  assumes "eng_io (ts_engine (rs_ticket x)) = []" and "eng_db (ts_engine (rs_ticket x)) \<noteq> None"
    and "re_has_data_dir env" and "repositories_get (site_repos x) i = Some row"
    and "users_of i (site_repos x) = [au_user_id auth]"
    and "(key, other) \<in> set (active_in_snapshots (repo_engine_env env) (rp_name row) (ts_engine (rs_ticket x)))"
    and "list_all (\<lambda>(_, owner). owner \<noteq> au_user_id auth)
      (active_in_snapshots (repo_engine_env env) (rp_name row) (ts_engine (rs_ticket x)))"
  shows "case delete_repository env auth i False x of (r, x') \<Rightarrow>
     r = Inr () \<and> rs_removals x' = rs_removals x @ [rp_local_path row] \<and> repositories_get (site_repos x') i = None"
proof -
  let ?t = "site_repos x" and ?u = "au_user_id auth"
  note link = last_link_removed [OF assms(5)]
  have row: "repositories_get (snd (remove_for_user ?u i ?t)) i = Some row" "rp_id row = i" "row \<in> set (rt_repos ?t)"
    using assms(4) link(3) by (auto simp: repositories_get_def find_Some_iff)
  have active: "repository_has_active_workflow env i x =
      (Inr (active_in_snapshots (repo_engine_env env) (rp_name row) (ts_engine (rs_ticket x))), x)"
    using assms(1,3,4) by (simp add: repository_has_active_workflow_def find_repo_def route_then_def query_ok)
  have "blocking_items False ?u (active_in_snapshots (repo_engine_env env) (rp_name row) (ts_engine (rs_ticket x))) = []"
    using assms(7) by (auto simp: blocking_items_def filter_empty_conv list_all_iff)
  moreover have checked_first: "route_then (refuse_when False 403 ''force_purge requires admin'') (\<lambda>_.
      route_then require_db (\<lambda>_. repository_has_active_workflow env i)) x =
      (Inr (active_in_snapshots (repo_engine_env env) (rp_name row) (ts_engine (rs_ticket x))), x)"
    using assms(2) active by (auto simp: route_then_def refuse_when_def route_result_def require_db_def)
  ultimately have "delete_repository env auth i False x = apfst (map_sum RemovalFailed id)
      (route_then (drop_own_link env ?u i) (\<lambda>_. purge_if_unused env i False) x)"
    by (simp add: delete_repository_def checked_first)
  moreover have "list_ex (\<lambda>r. rp_id r = i) (rt_repos ?t)" using row by (auto simp: list_ex_iff)
  ultimately show ?thesis
    using assms(1) row link
    by (simp add: route_then_def drop_own_link_def purge_if_unused_def repo_stmt_ok refuse_when_def route_result_def
        find_repo_def query_ok site_repos_def case_prod_beta repositories_delete_def remove_dir_def repositories_get_def
        find_None_iff)
qed

definition sample_item_file :: snapshot_file where
  "sample_item_file = \<lparr>sf_version = SNAPSHOT_VERSION, sf_workflows =
     [(workflow_to_persisted_record (sample_item 0 ''T-1'' (AddressingTicket 1)))\<lparr>pr_workspace_name := ''r''\<rparr>]\<rparr>"

definition sample_repo_env :: repo_route_env where
  "sample_repo_env = \<lparr>re_ticket = sample_ticket_env\<lparr>te_engine := sample_env\<lparr>env_snapshot_json := sample_snapshot_json sample_item_file\<rparr>\<rparr>,
     re_new_id = (\<lambda>_. ''2''), re_has_data_dir = True, re_git = (\<lambda>_ d. d), re_remove_dir = (\<lambda>_ d. d), re_lossy = (\<lambda>s. s)\<rparr>"

definition sample_repo_site :: repo_site where
  "sample_repo_site = \<lparr>rs_ticket = sample_site\<lparr>ts_engine := sample_engine
       \<lparr>eng_repos := \<lparr>rt_repos = [sample_repo], rt_links = [\<lparr>ur_user_id = ''u'', ur_repository_id = ''1'', ur_added_at = 0\<rparr>]\<rparr>,
        eng_files := \<lparr>fs_workspaces = [(''r'', Some ''x'')], fs_global = None, fs_legacy = None\<rparr>\<rparr>\<rparr>,
     rs_disk = \<lparr>rd_exists = (\<lambda>_. True), rd_config = (\<lambda>_. None)\<rparr>, rs_cloning = False, rs_removals = []\<rparr>"

lemma purge_ignores_other_items_witness:
  "rs_removals (snd (delete_repository sample_repo_env sample_user ''1'' False sample_repo_site)) = [''/r'']"
proof -
  let ?x = "sample_repo_site" and ?e = "ts_engine (rs_ticket sample_repo_site)"
  have "eng_io ?e = []" "eng_db ?e \<noteq> None" "re_has_data_dir sample_repo_env" "site_repos ?x = \<lparr>rt_repos = [sample_repo],
      rt_links = [\<lparr>ur_user_id = ''u'', ur_repository_id = ''1'', ur_added_at = 0\<rparr>]\<rparr>"
    by (simp_all add: sample_repo_site_def sample_repo_env_def sample_engine_def site_repos_def)
  moreover from this(4) have "repositories_get (site_repos ?x) ''1'' = Some sample_repo"
      "users_of ''1'' (site_repos ?x) = [au_user_id sample_user]"
    by (simp_all add: repositories_get_def sample_repo_def users_of_def sample_user_def)
  moreover have "active_in_snapshots (repo_engine_env sample_repo_env) (rp_name sample_repo) ?e = [(''T-1'', [])]"
    by (simp add: active_in_snapshots_def sample_repo_env_def sample_repo_site_def sample_ticket_env_def sample_env_def
        read_all_workspace_snapshots_def read_entry_def sample_snapshot_json_def sample_item_file_def backfill_workspace_def
        workflow_to_persisted_record_def sample_item_def workflow_new_def is_terminal_def sample_repo_def)
  ultimately show ?thesis
    using purge_ignores_other_items [of ?x sample_repo_env "''1''" sample_repo sample_user "''T-1''" "[]"]
    by (simp add: case_prod_beta sample_user_def sample_repo_def sample_repo_site_def)
qed

subsection \<open>Where a clone comes from and goes to\<close>

definition plain_name :: "string \<Rightarrow> bool" where
  "plain_name s \<longleftrightarrow> s \<noteq> [] \<and> list_all is_valid_segment_char s"

text \<open>A clone of a repository of GitHub to a place under \<open>/workspaces\<close>, or what is run in it afterwards.\<close>

definition clone_process :: "string \<times> string list \<Rightarrow> bool" where
  "clone_process p \<longleftrightarrow>
     (\<exists>owner name base token. plain_name owner \<and> plain_name name \<and> plain_name base \<and>
        p = (let c = clone_command (owner @ ''/'' @ name) (path_join WORKSPACES_DIR base) token in (fst c, fst (snd c)))) \<or>
     (\<exists>base. plain_name base \<and> p = (''git'', [''config'', ''--global'', ''--add'', ''safe.directory'', path_join WORKSPACES_DIR base])) \<or>
     p = (''git'', [''symbolic-ref'', ''refs/remotes/origin/HEAD''])"

definition world_of :: "repo_site \<Rightarrow> jira_world" where
  "world_of x = ts_world (rs_ticket x)"

text \<open>The processes that a step starts are of a kind.\<close>

definition launches :: "(string \<times> string list \<Rightarrow> bool) \<Rightarrow> 'a repo_route \<Rightarrow> bool" where
  "launches P c \<longleftrightarrow> (\<forall>x. \<exists>l. jw_started (world_of (snd (c x))) = jw_started (world_of x) @ l \<and> list_all P l)"

lemma launches_quiet: "(\<And>x. world_of (snd (c x)) = world_of x) \<Longrightarrow> launches P c"
  by (simp add: launches_def)

lemma launches_then: "launches P c \<Longrightarrow> (\<And>v. launches P (f v)) \<Longrightarrow> launches P (route_then c f)"
  unfolding launches_def
proof (intro allI)
  fix x
  assume c: "\<forall>x. \<exists>l. jw_started (world_of (snd (c x))) = jw_started (world_of x) @ l \<and> list_all P l"
    and f: "\<And>v. \<forall>x. \<exists>l. jw_started (world_of (snd (f v x))) = jw_started (world_of x) @ l \<and> list_all P l"
  obtain q y where q: "c x = (q, y)" by fastforce
  obtain l1 where l1: "jw_started (world_of y) = jw_started (world_of x) @ l1" "list_all P l1" using c q by (metis snd_conv)
  show "\<exists>l. jw_started (world_of (snd (route_then c f x))) = jw_started (world_of x) @ l \<and> list_all P l"
  proof (cases q)
    case (Inl e)
    then show ?thesis using q l1 by (auto simp: route_then_def)
  next
    case (Inr v)
    obtain l2 where "jw_started (world_of (snd (f v y))) = jw_started (world_of y) @ l2" "list_all P l2" using f by blast
    then show ?thesis using q l1 Inr by (intro exI [of _ "l1 @ l2"]) (simp add: route_then_def)
  qed
qed

lemma launches_result: "launches P (route_result r)"
  by (rule launches_quiet) (simp add: route_result_def)

lemma launches_reads: "launches P (\<lambda>x. (q x, x))"
  by (rule launches_quiet) simp

lemma launches_stmt: "launches P (repo_stmt env f)"
  by (rule launches_quiet) (simp add: repo_stmt_def on_ticket_def on_engine_or_def world_of_def split: prod.split)

lemma launches_clock: "launches P (read_clock env)"
  by (rule launches_quiet) (simp add: read_clock_def on_ticket_def on_engine_def world_of_def split: prod.split)

lemma launches_vault: "launches P (on_ticket (on_vault f))"
  by (rule launches_quiet) (simp add: on_ticket_def on_vault_def world_of_def split: prod.split)

lemma launches_process: "P (program, args) \<Longrightarrow> launches P (run_on_disk env program args added)"
  by (auto simp: launches_def run_on_disk_def world_of_def start_with_env_def Let_def split: prod.split list.split)

lemmas launches_intros = launches_then launches_result launches_reads launches_stmt launches_clock launches_vault

lemma launches_link: "launches P (link_repo env user i)"
  unfolding link_repo_def case_prod_beta by (intro launches_intros)

lemma launches_query: "launches P (repo_query env q)" "launches P (find_repo env i)"
  by (simp_all add: repo_query_def find_repo_def launches_stmt)

lemma show_nat_alphanumeric: "c \<in> set (show_nat n) \<Longrightarrow> is_ascii_alphanumeric c"
proof (induction n rule: show_nat.induct)
  case (1 n)
  have digit: "is_ascii_alphanumeric (char_of (48 + d))" if "d < 10" for d :: nat
  proof -
    have "list_all (\<lambda>d :: nat. is_ascii_alphanumeric (char_of (48 + d))) [0..<10]" by code_simp
    with that show ?thesis by (simp add: list_all_iff)
  qed
  show ?case
  proof (cases "n < 10")
    case True
    then show ?thesis using "1.prems" digit show_nat.simps [of n] by simp
  next
    case False
    then show ?thesis using 1 digit [of "n mod 10"] show_nat.simps [of n] by auto
  qed
qed

lemma clone_target_plain:
  assumes "plain_name name"
  obtains base where "plain_name base" "pick_clone_target name disk = path_join WORKSPACES_DIR base"
proof -
  have "plain_name (name @ ''-'' @ show_nat n)" for n
    using assms show_nat_alphanumeric by (auto simp: plain_name_def is_valid_segment_char_def list_all_iff)
  then have "\<exists>base. plain_name base \<and> p = path_join WORKSPACES_DIR base" if "p \<in> set (clone_candidates name)" for p
    using that assms unfolding clone_candidates_def list.map set_map list.set by blast
  moreover have "pick_clone_target name disk \<in> set (clone_candidates name) \<or>
      pick_clone_target name disk = path_join WORKSPACES_DIR name"
  proof (cases "List.find (\<lambda>p. \<not> rd_exists disk p) (clone_candidates name)")
    case (Some p)
    then have "p \<in> set (clone_candidates name)" by (auto simp: find_Some_iff)
    then show ?thesis by (simp add: pick_clone_target_def Some)
  qed (simp add: pick_clone_target_def)
  ultimately show ?thesis using that assms by blast
qed

lemma trim_end_prefix: "prefix (trim_end_matches p s) s"
proof (induction p s rule: trim_end_matches.induct)
  case (1 p s)
  show ?case
  proof (cases "p \<noteq> [] \<and> suffix p s")
    case True
    then have "trim_end_matches p s = trim_end_matches p (take (length s - length p) s)"
      by (subst trim_end_matches.simps) simp
    with 1 True show ?thesis by (metis prefix_order.trans take_is_prefix)
  next
    case False
    then have "trim_end_matches p s = s" by (subst trim_end_matches.simps) auto
    then show ?thesis by simp
  qed
qed

lemma valid_names:
  assumes "validate_repo_url url = Inr (owner, name)"
  shows "plain_name owner \<and> plain_name name"
proof -
  from assms obtain full where "owner \<noteq> []" "list_all is_valid_segment_char owner" "list_all is_valid_segment_char full"
      "name = trim_end_matches ''.git'' full" "name \<noteq> []"
    by (auto simp: validate_repo_url_def Let_def split: if_splits option.splits list.splits)
  moreover have "set name \<subseteq> set full" unfolding calculation(4) by (intro set_mono_prefix trim_end_prefix)
  ultimately show ?thesis by (auto simp: plain_name_def list_all_iff)
qed

lemma launches_registered: "launches clone_process (register_clone env user name url target)"
proof -
  have "launches clone_process (read_default_branch env)"
    unfolding read_default_branch_def by (intro launches_then launches_process launches_result) (simp add: clone_process_def)
  then show ?thesis
    unfolding register_clone_def case_prod_beta by (intro launches_intros launches_link launches_query)
qed

lemma launches_clone:
  assumes "plain_name owner" "plain_name name" "plain_name base"
  shows "launches clone_process (do_clone env (owner @ ''/'' @ name) (path_join WORKSPACES_DIR base) user)"
proof -
  let ?c = "clone_command (owner @ ''/'' @ name) (path_join WORKSPACES_DIR base)"
  have kind: "clone_process (fst (?c t), fst (snd (?c t)))" for t
    using assms unfolding clone_process_def Let_def by blast
  have one: "launches clone_process (case ?c t of (program, args, added) \<Rightarrow> route_then (run_on_disk env program args added) f)"
    if "\<And>v. launches clone_process (f v)" for t f
    unfolding case_prod_beta by (intro launches_then launches_process kind that)
  have "clone_process (''git'', [''config'', ''--global'', ''--add'', ''safe.directory'', path_join WORKSPACES_DIR base])"
    using assms by (auto simp: clone_process_def)
  then have after: "launches clone_process (case r of
        Inl m \<Rightarrow> route_result (Inr (Inl m))
      | Inr out \<Rightarrow>
          if co_exit_code out \<noteq> 0 then route_result (Inr (Inl (failed out)))
          else route_then (run_on_disk env ''git'' [''config'', ''--global'', ''--add'', ''safe.directory'', path_join WORKSPACES_DIR base] [])
            (\<lambda>_. route_result (Inr (Inr ()))))" for r :: "string + command_output" and failed
    by (cases r) (simp_all add: launches_then launches_process launches_result)
  show ?thesis
    unfolding do_clone_def clone_token_def
  proof (rule launches_then [OF launches_vault])
    fix token :: "string + string option"
    show "launches clone_process (case token of
       Inl m \<Rightarrow> route_result (Inr (Inl m))
     | Inr t \<Rightarrow>
         (case ?c t of (program, args, added) \<Rightarrow>
          route_then (run_on_disk env program args added) (\<lambda>r. case r of
            Inl m \<Rightarrow> route_result (Inr (Inl m))
          | Inr out \<Rightarrow>
              if co_exit_code out \<noteq> 0
              then route_result (Inr (Inl ((if t = None then ''gh repo clone'' else ''git clone'') @ '' failed: '' @ trim (co_stderr out))))
              else route_then (run_on_disk env ''git'' [''config'', ''--global'', ''--add'', ''safe.directory'', path_join WORKSPACES_DIR base] [])
                (\<lambda>_. route_result (Inr (Inr ()))))))"
      by (cases token) (simp_all only: sum.case launches_result one after)
  qed
qed

lemma launches_target:
  assumes "plain_name name" and "\<And>base. plain_name base \<Longrightarrow> launches P (f (path_join WORKSPACES_DIR base))"
  shows "launches P (route_then (\<lambda>x. (Inr (pick_clone_target name (rs_disk x)), x)) f)"
  unfolding launches_def
proof
  fix x :: repo_site
  obtain base where b: "plain_name base" "pick_clone_target name (rs_disk x) = path_join WORKSPACES_DIR base"
    by (rule clone_target_plain [OF assms(1)])
  show "\<exists>l. jw_started (world_of (snd (route_then (\<lambda>x. (Inr (pick_clone_target name (rs_disk x)), x)) f x))) =
      jw_started (world_of x) @ l \<and> list_all P l"
    using assms(2) [OF b(1)] unfolding launches_def by (simp add: route_then_def b(2))
qed

lemma launches_option:
  "launches P c \<Longrightarrow> (\<And>v. launches P (f v)) \<Longrightarrow> launches P (case q of None \<Rightarrow> c | Some v \<Rightarrow> f v)"
  by (simp split: option.split)

lemma launches_cloned:
  assumes "plain_name owner" "plain_name name"
  shows "launches clone_process (clone_and_add env user owner name)"
proof -
  have cloned: "launches clone_process (route_then (\<lambda>x. (Inr (pick_clone_target name (rs_disk x)), x)) (\<lambda>target.
      route_then (do_clone env (owner @ ''/'' @ name) target user) (\<lambda>done. case done of
        Inl m \<Rightarrow> route_result (Inl (clone_failure env (owner @ ''/'' @ name) m))
      | Inr _ \<Rightarrow> register_clone env user name url target)))" for url
  proof (rule launches_target [OF assms(2)], rule launches_then [OF launches_clone [OF assms]])
    show "launches clone_process (case done of
        Inl m \<Rightarrow> route_result (Inl (clone_failure env (owner @ ''/'' @ name) m))
      | Inr _ \<Rightarrow> register_clone env user name url (path_join WORKSPACES_DIR base))" for "done" :: "string + unit" and base
      by (cases "done") (simp_all add: launches_result launches_registered)
  qed
  have linked: "launches clone_process (route_then (link_repo env user i) (\<lambda>_. route_result r))" for i r
    by (intro launches_then launches_link launches_result)
  show ?thesis
    unfolding clone_and_add_def Let_def
    by (rule launches_then [OF launches_query(1) launches_option [OF cloned linked]])
qed

lemma launches_existing: "launches P (add_existing env user i)"
  unfolding add_existing_def
  by (rule launches_then [OF launches_query(2) launches_option
      [OF launches_result launches_then [OF launches_link launches_result]]])

lemma launches_required: "launches P require_db"
  by (rule launches_quiet) (simp add: require_db_def refuse_when_def route_result_def)


end
